(* ===== verification/Py_Base.thy ===== *)
theory Py_Base
  imports Main "HOL-Library.Sublist"
begin

text \<open>
  Prelude of the development: the exceptions the service raises and catches, the result type
  of code that may raise, the pieces of Python's \<open>str\<close> the validators use, and tables as
  lists of rows with the lookup (\<open>db.get\<close>) and store operations of the ORM session.

  The text of an exception is never inspected by the program (handlers and the rejection codes
  look at the class only), so an exception is modelled by its class; the message of each
  \<open>raise\<close> is kept as a comment beside the branch that models it.

  A character is a code point below 256; strings with other code points are outside the model.
\<close>

section \<open>Exceptions and results\<close>

datatype exn =
    InvalidMutation
  | AuthorizationRejected
  | LifecycleRejected
  | DeliveryExecutionRejected
  | DeliveryInstallationRejected
  | DeliveryProductionRejected
  | PermissionError
  | ValueError
  | TypeError
  | KeyError
  | AttributeError
  | DecimalInvalidOperation
  | DecimalOverflow
  | ValidationError
  | AssertionError
  | IndexError
  | OverflowError
  | StorageError "exn option"
  | StorageDigestMismatch
  | EvidenceBlobTooLarge
  | PublicationConflict
  | PublicationNotFound
  | AssemblyTopologyAssemblyV1BridgeError
  | TopologyDimensionVerificationError
  | RuntimeError
  | SystemExit
  | FileNotFoundError
  | ClientError "nat option" "string option"
  | HTTPException nat
  | DBAPIError "string option"

type_synonym 'a res = "exn + 'a"

named_theorems res_simps \<open>inversion of results: when a sequence of checks returns normally\<close>
named_theorems tbl_simps \<open>lookup after store in tables\<close>

abbreviation raise :: "exn \<Rightarrow> 'a res" where
  "raise e \<equiv> Inl e"

abbreviation ok :: "'a \<Rightarrow> 'a res" where
  "ok x \<equiv> Inr x"

definition ebind :: "'a res \<Rightarrow> ('a \<Rightarrow> 'b res) \<Rightarrow> 'b res" where
  "ebind m f = (case m of Inl e \<Rightarrow> Inl e | Inr x \<Rightarrow> f x)"

definition seq :: "unit res \<Rightarrow> 'b res \<Rightarrow> 'b res" where
  "seq m n = ebind m (\<lambda>_. n)"

definition guard :: "bool \<Rightarrow> exn \<Rightarrow> unit res" where
  "guard c e = (if c then raise e else ok ())"

text \<open>\<open>for x in xs: body(x)\<close>, where the body may raise and has no other effect.\<close>

fun for_each :: "('a \<Rightarrow> unit res) \<Rightarrow> 'a list \<Rightarrow> unit res" where
  "for_each f [] = ok ()"
| "for_each f (x # xs) = seq (f x) (for_each f xs)"

text \<open>\<open>except (classes): raise e\<close>.\<close>

definition rethrow :: "exn list \<Rightarrow> exn \<Rightarrow> 'a res \<Rightarrow> 'a res" where
  "rethrow es e m = (case m of Inl x \<Rightarrow> (if x \<in> set es then Inl e else Inl x) | Inr y \<Rightarrow> Inr y)"

lemma ebind_simps [simp]: "ebind (Inl e) f = Inl e" "ebind (Inr x) f = f x"
  by (simp_all add: ebind_def)

lemma seq_simps [simp]: "seq (Inl e) n = Inl e" "seq (Inr u) n = n"
  by (simp_all add: seq_def)

lemma guard_simps [simp]: "guard True e = Inl e" "guard False e = Inr ()"
  by (simp_all add: guard_def)

lemma ebind_ok [res_simps]: "ebind m f = Inr y \<longleftrightarrow> (\<exists>x. m = Inr x \<and> f x = Inr y)"
  by (cases m) auto

lemma seq_ok [res_simps]: "seq m n = Inr y \<longleftrightarrow> m = Inr () \<and> n = Inr y"
  by (cases m) auto

lemma guard_ok [res_simps]: "guard c e = Inr u \<longleftrightarrow> \<not> c"
  by (simp add: guard_def)

lemma if_raise_ok [res_simps]: "(if c then Inl e else m) = Inr y \<longleftrightarrow> \<not> c \<and> m = Inr y"
  by simp

lemma if_check_ok [res_simps]: "(if c then m else Inr ()) = Inr () \<longleftrightarrow> (c \<longrightarrow> m = Inr ())"
  by simp

lemma option_case_ok [res_simps]:
  "(case x of None \<Rightarrow> Inl e | Some y \<Rightarrow> f y) = Inr z \<longleftrightarrow> (\<exists>y. x = Some y \<and> f y = Inr z)"
  by (cases x) auto

lemma option_check_ok [res_simps]:
  "(case x of None \<Rightarrow> Inr () | Some y \<Rightarrow> f y) = Inr () \<longleftrightarrow> (\<forall>y. x = Some y \<longrightarrow> f y = Inr ())"
  by (cases x) auto

lemma rethrow_ok [res_simps]: "rethrow es e m = Inr y \<longleftrightarrow> m = Inr y"
  by (cases m) (auto simp: rethrow_def)

lemma for_each_ok [res_simps]: "for_each f xs = Inr u \<longleftrightarrow> (\<forall>x \<in> set xs. f x = Inr ())"
  by (induction xs) (auto simp: seq_ok)

lemma ebind_assoc: "ebind (ebind m f) g = ebind m (\<lambda>x. ebind (f x) g)"
  by (cases m) auto

lemma ebind_raise: "ebind m f = Inl e \<longleftrightarrow> m = Inl e \<or> (\<exists>x. m = Inr x \<and> f x = Inl e)"
  by (cases m) auto

section \<open>Python strings\<close>

text \<open>
  \<open>str.isspace\<close> for the code points below 256: tab to carriage return, the four separators
  28 to 31, space, next line (133) and the no-break space (160).
\<close>

definition py_isspace :: "char \<Rightarrow> bool" where
  "py_isspace c \<longleftrightarrow> (let n = of_char c :: nat in
     9 \<le> n \<and> n \<le> 13 \<or> 28 \<le> n \<and> n \<le> 32 \<or> n = 133 \<or> n = 160)"

definition py_strip :: "string \<Rightarrow> string" where
  "py_strip s = rev (dropWhile py_isspace (rev (dropWhile py_isspace s)))"

lemma dropWhile_rev_dropWhile_idem:
  "dropWhile P (rev (dropWhile P (rev (dropWhile P s)))) = rev (dropWhile P (rev (dropWhile P s)))"
proof (cases "rev (dropWhile P (rev (dropWhile P s)))")
  case Nil
  then show ?thesis by (simp only: dropWhile.simps)
next
  case (Cons c cs)
  let ?t = "dropWhile P s"
  have pre: "prefix (rev (dropWhile P (rev ?t))) ?t"
    by (metis suffix_dropWhile suffix_to_prefix rev_rev_ident)
  with Cons obtain r where "?t = c # cs @ r"
    by (auto simp: prefix_def)
  then have "\<not> P c"
    by (metis hd_dropWhile list.distinct(1) list.sel(1))
  with Cons show ?thesis by simp
qed

lemma py_strip_idem [simp]: "py_strip (py_strip s) = py_strip s"
  by (simp add: py_strip_def dropWhile_rev_dropWhile_idem)

text \<open>\<open>str.lower\<close> on the same code points.\<close>

definition lower_latin :: "char \<Rightarrow> char" where
  "lower_latin c = (let n = (of_char c :: nat) in
     if 65 \<le> n \<and> n \<le> 90 \<or> 192 \<le> n \<and> n \<le> 222 \<and> n \<noteq> 215 then char_of (n + 32) else c)"

definition py_lower :: "string \<Rightarrow> string" where
  "py_lower s = map lower_latin s"

section \<open>Tables\<close>

text \<open>
  A table is the list of its rows in insertion order. \<open>db.get(Model, key)\<close> is
  \<open>get_row\<close>; \<open>db.add(row)\<close> of a new key and attribute assignment on a loaded row
  are both \<open>put_row\<close>: it replaces the row with the same primary key or appends.
\<close>

fun get_row :: "('r \<Rightarrow> 'k) \<Rightarrow> 'k \<Rightarrow> 'r list \<Rightarrow> 'r option" where
  "get_row key k [] = None"
| "get_row key k (r # rs) = (if key r = k then Some r else get_row key k rs)"

fun put_row :: "('r \<Rightarrow> 'k) \<Rightarrow> 'r \<Rightarrow> 'r list \<Rightarrow> 'r list" where
  "put_row key r [] = [r]"
| "put_row key r (x # xs) = (if key x = key r then r # xs else x # put_row key r xs)"

definition keys_ok :: "('r \<Rightarrow> 'k) \<Rightarrow> 'r list \<Rightarrow> bool" where
  "keys_ok key rows \<longleftrightarrow> distinct (map key rows)"

text \<open>
  The contract of the session towards its clients: what a lookup sees after a store, and that
  stores keep primary keys unique.
\<close>

locale keyed_table =
  fixes key :: "'r \<Rightarrow> 'k"
    and look :: "'k \<Rightarrow> 'r list \<Rightarrow> 'r option"
    and store :: "'r \<Rightarrow> 'r list \<Rightarrow> 'r list"
    and wf :: "'r list \<Rightarrow> bool"
  assumes look_store: "look k (store r rows) = (if k = key r then Some r else look k rows)"
    and look_key: "look k rows = Some r \<Longrightarrow> key r = k \<and> r \<in> set rows"
    and look_mem: "wf rows \<Longrightarrow> r \<in> set rows \<Longrightarrow> look (key r) rows = Some r"
    and wf_empty: "wf []"
    and wf_store: "wf rows \<Longrightarrow> wf (store r rows)"
begin

lemma look_store_same: "look (key r) (store r rows) = Some r"
  by (simp add: look_store)

lemma look_store_other: "k \<noteq> key r \<Longrightarrow> look k (store r rows) = look k rows"
  by (simp add: look_store)

lemma store_exists: "look k rows = Some x \<Longrightarrow> \<exists>y. look k (store r rows) = Some y"
  by (simp add: look_store)

lemma mem_store_iff:
  assumes "wf rows"
  shows "x \<in> set (store r rows) \<longleftrightarrow> x = r \<or> (x \<in> set rows \<and> key x \<noteq> key r)"
proof
  assume x: "x \<in> set (store r rows)"
  then have "look (key x) (store r rows) = Some x"
    using assms by (blast intro: look_mem wf_store)
  then show "x = r \<or> (x \<in> set rows \<and> key x \<noteq> key r)"
    by (auto simp: look_store dest: look_key split: if_splits)
next
  assume "x = r \<or> (x \<in> set rows \<and> key x \<noteq> key r)"
  then have "look (key x) (store r rows) = Some x"
    using assms by (auto simp: look_store dest: look_mem)
  then show "x \<in> set (store r rows)" by (blast dest: look_key)
qed

end

lemma get_row_put_row: "get_row key k (put_row key r rows) = (if k = key r then Some r else get_row key k rows)"
  by (induction rows) auto

lemma get_row_SomeD: "get_row key k rows = Some r \<Longrightarrow> key r = k \<and> r \<in> set rows"
  by (induction rows) (auto split: if_splits)

lemma get_row_mem: "keys_ok key rows \<Longrightarrow> r \<in> set rows \<Longrightarrow> get_row key (key r) rows = Some r"
  by (induction rows) (auto simp: keys_ok_def image_iff)

lemma set_map_put_row: "set (map key (put_row key r rows)) = insert (key r) (set (map key rows))"
  by (induction rows) auto

lemma keys_ok_put_row: "keys_ok key rows \<Longrightarrow> keys_ok key (put_row key r rows)"
proof (induction rows)
  case Nil
  then show ?case by (simp add: keys_ok_def)
next
  case (Cons x rows)
  then show ?case
    using set_map_put_row [of key r rows] by (auto simp: keys_ok_def)
qed

lemma keys_ok_Nil [simp]: "keys_ok key []"
  by (simp add: keys_ok_def)

text \<open>Row lists satisfy the contract, for every key function.\<close>

interpretation rows: keyed_table key "get_row key" "put_row key" "keys_ok key"
  for key :: "'r \<Rightarrow> 'k"
  by unfold_locales (auto simp: get_row_put_row dest: get_row_SomeD get_row_mem intro: keys_ok_put_row)

lemmas [tbl_simps] = rows.look_store rows.look_store_same rows.look_store_other

lemma get_row_None: "get_row key k rows = None \<longleftrightarrow> k \<notin> key ` set rows"
  by (induction rows) auto

end
