(* ===== verification/Py_Json.thy ===== *)
theory Py_Json
  imports Py_Base Complex_Main
begin

text \<open>
  JSON values as \<open>json.loads\<close> returns them, with the operations of Python the validators
  apply to them: \<open>dict.get\<close>, \<open>==\<close>, truth value, hashability and membership in a
  set of strings, and the \<open>_normalized\<close> helper each validator module repeats.
\<close>

section \<open>Values\<close>

text \<open>
  A finite float carries its exact value (which \<open>==\<close> compares) and the text that
  \<open>str\<close> gives for it (which \<open>Decimal(str(x))\<close> parses).
\<close>

datatype pyfloat = Finite rat string | Infinite bool | NotANumber

datatype json =
    JNull
  | JBool bool
  | JInt int
  | JFloat pyfloat
  | JStr string
  | JList "json list"
  | JObj "(string \<times> json) list"

type_synonym dict = "(string \<times> json) list"

section \<open>Equality\<close>

datatype num = NFin rat | NInf bool

fun num_of :: "json \<Rightarrow> num option" where
  "num_of (JBool b) = Some (NFin (if b then 1 else 0))"
| "num_of (JInt n) = Some (NFin (of_int n))"
| "num_of (JFloat (Finite r s)) = Some (NFin r)"
| "num_of (JFloat (Infinite neg)) = Some (NInf neg)"
| "num_of _ = None"

text \<open>
  \<open>x == y\<close>: booleans, ints and floats compare by value (\<open>True == 1 == 1.0\<close>), a NaN
  equals nothing, lists compare elementwise, dicts as sets of key/value pairs.
\<close>

fun py_eq :: "json \<Rightarrow> json \<Rightarrow> bool"
and py_eq_list :: "json list \<Rightarrow> json list \<Rightarrow> bool"
and py_eq_items :: "dict \<Rightarrow> dict \<Rightarrow> bool" where
  "py_eq JNull y = (y = JNull)"
| "py_eq (JStr s) y = (y = JStr s)"
| "py_eq (JList xs) y = (case y of JList ys \<Rightarrow> py_eq_list xs ys | _ \<Rightarrow> False)"
| "py_eq (JObj d) y = (case y of JObj e \<Rightarrow> length d = length e \<and> py_eq_items d e | _ \<Rightarrow> False)"
| "py_eq (JBool b) y = (num_of y = num_of (JBool b))"
| "py_eq (JInt n) y = (num_of y = num_of (JInt n))"
| "py_eq (JFloat f) y = (num_of (JFloat f) \<noteq> None \<and> num_of y = num_of (JFloat f))"
| "py_eq_list [] ys = (ys = [])"
| "py_eq_list (x # xs) ys = (case ys of [] \<Rightarrow> False | y # ys' \<Rightarrow> py_eq x y \<and> py_eq_list xs ys')"
| "py_eq_items [] e = True"
| "py_eq_items ((k, v) # d) e =
     (case map_of e k of None \<Rightarrow> False | Some w \<Rightarrow> py_eq v w \<and> py_eq_items d e)"

lemma py_eq_list_all2: "py_eq_list xs ys \<longleftrightarrow> list_all2 py_eq xs ys"
  by (induction xs arbitrary: ys) (auto split: list.splits simp: list_all2_Cons1)

lemma py_eq_items_iff:
  "py_eq_items d e \<longleftrightarrow> (\<forall>(k, v) \<in> set d. \<exists>w. map_of e k = Some w \<and> py_eq v w)"
  by (induction d) (auto split: option.splits)

lemma py_eq_JStr [simp]: "py_eq x (JStr s) \<longleftrightarrow> x = JStr s"
  by (cases x) auto

lemma py_eq_JNull [simp]: "py_eq x JNull \<longleftrightarrow> x = JNull"
  by (cases x) auto

text \<open>Values without NaN whose objects have distinct keys, at every level.\<close>

fun json_wf :: "json \<Rightarrow> bool" where
  "json_wf (JFloat f) = (f \<noteq> NotANumber)"
| "json_wf (JList xs) = list_all json_wf xs"
| "json_wf (JObj d) = (distinct (map fst d) \<and> list_all (\<lambda>kv. json_wf (snd kv)) d)"
| "json_wf _ = True"

lemma py_eq_refl: "json_wf x \<Longrightarrow> py_eq x x"
proof (induction x)
  case (JFloat f)
  then show ?case by (cases f) auto
next
  case (JList xs)
  then show ?case
    by (auto simp: py_eq_list_all2 list_all_iff list_all2_conv_all_nth)
next
  case (JObj d)
  then have "\<And>k v. (k, v) \<in> set d \<Longrightarrow> py_eq v v"
    by (fastforce simp: list_all_iff)
  with JObj.prems show ?case
    by (auto simp: py_eq_items_iff map_of_eq_Some_iff)
qed auto

section \<open>Dictionaries\<close>

definition dget :: "dict \<Rightarrow> string \<Rightarrow> json" where
  "dget d k = (case map_of d k of None \<Rightarrow> JNull | Some v \<Rightarrow> v)"

definition dget_default :: "dict \<Rightarrow> string \<Rightarrow> json \<Rightarrow> json" where
  "dget_default d k dflt = (case map_of d k of None \<Rightarrow> dflt | Some v \<Rightarrow> v)"

definition dhas :: "dict \<Rightarrow> string \<Rightarrow> bool" where
  "dhas d k = (map_of d k \<noteq> None)"

fun as_dict :: "json \<Rightarrow> dict option" where
  "as_dict (JObj d) = Some d"
| "as_dict _ = None"

fun as_list :: "json \<Rightarrow> json list option" where
  "as_list (JList xs) = Some xs"
| "as_list _ = None"

fun is_dict :: "json \<Rightarrow> bool" where
  "is_dict (JObj d) = True"
| "is_dict _ = False"

text \<open>The dictionary of an object; empty for any other value.\<close>

fun the_dict :: "json \<Rightarrow> dict" where
  "the_dict (JObj d) = d"
| "the_dict _ = []"

lemma as_dict_Some [simp]: "as_dict j = Some d \<longleftrightarrow> j = JObj d"
  by (cases j) auto

lemma as_list_Some [simp]: "as_list j = Some xs \<longleftrightarrow> j = JList xs"
  by (cases j) auto

lemma is_dict_iff: "is_dict j \<longleftrightarrow> j = JObj (the_dict j)"
  by (cases j) auto

lemma map_JObj_inj [simp]: "map JObj xs = map JObj ys \<longleftrightarrow> xs = ys"
  by (simp add: inj_map_eq_map inj_def)

lemma map_JObj_the_dict: "list_all is_dict xs \<Longrightarrow> map JObj (map the_dict xs) = xs"
  by (induction xs) (auto simp: is_dict_iff)

text \<open>\<open>all(isinstance(x, dict) for x in xs)\<close>, with the dictionaries.\<close>

definition as_dicts :: "json list \<Rightarrow> dict list option" where
  "as_dicts xs = (if list_all is_dict xs then Some (map the_dict xs) else None)"

lemma as_dicts_Some [simp]: "as_dicts xs = Some ds \<longleftrightarrow> xs = map JObj ds"
proof
  assume "as_dicts xs = Some ds"
  then show "xs = map JObj ds"
    using map_JObj_the_dict [of xs] by (auto simp: as_dicts_def split: if_splits)
next
  assume "xs = map JObj ds"
  then show "as_dicts xs = Some ds"
    by (simp add: as_dicts_def list_all_iff comp_def)
qed

lemma as_dicts_None [simp]: "as_dicts xs = None \<longleftrightarrow> \<not> (\<exists>ds. xs = map JObj ds)"
  by (metis as_dicts_Some not_None_eq)

lemma dget_Cons [simp]: "dget ((k, v) # d) k' = (if k = k' then v else dget d k')"
  by (simp add: dget_def)

lemma dget_Nil [simp]: "dget [] k = JNull"
  by (simp add: dget_def)

lemma py_eq_items_JStr:
  assumes "py_eq_items d e" and "dget d k = JStr s"
  shows "dget e k = JStr s"
proof -
  from assms(2) have "map_of d k = Some (JStr s)"
    by (simp add: dget_def split: option.splits)
  then have "(k, JStr s) \<in> set d" by (rule map_of_SomeD)
  with assms(1) obtain w where "map_of e k = Some w" "py_eq (JStr s) w"
    by (auto simp: py_eq_items_iff)
  then show ?thesis by (simp add: dget_def)
qed

section \<open>Truth, hashing, membership\<close>

fun py_truthy :: "json \<Rightarrow> bool" where
  "py_truthy JNull = False"
| "py_truthy (JBool b) = b"
| "py_truthy (JInt n) = (n \<noteq> 0)"
| "py_truthy (JFloat (Finite r s)) = (r \<noteq> 0)"
| "py_truthy (JFloat _) = True"
| "py_truthy (JStr s) = (s \<noteq> [])"
| "py_truthy (JList xs) = (xs \<noteq> [])"
| "py_truthy (JObj d) = (d \<noteq> [])"

fun hashable :: "json \<Rightarrow> bool" where
  "hashable (JList _) = False"
| "hashable (JObj _) = False"
| "hashable _ = True"

text \<open>
  \<open>v in {"a", ...}\<close> hashes \<open>v\<close> first: a list or a dict raises \<open>TypeError\<close>.
  \<open>v in ("a", ...)\<close>, on a tuple, only compares.
\<close>

definition in_tuple :: "json \<Rightarrow> string list \<Rightarrow> bool" where
  "in_tuple v ss = (case v of JStr s \<Rightarrow> s \<in> set ss | _ \<Rightarrow> False)"

definition in_strset :: "json \<Rightarrow> string list \<Rightarrow> bool res" where
  "in_strset v ss = (if hashable v then ok (in_tuple v ss) else raise TypeError)"

lemma in_tuple_iff: "in_tuple v ss \<longleftrightarrow> (\<exists>s \<in> set ss. v = JStr s)"
  by (cases v) (auto simp: in_tuple_def)

lemma in_tuple_JStr [simp]: "in_tuple (JStr s) ss \<longleftrightarrow> s \<in> set ss"
  by (simp add: in_tuple_def)

lemma in_strset_ok [res_simps]: "in_strset v ss = Inr b \<longleftrightarrow> hashable v \<and> b = in_tuple v ss"
  by (auto simp: in_strset_def)

lemma in_strset_JStr [simp]: "in_strset (JStr s) ss = Inr (s \<in> set ss)"
  by (simp add: in_strset_def)

text \<open>A branch on \<open>isinstance(v, str)\<close> that raises otherwise.\<close>

lemma str_case_ok [res_simps]:
  "(case v of JStr s \<Rightarrow> f s | _ \<Rightarrow> Inl e) = Inr y \<longleftrightarrow> (\<exists>s. v = JStr s \<and> f s = Inr y)"
  by (cases v) auto

text \<open>\<open>d.get(k) or []\<close>\<close>

definition get_or_nil :: "dict \<Rightarrow> string \<Rightarrow> json" where
  "get_or_nil d k = (if py_truthy (dget d k) then dget d k else JList [])"

lemma get_or_nil_JList [simp]: "dget d k = JList xs \<Longrightarrow> get_or_nil d k = JList xs"
  by (simp add: get_or_nil_def)

section \<open>Helpers repeated by the validator modules\<close>

fun normalized :: "json \<Rightarrow> string option" where
  "normalized (JStr s) = (let t = py_strip s in if t = [] then None else Some t)"
| "normalized _ = None"

lemma normalized_Some: "normalized j = Some t \<longleftrightarrow> (\<exists>s. j = JStr s \<and> t = py_strip s \<and> t \<noteq> [])"
  by (cases j) (auto simp: Let_def)

text \<open>\<open>_normalized(x) or ""\<close>\<close>

definition norm_or_empty :: "json \<Rightarrow> string" where
  "norm_or_empty j = (case normalized j of None \<Rightarrow> [] | Some t \<Rightarrow> t)"

text \<open>\<open>isinstance(x, int) and not isinstance(x, bool)\<close>, with the value.\<close>

fun strict_int :: "json \<Rightarrow> int option" where
  "strict_int (JInt n) = Some n"
| "strict_int _ = None"

text \<open>\<open>isinstance(x, int)\<close>: \<open>bool\<close> is a subclass of \<open>int\<close>.\<close>

fun any_int :: "json \<Rightarrow> int option" where
  "any_int (JInt n) = Some n"
| "any_int (JBool b) = Some (if b then 1 else 0)"
| "any_int _ = None"

lemma strict_int_Some [simp]: "strict_int j = Some n \<longleftrightarrow> j = JInt n"
  by (cases j) auto

lemma py_eq_JInt_JInt [simp]: "py_eq (JInt m) (JInt n) \<longleftrightarrow> m = n"
  by auto

text \<open>The ids of a list of dicts, as the duplicate checks collect them in \<open>seen\<close>.\<close>

fun unique_ids :: "exn \<Rightarrow> string \<Rightarrow> dict list \<Rightarrow> string list \<Rightarrow> unit res" where
  "unique_ids e k [] seen = ok ()"
| "unique_ids e k (ev # evs) seen =
     (case normalized (dget ev k) of
        None \<Rightarrow> raise e
      | Some i \<Rightarrow> if i \<in> set seen then raise e else unique_ids e k evs (i # seen))"

definition event_kind :: "dict \<Rightarrow> string" where
  "event_kind event = (case dget event ''kind'' of JStr k \<Rightarrow> k | _ \<Rightarrow> [])"

lemma event_kind_JStr [simp]: "dget event ''kind'' = JStr k \<Longrightarrow> event_kind event = k"
  by (simp add: event_kind_def)

definition id_of :: "string \<Rightarrow> dict \<Rightarrow> string option" where
  "id_of k ev = normalized (dget ev k)"

lemma unique_ids_ok_aux:
  "unique_ids e k evs seen = Inr u \<longleftrightarrow>
     None \<notin> set (map (id_of k) evs) \<and> distinct (map (id_of k) evs)
     \<and> set (map (id_of k) evs) \<inter> Some ` set seen = {}"
  by (induction evs arbitrary: seen) (auto simp: id_of_def split: option.splits)

lemma unique_ids_ok [res_simps]:
  "unique_ids e k evs [] = Inr u \<longleftrightarrow>
     None \<notin> set (map (id_of k) evs) \<and> distinct (map (id_of k) evs)"
  by (simp add: unique_ids_ok_aux)


text \<open>A revision field: an \<open>int\<close>, not a \<open>bool\<close>, at least one.\<close>

definition require_revision :: "exn \<Rightarrow> json \<Rightarrow> int res" where
  "require_revision e j =
     (case strict_int j of None \<Rightarrow> raise e | Some n \<Rightarrow> if n < 1 then raise e else ok n)"

lemma require_revision_ok [res_simps]: "require_revision e j = Inr n \<longleftrightarrow> j = JInt n \<and> 1 \<le> n"
  by (auto simp: require_revision_def res_simps)

text \<open>\<open>note is None or isinstance(note, str)\<close>\<close>

fun note_ok :: "json \<Rightarrow> bool" where
  "note_ok JNull = True"
| "note_ok (JStr _) = True"
| "note_ok _ = False"

text \<open>\<open>==\<close> between two values that are each a dict or \<open>None\<close>.\<close>

fun opt_eq :: "dict option \<Rightarrow> dict option \<Rightarrow> bool" where
  "opt_eq None None = True"
| "opt_eq (Some d) (Some e) = py_eq (JObj d) (JObj e)"
| "opt_eq _ _ = False"

text \<open>\<open>plan["revision"]\<close> of a plan whose revision has been validated.\<close>

definition revision_of :: "dict \<Rightarrow> int" where
  "revision_of d = (case strict_int (dget d ''revision'') of Some n \<Rightarrow> n | None \<Rightarrow> 0)"

text \<open>\<open>1 if current is None else current["revision"] + 1\<close>\<close>

definition next_revision_after :: "dict option \<Rightarrow> int" where
  "next_revision_after current = (case current of None \<Rightarrow> 1 | Some c \<Rightarrow> revision_of c + 1)"

lemma revision_of_JInt [simp]: "dget d ''revision'' = JInt n \<Longrightarrow> revision_of d = n"
  by (simp add: revision_of_def)

lemma py_eq_JInt_right [simp]: "py_eq (JInt n) (JInt m) \<longleftrightarrow> n = m"
  by auto

end
