(* ===== verification/Py_Decimal.thy ===== *)
theory Py_Decimal
  imports Py_Json
begin

text \<open>
  The part of Python's \<open>decimal\<close> module the delivery validators use: \<open>Decimal(str(x))\<close>,
  \<open>+\<close> in the default context (28 digits, round half even, traps on invalid operation and
  overflow), equality and ordering, where an ordering with a NaN and any operation with a
  signalling NaN raises \<open>InvalidOperation\<close>.
\<close>

section \<open>Numbers\<close>

text \<open>\<open>Dec c e\<close> is \<open>c * 10 ^ e\<close>.\<close>

datatype decimal = Dec int int | DInf bool | DNaN | DsNaN

fun ndigits :: "nat \<Rightarrow> nat" where
  "ndigits n = (if n < 10 then 1 else Suc (ndigits (n div 10)))"

declare ndigits.simps [simp del]

definition dec_value :: "int \<Rightarrow> int \<Rightarrow> rat" where
  "dec_value c e = (if 0 \<le> e then of_int (c * 10 ^ nat e) else of_int c / of_int (10 ^ nat (- e)))"

section \<open>Conversion from text\<close>

text \<open>
  \<open>Decimal(text)\<close>: surrounding white space is stripped and underscores are dropped; then an
  optional sign and either \<open>inf\<close>, \<open>infinity\<close>, \<open>nan\<close> or \<open>snan\<close> (any case, a NaN with
  optional digits) or digits with at most one point and an optional exponent.
\<close>

definition lower_char :: "char \<Rightarrow> char" where
  "lower_char c = (let n = of_char c :: nat in if 65 \<le> n \<and> n \<le> 90 then char_of (n + 32) else c)"

definition is_digit :: "char \<Rightarrow> bool" where
  "is_digit c \<longleftrightarrow> (let n = of_char c :: nat in 48 \<le> n \<and> n \<le> 57)"

definition digits_val :: "string \<Rightarrow> int" where
  "digits_val s = foldl (\<lambda>a c. a * 10 + (int (of_char c) - 48)) 0 s"

fun take_sign :: "string \<Rightarrow> int \<times> string" where
  "take_sign (c # cs) = (if c = CHR ''-'' then (-1, cs) else if c = CHR ''+'' then (1, cs) else (1, c # cs))"
| "take_sign [] = (1, [])"

definition max_emax :: int where "max_emax = 999999999999999999"

definition min_etiny :: int where "min_etiny = - 1999999999999999997"

text \<open>The exact conversion fails where the exponent does not fit the widest context.\<close>

definition exact_decimal :: "int \<Rightarrow> int \<Rightarrow> decimal option" where
  "exact_decimal c e =
     (if e < min_etiny \<or> e + int (ndigits (nat \<bar>c\<bar>)) - 1 > max_emax then None else Some (Dec c e))"

definition parse_exponent :: "string \<Rightarrow> int option" where
  "parse_exponent s = (case s of
      [] \<Rightarrow> Some 0
    | c # cs \<Rightarrow> if lower_char c \<noteq> CHR ''e'' then None else
        (let (sg, ds) = take_sign cs in
         if ds = [] \<or> \<not> list_all is_digit ds then None else Some (sg * digits_val ds)))"

definition parse_number :: "string \<Rightarrow> (int \<times> int) option" where
  "parse_number s =
     (let ip = takeWhile is_digit s; r = dropWhile is_digit s;
          (fp, r') = (case r of
             c # cs \<Rightarrow> if c = CHR ''.'' then (takeWhile is_digit cs, dropWhile is_digit cs) else ([], r)
           | [] \<Rightarrow> ([], []))
      in if ip @ fp = [] then None else
         (case parse_exponent r' of
            None \<Rightarrow> None
          | Some x \<Rightarrow> Some (digits_val (ip @ fp), x - int (length fp))))"

definition decimal_of_string :: "string \<Rightarrow> decimal option" where
  "decimal_of_string text =
     (let s = filter (\<lambda>c. c \<noteq> CHR ''_'') (py_strip text);
          (sg, body) = take_sign s;
          low = map lower_char body
      in if low = ''inf'' \<or> low = ''infinity'' then Some (DInf (sg = -1))
         else if take 3 low = ''nan'' \<and> list_all is_digit (drop 3 low) then Some DNaN
         else if take 4 low = ''snan'' \<and> list_all is_digit (drop 4 low) then Some DsNaN
         else (case parse_number body of
             None \<Rightarrow> None
           | Some (c, e) \<Rightarrow> exact_decimal (sg * c) e))"

text \<open>
  \<open>Decimal(str(value))\<close> for a JSON value; the text of a list or an object starts with a
  bracket or a brace and never parses.
\<close>

fun decimal_of_json :: "json \<Rightarrow> decimal option" where
  "decimal_of_json (JInt n) = Some (Dec n 0)"
| "decimal_of_json (JStr s) = decimal_of_string s"
| "decimal_of_json (JFloat (Finite r s)) = decimal_of_string s"
| "decimal_of_json (JFloat (Infinite neg)) = Some (DInf neg)"
| "decimal_of_json (JFloat NotANumber) = Some DNaN"
| "decimal_of_json _ = None"

section \<open>Arithmetic\<close>

definition dec_prec :: nat where "dec_prec = 28"

definition dec_emax :: int where "dec_emax = 999999"

definition dec_etiny :: int where "dec_etiny = - 1000026"

text \<open>Drop \<open>k\<close> decimal digits, rounding half to even.\<close>

definition round_half_even :: "int \<Rightarrow> nat \<Rightarrow> int" where
  "round_half_even c k =
     (let p = (10::int) ^ k; q = \<bar>c\<bar> div p; r = \<bar>c\<bar> mod p;
          q' = (if 2 * r > p \<or> (2 * r = p \<and> odd q) then q + 1 else q)
      in sgn c * q')"

definition dec_fix :: "int \<Rightarrow> int \<Rightarrow> decimal res" where
  "dec_fix c e =
     (let e' = max (e + int (ndigits (nat \<bar>c\<bar>)) - int dec_prec) dec_etiny;
          (c2, e2) = (if e < e' then (round_half_even c (nat (e' - e)), e') else (c, e))
      in if c2 \<noteq> 0 \<and> e2 + int (ndigits (nat \<bar>c2\<bar>)) - 1 > dec_emax then raise DecimalOverflow
         else ok (Dec c2 e2))"

fun dec_add :: "decimal \<Rightarrow> decimal \<Rightarrow> decimal res" where
  "dec_add DsNaN _ = raise DecimalInvalidOperation"
| "dec_add _ DsNaN = raise DecimalInvalidOperation"
| "dec_add DNaN _ = ok DNaN"
| "dec_add _ DNaN = ok DNaN"
| "dec_add (DInf a) (DInf b) = (if a = b then ok (DInf a) else raise DecimalInvalidOperation)"
| "dec_add (DInf a) _ = ok (DInf a)"
| "dec_add _ (DInf b) = ok (DInf b)"
| "dec_add (Dec c1 e1) (Dec c2 e2) =
     (let e = min e1 e2 in dec_fix (c1 * 10 ^ nat (e1 - e) + c2 * 10 ^ nat (e2 - e)) e)"

section \<open>Comparison\<close>

text \<open>\<open>a < b\<close> and \<open>a == b\<close> on the values; only the ordering looks at quiet NaNs.\<close>

fun dec_lt_val :: "decimal \<Rightarrow> decimal \<Rightarrow> bool" where
  "dec_lt_val (DInf neg) b = (neg \<and> b \<noteq> DInf True)"
| "dec_lt_val a (DInf neg) = (\<not> neg)"
| "dec_lt_val (Dec c1 e1) (Dec c2 e2) = (dec_value c1 e1 < dec_value c2 e2)"
| "dec_lt_val _ _ = False"

fun is_nan :: "decimal \<Rightarrow> bool" where
  "is_nan DNaN = True"
| "is_nan DsNaN = True"
| "is_nan _ = False"

definition dec_less :: "decimal \<Rightarrow> decimal \<Rightarrow> bool res" where
  "dec_less a b = (if is_nan a \<or> is_nan b then raise DecimalInvalidOperation else ok (dec_lt_val a b))"

definition dec_eq :: "decimal \<Rightarrow> decimal \<Rightarrow> bool res" where
  "dec_eq a b =
     (if a = DsNaN \<or> b = DsNaN then raise DecimalInvalidOperation
      else ok (case (a, b) of
          (Dec c1 e1, Dec c2 e2) \<Rightarrow> dec_value c1 e1 = dec_value c2 e2
        | (DInf x, DInf y) \<Rightarrow> x = y
        | _ \<Rightarrow> False))"

definition dec_zero :: decimal where "dec_zero = Dec 0 0"

text \<open>\<open>a <= b\<close> is \<open>not (b < a)\<close> once neither is a NaN.\<close>

definition dec_less_eq :: "decimal \<Rightarrow> decimal \<Rightarrow> bool res" where
  "dec_less_eq a b = ebind (dec_less b a) (\<lambda>lt. ok (\<not> lt))"

section \<open>Facts\<close>

lemma ndigits_bound: "n < 10 ^ ndigits n"
proof (induction n rule: ndigits.induct)
  case (1 n)
  show ?case
  proof (cases "n < 10")
    case True
    then show ?thesis by (simp add: ndigits.simps)
  next
    case False
    with 1 have "n div 10 < 10 ^ ndigits (n div 10)" by simp
    then have "n < 10 * 10 ^ ndigits (n div 10)" by linarith
    with False show ?thesis by (simp add: ndigits.simps [of n])
  qed
qed

text \<open>A sum of at most 28 digits in the exponent range is exact.\<close>

lemma dec_fix_exact:
  assumes "e \<ge> dec_etiny" and "ndigits (nat \<bar>c\<bar>) \<le> dec_prec"
    and "e + int (ndigits (nat \<bar>c\<bar>)) - 1 \<le> dec_emax"
  shows "dec_fix c e = Inr (Dec c e)"
proof -
  have "\<not> e < max (e + int (ndigits (nat \<bar>c\<bar>)) - int dec_prec) dec_etiny"
    using assms by (auto simp: max_def)
  with assms show ?thesis by (simp add: dec_fix_def Let_def)
qed

lemma dec_less_irrefl: "dec_less a a = Inr b \<Longrightarrow> \<not> b"
  by (cases a) (auto simp: dec_less_def split: if_splits)

end
