(* ===== verification/Models.thy ===== *)
theory Models
  imports Py_Json
begin

text \<open>
  The database: one record type per ORM class of \<open>app/models.py\<close>, \<open>app/idempotency.py\<close>,
  \<open>app/reference_models.py\<close> and \<open>app/pairing.py\<close> that the modelled code reads or writes, and
  the tables as lists of rows. The authenticated principal and the effective scope
  (\<open>app/auth.py\<close>, \<open>app/ownership.py\<close>) are here because every component takes them.
\<close>

section \<open>Instants\<close>

text \<open>
  A \<open>datetime\<close>; \<open>dt_offset\<close> is the UTC offset in minutes, absent for a naive one.
\<close>

record datetime =
  dt_year :: nat
  dt_month :: nat
  dt_day :: nat
  dt_hour :: nat
  dt_minute :: nat
  dt_second :: nat
  dt_microsecond :: nat
  dt_offset :: "int option"

text \<open>
  Instants the server itself takes from its clock and only compares and shifts
  (\<open>issued_at\<close>, \<open>expires_at\<close>, \<open>not_before\<close> and so on) are microseconds since the epoch.
\<close>

definition timedelta_seconds :: "int \<Rightarrow> int" where
  "timedelta_seconds n = n * 1000000"

section \<open>Rows\<close>

record organization =
  org_id :: string
  org_name :: string
  org_authorization_revision :: int

record user_row =
  usr_id :: string
  usr_display_name :: string
  usr_email :: "string option"

record membership =
  mem_id :: string
  mem_organization_id :: string
  mem_user_id :: string
  mem_active :: bool
  mem_all_customers :: bool
  mem_all_projects :: bool
  mem_customer_ids :: "string list"
  mem_project_ids :: "string list"
  mem_roles :: "(string \<times> string) list"
  mem_capabilities :: "string list"

record auth_session =
  ses_id :: string
  ses_organization_id :: string
  ses_membership_id :: string
  ses_user_id :: string
  ses_access_token_hash :: string
  ses_issued_at :: int
  ses_expires_at :: int
  ses_revoked_at :: "int option"

record canonical_customer =
  cc_organization_id :: string
  cc_customer_id :: string
  cc_deleted_at :: "datetime option"

record canonical_project =
  cp_organization_id :: string
  cp_project_id :: string
  cp_customer_id :: string
  cp_deleted_at :: "datetime option"

record canonical_project_sector =
  cs_organization_id :: string
  cs_project_sector_id :: string
  cs_project_id :: string
  cs_sector_id :: string
  cs_deleted_at :: "datetime option"

record canonical_item =
  ci_organization_id :: string
  ci_item_id :: string
  ci_project_id :: string
  ci_project_sector_id :: "string option"
  ci_deleted_at :: "datetime option"

record canonical_project_child =
  pc_organization_id :: string
  pc_entity_type :: string
  pc_entity_id :: string
  pc_project_id :: string
  pc_deleted_at :: "datetime option"

record canonical_item_child =
  ic_organization_id :: string
  ic_entity_type :: string
  ic_entity_id :: string
  ic_item_id :: string
  ic_deleted_at :: "datetime option"

text \<open>\<open>payload_json\<close> is nullable; a missing payload is \<^term>\<open>JNull\<close>.\<close>

record sync_entity =
  se_organization_id :: string
  se_entity_type :: string
  se_entity_id :: string
  se_server_revision :: int
  se_payload_json :: json
  se_updated_at :: datetime
  se_deleted_at :: "datetime option"

record sync_mutation =
  sm_organization_id :: string
  sm_client_mutation_id :: string
  sm_submitted_by_user_id :: string
  sm_membership_id :: string
  sm_session_id :: string
  sm_authorization_revision :: int
  sm_device_id :: string
  sm_entity_type :: string
  sm_entity_id :: string
  sm_base_server_revision :: "int option"
  sm_result_server_revision :: "int option"
  sm_result_status :: string

record sync_mutation_fingerprint =
  fp_organization_id :: string
  fp_client_mutation_id :: string
  fp_request_fingerprint :: string

record sync_change_log =
  cl_sequence :: int
  cl_organization_id :: string
  cl_entity_type :: string
  cl_entity_id :: string
  cl_server_revision :: int
  cl_client_mutation_id :: string
  cl_operation :: string

record evidence_blob =
  eb_organization_id :: string
  eb_document_id :: string
  eb_item_id :: string
  eb_filename :: string
  eb_mime_type :: string
  eb_sha256 :: string
  eb_size_bytes :: nat
  eb_storage_provider :: string
  eb_object_key :: string

record evidence_object_gc =
  gc_id :: int
  gc_organization_id :: string
  gc_document_id :: string
  gc_storage_provider :: string
  gc_object_key :: string
  gc_reason :: string
  gc_not_before :: int
  gc_attempts :: int
  gc_last_error :: "string option"

record reference_publication =
  rp_organization_id :: string
  rp_publication_id :: string
  rp_kind :: string
  rp_version_id :: string
  rp_effective_from :: int
  rp_effective_until :: "int option"
  rp_supersedes_publication_id :: "string option"
  rp_payload_json :: json
  rp_content_sha256 :: string
  rp_published_by_user_id :: string
  rp_published_at :: int

record pairing_grant =
  pg_id :: string
  pg_organization_id :: string
  pg_membership_id :: string
  pg_user_id :: string
  pg_code_hash :: string
  pg_expires_at :: int
  pg_session_ttl_seconds :: int
  pg_consumed_at :: "int option"

section \<open>Primary keys\<close>

definition customer_key :: "canonical_customer \<Rightarrow> string \<times> string" where
  "customer_key r = (cc_organization_id r, cc_customer_id r)"

definition project_key :: "canonical_project \<Rightarrow> string \<times> string" where
  "project_key r = (cp_organization_id r, cp_project_id r)"

definition sector_key :: "canonical_project_sector \<Rightarrow> string \<times> string" where
  "sector_key r = (cs_organization_id r, cs_project_sector_id r)"

definition item_key :: "canonical_item \<Rightarrow> string \<times> string" where
  "item_key r = (ci_organization_id r, ci_item_id r)"

definition project_child_key :: "canonical_project_child \<Rightarrow> string \<times> string \<times> string" where
  "project_child_key r = (pc_organization_id r, pc_entity_type r, pc_entity_id r)"

definition item_child_key :: "canonical_item_child \<Rightarrow> string \<times> string \<times> string" where
  "item_child_key r = (ic_organization_id r, ic_entity_type r, ic_entity_id r)"

definition entity_key :: "sync_entity \<Rightarrow> string \<times> string \<times> string" where
  "entity_key r = (se_organization_id r, se_entity_type r, se_entity_id r)"

definition mutation_key :: "sync_mutation \<Rightarrow> string \<times> string" where
  "mutation_key r = (sm_organization_id r, sm_client_mutation_id r)"

definition fingerprint_key :: "sync_mutation_fingerprint \<Rightarrow> string \<times> string" where
  "fingerprint_key r = (fp_organization_id r, fp_client_mutation_id r)"

definition publication_key :: "reference_publication \<Rightarrow> string \<times> string" where
  "publication_key r = (rp_organization_id r, rp_publication_id r)"

definition blob_key :: "evidence_blob \<Rightarrow> string \<times> string" where
  "blob_key r = (eb_organization_id r, eb_document_id r)"

lemmas key_defs = customer_key_def project_key_def sector_key_def item_key_def
  project_child_key_def item_child_key_def entity_key_def mutation_key_def
  fingerprint_key_def blob_key_def publication_key_def

section \<open>The database\<close>

record db =
  organizations :: "organization list"
  users :: "user_row list"
  memberships :: "membership list"
  auth_sessions :: "auth_session list"
  canonical_customers :: "canonical_customer list"
  canonical_projects :: "canonical_project list"
  canonical_project_sectors :: "canonical_project_sector list"
  canonical_items :: "canonical_item list"
  canonical_project_children :: "canonical_project_child list"
  canonical_item_children :: "canonical_item_child list"
  sync_entities :: "sync_entity list"
  sync_mutations :: "sync_mutation list"
  sync_mutation_fingerprints :: "sync_mutation_fingerprint list"
  sync_change_logs :: "sync_change_log list"
  next_change_sequence :: int
  evidence_blobs :: "evidence_blob list"
  evidence_object_gcs :: "evidence_object_gc list"
  next_gc_id :: int
  reference_publications :: "reference_publication list"
  pairing_grants :: "pairing_grant list"

definition empty_db :: db where
  "empty_db = \<lparr>organizations = [], users = [], memberships = [], auth_sessions = [],
     canonical_customers = [], canonical_projects = [], canonical_project_sectors = [],
     canonical_items = [], canonical_project_children = [], canonical_item_children = [],
     sync_entities = [], sync_mutations = [], sync_mutation_fingerprints = [],
     sync_change_logs = [], next_change_sequence = 1, evidence_blobs = [],
     evidence_object_gcs = [], next_gc_id = 1, reference_publications = [], pairing_grants = []\<rparr>"

definition get_organization :: "db \<Rightarrow> string \<Rightarrow> organization option" where
  "get_organization db k = get_row org_id k (organizations db)"

definition get_membership :: "db \<Rightarrow> string \<Rightarrow> membership option" where
  "get_membership db k = get_row mem_id k (memberships db)"

definition get_user :: "db \<Rightarrow> string \<Rightarrow> user_row option" where
  "get_user db k = get_row usr_id k (users db)"

definition get_session :: "db \<Rightarrow> string \<Rightarrow> auth_session option" where
  "get_session db k = get_row ses_id k (auth_sessions db)"

definition get_customer :: "db \<Rightarrow> string \<Rightarrow> string \<Rightarrow> canonical_customer option" where
  "get_customer db org k = get_row customer_key (org, k) (canonical_customers db)"

definition get_project :: "db \<Rightarrow> string \<Rightarrow> string \<Rightarrow> canonical_project option" where
  "get_project db org k = get_row project_key (org, k) (canonical_projects db)"

definition get_sector :: "db \<Rightarrow> string \<Rightarrow> string \<Rightarrow> canonical_project_sector option" where
  "get_sector db org k = get_row sector_key (org, k) (canonical_project_sectors db)"

definition get_item :: "db \<Rightarrow> string \<Rightarrow> string \<Rightarrow> canonical_item option" where
  "get_item db org k = get_row item_key (org, k) (canonical_items db)"

definition get_project_child :: "db \<Rightarrow> string \<Rightarrow> string \<Rightarrow> string \<Rightarrow> canonical_project_child option" where
  "get_project_child db org t k = get_row project_child_key (org, t, k) (canonical_project_children db)"

definition get_item_child :: "db \<Rightarrow> string \<Rightarrow> string \<Rightarrow> string \<Rightarrow> canonical_item_child option" where
  "get_item_child db org t k = get_row item_child_key (org, t, k) (canonical_item_children db)"

definition get_entity :: "db \<Rightarrow> string \<Rightarrow> string \<Rightarrow> string \<Rightarrow> sync_entity option" where
  "get_entity db org t k = get_row entity_key (org, t, k) (sync_entities db)"

definition get_mutation :: "db \<Rightarrow> string \<Rightarrow> string \<Rightarrow> sync_mutation option" where
  "get_mutation db org k = get_row mutation_key (org, k) (sync_mutations db)"

definition get_fingerprint :: "db \<Rightarrow> string \<Rightarrow> string \<Rightarrow> sync_mutation_fingerprint option" where
  "get_fingerprint db org k = get_row fingerprint_key (org, k) (sync_mutation_fingerprints db)"

definition get_blob :: "db \<Rightarrow> string \<Rightarrow> string \<Rightarrow> evidence_blob option" where
  "get_blob db org k = get_row blob_key (org, k) (evidence_blobs db)"

definition get_publication_row :: "db \<Rightarrow> string \<Rightarrow> string \<Rightarrow> reference_publication option" where
  "get_publication_row db org k = get_row publication_key (org, k) (reference_publications db)"

lemmas get_defs = get_organization_def get_membership_def get_user_def get_session_def get_publication_row_def get_customer_def get_project_def
  get_sector_def get_item_def get_project_child_def get_item_child_def get_entity_def
  get_mutation_def get_fingerprint_def get_blob_def

text \<open>Every row a lookup returns carries the key it was asked for.\<close>

lemma get_customer_key: "get_customer db org k = Some r \<Longrightarrow>
    cc_organization_id r = org \<and> cc_customer_id r = k \<and> r \<in> set (canonical_customers db)"
  unfolding get_customer_def by (drule get_row_SomeD) (simp add: customer_key_def)

lemma get_project_key: "get_project db org k = Some r \<Longrightarrow>
    cp_organization_id r = org \<and> cp_project_id r = k \<and> r \<in> set (canonical_projects db)"
  unfolding get_project_def by (drule get_row_SomeD) (simp add: project_key_def)

lemma get_sector_key: "get_sector db org k = Some r \<Longrightarrow>
    cs_organization_id r = org \<and> cs_project_sector_id r = k \<and> r \<in> set (canonical_project_sectors db)"
  unfolding get_sector_def by (drule get_row_SomeD) (simp add: sector_key_def)

lemma get_item_key: "get_item db org k = Some r \<Longrightarrow>
    ci_organization_id r = org \<and> ci_item_id r = k \<and> r \<in> set (canonical_items db)"
  unfolding get_item_def by (drule get_row_SomeD) (simp add: item_key_def)

lemma get_project_child_key: "get_project_child db org t k = Some r \<Longrightarrow>
    pc_organization_id r = org \<and> pc_entity_type r = t \<and> pc_entity_id r = k
    \<and> r \<in> set (canonical_project_children db)"
  unfolding get_project_child_def by (drule get_row_SomeD) (simp add: project_child_key_def)

lemma get_item_child_key: "get_item_child db org t k = Some r \<Longrightarrow>
    ic_organization_id r = org \<and> ic_entity_type r = t \<and> ic_entity_id r = k
    \<and> r \<in> set (canonical_item_children db)"
  unfolding get_item_child_def by (drule get_row_SomeD) (simp add: item_child_key_def)

lemma get_entity_key: "get_entity db org t k = Some r \<Longrightarrow>
    se_organization_id r = org \<and> se_entity_type r = t \<and> se_entity_id r = k
    \<and> r \<in> set (sync_entities db)"
  unfolding get_entity_def by (drule get_row_SomeD) (simp add: entity_key_def)

lemma get_organization_key: "get_organization db k = Some r \<Longrightarrow>
    org_id r = k \<and> r \<in> set (organizations db)"
  unfolding get_organization_def by (drule get_row_SomeD) simp

lemma get_membership_key: "get_membership db k = Some r \<Longrightarrow>
    mem_id r = k \<and> r \<in> set (memberships db)"
  unfolding get_membership_def by (drule get_row_SomeD) simp

section \<open>Principal and scope\<close>

record principal =
  user_id :: string
  organization_id :: string
  membership_id :: string
  session_id :: string
  authorization_revision :: int
  capabilities :: "string set"
  customer_ids :: "string set"
  project_ids :: "string set"
  all_customers :: bool
  all_projects :: bool

record effective_scope =
  sc_all_customers :: bool
  sc_all_projects :: bool
  sc_customer_ids :: "string set"
  sc_project_ids :: "string set"

definition from_principal :: "principal \<Rightarrow> effective_scope" where
  "from_principal p = \<lparr>sc_all_customers = all_customers p, sc_all_projects = all_projects p,
     sc_customer_ids = customer_ids p, sc_project_ids = project_ids p\<rparr>"

definition can_access_customer :: "effective_scope \<Rightarrow> string \<Rightarrow> bool" where
  "can_access_customer sc c \<longleftrightarrow> sc_all_customers sc \<or> c \<in> sc_customer_ids sc"

definition can_access_project :: "effective_scope \<Rightarrow> string \<Rightarrow> string \<Rightarrow> bool" where
  "can_access_project sc pr c \<longleftrightarrow>
     can_access_customer sc c \<and> (sc_all_projects sc \<or> pr \<in> sc_project_ids sc)"

text \<open>
  The five fields an event or a plan must carry to be attributed
  (\<open>_require_connected_provenance\<close>, \<open>_require_event_provenance\<close>,
  \<open>_require_materials_plan_provenance\<close>, \<open>_require_procurement_plan_provenance\<close> and the two
  \<open>_require_provenance\<close> functions are this check with their own exception class).
\<close>

definition require_provenance :: "exn \<Rightarrow> principal \<Rightarrow> bool \<Rightarrow> dict \<Rightarrow> unit res" where
  "require_provenance e p current_actor event =
     (case (normalized (dget event ''actorID''), normalized (dget event ''organizationID''),
            normalized (dget event ''membershipID''), normalized (dget event ''sessionID''),
            strict_int (dget event ''authorizationRevision'')) of
        (Some actor_id, Some org, Some mem, Some ses, Some revision) \<Rightarrow>
          if revision < 0 then raise e
          else if org \<noteq> organization_id p then raise e
          else if current_actor \<and> (actor_id \<noteq> user_id p \<or> mem \<noteq> membership_id p
                 \<or> ses \<noteq> session_id p \<or> revision \<noteq> authorization_revision p)
          then raise e
          else ok ()
      | _ \<Rightarrow> raise e)"

text \<open>What a passed provenance check means.\<close>

definition attributed :: "principal \<Rightarrow> dict \<Rightarrow> bool" where
  "attributed p event \<longleftrightarrow>
     normalized (dget event ''organizationID'') = Some (organization_id p)
     \<and> normalized (dget event ''actorID'') \<noteq> None
     \<and> normalized (dget event ''membershipID'') \<noteq> None
     \<and> normalized (dget event ''sessionID'') \<noteq> None
     \<and> (\<exists>n \<ge> 0. dget event ''authorizationRevision'' = JInt n)"

definition authored_by :: "principal \<Rightarrow> dict \<Rightarrow> bool" where
  "authored_by p event \<longleftrightarrow>
     normalized (dget event ''organizationID'') = Some (organization_id p)
     \<and> normalized (dget event ''actorID'') = Some (user_id p)
     \<and> normalized (dget event ''membershipID'') = Some (membership_id p)
     \<and> normalized (dget event ''sessionID'') = Some (session_id p)
     \<and> dget event ''authorizationRevision'' = JInt (authorization_revision p)"

lemma require_provenance_ok [res_simps]:
  "require_provenance e p cur ev = Inr u \<longleftrightarrow> attributed p ev \<and> (cur \<longrightarrow> authored_by p ev)"
  by (auto simp: require_provenance_def attributed_def authored_by_def split: option.splits)

lemma require_provenance_raises: "require_provenance e p cur ev = Inl e' \<Longrightarrow> e' = e"
  by (auto simp: require_provenance_def split: option.splits if_splits)


section \<open>Sample values\<close>

text \<open>A principal with every capability, and the provenance fields it signs, used by the witnesses.\<close>

definition demo_principal :: principal where
  "demo_principal = \<lparr>user_id = ''u'', organization_id = ''o'', membership_id = ''m'', session_id = ''s'',
     authorization_revision = 3,
     capabilities = {''sync'', ''customer.create'', ''customer.edit'', ''project.create'', ''project.edit'',
       ''item.create'', ''item.edit'', ''item.blockers.manage'', ''item.evidence.manage'',
       ''quotation.create'', ''quotation.send'', ''quotation.approve'', ''delivery.manage''},
     customer_ids = {}, project_ids = {}, all_customers = True, all_projects = True\<rparr>"

definition demo_provenance :: dict where
  "demo_provenance = [(''actorID'', JStr ''u''), (''organizationID'', JStr ''o''),
     (''membershipID'', JStr ''m''), (''sessionID'', JStr ''s''), (''authorizationRevision'', JInt 3)]"

definition demo_time :: datetime where
  "demo_time = \<lparr>dt_year = 2025, dt_month = 1, dt_day = 2, dt_hour = 3, dt_minute = 4, dt_second = 5,
     dt_microsecond = 0, dt_offset = Some 0\<rparr>"

end
