(* ===== verification/Delivery_Production.thy ===== *)
theory Delivery_Production
  imports Models
begin

text \<open>
  \<open>app/delivery_production.py\<close>: the production plan of a delivery execution, authored while the
  delivery is in Production and frozen from Ready for Installation on.
\<close>

definition PRODUCTION_FROZEN_STATUSES :: "string list" where
  "PRODUCTION_FROZEN_STATUSES = [''readyForInstallation'', ''scheduled'', ''installed'', ''complete'']"

definition PRODUCTION_STEP_STATUSES :: "string list" where
  "PRODUCTION_STEP_STATUSES = [''pending'', ''inProgress'', ''complete'']"

definition production_provenance :: "dict \<Rightarrow> principal \<Rightarrow> bool \<Rightarrow> unit res" where
  "production_provenance plan p current_actor =
     require_provenance DeliveryProductionRejected p current_actor plan"

fun production_steps :: "json list \<Rightarrow> string list \<Rightarrow> unit res" where
  "production_steps [] seen_ids = ok ()"
| "production_steps (s # steps) seen_ids =
     (case as_dict s of
        None \<Rightarrow> raise DeliveryProductionRejected \<comment> \<open>step is malformed\<close>
      | Some step \<Rightarrow>
          (case normalized (dget step ''id'') of
             None \<Rightarrow> raise DeliveryProductionRejected \<comment> \<open>step id is required\<close>
           | Some step_id \<Rightarrow>
               if step_id \<in> set seen_ids then raise DeliveryProductionRejected \<comment> \<open>ids must be unique\<close>
               else if normalized (dget step ''description'') = None
               then raise DeliveryProductionRejected \<comment> \<open>description is required\<close>
               else ebind (in_strset (dget step ''status'') PRODUCTION_STEP_STATUSES) (\<lambda>known.
                 if \<not> known then raise DeliveryProductionRejected \<comment> \<open>step status is invalid\<close>
                 else if \<not> note_ok (dget step ''note'') then raise DeliveryProductionRejected
                 else production_steps steps (step_id # seen_ids))))"

definition production_validate_plan :: "json \<Rightarrow> json \<Rightarrow> principal \<Rightarrow> dict option res" where
  "production_validate_plan raw_plan procurement_plan p =
     (if raw_plan = JNull then ok None
      else case as_dict raw_plan of
        None \<Rightarrow> raise DeliveryProductionRejected \<comment> \<open>plan is malformed\<close>
      | Some plan \<Rightarrow>
          (case as_dict procurement_plan of
             None \<Rightarrow> raise DeliveryProductionRejected \<comment> \<open>requires a frozen procurement plan\<close>
           | Some procurement \<Rightarrow>
               ebind (require_revision DeliveryProductionRejected (dget plan ''revision'')) (\<lambda>_.
               ebind (require_revision DeliveryProductionRejected (dget plan ''procurementPlanRevision''))
                 (\<lambda>procurement_revision.
               if \<not> py_eq (JInt procurement_revision) (dget procurement ''revision'')
               then raise DeliveryProductionRejected \<comment> \<open>procurement revision does not match\<close>
               else if normalized (dget plan ''updatedAt'') = None then raise DeliveryProductionRejected
               else case as_list (dget plan ''steps'') of
                   None \<Rightarrow> raise DeliveryProductionRejected
                 | Some steps \<Rightarrow>
                     if steps = [] then raise DeliveryProductionRejected \<comment> \<open>at least one step\<close>
                     else seq (production_steps steps [])
                       (seq (production_provenance plan p False) (ok (Some plan)))))))"

definition require_installation_ready :: "dict option \<Rightarrow> unit res" where
  "require_installation_ready plan =
     (case plan of
        None \<Rightarrow> raise DeliveryProductionRejected \<comment> \<open>save production work first\<close>
      | Some pl \<Rightarrow>
          (case as_list (dget_default pl ''steps'' (JList [])) of
             None \<Rightarrow> raise TypeError
           | Some steps \<Rightarrow>
               (case as_dicts steps of
                  None \<Rightarrow> raise AttributeError
                | Some ds \<Rightarrow> guard (list_ex (\<lambda>step. dget step ''status'' \<noteq> JStr ''complete'') ds)
                    DeliveryProductionRejected)))" \<comment> \<open>blocked until every step is complete\<close>

text \<open>The part of the handoff that compares with the canonical plan.\<close>

definition production_against_current ::
  "dict \<Rightarrow> dict option \<Rightarrow> dict \<Rightarrow> dict option \<Rightarrow> principal \<Rightarrow> string \<Rightarrow> unit res" where
  "production_against_current payload plan current current_plan p status =
     ebind (in_strset (dget current ''status'') PRODUCTION_FROZEN_STATUSES) (\<lambda>frozen.
     if frozen then guard (\<not> opt_eq plan current_plan) DeliveryProductionRejected \<comment> \<open>immutable\<close>
     else if in_tuple (dget current ''status'') [''engineeringReview'', ''materialsRequired'', ''procurement'']
     then guard (plan \<noteq> None) DeliveryProductionRejected \<comment> \<open>enter Production first\<close>
     else if dget current ''status'' \<noteq> JStr ''production'' then ok ()
     else if status = ''readyForInstallation'' then
       (if current_plan = None then raise DeliveryProductionRejected
        else if \<not> opt_eq plan current_plan then raise DeliveryProductionRejected \<comment> \<open>save before the transition\<close>
        else require_installation_ready plan)
     else if status \<noteq> ''production'' \<or> opt_eq plan current_plan then ok ()
     else case plan of
         None \<Rightarrow> raise DeliveryProductionRejected \<comment> \<open>cannot be cleared\<close>
       | Some pl \<Rightarrow>
           if revision_of pl \<noteq> next_revision_after current_plan
           then raise DeliveryProductionRejected \<comment> \<open>revision must advance by exactly one\<close>
           else if \<not> py_eq (dget pl ''updatedAt'') (dget payload ''updatedAt'')
           then raise DeliveryProductionRejected
           else production_provenance pl p True)"

definition validate_production_handoff ::
  "dict \<Rightarrow> dict option \<Rightarrow> principal \<Rightarrow> string \<Rightarrow> unit res" where
  "validate_production_handoff payload current_payload p status =
     ebind (production_validate_plan (dget payload ''productionPlan'') (dget payload ''procurementPlan'') p)
       (\<lambda>plan.
     if status \<in> {''engineeringReview'', ''materialsRequired'', ''procurement''} \<and> plan \<noteq> None
     then raise DeliveryProductionRejected \<comment> \<open>only during Production\<close>
     else seq (if status \<in> set PRODUCTION_FROZEN_STATUSES then require_installation_ready plan else ok ())
       (case current_payload of
          None \<Rightarrow> ok ()
        | Some current \<Rightarrow>
            ebind (production_validate_plan (dget current ''productionPlan'') (dget current ''procurementPlan'') p)
              (\<lambda>current_plan. production_against_current payload plan current current_plan p status)))"

section \<open>Facts\<close>

lemma production_validate_plan_ok:
  "production_validate_plan raw pp p = Inr plan \<Longrightarrow>
     (raw = JNull \<and> plan = None) \<or> (\<exists>d n. raw = JObj d \<and> plan = Some d \<and> dget d ''revision'' = JInt n \<and> 1 \<le> n)"
  by (simp only: production_validate_plan_def split: if_splits)
    (simp, simp only: res_simps as_dict_Some, blast)

lemma production_against_current_frozen:
  assumes "production_against_current payload plan current current_plan p status = Inr ()"
    and "dget current ''status'' = JStr st" and "st \<in> set PRODUCTION_FROZEN_STATUSES"
  shows "opt_eq plan current_plan"
  using assms by (simp add: production_against_current_def res_simps)

end
