(* ===== verification/Delivery_Installation.thy ===== *)
theory Delivery_Installation
  imports Models
begin

text \<open>
  \<open>app/delivery_installation.py\<close>: installation schedule, completion evidence and closeout of a
  delivery execution, and the check that evidence references are canonical.
\<close>

definition INSTALLATION_EDITABLE_STATUSES :: "string list" where
  "INSTALLATION_EDITABLE_STATUSES = [''readyForInstallation'', ''scheduled'']"

definition INSTALLATION_FROZEN_STATUSES :: "string list" where
  "INSTALLATION_FROZEN_STATUSES = [''complete'']"

definition installation_provenance :: "dict \<Rightarrow> principal \<Rightarrow> bool \<Rightarrow> unit res" where
  "installation_provenance value p current_actor =
     require_provenance DeliveryInstallationRejected p current_actor value"

definition validate_installer_assignment :: "json \<Rightarrow> unit res" where
  "validate_installer_assignment value =
     (if value = JNull then ok ()
      else case as_dict value of
        None \<Rightarrow> raise DeliveryInstallationRejected \<comment> \<open>assignment is malformed\<close>
      | Some v \<Rightarrow>
          if normalized (dget v ''id'') = None then raise DeliveryInstallationRejected
          else if normalized (dget v ''displayName'') = None then raise DeliveryInstallationRejected
          else guard (dget v ''phone'' \<noteq> JNull \<and> normalized (dget v ''phone'') = None)
                 DeliveryInstallationRejected)"

definition require_installer_assignment_for_revision :: "dict \<Rightarrow> unit res" where
  "require_installer_assignment_for_revision schedule =
     guard (dget schedule ''installerAssignment'' = JNull) DeliveryInstallationRejected"

definition production_ready :: "dict \<Rightarrow> bool" where
  "production_ready production_plan =
     (case as_list (dget production_plan ''steps'') of
        None \<Rightarrow> False
      | Some steps \<Rightarrow> steps \<noteq> [] \<and>
          list_all (\<lambda>step. is_dict step \<and> dget (the_dict step) ''status'' = JStr ''complete'') steps)"

definition validate_schedule :: "json \<Rightarrow> json \<Rightarrow> principal \<Rightarrow> dict option res" where
  "validate_schedule raw_schedule production_plan p =
     (if raw_schedule = JNull then ok None
      else case as_dict raw_schedule of
        None \<Rightarrow> raise DeliveryInstallationRejected \<comment> \<open>schedule is malformed\<close>
      | Some schedule \<Rightarrow>
          (case as_dict production_plan of
             None \<Rightarrow> raise DeliveryInstallationRejected \<comment> \<open>requires a frozen production plan\<close>
           | Some production \<Rightarrow>
               if \<not> production_ready production
               then raise DeliveryInstallationRejected \<comment> \<open>requires completed Production work\<close>
               else ebind (require_revision DeliveryInstallationRejected (dget schedule ''revision'')) (\<lambda>_.
               ebind (require_revision DeliveryInstallationRejected (dget schedule ''productionPlanRevision''))
                 (\<lambda>production_revision.
               if \<not> py_eq (JInt production_revision) (dget production ''revision'')
               then raise DeliveryInstallationRejected \<comment> \<open>production revision does not match\<close>
               else if normalized (dget schedule ''scheduledFor'') = None then raise DeliveryInstallationRejected
               else if normalized (dget schedule ''updatedAt'') = None then raise DeliveryInstallationRejected
               else seq (validate_installer_assignment (dget schedule ''installerAssignment''))
                 (if \<not> note_ok (dget schedule ''note'') then raise DeliveryInstallationRejected
                  else seq (installation_provenance schedule p False) (ok (Some schedule)))))))"

fun references_loop :: "json list \<Rightarrow> (string \<times> string) list \<Rightarrow> dict list res" where
  "references_loop [] seen = ok []"
| "references_loop (r # refs) seen =
     (case as_dict r of
        None \<Rightarrow> raise DeliveryInstallationRejected \<comment> \<open>reference is malformed\<close>
      | Some reference \<Rightarrow>
          (case (normalized (dget reference ''itemID''), normalized (dget reference ''documentID'')) of
             (Some item_id, Some document_id) \<Rightarrow>
               if (item_id, document_id) \<in> set seen
               then raise DeliveryInstallationRejected \<comment> \<open>references must be unique\<close>
               else ebind (references_loop refs ((item_id, document_id) # seen)) (\<lambda>rest.
                 ok (reference # rest))
           | _ \<Rightarrow> raise DeliveryInstallationRejected))" \<comment> \<open>requires itemID and documentID\<close>

definition validated_references :: "json \<Rightarrow> bool \<Rightarrow> dict list res" where
  "validated_references references require_nonempty =
     (case as_list references of
        None \<Rightarrow> raise DeliveryInstallationRejected
      | Some refs \<Rightarrow>
          if require_nonempty \<and> refs = [] then raise DeliveryInstallationRejected
          else references_loop refs [])"

definition validate_completion :: "json \<Rightarrow> dict option \<Rightarrow> principal \<Rightarrow> dict option res" where
  "validate_completion raw_completion schedule p =
     (if raw_completion = JNull then ok None
      else case as_dict raw_completion of
        None \<Rightarrow> raise DeliveryInstallationRejected \<comment> \<open>completion is malformed\<close>
      | Some completion \<Rightarrow>
          (case schedule of
             None \<Rightarrow> raise DeliveryInstallationRejected \<comment> \<open>requires a saved schedule\<close>
           | Some sch \<Rightarrow>
               ebind (require_revision DeliveryInstallationRejected (dget completion ''revision'')) (\<lambda>_.
               ebind (require_revision DeliveryInstallationRejected (dget completion ''installationScheduleRevision''))
                 (\<lambda>schedule_revision.
               if \<not> py_eq (JInt schedule_revision) (dget sch ''revision'')
               then raise DeliveryInstallationRejected \<comment> \<open>schedule revision does not match\<close>
               else if normalized (dget completion ''completedAt'') = None then raise DeliveryInstallationRejected
               else if normalized (dget completion ''updatedAt'') = None then raise DeliveryInstallationRejected
               else if \<not> note_ok (dget completion ''note'') then raise DeliveryInstallationRejected
               else ebind (validated_references (dget completion ''evidenceReferences'') True) (\<lambda>_.
                 seq (installation_provenance completion p False) (ok (Some completion)))))))"

fun is_bool :: "json \<Rightarrow> bool" where
  "is_bool (JBool _) = True"
| "is_bool _ = False"

definition validate_closeout :: "json \<Rightarrow> dict option \<Rightarrow> principal \<Rightarrow> dict option res" where
  "validate_closeout raw_closeout completion p =
     (if raw_closeout = JNull then ok None
      else case as_dict raw_closeout of
        None \<Rightarrow> raise DeliveryInstallationRejected \<comment> \<open>closeout is malformed\<close>
      | Some closeout \<Rightarrow>
          (case completion of
             None \<Rightarrow> raise DeliveryInstallationRejected \<comment> \<open>requires recorded completion\<close>
           | Some completed \<Rightarrow>
               if \<not> py_eq (dget closeout ''revision'') (JInt 1) \<or> is_bool (dget closeout ''revision'')
               then raise DeliveryInstallationRejected \<comment> \<open>revision must be exactly one\<close>
               else case strict_int (dget closeout ''installationCompletionRevision'') of
                   None \<Rightarrow> raise DeliveryInstallationRejected
                 | Some completion_revision \<Rightarrow>
                     if \<not> py_eq (JInt completion_revision) (dget completed ''revision'')
                     then raise DeliveryInstallationRejected \<comment> \<open>completion revision does not match\<close>
                     else if normalized (dget closeout ''closedAt'') = None then raise DeliveryInstallationRejected
                     else if normalized (dget closeout ''updatedAt'') = None then raise DeliveryInstallationRejected
                     else if \<not> note_ok (dget closeout ''note'') then raise DeliveryInstallationRejected
                     else ebind (validated_references (dget closeout ''evidenceReferences'') False)
                       (\<lambda>references.
                     if references = [] \<and> normalized (dget closeout ''note'') = None
                     then raise DeliveryInstallationRejected \<comment> \<open>requires a note or a reference\<close>
                     else seq (installation_provenance closeout p False) (ok (Some closeout)))))"

section \<open>Handoff\<close>

text \<open>Which of the three records each status requires or forbids.\<close>

definition installation_presence ::
  "string \<Rightarrow> dict option \<Rightarrow> dict option \<Rightarrow> dict option \<Rightarrow> unit res" where
  "installation_presence status schedule completion closeout =
     (if status \<in> {''engineeringReview'', ''materialsRequired'', ''procurement'', ''production''} \<and> schedule \<noteq> None
      then raise DeliveryInstallationRejected
      else if status \<in> {''scheduled'', ''installed'', ''complete''} \<and> schedule = None
      then raise DeliveryInstallationRejected
      else if status \<in> {''engineeringReview'', ''materialsRequired'', ''procurement'', ''production'',
                          ''readyForInstallation''} \<and> completion \<noteq> None
      then raise DeliveryInstallationRejected
      else if status \<in> {''installed'', ''complete''} \<and> completion = None
      then raise DeliveryInstallationRejected
      else if status \<noteq> ''complete'' \<and> closeout \<noteq> None then raise DeliveryInstallationRejected
      else guard (status = ''complete'' \<and> closeout = None) DeliveryInstallationRejected)"

text \<open>A new revision of the schedule: next number, stamped with the payload, assigned, signed.\<close>

definition schedule_revision_step ::
  "dict \<Rightarrow> dict option \<Rightarrow> dict option \<Rightarrow> principal \<Rightarrow> unit res" where
  "schedule_revision_step payload schedule current_schedule p =
     (case schedule of
        None \<Rightarrow> raise DeliveryInstallationRejected \<comment> \<open>cannot be cleared\<close>
      | Some sch \<Rightarrow>
          if revision_of sch \<noteq> next_revision_after current_schedule
          then raise DeliveryInstallationRejected \<comment> \<open>must advance by exactly one\<close>
          else if \<not> py_eq (dget sch ''updatedAt'') (dget payload ''updatedAt'')
          then raise DeliveryInstallationRejected
          else seq (require_installer_assignment_for_revision sch) (installation_provenance sch p True))"

definition installation_from_installed ::
  "dict \<Rightarrow> dict option \<Rightarrow> dict option \<Rightarrow> dict option \<Rightarrow> dict option \<Rightarrow> dict option \<Rightarrow> dict option
     \<Rightarrow> principal \<Rightarrow> string \<Rightarrow> unit res" where
  "installation_from_installed payload schedule completion closeout
       current_schedule current_completion current_closeout p status =
     (if \<not> opt_eq schedule current_schedule then raise DeliveryInstallationRejected
      else if \<not> opt_eq completion current_completion then raise DeliveryInstallationRejected
      else if status = ''complete'' then
        (if current_closeout \<noteq> None then raise DeliveryInstallationRejected
         else case closeout of
             None \<Rightarrow> raise DeliveryInstallationRejected
           | Some co \<Rightarrow>
               if \<not> py_eq (dget co ''updatedAt'') (dget payload ''updatedAt'')
               then raise DeliveryInstallationRejected
               else installation_provenance co p True)
      else guard (\<not> opt_eq closeout current_closeout) DeliveryInstallationRejected)"

definition installation_from_ready ::
  "dict \<Rightarrow> dict option \<Rightarrow> dict option \<Rightarrow> dict option \<Rightarrow> principal \<Rightarrow> string \<Rightarrow> unit res" where
  "installation_from_ready payload schedule completion current_schedule p status =
     (if completion \<noteq> None then raise DeliveryInstallationRejected
      else if status = ''scheduled'' then
        (if current_schedule = None then raise DeliveryInstallationRejected
         else guard (\<not> opt_eq schedule current_schedule) DeliveryInstallationRejected)
      else if status \<noteq> ''readyForInstallation'' \<or> opt_eq schedule current_schedule then ok ()
      else schedule_revision_step payload schedule current_schedule p)"

definition installation_from_scheduled ::
  "dict \<Rightarrow> dict option \<Rightarrow> dict option \<Rightarrow> dict option \<Rightarrow> dict option \<Rightarrow> principal \<Rightarrow> string
     \<Rightarrow> unit res" where
  "installation_from_scheduled payload schedule completion current_schedule current_completion p status =
     (if status = ''installed'' then
        (if current_schedule = None then raise DeliveryInstallationRejected
         else if current_completion = None then raise DeliveryInstallationRejected
         else if \<not> opt_eq schedule current_schedule then raise DeliveryInstallationRejected
         else guard (\<not> opt_eq completion current_completion) DeliveryInstallationRejected)
      else if status \<noteq> ''scheduled'' then ok ()
      else
        let schedule_changed = \<not> opt_eq schedule current_schedule;
            completion_changed = \<not> opt_eq completion current_completion
        in if schedule_changed \<and> completion_changed then raise DeliveryInstallationRejected
           else if schedule_changed then
             (if current_completion \<noteq> None then raise DeliveryInstallationRejected
              else schedule_revision_step payload schedule current_schedule p)
           else if completion_changed then
             (case completion of
                None \<Rightarrow> raise DeliveryInstallationRejected \<comment> \<open>cannot be cleared\<close>
              | Some completed \<Rightarrow>
                  if revision_of completed \<noteq> next_revision_after current_completion
                  then raise DeliveryInstallationRejected
                  else if \<not> py_eq (dget completed ''updatedAt'') (dget payload ''updatedAt'')
                  then raise DeliveryInstallationRejected
                  else installation_provenance completed p True)
           else ok ())"

text \<open>The rules for each canonical status, once both sides have been validated.\<close>

definition installation_transition ::
  "dict \<Rightarrow> json \<Rightarrow> dict option \<Rightarrow> dict option \<Rightarrow> dict option \<Rightarrow> dict option \<Rightarrow> dict option \<Rightarrow> dict option
     \<Rightarrow> principal \<Rightarrow> string \<Rightarrow> unit res" where
  "installation_transition payload current_status schedule completion closeout
       current_schedule current_completion current_closeout p status =
     ebind (in_strset current_status INSTALLATION_FROZEN_STATUSES) (\<lambda>frozen.
     if frozen then
       (if \<not> opt_eq schedule current_schedule then raise DeliveryInstallationRejected
        else if \<not> opt_eq completion current_completion then raise DeliveryInstallationRejected
        else guard (\<not> opt_eq closeout current_closeout) DeliveryInstallationRejected)
     else if current_status = JStr ''installed'' then
       installation_from_installed payload schedule completion closeout
         current_schedule current_completion current_closeout p status
     else if \<not> in_tuple current_status INSTALLATION_EDITABLE_STATUSES then
       (if schedule \<noteq> None then raise DeliveryInstallationRejected
        else guard (completion \<noteq> None) DeliveryInstallationRejected)
     else if current_status = JStr ''readyForInstallation'' then
       installation_from_ready payload schedule completion current_schedule p status
     else installation_from_scheduled payload schedule completion current_schedule current_completion
            p status)"

definition installation_against_current ::
  "dict \<Rightarrow> dict \<Rightarrow> dict option \<Rightarrow> dict option \<Rightarrow> dict option \<Rightarrow> principal \<Rightarrow> string \<Rightarrow> unit res" where
  "installation_against_current payload current schedule completion closeout p status =
     ebind (validate_schedule (dget current ''installationSchedule'') (dget current ''productionPlan'') p)
       (\<lambda>current_schedule.
     ebind (validate_completion (dget current ''installationCompletion'') current_schedule p)
       (\<lambda>current_completion.
     ebind (validate_closeout (dget current ''deliveryCloseout'') current_completion p)
       (\<lambda>current_closeout.
     installation_transition payload (dget current ''status'') schedule completion closeout
       current_schedule current_completion current_closeout p status)))"

definition validate_installation_handoff ::
  "dict \<Rightarrow> dict option \<Rightarrow> principal \<Rightarrow> string \<Rightarrow> unit res" where
  "validate_installation_handoff payload current_payload p status =
     ebind (validate_schedule (dget payload ''installationSchedule'') (dget payload ''productionPlan'') p)
       (\<lambda>schedule.
     seq (case current_payload of
            None \<Rightarrow> ok ()
          | Some current \<Rightarrow>
              if dget current ''status'' = JStr ''scheduled'' \<and> dget current ''installationCompletion'' \<noteq> JNull
              then ebind (validate_schedule (dget current ''installationSchedule'')
                            (dget current ''productionPlan'') p)
                     (\<lambda>frozen. guard (\<not> opt_eq schedule frozen) DeliveryInstallationRejected)
              else ok ())
     (ebind (validate_completion (dget payload ''installationCompletion'') schedule p) (\<lambda>completion.
      ebind (validate_closeout (dget payload ''deliveryCloseout'') completion p) (\<lambda>closeout.
      seq (installation_presence status schedule completion closeout)
        (case current_payload of
           None \<Rightarrow> ok ()
         | Some current \<Rightarrow>
             installation_against_current payload current schedule completion closeout p status)))))"

section \<open>Evidence authority\<close>

definition evidence_reference_authority :: "db \<Rightarrow> principal \<Rightarrow> string \<Rightarrow> json \<Rightarrow> unit res" where
  "evidence_reference_authority db p project_id r =
     (case as_dict r of
        None \<Rightarrow> raise DeliveryInstallationRejected
      | Some reference \<Rightarrow>
          (case (normalized (dget reference ''itemID''), normalized (dget reference ''documentID'')) of
             (Some item_id, Some document_id) \<Rightarrow>
               (case get_item db (organization_id p) item_id of
                  None \<Rightarrow> raise DeliveryInstallationRejected
                | Some item \<Rightarrow>
                    if ci_deleted_at item \<noteq> None \<or> ci_project_id item \<noteq> project_id
                    then raise DeliveryInstallationRejected
                    else case get_item_child db (organization_id p) ''evidence'' document_id of
                        None \<Rightarrow> raise DeliveryInstallationRejected
                      | Some evidence \<Rightarrow>
                          guard (ic_deleted_at evidence \<noteq> None \<or> ic_item_id evidence \<noteq> item_id)
                            DeliveryInstallationRejected)
           | _ \<Rightarrow> raise DeliveryInstallationRejected))"

definition validate_evidence_authority :: "db \<Rightarrow> principal \<Rightarrow> json \<Rightarrow> string \<Rightarrow> unit res" where
  "validate_evidence_authority db p references project_id =
     (case as_list references of
        None \<Rightarrow> raise TypeError \<comment> \<open>not iterable; the payload validator has refused it before\<close>
      | Some refs \<Rightarrow> for_each (evidence_reference_authority db p project_id) refs)"

definition changed_record_authority ::
  "db \<Rightarrow> principal \<Rightarrow> dict \<Rightarrow> dict option \<Rightarrow> string \<Rightarrow> string \<Rightarrow> unit res" where
  "changed_record_authority db p payload current_payload key project_id =
     (let record = dget payload key;
          current = (case current_payload of None \<Rightarrow> JNull | Some c \<Rightarrow> dget c key)
      in if record \<noteq> JNull \<and> \<not> py_eq record current then
           (case as_dict record of
              None \<Rightarrow> raise DeliveryInstallationRejected
            | Some d \<Rightarrow> validate_evidence_authority db p
                (dget_default d ''evidenceReferences'' (JList [])) project_id)
         else ok ())"

definition validate_installation_evidence_authority ::
  "db \<Rightarrow> principal \<Rightarrow> dict \<Rightarrow> dict option \<Rightarrow> string \<Rightarrow> unit res" where
  "validate_installation_evidence_authority db p payload current_payload project_id =
     seq (changed_record_authority db p payload current_payload ''installationCompletion'' project_id)
         (changed_record_authority db p payload current_payload ''deliveryCloseout'' project_id)"

end
