(* ===== verification/Delivery_Execution.thy ===== *)
theory Delivery_Execution
  imports Py_Decimal Delivery_Production Delivery_Installation
begin

text \<open>
  \<open>app/delivery_execution.py\<close>: the delivery state machine from Engineering Review to Complete,
  its materials and procurement plans, and the authority check against the approved quotation.
\<close>

section \<open>Constants\<close>

definition DELIVERY_ENTITY_TYPE :: string where
  "DELIVERY_ENTITY_TYPE = ''delivery_execution''"

definition DELIVERY_CAPABILITY :: string where
  "DELIVERY_CAPABILITY = ''delivery.manage''"

definition DELIVERY_STATUSES :: "string list" where
  "DELIVERY_STATUSES = [''engineeringReview'', ''materialsRequired'', ''procurement'', ''production'',
     ''readyForInstallation'', ''scheduled'', ''installed'', ''complete'']"

definition DELIVERY_TRANSITIONS :: "(string \<times> string) list" where
  "DELIVERY_TRANSITIONS = [(''engineeringReview'', ''materialsRequired''),
     (''materialsRequired'', ''procurement''), (''procurement'', ''production''),
     (''production'', ''readyForInstallation''), (''readyForInstallation'', ''scheduled''),
     (''scheduled'', ''installed''), (''installed'', ''complete'')]"

definition MATERIALS_FROZEN_STATUSES :: "string list" where
  "MATERIALS_FROZEN_STATUSES = [''procurement'', ''production'', ''readyForInstallation'', ''scheduled'',
     ''installed'', ''complete'']"

definition PROCUREMENT_FROZEN_STATUSES :: "string list" where
  "PROCUREMENT_FROZEN_STATUSES = [''production'', ''readyForInstallation'', ''scheduled'', ''installed'',
     ''complete'']"

definition PROCUREMENT_REQUIREMENT_STATUSES :: "string list" where
  "PROCUREMENT_REQUIREMENT_STATUSES = [''unconfirmed'', ''ordered'', ''shortage'', ''available'']"

definition IMMUTABLE_HANDOFF_KEYS :: "string list" where
  "IMMUTABLE_HANDOFF_KEYS = [''id'', ''quotationID'', ''quotationNumber'', ''quotationRevision'', ''projectID'',
     ''customerID'', ''currencyCode'', ''quotedTotal'', ''pricingVersion'', ''startedAt'']"

section \<open>Helpers\<close>

definition delivery_decimal :: "json \<Rightarrow> decimal res" where
  "delivery_decimal value =
     (case value of
        JBool _ \<Rightarrow> raise DeliveryExecutionRejected
      | JNull \<Rightarrow> raise DeliveryExecutionRejected
      | _ \<Rightarrow> (case decimal_of_json value of
               None \<Rightarrow> raise DeliveryExecutionRejected \<comment> \<open>InvalidOperation is caught here\<close>
             | Some d \<Rightarrow> ok d))"

definition delivery_quotation_revision :: "dict \<Rightarrow> int res" where
  "delivery_quotation_revision payload =
     (if dget payload ''revision'' = JNull then ok 1
      else require_revision DeliveryExecutionRejected (dget payload ''revision''))"

fun quotation_total_loop :: "json list \<Rightarrow> decimal \<Rightarrow> decimal res" where
  "quotation_total_loop [] running = ok running"
| "quotation_total_loop (l # lines) running =
     (case as_dict l of
        None \<Rightarrow> raise DeliveryExecutionRejected \<comment> \<open>line is malformed\<close>
      | Some line \<Rightarrow>
          ebind (delivery_decimal (dget line ''totalPrice'')) (\<lambda>price.
          ebind (dec_add running price) (\<lambda>new_sum. quotation_total_loop lines new_sum)))"

definition quotation_total :: "dict \<Rightarrow> decimal res" where
  "quotation_total payload =
     (case as_list (dget payload ''lines'') of
        None \<Rightarrow> raise DeliveryExecutionRejected
      | Some lines \<Rightarrow>
          if lines = [] then raise DeliveryExecutionRejected
          else quotation_total_loop lines dec_zero)"

definition delivery_events :: "dict \<Rightarrow> dict list res" where
  "delivery_events payload =
     (case as_list (dget payload ''events'') of
        None \<Rightarrow> raise DeliveryExecutionRejected \<comment> \<open>history is required\<close>
      | Some xs \<Rightarrow>
          if xs = [] then raise DeliveryExecutionRejected
          else case as_dicts xs of
              None \<Rightarrow> raise DeliveryExecutionRejected \<comment> \<open>history is malformed\<close>
            | Some events \<Rightarrow> ok events)"

definition delivery_unique_event_ids :: "dict list \<Rightarrow> unit res" where
  "delivery_unique_event_ids events = unique_ids DeliveryExecutionRejected ''id'' events []"

definition require_event_provenance :: "dict \<Rightarrow> principal \<Rightarrow> bool \<Rightarrow> unit res" where
  "require_event_provenance event p current_actor =
     require_provenance DeliveryExecutionRejected p current_actor event"

definition require_materials_plan_provenance :: "dict \<Rightarrow> principal \<Rightarrow> bool \<Rightarrow> unit res" where
  "require_materials_plan_provenance plan p current_actor =
     require_provenance DeliveryExecutionRejected p current_actor plan"

definition require_procurement_plan_provenance :: "dict \<Rightarrow> principal \<Rightarrow> bool \<Rightarrow> unit res" where
  "require_procurement_plan_provenance plan p current_actor =
     require_provenance DeliveryExecutionRejected p current_actor plan"

section \<open>Materials plan\<close>

fun materials_requirements :: "json list \<Rightarrow> string list \<Rightarrow> unit res" where
  "materials_requirements [] seen_ids = ok ()"
| "materials_requirements (r # rs) seen_ids =
     (case as_dict r of
        None \<Rightarrow> raise DeliveryExecutionRejected \<comment> \<open>requirement is malformed\<close>
      | Some requirement \<Rightarrow>
          (case normalized (dget requirement ''id'') of
             None \<Rightarrow> raise DeliveryExecutionRejected \<comment> \<open>id is required\<close>
           | Some requirement_id \<Rightarrow>
               if requirement_id \<in> set seen_ids then raise DeliveryExecutionRejected \<comment> \<open>must be unique\<close>
               else if normalized (dget requirement ''description'') = None
               then raise DeliveryExecutionRejected
               else if normalized (dget requirement ''unit'') = None then raise DeliveryExecutionRejected
               else ebind (delivery_decimal (dget requirement ''quantity'')) (\<lambda>quantity.
                 ebind (dec_less_eq quantity dec_zero) (\<lambda>not_positive.
                 if not_positive then raise DeliveryExecutionRejected \<comment> \<open>must be greater than zero\<close>
                 else if \<not> note_ok (dget requirement ''note'') then raise DeliveryExecutionRejected
                 else materials_requirements rs (requirement_id # seen_ids)))))"

definition validate_materials_plan :: "json \<Rightarrow> principal \<Rightarrow> dict option res" where
  "validate_materials_plan raw_plan p =
     (if raw_plan = JNull then ok None
      else case as_dict raw_plan of
        None \<Rightarrow> raise DeliveryExecutionRejected \<comment> \<open>plan is malformed\<close>
      | Some plan \<Rightarrow>
          ebind (require_revision DeliveryExecutionRejected (dget plan ''revision'')) (\<lambda>_.
          if normalized (dget plan ''updatedAt'') = None then raise DeliveryExecutionRejected
          else case as_list (dget plan ''requirements'') of
              None \<Rightarrow> raise DeliveryExecutionRejected
            | Some requirements \<Rightarrow>
                if requirements = [] then raise DeliveryExecutionRejected \<comment> \<open>at least one material\<close>
                else seq (materials_requirements requirements [])
                  (seq (require_materials_plan_provenance plan p False) (ok (Some plan)))))"

section \<open>Procurement plan\<close>

text \<open>\<open>material_by_id\<close>: the materials keyed by normalized id; a later duplicate key wins.\<close>

definition material_by_id :: "dict \<Rightarrow> (string \<times> dict) list" where
  "material_by_id materials_plan =
     rev (List.map_filter
       (\<lambda>r. case as_dict r of
              None \<Rightarrow> None
            | Some d \<Rightarrow> map_option (\<lambda>i. (i, d)) (normalized (dget d ''id'')))
       (case as_list (get_or_nil materials_plan ''requirements'') of None \<Rightarrow> [] | Some rs \<Rightarrow> rs))"

definition shortage_ok :: "dict \<Rightarrow> dict \<Rightarrow> unit res" where
  "shortage_ok requirement material =
     (if dget requirement ''status'' = JStr ''shortage'' then
        ebind (delivery_decimal (dget requirement ''shortageQuantity'')) (\<lambda>shortage.
        ebind (delivery_decimal (dget material ''quantity'')) (\<lambda>required.
        ebind (dec_less_eq shortage dec_zero) (\<lambda>not_positive.
        if not_positive then raise DeliveryExecutionRejected
        else ebind (dec_less required shortage) (\<lambda>too_large.
          guard too_large DeliveryExecutionRejected))))
      else guard (dget requirement ''shortageQuantity'' \<noteq> JNull) DeliveryExecutionRejected)"

definition lead_time_ok :: "json \<Rightarrow> bool" where
  "lead_time_ok j = (j = JNull \<or> (case strict_int j of None \<Rightarrow> False | Some n \<Rightarrow> 0 \<le> n))"

text \<open>The requirement loop; returns the set of ids it has seen.\<close>

fun procurement_requirements ::
  "(string \<times> dict) list \<Rightarrow> json list \<Rightarrow> string list \<Rightarrow> string list res" where
  "procurement_requirements materials [] seen_ids = ok seen_ids"
| "procurement_requirements materials (r # rs) seen_ids =
     (case as_dict r of
        None \<Rightarrow> raise DeliveryExecutionRejected \<comment> \<open>requirement is malformed\<close>
      | Some requirement \<Rightarrow>
          (case normalized (dget requirement ''requirementID'') of
             None \<Rightarrow> raise DeliveryExecutionRejected \<comment> \<open>id is required\<close>
           | Some requirement_id \<Rightarrow>
               if requirement_id \<in> set seen_ids then raise DeliveryExecutionRejected \<comment> \<open>must be unique\<close>
               else case map_of materials requirement_id of
                   None \<Rightarrow> raise DeliveryExecutionRejected \<comment> \<open>unknown frozen material\<close>
                 | Some material \<Rightarrow>
                     ebind (in_strset (dget requirement ''status'') PROCUREMENT_REQUIREMENT_STATUSES) (\<lambda>known.
                     if \<not> known then raise DeliveryExecutionRejected \<comment> \<open>status is invalid\<close>
                     else if \<not> lead_time_ok (dget requirement ''leadTimeDays'')
                     then raise DeliveryExecutionRejected
                     else if dget requirement ''expectedAvailableAt'' \<noteq> JNull
                          \<and> normalized (dget requirement ''expectedAvailableAt'') = None
                     then raise DeliveryExecutionRejected
                     else if \<not> note_ok (dget requirement ''note'') then raise DeliveryExecutionRejected
                     else seq (shortage_ok requirement material)
                       (procurement_requirements materials rs (requirement_id # seen_ids)))))"

definition validate_procurement_plan :: "json \<Rightarrow> dict option \<Rightarrow> principal \<Rightarrow> dict option res" where
  "validate_procurement_plan raw_plan materials_plan p =
     (if raw_plan = JNull then ok None
      else case as_dict raw_plan of
        None \<Rightarrow> raise DeliveryExecutionRejected \<comment> \<open>plan is malformed\<close>
      | Some plan \<Rightarrow>
          (case materials_plan of
             None \<Rightarrow> raise DeliveryExecutionRejected \<comment> \<open>requires a frozen materials plan\<close>
           | Some materials \<Rightarrow>
               ebind (require_revision DeliveryExecutionRejected (dget plan ''revision'')) (\<lambda>_.
               ebind (require_revision DeliveryExecutionRejected (dget plan ''materialsPlanRevision''))
                 (\<lambda>materials_revision.
               if \<not> py_eq (JInt materials_revision) (dget materials ''revision'')
               then raise DeliveryExecutionRejected \<comment> \<open>materials revision does not match\<close>
               else if normalized (dget plan ''updatedAt'') = None then raise DeliveryExecutionRejected
               else case as_list (dget plan ''requirements'') of
                   None \<Rightarrow> raise DeliveryExecutionRejected
                 | Some requirements \<Rightarrow>
                     if requirements = [] then raise DeliveryExecutionRejected
                     else ebind (procurement_requirements (material_by_id materials) requirements [])
                       (\<lambda>seen_ids.
                     if set seen_ids \<noteq> set (map fst (material_by_id materials))
                     then raise DeliveryExecutionRejected \<comment> \<open>missing frozen material requirements\<close>
                     else seq (require_procurement_plan_provenance plan p False) (ok (Some plan)))))))"

section \<open>Materials handoff\<close>

definition materials_against_current ::
  "dict \<Rightarrow> dict option \<Rightarrow> dict \<Rightarrow> dict option \<Rightarrow> principal \<Rightarrow> string \<Rightarrow> unit res" where
  "materials_against_current payload plan current current_plan p status =
     ebind (in_strset (dget current ''status'') MATERIALS_FROZEN_STATUSES) (\<lambda>frozen.
     if frozen then guard (\<not> opt_eq plan current_plan) DeliveryExecutionRejected \<comment> \<open>immutable\<close>
     else if dget current ''status'' = JStr ''engineeringReview''
     then guard (plan \<noteq> None) DeliveryExecutionRejected \<comment> \<open>enter Materials Required first\<close>
     else if dget current ''status'' \<noteq> JStr ''materialsRequired'' then ok ()
     else if status = ''procurement'' then
       (if current_plan = None then raise DeliveryExecutionRejected
        else guard (\<not> opt_eq plan current_plan) DeliveryExecutionRejected) \<comment> \<open>save before the transition\<close>
     else if status \<noteq> ''materialsRequired'' \<or> opt_eq plan current_plan then ok ()
     else case plan of
         None \<Rightarrow> raise DeliveryExecutionRejected \<comment> \<open>cannot be cleared\<close>
       | Some pl \<Rightarrow>
           if revision_of pl \<noteq> next_revision_after current_plan
           then raise DeliveryExecutionRejected \<comment> \<open>revision must advance by exactly one\<close>
           else if \<not> py_eq (dget pl ''updatedAt'') (dget payload ''updatedAt'')
           then raise DeliveryExecutionRejected
           else require_materials_plan_provenance pl p True)"

definition validate_materials_handoff ::
  "dict \<Rightarrow> dict option \<Rightarrow> principal \<Rightarrow> string \<Rightarrow> unit res" where
  "validate_materials_handoff payload current_payload p status =
     ebind (validate_materials_plan (dget payload ''materialsPlan'') p) (\<lambda>plan.
     if status = ''engineeringReview'' \<and> plan \<noteq> None then raise DeliveryExecutionRejected
     else if status \<in> set MATERIALS_FROZEN_STATUSES \<and> plan = None then raise DeliveryExecutionRejected
     else case current_payload of
         None \<Rightarrow> ok ()
       | Some current \<Rightarrow>
           ebind (validate_materials_plan (dget current ''materialsPlan'') p) (\<lambda>current_plan.
             materials_against_current payload plan current current_plan p status))"

section \<open>Procurement handoff\<close>

definition require_production_ready :: "dict option \<Rightarrow> unit res" where
  "require_production_ready plan =
     (case plan of
        None \<Rightarrow> raise DeliveryExecutionRejected \<comment> \<open>save procurement readiness first\<close>
      | Some pl \<Rightarrow>
          (case as_list (dget_default pl ''requirements'' (JList [])) of
             None \<Rightarrow> raise TypeError
           | Some rs \<Rightarrow>
               (case as_dicts rs of
                  None \<Rightarrow> raise AttributeError
                | Some ds \<Rightarrow> guard (list_ex (\<lambda>r. dget r ''status'' \<noteq> JStr ''available'') ds)
                    DeliveryExecutionRejected)))" \<comment> \<open>blocked until every material is available\<close>

definition procurement_against_current ::
  "dict \<Rightarrow> dict option \<Rightarrow> dict \<Rightarrow> dict option \<Rightarrow> principal \<Rightarrow> string \<Rightarrow> unit res" where
  "procurement_against_current payload plan current current_plan p status =
     ebind (in_strset (dget current ''status'') PROCUREMENT_FROZEN_STATUSES) (\<lambda>frozen.
     if frozen then guard (\<not> opt_eq plan current_plan) DeliveryExecutionRejected \<comment> \<open>immutable\<close>
     else if in_tuple (dget current ''status'') [''engineeringReview'', ''materialsRequired'']
     then guard (plan \<noteq> None) DeliveryExecutionRejected \<comment> \<open>enter Procurement first\<close>
     else if dget current ''status'' \<noteq> JStr ''procurement'' then ok ()
     else if status = ''production'' then
       (if current_plan = None then raise DeliveryExecutionRejected
        else if \<not> opt_eq plan current_plan then raise DeliveryExecutionRejected \<comment> \<open>save before the transition\<close>
        else require_production_ready plan)
     else if status \<noteq> ''procurement'' \<or> opt_eq plan current_plan then ok ()
     else case plan of
         None \<Rightarrow> raise DeliveryExecutionRejected \<comment> \<open>cannot be cleared\<close>
       | Some pl \<Rightarrow>
           if revision_of pl \<noteq> next_revision_after current_plan
           then raise DeliveryExecutionRejected \<comment> \<open>revision must advance by exactly one\<close>
           else if \<not> py_eq (dget pl ''updatedAt'') (dget payload ''updatedAt'')
           then raise DeliveryExecutionRejected
           else require_procurement_plan_provenance pl p True)"

definition validate_procurement_handoff ::
  "dict \<Rightarrow> dict option \<Rightarrow> principal \<Rightarrow> string \<Rightarrow> unit res" where
  "validate_procurement_handoff payload current_payload p status =
     ebind (validate_materials_plan (dget payload ''materialsPlan'') p) (\<lambda>materials_plan.
     ebind (validate_procurement_plan (dget payload ''procurementPlan'') materials_plan p) (\<lambda>plan.
     if status \<in> {''engineeringReview'', ''materialsRequired''} \<and> plan \<noteq> None
     then raise DeliveryExecutionRejected \<comment> \<open>only during Procurement\<close>
     else seq (if status \<in> set PROCUREMENT_FROZEN_STATUSES then require_production_ready plan else ok ())
       (case current_payload of
          None \<Rightarrow> ok ()
        | Some current \<Rightarrow>
            ebind (validate_materials_plan (dget current ''materialsPlan'') p) (\<lambda>current_materials.
            ebind (validate_procurement_plan (dget current ''procurementPlan'') current_materials p)
              (\<lambda>current_plan. procurement_against_current payload plan current current_plan p status)))))"

section \<open>Payload validation\<close>

text \<open>The event loop from the second event on; \<open>state\<close> is the status after the events before.\<close>

definition revision_self_loop :: "string \<Rightarrow> json \<Rightarrow> bool" where
  "revision_self_loop state to_status \<longleftrightarrow>
     state \<in> {''materialsRequired'', ''procurement'', ''production'', ''readyForInstallation'', ''scheduled''}
     \<and> to_status = JStr state"

fun delivery_chain :: "string \<Rightarrow> dict list \<Rightarrow> string res" where
  "delivery_chain state [] = ok state"
| "delivery_chain state (event # events) =
     (let to_status = dget event ''toStatus'' in
      if \<not> in_tuple to_status DELIVERY_STATUSES then raise DeliveryExecutionRejected
      else if dget event ''fromStatus'' \<noteq> JStr state
      then raise DeliveryExecutionRejected \<comment> \<open>chain is discontinuous\<close>
      else if map_option JStr (map_of DELIVERY_TRANSITIONS state) \<noteq> Some to_status
           \<and> \<not> revision_self_loop state to_status
      then raise DeliveryExecutionRejected \<comment> \<open>transition is invalid\<close>
      else delivery_chain (case to_status of JStr s \<Rightarrow> s | _ \<Rightarrow> []) events)"

definition DELIVERY_PROTECTED :: "string list" where
  "DELIVERY_PROTECTED = [''status'', ''updatedAt'', ''materialsPlan'', ''procurementPlan'', ''productionPlan'',
     ''installationSchedule'', ''installationCompletion'']"

text \<open>A self-transition that changes none of the records it exists to revise.\<close>

definition empty_self_transition :: "dict \<Rightarrow> dict \<Rightarrow> dict \<Rightarrow> string \<Rightarrow> string list \<Rightarrow> bool" where
  "empty_self_transition newest current payload status keys \<longleftrightarrow>
     dget newest ''fromStatus'' = JStr status \<and> dget newest ''toStatus'' = JStr status
     \<and> list_all (\<lambda>key. py_eq (dget current key) (dget payload key)) keys"

definition delivery_appended :: "dict \<Rightarrow> dict \<Rightarrow> dict list \<Rightarrow> principal \<Rightarrow> unit res" where
  "delivery_appended payload current appended p =
     (case appended of
        [] \<Rightarrow> guard (list_ex (\<lambda>key. \<not> py_eq (dget current key) (dget payload key)) DELIVERY_PROTECTED)
                DeliveryExecutionRejected \<comment> \<open>changes must append a lifecycle event\<close>
      | newest # others \<Rightarrow>
          if others \<noteq> [] then raise DeliveryExecutionRejected \<comment> \<open>only one transition per mutation\<close>
          else if empty_self_transition newest current payload ''materialsRequired'' [''materialsPlan'']
          then raise DeliveryExecutionRejected
          else if empty_self_transition newest current payload ''procurement'' [''procurementPlan'']
          then raise DeliveryExecutionRejected
          else if empty_self_transition newest current payload ''production'' [''productionPlan'']
          then raise DeliveryExecutionRejected
          else if empty_self_transition newest current payload ''readyForInstallation''
                    [''installationSchedule'']
          then raise DeliveryExecutionRejected
          else if empty_self_transition newest current payload ''scheduled''
                    [''installationSchedule'', ''installationCompletion'']
          then raise DeliveryExecutionRejected
          else require_event_provenance newest p True)"

definition delivery_against_current ::
  "dict \<Rightarrow> dict \<Rightarrow> dict list \<Rightarrow> principal \<Rightarrow> unit res" where
  "delivery_against_current payload current events p =
     (if list_ex (\<lambda>key. \<not> py_eq (dget current key) (dget payload key)) IMMUTABLE_HANDOFF_KEYS
      then raise DeliveryExecutionRejected \<comment> \<open>immutable handoff field changed\<close>
      else case as_list (dget current ''events'') of
        None \<Rightarrow> raise DeliveryExecutionRejected \<comment> \<open>canonical history is malformed\<close>
      | Some current_events \<Rightarrow>
          if as_dicts current_events = None then raise DeliveryExecutionRejected
          else if length events < length current_events
          then raise DeliveryExecutionRejected \<comment> \<open>cannot be truncated\<close>
          else if \<not> py_eq_list (map JObj (take (length current_events) events)) current_events
          then raise DeliveryExecutionRejected \<comment> \<open>history is immutable\<close>
          else delivery_appended payload current (drop (length current_events) events) p)"

definition validate_delivery_execution_payload ::
  "dict \<Rightarrow> dict option \<Rightarrow> principal \<Rightarrow> string \<Rightarrow> unit res" where
  "validate_delivery_execution_payload payload current_payload p entity_id =
     (if dget payload ''id'' \<noteq> JStr entity_id then raise DeliveryExecutionRejected
      else if \<not> in_tuple (dget payload ''status'') DELIVERY_STATUSES then raise DeliveryExecutionRejected
      else ebind (delivery_events payload) (\<lambda>events.
      seq (delivery_unique_event_ids events)
      (seq (for_each (\<lambda>event. require_event_provenance event p False) events)
      (if dget (hd events) ''fromStatus'' \<noteq> JNull
          \<or> dget (hd events) ''toStatus'' \<noteq> JStr ''engineeringReview''
       then raise DeliveryExecutionRejected \<comment> \<open>must start with Engineering Review\<close>
       else ebind (delivery_chain ''engineeringReview'' (tl events)) (\<lambda>state.
       if dget payload ''status'' \<noteq> JStr state
       then raise DeliveryExecutionRejected \<comment> \<open>status does not match history\<close>
       else if \<not> py_eq (dget payload ''updatedAt'') (dget (last events) ''occurredAt'')
       then raise DeliveryExecutionRejected
       else if \<not> py_eq (dget payload ''startedAt'') (dget (hd events) ''occurredAt'')
       then raise DeliveryExecutionRejected
       else seq (validate_materials_handoff payload current_payload p state)
         (seq (validate_procurement_handoff payload current_payload p state)
         (seq (rethrow [DeliveryProductionRejected, DeliveryInstallationRejected] DeliveryExecutionRejected
                 (seq (validate_production_handoff payload current_payload p state)
                      (validate_installation_handoff payload current_payload p state)))
         (case current_payload of
            None \<Rightarrow> require_event_provenance (last events) p True
          | Some current \<Rightarrow> delivery_against_current payload current events p))))))))"

section \<open>Authority\<close>

text \<open>The canonical payload the mutation continues, if the record exists.\<close>

definition delivery_current_payload ::
  "sync_entity option \<Rightarrow> canonical_project_child option \<Rightarrow> dict option res" where
  "delivery_current_payload current child =
     (case current of
        Some ent \<Rightarrow>
          (case as_dict (se_payload_json ent) of
             None \<Rightarrow> raise DeliveryExecutionRejected
           | Some payload \<Rightarrow>
               if se_deleted_at ent \<noteq> None then raise DeliveryExecutionRejected
               else case child of
                   None \<Rightarrow> raise DeliveryExecutionRejected \<comment> \<open>lacks canonical ownership\<close>
                 | Some c \<Rightarrow> if pc_deleted_at c \<noteq> None then raise DeliveryExecutionRejected
                            else ok (Some payload))
      | None \<Rightarrow> if child \<noteq> None then raise DeliveryExecutionRejected else ok None)"

text \<open>The comparison with the canonical approved quotation.\<close>

definition delivery_quotation_authority ::
  "db \<Rightarrow> principal \<Rightarrow> dict \<Rightarrow> string \<Rightarrow> string \<Rightarrow> string \<Rightarrow> unit res" where
  "delivery_quotation_authority db p payload project_id customer_id quotation_id =
     (case get_entity db (organization_id p) ''quotation'' quotation_id of
        None \<Rightarrow> raise DeliveryExecutionRejected
      | Some quotation \<Rightarrow>
          (case as_dict (se_payload_json quotation) of
             None \<Rightarrow> raise DeliveryExecutionRejected
           | Some quote \<Rightarrow>
               if se_deleted_at quotation \<noteq> None then raise DeliveryExecutionRejected
               else if dget quote ''status'' \<noteq> JStr ''approved'' then raise DeliveryExecutionRejected
               else if dget quote ''projectID'' \<noteq> JStr project_id \<or> dget quote ''customerID'' \<noteq> JStr customer_id
               then raise DeliveryExecutionRejected
               else case as_list (get_or_nil quote ''events'') of
                   None \<Rightarrow> raise DeliveryExecutionRejected
                 | Some quote_events \<Rightarrow>
                     if \<not> list_ex (\<lambda>e. is_dict e \<and> dget (the_dict e) ''kind'' = JStr ''approved'') quote_events
                     then raise DeliveryExecutionRejected \<comment> \<open>missing immutable approval history\<close>
                     else ebind (delivery_quotation_revision quote) (\<lambda>revision.
                     if \<not> py_eq (dget payload ''quotationNumber'') (dget quote ''number'')
                        \<or> \<not> py_eq (dget payload ''quotationRevision'') (JInt revision)
                        \<or> \<not> py_eq (dget payload ''currencyCode'') (dget quote ''currencyCode'')
                        \<or> \<not> py_eq (dget payload ''pricingVersion'') (dget quote ''pricingVersion'')
                     then raise DeliveryExecutionRejected
                     else ebind (delivery_decimal (dget payload ''quotedTotal'')) (\<lambda>quoted.
                       ebind (quotation_total quote) (\<lambda>total.
                       ebind (dec_eq quoted total) (\<lambda>same.
                         guard (\<not> same) DeliveryExecutionRejected))))))"

definition authorize_delivery_execution ::
  "db \<Rightarrow> principal \<Rightarrow> effective_scope \<Rightarrow> string \<Rightarrow> dict \<Rightarrow> datetime option \<Rightarrow> sync_entity option
     \<Rightarrow> string res" where
  "authorize_delivery_execution db p scope entity_id payload deleted_at current =
     (if DELIVERY_CAPABILITY \<notin> capabilities p then raise DeliveryExecutionRejected
      else if deleted_at \<noteq> None then raise DeliveryExecutionRejected \<comment> \<open>cannot be tombstoned\<close>
      else
        let child = get_project_child db (organization_id p) DELIVERY_ENTITY_TYPE entity_id in
        ebind (delivery_current_payload current child) (\<lambda>current_payload.
        seq (validate_delivery_execution_payload payload current_payload p entity_id)
        (case (normalized (dget payload ''projectID''), normalized (dget payload ''customerID''),
               normalized (dget payload ''quotationID'')) of
           (Some project_id, Some customer_id, Some quotation_id) \<Rightarrow>
             (case get_project db (organization_id p) project_id of
                None \<Rightarrow> raise DeliveryExecutionRejected
              | Some project \<Rightarrow>
                  if cp_deleted_at project \<noteq> None then raise DeliveryExecutionRejected
                  else if cp_customer_id project \<noteq> customer_id then raise DeliveryExecutionRejected
                  else if \<not> can_access_project scope (cp_project_id project) (cp_customer_id project)
                  then raise DeliveryExecutionRejected \<comment> \<open>outside authorized scope\<close>
                  else seq (rethrow [DeliveryInstallationRejected] DeliveryExecutionRejected
                         (validate_installation_evidence_authority db p payload current_payload project_id))
                    (seq (delivery_quotation_authority db p payload project_id customer_id quotation_id)
                      (case child of
                         None \<Rightarrow> ok project_id
                       | Some c \<Rightarrow> if pc_project_id c \<noteq> project_id then raise DeliveryExecutionRejected
                                  else ok project_id)))
         | _ \<Rightarrow> raise DeliveryExecutionRejected)))"

definition apply_delivery_execution_ownership ::
  "db \<Rightarrow> principal \<Rightarrow> string \<Rightarrow> string \<Rightarrow> db \<times> unit res" where
  "apply_delivery_execution_ownership db p entity_id project_id =
     (case get_project_child db (organization_id p) DELIVERY_ENTITY_TYPE entity_id of
        None \<Rightarrow>
          (db\<lparr>canonical_project_children := put_row project_child_key
                \<lparr>pc_organization_id = organization_id p, pc_entity_type = DELIVERY_ENTITY_TYPE,
                 pc_entity_id = entity_id, pc_project_id = project_id, pc_deleted_at = None\<rparr>
                (canonical_project_children db)\<rparr>, ok ())
      | Some child \<Rightarrow>
          (db, if pc_deleted_at child \<noteq> None then raise DeliveryExecutionRejected
               else guard (pc_project_id child \<noteq> project_id) DeliveryExecutionRejected))"

definition delivery_execution_is_visible :: "db \<Rightarrow> principal \<Rightarrow> string \<Rightarrow> bool" where
  "delivery_execution_is_visible db p entity_id =
     (case get_entity db (organization_id p) DELIVERY_ENTITY_TYPE entity_id of
        None \<Rightarrow> False
      | Some ent \<Rightarrow>
          if se_deleted_at ent \<noteq> None \<or> \<not> is_dict (se_payload_json ent) then False
          else case get_project_child db (organization_id p) DELIVERY_ENTITY_TYPE entity_id of
              None \<Rightarrow> False
            | Some child \<Rightarrow>
                if pc_deleted_at child \<noteq> None then False
                else case get_project db (organization_id p) (pc_project_id child) of
                    None \<Rightarrow> False
                  | Some project \<Rightarrow>
                      if cp_deleted_at project \<noteq> None then False
                      else can_access_project (from_principal p) (cp_project_id project)
                             (cp_customer_id project))"

end
