(* ===== verification/Delivery_Correct.thy ===== *)
theory Delivery_Correct
  imports Delivery_Execution
begin

text \<open>
  What an accepted delivery execution guarantees. The delivery machine is stated as a relation on
  an enumerated, linearly ordered status type; the string-valued event loop of the validator is
  shown to accept exactly its runs, and the handoff checks are turned into statements about the
  plans a delivery in each status carries.
\<close>

section \<open>The delivery machine\<close>

datatype delivery_status =
    EngineeringReview | MaterialsRequired | Procurement | Production
  | ReadyForInstallation | Scheduled | Installed | Complete

fun rank :: "delivery_status \<Rightarrow> nat" where
  "rank EngineeringReview = 0"
| "rank MaterialsRequired = 1"
| "rank Procurement = 2"
| "rank Production = 3"
| "rank ReadyForInstallation = 4"
| "rank Scheduled = 5"
| "rank Installed = 6"
| "rank Complete = 7"

lemma rank_inj: "rank s = rank t \<Longrightarrow> s = t"
  by (cases s; cases t) simp_all

instantiation delivery_status :: linorder
begin

definition less_eq_delivery_status :: "delivery_status \<Rightarrow> delivery_status \<Rightarrow> bool" where
  "less_eq_delivery_status s t \<longleftrightarrow> rank s \<le> rank t"

definition less_delivery_status :: "delivery_status \<Rightarrow> delivery_status \<Rightarrow> bool" where
  "less_delivery_status s t \<longleftrightarrow> rank s < rank t"

instance
  by standard (auto simp: less_eq_delivery_status_def less_delivery_status_def dest: rank_inj)

end

fun status_name :: "delivery_status \<Rightarrow> string" where
  "status_name EngineeringReview = ''engineeringReview''"
| "status_name MaterialsRequired = ''materialsRequired''"
| "status_name Procurement = ''procurement''"
| "status_name Production = ''production''"
| "status_name ReadyForInstallation = ''readyForInstallation''"
| "status_name Scheduled = ''scheduled''"
| "status_name Installed = ''installed''"
| "status_name Complete = ''complete''"

inductive delivery_step :: "delivery_status \<Rightarrow> delivery_status \<Rightarrow> bool" where
  advance: "rank t = Suc (rank s) \<Longrightarrow> delivery_step s t"
| revise: "s \<in> {MaterialsRequired, Procurement, Production, ReadyForInstallation, Scheduled}
    \<Longrightarrow> delivery_step s s"

inductive_simps delivery_step_iff: "delivery_step s t"

lemma status_name_inj [simp]: "status_name s = status_name t \<longleftrightarrow> s = t"
  by (cases s; cases t) simp_all

lemma DELIVERY_STATUSES_names:
  "DELIVERY_STATUSES = map status_name [EngineeringReview, MaterialsRequired, Procurement, Production,
     ReadyForInstallation, Scheduled, Installed, Complete]"
  by (simp add: DELIVERY_STATUSES_def)

lemma delivery_status_all:
  "s \<in> set [EngineeringReview, MaterialsRequired, Procurement, Production,
     ReadyForInstallation, Scheduled, Installed, Complete]"
  by (cases s) simp_all

lemma DELIVERY_STATUSES_iff: "in_tuple v DELIVERY_STATUSES \<longleftrightarrow> (\<exists>s. v = JStr (status_name s))"
proof -
  have "set DELIVERY_STATUSES = range status_name"
    unfolding DELIVERY_STATUSES_names set_map using delivery_status_all by blast
  then show ?thesis unfolding in_tuple_iff by blast
qed

lemma map_option_JStr [simp]: "map_option JStr x = Some (JStr y) \<longleftrightarrow> x = Some y"
  by (cases x) simp_all

lemma delivery_step_name:
  "delivery_step s t \<longleftrightarrow> map_of DELIVERY_TRANSITIONS (status_name s) = Some (status_name t)
     \<or> revision_self_loop (status_name s) (JStr (status_name t))"
  by (cases s; cases t)
    (simp_all add: delivery_step_iff DELIVERY_TRANSITIONS_def revision_self_loop_def)

lemma delivery_step_le: "delivery_step s t \<Longrightarrow> s \<le> t \<and> rank t \<le> Suc (rank s)"
  by (auto simp: delivery_step_iff less_eq_delivery_status_def)

text \<open>The statuses an event list visits.\<close>

definition visits :: "dict list \<Rightarrow> delivery_status list \<Rightarrow> bool" where
  "visits events ss \<longleftrightarrow> list_all2 (\<lambda>ev s. dget ev ''toStatus'' = JStr (status_name s)) events ss"

lemma delivery_chain_ok:
  "delivery_chain (status_name s) events = Inr st \<longleftrightarrow>
     (\<exists>ss. visits events ss \<and> successively delivery_step (s # ss) \<and> st = status_name (last (s # ss))
       \<and> list_all2 (\<lambda>ev u. dget ev ''fromStatus'' = JStr (status_name u)) events (butlast (s # ss)))"
proof (induction events arbitrary: s)
  case Nil
  then show ?case by (auto simp: visits_def)
next
  case (Cons ev events)
  show ?case
  proof (cases "\<exists>t. dget ev ''toStatus'' = JStr (status_name t)")
    case False
    then show ?thesis
      by (auto simp: DELIVERY_STATUSES_iff visits_def list_all2_Cons1)
  next
    case True
    then obtain t where t: "dget ev ''toStatus'' = JStr (status_name t)" by blast
    have "delivery_chain (status_name s) (ev # events) = Inr st \<longleftrightarrow>
        dget ev ''fromStatus'' = JStr (status_name s) \<and> delivery_step s t
        \<and> delivery_chain (status_name t) events = Inr st"
    proof -
      have known: "in_tuple (JStr (status_name t)) DELIVERY_STATUSES"
        by (auto simp only: DELIVERY_STATUSES_iff)
      show ?thesis
        unfolding delivery_chain.simps Let_def t json.case if_raise_ok delivery_step_name
        using known by (auto simp only: map_option_JStr de_Morgan_conj not_not simp_thms)
    qed
    also have "\<dots> \<longleftrightarrow> (\<exists>ss. dget ev ''fromStatus'' = JStr (status_name s) \<and> visits (ev # events) (t # ss)
        \<and> successively delivery_step (s # t # ss) \<and> st = status_name (last (s # t # ss))
        \<and> list_all2 (\<lambda>ev u. dget ev ''fromStatus'' = JStr (status_name u)) events (butlast (t # ss)))"
      unfolding Cons.IH by (auto simp: visits_def t)
    also have "\<dots> \<longleftrightarrow> (\<exists>ss. visits (ev # events) ss \<and> successively delivery_step (s # ss)
        \<and> st = status_name (last (s # ss))
        \<and> list_all2 (\<lambda>ev u. dget ev ''fromStatus'' = JStr (status_name u)) (ev # events) (butlast (s # ss)))"
      (is "(\<exists>ss. ?L ss) \<longleftrightarrow> (\<exists>ss. ?R ss)")
    proof
      assume "\<exists>ss. ?L ss"
      then obtain ss where "?L ss" ..
      then have "?R (t # ss)" by simp
      then show "\<exists>ss. ?R ss" ..
    next
      assume "\<exists>ss. ?R ss"
      then obtain ss where R: "?R ss" ..
      then obtain u us where ss: "ss = u # us" by (cases ss) (auto simp: visits_def)
      with R t have "u = t" by (simp add: visits_def)
      with R ss have "?L us" by simp
      then show "\<exists>ss. ?L ss" ..
    qed
    finally show ?thesis .
  qed
qed

section \<open>Inversion of the validator\<close>

lemma delivery_events_ok:
  "delivery_events payload = Inr events \<longleftrightarrow>
     dget payload ''events'' = JList (map JObj events) \<and> events \<noteq> []"
  by (auto simp: delivery_events_def res_simps)

lemma validate_delivery_parts:
  assumes "validate_delivery_execution_payload payload current p entity_id = Inr ()"
  shows "\<exists>events state.
     dget payload ''id'' = JStr entity_id
     \<and> dget payload ''events'' = JList (map JObj events) \<and> events \<noteq> []
     \<and> None \<notin> set (map (id_of ''id'') events) \<and> distinct (map (id_of ''id'') events)
     \<and> (\<forall>ev \<in> set events. attributed p ev)
     \<and> dget (hd events) ''fromStatus'' = JNull
     \<and> dget (hd events) ''toStatus'' = JStr ''engineeringReview''
     \<and> delivery_chain ''engineeringReview'' (tl events) = Inr state
     \<and> dget payload ''status'' = JStr state
     \<and> py_eq (dget payload ''updatedAt'') (dget (last events) ''occurredAt'')
     \<and> py_eq (dget payload ''startedAt'') (dget (hd events) ''occurredAt'')
     \<and> validate_materials_handoff payload current p state = Inr ()
     \<and> validate_procurement_handoff payload current p state = Inr ()
     \<and> validate_production_handoff payload current p state = Inr ()
     \<and> validate_installation_handoff payload current p state = Inr ()
     \<and> (current = None \<longrightarrow> authored_by p (last events))
     \<and> (\<forall>c. current = Some c \<longrightarrow> delivery_against_current payload c events p = Inr ())"
  using assms
  by (simp only: validate_delivery_execution_payload_def res_simps delivery_events_ok
      delivery_unique_event_ids_def require_event_provenance_def not_not simp_thms de_Morgan_disj)
    (cases current; simp add: res_simps; blast)

text \<open>The run an accepted history follows.\<close>

lemma delivery_run:
  assumes "dget (hd events) ''toStatus'' = JStr ''engineeringReview''" and "events \<noteq> []"
    and "delivery_chain ''engineeringReview'' (tl events) = Inr state"
  shows "\<exists>ss. visits events ss \<and> hd ss = EngineeringReview \<and> ss \<noteq> []
    \<and> successively delivery_step ss \<and> state = status_name (last ss)"
proof -
  have "delivery_chain (status_name EngineeringReview) (tl events) = Inr state"
    using assms(3) by simp
  then obtain ss where ss: "visits (tl events) ss" "successively delivery_step (EngineeringReview # ss)"
    "state = status_name (last (EngineeringReview # ss))"
    unfolding delivery_chain_ok by blast
  have "visits events (EngineeringReview # ss)"
    using assms(1,2) ss(1) by (cases events) (auto simp: visits_def)
  with ss show ?thesis by (metis list.distinct(1) list.sel(1))
qed


lemma visits_functional: "visits evs ss \<Longrightarrow> visits evs ts \<Longrightarrow> ss = ts"
proof (induction evs arbitrary: ss ts)
  case (Cons ev evs)
  from Cons.prems obtain s ss' where ss: "ss = s # ss'" "visits evs ss'" "dget ev ''toStatus'' = JStr (status_name s)"
    by (cases ss) (auto simp: visits_def)
  from Cons.prems obtain t ts' where "ts = t # ts'" "visits evs ts'" "dget ev ''toStatus'' = JStr (status_name t)"
    by (cases ts) (auto simp: visits_def)
  with ss Cons.IH show ?case by simp
qed (simp add: visits_def)

lemma visits_py_eq:
  assumes "py_eq_list (map JObj ds) (map JObj es)" and "visits ds ss"
  shows "visits es ss"
proof -
  have "list_all2 (\<lambda>d e. py_eq (JObj d) (JObj e)) ds es"
    using assms(1) by (simp add: py_eq_list_all2 list_all2_map1 list_all2_map2 del: py_eq.simps)
  then show ?thesis
    using assms(2) py_eq_items_JStr
    by (fastforce simp: visits_def list_all2_conv_all_nth)
qed

lemma visits_take: "visits evs ss \<Longrightarrow> visits (take n evs) (take n ss)"
  by (simp add: visits_def)

text \<open>What the comparison with the canonical payload establishes.\<close>

lemma delivery_against_current_iff:
  "delivery_against_current payload current events p = Inr () \<longleftrightarrow>
     \<not> list_ex (\<lambda>key. \<not> py_eq (dget current key) (dget payload key)) IMMUTABLE_HANDOFF_KEYS
     \<and> (\<exists>old. dget current ''events'' = JList (map JObj old) \<and> length old \<le> length events
         \<and> py_eq_list (map JObj (take (length old) events)) (map JObj old)
         \<and> delivery_appended payload current (drop (length old) events) p = Inr ())"
  by (auto simp: delivery_against_current_def res_simps not_less)

lemma delivery_against_current_ok:
  assumes "delivery_against_current payload current events p = Inr ()"
  shows "\<exists>old appended. dget current ''events'' = JList (map JObj old)
    \<and> events = take (length old) events @ appended \<and> length old \<le> length events
    \<and> py_eq_list (map JObj (take (length old) events)) (map JObj old)
    \<and> length appended \<le> 1 \<and> (\<forall>ev \<in> set appended. authored_by p ev)
    \<and> (\<forall>key \<in> set IMMUTABLE_HANDOFF_KEYS. py_eq (dget current key) (dget payload key))
    \<and> (appended = [] \<longrightarrow> (\<forall>key \<in> set DELIVERY_PROTECTED. py_eq (dget current key) (dget payload key)))"
proof -
  from assms obtain old where imm: "\<not> list_ex (\<lambda>key. \<not> py_eq (dget current key) (dget payload key)) IMMUTABLE_HANDOFF_KEYS"
    and old: "dget current ''events'' = JList (map JObj old)" "length old \<le> length events"
      "py_eq_list (map JObj (take (length old) events)) (map JObj old)"
    and app: "delivery_appended payload current (drop (length old) events) p = Inr ()"
    unfolding delivery_against_current_iff by blast
  from app have rest: "(case drop (length old) events of
        [] \<Rightarrow> \<not> list_ex (\<lambda>key. \<not> py_eq (dget current key) (dget payload key)) DELIVERY_PROTECTED
      | newest # others \<Rightarrow> others = [] \<and> authored_by p newest)"
    by (auto simp: delivery_appended_def res_simps require_event_provenance_def split: list.splits)
  show ?thesis
  proof (intro exI conjI)
    show "events = take (length old) events @ drop (length old) events" by simp
    show "length (drop (length old) events) \<le> 1"
      using rest by (cases "drop (length old) events") auto
    show "\<forall>ev \<in> set (drop (length old) events). authored_by p ev"
      using rest by (cases "drop (length old) events") auto
    show "drop (length old) events = [] \<longrightarrow>
        (\<forall>key \<in> set DELIVERY_PROTECTED. py_eq (dget current key) (dget payload key))"
      using rest by (cases "drop (length old) events") (auto simp: list_ex_iff)
  qed (use imm old in \<open>simp_all add: list_ex_iff\<close>)
qed


section \<open>Plans\<close>

definition plan_of :: "json \<Rightarrow> dict option \<Rightarrow> bool" where
  "plan_of raw plan \<longleftrightarrow> (case plan of None \<Rightarrow> raw = JNull | Some d \<Rightarrow> raw = JObj d)"

lemma opt_eq_plan_of: "plan_of r a \<Longrightarrow> plan_of r' b \<Longrightarrow> opt_eq a b \<longleftrightarrow> py_eq r r'"
  by (cases a; cases b) (simp_all add: plan_of_def)

lemma materials_plan_of: "validate_materials_plan raw p = Inr plan \<Longrightarrow> plan_of raw plan"
  by (auto simp: validate_materials_plan_def plan_of_def res_simps split: if_splits)

lemma procurement_plan_of: "validate_procurement_plan raw m p = Inr plan \<Longrightarrow> plan_of raw plan"
  by (auto simp: validate_procurement_plan_def plan_of_def res_simps split: if_splits)

lemma production_plan_of: "production_validate_plan raw m p = Inr plan \<Longrightarrow> plan_of raw plan"
  by (auto simp: production_validate_plan_def plan_of_def res_simps split: if_splits)

lemma schedule_of: "validate_schedule raw m p = Inr plan \<Longrightarrow> plan_of raw plan"
  by (auto simp: validate_schedule_def plan_of_def res_simps split: if_splits)

lemma completion_of: "validate_completion raw m p = Inr plan \<Longrightarrow> plan_of raw plan"
  by (auto simp: validate_completion_def plan_of_def res_simps split: if_splits)

lemma closeout_of: "validate_closeout raw m p = Inr plan \<Longrightarrow> plan_of raw plan"
  by (auto simp: validate_closeout_def plan_of_def res_simps split: if_splits)

lemma frozen_sets:
  "status_name s \<in> set MATERIALS_FROZEN_STATUSES \<longleftrightarrow> Procurement \<le> s"
  "status_name s \<in> set PROCUREMENT_FROZEN_STATUSES \<longleftrightarrow> Production \<le> s"
  "status_name s \<in> set PRODUCTION_FROZEN_STATUSES \<longleftrightarrow> ReadyForInstallation \<le> s"
  "status_name s \<in> set INSTALLATION_FROZEN_STATUSES \<longleftrightarrow> Complete \<le> s"
  by (cases s; simp add: MATERIALS_FROZEN_STATUSES_def PROCUREMENT_FROZEN_STATUSES_def
      PRODUCTION_FROZEN_STATUSES_def INSTALLATION_FROZEN_STATUSES_def less_eq_delivery_status_def)+

lemma materials_frozen:
  assumes "validate_materials_handoff payload (Some current) p st = Inr ()"
    and "dget current ''status'' = JStr (status_name s)" and "Procurement \<le> s"
  shows "py_eq (dget payload ''materialsPlan'') (dget current ''materialsPlan'')"
proof -
  from assms(1) obtain plan cplan where
    "validate_materials_plan (dget payload ''materialsPlan'') p = Inr plan"
    "validate_materials_plan (dget current ''materialsPlan'') p = Inr cplan"
    and cmp: "materials_against_current payload plan current cplan p st = Inr ()"
    by (auto simp: validate_materials_handoff_def res_simps)
  moreover from cmp assms(2,3) have "opt_eq plan cplan"
    by (simp add: materials_against_current_def frozen_sets res_simps)
  ultimately show ?thesis using opt_eq_plan_of materials_plan_of by blast
qed

lemma procurement_frozen:
  assumes "validate_procurement_handoff payload (Some current) p st = Inr ()"
    and "dget current ''status'' = JStr (status_name s)" and "Production \<le> s"
  shows "py_eq (dget payload ''procurementPlan'') (dget current ''procurementPlan'')"
proof -
  from assms(1) obtain m plan cm cplan where
    "validate_procurement_plan (dget payload ''procurementPlan'') m p = Inr plan"
    "validate_procurement_plan (dget current ''procurementPlan'') cm p = Inr cplan"
    and cmp: "procurement_against_current payload plan current cplan p st = Inr ()"
    by (auto simp: validate_procurement_handoff_def res_simps)
  moreover from cmp assms(2,3) have "opt_eq plan cplan"
    by (simp add: procurement_against_current_def frozen_sets res_simps)
  ultimately show ?thesis using opt_eq_plan_of procurement_plan_of by blast
qed

lemma production_frozen:
  assumes "validate_production_handoff payload (Some current) p st = Inr ()"
    and "dget current ''status'' = JStr (status_name s)" and "ReadyForInstallation \<le> s"
  shows "py_eq (dget payload ''productionPlan'') (dget current ''productionPlan'')"
proof -
  from assms(1) obtain m plan cm cplan where
    "production_validate_plan (dget payload ''productionPlan'') m p = Inr plan"
    "production_validate_plan (dget current ''productionPlan'') cm p = Inr cplan"
    and cmp: "production_against_current payload plan current cplan p st = Inr ()"
    by (auto simp: validate_production_handoff_def res_simps)
  moreover have "opt_eq plan cplan"
    using production_against_current_frozen [OF cmp assms(2)] frozen_sets(3) assms(3) by blast
  ultimately show ?thesis using opt_eq_plan_of production_plan_of by blast
qed

lemma installed_name: "status_name s = ''installed'' \<longleftrightarrow> s = Installed"
  using status_name_inj [of s Installed] by simp

lemma installation_parts:
  assumes "validate_installation_handoff payload (Some current) p st = Inr ()"
  shows "\<exists>sch co cl csch cco ccl.
     plan_of (dget payload ''installationSchedule'') sch
     \<and> plan_of (dget payload ''installationCompletion'') co
     \<and> plan_of (dget payload ''deliveryCloseout'') cl
     \<and> plan_of (dget current ''installationSchedule'') csch
     \<and> plan_of (dget current ''installationCompletion'') cco
     \<and> plan_of (dget current ''deliveryCloseout'') ccl
     \<and> (dget current ''status'' = JStr ''complete'' \<longrightarrow> opt_eq sch csch \<and> opt_eq co cco \<and> opt_eq cl ccl)
     \<and> (dget current ''status'' = JStr ''installed'' \<longrightarrow> opt_eq sch csch \<and> opt_eq co cco)"
proof -
  from assms obtain m sch co cl where
    pl: "validate_schedule (dget payload ''installationSchedule'') m p = Inr sch"
      "validate_completion (dget payload ''installationCompletion'') sch p = Inr co"
      "validate_closeout (dget payload ''deliveryCloseout'') co p = Inr cl"
    and cmp: "installation_against_current payload current sch co cl p st = Inr ()"
    by (auto simp: validate_installation_handoff_def res_simps)
  from cmp obtain cm csch cco ccl where
    cpl: "validate_schedule (dget current ''installationSchedule'') cm p = Inr csch"
      "validate_completion (dget current ''installationCompletion'') csch p = Inr cco"
      "validate_closeout (dget current ''deliveryCloseout'') cco p = Inr ccl"
    and tail: "installation_transition payload (dget current ''status'') sch co cl csch cco ccl p st = Inr ()"
    by (auto simp: installation_against_current_def res_simps)
  have fin: "opt_eq sch csch \<and> opt_eq co cco \<and> opt_eq cl ccl" if "dget current ''status'' = JStr ''complete''"
    using tail that by (simp add: installation_transition_def INSTALLATION_FROZEN_STATUSES_def res_simps)
  have fin': "opt_eq sch csch \<and> opt_eq co cco" if "dget current ''status'' = JStr ''installed''"
    using tail that by (simp add: installation_transition_def INSTALLATION_FROZEN_STATUSES_def
        installation_from_installed_def res_simps)
  show ?thesis
    using schedule_of [OF pl(1)] completion_of [OF pl(2)] closeout_of [OF pl(3)]
      schedule_of [OF cpl(1)] completion_of [OF cpl(2)] closeout_of [OF cpl(3)] fin fin' by blast
qed

lemma installation_frozen:
  assumes "validate_installation_handoff payload (Some current) p st = Inr ()"
    and "dget current ''status'' = JStr (status_name s)"
  shows "(Installed \<le> s \<longrightarrow> py_eq (dget payload ''installationSchedule'') (dget current ''installationSchedule'')
         \<and> py_eq (dget payload ''installationCompletion'') (dget current ''installationCompletion''))
    \<and> (Complete \<le> s \<longrightarrow> py_eq (dget payload ''deliveryCloseout'') (dget current ''deliveryCloseout''))"
proof -
  have "Installed \<le> s \<longleftrightarrow> s = Installed \<or> s = Complete" "Complete \<le> s \<longleftrightarrow> s = Complete"
    by (cases s; simp add: less_eq_delivery_status_def)+
  then show ?thesis
    using installation_parts [OF assms(1)] assms(2) opt_eq_plan_of by fastforce
qed

section \<open>Gates\<close>

lemma materials_requirements_ok:
  "materials_requirements xs seen = Inr () \<Longrightarrow>
     \<exists>ms. xs = map JObj ms \<and> None \<notin> set (map (id_of ''id'') ms)
       \<and> distinct (map (id_of ''id'') ms) \<and> set (map (id_of ''id'') ms) \<inter> Some ` set seen = {}"
proof (induction xs arbitrary: seen)
  case (Cons x xs)
  from Cons.prems obtain d i where d: "x = JObj d" "normalized (dget d ''id'') = Some i" "i \<notin> set seen"
    and rec: "materials_requirements xs (i # seen) = Inr ()"
    by (auto simp: res_simps)
  from Cons.IH [OF rec] obtain ms where ms: "xs = map JObj ms" "None \<notin> set (map (id_of ''id'') ms)"
    "distinct (map (id_of ''id'') ms)" "set (map (id_of ''id'') ms) \<inter> Some ` set (i # seen) = {}"
    by blast
  show ?case
    by (rule exI [of _ "d # ms"]) (use ms d id_of_def [of "''id''" d] in \<open>auto\<close>)
qed simp

lemma procurement_requirements_ok:
  "procurement_requirements mats xs seen = Inr ids \<Longrightarrow>
     \<exists>rs. xs = map JObj rs \<and> Some ` set ids = set (map (id_of ''requirementID'') rs) \<union> Some ` set seen"
proof (induction xs arbitrary: seen)
  case (Cons x xs)
  from Cons.prems obtain d i where d: "x = JObj d" "normalized (dget d ''requirementID'') = Some i"
    and rec: "procurement_requirements mats xs (i # seen) = Inr ids"
    by (auto simp: res_simps)
  from Cons.IH [OF rec] obtain rs where rs: "xs = map JObj rs"
    "Some ` set ids = set (map (id_of ''requirementID'') rs) \<union> Some ` set (i # seen)"
    by blast
  show ?case
    by (rule exI [of _ "d # rs"]) (use rs d id_of_def [of "''requirementID''" d] in \<open>auto\<close>)
qed auto

lemma material_by_id_ids:
  assumes "dget m ''requirements'' = JList (map JObj ms)" and "None \<notin> set (map (id_of ''id'') ms)"
  shows "Some ` set (map fst (material_by_id m)) = set (map (id_of ''id'') ms)"
proof -
  have "Some ` fst ` set (List.map_filter (\<lambda>r. case as_dict r of None \<Rightarrow> None
        | Some d \<Rightarrow> map_option (\<lambda>i. (i, d)) (normalized (dget d ''id''))) (map JObj ms))
      = set (map (id_of ''id'') ms)" if "None \<notin> set (map (id_of ''id'') ms)" for ms
    using that by (induction ms) (auto simp: List.map_filter_simps id_of_def split: option.splits)
  then show ?thesis using assms by (simp add: material_by_id_def)
qed

text \<open>Every material of the frozen plan is available.\<close>

definition all_materials_available :: "dict \<Rightarrow> bool" where
  "all_materials_available payload \<longleftrightarrow>
     (\<exists>m q ms rs. dget payload ''materialsPlan'' = JObj m \<and> dget payload ''procurementPlan'' = JObj q
        \<and> dget m ''requirements'' = JList (map JObj ms) \<and> ms \<noteq> []
        \<and> dget q ''requirements'' = JList (map JObj rs)
        \<and> (\<forall>d \<in> set ms. \<exists>r \<in> set rs. id_of ''requirementID'' r = id_of ''id'' d
              \<and> dget r ''status'' = JStr ''available''))"

lemma materials_plan_ids:
  "validate_materials_plan raw p = Inr (Some m) \<Longrightarrow>
     raw = JObj m \<and> (\<exists>ms. dget m ''requirements'' = JList (map JObj ms) \<and> ms \<noteq> []
       \<and> None \<notin> set (map (id_of ''id'') ms))"
  by (auto simp: validate_materials_plan_def res_simps split: if_splits dest!: materials_requirements_ok)

lemma procurement_plan_ids:
  assumes "validate_procurement_plan raw (Some m) p = Inr (Some q)"
  shows "raw = JObj q \<and> (\<exists>rs. dget q ''requirements'' = JList (map JObj rs)
       \<and> set (map (id_of ''requirementID'') rs) = Some ` set (map fst (material_by_id m)))"
proof -
  from assms obtain xs ids where raw: "raw = JObj q" and xs: "dget q ''requirements'' = JList xs"
    and loop: "procurement_requirements (material_by_id m) xs [] = Inr ids"
    and ids: "set ids = set (map fst (material_by_id m))"
    by (auto simp: validate_procurement_plan_def res_simps split: if_splits)
  from procurement_requirements_ok [OF loop] obtain rs where
    "xs = map JObj rs" "Some ` set ids = set (map (id_of ''requirementID'') rs)"
    by auto
  with raw xs ids show ?thesis by auto
qed

definition materials_planned :: "dict \<Rightarrow> bool" where
  "materials_planned payload \<longleftrightarrow>
     (\<exists>m ms. dget payload ''materialsPlan'' = JObj m \<and> dget m ''requirements'' = JList (map JObj ms) \<and> ms \<noteq> []
        \<and> None \<notin> set (map (id_of ''id'') ms))"

lemma materials_gate:
  assumes "validate_materials_handoff payload current p (status_name s) = Inr ()"
  shows "(s = EngineeringReview \<longrightarrow> dget payload ''materialsPlan'' = JNull) \<and> (Procurement \<le> s \<longrightarrow> materials_planned payload)"
proof -
  from assms obtain plan where plan: "validate_materials_plan (dget payload ''materialsPlan'') p = Inr plan"
    and "\<not> (status_name s = ''engineeringReview'' \<and> plan \<noteq> None)"
    and "\<not> (status_name s \<in> set MATERIALS_FROZEN_STATUSES \<and> plan = None)"
    by (auto simp: validate_materials_handoff_def res_simps)
  then have none: "s = EngineeringReview \<longrightarrow> plan = None" and some: "Procurement \<le> s \<longrightarrow> plan \<noteq> None"
    by (auto simp: frozen_sets)
  have "dget payload ''materialsPlan'' = JNull" if "plan = None"
    using plan that by (auto simp: validate_materials_plan_def res_simps split: if_splits option.splits)
  moreover have "materials_planned payload" if "plan \<noteq> None"
    using plan that materials_plan_ids unfolding materials_planned_def by blast
  ultimately show ?thesis using none some by blast
qed

lemma production_gate:
  assumes "validate_procurement_handoff payload current p (status_name s) = Inr ()"
    and "Production \<le> s"
  shows "all_materials_available payload"
proof -
  from assms obtain m' plan where
    m': "validate_materials_plan (dget payload ''materialsPlan'') p = Inr m'"
    and plan: "validate_procurement_plan (dget payload ''procurementPlan'') m' p = Inr plan"
    and ready: "require_production_ready plan = Inr ()"
    by (auto simp: validate_procurement_handoff_def res_simps frozen_sets)
  from ready obtain q ds where q: "plan = Some q"
    and ds: "dget_default q ''requirements'' (JList []) = JList (map JObj ds)"
    and avail: "\<forall>r \<in> set ds. dget r ''status'' = JStr ''available''"
    by (auto simp: require_production_ready_def res_simps list_ex_iff)
  from plan q obtain m where m: "m' = Some m"
    by (cases m') (auto simp: validate_procurement_plan_def res_simps split: if_splits)
  obtain ms where ms: "dget payload ''materialsPlan'' = JObj m" "dget m ''requirements'' = JList (map JObj ms)"
    "ms \<noteq> []" "None \<notin> set (map (id_of ''id'') ms)"
    using materials_plan_ids m' m by blast
  obtain rs where rs: "dget payload ''procurementPlan'' = JObj q" "dget q ''requirements'' = JList (map JObj rs)"
    "set (map (id_of ''requirementID'') rs) = Some ` set (map fst (material_by_id m))"
    using procurement_plan_ids plan q m by blast
  from rs(2) ds have "ds = rs"
    by (auto simp: dget_default_def dget_def split: option.splits)
  have "set (map (id_of ''requirementID'') rs) = set (map (id_of ''id'') ms)"
    using rs(3) material_by_id_ids [OF ms(2,4)] by simp
  then have "\<exists>r \<in> set rs. id_of ''requirementID'' r = id_of ''id'' d \<and> dget r ''status'' = JStr ''available''"
    if "d \<in> set ms" for d
  proof -
    have "id_of ''id'' d \<in> set (map (id_of ''requirementID'') rs)"
      using that \<open>set (map (id_of ''requirementID'') rs) = set (map (id_of ''id'') ms)\<close> by auto
    with avail \<open>ds = rs\<close> show ?thesis by auto
  qed
  with ms rs show ?thesis unfolding all_materials_available_def by blast
qed


lemma production_steps_ok:
  "production_steps xs seen = Inr () \<Longrightarrow> \<exists>ds. xs = map JObj ds"
proof (induction xs arbitrary: seen)
  case (Cons x xs)
  from Cons.prems obtain d i where d: "x = JObj d" and rec: "production_steps xs (i # seen) = Inr ()"
    by (auto simp: res_simps)
  from Cons.IH [OF rec] obtain ds where "xs = map JObj ds" by blast
  with d show ?case by (intro exI [of _ "d # ds"]) simp
qed simp

text \<open>Every step of the production plan is complete.\<close>

definition all_steps_complete :: "dict \<Rightarrow> bool" where
  "all_steps_complete payload \<longleftrightarrow>
     (\<exists>m ds. dget payload ''productionPlan'' = JObj m \<and> dget m ''steps'' = JList (map JObj ds) \<and> ds \<noteq> []
        \<and> (\<forall>d \<in> set ds. dget d ''status'' = JStr ''complete''))"

lemma ready_gate:
  assumes "validate_production_handoff payload current p (status_name s) = Inr ()"
    and "ReadyForInstallation \<le> s"
  shows "all_steps_complete payload"
proof -
  from assms obtain plan where
    plan: "production_validate_plan (dget payload ''productionPlan'') (dget payload ''procurementPlan'') p = Inr plan"
    and ready: "require_installation_ready plan = Inr ()"
    by (auto simp: validate_production_handoff_def res_simps frozen_sets)
  from ready obtain q ds where q: "plan = Some q"
    and ds: "dget_default q ''steps'' (JList []) = JList (map JObj ds)"
    and fin: "\<forall>d \<in> set ds. dget d ''status'' = JStr ''complete''"
    by (auto simp: require_installation_ready_def res_simps list_ex_iff)
  from plan q have raw: "dget payload ''productionPlan'' = JObj q"
    using production_plan_of by (fastforce simp: plan_of_def)
  from plan q obtain xs where "dget q ''steps'' = JList xs" "xs \<noteq> []"
    by (auto simp: production_validate_plan_def res_simps split: if_splits)
  with ds have "dget q ''steps'' = JList (map JObj ds)" "ds \<noteq> []"
    by (auto simp: dget_default_def dget_def split: option.splits)
  with raw fin show ?thesis unfolding all_steps_complete_def by blast
qed

text \<open>The installation records a delivery in a given status carries.\<close>

lemma references_loop_ok: "references_loop xs seen = Inr refs \<Longrightarrow> xs = map JObj refs"
  by (induction xs seen arbitrary: refs rule: references_loop.induct)
    (auto simp: res_simps split: option.splits)

definition completion_recorded :: "dict \<Rightarrow> bool" where
  "completion_recorded payload \<longleftrightarrow>
     (\<exists>co refs. dget payload ''installationCompletion'' = JObj co
        \<and> dget co ''evidenceReferences'' = JList (map JObj refs) \<and> refs \<noteq> []
        \<and> normalized (dget co ''completedAt'') \<noteq> None)"

definition closeout_recorded :: "dict \<Rightarrow> bool" where
  "closeout_recorded payload \<longleftrightarrow>
     (\<exists>cl refs. dget payload ''deliveryCloseout'' = JObj cl
        \<and> dget cl ''evidenceReferences'' = JList (map JObj refs)
        \<and> (refs \<noteq> [] \<or> normalized (dget cl ''note'') \<noteq> None))"

lemma validate_completion_Some:
  "validate_completion raw sch p = Inr (Some co) \<Longrightarrow> raw = JObj co
     \<and> (\<exists>refs. dget co ''evidenceReferences'' = JList (map JObj refs) \<and> refs \<noteq> [])
     \<and> normalized (dget co ''completedAt'') \<noteq> None"
  by (auto simp: validate_completion_def validated_references_def res_simps
      split: if_splits dest!: references_loop_ok)

lemma validate_closeout_Some:
  "validate_closeout raw co p = Inr (Some cl) \<Longrightarrow> raw = JObj cl
     \<and> (\<exists>refs. dget cl ''evidenceReferences'' = JList (map JObj refs)
          \<and> (refs \<noteq> [] \<or> normalized (dget cl ''note'') \<noteq> None))"
  by (auto simp: validate_closeout_def validated_references_def res_simps
      split: if_splits dest!: references_loop_ok)

lemma installation_gate:
  assumes "validate_installation_handoff payload current p (status_name s) = Inr ()"
  shows "(Scheduled \<le> s \<longrightarrow> is_dict (dget payload ''installationSchedule''))
    \<and> (Installed \<le> s \<longrightarrow> completion_recorded payload)
    \<and> (s = Complete \<longrightarrow> closeout_recorded payload)
    \<and> (s \<noteq> Complete \<longrightarrow> dget payload ''deliveryCloseout'' = JNull)"
proof -
  from assms obtain m sch co cl where
    pl: "validate_schedule (dget payload ''installationSchedule'') m p = Inr sch"
      "validate_completion (dget payload ''installationCompletion'') sch p = Inr co"
      "validate_closeout (dget payload ''deliveryCloseout'') co p = Inr cl"
    and pres: "installation_presence (status_name s) sch co cl = Inr ()"
    by (auto simp: validate_installation_handoff_def res_simps)
  from pres have st: "(Scheduled \<le> s \<longrightarrow> sch \<noteq> None) \<and> (Installed \<le> s \<longrightarrow> co \<noteq> None)
      \<and> (s = Complete \<longleftrightarrow> cl \<noteq> None)"
    by (cases s) (simp_all add: installation_presence_def res_simps less_eq_delivery_status_def)
  have "is_dict (dget payload ''installationSchedule'')" if "sch \<noteq> None"
    using schedule_of [OF pl(1)] that by (auto simp: plan_of_def)
  moreover have "completion_recorded payload" if "co \<noteq> None"
    using pl(2) that validate_completion_Some unfolding completion_recorded_def by blast
  moreover have "closeout_recorded payload" if "cl \<noteq> None"
    using pl(3) that validate_closeout_Some unfolding closeout_recorded_def by blast
  moreover have "dget payload ''deliveryCloseout'' = JNull" if "cl = None"
    using closeout_of [OF pl(3)] that by (simp add: plan_of_def)
  ultimately show ?thesis using st by blast
qed


section \<open>Authority\<close>

text \<open>A reference that names a live evidence document of a live item of the project.\<close>

definition live_reference :: "db \<Rightarrow> principal \<Rightarrow> string \<Rightarrow> json \<Rightarrow> bool" where
  "live_reference db p project_id r \<longleftrightarrow>
     (\<exists>d item_id document_id item evidence. r = JObj d
        \<and> normalized (dget d ''itemID'') = Some item_id \<and> normalized (dget d ''documentID'') = Some document_id
        \<and> get_item db (organization_id p) item_id = Some item
        \<and> ci_deleted_at item = None \<and> ci_project_id item = project_id
        \<and> get_item_child db (organization_id p) ''evidence'' document_id = Some evidence
        \<and> ic_deleted_at evidence = None \<and> ic_item_id evidence = item_id)"

lemma evidence_reference_authority_ok:
  "evidence_reference_authority db p project_id r = Inr () \<Longrightarrow> live_reference db p project_id r"
  unfolding evidence_reference_authority_def live_reference_def
  by (auto simp: res_simps split: option.splits)

text \<open>The records whose evidence is checked: those the update changes.\<close>

definition record_evidence_live :: "db \<Rightarrow> principal \<Rightarrow> dict \<Rightarrow> dict option \<Rightarrow> string \<Rightarrow> string \<Rightarrow> bool" where
  "record_evidence_live db p payload cur key project_id \<longleftrightarrow>
     (\<forall>d refs. dget payload key = JObj d \<longrightarrow> dget d ''evidenceReferences'' = JList refs \<longrightarrow>
        \<not> py_eq (JObj d) (case cur of None \<Rightarrow> JNull | Some c \<Rightarrow> dget c key) \<longrightarrow>
        (\<forall>r \<in> set refs. live_reference db p project_id r))"

lemma changed_record_authority_ok:
  assumes "changed_record_authority db p payload cur key project_id = Inr ()"
  shows "record_evidence_live db p payload cur key project_id"
  unfolding record_evidence_live_def
proof (intro allI impI ballI)
  fix d refs r
  assume d: "dget payload key = JObj d" and refs: "dget d ''evidenceReferences'' = JList refs"
    and ch: "\<not> py_eq (JObj d) (case cur of None \<Rightarrow> JNull | Some c \<Rightarrow> dget c key)" and r: "r \<in> set refs"
  from refs have "dget_default d ''evidenceReferences'' (JList []) = JList refs"
    by (auto simp: dget_default_def dget_def split: option.splits)
  with assms d ch have "\<forall>x \<in> set refs. evidence_reference_authority db p project_id x = Inr ()"
    by (simp add: changed_record_authority_def validate_evidence_authority_def res_simps del: py_eq.simps)
  with r show "live_reference db p project_id r" using evidence_reference_authority_ok by blast
qed

text \<open>The approved quotation a delivery is bound to.\<close>

definition bound_quotation :: "db \<Rightarrow> principal \<Rightarrow> dict \<Rightarrow> string \<Rightarrow> string \<Rightarrow> bool" where
  "bound_quotation db p payload project_id customer_id \<longleftrightarrow>
     (\<exists>qid ent quote quoted total revision.
        normalized (dget payload ''quotationID'') = Some qid
        \<and> get_entity db (organization_id p) ''quotation'' qid = Some ent
        \<and> se_deleted_at ent = None \<and> se_payload_json ent = JObj quote
        \<and> dget quote ''status'' = JStr ''approved''
        \<and> dget quote ''projectID'' = JStr project_id \<and> dget quote ''customerID'' = JStr customer_id
        \<and> delivery_quotation_revision quote = Inr revision
        \<and> py_eq (dget payload ''quotationRevision'') (JInt revision)
        \<and> py_eq (dget payload ''currencyCode'') (dget quote ''currencyCode'')
        \<and> delivery_decimal (dget payload ''quotedTotal'') = Inr quoted
        \<and> quotation_total quote = Inr total \<and> dec_eq quoted total = Inr True)"

lemma delivery_quotation_authority_ok:
  assumes "delivery_quotation_authority db p payload project_id customer_id qid = Inr ()"
    and "normalized (dget payload ''quotationID'') = Some qid"
  shows "bound_quotation db p payload project_id customer_id"
  using assms unfolding bound_quotation_def
  by (simp only: delivery_quotation_authority_def res_simps as_dict_Some not_not simp_thms
      de_Morgan_disj) (clarify, simp)

lemma authorize_delivery_parts:
  assumes "authorize_delivery_execution db p scope entity_id payload del cur = Inr project_id"
  shows "DELIVERY_CAPABILITY \<in> capabilities p \<and> del = None
    \<and> (\<exists>cp project qid. delivery_current_payload cur
          (get_project_child db (organization_id p) DELIVERY_ENTITY_TYPE entity_id) = Inr cp
        \<and> validate_delivery_execution_payload payload cp p entity_id = Inr ()
        \<and> normalized (dget payload ''projectID'') = Some project_id
        \<and> normalized (dget payload ''quotationID'') = Some qid
        \<and> get_project db (organization_id p) project_id = Some project \<and> cp_deleted_at project = None
        \<and> normalized (dget payload ''customerID'') = Some (cp_customer_id project)
        \<and> can_access_project scope (cp_project_id project) (cp_customer_id project)
        \<and> validate_installation_evidence_authority db p payload cp project_id = Inr ()
        \<and> delivery_quotation_authority db p payload project_id (cp_customer_id project) qid = Inr ()
        \<and> (\<forall>c. get_project_child db (organization_id p) DELIVERY_ENTITY_TYPE entity_id = Some c
              \<longrightarrow> pc_project_id c = project_id))"
  using assms unfolding authorize_delivery_execution_def Let_def
  by (auto simp: res_simps split: option.splits if_splits)

section \<open>A sample delivery\<close>

definition demo_dev :: "string \<Rightarrow> json \<Rightarrow> string \<Rightarrow> json" where
  "demo_dev i f t = JObj ([(''id'', JStr i), (''fromStatus'', f), (''toStatus'', JStr t),
     (''occurredAt'', JStr i)] @ demo_provenance)"

definition demo_run :: "json list" where
  "demo_run = [demo_dev ''t1'' JNull ''engineeringReview'',
     demo_dev ''t2'' (JStr ''engineeringReview'') ''materialsRequired'',
     demo_dev ''t3'' (JStr ''materialsRequired'') ''procurement'',
     demo_dev ''t4'' (JStr ''procurement'') ''production'',
     demo_dev ''t5'' (JStr ''production'') ''readyForInstallation'',
     demo_dev ''t6'' (JStr ''readyForInstallation'') ''scheduled'',
     demo_dev ''t7'' (JStr ''scheduled'') ''installed'',
     demo_dev ''t8'' (JStr ''installed'') ''complete'']"

definition demo_handoff :: dict where
  "demo_handoff = [(''id'', JStr ''d''), (''quotationID'', JStr ''q''), (''quotationNumber'', JStr ''Q1''),
     (''quotationRevision'', JInt 1), (''projectID'', JStr ''p''), (''customerID'', JStr ''c''),
     (''currencyCode'', JStr ''EUR''), (''quotedTotal'', JStr ''10.50''), (''pricingVersion'', JStr ''v''),
     (''startedAt'', JStr ''t1'')]"

definition demo_plans :: dict where
  "demo_plans = [
     (''materialsPlan'', JObj ([(''revision'', JInt 1), (''updatedAt'', JStr ''t2''),
        (''requirements'', JList [JObj [(''id'', JStr ''glass''), (''description'', JStr ''pane''),
           (''unit'', JStr ''m2''), (''quantity'', JStr ''2.5'')]])] @ demo_provenance)),
     (''procurementPlan'', JObj ([(''revision'', JInt 1), (''materialsPlanRevision'', JInt 1),
        (''updatedAt'', JStr ''t3''),
        (''requirements'', JList [JObj [(''requirementID'', JStr ''glass''),
           (''status'', JStr ''available'')]])] @ demo_provenance)),
     (''productionPlan'', JObj ([(''revision'', JInt 1), (''procurementPlanRevision'', JInt 1),
        (''updatedAt'', JStr ''t4''),
        (''steps'', JList [JObj [(''id'', JStr ''cut''), (''description'', JStr ''cut glass''),
           (''status'', JStr ''complete'')]])] @ demo_provenance)),
     (''installationSchedule'', JObj ([(''revision'', JInt 1), (''productionPlanRevision'', JInt 1),
        (''scheduledFor'', JStr ''t6''), (''updatedAt'', JStr ''t5'')] @ demo_provenance)),
     (''installationCompletion'', JObj ([(''revision'', JInt 1), (''installationScheduleRevision'', JInt 1),
        (''completedAt'', JStr ''t7''), (''updatedAt'', JStr ''t7''),
        (''evidenceReferences'', JList [JObj [(''itemID'', JStr ''i''), (''documentID'', JStr ''e'')]])]
        @ demo_provenance))]"

definition demo_installed :: dict where
  "demo_installed = demo_handoff @ [(''status'', JStr ''installed''), (''updatedAt'', JStr ''t7''),
     (''events'', JList (take 7 demo_run))] @ demo_plans"

definition demo_complete :: dict where
  "demo_complete = demo_handoff @ [(''status'', JStr ''complete''), (''updatedAt'', JStr ''t8''),
     (''events'', JList demo_run)] @ demo_plans
     @ [(''deliveryCloseout'', JObj ([(''revision'', JInt 1), (''installationCompletionRevision'', JInt 1),
        (''closedAt'', JStr ''t8''), (''updatedAt'', JStr ''t8''), (''note'', JStr ''accepted''),
        (''evidenceReferences'', JList [])] @ demo_provenance))]"

lemma demo_installed_accepted:
  "validate_delivery_execution_payload demo_installed None demo_principal ''d'' = Inr ()"
  by code_simp

lemma demo_complete_accepted:
  "validate_delivery_execution_payload demo_complete (Some demo_installed) demo_principal ''d'' = Inr ()"
  by code_simp

definition demo_delivery_db :: db where
  "demo_delivery_db = empty_db\<lparr>
     canonical_projects := [\<lparr>cp_organization_id = ''o'', cp_project_id = ''p'', cp_customer_id = ''c'',
       cp_deleted_at = None\<rparr>],
     canonical_items := [\<lparr>ci_organization_id = ''o'', ci_item_id = ''i'', ci_project_id = ''p'',
       ci_project_sector_id = None, ci_deleted_at = None\<rparr>],
     canonical_item_children := [\<lparr>ic_organization_id = ''o'', ic_entity_type = ''evidence'',
       ic_entity_id = ''e'', ic_item_id = ''i'', ic_deleted_at = None\<rparr>],
     sync_entities := [\<lparr>se_organization_id = ''o'', se_entity_type = ''quotation'', se_entity_id = ''q'',
       se_server_revision = 4, se_payload_json = JObj [(''status'', JStr ''approved''),
         (''projectID'', JStr ''p''), (''customerID'', JStr ''c''), (''number'', JStr ''Q1''),
         (''currencyCode'', JStr ''EUR''), (''pricingVersion'', JStr ''v''),
         (''events'', JList [JObj [(''kind'', JStr ''approved'')]]),
         (''lines'', JList [JObj [(''totalPrice'', JStr ''4.25'')], JObj [(''totalPrice'', JStr ''6.25'')]])],
       se_updated_at = demo_time, se_deleted_at = None\<rparr>]\<rparr>"

lemma demo_delivery_authorized:
  "authorize_delivery_execution demo_delivery_db demo_principal (from_principal demo_principal) ''d''
     demo_installed None None = Inr ''p''"
  by code_simp

section \<open>Properties\<close>

text \<open>
  C33. Every delivery payload the server accepts carries a history that is a run of the delivery
  machine: it starts in Engineering Review, each event moves to the next status or revises the
  plan of the status it is in, the run ends in the status the payload claims, the event ids are
  distinct and every event is attributed within the organization.
\<close>

theorem delivery_history_is_run:
  assumes "validate_delivery_execution_payload payload current p entity_id = Inr ()"
  shows "\<exists>events ss. dget payload ''events'' = JList (map JObj events) \<and> visits events ss
    \<and> hd ss = EngineeringReview \<and> successively delivery_step ss
    \<and> dget payload ''status'' = JStr (status_name (last ss))
    \<and> distinct (map (id_of ''id'') events) \<and> (\<forall>ev \<in> set events. attributed p ev)"
proof -
  obtain events state where
    ev: "dget payload ''events'' = JList (map JObj events)" "events \<noteq> []"
      "distinct (map (id_of ''id'') events)" "\<forall>ev \<in> set events. attributed p ev"
    and run: "dget (hd events) ''toStatus'' = JStr ''engineeringReview''"
      "delivery_chain ''engineeringReview'' (tl events) = Inr state"
    and st: "dget payload ''status'' = JStr state"
    using validate_delivery_parts [OF assms] by blast
  from delivery_run [OF run(1) ev(2) run(2)] ev st show ?thesis by blast
qed

theorem delivery_history_is_run_witness:
  "\<exists>events ss. dget demo_complete ''events'' = JList (map JObj events) \<and> visits events ss
    \<and> hd ss = EngineeringReview \<and> successively delivery_step ss
    \<and> dget demo_complete ''status'' = JStr (status_name (last ss))
    \<and> distinct (map (id_of ''id'') events) \<and> (\<forall>ev \<in> set events. attributed demo_principal ev)"
  by (rule delivery_history_is_run [OF demo_complete_accepted])

text \<open>
  An accepted update moves a delivery by at most one step: if the canonical payload was itself
  accepted in status s and the update is accepted in status t, then t is s or one delivery step
  from s. A delivery never goes back and never skips a status.
\<close>

theorem delivery_update_one_step:
  assumes "validate_delivery_execution_payload cp earlier q entity_id = Inr ()"
    and "validate_delivery_execution_payload payload (Some cp) p entity_id = Inr ()"
  shows "\<exists>s t. dget cp ''status'' = JStr (status_name s) \<and> dget payload ''status'' = JStr (status_name t)
    \<and> (t = s \<or> delivery_step s t) \<and> s \<le> t"
proof -
  obtain old ss where old: "dget cp ''events'' = JList (map JObj old)" "visits old ss" "ss \<noteq> []"
    "dget cp ''status'' = JStr (status_name (last ss))"
    using validate_delivery_parts [OF assms(1)] delivery_run by metis
  obtain events ts where new: "dget payload ''events'' = JList (map JObj events)" "visits events ts" "ts \<noteq> []"
    "successively delivery_step ts" "dget payload ''status'' = JStr (status_name (last ts))"
    and cmp: "delivery_against_current payload cp events p = Inr ()"
    using validate_delivery_parts [OF assms(2)] delivery_run by metis
  obtain old' appended where pre: "dget cp ''events'' = JList (map JObj old')"
    "events = take (length old') events @ appended" "length old' \<le> length events"
    "py_eq_list (map JObj (take (length old') events)) (map JObj old')" "length appended \<le> 1"
    using delivery_against_current_ok [OF cmp] by blast
  from old(1) pre(1) have [simp]: "old' = old" by (simp add: map_JObj_inj)
  have "visits old (take (length old) ts)"
    using visits_py_eq [OF pre(4)] visits_take [OF new(2)] by simp
  then have ss: "ss = take (length old) ts" using old(2) visits_functional by blast
  have "length ts = length events" using new(2) by (simp add: visits_def list_all2_lengthD)
  moreover have "length events \<le> Suc (length old)"
    using arg_cong [OF pre(2), of length] pre(3,5) by simp
  ultimately have step: "last ts = last ss \<or> delivery_step (last ss) (last ts)"
  proof (cases "length ts = length old")
    case False
    then have len: "length ts = Suc (length old)"
      using pre(3) \<open>length ts = length events\<close> \<open>length events \<le> Suc (length old)\<close> by simp
    then obtain t where ts: "ts = ss @ [t]"
      using ss by (cases ts rule: rev_cases) simp_all
    then show ?thesis using new(4) old(3) by (simp add: successively_append_iff)
  qed (simp add: ss)
  moreover have "last ss \<le> last ts" using step delivery_step_le by auto
  ultimately show ?thesis using old(4) new(5) by blast
qed

theorem delivery_update_one_step_witness:
  "\<exists>s t. dget demo_installed ''status'' = JStr (status_name s)
    \<and> dget demo_complete ''status'' = JStr (status_name t) \<and> (t = s \<or> delivery_step s t) \<and> s \<le> t"
  by (rule delivery_update_one_step [OF demo_installed_accepted demo_complete_accepted])

text \<open>
  An accepted update of a delivery keeps the canonical history as a prefix and appends at
  most one event, authored by the authenticated principal; the handoff fields (quotation,
  project, customer, currency, total, pricing version, start) never change; and when no event is
  appended, status, timestamps and every plan are unchanged.
\<close>

theorem delivery_history_append_only:
  assumes "validate_delivery_execution_payload payload (Some cp) p entity_id = Inr ()"
  shows "\<exists>old kept appended. dget cp ''events'' = JList (map JObj old)
    \<and> dget payload ''events'' = JList (map JObj (kept @ appended))
    \<and> py_eq_list (map JObj kept) (map JObj old)
    \<and> length appended \<le> 1 \<and> (\<forall>ev \<in> set appended. authored_by p ev)
    \<and> (\<forall>key \<in> set IMMUTABLE_HANDOFF_KEYS. py_eq (dget cp key) (dget payload key))
    \<and> (appended = [] \<longrightarrow> (\<forall>key \<in> set DELIVERY_PROTECTED. py_eq (dget cp key) (dget payload key)))"
proof -
  obtain events where ev: "dget payload ''events'' = JList (map JObj events)"
    and cmp: "delivery_against_current payload cp events p = Inr ()"
    using validate_delivery_parts [OF assms] by blast
  from delivery_against_current_ok [OF cmp] show ?thesis unfolding ev by metis
qed

theorem delivery_history_append_only_witness:
  "\<exists>old kept appended. dget demo_installed ''events'' = JList (map JObj old)
    \<and> dget demo_complete ''events'' = JList (map JObj (kept @ appended))
    \<and> py_eq_list (map JObj kept) (map JObj old)
    \<and> length appended \<le> 1 \<and> (\<forall>ev \<in> set appended. authored_by demo_principal ev)
    \<and> (\<forall>key \<in> set IMMUTABLE_HANDOFF_KEYS. py_eq (dget demo_installed key) (dget demo_complete key))
    \<and> (appended = [] \<longrightarrow>
        (\<forall>key \<in> set DELIVERY_PROTECTED. py_eq (dget demo_installed key) (dget demo_complete key)))"
  by (rule delivery_history_append_only [OF demo_complete_accepted])


text \<open>
  Plans freeze as work advances: when the canonical delivery is in Procurement or later an
  accepted update leaves the materials plan as it is, from Production on the procurement plan,
  from Ready for Installation on the production plan, from Installed on the installation schedule
  and completion, and once Complete the closeout.
\<close>

theorem delivery_plans_frozen:
  assumes "validate_delivery_execution_payload payload (Some cp) p entity_id = Inr ()"
    and "dget cp ''status'' = JStr (status_name s)"
  shows "(Procurement \<le> s \<longrightarrow> py_eq (dget payload ''materialsPlan'') (dget cp ''materialsPlan''))
    \<and> (Production \<le> s \<longrightarrow> py_eq (dget payload ''procurementPlan'') (dget cp ''procurementPlan''))
    \<and> (ReadyForInstallation \<le> s \<longrightarrow> py_eq (dget payload ''productionPlan'') (dget cp ''productionPlan''))
    \<and> (Installed \<le> s \<longrightarrow> py_eq (dget payload ''installationSchedule'') (dget cp ''installationSchedule'')
         \<and> py_eq (dget payload ''installationCompletion'') (dget cp ''installationCompletion''))
    \<and> (Complete \<le> s \<longrightarrow> py_eq (dget payload ''deliveryCloseout'') (dget cp ''deliveryCloseout''))"
proof -
  obtain state where ho: "validate_materials_handoff payload (Some cp) p state = Inr ()"
    "validate_procurement_handoff payload (Some cp) p state = Inr ()"
    "validate_production_handoff payload (Some cp) p state = Inr ()"
    "validate_installation_handoff payload (Some cp) p state = Inr ()"
    using validate_delivery_parts [OF assms(1)] by blast
  show ?thesis
    using materials_frozen [OF ho(1) assms(2)] procurement_frozen [OF ho(2) assms(2)]
      production_frozen [OF ho(3) assms(2)] installation_frozen [OF ho(4) assms(2)] by blast
qed

theorem delivery_plans_frozen_witness:
  "py_eq (dget demo_complete ''materialsPlan'') (dget demo_installed ''materialsPlan'')
    \<and> py_eq (dget demo_complete ''installationCompletion'') (dget demo_installed ''installationCompletion'')"
proof -
  have "dget demo_installed ''status'' = JStr (status_name Installed)" by code_simp
  from delivery_plans_frozen [OF demo_complete_accepted this] show ?thesis
    by (simp add: less_eq_delivery_status_def)
qed

text \<open>
  C34. Work gates, for a new delivery as for an update: an accepted payload in Engineering Review has
  no materials plan; in Procurement or later it has one with at least one material, each with an id;
  in Production or later it has every material of its plan available; in Ready for Installation or later every production
  step complete; in Scheduled or later a schedule; in Installed or later a completion record with
  a date and at least one evidence reference; a closeout exactly in Complete, with a note or a
  reference.
\<close>

theorem delivery_gates:
  assumes "validate_delivery_execution_payload payload current p entity_id = Inr ()"
    and "dget payload ''status'' = JStr (status_name s)"
  shows "(s = EngineeringReview \<longrightarrow> dget payload ''materialsPlan'' = JNull)
    \<and> (Procurement \<le> s \<longrightarrow> materials_planned payload)
    \<and> (Production \<le> s \<longrightarrow> all_materials_available payload)
    \<and> (ReadyForInstallation \<le> s \<longrightarrow> all_steps_complete payload)
    \<and> (Scheduled \<le> s \<longrightarrow> is_dict (dget payload ''installationSchedule''))
    \<and> (Installed \<le> s \<longrightarrow> completion_recorded payload)
    \<and> (s = Complete \<longrightarrow> closeout_recorded payload)
    \<and> (s \<noteq> Complete \<longrightarrow> dget payload ''deliveryCloseout'' = JNull)"
proof -
  obtain state where ho: "dget payload ''status'' = JStr state"
    "validate_procurement_handoff payload current p state = Inr ()"
    "validate_production_handoff payload current p state = Inr ()"
    "validate_installation_handoff payload current p state = Inr ()"
    "validate_materials_handoff payload current p state = Inr ()"
    using validate_delivery_parts [OF assms(1)] by blast
  with assms(2) have [simp]: "state = status_name s" by simp
  show ?thesis
    using materials_gate production_gate ready_gate installation_gate ho(2-5) by simp
qed

theorem delivery_gates_witness:
  "materials_planned demo_complete \<and> all_materials_available demo_complete \<and> all_steps_complete demo_complete
    \<and> completion_recorded demo_complete \<and> closeout_recorded demo_complete"
proof -
  have "dget demo_complete ''status'' = JStr (status_name Complete)" by code_simp
  from delivery_gates [OF demo_complete_accepted this] show ?thesis
    by (simp add: less_eq_delivery_status_def)
qed


text \<open>
  Authority of an accepted delivery mutation: the principal holds the delivery capability,
  the mutation is no tombstone, the project it names is canonical, live, belongs to the named
  customer and lies in the principal's scope, an existing delivery stays in its project, the
  quotation it hands off is a live approved quotation of that project and customer with the same
  revision and currency whose line total equals the quoted total, and the evidence of a changed
  completion or closeout consists of live documents of live items of the project.
\<close>

theorem delivery_authority:
  assumes "authorize_delivery_execution db p scope entity_id payload del cur = Inr project_id"
  shows "DELIVERY_CAPABILITY \<in> capabilities p \<and> del = None
    \<and> (\<exists>project. get_project db (organization_id p) project_id = Some project \<and> cp_deleted_at project = None
        \<and> can_access_project scope project_id (cp_customer_id project)
        \<and> bound_quotation db p payload project_id (cp_customer_id project))
    \<and> (\<forall>c. get_project_child db (organization_id p) DELIVERY_ENTITY_TYPE entity_id = Some c
          \<longrightarrow> pc_project_id c = project_id)
    \<and> (\<exists>cp. (case cur of None \<Rightarrow> cp = None | Some ent \<Rightarrow> se_deleted_at ent = None
              \<and> cp = as_dict (se_payload_json ent) \<and> cp \<noteq> None)
        \<and> record_evidence_live db p payload cp ''installationCompletion'' project_id
        \<and> record_evidence_live db p payload cp ''deliveryCloseout'' project_id)"
proof -
  obtain cp project qid where cap: "DELIVERY_CAPABILITY \<in> capabilities p" "del = None"
    and cp: "delivery_current_payload cur
          (get_project_child db (organization_id p) DELIVERY_ENTITY_TYPE entity_id) = Inr cp"
    and pr: "get_project db (organization_id p) project_id = Some project" "cp_deleted_at project = None"
      "can_access_project scope (cp_project_id project) (cp_customer_id project)"
    and ev: "validate_installation_evidence_authority db p payload cp project_id = Inr ()"
    and qu: "delivery_quotation_authority db p payload project_id (cp_customer_id project) qid = Inr ()"
      "normalized (dget payload ''quotationID'') = Some qid"
    and ch: "\<forall>c. get_project_child db (organization_id p) DELIVERY_ENTITY_TYPE entity_id = Some c
        \<longrightarrow> pc_project_id c = project_id"
    using authorize_delivery_parts [OF assms] by blast
  have "cp_project_id project = project_id" using get_project_key [OF pr(1)] by simp
  moreover have "record_evidence_live db p payload cp ''installationCompletion'' project_id"
    "record_evidence_live db p payload cp ''deliveryCloseout'' project_id"
    using ev changed_record_authority_ok
    by (auto simp: validate_installation_evidence_authority_def res_simps)
  moreover have "case cur of None \<Rightarrow> cp = None | Some ent \<Rightarrow> se_deleted_at ent = None
              \<and> cp = as_dict (se_payload_json ent) \<and> cp \<noteq> None"
    using cp by (auto simp: delivery_current_payload_def res_simps split: option.splits if_splits)
  ultimately show ?thesis
    using cap pr delivery_quotation_authority_ok [OF qu] ch by auto
qed

theorem delivery_authority_witness:
  "(\<exists>project. get_project demo_delivery_db ''o'' ''p'' = Some project \<and> cp_deleted_at project = None
        \<and> bound_quotation demo_delivery_db demo_principal demo_installed ''p'' (cp_customer_id project))
    \<and> record_evidence_live demo_delivery_db demo_principal demo_installed None ''installationCompletion'' ''p''"
proof -
  have "organization_id demo_principal = ''o''" by (simp add: demo_principal_def)
  with delivery_authority [OF demo_delivery_authorized] show ?thesis by auto
qed

text \<open>
  A quantity that parses to a NaN is not rejected: the comparison with zero raises
  \<open>decimal.InvalidOperation\<close> outside the handler that turns malformed decimals into a rejection,
  so validating the materials plan ends in that exception whatever requirements follow.
\<close>

theorem nan_quantity_escapes_rejection:
  assumes "dget plan ''revision'' = JInt n" and "1 \<le> n"
    and "normalized (dget plan ''updatedAt'') \<noteq> None"
    and "dget plan ''requirements'' = JList (JObj r # rest)"
    and "normalized (dget r ''id'') \<noteq> None" and "normalized (dget r ''description'') \<noteq> None"
    and "normalized (dget r ''unit'') \<noteq> None"
    and "dget r ''quantity'' = JStr q" and "decimal_of_string q \<in> {Some DNaN, Some DsNaN}"
  shows "validate_materials_plan (JObj plan) p = Inl DecimalInvalidOperation"
  using assms
  by (auto simp: validate_materials_plan_def require_revision_def delivery_decimal_def dec_less_eq_def
      dec_less_def ebind_def seq_def)

theorem nan_quantity_escapes_rejection_witness:
  "validate_materials_plan (JObj [(''revision'', JInt 1), (''updatedAt'', JStr ''t''),
      (''requirements'', JList [JObj [(''id'', JStr ''a''), (''description'', JStr ''b''),
         (''unit'', JStr ''c''), (''quantity'', JStr ''NaN'')]])]) demo_principal
    = Inl DecimalInvalidOperation"
  by (rule nan_quantity_escapes_rejection [where n = 1 and r = "[(''id'', JStr ''a''),
      (''description'', JStr ''b''), (''unit'', JStr ''c''), (''quantity'', JStr ''NaN'')]"
      and rest = "[]" and q = "''NaN''"]) code_simp+

end
