(* ===== verification/Py_Text.thy ===== *)
theory Py_Text
  imports Py_Json "HOL-Library.Char_ord" "HOL-Library.List_Lexorder"
begin

text \<open>
  Text encodings of the standard library the service relies on: decimal numerals, UTF-8,
  base64 (RFC 4648, with \<open>validate=True\<close> on decoding) and \<open>json.dumps\<close> with sorted keys and
  compact separators. A character stands for a code point below 256.
\<close>

section \<open>Numerals\<close>

definition digit_char :: "nat \<Rightarrow> char" where
  "digit_char d = char_of (48 + d)"

function show_nat :: "nat \<Rightarrow> string" where
  "show_nat n = (if n < 10 then [digit_char n] else show_nat (n div 10) @ [digit_char (n mod 10)])"
  by pat_completeness auto
termination by (relation "measure id") auto

declare show_nat.simps [simp del]

definition show_int :: "int \<Rightarrow> string" where
  "show_int n = (if n < 0 then ''-'' @ show_nat (nat (- n)) else show_nat (nat n))"

definition digit_value :: "char \<Rightarrow> nat" where
  "digit_value c = of_char c - 48"

definition ascii_digit :: "char \<Rightarrow> bool" where
  "ascii_digit c \<longleftrightarrow> 48 \<le> (of_char c :: nat) \<and> (of_char c :: nat) \<le> 57"

text \<open>\<open>int(s)\<close> on a non-empty string of ASCII digits.\<close>

definition parse_nat :: "string \<Rightarrow> nat" where
  "parse_nat s = foldl (\<lambda>n c. 10 * n + digit_value c) 0 s"

lemma digit_char_props:
  assumes "d < 10"
  shows "ascii_digit (digit_char d)" "digit_value (digit_char d) = d"
  using assms by (simp_all add: digit_char_def ascii_digit_def digit_value_def)

lemma show_nat_digits: "list_all ascii_digit (show_nat n)"
proof (induction n rule: show_nat.induct)
  case (1 n)
  then show ?case
    by (cases "n < 10") (simp_all add: show_nat.simps [of n] digit_char_props)
qed

lemma show_nat_not_Nil [simp]: "show_nat n \<noteq> []"
  by (simp add: show_nat.simps [of n])

lemma parse_show_nat [simp]: "parse_nat (show_nat n) = n"
proof (induction n rule: show_nat.induct)
  case (1 n)
  show ?case
  proof (cases "n < 10")
    case True
    then show ?thesis by (simp add: show_nat.simps [of n] parse_nat_def digit_char_props)
  next
    case False
    with 1 have "parse_nat (show_nat (n div 10)) = n div 10" by simp
    with False show ?thesis
      by (simp add: show_nat.simps [of n] parse_nat_def digit_char_props)
  qed
qed

lemma show_nat_inj [simp]: "show_nat m = show_nat n \<longleftrightarrow> m = n"
  by (metis parse_show_nat)

lemma show_nat_length: "n < 10 ^ k \<Longrightarrow> 0 < k \<Longrightarrow> length (show_nat n) \<le> k"
proof (induction n arbitrary: k rule: show_nat.induct)
  case (1 n)
  show ?case
  proof (cases "n < 10")
    case False
    with 1(2) obtain j where k: "k = Suc j" and j: "0 < j"
      by (cases k; cases "k - 1") auto
    with 1(2) have "n div 10 < 10 ^ j" by (simp add: less_mult_imp_div_less mult.commute)
    with 1(1) False j k show ?thesis by (simp add: show_nat.simps [of n])
  qed (use 1(3) in \<open>simp add: show_nat.simps [of n]\<close>)
qed

section \<open>UTF-8\<close>

definition utf8_char :: "char \<Rightarrow> char list" where
  "utf8_char c = (let n = (of_char c :: nat) in
     if n < 128 then [c] else [char_of (192 + n div 64), char_of (128 + n mod 64)])"

definition utf8 :: "string \<Rightarrow> char list" where
  "utf8 s = concat (map utf8_char s)"

section \<open>Base64\<close>

definition b64_digit :: "nat \<Rightarrow> char" where
  "b64_digit n = (if n < 26 then char_of (65 + n) else if n < 52 then char_of (71 + n)
     else if n < 62 then char_of (n - 4) else if n = 62 then CHR ''+'' else CHR ''/'')"

fun b64encode :: "char list \<Rightarrow> string" where
  "b64encode [] = []"
| "b64encode [a] = (let n = of_char a * 16 :: nat in [b64_digit (n div 64), b64_digit (n mod 64), CHR ''='', CHR ''=''])"
| "b64encode [a, b] = (let n = (of_char a * 256 + of_char b) * 4 :: nat in
     [b64_digit (n div 4096), b64_digit (n div 64 mod 64), b64_digit (n mod 64), CHR ''=''])"
| "b64encode (a # b # c # rest) = (let n = (of_char a * 256 + of_char b) * 256 + of_char c :: nat in
     b64_digit (n div 262144) # b64_digit (n div 4096 mod 64) # b64_digit (n div 64 mod 64)
       # b64_digit (n mod 64) # b64encode rest)"

definition b64_value :: "char \<Rightarrow> nat option" where
  "b64_value c = (let n = (of_char c :: nat) in
     if 65 \<le> n \<and> n \<le> 90 then Some (n - 65)
     else if 97 \<le> n \<and> n \<le> 122 then Some (n - 71)
     else if 48 \<le> n \<and> n \<le> 57 then Some (n + 4)
     else if c = CHR ''+'' then Some 62 else if c = CHR ''/'' then Some 63 else None)"

text \<open>
  \<open>base64.b64decode(raw, validate=True)\<close>: quartets of the alphabet, padding only at the end; the
  unused low bits of a padded quartet are ignored. \<open>None\<close> is the \<open>binascii.Error\<close> it raises.
\<close>

fun b64decode :: "string \<Rightarrow> char list option" where
  "b64decode [] = Some []"
| "b64decode (p # q # r # s # rest) =
     (case (b64_value p, b64_value q) of
        (Some w, Some x) \<Rightarrow>
          if r = CHR ''='' \<and> s = CHR ''='' \<and> rest = [] then Some [char_of ((w * 64 + x) div 16)]
          else (case b64_value r of
             None \<Rightarrow> None
           | Some y \<Rightarrow>
               if s = CHR ''='' \<and> rest = []
               then Some [char_of ((w * 4096 + x * 64 + y) div 1024 mod 256), char_of ((w * 4096 + x * 64 + y) div 4 mod 256)]
               else (case b64_value s of
                  None \<Rightarrow> None
                | Some z \<Rightarrow> map_option (\<lambda>out.
                    let n = ((w * 64 + x) * 64 + y) * 64 + z in
                    char_of (n div 65536) # char_of (n div 256 mod 256) # char_of (n mod 256) # out)
                    (b64decode rest)))
      | _ \<Rightarrow> None)"
| "b64decode _ = None"

lemma b64_value_digit: "n < 64 \<Longrightarrow> b64_value (b64_digit n) = Some n"
  by (auto simp: b64_digit_def b64_value_def Let_def)

lemma b64_digit_pad: "n < 64 \<Longrightarrow> b64_digit n \<noteq> CHR ''=''"
  using b64_value_digit [of n] by (auto simp: b64_value_def)

lemma char_bounds: "(of_char c :: nat) < 256"
  using nat_of_char_less_256 by simp

lemma split64: "(n::nat) div 64 div 64 * 64 + n div 64 mod 64 = n div 64" "n div 64 * 64 + n mod 64 = n"
  by (simp_all only: div_mult_mod_eq)

lemma quartet1:
  assumes "a < 256" "n = (a::nat) * 16"
  shows "n div 64 < 64" "(n div 64 * 64 + n mod 64) div 16 = a"
proof -
  have "n < 64 * 64" using assms by presburger
  then show "n div 64 < 64" by (rule less_mult_imp_div_less)
  show "(n div 64 * 64 + n mod 64) div 16 = a" unfolding split64 using assms(2) by simp
qed

lemma quartet2:
  assumes "a < 256" "b < 256" "n = ((a::nat) * 256 + b) * 4"
  shows "n div 4096 < 64" "n div 4096 * 4096 + n div 64 mod 64 * 64 + n mod 64 = n"
    "n div 1024 mod 256 = a" "n div 4 mod 256 = b"
proof -
  have "n < 64 * 4096" using assms by presburger
  then show "n div 4096 < 64" by (rule less_mult_imp_div_less)
  have "n div 4096 = n div 64 div 64" by (simp add: div_mult2_eq [symmetric])
  moreover have "x * 4096 + y * 64 + z = (x * 64 + y) * 64 + z" for x y z :: nat by simp
  ultimately show "n div 4096 * 4096 + n div 64 mod 64 * 64 + n mod 64 = n" by (simp only: split64)
  have "n div 4 = a * 256 + b" using assms(3) by simp
  moreover have "n div 1024 = n div 4 div 256" by (simp add: div_mult2_eq [symmetric])
  ultimately show "n div 1024 mod 256 = a" "n div 4 mod 256 = b" using assms(1,2) by simp_all
qed

lemma quartet3:
  assumes "a < 256" "b < 256" "c < 256" "n = ((a::nat) * 256 + b) * 256 + c"
  shows "n div 262144 < 64"
    "((n div 262144 * 64 + n div 4096 mod 64) * 64 + n div 64 mod 64) * 64 + n mod 64 = n"
    "n div 65536 = a" "n div 256 mod 256 = b" "n mod 256 = c"
proof -
  have "a * 256 + b \<le> 65535" using assms(1,2) by presburger
  then have "(a * 256 + b) * 256 \<le> 65535 * 256" by (rule mult_le_mono1)
  then have "n < 64 * 262144" using assms(3,4) by simp
  then show "n div 262144 < 64" by (rule less_mult_imp_div_less)
  have "n div 262144 = n div 64 div 64 div 64" "n div 4096 = n div 64 div 64"
    by (simp_all add: div_mult2_eq [symmetric])
  then show "((n div 262144 * 64 + n div 4096 mod 64) * 64 + n div 64 mod 64) * 64 + n mod 64 = n"
    by (simp only: split64)
  have "n div 256 = a * 256 + b" using assms(3,4) by simp
  moreover have "n div 65536 = n div 256 div 256" by (simp add: div_mult2_eq [symmetric])
  ultimately show "n div 65536 = a" "n div 256 mod 256 = b" using assms(1,2) by simp_all
  show "n mod 256 = c" unfolding assms(4) mod_mult_self3 using assms(3) by simp
qed

lemma char_of_mod: "(n::nat) mod 256 = of_char c \<Longrightarrow> char_of n = c"
  by (metis char_of_char char_of_mod_256)

lemma b64_roundtrip: "b64decode (b64encode bs) = Some bs"
proof (induction bs rule: b64encode.induct)
  case (2 a)
  define n where "n = (of_char a :: nat) * 16"
  show ?case using quartet1 [OF char_bounds n_def]
    unfolding b64encode.simps Let_def n_def [symmetric] by (simp add: b64_value_digit)
next
  case (3 a b)
  define n where "n = ((of_char a :: nat) * 256 + of_char b) * 4"
  show ?case using quartet2 [OF char_bounds char_bounds n_def]
    unfolding b64encode.simps Let_def n_def [symmetric] by (simp add: b64_value_digit b64_digit_pad)
next
  case (4 a b c rest)
  define n where "n = ((of_char a :: nat) * 256 + of_char b) * 256 + of_char c"
  show ?case using 4 quartet3 [OF char_bounds char_bounds char_bounds n_def]
    unfolding b64encode.simps Let_def n_def [symmetric] by (simp add: b64_value_digit b64_digit_pad Let_def char_of_mod)
qed simp


section \<open>JSON text\<close>

definition hex_digit :: "nat \<Rightarrow> char" where
  "hex_digit n = (if n < 10 then char_of (48 + n) else char_of (87 + n))"

definition esc_char :: "bool \<Rightarrow> char \<Rightarrow> string" where
  "esc_char ascii c = (let n = (of_char c :: nat) in
     if n = 34 then [CHR 0x5C, CHR 0x22]
     else if n = 92 then [CHR 0x5C, CHR 0x5C]
     else if n = 10 then [CHR 0x5C, CHR ''n'']
     else if n = 13 then [CHR 0x5C, CHR ''r'']
     else if n = 9 then [CHR 0x5C, CHR ''t'']
     else if n = 12 then [CHR 0x5C, CHR ''f'']
     else if n = 8 then [CHR 0x5C, CHR ''b'']
     else if n < 32 \<or> (ascii \<and> 126 < n)
     then CHR 0x5C # ''u00'' @ [hex_digit (n div 16), hex_digit (n mod 16)]
     else [c])"

definition json_string :: "bool \<Rightarrow> string \<Rightarrow> string" where
  "json_string ascii s = [CHR 0x22] @ concat (map (esc_char ascii) s) @ [CHR 0x22]"

fun float_text :: "pyfloat \<Rightarrow> string" where
  "float_text (Finite r s) = s"
| "float_text (Infinite neg) = (if neg then ''-Infinity'' else ''Infinity'')"
| "float_text NotANumber = ''NaN''"

definition join :: "string \<Rightarrow> string list \<Rightarrow> string" where
  "join sep xs = concat (case xs of [] \<Rightarrow> [] | y # ys \<Rightarrow> y # map (\<lambda>z. sep @ z) ys)"

text \<open>\<open>json.dumps(x, sort_keys=True, separators=(",", ":"), ensure_ascii=ascii)\<close>\<close>

fun json_dumps :: "bool \<Rightarrow> json \<Rightarrow> string" where
  "json_dumps a JNull = ''null''"
| "json_dumps a (JBool b) = (if b then ''true'' else ''false'')"
| "json_dumps a (JInt n) = show_int n"
| "json_dumps a (JFloat f) = float_text f"
| "json_dumps a (JStr s) = json_string a s"
| "json_dumps a (JList xs) = ''['' @ join '','' (map (json_dumps a) xs) @ '']''"
| "json_dumps a (JObj d) = ''{'' @ join '',''
     (map (\<lambda>(k, t). json_string a k @ '':'' @ t)
       (sort_key fst (map (\<lambda>kv. (fst kv, json_dumps a (snd kv))) d))) @ ''}''"

text \<open>With \<open>ensure_ascii\<close> the text of a string is printable ASCII.\<close>

lemma esc_char_ascii: "list_all (\<lambda>c. (of_char c :: nat) < 128) (esc_char True c)"
proof -
  have "(of_char (hex_digit k) :: nat) < 128" if "k < 16" for k
    using that by (auto simp: hex_digit_def)
  then have "(of_char (hex_digit (of_char c div 16)) :: nat) < 128"
    "(of_char (hex_digit (of_char c mod 16)) :: nat) < 128"
    using char_bounds [of c] by (simp_all add: less_mult_imp_div_less)
  then show ?thesis by (auto simp: esc_char_def Let_def)
qed

end
