(* ===== verification/Py_Float.thy ===== *)
theory Py_Float
  imports Py_Json "HOL-Library.Log_Nat"
begin

text \<open>
  IEEE 754 binary64 values and the operations the assembly contract applies to them: rounding to
  nearest with ties to even, addition, subtraction, \<open>abs\<close>, comparison and equality. The sign of
  zero is not represented: no comparison distinguishes it.
\<close>

datatype fl = Fl rat | FInf bool | FNaN

definition pow2 :: "int \<Rightarrow> rat" where
  "pow2 k = (if 0 \<le> k then of_int (2 ^ nat k) else 1 / of_int (2 ^ nat (- k)))"

text \<open>The exponent of the leading bit of a positive rational.\<close>

definition ilog2 :: "rat \<Rightarrow> int" where
  "ilog2 q = (let (a, b) = quotient_of q;
       k = bitlen a - bitlen b
     in if q < pow2 k then k - 1 else k)"

definition round_even :: "rat \<Rightarrow> int" where
  "round_even x = (let f = \<lfloor>x\<rfloor>; d = x - of_int f
     in if 1 / 2 < d \<or> (d = 1 / 2 \<and> odd f) then f + 1 else f)"

definition fl_round :: "rat \<Rightarrow> fl" where
  "fl_round q = (if q = 0 then Fl 0 else
     let e = max (ilog2 \<bar>q\<bar> - 52) (- 1074);
         m = round_even (\<bar>q\<bar> / pow2 e)
     in if 971 < e \<or> (e = 971 \<and> m = 9007199254740992) then FInf (q < 0)
        else Fl (sgn q * (of_int m * pow2 e)))"

fun fl_add :: "fl \<Rightarrow> fl \<Rightarrow> fl" where
  "fl_add (Fl a) (Fl b) = fl_round (a + b)"
| "fl_add FNaN _ = FNaN"
| "fl_add _ FNaN = FNaN"
| "fl_add (FInf s) (FInf t) = (if s = t then FInf s else FNaN)"
| "fl_add (FInf s) (Fl _) = FInf s"
| "fl_add (Fl _) (FInf s) = FInf s"

fun fl_neg :: "fl \<Rightarrow> fl" where
  "fl_neg (Fl a) = Fl (- a)"
| "fl_neg (FInf s) = FInf (\<not> s)"
| "fl_neg FNaN = FNaN"

definition fl_sub :: "fl \<Rightarrow> fl \<Rightarrow> fl" where
  "fl_sub a b = fl_add a (fl_neg b)"

fun fl_abs :: "fl \<Rightarrow> fl" where
  "fl_abs (Fl a) = Fl \<bar>a\<bar>"
| "fl_abs (FInf s) = FInf False"
| "fl_abs FNaN = FNaN"

fun fl_less :: "fl \<Rightarrow> fl \<Rightarrow> bool" where
  "fl_less (Fl a) (Fl b) = (a < b)"
| "fl_less FNaN _ = False"
| "fl_less _ FNaN = False"
| "fl_less (FInf s) (FInf t) = (s \<and> \<not> t)"
| "fl_less (FInf s) (Fl _) = s"
| "fl_less (Fl _) (FInf s) = (\<not> s)"

fun fl_eq :: "fl \<Rightarrow> fl \<Rightarrow> bool" where
  "fl_eq (Fl a) (Fl b) = (a = b)"
| "fl_eq (FInf s) (FInf t) = (s = t)"
| "fl_eq _ _ = False"

section \<open>Rounding error\<close>

lemma pow2_pos [simp]: "0 < pow2 k"
  by (simp add: pow2_def)

lemma pow2_powi: "pow2 k = 2 powi k"
  by (simp add: pow2_def power_int_def inverse_eq_divide power_one_over)

lemma pow2_mono: "j \<le> k \<Longrightarrow> pow2 j \<le> pow2 k"
  unfolding pow2_powi by (rule power_int_increasing) simp_all

lemma round_even_error: "\<bar>of_int (round_even x) - x\<bar> \<le> 1 / 2"
proof -
  have "of_int \<lfloor>x\<rfloor> \<le> x" "x < of_int \<lfloor>x\<rfloor> + 1" using floor_correct [of x] by simp_all
  then show ?thesis unfolding round_even_def Let_def
    by (cases "1 / 2 < x - of_int \<lfloor>x\<rfloor> \<or> (x - of_int \<lfloor>x\<rfloor> = 1 / 2 \<and> odd \<lfloor>x\<rfloor>)") (auto simp: abs_le_iff field_simps)
qed

lemma quotient_ge:
  assumes "2 ^ i \<le> (a::nat)" "(b::nat) < 2 ^ j" "0 < b"
  shows "pow2 (int i - int j) \<le> of_nat a / of_nat b"
proof -
  have "(2::rat) ^ i \<le> of_nat a" using assms(1) by (metis of_nat_le_iff of_nat_numeral of_nat_power)
  moreover have "of_nat b \<le> (2::rat) ^ j"
    using assms(2) by (metis less_imp_le of_nat_le_iff of_nat_numeral of_nat_power)
  ultimately have "(2::rat) ^ i / 2 ^ j \<le> of_nat a / of_nat b"
    using assms(3) by (intro frac_le) simp_all
  then show ?thesis by (simp add: pow2_powi power_int_diff)
qed

lemma ilog2_le:
  assumes "0 < q"
  shows "pow2 (ilog2 q) \<le> q"
proof -
  obtain a b where ab: "quotient_of q = (a, b)" by fastforce
  then have b: "0 < b" and q: "q = of_int a / of_int b"
    using quotient_of_denom_pos quotient_of_div by blast+
  with assms have a: "0 < a" by (simp add: zero_less_divide_iff)
  define i where "i = floorlog 2 (nat a)"
  define j where "j = floorlog 2 (nat b)"
  have i: "i = Suc (i - 1)" using a by (simp add: i_def floorlog_def)
  have "2 ^ (i - 1) \<le> nat a" unfolding i_def using floorlog_bounds [of "nat a" 2] a by simp
  moreover have "nat b < 2 ^ j" unfolding j_def using floorlog_bounds [of "nat b" 2] b by simp
  ultimately have "pow2 (int (i - 1) - int j) \<le> of_nat (nat a) / of_nat (nat b)"
    using b by (intro quotient_ge) simp_all
  moreover have "int (i - 1) - int j = int i - int j - 1" using i by linarith
  ultimately have "pow2 (int i - int j - 1) \<le> of_nat (nat a) / of_nat (nat b)" by (simp only:)
  then have "pow2 (int i - int j - 1) \<le> q" using a b q by simp
  moreover have "int i = bitlen a" "int j = bitlen b"
    by (simp_all add: i_def j_def bitlen_def)
  ultimately show ?thesis by (simp add: ilog2_def ab Let_def)
qed

lemma fl_round_error:
  assumes "\<bar>q\<bar> < 2"
  obtains r where "fl_round q = Fl r" and "\<bar>r - q\<bar> \<le> 1 / 2 ^ 53"
proof (cases "q = 0")
  case True
  then show ?thesis using that [of 0] by (simp add: fl_round_def)
next
  case False
  define e where "e = max (ilog2 \<bar>q\<bar> - 52) (- 1074)"
  define v where "v = of_int (round_even (\<bar>q\<bar> / pow2 e)) * pow2 e"
  have "ilog2 \<bar>q\<bar> < 1"
  proof (rule ccontr)
    assume "\<not> ilog2 \<bar>q\<bar> < 1"
    then have "pow2 1 \<le> pow2 (ilog2 \<bar>q\<bar>)" by (intro pow2_mono) simp
    with ilog2_le [of "\<bar>q\<bar>"] False assms show False by (simp add: pow2_def)
  qed
  then have "e \<le> - 52" by (simp add: e_def)
  moreover have "pow2 (- 52) = 1 / 2 ^ 52" by (simp add: pow2_def)
  ultimately have e: "pow2 e \<le> 1 / 2 ^ 52" by (metis pow2_mono)
  have scale: "x * m - y = (x - y / m) * m" if "m \<noteq> 0" for x y m :: rat
    using that by (simp add: left_diff_distrib)
  have "v - \<bar>q\<bar> = (of_int (round_even (\<bar>q\<bar> / pow2 e)) - \<bar>q\<bar> / pow2 e) * pow2 e"
    unfolding v_def by (rule scale) (use pow2_pos [of e] in linarith)
  then have "\<bar>v - \<bar>q\<bar>\<bar> = \<bar>of_int (round_even (\<bar>q\<bar> / pow2 e)) - \<bar>q\<bar> / pow2 e\<bar> * pow2 e"
    using abs_mult_pos less_imp_le [OF pow2_pos] by metis
  also have "\<dots> \<le> 1 / 2 * pow2 e" by (intro mult_right_mono round_even_error) (simp add: less_imp_le)
  finally have err: "\<bar>v - \<bar>q\<bar>\<bar> \<le> 1 / 2 ^ 53" using e by simp
  have "fl_round q = Fl (sgn q * v)"
    using False \<open>e \<le> - 52\<close> by (simp add: fl_round_def Let_def v_def flip: e_def)
  moreover have "\<bar>sgn q * v - q\<bar> \<le> 1 / 2 ^ 53"
    using err by (cases "0 < q") (auto simp: sgn_if abs_if False split: if_splits)
  ultimately show ?thesis using that by blast
qed

end
