(* ===== verification/Assembly_Contract.thy ===== *)
theory Assembly_Contract
  imports Py_Text Py_Float
begin

text \<open>
  \<open>app/assembly_contract.py\<close>: the assembly snapshot nested in a configuration, the design
  snapshot nested in a quotation line, their cross-field validators, the BOM digest, and the
  binding of a design to its canonical configuration version. Parsing a raw object into the
  declared fields is pydantic's and is a parameter; so is SHA-256.
\<close>

section \<open>Data\<close>

text \<open>
  A NaN read from the JSON literal is the one object \<open>json.loads\<close> keeps for it; a NaN that pydantic
  reads from the text ''nan'' is an object of its own. Only the second kind differs from every other
  value, also inside model equality, so each class with float fields records whether one of them
  holds such a fresh NaN.
\<close>

record assembly_overall =
  ov_width :: fl
  ov_height :: fl
  ov_unit :: string
  ov_fresh_nan :: bool

record assembly_frame =
  fr_x :: fl
  fr_y :: fl
  fr_width :: fl
  fr_height :: fl
  fr_fresh_nan :: bool

record assembly_section =
  asec_id :: string
  asec_type :: string
  asec_operation :: "string option"
  asec_frame :: assembly_frame
  asec_width_mm :: fl
  asec_height_mm :: fl

record reference_pins =
  pin_catalog_version :: string
  pin_catalog_sha :: string
  pin_rules_version :: string
  pin_rules_sha :: string
  pin_price_version :: string
  pin_price_sha :: string

record bom_line =
  bl_id :: string
  bl_role :: string
  bl_references :: "string list"
  bl_source_rule :: string
  bl_source_section :: "string option"
  bl_quantity :: fl
  bl_unit :: string
  bl_waste :: fl

record bom_snapshot =
  bom_schema :: string
  bom_engine :: string
  bom_configuration :: string
  bom_version :: int
  bom_basis :: string
  bom_lines :: "bom_line list"

record render_section =
  rs_id :: string
  rs_type :: string
  rs_operation :: "string option"
  rs_frame :: assembly_frame

record render_descriptor =
  rd_schema :: string
  rd_coordinates :: string
  rd_configuration :: string
  rd_version :: int
  rd_width_mm :: fl
  rd_height_mm :: fl
  rd_sections :: "render_section list"
  rd_fresh_nan :: bool

record assembly_snapshot =
  asm_template :: string
  asm_template_version :: int
  asm_measurement :: string
  asm_overall :: assembly_overall
  asm_sections :: "assembly_section list"
  asm_selections :: dict
  asm_reference :: reference_pins
  asm_bom :: bom_snapshot
  asm_render :: render_descriptor

record design_snapshot =
  ds_template :: string
  ds_template_version :: int
  ds_configuration_version_id :: string
  ds_overall :: assembly_overall
  ds_summary :: "dict list"
  ds_render :: render_descriptor
  ds_bom_sha :: string
  ds_reference :: reference_pins

text \<open>
  The library functions the service calls: pydantic's field parsing of the two snapshot classes
  (\<^const>\<open>None\<close> when a field constraint fails), \<open>json.loads\<close> (\<^const>\<open>None\<close> when it raises) and
  \<open>hashlib.sha256(...).hexdigest()\<close>.
\<close>

record lib =
  parse_assembly :: "dict \<Rightarrow> assembly_snapshot option"
  parse_design :: "dict \<Rightarrow> design_snapshot option"
  json_loads :: "string \<Rightarrow> json option"
  sha256_hex :: "string \<Rightarrow> string"

text \<open>
  Model equality compares the instance dictionaries, and a dictionary compares its values by identity
  before it compares them with \<open>==\<close>: equal finite values and infinities are equal, and so is the
  shared NaN object with itself; a fresh NaN is equal to nothing.
\<close>

definition frame_eq :: "assembly_frame \<Rightarrow> assembly_frame \<Rightarrow> bool" where
  "frame_eq f g \<longleftrightarrow> fr_x f = fr_x g \<and> fr_y f = fr_y g \<and> fr_width f = fr_width g
     \<and> fr_height f = fr_height g \<and> \<not> fr_fresh_nan f \<and> \<not> fr_fresh_nan g"

definition overall_eq :: "assembly_overall \<Rightarrow> assembly_overall \<Rightarrow> bool" where
  "overall_eq a b \<longleftrightarrow> ov_width a = ov_width b \<and> ov_height a = ov_height b
     \<and> ov_unit a = ov_unit b \<and> \<not> ov_fresh_nan a \<and> \<not> ov_fresh_nan b"

definition render_section_eq :: "render_section \<Rightarrow> render_section \<Rightarrow> bool" where
  "render_section_eq a b \<longleftrightarrow> rs_id a = rs_id b \<and> rs_type a = rs_type b
     \<and> rs_operation a = rs_operation b \<and> frame_eq (rs_frame a) (rs_frame b)"

definition render_eq :: "render_descriptor \<Rightarrow> render_descriptor \<Rightarrow> bool" where
  "render_eq a b \<longleftrightarrow> rd_schema a = rd_schema b \<and> rd_coordinates a = rd_coordinates b
     \<and> rd_configuration a = rd_configuration b \<and> rd_version a = rd_version b
     \<and> rd_width_mm a = rd_width_mm b \<and> rd_height_mm a = rd_height_mm b
     \<and> \<not> rd_fresh_nan a \<and> \<not> rd_fresh_nan b
     \<and> list_all2 render_section_eq (rd_sections a) (rd_sections b)"

section \<open>Validators\<close>

definition FRAME_TOLERANCE :: fl where
  "FRAME_TOLERANCE = fl_round (1 / 1000000)"

definition frame_must_fit_opening :: "assembly_frame \<Rightarrow> unit res" where
  "frame_must_fit_opening f =
     (if fl_less (fl_add (Fl 1) FRAME_TOLERANCE) (fl_add (fr_x f) (fr_width f)) then raise ValueError
      else guard (fl_less (fl_add (Fl 1) FRAME_TOLERANCE) (fl_add (fr_y f) (fr_height f))) ValueError)"

text \<open>\<open>abs(a - b) > _FRAME_TOLERANCE\<close>\<close>

definition apart :: "fl \<Rightarrow> fl \<Rightarrow> bool" where
  "apart a b \<longleftrightarrow> fl_less FRAME_TOLERANCE (fl_abs (fl_sub a b))"

text \<open>The band check; returns the cursor after the last section.\<close>

fun planar_band :: "fl \<Rightarrow> assembly_section list \<Rightarrow> fl res" where
  "planar_band cursor [] = ok cursor"
| "planar_band cursor (s # ss) =
     (let f = asec_frame s in
      if fl_less FRAME_TOLERANCE (fl_abs (fr_y f)) then raise ValueError \<comment> \<open>y must be zero\<close>
      else if apart (fr_height f) (Fl 1) then raise ValueError \<comment> \<open>must span the opening height\<close>
      else if apart (fr_x f) cursor then raise ValueError \<comment> \<open>contiguous without gaps or overlap\<close>
      else planar_band (fl_add (fr_x f) (fr_width f)) ss)"

text \<open>\<open>{section.sectionID: section for ...}\<close>: a later duplicate key wins.\<close>

definition render_by_id :: "render_descriptor \<Rightarrow> (string \<times> render_section) list" where
  "render_by_id rd = rev (map (\<lambda>s. (rs_id s, s)) (rd_sections rd))"

definition section_rendered :: "(string \<times> render_section) list \<Rightarrow> assembly_section \<Rightarrow> unit res" where
  "section_rendered by_id s =
     (case map_of by_id (asec_id s) of
        None \<Rightarrow> raise KeyError
      | Some r \<Rightarrow> guard (rs_type r \<noteq> asec_type s \<or> rs_operation r \<noteq> asec_operation s
                          \<or> \<not> frame_eq (rs_frame r) (asec_frame s)) ValueError)"

definition validate_consistent_projection :: "assembly_snapshot \<Rightarrow> unit res" where
  "validate_consistent_projection snap =
     (let section_ids = map asec_id (asm_sections snap); rd = asm_render snap; bom = asm_bom snap in
      if \<not> distinct section_ids then raise ValueError
      else ebind (planar_band (Fl 0) (asm_sections snap)) (\<lambda>cursor.
      if apart cursor (Fl 1) then raise ValueError \<comment> \<open>must fill the opening width\<close>
      else if rd_configuration rd \<noteq> bom_configuration bom then raise ValueError
      else if rd_version rd \<noteq> bom_version bom then raise ValueError
      else if apart (rd_width_mm rd) (ov_width (asm_overall snap)) then raise ValueError
      else if apart (rd_height_mm rd) (ov_height (asm_overall snap)) then raise ValueError
      else if set (map fst (render_by_id rd)) \<noteq> set section_ids then raise ValueError
      else seq (for_each (section_rendered (render_by_id rd)) (asm_sections snap))
        (for_each (\<lambda>line. guard (case bl_source_section line of None \<Rightarrow> False
             | Some i \<Rightarrow> i \<notin> set section_ids) ValueError) (bom_lines bom))))"

text \<open>\<open>AssemblySnapshotV1.model_validate(raw)\<close>: field parsing, then the nested and outer validators.\<close>

definition model_validate_assembly :: "lib \<Rightarrow> dict \<Rightarrow> assembly_snapshot res" where
  "model_validate_assembly lib raw =
     (case parse_assembly lib raw of
        None \<Rightarrow> raise ValidationError
      | Some snap \<Rightarrow>
          rethrow [ValueError] ValidationError
            (seq (for_each frame_must_fit_opening
                    (map asec_frame (asm_sections snap) @ map rs_frame (rd_sections (asm_render snap))))
              (seq (validate_consistent_projection snap) (ok snap))))"

section \<open>BOM digest\<close>

definition pad6 :: "nat \<Rightarrow> string" where
  "pad6 n = (let t = show_nat n in replicate (6 - length t) (CHR ''0'') @ t)"

text \<open>\<open>f"{x:.6f}"\<close>: the exact value rounded half to even at the sixth decimal.\<close>

definition fixed6 :: "rat \<Rightarrow> string" where
  "fixed6 r = (let n = nat (round_even (\<bar>r\<bar> * 1000000)) in
     (if r < 0 then ''-'' else []) @ show_nat (n div 1000000) @ ''.'' @ pad6 (n mod 1000000))"

definition bom_digest_decimal6 :: "fl \<Rightarrow> string res" where
  "bom_digest_decimal6 v = (case v of Fl r \<Rightarrow> ok (fixed6 r) | _ \<Rightarrow> raise ValueError)"

definition bom_line_material :: "bom_line \<Rightarrow> json res" where
  "bom_line_material line =
     ebind (bom_digest_decimal6 (bl_quantity line)) (\<lambda>quantity.
     ebind (bom_digest_decimal6 (bl_waste line)) (\<lambda>waste.
     ok (JObj [(''id'', JStr (bl_id line)), (''role'', JStr (bl_role line)),
       (''referenceEntryIDs'', JList (map JStr (bl_references line))),
       (''sourceRuleID'', JStr (bl_source_rule line)),
       (''sourceSectionID'', JStr (case bl_source_section line of None \<Rightarrow> [] | Some s \<Rightarrow> s)),
       (''quantity'', JStr quantity), (''unit'', JStr (bl_unit line)), (''wasteQuantity'', JStr waste)])))"

fun map_res :: "('a \<Rightarrow> 'b res) \<Rightarrow> 'a list \<Rightarrow> 'b list res" where
  "map_res f [] = ok []"
| "map_res f (x # xs) = ebind (f x) (\<lambda>y. ebind (map_res f xs) (\<lambda>ys. ok (y # ys)))"

definition canonical_bom_digest_material :: "bom_snapshot \<Rightarrow> char list res" where
  "canonical_bom_digest_material bom =
     ebind (map_res bom_line_material (bom_lines bom)) (\<lambda>lines.
     ok (utf8 (json_dumps False (JObj [(''schema'', JStr ''vitrial.bom-digest.v1''),
       (''bomSchema'', JStr (bom_schema bom)), (''engineVersion'', JStr (bom_engine bom)),
       (''configurationID'', JStr (bom_configuration bom)),
       (''configurationVersion'', JInt (bom_version bom)),
       (''calculationBasis'', JStr (bom_basis bom)), (''lines'', JList lines)]))))"

definition assembly_bom_sha256 :: "lib \<Rightarrow> bom_snapshot \<Rightarrow> string res" where
  "assembly_bom_sha256 lib bom =
     ebind (canonical_bom_digest_material bom) (\<lambda>material. ok (sha256_hex lib material))"

section \<open>Mutation checks\<close>

definition version_id :: "string \<Rightarrow> int \<Rightarrow> string" where
  "version_id configuration version = configuration @ ''#v'' @ show_int version"

definition validate_render_identity :: "design_snapshot \<Rightarrow> unit res" where
  "validate_render_identity snap =
     (let rd = ds_render snap in
      if ds_configuration_version_id snap \<noteq> version_id (rd_configuration rd) (rd_version rd)
      then raise ValueError
      else if apart (rd_width_mm rd) (ov_width (ds_overall snap)) then raise ValueError
      else guard (apart (rd_height_mm rd) (ov_height (ds_overall snap))) ValueError)"

definition model_validate_design :: "lib \<Rightarrow> dict \<Rightarrow> design_snapshot res" where
  "model_validate_design lib raw =
     (case parse_design lib raw of
        None \<Rightarrow> raise ValidationError
      | Some snap \<Rightarrow>
          rethrow [ValueError] ValidationError
            (seq (for_each frame_must_fit_opening (map rs_frame (rd_sections (ds_render snap))))
              (seq (validate_render_identity snap) (ok snap))))"

definition validate_configuration_assembly :: "lib \<Rightarrow> dict \<Rightarrow> assembly_snapshot option res" where
  "validate_configuration_assembly lib payload =
     (if dget payload ''assembly'' = JNull then ok None
      else case as_dict (dget payload ''assembly'') of
        None \<Rightarrow> raise ValueError
      | Some raw \<Rightarrow>
          ebind (model_validate_assembly lib raw) (\<lambda>snap.
          seq (case dget payload ''id'' of
                 JStr cid \<Rightarrow> guard (rd_configuration (asm_render snap) \<noteq> cid
                                \<or> bom_configuration (asm_bom snap) \<noteq> cid) ValueError
               | _ \<Rightarrow> ok ())
          (seq (case strict_int (dget payload ''version'') of
                 Some n \<Rightarrow> guard (rd_version (asm_render snap) \<noteq> n
                                \<or> bom_version (asm_bom snap) \<noteq> n) ValueError
               | None \<Rightarrow> ok ())
            (ok (Some snap)))))"

definition validate_quotation_line_design_snapshot :: "lib \<Rightarrow> dict \<Rightarrow> design_snapshot option res" where
  "validate_quotation_line_design_snapshot lib line =
     (if dget line ''designSnapshot'' = JNull then ok None
      else case as_dict (dget line ''designSnapshot'') of
        None \<Rightarrow> raise ValueError
      | Some raw \<Rightarrow>
          ebind (model_validate_design lib raw) (\<lambda>snap.
          seq (case dget line ''configurationVersionID'' of
                 JStr v \<Rightarrow> guard (ds_configuration_version_id snap \<noteq> v) ValueError
               | _ \<Rightarrow> ok ())
            (ok (Some snap))))"

definition envelope_matches :: "dict \<Rightarrow> dict \<Rightarrow> bool" where
  "envelope_matches payload configuration =
     (case (dget payload ''id'', dget configuration ''id'', strict_int (dget configuration ''version'')) of
        (JStr envelope_id, JStr configuration_id, Some n) \<Rightarrow> envelope_id = version_id configuration_id n
      | _ \<Rightarrow> False)"

text \<open>A quotation line without a design is skipped; a failure is re-raised with the line number.\<close>

definition line_design_ok :: "lib \<Rightarrow> json \<Rightarrow> unit res" where
  "line_design_ok lib line =
     (case as_dict line of
        None \<Rightarrow> ok ()
      | Some d \<Rightarrow>
          if \<not> dhas d ''designSnapshot'' then ok ()
          else rethrow [ValueError, ValidationError] ValueError
                 (ebind (validate_quotation_line_design_snapshot lib d) (\<lambda>_. ok ())))"

definition validate_assembly_contract_mutation :: "lib \<Rightarrow> string \<Rightarrow> dict \<Rightarrow> unit res" where
  "validate_assembly_contract_mutation lib entity_type payload =
     (if entity_type = ''configuration'' then
        (if dhas payload ''assembly''
         then ebind (validate_configuration_assembly lib payload) (\<lambda>_. ok ()) else ok ())
      else if entity_type = ''configuration_version'' then
        (case as_dict (dget payload ''configuration'') of
           None \<Rightarrow> ok ()
         | Some configuration \<Rightarrow>
             if \<not> dhas configuration ''assembly'' then ok ()
             else ebind (validate_configuration_assembly lib configuration) (\<lambda>snap.
               case snap of
                 None \<Rightarrow> ok ()
               | Some _ \<Rightarrow> guard (\<not> envelope_matches payload configuration) ValueError))
      else if entity_type = ''quotation'' then
        (case as_list (dget payload ''lines'') of
           None \<Rightarrow> ok ()
         | Some lines \<Rightarrow> for_each (line_design_ok lib) lines)
      else ok ())"

definition opt_json :: "string option \<Rightarrow> json" where
  "opt_json x = (case x of None \<Rightarrow> JNull | Some s \<Rightarrow> JStr s)"

definition summary_matches :: "assembly_section list \<Rightarrow> dict list \<Rightarrow> bool" where
  "summary_matches secs entries \<longleftrightarrow>
     list_all2 (\<lambda>s e. py_eq (dget e ''sectionType'') (JStr (asec_type s))
                 \<and> py_eq (dget e ''operation'') (opt_json (asec_operation s))) secs entries"

text \<open>The field-by-field comparison with the frozen assembly.\<close>

definition design_matches_frozen ::
  "lib \<Rightarrow> dict \<Rightarrow> design_snapshot \<Rightarrow> dict \<Rightarrow> assembly_snapshot \<Rightarrow> unit res" where
  "design_matches_frozen lib line snap configuration canonical =
     (case dget line ''itemID'' of
        JStr line_item_id \<Rightarrow>
          if dget configuration ''itemID'' \<noteq> JStr line_item_id then raise ValueError
          else if ds_template snap \<noteq> asm_template canonical
               \<or> ds_template_version snap \<noteq> asm_template_version canonical
          then raise ValueError
          else if \<not> overall_eq (ds_overall snap) (asm_overall canonical) then raise ValueError
          else if ds_reference snap \<noteq> asm_reference canonical then raise ValueError
          else if \<not> render_eq (ds_render snap) (asm_render canonical) then raise ValueError
          else ebind (assembly_bom_sha256 lib (asm_bom canonical)) (\<lambda>expected.
            if ds_bom_sha snap \<noteq> expected then raise ValueError
            else guard (\<not> summary_matches (asm_sections canonical) (ds_summary snap)) ValueError)
      | _ \<Rightarrow> raise ValueError)"

definition validate_quotation_design_against_configuration_version ::
  "lib \<Rightarrow> dict \<Rightarrow> dict \<Rightarrow> unit res" where
  "validate_quotation_design_against_configuration_version lib line version_payload =
     ebind (validate_quotation_line_design_snapshot lib line) (\<lambda>snap_opt.
     case snap_opt of
       None \<Rightarrow> ok ()
     | Some snap \<Rightarrow>
         (case dget version_payload ''id'' of
            JStr envelope_id \<Rightarrow>
              (case as_dict (dget version_payload ''configuration'') of
                 None \<Rightarrow> raise ValueError
               | Some configuration \<Rightarrow>
                   if ds_configuration_version_id snap \<noteq> envelope_id then raise ValueError
                   else ebind (validate_configuration_assembly lib configuration) (\<lambda>canonical_opt.
                     case canonical_opt of
                       None \<Rightarrow> raise ValueError \<comment> \<open>no frozen assembly snapshot\<close>
                     | Some canonical \<Rightarrow> design_matches_frozen lib line snap configuration canonical))
          | _ \<Rightarrow> raise ValueError))"

section \<open>Geometry\<close>

text \<open>
  The constraints declared on the fields of a frame (\<open>ge=0, le=1\<close> and \<open>gt=0, le=1\<close>), as the
  parser checks them: a value that compares neither way passes.
\<close>

definition frame_fields_ok :: "assembly_frame \<Rightarrow> bool" where
  "frame_fields_ok f \<longleftrightarrow>
     \<not> fl_less (fr_x f) (Fl 0) \<and> \<not> fl_less (Fl 1) (fr_x f)
     \<and> \<not> fl_less (fr_y f) (Fl 0) \<and> \<not> fl_less (Fl 1) (fr_y f)
     \<and> fr_width f \<noteq> Fl 0 \<and> \<not> fl_less (fr_width f) (Fl 0) \<and> \<not> fl_less (Fl 1) (fr_width f)
     \<and> fr_height f \<noteq> Fl 0 \<and> \<not> fl_less (fr_height f) (Fl 0) \<and> \<not> fl_less (Fl 1) (fr_height f)"

fun the_fl :: "fl \<Rightarrow> rat" where
  "the_fl (Fl r) = r"
| "the_fl _ = 0"

text \<open>Consecutive sections meet, up to \<open>eps\<close>, from \<open>c\<close> on.\<close>

fun meets :: "rat \<Rightarrow> rat \<Rightarrow> assembly_section list \<Rightarrow> bool" where
  "meets eps c [] = True"
| "meets eps c (s # ss) \<longleftrightarrow>
     (\<exists>x w. fr_x (asec_frame s) = Fl x \<and> fr_width (asec_frame s) = Fl w
       \<and> 0 \<le> x \<and> 0 < w \<and> w \<le> 1 \<and> \<bar>x - c\<bar> \<le> eps \<and> meets eps (x + w) ss)"

definition right_edge :: "rat \<Rightarrow> assembly_section list \<Rightarrow> rat" where
  "right_edge c ss = (if ss = [] then c
     else the_fl (fr_x (asec_frame (last ss))) + the_fl (fr_width (asec_frame (last ss))))"

lemma right_edge_Cons:
  "fr_x (asec_frame s) = Fl x \<Longrightarrow> fr_width (asec_frame s) = Fl w \<Longrightarrow>
     right_edge c (s # ss) = right_edge (x + w) ss"
  by (simp add: right_edge_def)

lemma tolerance: obtains t where "FRAME_TOLERANCE = Fl t" and "\<bar>t - 1 / 1000000\<bar> \<le> 1 / 2 ^ 53"
  unfolding FRAME_TOLERANCE_def by (rule fl_round_error [of "1 / 1000000"]) auto

lemma not_apart:
  assumes "\<not> apart (Fl a) (Fl b)" and "\<bar>a - b\<bar> < 2"
  shows "\<bar>a - b\<bar> \<le> 1 / 1000000 + 2 / 2 ^ 53"
proof -
  obtain t where t: "FRAME_TOLERANCE = Fl t" "\<bar>t - 1 / 1000000\<bar> \<le> 1 / 2 ^ 53" by (rule tolerance)
  obtain r where r: "fl_round (a - b) = Fl r" "\<bar>r - (a - b)\<bar> \<le> 1 / 2 ^ 53"
    using fl_round_error [OF assms(2)] by blast
  from assms(1) have "\<bar>r\<bar> \<le> t" by (simp add: apart_def fl_sub_def t(1) r(1))
  with t(2) r(2) show ?thesis by linarith
qed

lemma fits_edge:
  assumes "frame_must_fit_opening f = Inr ()" and "fr_x f = Fl x" and "fr_width f = Fl w"
    and "0 \<le> x" "x \<le> 1" "0 < w" "w \<le> 1"
  obtains c where "fl_add (Fl x) (Fl w) = Fl c" and "\<bar>c - (x + w)\<bar> \<le> 1 / 2 ^ 53" and "c \<le> 3 / 2"
proof -
  obtain t where t: "FRAME_TOLERANCE = Fl t" "\<bar>t - 1 / 1000000\<bar> \<le> 1 / 2 ^ 53" by (rule tolerance)
  have two: "fl_round 2 = Fl 2" by code_simp
  have small: "(1::rat) / 2 ^ 53 \<le> 1 / 8" "(1::rat) / 1000000 \<le> 1 / 8" by simp_all
  have t2: "\<bar>1 + t\<bar> < 2" using t(2) small by linarith
  obtain u where u: "fl_round (1 + t) = Fl u" "\<bar>u - (1 + t)\<bar> \<le> 1 / 2 ^ 53"
    using fl_round_error [OF t2] by blast
  have u2: "u \<le> 3 / 2" using t(2) u(2) small by linarith
  have fit: "\<not> fl_less (Fl u) (fl_add (Fl x) (Fl w))"
    using assms(1) by (simp add: frame_must_fit_opening_def res_simps assms(2,3) t(1) u(1))
  have "x + w < 2"
  proof (rule ccontr)
    assume "\<not> x + w < 2"
    with assms have "x + w = 2" by linarith
    with fit two u2 show False by simp
  qed
  then have "\<bar>x + w\<bar> < 2" using assms by linarith
  then obtain c where c: "fl_round (x + w) = Fl c" "\<bar>c - (x + w)\<bar> \<le> 1 / 2 ^ 53"
    using fl_round_error by blast
  with fit u2 have "c \<le> 3 / 2" by simp
  with c that show ?thesis by simp
qed

lemma planar_band_meets:
  assumes "planar_band (Fl c) ss = Inr cursor" and "\<forall>s \<in> set ss. frame_must_fit_opening (asec_frame s) = Inr ()"
    and "\<forall>s \<in> set ss. \<exists>x w. fr_x (asec_frame s) = Fl x \<and> fr_width (asec_frame s) = Fl w
           \<and> 0 \<le> x \<and> x \<le> 1 \<and> 0 < w \<and> w \<le> 1"
    and "\<bar>c - c0\<bar> \<le> 1 / 2 ^ 53" and "- (1 / 2) \<le> c" and "c \<le> 3 / 2"
  shows "\<exists>d. cursor = Fl d \<and> meets (11 / 10000000) c0 ss \<and> \<bar>d - right_edge c0 ss\<bar> \<le> 1 / 2 ^ 53
    \<and> - (1 / 2) \<le> d \<and> d \<le> 3 / 2"
  using assms
proof (induction ss arbitrary: c c0)
  case Nil
  then show ?case by (auto simp: right_edge_def)
next
  case (Cons s ss)
  from Cons.prems(3) obtain x w where xw: "fr_x (asec_frame s) = Fl x" "fr_width (asec_frame s) = Fl w"
    "0 \<le> x" "x \<le> 1" "0 < w" "w \<le> 1" by auto
  obtain c' where c': "fl_add (Fl x) (Fl w) = Fl c'" "\<bar>c' - (x + w)\<bar> \<le> 1 / 2 ^ 53" "c' \<le> 3 / 2"
    using fits_edge [OF _ xw] Cons.prems(2) by auto
  from Cons.prems(1) xw c' have near: "\<not> apart (Fl x) (Fl c)" and rec: "planar_band (Fl c') ss = Inr cursor"
    by (auto simp: Let_def split: if_splits)
  have small: "(1::rat) / 2 ^ 53 \<le> 1 / 100000000000" by simp
  have "\<bar>x - c\<bar> < 2" using xw Cons.prems(5,6) by linarith
  then have "\<bar>x - c\<bar> \<le> 1 / 1000000 + 2 / 2 ^ 53" by (rule not_apart [OF near])
  then have "\<bar>x - c0\<bar> \<le> 11 / 10000000" using Cons.prems(4) small by linarith
  moreover have "- (1 / 2) \<le> c'" using c'(2) xw small by linarith
  with Cons.IH [OF rec _ _ c'(2) _ c'(3)] Cons.prems(2,3) obtain d where
    "cursor = Fl d" "meets (11 / 10000000) (x + w) ss" "\<bar>d - right_edge (x + w) ss\<bar> \<le> 1 / 2 ^ 53"
    "- (1 / 2) \<le> d" "d \<le> 3 / 2" by auto
  ultimately show ?case using xw by (auto simp: right_edge_Cons)
qed

lemma meets_width:
  "meets eps c ss \<Longrightarrow> 0 \<le> eps \<Longrightarrow>
     \<bar>right_edge c ss - c - (\<Sum>s\<leftarrow>ss. the_fl (fr_width (asec_frame s)))\<bar> \<le> of_nat (length ss) * eps"
proof (induction ss arbitrary: c)
  case (Cons s ss)
  then obtain x w where xw: "fr_x (asec_frame s) = Fl x" "fr_width (asec_frame s) = Fl w" "\<bar>x - c\<bar> \<le> eps"
    "meets eps (x + w) ss" by auto
  from Cons.IH [OF xw(4) Cons.prems(2)] xw(1-3) show ?case
    by (simp add: right_edge_Cons distrib_right abs_le_iff)
qed (simp add: right_edge_def)


section \<open>Inversion\<close>

lemma model_validate_assembly_parts:
  assumes "model_validate_assembly lib raw = Inr snap"
  shows "parse_assembly lib raw = Some snap
    \<and> (\<forall>s \<in> set (asm_sections snap). frame_must_fit_opening (asec_frame s) = Inr ())
    \<and> validate_consistent_projection snap = Inr ()"
  using assms unfolding model_validate_assembly_def
  by (auto simp: res_simps split: option.splits)

lemma section_rendered_ok:
  assumes "section_rendered (render_by_id rd) s = Inr ()"
  shows "\<exists>r \<in> set (rd_sections rd). rs_id r = asec_id s \<and> rs_type r = asec_type s
      \<and> rs_operation r = asec_operation s \<and> frame_eq (rs_frame r) (asec_frame s)"
proof -
  from assms obtain r where "map_of (render_by_id rd) (asec_id s) = Some r" "rs_type r = asec_type s"
    "rs_operation r = asec_operation s" "frame_eq (rs_frame r) (asec_frame s)"
    by (auto simp: section_rendered_def res_simps)
  then show ?thesis by (intro bexI [of _ r]) (auto simp: render_by_id_def dest!: map_of_SomeD)
qed

definition projections_agree :: "assembly_snapshot \<Rightarrow> bool" where
  "projections_agree snap \<longleftrightarrow>
     distinct (map asec_id (asm_sections snap))
     \<and> rs_id ` set (rd_sections (asm_render snap)) = asec_id ` set (asm_sections snap)
     \<and> (\<forall>s \<in> set (asm_sections snap). \<exists>r \<in> set (rd_sections (asm_render snap)).
          rs_id r = asec_id s \<and> rs_type r = asec_type s \<and> rs_operation r = asec_operation s
          \<and> frame_eq (rs_frame r) (asec_frame s))
     \<and> (\<forall>l \<in> set (bom_lines (asm_bom snap)). \<forall>i. bl_source_section l = Some i
          \<longrightarrow> i \<in> asec_id ` set (asm_sections snap))
     \<and> rd_configuration (asm_render snap) = bom_configuration (asm_bom snap)
     \<and> rd_version (asm_render snap) = bom_version (asm_bom snap)"

lemma consistent_projection_parts:
  assumes "validate_consistent_projection snap = Inr ()"
  shows "projections_agree snap
    \<and> (\<exists>cursor. planar_band (Fl 0) (asm_sections snap) = Inr cursor \<and> \<not> apart cursor (Fl 1))"
proof -
  have ids: "set (map fst (render_by_id rd)) = rs_id ` set (rd_sections rd)" for rd
    by (simp add: render_by_id_def image_image)
  from assms obtain cursor where parts: "distinct (map asec_id (asm_sections snap))"
    "planar_band (Fl 0) (asm_sections snap) = Inr cursor" "\<not> apart cursor (Fl 1)"
    "rd_configuration (asm_render snap) = bom_configuration (asm_bom snap)"
    "rd_version (asm_render snap) = bom_version (asm_bom snap)"
    "rs_id ` set (rd_sections (asm_render snap)) = asec_id ` set (asm_sections snap)"
    and ren: "\<forall>s \<in> set (asm_sections snap). section_rendered (render_by_id (asm_render snap)) s = Inr ()"
    and bom: "\<forall>l \<in> set (bom_lines (asm_bom snap)). \<not> (case bl_source_section l of None \<Rightarrow> False
             | Some i \<Rightarrow> i \<notin> set (map asec_id (asm_sections snap)))"
    unfolding validate_consistent_projection_def Let_def res_simps ids by (auto simp: res_simps)
  from bom have "\<forall>l \<in> set (bom_lines (asm_bom snap)). \<forall>i. bl_source_section l = Some i
          \<longrightarrow> i \<in> asec_id ` set (asm_sections snap)" by fastforce
  with parts ren section_rendered_ok show ?thesis unfolding projections_agree_def by blast
qed

lemma frame_fields_finite:
  assumes "frame_fields_ok f" and "fr_x f \<noteq> FNaN" and "fr_width f \<noteq> FNaN"
  shows "\<exists>x w. fr_x f = Fl x \<and> fr_width f = Fl w \<and> 0 \<le> x \<and> x \<le> 1 \<and> 0 < w \<and> w \<le> 1"
  using assms by (cases "fr_x f"; cases "fr_width f") (auto simp: frame_fields_ok_def)

lemma validate_configuration_assembly_parts:
  assumes "validate_configuration_assembly lib payload = Inr (Some snap)"
  shows "\<exists>raw. dget payload ''assembly'' = JObj raw \<and> model_validate_assembly lib raw = Inr snap
    \<and> (\<forall>cid. dget payload ''id'' = JStr cid \<longrightarrow> rd_configuration (asm_render snap) = cid
         \<and> bom_configuration (asm_bom snap) = cid)
    \<and> (\<forall>n. dget payload ''version'' = JInt n \<longrightarrow> rd_version (asm_render snap) = n
         \<and> bom_version (asm_bom snap) = n)"
  using assms unfolding validate_configuration_assembly_def
  by (auto simp: res_simps split: if_splits json.splits option.splits)

section \<open>Sample values\<close>

definition demo_frame :: "rat \<Rightarrow> rat \<Rightarrow> assembly_frame" where
  "demo_frame x w = \<lparr>fr_x = Fl x, fr_y = Fl 0, fr_width = Fl w, fr_height = Fl 1,
     fr_fresh_nan = False\<rparr>"

definition demo_pins :: reference_pins where
  "demo_pins = \<lparr>pin_catalog_version = ''c1'', pin_catalog_sha = ''aa'', pin_rules_version = ''r1'',
     pin_rules_sha = ''bb'', pin_price_version = ''p1'', pin_price_sha = ''cc''\<rparr>"

definition demo_render :: render_descriptor where
  "demo_render = \<lparr>rd_schema = ''vitrial.render.v1'', rd_coordinates = ''normalized_opening'',
     rd_configuration = ''cfg'', rd_version = 1, rd_width_mm = Fl 2000, rd_height_mm = Fl 1000,
     rd_sections = [\<lparr>rs_id = ''left'', rs_type = ''fixed'', rs_operation = None, rs_frame = demo_frame 0 (1 / 4)\<rparr>,
       \<lparr>rs_id = ''right'', rs_type = ''sliding'', rs_operation = Some ''left'', rs_frame = demo_frame (1 / 4) (3 / 4)\<rparr>],
     rd_fresh_nan = False\<rparr>"

definition demo_bom :: bom_snapshot where
  "demo_bom = \<lparr>bom_schema = ''vitrial.bom.v1'', bom_engine = ''e1'', bom_configuration = ''cfg'',
     bom_version = 1, bom_basis = ''area'',
     bom_lines = [\<lparr>bl_id = ''l1'', bl_role = ''glass'', bl_references = [''g''], bl_source_rule = ''r'',
       bl_source_section = Some ''left'', bl_quantity = Fl (1 / 2), bl_unit = ''m2'', bl_waste = Fl 0\<rparr>]\<rparr>"

definition demo_assembly :: assembly_snapshot where
  "demo_assembly = \<lparr>asm_template = ''t'', asm_template_version = 1, asm_measurement = ''m'',
     asm_overall = \<lparr>ov_width = Fl 2000, ov_height = Fl 1000, ov_unit = ''mm'', ov_fresh_nan = False\<rparr>,
     asm_sections = [
       \<lparr>asec_id = ''left'', asec_type = ''fixed'', asec_operation = None, asec_frame = demo_frame 0 (1 / 4),
         asec_width_mm = Fl 500, asec_height_mm = Fl 1000\<rparr>,
       \<lparr>asec_id = ''right'', asec_type = ''sliding'', asec_operation = Some ''left'',
         asec_frame = demo_frame (1 / 4) (3 / 4), asec_width_mm = Fl 1500, asec_height_mm = Fl 1000\<rparr>],
     asm_selections = [], asm_reference = demo_pins, asm_bom = demo_bom, asm_render = demo_render\<rparr>"

definition demo_design :: design_snapshot where
  "demo_design = \<lparr>ds_template = ''t'', ds_template_version = 1, ds_configuration_version_id = ''cfg#v1'',
     ds_overall = \<lparr>ov_width = Fl 2000, ov_height = Fl 1000, ov_unit = ''mm'', ov_fresh_nan = False\<rparr>,
     ds_summary = [[(''sectionType'', JStr ''fixed''), (''operation'', JNull)],
       [(''sectionType'', JStr ''sliding''), (''operation'', JStr ''left'')]],
     ds_render = demo_render, ds_bom_sha = ''digest'', ds_reference = demo_pins\<rparr>"

definition demo_lib :: lib where
  "demo_lib = \<lparr>parse_assembly = (\<lambda>_. Some demo_assembly), parse_design = (\<lambda>_. Some demo_design),
     json_loads = (\<lambda>_. Some (JObj [])), sha256_hex = (\<lambda>_. ''digest'')\<rparr>"

definition demo_configuration :: dict where
  "demo_configuration = [(''id'', JStr ''cfg''), (''version'', JInt 1), (''itemID'', JStr ''i''),
     (''assembly'', JObj [])]"

lemma demo_configuration_accepted:
  "validate_configuration_assembly demo_lib demo_configuration = Inr (Some demo_assembly)"
  by code_simp

section \<open>Properties\<close>

text \<open>
  C36. Geometry of an accepted assembly whose horizontal coordinates are numbers (no section
  has NaN as its x or width), in exact arithmetic although the server checks it in binary floating
  point: given that the parser enforces the declared field ranges, every section has a finite frame
  of positive width, each section starts where the previous one ends up to 1.1e-6 of the opening, the
  first starts at the left edge, and the widths of the n sections add up to the opening within 1.1e-6
  times n + 1. Assemblies with NaN coordinates are accepted too (\<open>nan_frames_accepted\<close>) and are outside
  this statement.
\<close>

theorem assembly_sections_tile_opening:
  assumes fields: "\<And>raw snap s. parse_assembly lib raw = Some snap \<Longrightarrow> s \<in> set (asm_sections snap)
      \<Longrightarrow> frame_fields_ok (asec_frame s)"
    and "validate_configuration_assembly lib payload = Inr (Some snap)"
    and numbers: "\<forall>s \<in> set (asm_sections snap). fr_x (asec_frame s) \<noteq> FNaN \<and> fr_width (asec_frame s) \<noteq> FNaN"
  shows "meets (11 / 10000000) 0 (asm_sections snap)
    \<and> \<bar>(\<Sum>s\<leftarrow>asm_sections snap. the_fl (fr_width (asec_frame s))) - 1\<bar>
        \<le> of_nat (length (asm_sections snap) + 1) * (11 / 10000000)"
proof -
  obtain raw where "model_validate_assembly lib raw = Inr snap"
    using validate_configuration_assembly_parts [OF assms(2)] by blast
  then have parse: "parse_assembly lib raw = Some snap"
    and fit: "\<forall>s \<in> set (asm_sections snap). frame_must_fit_opening (asec_frame s) = Inr ()"
    and proj: "validate_consistent_projection snap = Inr ()"
    using model_validate_assembly_parts by blast+
  from consistent_projection_parts [OF proj] obtain cursor where band: "planar_band (Fl 0) (asm_sections snap) = Inr cursor" and full: "\<not> apart cursor (Fl 1)"
    by blast
  have fin: "\<forall>s \<in> set (asm_sections snap). \<exists>x w. fr_x (asec_frame s) = Fl x
      \<and> fr_width (asec_frame s) = Fl w \<and> 0 \<le> x \<and> x \<le> 1 \<and> 0 < w \<and> w \<le> 1"
    using numbers fields [OF parse] frame_fields_finite by blast
  from planar_band_meets [OF band fit fin, of 0] obtain d where d: "cursor = Fl d"
    "meets (11 / 10000000) 0 (asm_sections snap)" "\<bar>d - right_edge 0 (asm_sections snap)\<bar> \<le> 1 / 2 ^ 53"
    "- (1 / 2) \<le> d" "d \<le> 3 / 2" by auto
  have small: "(1::rat) / 2 ^ 53 \<le> 1 / 100000000000" by simp
  have "\<bar>d - 1\<bar> \<le> 1 / 1000000 + 2 / 2 ^ 53"
    using full d(1,4,5) by (intro not_apart) auto
  then have "\<bar>right_edge 0 (asm_sections snap) - 1\<bar> \<le> 11 / 10000000" using d(3) small by linarith
  moreover have "\<bar>right_edge 0 (asm_sections snap) - (\<Sum>s\<leftarrow>asm_sections snap. the_fl (fr_width (asec_frame s)))\<bar>
      \<le> of_nat (length (asm_sections snap)) * (11 / 10000000)"
    using meets_width [OF d(2)] by simp
  moreover have "\<bar>b - 1\<bar> \<le> of_nat (n + 1) * e" if "\<bar>a - 1\<bar> \<le> e" "\<bar>a - b\<bar> \<le> of_nat n * e" for a b e :: rat and n
    using that unfolding of_nat_add distrib_right by linarith
  ultimately show ?thesis using d(2) by blast
qed

theorem assembly_sections_tile_opening_witness:
  "meets (11 / 10000000) 0 (asm_sections demo_assembly)
    \<and> \<bar>(\<Sum>s\<leftarrow>asm_sections demo_assembly. the_fl (fr_width (asec_frame s))) - 1\<bar> \<le> 3 * (11 / 10000000)"
proof -
  have "frame_fields_ok (asec_frame s)"
    if "parse_assembly demo_lib raw = Some snap" "s \<in> set (asm_sections snap)" for raw snap s
    using that by (auto simp: demo_lib_def demo_assembly_def frame_fields_ok_def demo_frame_def)
  moreover have "\<forall>s \<in> set (asm_sections demo_assembly). fr_x (asec_frame s) \<noteq> FNaN
      \<and> fr_width (asec_frame s) \<noteq> FNaN" by (simp add: demo_assembly_def demo_frame_def)
  ultimately show ?thesis
    using assembly_sections_tile_opening [OF _ demo_configuration_accepted]
    by (simp add: demo_assembly_def)
qed

text \<open>
  The hypothesis is needed: one section whose frame is NaN in every field, read from JSON literals,
  passes the declared ranges, fits the opening, forms a band and is equal to its rendered copy.
\<close>

definition nan_frame :: assembly_frame where
  "nan_frame = \<lparr>fr_x = FNaN, fr_y = FNaN, fr_width = FNaN, fr_height = FNaN, fr_fresh_nan = False\<rparr>"

definition nan_assembly :: assembly_snapshot where
  "nan_assembly = demo_assembly\<lparr>asm_sections := [\<lparr>asec_id = ''left'', asec_type = ''fixed'',
       asec_operation = None, asec_frame = nan_frame, asec_width_mm = Fl 500, asec_height_mm = Fl 1000\<rparr>],
     asm_render := demo_render\<lparr>rd_sections := [\<lparr>rs_id = ''left'', rs_type = ''fixed'',
       rs_operation = None, rs_frame = nan_frame\<rparr>]\<rparr>\<rparr>"

theorem nan_frames_accepted:
  "frame_fields_ok nan_frame
    \<and> validate_configuration_assembly (demo_lib\<lparr>parse_assembly := \<lambda>_. Some nan_assembly\<rparr>) demo_configuration
        = Inr (Some nan_assembly)
    \<and> \<not> meets e 0 (asm_sections nan_assembly)"
proof -
  have "validate_configuration_assembly (demo_lib\<lparr>parse_assembly := \<lambda>_. Some nan_assembly\<rparr>) demo_configuration
        = Inr (Some nan_assembly)" by code_simp
  then show ?thesis by (simp add: frame_fields_ok_def nan_frame_def nan_assembly_def)
qed

text \<open>
  Projections of an accepted assembly agree: section ids are unique, the render descriptor
  shows exactly the sections of the assembly, with the same type, operation and frame, every BOM
  line that names a section names one of them, and both projections carry the id and version of
  the configuration they are nested in.
\<close>

theorem assembly_projections_agree:
  assumes "validate_configuration_assembly lib payload = Inr (Some snap)"
  shows "projections_agree snap
    \<and> (\<forall>cid. dget payload ''id'' = JStr cid \<longrightarrow> bom_configuration (asm_bom snap) = cid)
    \<and> (\<forall>n. dget payload ''version'' = JInt n \<longrightarrow> bom_version (asm_bom snap) = n)"
proof -
  obtain raw where raw: "model_validate_assembly lib raw = Inr snap"
    and ids: "\<forall>cid. dget payload ''id'' = JStr cid \<longrightarrow> bom_configuration (asm_bom snap) = cid"
      "\<forall>n. dget payload ''version'' = JInt n \<longrightarrow> bom_version (asm_bom snap) = n"
    using validate_configuration_assembly_parts [OF assms] by blast
  have "validate_consistent_projection snap = Inr ()"
    using model_validate_assembly_parts [OF raw] by blast
  with ids show ?thesis using consistent_projection_parts by blast
qed

theorem assembly_projections_agree_witness:
  "projections_agree demo_assembly
    \<and> bom_configuration (asm_bom demo_assembly) = ''cfg'' \<and> bom_version (asm_bom demo_assembly) = 1"
  using assembly_projections_agree [OF demo_configuration_accepted]
  by (simp add: demo_configuration_def)

text \<open>
  A design snapshot accepted against a configuration version repeats what that version froze:
  its id, the item of the line, the template and its version, dimensions, reference pins and render
  descriptor are those of the canonical assembly, the BOM digest is the hash of the canonical
  material of the frozen BOM, and the section summary lists the frozen sections in order.
\<close>

theorem design_bound_to_version:
  assumes "validate_quotation_design_against_configuration_version lib line version_payload = Inr ()"
    and "dget line ''designSnapshot'' \<noteq> JNull"
  shows "\<exists>raw design configuration frozen material.
     dget line ''designSnapshot'' = JObj raw \<and> parse_design lib raw = Some design
     \<and> dget version_payload ''id'' = JStr (ds_configuration_version_id design)
     \<and> dget version_payload ''configuration'' = JObj configuration
     \<and> validate_configuration_assembly lib configuration = Inr (Some frozen)
     \<and> py_eq (dget line ''itemID'') (dget configuration ''itemID'')
     \<and> ds_template design = asm_template frozen \<and> ds_template_version design = asm_template_version frozen
     \<and> overall_eq (ds_overall design) (asm_overall frozen) \<and> ds_reference design = asm_reference frozen
     \<and> render_eq (ds_render design) (asm_render frozen)
     \<and> canonical_bom_digest_material (asm_bom frozen) = Inr material
     \<and> ds_bom_sha design = sha256_hex lib material
     \<and> summary_matches (asm_sections frozen) (ds_summary design)"
proof -
  from assms obtain design where design: "validate_quotation_line_design_snapshot lib line = Inr (Some design)"
    by (auto simp: validate_quotation_design_against_configuration_version_def
        validate_quotation_line_design_snapshot_def res_simps)
  obtain raw where raw: "dget line ''designSnapshot'' = JObj raw" "parse_design lib raw = Some design"
    using design assms(2)
    by (auto simp: validate_quotation_line_design_snapshot_def model_validate_design_def res_simps)
  from assms(1) design obtain configuration frozen where
    cfg: "dget version_payload ''id'' = JStr (ds_configuration_version_id design)"
      "dget version_payload ''configuration'' = JObj configuration"
      "validate_configuration_assembly lib configuration = Inr (Some frozen)"
    and same: "design_matches_frozen lib line design configuration frozen = Inr ()"
    by (auto simp: validate_quotation_design_against_configuration_version_def res_simps)
  from same obtain item material where "dget line ''itemID'' = JStr item"
    "dget configuration ''itemID'' = JStr item"
    "ds_template design = asm_template frozen" "ds_template_version design = asm_template_version frozen"
    "overall_eq (ds_overall design) (asm_overall frozen)" "ds_reference design = asm_reference frozen"
    "render_eq (ds_render design) (asm_render frozen)"
    "canonical_bom_digest_material (asm_bom frozen) = Inr material"
    "ds_bom_sha design = sha256_hex lib material" "summary_matches (asm_sections frozen) (ds_summary design)"
    unfolding design_matches_frozen_def assembly_bom_sha256_def by (auto simp: res_simps)
  with raw cfg show ?thesis by auto
qed

definition demo_line :: dict where
  "demo_line = [(''itemID'', JStr ''i''), (''configurationVersionID'', JStr ''cfg#v1''), (''designSnapshot'', JObj [])]"

theorem design_bound_to_version_witness:
  "\<exists>raw design configuration frozen material.
     dget demo_line ''designSnapshot'' = JObj raw \<and> parse_design demo_lib raw = Some design
     \<and> validate_configuration_assembly demo_lib configuration = Inr (Some frozen)
     \<and> canonical_bom_digest_material (asm_bom frozen) = Inr material
     \<and> ds_bom_sha design = sha256_hex demo_lib material"
proof -
  have design: "validate_quotation_line_design_snapshot demo_lib demo_line = Inr (Some demo_design)"
    by code_simp
  have "\<exists>m. canonical_bom_digest_material demo_bom = Inr m"
    by (simp add: canonical_bom_digest_material_def demo_bom_def bom_line_material_def
        bom_digest_decimal6_def ebind_def)
  then have sha: "assembly_bom_sha256 demo_lib demo_bom = Inr ''digest''"
    by (auto simp: assembly_bom_sha256_def demo_lib_def)
  have fields: "overall_eq (ds_overall demo_design) (asm_overall demo_assembly)"
    "render_eq (ds_render demo_design) (asm_render demo_assembly)"
    "summary_matches (asm_sections demo_assembly) (ds_summary demo_design)" by code_simp+
  have same: "design_matches_frozen demo_lib demo_line demo_design demo_configuration demo_assembly = Inr ()"
    using fields sha
    by (simp add: design_matches_frozen_def demo_line_def demo_configuration_def
        demo_design_def demo_assembly_def)
  have "validate_quotation_design_against_configuration_version demo_lib demo_line
      [(''id'', JStr ''cfg#v1''), (''configuration'', JObj demo_configuration)] = Inr ()"
    using same
    by (simp add: validate_quotation_design_against_configuration_version_def design
        demo_configuration_accepted)
      (simp add: demo_design_def)
  moreover have "dget demo_line ''designSnapshot'' \<noteq> JNull" by (simp add: demo_line_def)
  ultimately show ?thesis using design_bound_to_version by blast
qed

end
