(* ===== verification/Idempotency.thy ===== *)
theory Idempotency
  imports Models Assembly_Contract
begin

text \<open>
  \<open>app/schemas.py\<close> (the wire records of a sync batch) and \<open>app/idempotency.py\<close> (the fingerprint
  that tells a replay of a mutation from the reuse of its id).
\<close>

section \<open>Wire records\<close>

definition MAX_SYNC_RECORDS :: nat where
  "MAX_SYNC_RECORDS = 200"

definition MAX_SYNC_V1_BATCH_PAYLOAD_BYTES :: nat where
  "MAX_SYNC_V1_BATCH_PAYLOAD_BYTES = 2100000"

definition MAX_SYNC_IDENTIFIER_LENGTH :: nat where
  "MAX_SYNC_IDENTIFIER_LENGTH = 256"

definition MAX_SYNC_V1_WIRE_PAYLOAD_BYTES :: nat where
  "MAX_SYNC_V1_WIRE_PAYLOAD_BYTES = 2100000"

record sync_record =
  sr_id :: string
  sr_entity_type :: string
  sr_entity_id :: string
  sr_updated_at :: datetime
  sr_payload :: "char list"
  sr_base_server_revision :: "int option"
  sr_server_revision :: "int option"
  sr_client_mutation_id :: "string option"
  sr_deleted_at :: "datetime option"

record sync_batch =
  sb_device_id :: string
  sb_cursor :: "string option"
  sb_records :: "sync_record list"

record sync_result =
  accepted_record_ids :: "string list"
  rejected_record_ids :: "string list"
  next_cursor :: "string option"

definition ENTITY_TYPES :: "string list" where
  "ENTITY_TYPES = [''customer'', ''project'', ''project_sector'', ''item'', ''item_audit_event'',
     ''measurement'', ''evidence'', ''customer_requirement'', ''configuration'',
     ''configuration_version'', ''blocker'', ''quotation'', ''delivery_execution'']"

text \<open>The declared constraints of a record and of a batch.\<close>

definition bounded_id :: "string \<Rightarrow> bool" where
  "bounded_id s \<longleftrightarrow> 1 \<le> length s \<and> length s \<le> MAX_SYNC_IDENTIFIER_LENGTH"

definition sync_record_valid :: "sync_record \<Rightarrow> bool" where
  "sync_record_valid r \<longleftrightarrow> bounded_id (sr_id r) \<and> sr_entity_type r \<in> set ENTITY_TYPES
     \<and> bounded_id (sr_entity_id r) \<and> length (sr_payload r) \<le> MAX_SYNC_V1_WIRE_PAYLOAD_BYTES
     \<and> (case sr_base_server_revision r of None \<Rightarrow> True | Some n \<Rightarrow> 0 \<le> n)
     \<and> (case sr_server_revision r of None \<Rightarrow> True | Some n \<Rightarrow> 0 \<le> n)
     \<and> (case sr_client_mutation_id r of None \<Rightarrow> True | Some i \<Rightarrow> length i \<le> MAX_SYNC_IDENTIFIER_LENGTH)"

definition aggregate_payload_must_be_bounded :: "sync_batch \<Rightarrow> bool" where
  "aggregate_payload_must_be_bounded b \<longleftrightarrow>
     sum_list (map (\<lambda>r. length (sr_payload r)) (sb_records b)) \<le> MAX_SYNC_V1_BATCH_PAYLOAD_BYTES"

definition sync_batch_valid :: "sync_batch \<Rightarrow> bool" where
  "sync_batch_valid b \<longleftrightarrow> bounded_id (sb_device_id b)
     \<and> (case sb_cursor b of None \<Rightarrow> True | Some c \<Rightarrow> length c \<le> MAX_SYNC_IDENTIFIER_LENGTH)
     \<and> length (sb_records b) \<le> MAX_SYNC_RECORDS \<and> list_all sync_record_valid (sb_records b)
     \<and> aggregate_payload_must_be_bounded b"

section \<open>Timestamps\<close>

definition pad :: "nat \<Rightarrow> nat \<Rightarrow> string" where
  "pad k n = (let t = show_nat n in replicate (k - length t) (CHR ''0'') @ t)"

definition iso_offset :: "int option \<Rightarrow> string" where
  "iso_offset off = (case off of
       None \<Rightarrow> []
     | Some m \<Rightarrow> (if m < 0 then ''-'' else ''+'') @ pad 2 (nat \<bar>m\<bar> div 60) @ '':'' @ pad 2 (nat \<bar>m\<bar> mod 60))"

text \<open>\<open>datetime.isoformat()\<close>\<close>

definition isoformat :: "datetime \<Rightarrow> string" where
  "isoformat t = pad 4 (dt_year t) @ ''-'' @ pad 2 (dt_month t) @ ''-'' @ pad 2 (dt_day t) @ ''T''
     @ pad 2 (dt_hour t) @ '':'' @ pad 2 (dt_minute t) @ '':'' @ pad 2 (dt_second t)
     @ (if dt_microsecond t = 0 then [] else ''.'' @ pad 6 (dt_microsecond t)) @ iso_offset (dt_offset t)"

section \<open>Fingerprint\<close>

definition opt_int :: "int option \<Rightarrow> json" where
  "opt_int x = (case x of None \<Rightarrow> JNull | Some n \<Rightarrow> JInt n)"

definition fingerprint_material :: "sync_record \<Rightarrow> json" where
  "fingerprint_material record =
     JObj [(''entityType'', JStr (sr_entity_type record)), (''entityID'', JStr (sr_entity_id record)),
       (''baseServerRevision'', opt_int (sr_base_server_revision record)),
       (''updatedAt'', JStr (isoformat (sr_updated_at record))),
       (''deletedAt'', case sr_deleted_at record of None \<Rightarrow> JNull | Some t \<Rightarrow> JStr (isoformat t)),
       (''payload'', JStr (b64encode (sr_payload record)))]"

definition fingerprint_canonical :: "sync_record \<Rightarrow> string" where
  "fingerprint_canonical record = json_dumps True (fingerprint_material record)"

definition request_fingerprint :: "lib \<Rightarrow> sync_record \<Rightarrow> string" where
  "request_fingerprint lib record = sha256_hex lib (utf8 (fingerprint_canonical record))"

section \<open>Decoding JSON strings\<close>

text \<open>The inverse of one escape: the character and what follows.\<close>

definition unhex :: "char \<Rightarrow> nat" where
  "unhex c = (let n = (of_char c :: nat) in if n < 58 then n - 48 else n - 87)"

fun unescape :: "string \<Rightarrow> char \<times> string" where
  "unescape (c # rest) =
     (if c \<noteq> CHR 0x5C then (c, rest)
      else case rest of
          [] \<Rightarrow> (c, [])
        | d # rest' \<Rightarrow>
            if d = CHR ''n'' then (CHR 0x0A, rest')
            else if d = CHR ''r'' then (CHR 0x0D, rest')
            else if d = CHR ''t'' then (CHR 0x09, rest')
            else if d = CHR ''f'' then (CHR 0x0C, rest')
            else if d = CHR ''b'' then (CHR 0x08, rest')
            else if d = CHR ''u'' then
              (char_of (unhex (rest' ! 2) * 16 + unhex (rest' ! 3)), drop 4 rest')
            else (d, rest'))"
| "unescape [] = (CHR 0x00, [])"

lemma unhex_digit: "n < 16 \<Longrightarrow> unhex (hex_digit n) = n"
  by (auto simp: unhex_def hex_digit_def Let_def)

lemma unescape_esc: "unescape (esc_char a c @ rest) = (c, rest)"
proof -
  have lit: "c = d" if "(of_char c :: nat) = of_char d" for d
    using that by (simp add: of_char_eq_iff)
  have bd: "(of_char c :: nat) div 16 < 16" "(of_char c :: nat) mod 16 < 16"
    using char_bounds [of c] by (simp_all add: less_mult_imp_div_less)
  have hex: "char_of (unhex (hex_digit (of_char c div 16)) * 16 + unhex (hex_digit (of_char c mod 16))) = c"
    using bd by (simp add: unhex_digit)
  consider (special) "c \<in> {CHR 0x22, CHR 0x5C, CHR 0x0A, CHR 0x0D, CHR 0x09, CHR 0x0C, CHR 0x08}"
    | (hexed) "esc_char a c = CHR 0x5C # ''u00'' @ [hex_digit (of_char c div 16), hex_digit (of_char c mod 16)]"
    | (plain) "esc_char a c = [c]" "c \<noteq> CHR 0x5C"
    using lit [of "CHR 0x22"] lit [of "CHR 0x5C"] lit [of "CHR 0x0A"] lit [of "CHR 0x0D"] lit [of "CHR 0x09"]
      lit [of "CHR 0x0C"] lit [of "CHR 0x08"]
    unfolding esc_char_def Let_def by (fastforce split: if_splits)
  then show ?thesis
  proof cases
    case special
    then show ?thesis by (auto simp: esc_char_def)
  next
    case hexed
    then show ?thesis by (simp add: hex)
  next
    case plain
    then show ?thesis by simp
  qed
qed


lemma esc_char_prefix: "esc_char a c @ x = esc_char a c' @ x' \<Longrightarrow> c = c' \<and> x = x'"
  by (metis unescape_esc prod.inject)

lemma esc_char_no_quote: "\<exists>d ds. esc_char a c = d # ds \<and> d \<noteq> CHR 0x22"
proof (cases "c = CHR 0x22")
  case False
  then show ?thesis by (auto simp: esc_char_def Let_def)
qed (simp add: esc_char_def)

lemma json_body_prefix:
  "concat (map (esc_char a) s) @ CHR 0x22 # x = concat (map (esc_char a) s') @ CHR 0x22 # x' \<Longrightarrow> s = s' \<and> x = x'"
proof (induction s arbitrary: s')
  case Nil
  show ?case
  proof (cases s')
    case (Cons c' t')
    obtain d ds where "esc_char a c' = d # ds" "d \<noteq> CHR 0x22" using esc_char_no_quote by blast
    with Nil Cons show ?thesis by simp
  qed (use Nil in simp)
next
  case (Cons c s)
  show ?case
  proof (cases s')
    case Nil
    obtain d ds where "esc_char a c = d # ds" "d \<noteq> CHR 0x22" using esc_char_no_quote by blast
    with Cons.prems Nil show ?thesis by simp
  next
    case (Cons c' t')
    with Cons.prems have "esc_char a c @ concat (map (esc_char a) s) @ CHR 0x22 # x
        = esc_char a c' @ concat (map (esc_char a) t') @ CHR 0x22 # x'" by simp
    from esc_char_prefix [OF this] Cons.IH [of t'] Cons show ?thesis by simp
  qed
qed

lemma json_string_prefix: "json_string a s @ x = json_string a s' @ x' \<Longrightarrow> s = s' \<and> x = x'"
  by (rule json_body_prefix) (simp add: json_string_def)

lemma json_string_hd: "\<exists>t. json_string a s = CHR 0x22 # t"
  by (simp add: json_string_def)

lemma until_comma:
  assumes "x @ CHR '','' # r = x' @ CHR '','' # r'" and "CHR '','' \<notin> set x" and "CHR '','' \<notin> set x'"
  shows "x = x' \<and> r = r'"
proof -
  have "takeWhile (\<lambda>c. c \<noteq> CHR '','') (y @ CHR '','' # z) = y" if "CHR '','' \<notin> set y" for y z
    using that by (induction y) auto
  from this [OF assms(2), of r] this [OF assms(3), of r'] assms(1) have "x = x'" by simp
  with assms(1) show ?thesis by simp
qed

lemma show_int_inj [simp]: "show_int m = show_int n \<longleftrightarrow> m = n"
proof -
  have hd: "ascii_digit (hd (show_nat k))" for k
    using show_nat_digits [of k] by (cases "show_nat k") simp_all
  have "show_nat k \<noteq> CHR ''-'' # t" for k t
    using hd [of k] by (auto simp: ascii_digit_def)
  then show ?thesis
    by (auto simp: show_int_def nat_eq_iff split: if_splits) (metis)
qed

lemma opt_int_text:
  "CHR '','' \<notin> set (json_dumps a (opt_int x))"
  "json_dumps a (opt_int x) = json_dumps a (opt_int y) \<Longrightarrow> x = y"
proof -
  have digits: "list_all (\<lambda>c. ascii_digit c \<or> c = CHR ''-'') (show_int n)" for n
    using show_nat_digits by (auto simp: show_int_def list_all_iff)
  have "CHR '','' \<notin> set (show_int n)" for n
  proof
    assume "CHR '','' \<in> set (show_int n)"
    with digits [of n] have "ascii_digit (CHR '','')" by (auto simp: list_all_iff)
    then show False by (simp add: ascii_digit_def)
  qed
  then show "CHR '','' \<notin> set (json_dumps a (opt_int x))"
    by (simp add: opt_int_def split: option.split)
  have "show_int n \<noteq> ''null''" for n
    using digits [of n] by (auto simp: ascii_digit_def)
  then show "json_dumps a (opt_int x) = json_dumps a (opt_int y) \<Longrightarrow> x = y"
    by (auto simp: opt_int_def split: option.splits)
qed


section \<open>The canonical text\<close>

lemma sorted_material:
  "sort_key fst [(''entityType'', a), (''entityID'', b), (''baseServerRevision'', c), (''updatedAt'', d),
      (''deletedAt'', e), (''payload'', f :: string)]
    = [(''baseServerRevision'', c), (''deletedAt'', e), (''entityID'', b), (''entityType'', a),
       (''payload'', f), (''updatedAt'', d)]"
  by (simp add: less_char_def less_eq_char_def)

definition deleted_text :: "datetime option \<Rightarrow> string" where
  "deleted_text x = (case x of None \<Rightarrow> ''null'' | Some t \<Rightarrow> json_string True (isoformat t))"

lemma fingerprint_text:
  "fingerprint_canonical r =
     ''{'' @ json_string True ''baseServerRevision'' @ '':'' @ json_dumps True (opt_int (sr_base_server_revision r))
     @ '','' @ json_string True ''deletedAt'' @ '':'' @ deleted_text (sr_deleted_at r)
     @ '','' @ json_string True ''entityID'' @ '':'' @ json_string True (sr_entity_id r)
     @ '','' @ json_string True ''entityType'' @ '':'' @ json_string True (sr_entity_type r)
     @ '','' @ json_string True ''payload'' @ '':'' @ json_string True (b64encode (sr_payload r))
     @ '','' @ json_string True ''updatedAt'' @ '':'' @ json_string True (isoformat (sr_updated_at r)) @ ''}''"
  by (simp add: fingerprint_canonical_def fingerprint_material_def sorted_material join_def deleted_text_def
      del: sort_key_simps split: option.split)


section \<open>Injectivity\<close>

definition datetime_valid :: "datetime \<Rightarrow> bool" where
  "datetime_valid t \<longleftrightarrow> dt_year t < 10000 \<and> dt_month t < 100 \<and> dt_day t < 100 \<and> dt_hour t < 100
     \<and> dt_minute t < 100 \<and> dt_second t < 100 \<and> dt_microsecond t < 1000000
     \<and> (case dt_offset t of None \<Rightarrow> True | Some m \<Rightarrow> \<bar>m\<bar> < 1440)"

lemma pad_prefix:
  assumes "pad k m @ x = pad k n @ x'" and "m < 10 ^ k" and "n < 10 ^ k" and "0 < k"
  shows "m = n \<and> x = x'"
proof -
  have len: "length (pad k i) = k" if "i < 10 ^ k" for i
    using show_nat_length [OF that assms(4)] by (simp add: pad_def Let_def)
  have zeros: "foldl (\<lambda>n c. 10 * n + digit_value c) 0 (replicate j (CHR ''0'')) = 0" for j
    by (induction j) (simp_all add: digit_value_def)
  have parse: "parse_nat (pad k i) = i" for i
    using parse_show_nat [of i] by (simp add: pad_def Let_def parse_nat_def zeros)
  from assms(1) len [OF assms(2)] len [OF assms(3)] have "pad k m = pad k n" "x = x'" by (simp_all add: append_eq_append_conv)
  with parse [of m] parse [of n] show ?thesis by metis
qed

lemma iso_offset_inj:
  assumes "iso_offset a = iso_offset b"
    and "case a of None \<Rightarrow> True | Some m \<Rightarrow> \<bar>m\<bar> < 1440" and "case b of None \<Rightarrow> True | Some m \<Rightarrow> \<bar>m\<bar> < 1440"
  shows "a = b"
proof (cases a)
  case None
  with assms(1) show ?thesis by (auto simp: iso_offset_def split: option.splits if_splits)
next
  case (Some m)
  with assms(1) obtain n where n: "b = Some n" by (cases b) (auto simp: iso_offset_def split: if_splits)
  have bd: "nat \<bar>m\<bar> div 60 < 100" "nat \<bar>n\<bar> div 60 < 100" "nat \<bar>m\<bar> mod 60 < 100" "nat \<bar>n\<bar> mod 60 < 100"
    using assms(2,3) Some n by (auto simp: less_mult_imp_div_less intro: less_trans [of _ 60])
  from assms(1) Some n have sg: "(m < 0) = (n < 0)"
    and eq: "pad 2 (nat \<bar>m\<bar> div 60) @ '':'' @ pad 2 (nat \<bar>m\<bar> mod 60) = pad 2 (nat \<bar>n\<bar> div 60) @ '':'' @ pad 2 (nat \<bar>n\<bar> mod 60)"
    by (auto simp: iso_offset_def split: if_splits)
  from pad_prefix [OF eq] bd have q: "nat \<bar>m\<bar> div 60 = nat \<bar>n\<bar> div 60"
    and "pad 2 (nat \<bar>m\<bar> mod 60) = pad 2 (nat \<bar>n\<bar> mod 60)" by simp_all
  then have r: "nat \<bar>m\<bar> mod 60 = nat \<bar>n\<bar> mod 60" using pad_prefix [of 2 _ "[]" _ "[]"] bd by simp
  from q r have "nat \<bar>m\<bar> = nat \<bar>n\<bar>" by (metis div_mult_mod_eq)
  with sg n Some show ?thesis by auto
qed

lemma iso_tail_inj:
  assumes "(if m = 0 then [] else ''.'' @ pad 6 m) @ iso_offset a = (if n = 0 then [] else ''.'' @ pad 6 n) @ iso_offset b"
    and "m < 1000000" and "n < 1000000"
  shows "m = n \<and> iso_offset a = iso_offset b"
proof -
  have dot: "iso_offset x \<noteq> CHR ''.'' # t" for x t by (auto simp: iso_offset_def split: option.split)
  show ?thesis
  proof (cases "m = 0 \<or> n = 0")
    case True
    with assms(1) dot show ?thesis by (auto split: if_splits) (metis)+
  next
    case False
    with assms(1) have "pad 6 m @ iso_offset a = pad 6 n @ iso_offset b" by simp
    from pad_prefix [OF this] assms(2,3) show ?thesis by simp
  qed
qed

lemma pad_sep_prefix:
  assumes "pad k m @ c # x = pad k n @ c # x'" and "m < 10 ^ k" and "n < 10 ^ k" and "0 < k"
  shows "m = n \<and> x = x'"
  using pad_prefix [OF assms] by simp

lemma isoformat_inj:
  assumes "isoformat t = isoformat u" and "datetime_valid t" and "datetime_valid u"
  shows "t = u"
proof -
  have v: "dt_year z < 10 ^ 4" "dt_month z < 10 ^ 2" "dt_day z < 10 ^ 2" "dt_hour z < 10 ^ 2"
    "dt_minute z < 10 ^ 2" "dt_second z < 10 ^ 2" "dt_microsecond z < 1000000"
    "case dt_offset z of None \<Rightarrow> True | Some m \<Rightarrow> \<bar>m\<bar> < 1440" if "datetime_valid z" for z
    using that by (simp_all add: datetime_valid_def)
  note vt = v [OF assms(2)] and vu = v [OF assms(3)]
  note eq = assms(1) [unfolded isoformat_def append_Cons append_Nil]
  note s1 = pad_sep_prefix [OF eq vt(1) vu(1) zero_less_numeral]
  note s2 = pad_sep_prefix [OF s1 [THEN conjunct2] vt(2) vu(2) zero_less_numeral]
  note s3 = pad_sep_prefix [OF s2 [THEN conjunct2] vt(3) vu(3) zero_less_numeral]
  note s4 = pad_sep_prefix [OF s3 [THEN conjunct2] vt(4) vu(4) zero_less_numeral]
  note s5 = pad_sep_prefix [OF s4 [THEN conjunct2] vt(5) vu(5) zero_less_numeral]
  note s6 = pad_prefix [OF s5 [THEN conjunct2] vt(6) vu(6) zero_less_numeral]
  have s7: "dt_microsecond t = dt_microsecond u \<and> iso_offset (dt_offset t) = iso_offset (dt_offset u)"
    by (rule iso_tail_inj [unfolded append_Cons append_Nil, OF s6 [THEN conjunct2] vt(7) vu(7)])
  have "dt_offset t = dt_offset u" using iso_offset_inj [OF s7 [THEN conjunct2] vt(8) vu(8)] .
  with s1 s2 s3 s4 s5 s6 s7 show ?thesis by simp
qed

lemma deleted_text_prefix:
  assumes "deleted_text x @ r = deleted_text y @ r'"
    and "\<forall>t\<in>set_option x. datetime_valid t" and "\<forall>t\<in>set_option y. datetime_valid t"
  shows "x = y \<and> r = r'"
proof (cases x)
  case None
  then show ?thesis using assms(1) json_string_hd by (cases y) (auto simp: deleted_text_def json_string_def)
next
  case (Some t)
  with assms(1) obtain u where u: "y = Some u" by (cases y) (auto simp: deleted_text_def json_string_def)
  from assms(1) Some u have "json_string True (isoformat t) @ r = json_string True (isoformat u) @ r'"
    by (simp add: deleted_text_def)
  from json_string_prefix [OF this] isoformat_inj [of t u] assms(2,3) Some u show ?thesis by simp
qed

lemma b64encode_inj [simp]: "b64encode x = b64encode y \<longleftrightarrow> x = y"
  by (metis b64_roundtrip option.inject)

lemma fingerprint_canonical_inj:
  assumes eq: "fingerprint_canonical r = fingerprint_canonical q"
    and r: "datetime_valid (sr_updated_at r)" "\<forall>t\<in>set_option (sr_deleted_at r). datetime_valid t"
    and q: "datetime_valid (sr_updated_at q)" "\<forall>t\<in>set_option (sr_deleted_at q). datetime_valid t"
  shows "sr_entity_type r = sr_entity_type q \<and> sr_entity_id r = sr_entity_id q
    \<and> sr_base_server_revision r = sr_base_server_revision q \<and> sr_updated_at r = sr_updated_at q
    \<and> sr_deleted_at r = sr_deleted_at q \<and> sr_payload r = sr_payload q"
proof -
  note eq1 = eq [unfolded fingerprint_text same_append_eq append_Cons append_Nil list.inject simp_thms]
  note s1 = until_comma [OF eq1 opt_int_text(1) opt_int_text(1)]
  note e2 = s1 [THEN conjunct2, unfolded same_append_eq append_Cons append_Nil list.inject simp_thms]
  note s2 = deleted_text_prefix [OF e2 r(2) q(2)]
  note e3 = s2 [THEN conjunct2, unfolded same_append_eq append_Cons append_Nil list.inject simp_thms]
  note s3 = json_string_prefix [OF e3]
  note e4 = s3 [THEN conjunct2, unfolded same_append_eq append_Cons append_Nil list.inject simp_thms]
  note s4 = json_string_prefix [OF e4]
  note e5 = s4 [THEN conjunct2, unfolded same_append_eq append_Cons append_Nil list.inject simp_thms]
  note s5 = json_string_prefix [OF e5]
  note e6 = s5 [THEN conjunct2, unfolded same_append_eq append_Cons append_Nil list.inject simp_thms]
  note s6 = json_string_prefix [OF e6]
  from isoformat_inj [OF _ r(1) q(1)] s6 have "sr_updated_at r = sr_updated_at q" by blast
  with s1 s2 s3 s4 s5 opt_int_text(2) show ?thesis by (meson b64encode_inj)
qed

lemma utf8_char_prefix: "utf8_char c @ x = utf8_char c' @ x' \<Longrightarrow> c = c' \<and> x = x'"
proof -
  assume eq: "utf8_char c @ x = utf8_char c' @ x'"
  have bound: "(of_char d :: nat) div 64 < 4" for d :: char
    using char_bounds [of d] by (simp add: less_mult_imp_div_less)
  have first: "(of_char (hd (utf8_char d)) :: nat) < 128 \<longleftrightarrow> (of_char d :: nat) < 128" for d
    using bound [of d] by (simp add: utf8_char_def Let_def)
  have nonempty: "utf8_char d \<noteq> []" for d by (simp add: utf8_char_def Let_def)
  have same: "(of_char c :: nat) < 128 \<longleftrightarrow> (of_char c' :: nat) < 128"
    using arg_cong [OF eq, of hd] nonempty first [of c] first [of c'] by simp
  show "c = c' \<and> x = x'"
  proof (cases "(of_char c :: nat) < 128")
    case True
    with same eq show ?thesis by (simp add: utf8_char_def Let_def)
  next
    case False
    have tb: "take_bit 8 (192 + (of_char c :: nat) div 64) = 192 + of_char c div 64"
      "take_bit 8 (128 + (of_char c :: nat) mod 64) = 128 + of_char c mod 64"
      using bound [of c] mod_less_divisor [of 64 "of_char c :: nat"]
      by (simp_all add: take_bit_nat_eq_self_iff)
    from False same eq bound [of c] bound [of c']
    have "(of_char c :: nat) div 64 = of_char c' div 64" "(of_char c :: nat) mod 64 = of_char c' mod 64" "x = x'"
      by (auto simp: utf8_char_def Let_def char_of_eq_iff tb)
    then have "(of_char c :: nat) = of_char c'" by (metis div_mult_mod_eq)
    with \<open>x = x'\<close> show ?thesis by (simp add: of_char_eq_iff)
  qed
qed

lemma utf8_inj [simp]: "utf8 s = utf8 t \<longleftrightarrow> s = t"
proof
  have ne: "utf8_char c \<noteq> []" for c by (simp add: utf8_char_def Let_def)
  show "utf8 s = utf8 t \<Longrightarrow> s = t"
  proof (induction s arbitrary: t)
    case Nil
    then show ?case using ne by (cases t) (simp_all add: utf8_def)
  next
    case (Cons c s)
    then obtain d u where t: "t = d # u" using ne by (cases t) (simp_all add: utf8_def)
    with Cons.prems have "utf8_char c @ utf8 s = utf8_char d @ utf8 u" by (simp add: utf8_def)
    from utf8_char_prefix [OF this] Cons.IH [of u] t show ?case by simp
  qed
qed simp

text \<open>A collision-free stand-in for SHA-256, for the witness.\<close>

definition demo_hash_lib :: lib where
  "demo_hash_lib = demo_lib\<lparr>sha256_hex := (\<lambda>x. x)\<rparr>"

definition demo_record :: sync_record where
  "demo_record = \<lparr>sr_id = ''r1'', sr_entity_type = ''customer'', sr_entity_id = ''c'', sr_updated_at = demo_time,
     sr_payload = ''{}'', sr_base_server_revision = None, sr_server_revision = None,
     sr_client_mutation_id = Some ''m1'', sr_deleted_at = None\<rparr>"

text \<open>
  C32. The fingerprint identifies the request. Two records with well-formed timestamps have the same
  fingerprint exactly when they agree on the entity, the base revision, both timestamps and the
  payload bytes; the record id, the server revision and the mutation id are not part of it. The
  hypothesis on SHA-256 is that these two canonical texts are not a collision of it.
\<close>

theorem fingerprint_identifies_request:
  assumes "datetime_valid (sr_updated_at r)" and "\<forall>t\<in>set_option (sr_deleted_at r). datetime_valid t"
    and "datetime_valid (sr_updated_at q)" and "\<forall>t\<in>set_option (sr_deleted_at q). datetime_valid t"
    and no_collision: "sha256_hex lib (utf8 (fingerprint_canonical r)) = sha256_hex lib (utf8 (fingerprint_canonical q))
      \<Longrightarrow> utf8 (fingerprint_canonical r) = utf8 (fingerprint_canonical q)"
  shows "request_fingerprint lib r = request_fingerprint lib q \<longleftrightarrow>
    sr_entity_type r = sr_entity_type q \<and> sr_entity_id r = sr_entity_id q
    \<and> sr_base_server_revision r = sr_base_server_revision q \<and> sr_updated_at r = sr_updated_at q
    \<and> sr_deleted_at r = sr_deleted_at q \<and> sr_payload r = sr_payload q"
proof
  assume "request_fingerprint lib r = request_fingerprint lib q"
  then have "fingerprint_canonical r = fingerprint_canonical q"
    using no_collision by (simp add: request_fingerprint_def)
  from fingerprint_canonical_inj [OF this assms(1-4)] show "sr_entity_type r = sr_entity_type q \<and> sr_entity_id r = sr_entity_id q
    \<and> sr_base_server_revision r = sr_base_server_revision q \<and> sr_updated_at r = sr_updated_at q
    \<and> sr_deleted_at r = sr_deleted_at q \<and> sr_payload r = sr_payload q" .
qed (simp add: request_fingerprint_def fingerprint_canonical_def fingerprint_material_def)

theorem fingerprint_identifies_request_witness:
  "request_fingerprint demo_hash_lib demo_record \<noteq> request_fingerprint demo_hash_lib (demo_record\<lparr>sr_payload := ''[]''\<rparr>)
   \<and> request_fingerprint demo_hash_lib demo_record = request_fingerprint demo_hash_lib (demo_record\<lparr>sr_client_mutation_id := None\<rparr>)"
  using fingerprint_identifies_request [of demo_record "demo_record\<lparr>sr_payload := ''[]''\<rparr>" demo_hash_lib]
    fingerprint_identifies_request [of demo_record "demo_record\<lparr>sr_client_mutation_id := None\<rparr>" demo_hash_lib]
  by (simp add: demo_record_def demo_time_def datetime_valid_def demo_hash_lib_def)

end
