(* ===== verification/Ownership.thy ===== *)
theory Ownership
  imports Models Assembly_Contract
begin

text \<open>
  \<open>app/ownership.py\<close>: who may write which record, and the canonical ownership rows a write
  leaves behind. A write is authorized from canonical server state into an ownership plan; the
  plan is then applied, and what it wrote before an exception stays in the session.
\<close>

section \<open>Types and tables\<close>

record ownership_plan =
  op_entity_type :: string
  op_entity_id :: string
  op_is_create :: bool
  op_deleted_at :: "datetime option"
  op_customer_id :: "string option"
  op_project_id :: "string option"
  op_project_sector_id :: "string option"
  op_sector_id :: "string option"
  op_item_id :: "string option"

definition ITEM_CHILD_CAPABILITIES :: "(string \<times> string) list" where
  "ITEM_CHILD_CAPABILITIES = [(''measurement'', ''item.measurements.manage''),
     (''evidence'', ''item.evidence.manage''),
     (''customer_requirement'', ''item.requirements.manage''),
     (''configuration'', ''item.configuration.manage''),
     (''configuration_version'', ''item.configuration.manage''),
     (''blocker'', ''item.blockers.manage'')]"

definition ITEM_CHILD_TYPES :: "string list" where
  "ITEM_CHILD_TYPES = map fst ITEM_CHILD_CAPABILITIES @ [''item_audit_event'']"

definition APPEND_ONLY_TYPES :: "string list" where
  "APPEND_ONLY_TYPES = [''item_audit_event'', ''configuration_version'']"

definition PROJECT_CHILD_TYPES :: "string list" where
  "PROJECT_CHILD_TYPES = [''quotation'', ''delivery_execution'']"

definition ENTITY_ORDER :: "(string \<times> nat) list" where
  "ENTITY_ORDER = [(''customer'', 0), (''project'', 1), (''project_sector'', 2), (''item'', 3),
     (''item_audit_event'', 4), (''evidence'', 4), (''measurement'', 4), (''blocker'', 4),
     (''customer_requirement'', 5), (''configuration'', 6), (''configuration_version'', 7),
     (''quotation'', 8), (''delivery_execution'', 9)]"

definition entity_rank :: "string \<Rightarrow> nat" where
  "entity_rank entity_type = (case map_of ENTITY_ORDER entity_type of Some n \<Rightarrow> n | None \<Rightarrow> 100)"

definition mutation_sort_key :: "string \<Rightarrow> nat \<Rightarrow> nat \<times> nat" where
  "mutation_sort_key entity_type original_index = (entity_rank entity_type, original_index)"

section \<open>Helpers\<close>

definition required_value :: "dict \<Rightarrow> string \<Rightarrow> string res" where
  "required_value payload key =
     (case normalized (dget payload key) of None \<Rightarrow> raise AuthorizationRejected | Some v \<Rightarrow> ok v)"

definition require_identity :: "dict \<Rightarrow> string \<Rightarrow> bool \<Rightarrow> unit res" where
  "require_identity payload entity_id deleting =
     (case dget payload ''id'' of
        JNull \<Rightarrow> guard (\<not> deleting) AuthorizationRejected
      | JStr v \<Rightarrow> guard (py_strip v \<noteq> entity_id) AuthorizationRejected
      | _ \<Rightarrow> raise AuthorizationRejected)"

definition require_capability :: "principal \<Rightarrow> string \<Rightarrow> unit res" where
  "require_capability p capability = guard (capability \<notin> capabilities p) AuthorizationRejected"

text \<open>\<open>supplied is not None and supplied != owner\<close>\<close>

definition owner_changed :: "json \<Rightarrow> string \<Rightarrow> bool" where
  "owner_changed supplied owner \<longleftrightarrow> supplied \<noteq> JNull \<and> supplied \<noteq> JStr owner"

definition require_current_provenance :: "principal \<Rightarrow> dict \<Rightarrow> unit res" where
  "require_current_provenance p payload =
     guard (dget payload ''actorID'' \<noteq> JStr (user_id p)
        \<or> dget payload ''organizationID'' \<noteq> JStr (organization_id p)
        \<or> dget payload ''membershipID'' \<noteq> JStr (membership_id p)
        \<or> dget payload ''sessionID'' \<noteq> JStr (session_id p)
        \<or> \<not> py_eq (dget payload ''authorizationRevision'') (JInt (authorization_revision p)))
       AuthorizationRejected"

definition project_for_scope :: "db \<Rightarrow> principal \<Rightarrow> effective_scope \<Rightarrow> string \<Rightarrow> canonical_project res" where
  "project_for_scope db p scope project_id =
     (case get_project db (organization_id p) project_id of
        None \<Rightarrow> raise AuthorizationRejected
      | Some project \<Rightarrow>
          if cp_deleted_at project \<noteq> None then raise AuthorizationRejected
          else if \<not> can_access_project scope (cp_project_id project) (cp_customer_id project)
          then raise AuthorizationRejected
          else ok project)"

text \<open>\<open>if not x\<close> on a nullable string column.\<close>

definition nonempty_str :: "string option \<Rightarrow> string option" where
  "nonempty_str x = (if x = Some [] then None else x)"

definition active_sector_of :: "db \<Rightarrow> principal \<Rightarrow> string \<Rightarrow> string \<Rightarrow> canonical_project_sector res" where
  "active_sector_of db p sector_id project_id =
     (case get_sector db (organization_id p) sector_id of
        None \<Rightarrow> raise AuthorizationRejected
      | Some sector \<Rightarrow>
          if cs_deleted_at sector \<noteq> None \<or> cs_project_id sector \<noteq> project_id
          then raise AuthorizationRejected else ok sector)"

definition item_for_scope ::
  "db \<Rightarrow> principal \<Rightarrow> effective_scope \<Rightarrow> string \<Rightarrow> (canonical_item \<times> canonical_project) res" where
  "item_for_scope db p scope item_id =
     (case get_item db (organization_id p) item_id of
        None \<Rightarrow> raise AuthorizationRejected
      | Some item \<Rightarrow>
          if ci_deleted_at item \<noteq> None then raise AuthorizationRejected
          else case nonempty_str (ci_project_sector_id item) of
              None \<Rightarrow> raise AuthorizationRejected
            | Some sector_id \<Rightarrow>
                ebind (project_for_scope db p scope (ci_project_id item)) (\<lambda>project.
                ebind (active_sector_of db p sector_id (ci_project_id item)) (\<lambda>_.
                ok (item, project))))"

definition active_item_child :: "db \<Rightarrow> principal \<Rightarrow> string \<Rightarrow> string \<Rightarrow> canonical_item_child option" where
  "active_item_child db p entity_type entity_id =
     (case get_item_child db (organization_id p) entity_type entity_id of
        None \<Rightarrow> None
      | Some child \<Rightarrow> if ic_deleted_at child = None then Some child else None)"

definition require_item_reference :: "db \<Rightarrow> principal \<Rightarrow> string \<Rightarrow> string \<Rightarrow> json \<Rightarrow> unit res" where
  "require_item_reference db p item_id entity_type ref =
     (case ref of
        JStr entity_id \<Rightarrow>
          if entity_id = [] then raise AuthorizationRejected
          else (case active_item_child db p entity_type entity_id of
             None \<Rightarrow> raise AuthorizationRejected
           | Some child \<Rightarrow> guard (ic_item_id child \<noteq> item_id) AuthorizationRejected)
      | _ \<Rightarrow> raise AuthorizationRejected)"

definition require_item_references ::
  "db \<Rightarrow> principal \<Rightarrow> string \<Rightarrow> string \<Rightarrow> json list \<Rightarrow> unit res" where
  "require_item_references db p item_id entity_type ids =
     for_each (require_item_reference db p item_id entity_type) ids"

definition current_payload_of :: "db \<Rightarrow> principal \<Rightarrow> string \<Rightarrow> string \<Rightarrow> dict option" where
  "current_payload_of db p entity_type entity_id =
     (case get_entity db (organization_id p) entity_type entity_id of
        None \<Rightarrow> None
      | Some ent \<Rightarrow> as_dict (se_payload_json ent))"

section \<open>Safe deletion\<close>

definition ensure_customer_delete_safe :: "db \<Rightarrow> principal \<Rightarrow> string \<Rightarrow> unit res" where
  "ensure_customer_delete_safe db p customer_id =
     guard (list_ex (\<lambda>r. cp_organization_id r = organization_id p \<and> cp_customer_id r = customer_id
                        \<and> cp_deleted_at r = None) (canonical_projects db)) AuthorizationRejected"

definition ensure_project_delete_safe :: "db \<Rightarrow> principal \<Rightarrow> string \<Rightarrow> unit res" where
  "ensure_project_delete_safe db p project_id =
     guard (list_ex (\<lambda>r. cs_organization_id r = organization_id p \<and> cs_project_id r = project_id
                        \<and> cs_deleted_at r = None) (canonical_project_sectors db)
          \<or> list_ex (\<lambda>r. ci_organization_id r = organization_id p \<and> ci_project_id r = project_id
                        \<and> ci_deleted_at r = None) (canonical_items db)
          \<or> list_ex (\<lambda>r. pc_organization_id r = organization_id p \<and> pc_project_id r = project_id
                        \<and> pc_deleted_at r = None) (canonical_project_children db)) AuthorizationRejected"

definition ensure_project_sector_delete_safe :: "db \<Rightarrow> principal \<Rightarrow> string \<Rightarrow> unit res" where
  "ensure_project_sector_delete_safe db p project_sector_id =
     guard (list_ex (\<lambda>r. ci_organization_id r = organization_id p
                        \<and> ci_project_sector_id r = Some project_sector_id \<and> ci_deleted_at r = None)
              (canonical_items db)) AuthorizationRejected"

definition ensure_item_delete_safe :: "db \<Rightarrow> principal \<Rightarrow> string \<Rightarrow> unit res" where
  "ensure_item_delete_safe db p item_id =
     guard (list_ex (\<lambda>r. ic_organization_id r = organization_id p \<and> ic_item_id r = item_id
                        \<and> ic_entity_type r \<noteq> ''item_audit_event'' \<and> ic_deleted_at r = None)
              (canonical_item_children db)) AuthorizationRejected"

text \<open>\<open>payload @> {key: [id]}\<close> of PostgreSQL's jsonb.\<close>

definition jsonb_array_contains :: "json \<Rightarrow> string \<Rightarrow> string \<Rightarrow> bool" where
  "jsonb_array_contains payload key i =
     (case as_dict payload of
        None \<Rightarrow> False
      | Some d \<Rightarrow> (case as_list (dget d key) of None \<Rightarrow> False | Some xs \<Rightarrow> JStr i \<in> set xs))"

definition evidence_reference_filter :: "string \<Rightarrow> sync_entity \<Rightarrow> bool" where
  "evidence_reference_filter evidence_id ent \<longleftrightarrow>
     jsonb_array_contains (se_payload_json ent) ''evidenceReferences'' evidence_id
     \<or> jsonb_array_contains (se_payload_json ent) ''evidenceReferenceIDs'' evidence_id"

definition ensure_evidence_delete_safe :: "db \<Rightarrow> principal \<Rightarrow> string \<Rightarrow> unit res" where
  "ensure_evidence_delete_safe db p evidence_id =
     guard (list_ex (\<lambda>r. se_organization_id r = organization_id p
                        \<and> se_entity_type r \<in> {''measurement'', ''customer_requirement''}
                        \<and> se_deleted_at r = None \<and> evidence_reference_filter evidence_id r)
              (sync_entities db)) AuthorizationRejected"

section \<open>Reference publications\<close>

definition publication_digest :: "db \<Rightarrow> string \<Rightarrow> string \<Rightarrow> string \<Rightarrow> string option" where
  "publication_digest db org kind version =
     map_option (\<lambda>r. py_lower (rp_content_sha256 r))
       (get_row (\<lambda>r. (rp_organization_id r, rp_kind r, rp_version_id r)) (org, kind, version)
          (reference_publications db))"

definition pins_expected :: "reference_pins \<Rightarrow> (string \<times> string \<times> string) list" where
  "pins_expected r = [(''catalog'', pin_catalog_version r, py_lower (pin_catalog_sha r)),
     (''compatibility_rules'', pin_rules_version r, py_lower (pin_rules_sha r)),
     (''price_book'', pin_price_version r, py_lower (pin_price_sha r))]"

definition require_canonical_assembly_reference_pins :: "lib \<Rightarrow> db \<Rightarrow> principal \<Rightarrow> dict \<Rightarrow> unit res" where
  "require_canonical_assembly_reference_pins lib db p configuration =
     ebind (rethrow [ValueError, ValidationError] AuthorizationRejected
              (validate_configuration_assembly lib configuration)) (\<lambda>snap.
     case snap of
       None \<Rightarrow> ok ()
     | Some s \<Rightarrow> for_each (\<lambda>(kind, version, digest).
         guard (publication_digest db (organization_id p) kind version \<noteq> Some digest)
           AuthorizationRejected) (pins_expected (asm_reference s)))"


section \<open>Authorization, one branch per entity type\<close>

definition base_plan :: "string \<Rightarrow> string \<Rightarrow> bool \<Rightarrow> datetime option \<Rightarrow> ownership_plan" where
  "base_plan entity_type entity_id is_create deleted_at =
     \<lparr>op_entity_type = entity_type, op_entity_id = entity_id, op_is_create = is_create,
      op_deleted_at = deleted_at, op_customer_id = None, op_project_id = None,
      op_project_sector_id = None, op_sector_id = None, op_item_id = None\<rparr>"

text \<open>A record without a canonical row may only be created.\<close>

definition require_creatable :: "bool \<Rightarrow> datetime option \<Rightarrow> unit res" where
  "require_creatable generic_entity_exists deleted_at =
     (if generic_entity_exists then raise AuthorizationRejected
      else guard (deleted_at \<noteq> None) AuthorizationRejected)"

definition authorize_customer ::
  "db \<Rightarrow> principal \<Rightarrow> effective_scope \<Rightarrow> string \<Rightarrow> dict \<Rightarrow> datetime option \<Rightarrow> bool \<Rightarrow> ownership_plan res" where
  "authorize_customer db p scope entity_id payload deleted_at exists =
     (case get_customer db (organization_id p) entity_id of
        None \<Rightarrow>
          seq (require_creatable exists deleted_at)
          (seq (require_capability p ''customer.create'')
          (seq (require_identity payload entity_id False)
          (ok ((base_plan ''customer'' entity_id True deleted_at)\<lparr>op_customer_id := Some entity_id\<rparr>))))
      | Some canonical \<Rightarrow>
          seq (require_capability p ''customer.edit'')
          (if \<not> can_access_customer scope (cc_customer_id canonical) then raise AuthorizationRejected
           else seq (require_identity payload entity_id (deleted_at \<noteq> None))
            (seq (if deleted_at \<noteq> None then ensure_customer_delete_safe db p (cc_customer_id canonical) else ok ())
              (ok ((base_plan ''customer'' entity_id False deleted_at)
                 \<lparr>op_customer_id := Some (cc_customer_id canonical)\<rparr>)))))"

definition authorize_project_create ::
  "db \<Rightarrow> principal \<Rightarrow> effective_scope \<Rightarrow> string \<Rightarrow> dict \<Rightarrow> datetime option \<Rightarrow> ownership_plan res" where
  "authorize_project_create db p scope entity_id payload deleted_at =
     seq (require_capability p ''project.create'')
     (seq (require_identity payload entity_id False)
     (ebind (required_value payload ''customerID'') (\<lambda>customer_id.
      case get_customer db (organization_id p) customer_id of
        None \<Rightarrow> raise AuthorizationRejected
      | Some customer \<Rightarrow>
          if cc_deleted_at customer \<noteq> None then raise AuthorizationRejected
          else if \<not> can_access_customer scope customer_id then raise AuthorizationRejected
          else ok ((base_plan ''project'' entity_id True deleted_at)
            \<lparr>op_customer_id := Some customer_id, op_project_id := Some entity_id\<rparr>))))"

definition authorize_project ::
  "db \<Rightarrow> principal \<Rightarrow> effective_scope \<Rightarrow> string \<Rightarrow> dict \<Rightarrow> datetime option \<Rightarrow> bool \<Rightarrow> ownership_plan res" where
  "authorize_project db p scope entity_id payload deleted_at exists =
     (case get_project db (organization_id p) entity_id of
        None \<Rightarrow> seq (require_creatable exists deleted_at)
                  (authorize_project_create db p scope entity_id payload deleted_at)
      | Some canonical \<Rightarrow>
          seq (require_capability p ''project.edit'')
          (if \<not> can_access_project scope (cp_project_id canonical) (cp_customer_id canonical)
           then raise AuthorizationRejected
           else seq (require_identity payload entity_id (deleted_at \<noteq> None))
            (if owner_changed (dget payload ''customerID'') (cp_customer_id canonical)
             then raise AuthorizationRejected \<comment> \<open>Customer ownership is immutable\<close>
             else seq (if deleted_at \<noteq> None then ensure_project_delete_safe db p (cp_project_id canonical) else ok ())
              (ok ((base_plan ''project'' entity_id False deleted_at)
                 \<lparr>op_customer_id := Some (cp_customer_id canonical),
                  op_project_id := Some (cp_project_id canonical)\<rparr>)))))"

definition authorize_sector ::
  "db \<Rightarrow> principal \<Rightarrow> effective_scope \<Rightarrow> string \<Rightarrow> dict \<Rightarrow> datetime option \<Rightarrow> bool \<Rightarrow> ownership_plan res" where
  "authorize_sector db p scope entity_id payload deleted_at exists =
     (case get_sector db (organization_id p) entity_id of
        None \<Rightarrow>
          seq (require_creatable exists deleted_at)
          (seq (require_capability p ''project.edit'')
          (seq (require_identity payload entity_id False)
          (ebind (required_value payload ''projectID'') (\<lambda>project_id.
           ebind (required_value payload ''sectorID'') (\<lambda>sector_id.
           ebind (project_for_scope db p scope project_id) (\<lambda>project.
           ok ((base_plan ''project_sector'' entity_id True deleted_at)
             \<lparr>op_customer_id := Some (cp_customer_id project), op_project_id := Some (cp_project_id project),
              op_project_sector_id := Some entity_id, op_sector_id := Some sector_id\<rparr>)))))))
      | Some canonical \<Rightarrow>
          seq (require_capability p ''project.edit'')
          (ebind (project_for_scope db p scope (cs_project_id canonical)) (\<lambda>project.
           seq (require_identity payload entity_id (deleted_at \<noteq> None))
           (if owner_changed (dget payload ''projectID'') (cs_project_id canonical)
            then raise AuthorizationRejected
            else if owner_changed (dget payload ''sectorID'') (cs_sector_id canonical)
            then raise AuthorizationRejected
            else seq (if deleted_at \<noteq> None
                      then ensure_project_sector_delete_safe db p (cs_project_sector_id canonical) else ok ())
             (ok ((base_plan ''project_sector'' entity_id False deleted_at)
               \<lparr>op_customer_id := Some (cp_customer_id project),
                op_project_id := Some (cs_project_id canonical),
                op_project_sector_id := Some (cs_project_sector_id canonical),
                op_sector_id := Some (cs_sector_id canonical)\<rparr>))))))"

definition authorize_item ::
  "db \<Rightarrow> principal \<Rightarrow> effective_scope \<Rightarrow> string \<Rightarrow> dict \<Rightarrow> datetime option \<Rightarrow> bool \<Rightarrow> ownership_plan res" where
  "authorize_item db p scope entity_id payload deleted_at exists =
     (case get_item db (organization_id p) entity_id of
        None \<Rightarrow>
          seq (require_creatable exists deleted_at)
          (seq (require_capability p ''item.create'')
          (seq (require_identity payload entity_id False)
          (ebind (required_value payload ''projectID'') (\<lambda>project_id.
           ebind (required_value payload ''projectSectorID'') (\<lambda>project_sector_id.
           ebind (project_for_scope db p scope project_id) (\<lambda>project.
           ebind (active_sector_of db p project_sector_id project_id) (\<lambda>sector.
           ok ((base_plan ''item'' entity_id True deleted_at)
             \<lparr>op_customer_id := Some (cp_customer_id project), op_project_id := Some (cp_project_id project),
              op_project_sector_id := Some (cs_project_sector_id sector)\<rparr>))))))))
      | Some canonical \<Rightarrow>
          seq (require_capability p ''item.edit'')
          (case nonempty_str (ci_project_sector_id canonical) of
             None \<Rightarrow> raise AuthorizationRejected
           | Some sector_id \<Rightarrow>
               ebind (project_for_scope db p scope (ci_project_id canonical)) (\<lambda>project.
               ebind (active_sector_of db p sector_id (ci_project_id canonical)) (\<lambda>_.
               seq (require_identity payload entity_id (deleted_at \<noteq> None))
               (if owner_changed (dget payload ''projectID'') (ci_project_id canonical)
                then raise AuthorizationRejected
                else if owner_changed (dget payload ''projectSectorID'') sector_id
                then raise AuthorizationRejected
                else seq (if deleted_at \<noteq> None then ensure_item_delete_safe db p (ci_item_id canonical) else ok ())
                 (ok ((base_plan ''item'' entity_id False deleted_at)
                   \<lparr>op_customer_id := Some (cp_customer_id project),
                    op_project_id := Some (ci_project_id canonical),
                    op_project_sector_id := ci_project_sector_id canonical\<rparr>)))))))"

section \<open>Item children\<close>

text \<open>\<open>f"{version}"\<close> of an \<open>int\<close>, which may be a \<open>bool\<close>.\<close>

definition int_text :: "json \<Rightarrow> string" where
  "int_text j = (case j of JInt n \<Rightarrow> show_int n | JBool True \<Rightarrow> ''True'' | JBool False \<Rightarrow> ''False'' | _ \<Rightarrow> [])"

definition version_item :: "db \<Rightarrow> principal \<Rightarrow> string \<Rightarrow> dict \<Rightarrow> string res" where
  "version_item db p entity_id payload =
     (case as_dict (dget payload ''configuration'') of
        None \<Rightarrow> raise AuthorizationRejected
      | Some configuration \<Rightarrow>
          ebind (required_value configuration ''itemID'') (\<lambda>item_id.
          ebind (required_value configuration ''id'') (\<lambda>configuration_id.
          case any_int (dget configuration ''version'') of
            None \<Rightarrow> raise AuthorizationRejected
          | Some version \<Rightarrow>
              if version < 1 then raise AuthorizationRejected
              else if entity_id \<noteq> configuration_id @ ''#v'' @ int_text (dget configuration ''version'')
              then raise AuthorizationRejected
              else case active_item_child db p ''configuration'' configuration_id of
                  None \<Rightarrow> raise AuthorizationRejected
                | Some base \<Rightarrow> if ic_item_id base \<noteq> item_id then raise AuthorizationRejected
                    else ok item_id)))"

text \<open>The item a child belongs to: its canonical parent, or the one a new child names.\<close>

definition child_item ::
  "db \<Rightarrow> principal \<Rightarrow> string \<Rightarrow> string \<Rightarrow> dict \<Rightarrow> canonical_item_child option \<Rightarrow> string res" where
  "child_item db p entity_type entity_id payload canonical =
     (case canonical of
        None \<Rightarrow> if entity_type = ''configuration_version'' then version_item db p entity_id payload
                else required_value payload ''itemID''
      | Some c \<Rightarrow>
          let supplied = (if entity_type = ''configuration_version''
                          then (case as_dict (dget payload ''configuration'') of
                                  None \<Rightarrow> JNull | Some d \<Rightarrow> dget d ''itemID'')
                          else dget payload ''itemID'')
          in if owner_changed supplied (ic_item_id c) then raise AuthorizationRejected
             else ok (ic_item_id c))"

definition audit_snapshot_ok :: "canonical_item \<Rightarrow> string \<Rightarrow> json \<Rightarrow> bool" where
  "audit_snapshot_ok item item_id snap =
     (case as_dict snap of
        None \<Rightarrow> False
      | Some d \<Rightarrow> dget d ''id'' = JStr item_id \<and> dget d ''projectID'' = JStr (ci_project_id item)
          \<and> (case ci_project_sector_id item of
               None \<Rightarrow> dget d ''projectSectorID'' = JNull
             | Some sec \<Rightarrow> dget d ''projectSectorID'' = JStr sec))"

definition authorize_audit_event :: "principal \<Rightarrow> canonical_item \<Rightarrow> string \<Rightarrow> dict \<Rightarrow> unit res" where
  "authorize_audit_event p item item_id payload =
     seq (if dget payload ''kind'' = JStr ''created'' then require_capability p ''item.create''
          else if dget payload ''kind'' = JStr ''updated'' then require_capability p ''item.edit''
          else if dget payload ''kind'' = JStr ''commercial_readiness_changed'' then
            seq (require_capability p ''item.readiness.change'')
              (if dget payload ''readinessOverrideUsed'' = JBool True
               then require_capability p ''item.readiness.override'' else ok ())
          else raise AuthorizationRejected)
     (if \<not> audit_snapshot_ok item item_id (dget payload ''after'') then raise AuthorizationRejected
      else if dget payload ''before'' \<noteq> JNull \<and> \<not> audit_snapshot_ok item item_id (dget payload ''before'')
      then raise AuthorizationRejected
      else require_current_provenance p payload)"

definition authorize_reference_list ::
  "db \<Rightarrow> principal \<Rightarrow> string \<Rightarrow> dict \<Rightarrow> string \<Rightarrow> unit res" where
  "authorize_reference_list db p item_id payload key =
     (case as_list (dget_default payload key (JList [])) of
        None \<Rightarrow> raise AuthorizationRejected
      | Some refs \<Rightarrow> require_item_references db p item_id ''evidence'' refs)"

text \<open>\<open>db.get\<close> with the raw \<open>id\<close> of the payload, which the identity check has only compared stripped.\<close>

definition configuration_current :: "db \<Rightarrow> principal \<Rightarrow> dict \<Rightarrow> string \<Rightarrow> dict option res" where
  "configuration_current db p configuration entity_id =
     (case dget_default configuration ''id'' (JStr entity_id) of
        JStr key \<Rightarrow> ok (current_payload_of db p ''configuration'' key)
      | _ \<Rightarrow> raise (DBAPIError None))"

definition configuration_status_capability :: "principal \<Rightarrow> json \<Rightarrow> json \<Rightarrow> unit res" where
  "configuration_status_capability p status current_status =
     (if status = JStr ''complete'' \<and> current_status \<noteq> JStr ''complete''
      then require_capability p ''item.configuration.finalize''
      else if current_status = JStr ''complete'' \<and> status \<noteq> JStr ''complete''
      then require_capability p ''item.configuration.reopen''
      else ok ())"

definition authorize_configuration ::
  "lib \<Rightarrow> db \<Rightarrow> principal \<Rightarrow> string \<Rightarrow> string \<Rightarrow> string \<Rightarrow> dict \<Rightarrow> unit res" where
  "authorize_configuration lib db p item_id entity_type entity_id payload =
     (case (if entity_type = ''configuration'' then Some payload
            else as_dict (dget payload ''configuration'')) of
        None \<Rightarrow> raise AuthorizationRejected
      | Some configuration \<Rightarrow>
          ebind (configuration_current db p configuration entity_id) (\<lambda>current.
          seq (configuration_status_capability p (dget configuration ''status'')
                 (case current of None \<Rightarrow> JNull | Some c \<Rightarrow> dget c ''status''))
          (case (as_list (dget_default configuration ''customerRequirements'' (JList [])),
                 as_list (dget_default configuration ''blockerIDs'' (JList []))) of
             (Some requirements, Some blockers) \<Rightarrow>
               seq (require_item_references db p item_id ''customer_requirement'' requirements)
               (seq (require_item_references db p item_id ''blocker'' blockers)
               (if dget configuration ''assembly'' \<noteq> JNull
                then require_canonical_assembly_reference_pins lib db p configuration
                else ok ()))
           | _ \<Rightarrow> raise AuthorizationRejected)))"

definition blocker_event_authorized :: "principal \<Rightarrow> string \<Rightarrow> string \<Rightarrow> json \<Rightarrow> unit res" where
  "blocker_event_authorized p entity_id item_id ev =
     (case as_dict ev of
        None \<Rightarrow> raise AuthorizationRejected
      | Some event \<Rightarrow>
          if dget event ''blockerID'' \<noteq> JStr entity_id \<or> dget event ''itemID'' \<noteq> JStr item_id
          then raise AuthorizationRejected
          else if normalized (dget event ''organizationID'') \<noteq> Some (organization_id p)
          then raise AuthorizationRejected
          else guard (list_ex (\<lambda>k. dget event k = JNull)
                        [''actorID'', ''membershipID'', ''sessionID'', ''authorizationRevision''])
                 AuthorizationRejected)"

definition authorize_blocker :: "principal \<Rightarrow> string \<Rightarrow> string \<Rightarrow> dict \<Rightarrow> unit res" where
  "authorize_blocker p entity_id item_id payload =
     (case as_list (dget payload ''events'') of
        None \<Rightarrow> raise AuthorizationRejected
      | Some events \<Rightarrow>
          if events = [] then raise AuthorizationRejected
          else seq (for_each (blocker_event_authorized p entity_id item_id) events)
                 (require_current_provenance p (the_dict (last events))))"

text \<open>The type-specific checks once the item is known.\<close>

definition authorize_child_content ::
  "lib \<Rightarrow> db \<Rightarrow> principal \<Rightarrow> canonical_item \<Rightarrow> string \<Rightarrow> string \<Rightarrow> string \<Rightarrow> dict \<Rightarrow> bool \<Rightarrow> unit res" where
  "authorize_child_content lib db p item item_id entity_type entity_id payload deleting =
     seq (if entity_type = ''item_audit_event'' then authorize_audit_event p item item_id payload
          else (case map_of ITEM_CHILD_CAPABILITIES entity_type of
                  None \<Rightarrow> raise KeyError
                | Some capability \<Rightarrow> require_capability p capability))
     (if entity_type = ''measurement'' \<and> \<not> deleting
      then authorize_reference_list db p item_id payload ''evidenceReferences''
      else if entity_type = ''customer_requirement'' \<and> \<not> deleting
      then authorize_reference_list db p item_id payload ''evidenceReferenceIDs''
      else if entity_type \<in> {''configuration'', ''configuration_version''} \<and> \<not> deleting
      then authorize_configuration lib db p item_id entity_type entity_id payload
      else if entity_type = ''blocker'' \<and> \<not> deleting then authorize_blocker p entity_id item_id payload
      else if entity_type = ''evidence'' \<and> deleting then ensure_evidence_delete_safe db p entity_id
      else ok ())"

definition require_child_writable ::
  "string \<Rightarrow> canonical_item_child option \<Rightarrow> bool \<Rightarrow> bool \<Rightarrow> unit res" where
  "require_child_writable entity_type canonical exists deleting =
     (if entity_type \<in> set APPEND_ONLY_TYPES \<and> (canonical \<noteq> None \<or> exists) then raise AuthorizationRejected
      else if deleting \<and> entity_type \<in> set APPEND_ONLY_TYPES then raise AuthorizationRejected
      else if canonical = None \<and> exists then raise AuthorizationRejected
      else guard (canonical = None \<and> deleting) AuthorizationRejected)"

definition authorize_item_child ::
  "lib \<Rightarrow> db \<Rightarrow> principal \<Rightarrow> effective_scope \<Rightarrow> string \<Rightarrow> string \<Rightarrow> dict \<Rightarrow> datetime option \<Rightarrow> bool
     \<Rightarrow> ownership_plan res" where
  "authorize_item_child lib db p scope entity_type entity_id payload deleted_at exists =
     (let canonical = get_item_child db (organization_id p) entity_type entity_id in
      seq (require_child_writable entity_type canonical exists (deleted_at \<noteq> None))
      (seq (require_identity payload entity_id (deleted_at \<noteq> None))
      (ebind (child_item db p entity_type entity_id payload canonical) (\<lambda>item_id.
       ebind (item_for_scope db p scope item_id) (\<lambda>(item, project).
       seq (authorize_child_content lib db p item item_id entity_type entity_id payload (deleted_at \<noteq> None))
       (ok ((base_plan entity_type entity_id (canonical = None) deleted_at)
         \<lparr>op_customer_id := Some (cp_customer_id project), op_project_id := Some (cp_project_id project),
          op_project_sector_id := ci_project_sector_id item, op_item_id := Some item_id\<rparr>)))))))"


section \<open>Quotations\<close>

definition QUOTATION_CAPABILITIES :: "(string \<times> string) list" where
  "QUOTATION_CAPABILITIES = [(''sent'', ''quotation.send''), (''approved'', ''quotation.approve''),
     (''draft'', ''quotation.create''), (''ready'', ''quotation.create''),
     (''rejected'', ''quotation.create''), (''superseded'', ''quotation.create'')]"

text \<open>\<open>{...}.get(status)\<close> hashes the status.\<close>

definition quotation_capability :: "json \<Rightarrow> string option res" where
  "quotation_capability status =
     (if \<not> hashable status then raise TypeError
      else ok (case status of JStr s \<Rightarrow> map_of QUOTATION_CAPABILITIES s | _ \<Rightarrow> None))"

definition authorize_line_design :: "lib \<Rightarrow> db \<Rightarrow> principal \<Rightarrow> dict \<Rightarrow> unit res" where
  "authorize_line_design lib db p line =
     ebind (required_value line ''configurationVersionID'') (\<lambda>version_id.
     case get_entity db (organization_id p) ''configuration_version'' version_id of
       None \<Rightarrow> raise AuthorizationRejected
     | Some version \<Rightarrow>
         (case as_dict (se_payload_json version) of
            None \<Rightarrow> raise AuthorizationRejected
          | Some version_payload \<Rightarrow>
              if se_deleted_at version \<noteq> None then raise AuthorizationRejected
              else rethrow [ValueError, ValidationError] AuthorizationRejected
                (case as_dict (dget version_payload ''configuration'') of
                   None \<Rightarrow> raise ValueError
                 | Some canonical_configuration \<Rightarrow>
                     seq (require_canonical_assembly_reference_pins lib db p canonical_configuration)
                       (validate_quotation_design_against_configuration_version lib line version_payload))))"

definition authorize_quotation_line ::
  "lib \<Rightarrow> db \<Rightarrow> principal \<Rightarrow> effective_scope \<Rightarrow> string \<Rightarrow> json \<Rightarrow> unit res" where
  "authorize_quotation_line lib db p scope project_id l =
     (case as_dict l of
        None \<Rightarrow> raise AuthorizationRejected
      | Some line \<Rightarrow>
          ebind (required_value line ''itemID'') (\<lambda>line_item_id.
          ebind (item_for_scope db p scope line_item_id) (\<lambda>(item, _).
          if ci_project_id item \<noteq> project_id then raise AuthorizationRejected
          else if dget line ''designSnapshot'' \<noteq> JNull then authorize_line_design lib db p line
          else ok ())))"

definition authorize_quotation_events :: "principal \<Rightarrow> string \<Rightarrow> json list \<Rightarrow> unit res" where
  "authorize_quotation_events p status events =
     seq (for_each (\<lambda>ev. case as_dict ev of
            None \<Rightarrow> raise AuthorizationRejected
          | Some event \<Rightarrow> guard (owner_changed (dget event ''organizationID'') (organization_id p))
              AuthorizationRejected) events)
     (if status \<in> {''sent'', ''approved'', ''rejected'', ''superseded''} then
        (if events = [] then raise AuthorizationRejected
         else require_current_provenance p (the_dict (last events)))
      else ok ())"

definition authorize_quotation_content ::
  "lib \<Rightarrow> db \<Rightarrow> principal \<Rightarrow> effective_scope \<Rightarrow> canonical_project \<Rightarrow> string \<Rightarrow> dict \<Rightarrow> unit res" where
  "authorize_quotation_content lib db p scope project project_id payload =
     (if dget payload ''customerID'' \<noteq> JStr (cp_customer_id project) then raise AuthorizationRejected
      else ebind (quotation_capability (dget payload ''status'')) (\<lambda>capability_opt.
        case capability_opt of
          None \<Rightarrow> raise AuthorizationRejected \<comment> \<open>status is invalid\<close>
        | Some capability \<Rightarrow>
            seq (require_capability p capability)
            (case as_list (dget_default payload ''lines'' (JList [])) of
               None \<Rightarrow> raise AuthorizationRejected
             | Some lines \<Rightarrow>
                 if lines = [] then raise AuthorizationRejected
                 else seq (for_each (authorize_quotation_line lib db p scope project_id) lines)
                   (case as_list (get_or_nil payload ''events'') of
                      None \<Rightarrow> raise AuthorizationRejected
                    | Some events \<Rightarrow> authorize_quotation_events p
                        (case dget payload ''status'' of JStr s \<Rightarrow> s | _ \<Rightarrow> []) events))))"

definition authorize_quotation ::
  "lib \<Rightarrow> db \<Rightarrow> principal \<Rightarrow> effective_scope \<Rightarrow> string \<Rightarrow> dict \<Rightarrow> datetime option \<Rightarrow> bool
     \<Rightarrow> ownership_plan res" where
  "authorize_quotation lib db p scope entity_id payload deleted_at exists =
     (let canonical = get_project_child db (organization_id p) ''quotation'' entity_id in
      ebind (case canonical of
               None \<Rightarrow> seq (require_creatable exists deleted_at)
                 (seq (require_identity payload entity_id False) (required_value payload ''projectID''))
             | Some c \<Rightarrow> seq (require_identity payload entity_id (deleted_at \<noteq> None))
                 (if owner_changed (dget payload ''projectID'') (pc_project_id c)
                  then raise AuthorizationRejected else ok (pc_project_id c))) (\<lambda>project_id.
      ebind (project_for_scope db p scope project_id) (\<lambda>project.
      seq (if deleted_at = None then authorize_quotation_content lib db p scope project project_id payload
           else require_capability p ''quotation.create'')
      (ok ((base_plan ''quotation'' entity_id (canonical = None) deleted_at)
        \<lparr>op_customer_id := Some (cp_customer_id project), op_project_id := Some (cp_project_id project)\<rparr>)))))"

section \<open>The dispatcher\<close>

definition authorize_record ::
  "lib \<Rightarrow> db \<Rightarrow> principal \<Rightarrow> effective_scope \<Rightarrow> string \<Rightarrow> string \<Rightarrow> dict \<Rightarrow> datetime option \<Rightarrow> bool
     \<Rightarrow> ownership_plan res" where
  "authorize_record lib db p scope entity_type entity_id payload deleted_at generic_entity_exists =
     (if entity_type = ''customer''
      then authorize_customer db p scope entity_id payload deleted_at generic_entity_exists
      else if entity_type = ''project''
      then authorize_project db p scope entity_id payload deleted_at generic_entity_exists
      else if entity_type = ''project_sector''
      then authorize_sector db p scope entity_id payload deleted_at generic_entity_exists
      else if entity_type = ''item''
      then authorize_item db p scope entity_id payload deleted_at generic_entity_exists
      else if entity_type \<in> set ITEM_CHILD_TYPES
      then authorize_item_child lib db p scope entity_type entity_id payload deleted_at generic_entity_exists
      else if entity_type = ''quotation''
      then authorize_quotation lib db p scope entity_id payload deleted_at generic_entity_exists
      else raise AuthorizationRejected)"

section \<open>Applying a plan\<close>

text \<open>
  The creator's membership is widened to the record it creates, and the organization's
  authorization revision advances when that changed something.
\<close>

definition grant_created_scope ::
  "db \<Rightarrow> principal \<Rightarrow> string option \<Rightarrow> string option \<Rightarrow> db \<times> unit res" where
  "grant_created_scope db p customer_id project_id =
     (case (get_membership db (membership_id p), get_organization db (organization_id p)) of
        (Some m, Some org) \<Rightarrow>
          if \<not> mem_active m \<or> mem_organization_id m \<noteq> organization_id p \<or> mem_user_id m \<noteq> user_id p
          then (db, raise AuthorizationRejected)
          else
            let add_customer = (case customer_id of None \<Rightarrow> False
                  | Some c \<Rightarrow> \<not> mem_all_customers m \<and> c \<notin> set (mem_customer_ids m));
                add_project = (case project_id of None \<Rightarrow> False
                  | Some pr \<Rightarrow> \<not> mem_all_projects m \<and> pr \<notin> set (mem_project_ids m));
                m1 = (if add_customer then m\<lparr>mem_customer_ids := mem_customer_ids m @ [the customer_id]\<rparr> else m);
                m2 = (if add_project then m1\<lparr>mem_project_ids := mem_project_ids m1 @ [the project_id]\<rparr> else m1)
            in if add_customer \<or> add_project then
                 (db\<lparr>memberships := put_row mem_id m2 (memberships db),
                    organizations := put_row org_id
                      (org\<lparr>org_authorization_revision := org_authorization_revision org + 1\<rparr>)
                      (organizations db)\<rparr>, ok ())
               else (db, ok ())
      | _ \<Rightarrow> (db, raise AuthorizationRejected))"

definition apply_customer_plan ::
  "db \<Rightarrow> principal \<Rightarrow> effective_scope \<Rightarrow> ownership_plan \<Rightarrow> db \<times> effective_scope \<times> unit res" where
  "apply_customer_plan db p scope plan =
     (case get_customer db (organization_id p) (op_entity_id plan) of
        None \<Rightarrow>
          (let db1 = db\<lparr>canonical_customers := put_row customer_key
                 \<lparr>cc_organization_id = organization_id p, cc_customer_id = op_entity_id plan,
                  cc_deleted_at = op_deleted_at plan\<rparr> (canonical_customers db)\<rparr>;
               scope1 = scope\<lparr>sc_customer_ids := insert (op_entity_id plan) (sc_customer_ids scope)\<rparr>;
               (db2, r) = grant_created_scope db1 p (Some (op_entity_id plan)) None
           in (db2, scope1, r))
      | Some model \<Rightarrow>
          (db\<lparr>canonical_customers := put_row customer_key (model\<lparr>cc_deleted_at := op_deleted_at plan\<rparr>)
               (canonical_customers db)\<rparr>, scope, ok ()))"

definition apply_project_plan ::
  "db \<Rightarrow> principal \<Rightarrow> effective_scope \<Rightarrow> ownership_plan \<Rightarrow> db \<times> effective_scope \<times> unit res" where
  "apply_project_plan db p scope plan =
     (case op_customer_id plan of
        None \<Rightarrow> (db, scope, raise AuthorizationRejected)
      | Some customer_id \<Rightarrow>
          (case get_project db (organization_id p) (op_entity_id plan) of
             None \<Rightarrow>
               (let db1 = db\<lparr>canonical_projects := put_row project_key
                      \<lparr>cp_organization_id = organization_id p, cp_project_id = op_entity_id plan,
                       cp_customer_id = customer_id, cp_deleted_at = op_deleted_at plan\<rparr>
                      (canonical_projects db)\<rparr>;
                    scope1 = scope\<lparr>sc_project_ids := insert (op_entity_id plan) (sc_project_ids scope)\<rparr>;
                    (db2, r) = grant_created_scope db1 p None (Some (op_entity_id plan))
                in (db2, scope1, r))
           | Some model \<Rightarrow>
               if cp_customer_id model \<noteq> customer_id then (db, scope, raise AuthorizationRejected)
               else (db\<lparr>canonical_projects := put_row project_key (model\<lparr>cp_deleted_at := op_deleted_at plan\<rparr>)
                      (canonical_projects db)\<rparr>, scope, ok ())))"

definition apply_sector_plan :: "db \<Rightarrow> principal \<Rightarrow> ownership_plan \<Rightarrow> db \<times> unit res" where
  "apply_sector_plan db p plan =
     (case (op_project_id plan, op_sector_id plan) of
        (Some project_id, Some sector_id) \<Rightarrow>
          (case get_sector db (organization_id p) (op_entity_id plan) of
             None \<Rightarrow>
               (db\<lparr>canonical_project_sectors := put_row sector_key
                  \<lparr>cs_organization_id = organization_id p, cs_project_sector_id = op_entity_id plan,
                   cs_project_id = project_id, cs_sector_id = sector_id, cs_deleted_at = op_deleted_at plan\<rparr>
                  (canonical_project_sectors db)\<rparr>, ok ())
           | Some model \<Rightarrow>
               if cs_project_id model \<noteq> project_id \<or> cs_sector_id model \<noteq> sector_id
               then (db, raise AuthorizationRejected)
               else (db\<lparr>canonical_project_sectors := put_row sector_key
                       (model\<lparr>cs_deleted_at := op_deleted_at plan\<rparr>) (canonical_project_sectors db)\<rparr>, ok ()))
      | _ \<Rightarrow> (db, raise AuthorizationRejected))"

definition apply_item_plan :: "db \<Rightarrow> principal \<Rightarrow> ownership_plan \<Rightarrow> db \<times> unit res" where
  "apply_item_plan db p plan =
     (case (op_project_id plan, op_project_sector_id plan) of
        (Some project_id, Some sector_id) \<Rightarrow>
          (case get_item db (organization_id p) (op_entity_id plan) of
             None \<Rightarrow>
               (db\<lparr>canonical_items := put_row item_key
                  \<lparr>ci_organization_id = organization_id p, ci_item_id = op_entity_id plan,
                   ci_project_id = project_id, ci_project_sector_id = Some sector_id,
                   ci_deleted_at = op_deleted_at plan\<rparr> (canonical_items db)\<rparr>, ok ())
           | Some model \<Rightarrow>
               if ci_project_id model \<noteq> project_id \<or> ci_project_sector_id model \<noteq> Some sector_id
               then (db, raise AuthorizationRejected)
               else (db\<lparr>canonical_items := put_row item_key (model\<lparr>ci_deleted_at := op_deleted_at plan\<rparr>)
                       (canonical_items db)\<rparr>, ok ()))
      | _ \<Rightarrow> (db, raise AuthorizationRejected))"

definition apply_project_child_plan :: "db \<Rightarrow> principal \<Rightarrow> ownership_plan \<Rightarrow> db \<times> unit res" where
  "apply_project_child_plan db p plan =
     (case op_project_id plan of
        None \<Rightarrow> (db, raise AuthorizationRejected)
      | Some project_id \<Rightarrow>
          (case get_project_child db (organization_id p) (op_entity_type plan) (op_entity_id plan) of
             None \<Rightarrow>
               (db\<lparr>canonical_project_children := put_row project_child_key
                  \<lparr>pc_organization_id = organization_id p, pc_entity_type = op_entity_type plan,
                   pc_entity_id = op_entity_id plan, pc_project_id = project_id,
                   pc_deleted_at = op_deleted_at plan\<rparr> (canonical_project_children db)\<rparr>, ok ())
           | Some model \<Rightarrow>
               if pc_project_id model \<noteq> project_id then (db, raise AuthorizationRejected)
               else (db\<lparr>canonical_project_children := put_row project_child_key
                       (model\<lparr>pc_deleted_at := op_deleted_at plan\<rparr>) (canonical_project_children db)\<rparr>, ok ())))"

definition apply_item_child_plan :: "db \<Rightarrow> principal \<Rightarrow> ownership_plan \<Rightarrow> db \<times> unit res" where
  "apply_item_child_plan db p plan =
     (case op_item_id plan of
        None \<Rightarrow> (db, raise AuthorizationRejected)
      | Some item_id \<Rightarrow>
          (case get_item_child db (organization_id p) (op_entity_type plan) (op_entity_id plan) of
             None \<Rightarrow>
               (db\<lparr>canonical_item_children := put_row item_child_key
                  \<lparr>ic_organization_id = organization_id p, ic_entity_type = op_entity_type plan,
                   ic_entity_id = op_entity_id plan, ic_item_id = item_id,
                   ic_deleted_at = op_deleted_at plan\<rparr> (canonical_item_children db)\<rparr>, ok ())
           | Some model \<Rightarrow>
               if ic_item_id model \<noteq> item_id then (db, raise AuthorizationRejected)
               else (db\<lparr>canonical_item_children := put_row item_child_key
                       (model\<lparr>ic_deleted_at := op_deleted_at plan\<rparr>) (canonical_item_children db)\<rparr>, ok ())))"

definition apply_ownership_plan ::
  "db \<Rightarrow> principal \<Rightarrow> effective_scope \<Rightarrow> ownership_plan \<Rightarrow> db \<times> effective_scope \<times> unit res" where
  "apply_ownership_plan db p scope plan =
     (if op_entity_type plan = ''customer'' then apply_customer_plan db p scope plan
      else if op_entity_type plan = ''project'' then apply_project_plan db p scope plan
      else
        let (db', r) =
          (if op_entity_type plan = ''project_sector'' then apply_sector_plan db p plan
           else if op_entity_type plan = ''item'' then apply_item_plan db p plan
           else if op_entity_type plan \<in> set PROJECT_CHILD_TYPES then apply_project_child_plan db p plan
           else if op_entity_type plan \<in> set ITEM_CHILD_TYPES then apply_item_child_plan db p plan
           else (db, raise AuthorizationRejected))
        in (db', scope, r))"

section \<open>Reading\<close>

definition require_item_access ::
  "db \<Rightarrow> principal \<Rightarrow> string \<Rightarrow> string option \<Rightarrow> (canonical_item \<times> canonical_project) res" where
  "require_item_access db p item_id capability =
     seq (case capability of None \<Rightarrow> ok () | Some c \<Rightarrow> require_capability p c)
       (item_for_scope db p (from_principal p) item_id)"

text \<open>Whether the principal's scope reaches the project of this id.\<close>

definition project_in_scope :: "db \<Rightarrow> principal \<Rightarrow> string \<Rightarrow> bool" where
  "project_in_scope db p project_id =
     (case get_project db (organization_id p) project_id of
        None \<Rightarrow> False
      | Some project \<Rightarrow> can_access_project (from_principal p) (cp_project_id project) (cp_customer_id project))"

definition record_is_visible :: "db \<Rightarrow> principal \<Rightarrow> string \<Rightarrow> string \<Rightarrow> bool" where
  "record_is_visible db p entity_type entity_id =
     (if entity_type = ''customer'' then
        (case get_customer db (organization_id p) entity_id of
           None \<Rightarrow> False
         | Some customer \<Rightarrow> can_access_customer (from_principal p) (cc_customer_id customer))
      else if entity_type = ''project'' then project_in_scope db p entity_id
      else if entity_type = ''project_sector'' then
        (case get_sector db (organization_id p) entity_id of
           None \<Rightarrow> False | Some sector \<Rightarrow> project_in_scope db p (cs_project_id sector))
      else if entity_type = ''item'' then
        (case get_item db (organization_id p) entity_id of
           None \<Rightarrow> False | Some item \<Rightarrow> project_in_scope db p (ci_project_id item))
      else if entity_type \<in> set PROJECT_CHILD_TYPES then
        (case get_project_child db (organization_id p) entity_type entity_id of
           None \<Rightarrow> False | Some child \<Rightarrow> project_in_scope db p (pc_project_id child))
      else if entity_type \<in> set ITEM_CHILD_TYPES then
        (case get_item_child db (organization_id p) entity_type entity_id of
           None \<Rightarrow> False
         | Some child \<Rightarrow>
             (case get_item db (organization_id p) (ic_item_id child) of
                None \<Rightarrow> False | Some item \<Rightarrow> project_in_scope db p (ci_project_id item)))
      else False)"

end
