(* ===== verification/Lifecycle.thy ===== *)
theory Lifecycle
  imports Models
begin

text \<open>
  \<open>app/lifecycle.py\<close>: the blocker and quotation histories. Each validator is a function of the
  proposed payload, the canonical payload and the principal that raises or returns. The event
  machines are stated independently as inductive traces (\<open>blocker_trace\<close>,
  \<open>quotation_trace\<close>), and the loops of the validators are shown to accept exactly the runs of
  those machines.
\<close>

section \<open>Constants\<close>

definition BLOCKER_EVENT_KINDS :: "string list" where
  "BLOCKER_EVENT_KINDS = [''created'', ''updated'', ''resolved'', ''reopened'']"

definition QUOTATION_EVENT_KINDS :: "string list" where
  "QUOTATION_EVENT_KINDS = [''sent'', ''approved'', ''rejected'', ''superseded'']"

definition QUOTATION_STATUSES :: "string list" where
  "QUOTATION_STATUSES = [''draft'', ''ready'', ''sent'', ''approved'', ''rejected'', ''superseded'']"

definition QUOTATION_CONTENT_LOCKED :: "string list" where
  "QUOTATION_CONTENT_LOCKED = [''sent'', ''rejected'', ''approved'', ''superseded'']"

definition QUOTATION_LIFECYCLE_KEYS :: "string list" where
  "QUOTATION_LIFECYCLE_KEYS = [''status'', ''events'', ''updatedAt'']"

section \<open>Shared checks\<close>

definition lc_events :: "dict \<Rightarrow> bool \<Rightarrow> dict list res" where
  "lc_events payload required =
     (let raw = dget payload ''events'' in
      if raw = JNull \<and> \<not> required then ok []
      else case as_list raw of
          None \<Rightarrow> raise LifecycleRejected \<comment> \<open>history is required\<close>
        | Some xs \<Rightarrow>
            if required \<and> xs = [] then raise LifecycleRejected \<comment> \<open>history is required\<close>
            else case as_dicts xs of
                None \<Rightarrow> raise LifecycleRejected \<comment> \<open>history is malformed\<close>
              | Some events \<Rightarrow> ok events)"

definition require_unique_event_ids :: "dict list \<Rightarrow> unit res" where
  "require_unique_event_ids events = unique_ids LifecycleRejected ''id'' events []"

definition require_connected_provenance :: "dict \<Rightarrow> principal \<Rightarrow> bool \<Rightarrow> unit res" where
  "require_connected_provenance event p current_actor =
     require_provenance LifecycleRejected p current_actor event"

definition require_immutable_prefix :: "dict option \<Rightarrow> dict list \<Rightarrow> dict list res" where
  "require_immutable_prefix current_payload proposed =
     (case current_payload of
        None \<Rightarrow> ok proposed
      | Some cp \<Rightarrow>
          (case as_list (get_or_nil cp ''events'') of
                None \<Rightarrow> raise LifecycleRejected \<comment> \<open>canonical history is malformed\<close>
              | Some ces \<Rightarrow>
                  if as_dicts ces = None then raise LifecycleRejected \<comment> \<open>canonical history is malformed\<close>
                  else if length proposed < length ces then raise LifecycleRejected \<comment> \<open>cannot be truncated\<close>
                  else if \<not> py_eq_list (map JObj (take (length ces) proposed)) ces
                  then raise LifecycleRejected \<comment> \<open>history is immutable\<close>
                  else ok (drop (length ces) proposed)))"

section \<open>Blockers\<close>

type_synonym snapshot = "json \<times> string \<times> string \<times> json \<times> string \<times> string"

definition blocker_snapshot :: "dict \<Rightarrow> snapshot" where
  "blocker_snapshot event =
     (dget event ''blockerCategory'', norm_or_empty (dget event ''blockerKind''),
      norm_or_empty (dget event ''description''), dget event ''critical'',
      norm_or_empty (dget event ''responsiblePerson''), norm_or_empty (dget event ''vendorSupplier''))"

fun snapshot_eq :: "snapshot \<Rightarrow> snapshot \<Rightarrow> bool" where
  "snapshot_eq (a, b, c, d, e, f) (a', b', c', d', e', f') \<longleftrightarrow>
     py_eq a a' \<and> b = b' \<and> c = c' \<and> py_eq d d' \<and> e = e' \<and> f = f'"

definition validate_optional_blocker_snapshot :: "dict \<Rightarrow> dict \<Rightarrow> unit res" where
  "validate_optional_blocker_snapshot payload event =
     for_each (\<lambda>(event_key, expected).
        if \<not> dhas event event_key then ok ()
        else
          (let actual = dget event event_key;
               actual = (if event_key \<in> {''blockerKind'', ''description'', ''responsiblePerson'', ''vendorSupplier''}
                         then JStr (norm_or_empty actual) else actual)
           in guard (\<not> py_eq actual expected) LifecycleRejected))
       [(''blockerCategory'', dget payload ''category''),
        (''blockerKind'', JStr (norm_or_empty (dget payload ''kind''))),
        (''description'', JStr (norm_or_empty (dget payload ''description''))),
        (''critical'', dget payload ''critical''),
        (''responsiblePerson'', JStr (norm_or_empty (dget payload ''responsiblePerson''))),
        (''vendorSupplier'', JStr (norm_or_empty (dget payload ''vendorSupplier'')))]"

text \<open>One turn of the event loop: the new state, or the rejection.\<close>

definition blocker_transition ::
  "string \<Rightarrow> nat \<Rightarrow> string option \<Rightarrow> snapshot option \<Rightarrow> snapshot \<Rightarrow> string option res" where
  "blocker_transition kind index state previous_snapshot snapshot =
     (if kind = ''created'' then
        (if index \<noteq> 0 \<or> state \<noteq> None then raise LifecycleRejected \<comment> \<open>created event must be first\<close>
         else ok (Some ''open''))
      else if kind = ''updated'' then
        (if state = None then raise LifecycleRejected \<comment> \<open>update cannot precede creation\<close>
         else case previous_snapshot of
             Some prev \<Rightarrow> if snapshot_eq snapshot prev then raise LifecycleRejected \<comment> \<open>no material change\<close>
                         else ok state
           | None \<Rightarrow> ok state)
      else if kind = ''resolved'' then
        (if state \<noteq> Some ''open'' then raise LifecycleRejected \<comment> \<open>can only resolve from open\<close>
         else ok (Some ''resolved''))
      else if kind = ''reopened'' then
        (if state \<noteq> Some ''resolved'' then raise LifecycleRejected \<comment> \<open>can only reopen from resolved\<close>
         else ok (Some ''open''))
      else ok state)"

fun blocker_loop ::
  "principal \<Rightarrow> string \<Rightarrow> string \<Rightarrow> nat \<Rightarrow> string option \<Rightarrow> snapshot option \<Rightarrow> dict list
     \<Rightarrow> string option res" where
  "blocker_loop p entity_id item_id index state previous_snapshot [] = ok state"
| "blocker_loop p entity_id item_id index state previous_snapshot (event # events) =
     ebind (in_strset (dget event ''kind'') BLOCKER_EVENT_KINDS) (\<lambda>known.
     if \<not> known then raise LifecycleRejected \<comment> \<open>event kind is invalid\<close>
     else if dget event ''blockerID'' \<noteq> JStr entity_id \<or> dget event ''itemID'' \<noteq> JStr item_id
     then raise LifecycleRejected \<comment> \<open>event identity is invalid\<close>
     else seq (require_connected_provenance event p False)
       (ebind (blocker_transition (event_kind event) index state
                 previous_snapshot (blocker_snapshot event)) (\<lambda>state'.
        blocker_loop p entity_id item_id (Suc index) state' (Some (blocker_snapshot event)) events)))"

definition BLOCKER_PROTECTED :: "string list" where
  "BLOCKER_PROTECTED = [''category'', ''kind'', ''description'', ''status'', ''critical'', ''resolvedAt'',
     ''responsiblePerson'', ''vendorSupplier'']"

definition validate_blocker_lifecycle ::
  "dict \<Rightarrow> dict option \<Rightarrow> principal \<Rightarrow> string \<Rightarrow> unit res" where
  "validate_blocker_lifecycle payload current_payload p entity_id =
     (if normalized (dget payload ''description'') = None then raise LifecycleRejected
      else
        let status = dget payload ''status'' in
        ebind (in_strset status [''open'', ''resolved'']) (\<lambda>known.
        if \<not> known then raise LifecycleRejected \<comment> \<open>status is invalid\<close>
        else if status = JStr ''open'' \<and> dget payload ''resolvedAt'' \<noteq> JNull then raise LifecycleRejected
        else if status = JStr ''resolved'' \<and> dget payload ''resolvedAt'' = JNull then raise LifecycleRejected
        else case normalized (dget payload ''itemID'') of
          None \<Rightarrow> raise LifecycleRejected \<comment> \<open>itemID is required\<close>
        | Some item_id \<Rightarrow>
            ebind (lc_events payload True) (\<lambda>events.
            seq (require_unique_event_ids events)
            (ebind (require_immutable_prefix current_payload events) (\<lambda>appended.
             ebind (blocker_loop p entity_id item_id 0 None None events) (\<lambda>state.
             if map_option JStr state \<noteq> Some status then raise LifecycleRejected \<comment> \<open>status does not match history\<close>
             else seq (validate_optional_blocker_snapshot payload (last events))
               (seq (case current_payload of
                       None \<Rightarrow> ok ()
                     | Some cp \<Rightarrow> guard (appended = [] \<and>
                            list_ex (\<lambda>key. \<not> py_eq (dget cp key) (dget payload key)) BLOCKER_PROTECTED)
                          LifecycleRejected) \<comment> \<open>changes must append a lifecycle event\<close>
                  (if appended \<noteq> [] then require_connected_provenance (last appended) p True
                   else ok ()))))))))"

section \<open>Quotations\<close>

definition no_event_destinations :: "string \<Rightarrow> string set" where
  "no_event_destinations state =
     (if state = ''draft'' then {''ready''}
      else if state = ''ready'' then {''draft''}
      else if state = ''rejected'' then {''draft''}
      else {})"

definition closure_pass :: "string set \<Rightarrow> string set" where
  "closure_pass result = result \<union> (\<Union>state \<in> result. no_event_destinations state)"

text \<open>The \<open>while changed\<close> loop; every pass that changes anything adds draft or ready.\<close>

function quotation_no_event_closure :: "string set \<Rightarrow> string set" where
  "quotation_no_event_closure states =
     (let result = closure_pass states in
      if result = states then states else quotation_no_event_closure result)"
  by pat_completeness auto

lemma diff_psubset_step: "A \<subseteq> B \<Longrightarrow> B \<subseteq> A \<union> D \<Longrightarrow> B \<noteq> A \<Longrightarrow> D - B \<subset> D - A"
  by blast

lemma closure_pass_bounds:
  "states \<subseteq> closure_pass states" "closure_pass states \<subseteq> states \<union> {''draft'', ''ready''}"
  by (auto simp: closure_pass_def no_event_destinations_def split: if_splits)

lemma closure_pass_progress:
  assumes "closure_pass states \<noteq> states"
  shows "card ({''draft'', ''ready''} - closure_pass states) < card ({''draft'', ''ready''} - states)"
proof (rule psubset_card_mono)
  show "finite ({''draft'', ''ready''} - states)" by simp
  show "{''draft'', ''ready''} - closure_pass states \<subset> {''draft'', ''ready''} - states"
    using closure_pass_bounds assms by (rule diff_psubset_step)
qed

termination quotation_no_event_closure
proof (relation "measure (\<lambda>states. card ({''draft'', ''ready''} - states))")
  fix states result
  assume "result = closure_pass states" and "result \<noteq> states"
  then show "(result, states) \<in> measure (\<lambda>states. card ({''draft'', ''ready''} - states))"
    using closure_pass_progress [of states] by simp
qed (rule wf_measure)

declare quotation_no_event_closure.simps [simp del]

definition apply_quotation_event :: "string set \<Rightarrow> string \<Rightarrow> string set" where
  "apply_quotation_event states kind =
     (let reachable = quotation_no_event_closure states in
      if kind = ''sent'' then (if ''ready'' \<in> reachable then {''sent''} else {})
      else if kind = ''approved'' then (if ''sent'' \<in> reachable then {''approved''} else {})
      else if kind = ''rejected'' then (if ''sent'' \<in> reachable then {''rejected''} else {})
      else if kind = ''superseded'' then
        (if reachable \<inter> {''draft'', ''ready'', ''sent'', ''rejected''} \<noteq> {} then {''superseded''} else {})
      else {})"

definition quotation_revision :: "dict \<Rightarrow> int res" where
  "quotation_revision payload =
     (case dget payload ''revision'' of
        JNull \<Rightarrow> ok 1
      | JInt n \<Rightarrow> if n < 1 then raise LifecycleRejected else ok n
      | _ \<Rightarrow> raise LifecycleRejected)" \<comment> \<open>revision must be at least 1\<close>

definition commercial_content :: "dict \<Rightarrow> dict" where
  "commercial_content payload = filter (\<lambda>(key, value). key \<notin> set QUOTATION_LIFECYCLE_KEYS) payload"

fun quotation_loop :: "string set \<Rightarrow> dict list \<Rightarrow> string set res" where
  "quotation_loop states [] = ok states"
| "quotation_loop states (event # events) =
     (let states' = apply_quotation_event states (event_kind event) in
      if states' = {} then raise LifecycleRejected \<comment> \<open>event sequence is invalid\<close>
      else quotation_loop states' events)"

definition validate_quotation_update :: "dict \<Rightarrow> dict \<Rightarrow> int \<Rightarrow> string option \<Rightarrow> unit res" where
  "validate_quotation_update cp payload revision supersedes =
     ebind (quotation_revision cp) (\<lambda>current_revision.
     if current_revision \<noteq> revision then raise LifecycleRejected \<comment> \<open>revision is immutable\<close>
     else if normalized (dget cp ''supersedesQuotationID'') \<noteq> supersedes
     then raise LifecycleRejected \<comment> \<open>supersession identity is immutable\<close>
     else
       let current_status = dget cp ''status'' in
       ebind (in_strset current_status QUOTATION_STATUSES) (\<lambda>known.
       if \<not> known then raise LifecycleRejected \<comment> \<open>canonical status is invalid\<close>
       else guard (in_tuple current_status QUOTATION_CONTENT_LOCKED
              \<and> \<not> py_eq (JObj (commercial_content cp)) (JObj (commercial_content payload)))
            LifecycleRejected))" \<comment> \<open>customer-facing content is locked\<close>

definition validate_quotation_predecessor ::
  "db \<Rightarrow> dict \<Rightarrow> principal \<Rightarrow> string \<Rightarrow> int \<Rightarrow> string option \<Rightarrow> unit res" where
  "validate_quotation_predecessor db payload p entity_id revision supersedes =
     (if revision = 1 then guard (supersedes \<noteq> None) LifecycleRejected
      else case supersedes of
          None \<Rightarrow> raise LifecycleRejected
        | Some pred_id \<Rightarrow>
            if pred_id = entity_id then raise LifecycleRejected \<comment> \<open>requires a predecessor\<close>
            else case get_entity db (organization_id p) ''quotation'' pred_id of
                None \<Rightarrow> raise LifecycleRejected
              | Some predecessor \<Rightarrow>
                  (case as_dict (se_payload_json predecessor) of
                     None \<Rightarrow> raise LifecycleRejected
                   | Some predecessor_payload \<Rightarrow>
                       if se_deleted_at predecessor \<noteq> None then raise LifecycleRejected
                       else if \<not> py_eq (dget predecessor_payload ''projectID'') (dget payload ''projectID'')
                       then raise LifecycleRejected \<comment> \<open>another Project\<close>
                       else if \<not> py_eq (dget predecessor_payload ''customerID'') (dget payload ''customerID'')
                       then raise LifecycleRejected \<comment> \<open>another Customer\<close>
                       else ebind (quotation_revision predecessor_payload) (\<lambda>prev.
                         guard (prev \<noteq> revision - 1) LifecycleRejected)))"

definition validate_quotation_lifecycle ::
  "db \<Rightarrow> dict \<Rightarrow> dict option \<Rightarrow> principal \<Rightarrow> string \<Rightarrow> unit res" where
  "validate_quotation_lifecycle db payload current_payload p entity_id =
     (let status = dget payload ''status'' in
      ebind (in_strset status QUOTATION_STATUSES) (\<lambda>known.
      if \<not> known then raise LifecycleRejected \<comment> \<open>status is invalid\<close>
      else ebind (lc_events payload False) (\<lambda>events.
      seq (require_unique_event_ids events)
      (seq (for_each (\<lambda>event.
              ebind (in_strset (dget event ''kind'') QUOTATION_EVENT_KINDS) (\<lambda>known.
              if \<not> known then raise LifecycleRejected
              else require_connected_provenance event p False)) events)
      (ebind (require_immutable_prefix current_payload events) (\<lambda>appended.
       ebind (quotation_loop {''draft''} events) (\<lambda>states.
       if \<not> (\<exists>s \<in> quotation_no_event_closure states. status = JStr s)
       then raise LifecycleRejected \<comment> \<open>status is not reachable from history\<close>
       else seq (if appended \<noteq> [] then require_connected_provenance (last appended) p True else ok ())
       (ebind (quotation_revision payload) (\<lambda>revision.
        let supersedes = normalized (dget payload ''supersedesQuotationID'') in
        case current_payload of
          Some cp \<Rightarrow> validate_quotation_update cp payload revision supersedes
        | None \<Rightarrow> validate_quotation_predecessor db payload p entity_id revision supersedes)))))))))"

section \<open>Entry point\<close>

definition validate_lifecycle_mutation ::
  "db \<Rightarrow> principal \<Rightarrow> string \<Rightarrow> string \<Rightarrow> dict \<Rightarrow> datetime option \<Rightarrow> sync_entity option \<Rightarrow> unit res" where
  "validate_lifecycle_mutation db p entity_type entity_id payload deleted_at current =
     (if deleted_at \<noteq> None then ok ()
      else
        let current_payload = (case current of None \<Rightarrow> None | Some ent \<Rightarrow> as_dict (se_payload_json ent)) in
        if entity_type = ''blocker'' then validate_blocker_lifecycle payload current_payload p entity_id
        else if entity_type = ''quotation'' then
          validate_quotation_lifecycle db payload current_payload p entity_id
        else ok ())"


section \<open>The blocker machine\<close>

text \<open>The histories a blocker may have, and the state each leaves it in.\<close>

inductive blocker_trace :: "string list \<Rightarrow> string \<Rightarrow> bool" where
  created: "blocker_trace [''created''] ''open''"
| updated: "blocker_trace ks s \<Longrightarrow> blocker_trace (ks @ [''updated'']) s"
| resolved: "blocker_trace ks ''open'' \<Longrightarrow> blocker_trace (ks @ [''resolved'']) ''resolved''"
| reopened: "blocker_trace ks ''resolved'' \<Longrightarrow> blocker_trace (ks @ [''reopened'']) ''open''"

inductive_cases blocker_trace_NilE: "blocker_trace [] s"

definition trace_state :: "string list \<Rightarrow> string option \<Rightarrow> bool" where
  "trace_state ks st = (case st of None \<Rightarrow> ks = [] | Some s \<Rightarrow> blocker_trace ks s)"

lemma lc_events_ok:
  "lc_events payload required = Inr evs \<longleftrightarrow>
     (dget payload ''events'' = JNull \<and> \<not> required \<and> evs = [])
     \<or> (dget payload ''events'' = JList (map JObj evs) \<and> (required \<longrightarrow> evs \<noteq> []))"
  by (auto simp: lc_events_def Let_def res_simps)

lemma BLOCKER_EVENT_KINDS_iff:
  "in_tuple v BLOCKER_EVENT_KINDS \<longleftrightarrow>
     v = JStr ''created'' \<or> v = JStr ''updated'' \<or> v = JStr ''resolved'' \<or> v = JStr ''reopened''"
  by (auto simp: in_tuple_iff BLOCKER_EVENT_KINDS_def)

lemma blocker_transition_trace:
  assumes "blocker_transition k (length ks) st prev snap = Inr st'"
    and "trace_state ks st"
    and "k \<in> {''created'', ''updated'', ''resolved'', ''reopened''}"
  shows "trace_state (ks @ [k]) st'"
proof -
  consider "k = ''created''" | "k = ''updated''" | "k = ''resolved''" | "k = ''reopened''"
    using assms(3) by blast
  then show ?thesis
  proof cases
    case 1
    with assms show ?thesis
      by (auto simp: blocker_transition_def trace_state_def intro: blocker_trace.created split: if_splits)
  next
    case 2
    with assms show ?thesis
      by (auto simp: blocker_transition_def trace_state_def intro: blocker_trace.updated
          split: if_splits option.splits)
  next
    case 3
    with assms show ?thesis
      by (auto simp: blocker_transition_def trace_state_def intro: blocker_trace.resolved split: if_splits)
  next
    case 4
    with assms show ?thesis
      by (auto simp: blocker_transition_def trace_state_def intro: blocker_trace.reopened split: if_splits)
  qed
qed

text \<open>What every event of an accepted blocker satisfies.\<close>

definition blocker_event_ok :: "principal \<Rightarrow> string \<Rightarrow> string \<Rightarrow> dict \<Rightarrow> bool" where
  "blocker_event_ok p entity_id item_id event \<longleftrightarrow>
     dget event ''blockerID'' = JStr entity_id \<and> dget event ''itemID'' = JStr item_id
     \<and> attributed p event \<and> in_tuple (dget event ''kind'') BLOCKER_EVENT_KINDS"

lemma blocker_loop_ok:
  assumes "blocker_loop p entity_id item_id (length ks) st prev events = Inr st'"
    and "trace_state ks st"
  shows "trace_state (ks @ map event_kind events) st'
    \<and> list_all (blocker_event_ok p entity_id item_id) events"
  using assms
proof (induction events arbitrary: ks st prev)
  case Nil
  then show ?case by simp
next
  case (Cons event events)
  let ?k = "event_kind event"
  from Cons.prems(1) have kind: "in_tuple (dget event ''kind'') BLOCKER_EVENT_KINDS"
    and ids: "dget event ''blockerID'' = JStr entity_id" "dget event ''itemID'' = JStr item_id"
    and att: "attributed p event"
    and step: "\<exists>st1. blocker_transition ?k (length ks) st prev (blocker_snapshot event) = Inr st1
       \<and> blocker_loop p entity_id item_id (Suc (length ks)) st1 (Some (blocker_snapshot event)) events = Inr st'"
    by (auto simp: res_simps require_connected_provenance_def)
  from kind have known: "?k \<in> {''created'', ''updated'', ''resolved'', ''reopened''}"
    by (auto simp: BLOCKER_EVENT_KINDS_iff)
  from step obtain st1 where
    st1: "blocker_transition ?k (length ks) st prev (blocker_snapshot event) = Inr st1"
    and rest: "blocker_loop p entity_id item_id (length (ks @ [?k])) st1 (Some (blocker_snapshot event)) events = Inr st'"
    by auto
  have "trace_state (ks @ [?k]) st1"
    using st1 Cons.prems(2) known by (rule blocker_transition_trace)
  from Cons.IH [OF rest this] ids att kind show ?case
    by (simp add: blocker_event_ok_def)
qed

lemma require_immutable_prefix_ok:
  "require_immutable_prefix (Some cp) proposed = Inr appended \<longleftrightarrow>
     (\<exists>ces. get_or_nil cp ''events'' = JList (map JObj ces) \<and> length ces \<le> length proposed
       \<and> py_eq_list (map JObj (take (length ces) proposed)) (map JObj ces)
       \<and> appended = drop (length ces) proposed)"
  by (auto simp: require_immutable_prefix_def res_simps not_less)

lemmas blocker_validator_defs = validate_blocker_lifecycle_def Let_def require_unique_event_ids_def
  require_connected_provenance_def

lemma validate_blocker_parts:
  assumes "validate_blocker_lifecycle payload current p entity_id = Inr ()"
  shows "\<exists>events item_id appended st.
     dget payload ''events'' = JList (map JObj events) \<and> events \<noteq> []
     \<and> None \<notin> set (map (id_of ''id'') events) \<and> distinct (map (id_of ''id'') events)
     \<and> normalized (dget payload ''itemID'') = Some item_id
     \<and> require_immutable_prefix current events = Inr appended
     \<and> blocker_loop p entity_id item_id 0 None None events = Inr (Some st)
     \<and> dget payload ''status'' = JStr st
     \<and> validate_optional_blocker_snapshot payload (last events) = Inr ()
     \<and> (appended = [] \<longrightarrow> (\<forall>cp. current = Some cp \<longrightarrow>
          (\<forall>key \<in> set BLOCKER_PROTECTED. py_eq (dget cp key) (dget payload key))))
     \<and> (appended \<noteq> [] \<longrightarrow> authored_by p (last appended))"
  using assms
  by (auto simp: blocker_validator_defs res_simps lc_events_ok list_ex_iff split: option.splits if_splits)

section \<open>The quotation machine\<close>

text \<open>Silent moves of the client, and the histories a quotation in each status may have.\<close>

inductive silent_step :: "string \<Rightarrow> string \<Rightarrow> bool" where
  ready: "silent_step ''draft'' ''ready''"
| unready: "silent_step ''ready'' ''draft''"
| rework: "silent_step ''rejected'' ''draft''"

inductive quotation_trace :: "string list \<Rightarrow> string \<Rightarrow> bool" where
  start: "quotation_trace [] ''draft''"
| silent: "quotation_trace ks s \<Longrightarrow> silent_step s t \<Longrightarrow> quotation_trace ks t"
| sent: "quotation_trace ks ''ready'' \<Longrightarrow> quotation_trace (ks @ [''sent'']) ''sent''"
| approved: "quotation_trace ks ''sent'' \<Longrightarrow> quotation_trace (ks @ [''approved'']) ''approved''"
| rejected: "quotation_trace ks ''sent'' \<Longrightarrow> quotation_trace (ks @ [''rejected'']) ''rejected''"
| superseded: "quotation_trace ks s \<Longrightarrow> s \<in> {''draft'', ''ready'', ''sent'', ''rejected''}
    \<Longrightarrow> quotation_trace (ks @ [''superseded'']) ''superseded''"

inductive_simps silent_step_iff: "silent_step s t"

lemma no_event_destinations_iff: "t \<in> no_event_destinations s \<longleftrightarrow> silent_step s t"
  by (auto simp: no_event_destinations_def silent_step_iff)

lemma closure_pass_iff: "t \<in> closure_pass S \<longleftrightarrow> t \<in> S \<or> (\<exists>s \<in> S. silent_step s t)"
  by (auto simp: closure_pass_def no_event_destinations_iff)

text \<open>The while loop computes exactly the statuses reachable by silent moves.\<close>

lemma closure_reachable: "quotation_no_event_closure S = {t. \<exists>s \<in> S. silent_step\<^sup>*\<^sup>* s t}"
proof (induction S rule: quotation_no_event_closure.induct)
  case (1 S)
  show ?case
  proof (cases "closure_pass S = S")
    case True
    have "t \<in> S" if "silent_step\<^sup>*\<^sup>* s t" "s \<in> S" for s t
      using that
    proof (induction rule: rtranclp_induct)
      case (step t u)
      then show ?case using True closure_pass_iff [of u S] by blast
    qed
    with True show ?thesis
      by (subst quotation_no_event_closure.simps) auto
  next
    case False
    then have "quotation_no_event_closure S = {t. \<exists>s \<in> closure_pass S. silent_step\<^sup>*\<^sup>* s t}"
      using "1.IH" by (subst quotation_no_event_closure.simps) (simp add: Let_def)
    also have "\<dots> = {t. \<exists>s \<in> S. silent_step\<^sup>*\<^sup>* s t}"
      by (auto simp: closure_pass_iff) (blast intro: converse_rtranclp_into_rtranclp)+
    finally show ?thesis .
  qed
qed

lemma quotation_trace_rtrancl: "quotation_trace ks s \<Longrightarrow> silent_step\<^sup>*\<^sup>* s t \<Longrightarrow> quotation_trace ks t"
  by (rotate_tac 1, induction rule: rtranclp_induct) (auto intro: quotation_trace.silent)

text \<open>The statuses the validator computes after a list of event kinds.\<close>

definition statuses_after :: "string list \<Rightarrow> string set" where
  "statuses_after ks = quotation_no_event_closure (foldl apply_quotation_event {''draft''} ks)"

lemma closure_superset: "S \<subseteq> quotation_no_event_closure S"
  by (auto simp: closure_reachable)

lemma apply_event_iff:
  "t \<in> apply_quotation_event S k \<longleftrightarrow>
     (k = ''sent'' \<and> t = ''sent'' \<and> ''ready'' \<in> quotation_no_event_closure S)
     \<or> (k = ''approved'' \<and> t = ''approved'' \<and> ''sent'' \<in> quotation_no_event_closure S)
     \<or> (k = ''rejected'' \<and> t = ''rejected'' \<and> ''sent'' \<in> quotation_no_event_closure S)
     \<or> (k = ''superseded'' \<and> t = ''superseded''
        \<and> (\<exists>s \<in> quotation_no_event_closure S. s \<in> {''draft'', ''ready'', ''sent'', ''rejected''}))"
  unfolding apply_quotation_event_def Let_def by auto

lemma statuses_after_sound: "t \<in> foldl apply_quotation_event {''draft''} ks \<Longrightarrow> quotation_trace ks t"
proof (induction ks arbitrary: t rule: rev_induct)
  case Nil
  then show ?case by (simp add: quotation_trace.start)
next
  case (snoc k ks)
  have reach: "quotation_trace ks s" if "s \<in> quotation_no_event_closure (foldl apply_quotation_event {''draft''} ks)" for s
    using that snoc.IH quotation_trace_rtrancl by (auto simp: closure_reachable)
  from snoc.prems show ?case
    by (simp add: apply_event_iff) (blast intro: reach quotation_trace.intros(3-6))
qed

lemma statuses_after_complete: "quotation_trace ks t \<Longrightarrow> t \<in> statuses_after ks"
proof (induction rule: quotation_trace.induct)
  case start
  then show ?case using closure_superset by (fastforce simp: statuses_after_def)
next
  case (silent ks s t)
  then show ?case
    by (auto simp: statuses_after_def closure_reachable intro: rtranclp.rtrancl_into_rtrancl)
next
  case (superseded ks s)
  then have "''superseded'' \<in> apply_quotation_event (foldl apply_quotation_event {''draft''} ks) ''superseded''"
    by (subst apply_event_iff) (auto simp: statuses_after_def)
  then show ?case using closure_superset by (fastforce simp: statuses_after_def)
qed (use closure_superset in \<open>fastforce simp: statuses_after_def apply_event_iff\<close>)+

lemma statuses_after_trace: "t \<in> statuses_after ks \<Longrightarrow> quotation_trace ks t"
proof -
  assume "t \<in> statuses_after ks"
  then obtain s where "s \<in> foldl apply_quotation_event {''draft''} ks" "silent_step\<^sup>*\<^sup>* s t"
    by (auto simp: statuses_after_def closure_reachable)
  then show ?thesis by (blast intro: statuses_after_sound quotation_trace_rtrancl)
qed

lemma quotation_loop_ok:
  "quotation_loop S events = Inr T \<Longrightarrow> T = foldl apply_quotation_event S (map event_kind events)"
  by (induction events arbitrary: S) (auto simp: Let_def split: if_splits)


lemma quotation_trace_approved:
  "quotation_trace ks s \<Longrightarrow>
     (s = ''approved'' \<and> (\<exists>ks'. ks = ks' @ [''approved''] \<and> ''approved'' \<notin> set ks'))
     \<or> (s \<noteq> ''approved'' \<and> ''approved'' \<notin> set ks)"
proof (induction rule: quotation_trace.induct)
  case (silent ks s t)
  then show ?case by (auto simp: silent_step_iff)
qed auto

lemma quotation_trace_approved_extend:
  assumes "quotation_trace ks ''approved''" and "quotation_trace (ks @ rest) s"
  shows "rest = [] \<and> s = ''approved''"
proof -
  obtain ks' where ks: "ks = ks' @ [''approved'']"
    using quotation_trace_approved [OF assms(1)] by auto
  obtain ks'' where eq: "ks @ rest = ks'' @ [''approved'']" and fresh: "''approved'' \<notin> set ks''"
    and s: "s = ''approved''"
    using quotation_trace_approved [OF assms(2)] ks by auto
  have "rest = []"
  proof (rule ccontr)
    assume "rest \<noteq> []"
    then obtain r x where "rest = r @ [x]" by (metis rev_exhaust)
    with eq ks fresh show False by auto
  qed
  with s show ?thesis by simp
qed

lemma py_eq_events_kinds:
  assumes "py_eq_list (map JObj ds) (map JObj es)"
    and "\<And>d. d \<in> set ds \<Longrightarrow> \<exists>k. dget d ''kind'' = JStr k"
  shows "map event_kind ds = map event_kind es"
proof -
  from assms(1) have all: "list_all2 (\<lambda>d e. py_eq (JObj d) (JObj e)) ds es"
    by (simp add: py_eq_list_all2 list_all2_map1 list_all2_map2 del: py_eq.simps)
  have "event_kind d = event_kind e" if "d \<in> set ds" "py_eq (JObj d) (JObj e)" for d e
    using assms(2) [OF that(1)] that(2) py_eq_items_JStr by auto
  with all show ?thesis
    by (auto simp: list_all2_conv_all_nth list_eq_iff_nth_eq simp del: py_eq.simps)
qed

lemma QUOTATION_EVENT_KINDS_str: "in_tuple v QUOTATION_EVENT_KINDS \<Longrightarrow> \<exists>k. v = JStr k"
  by (auto simp: in_tuple_iff)

lemma validate_quotation_parts:
  assumes "validate_quotation_lifecycle db payload current p entity_id = Inr ()"
  shows "\<exists>events appended st revision.
     lc_events payload False = Inr events
     \<and> None \<notin> set (map (id_of ''id'') events) \<and> distinct (map (id_of ''id'') events)
     \<and> (\<forall>ev \<in> set events. in_tuple (dget ev ''kind'') QUOTATION_EVENT_KINDS \<and> attributed p ev)
     \<and> require_immutable_prefix current events = Inr appended
     \<and> dget payload ''status'' = JStr st \<and> st \<in> set QUOTATION_STATUSES
     \<and> st \<in> statuses_after (map event_kind events)
     \<and> (appended \<noteq> [] \<longrightarrow> authored_by p (last appended))
     \<and> quotation_revision payload = Inr revision
     \<and> (\<forall>cp. current = Some cp \<longrightarrow> quotation_revision cp = Inr revision
          \<and> normalized (dget cp ''supersedesQuotationID'') = normalized (dget payload ''supersedesQuotationID'')
          \<and> (in_tuple (dget cp ''status'') QUOTATION_CONTENT_LOCKED \<longrightarrow>
               py_eq (JObj (commercial_content cp)) (JObj (commercial_content payload))))
     \<and> (current = None \<longrightarrow> validate_quotation_predecessor db payload p entity_id revision
          (normalized (dget payload ''supersedesQuotationID'')) = Inr ())"
proof -
  from assms obtain events appended states revision where
    ev: "lc_events payload False = Inr events"
    and ids: "unique_ids LifecycleRejected ''id'' events [] = Inr ()"
    and kinds: "\<forall>ev \<in> set events. in_tuple (dget ev ''kind'') QUOTATION_EVENT_KINDS \<and> attributed p ev"
    and app: "require_immutable_prefix current events = Inr appended"
    and loop: "quotation_loop {''draft''} events = Inr states"
    and st: "in_tuple (dget payload ''status'') QUOTATION_STATUSES"
      "\<exists>s \<in> quotation_no_event_closure states. dget payload ''status'' = JStr s"
    and prov: "appended \<noteq> [] \<longrightarrow> authored_by p (last appended)"
    and rev: "quotation_revision payload = Inr revision"
    and last: "(case current of
          Some cp \<Rightarrow> validate_quotation_update cp payload revision (normalized (dget payload ''supersedesQuotationID''))
        | None \<Rightarrow> validate_quotation_predecessor db payload p entity_id revision
           (normalized (dget payload ''supersedesQuotationID''))) = Inr ()"
    by (simp only: validate_quotation_lifecycle_def Let_def res_simps require_unique_event_ids_def
        require_connected_provenance_def not_not simp_thms) blast
  have "states = foldl apply_quotation_event {''draft''} (map event_kind events)"
    using loop by (rule quotation_loop_ok)
  with st obtain s where s: "dget payload ''status'' = JStr s" "s \<in> set QUOTATION_STATUSES"
    "s \<in> statuses_after (map event_kind events)"
    by (auto simp: statuses_after_def)
  have cur: "quotation_revision cp = Inr revision
          \<and> normalized (dget cp ''supersedesQuotationID'') = normalized (dget payload ''supersedesQuotationID'')
          \<and> (in_tuple (dget cp ''status'') QUOTATION_CONTENT_LOCKED \<longrightarrow>
               py_eq (JObj (commercial_content cp)) (JObj (commercial_content payload)))"
    if "current = Some cp" for cp
    using last that by (simp add: validate_quotation_update_def Let_def res_simps del: py_eq.simps)
  have pre: "validate_quotation_predecessor db payload p entity_id revision
       (normalized (dget payload ''supersedesQuotationID'')) = Inr ()" if "current = None"
    using last that by simp
  show ?thesis
    using ev ids kinds app s prov rev cur pre unfolding unique_ids_ok by blast
qed


section \<open>Properties\<close>

text \<open>
  Every blocker payload the server accepts carries a history that is a run of the blocker
  machine (created first, resolve only from open, reopen only from resolved), ends in the status
  the payload claims, has unique event ids, and every event names this blocker and item and is
  attributed within the organization.
\<close>

theorem blocker_accepted_history:
  assumes "validate_blocker_lifecycle payload current p entity_id = Inr ()"
  shows "\<exists>events st item_id. dget payload ''events'' = JList (map JObj events)
     \<and> dget payload ''status'' = JStr st \<and> blocker_trace (map event_kind events) st
     \<and> distinct (map (id_of ''id'') events)
     \<and> list_all (blocker_event_ok p entity_id item_id) events"
proof -
  obtain events item_id st where
    ev: "dget payload ''events'' = JList (map JObj events)" "distinct (map (id_of ''id'') events)"
    and loop: "blocker_loop p entity_id item_id 0 None None events = Inr (Some st)"
    and st: "dget payload ''status'' = JStr st"
    using validate_blocker_parts [OF assms] by blast
  have "trace_state ([] @ map event_kind events) (Some st)
      \<and> list_all (blocker_event_ok p entity_id item_id) events"
    using blocker_loop_ok [of p entity_id item_id "[]" None None events "Some st"] loop
    by (simp add: trace_state_def)
  with ev st show ?thesis by (auto simp: trace_state_def)
qed

definition demo_blocker :: dict where
  "demo_blocker = [(''description'', JStr ''d''), (''status'', JStr ''open''), (''itemID'', JStr ''i''),
     (''events'', JList [JObj ([(''id'', JStr ''e1''), (''kind'', JStr ''created''),
        (''blockerID'', JStr ''b''), (''itemID'', JStr ''i'')] @ demo_provenance)])]"

definition demo_blocker_resolved :: dict where
  "demo_blocker_resolved = [(''description'', JStr ''d''), (''status'', JStr ''resolved''),
     (''resolvedAt'', JStr ''t''), (''itemID'', JStr ''i''),
     (''events'', JList [JObj ([(''id'', JStr ''e1''), (''kind'', JStr ''created''),
        (''blockerID'', JStr ''b''), (''itemID'', JStr ''i'')] @ demo_provenance),
        JObj ([(''id'', JStr ''e2''), (''kind'', JStr ''resolved''),
        (''blockerID'', JStr ''b''), (''itemID'', JStr ''i'')] @ demo_provenance)])]"

lemma demo_blocker_accepted:
  "validate_blocker_lifecycle demo_blocker None demo_principal ''b'' = Inr ()"
  by code_simp

lemma demo_blocker_resolved_accepted:
  "validate_blocker_lifecycle demo_blocker_resolved (Some demo_blocker) demo_principal ''b'' = Inr ()"
  by code_simp

theorem blocker_accepted_history_witness:
  "\<exists>events st item_id. dget demo_blocker_resolved ''events'' = JList (map JObj events)
     \<and> dget demo_blocker_resolved ''status'' = JStr st \<and> blocker_trace (map event_kind events) st
     \<and> distinct (map (id_of ''id'') events)
     \<and> list_all (blocker_event_ok demo_principal ''b'' item_id) events"
  by (rule blocker_accepted_history [OF demo_blocker_resolved_accepted])

text \<open>
  An accepted update of an existing blocker keeps its canonical history as a prefix, event by
  event; events it appends end with one authored by the authenticated principal; and when it
  appends none, every protected field is unchanged.
\<close>

theorem blocker_history_append_only:
  assumes "validate_blocker_lifecycle payload (Some cp) p entity_id = Inr ()"
  shows "\<exists>old appended. get_or_nil cp ''events'' = JList (map JObj old)
     \<and> (\<exists>kept. dget payload ''events'' = JList (map JObj (kept @ appended))
          \<and> py_eq_list (map JObj kept) (map JObj old))
     \<and> (appended \<noteq> [] \<longrightarrow> authored_by p (last appended))
     \<and> (appended = [] \<longrightarrow> (\<forall>key \<in> set BLOCKER_PROTECTED. py_eq (dget cp key) (dget payload key)))"
proof -
  obtain events appended where
    ev: "dget payload ''events'' = JList (map JObj events)"
    and pre: "require_immutable_prefix (Some cp) events = Inr appended"
    and fin: "appended = [] \<longrightarrow> (\<forall>key \<in> set BLOCKER_PROTECTED. py_eq (dget cp key) (dget payload key))"
      "appended \<noteq> [] \<longrightarrow> authored_by p (last appended)"
    using validate_blocker_parts [OF assms] by blast
  from pre obtain old where "get_or_nil cp ''events'' = JList (map JObj old)"
    "py_eq_list (map JObj (take (length old) events)) (map JObj old)" "appended = drop (length old) events"
    by (auto simp: require_immutable_prefix_ok)
  with ev fin show ?thesis
    by (metis append_take_drop_id)
qed

theorem blocker_history_append_only_witness:
  "\<exists>old appended. get_or_nil demo_blocker ''events'' = JList (map JObj old)
     \<and> (\<exists>kept. dget demo_blocker_resolved ''events'' = JList (map JObj (kept @ appended))
          \<and> py_eq_list (map JObj kept) (map JObj old))
     \<and> (appended \<noteq> [] \<longrightarrow> authored_by demo_principal (last appended))
     \<and> (appended = [] \<longrightarrow>
          (\<forall>key \<in> set BLOCKER_PROTECTED. py_eq (dget demo_blocker key) (dget demo_blocker_resolved key)))"
  by (rule blocker_history_append_only [OF demo_blocker_resolved_accepted])

text \<open>
  The while loop that closes a set of quotation statuses under client-side moves returns, for
  every set, exactly the statuses reachable from it by those moves.
\<close>

theorem quotation_closure_exact:
  "quotation_no_event_closure S = {t. \<exists>s \<in> S. silent_step\<^sup>*\<^sup>* s t}"
  by (rule closure_reachable)

text \<open>
  C35. The set simulation of the quotation validator is exact: after any list of event kinds, the
  statuses it allows are exactly those of the quotation machine after these events.
\<close>

theorem quotation_statuses_exact: "t \<in> statuses_after ks \<longleftrightarrow> quotation_trace ks t"
  by (blast intro: statuses_after_complete statuses_after_trace)

text \<open>
  Once the canonical quotation is in a customer-facing status (sent, rejected, approved or
  superseded), every accepted update leaves its commercial content, revision and predecessor
  unchanged: only status, events and updatedAt may differ.
\<close>

theorem quotation_content_locked:
  assumes "validate_quotation_lifecycle db payload (Some cp) p entity_id = Inr ()"
    and "in_tuple (dget cp ''status'') QUOTATION_CONTENT_LOCKED"
  shows "py_eq (JObj (commercial_content cp)) (JObj (commercial_content payload))
     \<and> quotation_revision payload = quotation_revision cp
     \<and> normalized (dget payload ''supersedesQuotationID'') = normalized (dget cp ''supersedesQuotationID'')"
  using validate_quotation_parts [OF assms(1)] assms(2) by metis

definition demo_quotation :: "string \<Rightarrow> json list \<Rightarrow> dict" where
  "demo_quotation status events = [(''status'', JStr status), (''events'', JList events),
     (''projectID'', JStr ''p''), (''customerID'', JStr ''c''), (''number'', JStr ''Q1'')]"

definition demo_quotation_event :: "string \<Rightarrow> string \<Rightarrow> json" where
  "demo_quotation_event i k = JObj ([(''id'', JStr i), (''kind'', JStr k)] @ demo_provenance)"

definition demo_sent :: dict where
  "demo_sent = demo_quotation ''sent'' [demo_quotation_event ''e1'' ''sent'']"

definition demo_approved :: dict where
  "demo_approved = demo_quotation ''approved''
     [demo_quotation_event ''e1'' ''sent'', demo_quotation_event ''e2'' ''approved'']"

lemma demo_approved_accepted:
  "validate_quotation_lifecycle empty_db demo_approved (Some demo_sent) demo_principal ''q'' = Inr ()"
  by code_simp

lemma demo_approved_again_accepted:
  "validate_quotation_lifecycle empty_db demo_approved (Some demo_approved) demo_principal ''q'' = Inr ()"
  by code_simp

theorem quotation_content_locked_witness:
  "in_tuple (dget demo_sent ''status'') QUOTATION_CONTENT_LOCKED
   \<and> py_eq (JObj (commercial_content demo_sent)) (JObj (commercial_content demo_approved))
   \<and> quotation_revision demo_approved = quotation_revision demo_sent
   \<and> normalized (dget demo_approved ''supersedesQuotationID'') = normalized (dget demo_sent ''supersedesQuotationID'')"
proof -
  have h: "in_tuple (dget demo_sent ''status'') QUOTATION_CONTENT_LOCKED" by code_simp
  show ?thesis using h quotation_content_locked [OF demo_approved_accepted h] by blast
qed

text \<open>
  Approval is final: when an accepted quotation is approved, every later accepted update of it
  stays approved, appends no event and keeps the commercial content.
\<close>

theorem approved_quotation_final:
  assumes first: "validate_quotation_lifecycle db1 q1 current p1 entity_id = Inr ()"
    and approved: "dget q1 ''status'' = JStr ''approved''"
    and second: "validate_quotation_lifecycle db2 q2 (Some q1) p2 entity_id = Inr ()"
  shows "dget q2 ''status'' = JStr ''approved''
     \<and> py_eq (JObj (commercial_content q1)) (JObj (commercial_content q2))
     \<and> (\<exists>old new. get_or_nil q1 ''events'' = JList (map JObj old)
          \<and> dget q2 ''events'' = JList (map JObj new) \<and> length new = length old)"
proof -
  obtain ev1 where ev1: "lc_events q1 False = Inr ev1"
    and tr1: "''approved'' \<in> statuses_after (map event_kind ev1)"
    using validate_quotation_parts [OF first] approved by auto
  obtain ev2 app st2 where ev2: "lc_events q2 False = Inr ev2"
    and kinds2: "\<forall>ev \<in> set ev2. in_tuple (dget ev ''kind'') QUOTATION_EVENT_KINDS"
    and pre: "require_immutable_prefix (Some q1) ev2 = Inr app"
    and st2: "dget q2 ''status'' = JStr st2" "st2 \<in> statuses_after (map event_kind ev2)"
    and lock: "in_tuple (dget q1 ''status'') QUOTATION_CONTENT_LOCKED \<longrightarrow>
       py_eq (JObj (commercial_content q1)) (JObj (commercial_content q2))"
    using validate_quotation_parts [OF second] by metis
  have trace1: "quotation_trace (map event_kind ev1) ''approved''"
    using tr1 by (rule statuses_after_trace)
  then have "ev1 \<noteq> []"
    using quotation_trace_approved [of "[]" "''approved''"] by auto
  with ev1 have old: "dget q1 ''events'' = JList (map JObj ev1)"
    by (auto simp: lc_events_ok)
  with pre have len: "length ev1 \<le> length ev2"
    and eq: "py_eq_list (map JObj (take (length ev1) ev2)) (map JObj ev1)"
    by (auto simp: require_immutable_prefix_ok)
  have "map event_kind (take (length ev1) ev2) = map event_kind ev1"
    using eq kinds2 by (intro py_eq_events_kinds) (auto dest!: in_set_takeD QUOTATION_EVENT_KINDS_str)
  then have "map event_kind ev2 = map event_kind ev1 @ map event_kind (drop (length ev1) ev2)"
    by (metis append_take_drop_id map_append)
  with st2 have "quotation_trace (map event_kind ev1 @ map event_kind (drop (length ev1) ev2)) st2"
    using statuses_after_trace by metis
  with trace1 have fin: "map event_kind (drop (length ev1) ev2) = []" "st2 = ''approved''"
    using quotation_trace_approved_extend by blast+
  then have "length ev2 = length ev1" using len by simp
  moreover from this \<open>ev1 \<noteq> []\<close> ev2 have "dget q2 ''events'' = JList (map JObj ev2)"
    by (auto simp: lc_events_ok)
  moreover have "py_eq (JObj (commercial_content q1)) (JObj (commercial_content q2))"
    using lock approved by (simp add: QUOTATION_CONTENT_LOCKED_def del: py_eq.simps)
  ultimately show ?thesis using st2 fin old get_or_nil_JList [OF old] by blast
qed

theorem approved_quotation_final_witness:
  "dget demo_approved ''status'' = JStr ''approved''
     \<and> py_eq (JObj (commercial_content demo_approved)) (JObj (commercial_content demo_approved))
     \<and> (\<exists>old new. get_or_nil demo_approved ''events'' = JList (map JObj old)
          \<and> dget demo_approved ''events'' = JList (map JObj new) \<and> length new = length old)"
proof -
  have h: "dget demo_approved ''status'' = JStr ''approved''" by code_simp
  show ?thesis
    by (rule approved_quotation_final [OF demo_approved_accepted h demo_approved_again_accepted])
qed

text \<open>
  The membership tests on the status hash the value first, so a payload whose status is a JSON
  array or object makes both validators raise \<open>TypeError\<close> instead of rejecting the record.
\<close>

theorem unhashable_status_raises_type_error:
  assumes "\<not> hashable (dget payload ''status'')"
  shows "validate_quotation_lifecycle db payload current p entity_id = Inl TypeError
     \<and> (normalized (dget payload ''description'') \<noteq> None \<longrightarrow>
          validate_blocker_lifecycle payload current p entity_id = Inl TypeError)"
  using assms
  by (simp add: validate_quotation_lifecycle_def validate_blocker_lifecycle_def in_strset_def Let_def)

theorem unhashable_status_raises_type_error_witness:
  "validate_quotation_lifecycle empty_db [(''status'', JList [])] None demo_principal ''q'' = Inl TypeError"
proof -
  have h: "\<not> hashable (dget [(''status'', JList [])] ''status'')" by simp
  show ?thesis using unhashable_status_raises_type_error [OF h] by blast
qed

end
