(* ===== verification/Sync_Push.thy ===== *)
theory Sync_Push
  imports Idempotency Ownership Delivery_Execution Lifecycle "HOL-Library.Product_Lexorder"
begin

text \<open>
  The push half of \<open>app/sync_service.py\<close> with what it calls in \<open>app/rejection_codes.py\<close>,
  \<open>app/evidence_gc.py\<close> (\<open>queue_blob_gc\<close>), \<open>app/observability.py\<close> (\<open>correlation_ref\<close>) and
  \<open>app/transient_retry.py\<close>. A push runs in one transaction that holds the row lock of the
  organization, so it is one function from the database before to the database after; the
  statements of a record are applied in program order, and an exception that no handler catches
  rolls everything back.
\<close>

section \<open>Rejection codes\<close>

definition DEFAULT_BY_CLASS :: "(exn \<times> string) list" where
  "DEFAULT_BY_CLASS = [(InvalidMutation, ''invalid_mutation''), (AuthorizationRejected, ''authorization_rejected''),
     (LifecycleRejected, ''lifecycle_rejected''), (DeliveryExecutionRejected, ''delivery_rejected''),
     (DeliveryInstallationRejected, ''delivery_rejected''), (DeliveryProductionRejected, ''delivery_rejected'')]"

text \<open>No raising site of the program sets an explicit \<open>rejection_code\<close>, so the class decides.\<close>

definition rejection_code :: "exn \<Rightarrow> string" where
  "rejection_code e = (case map_of DEFAULT_BY_CLASS e of Some c \<Rightarrow> c | None \<Rightarrow> ''internal_error'')"

section \<open>Environment\<close>

text \<open>
  The libraries, the clock (microseconds) and the configured grace period of the evidence
  collector (seconds).
\<close>

record push_env =
  pe_lib :: lib
  pe_now :: int
  pe_grace :: int

definition queue_blob_gc :: "push_env \<Rightarrow> db \<Rightarrow> evidence_blob \<Rightarrow> string \<Rightarrow> int option \<Rightarrow> db" where
  "queue_blob_gc env db blob reason grace_seconds =
     (let grace = (case grace_seconds of None \<Rightarrow> pe_grace env | Some s \<Rightarrow> s) in
      db\<lparr>evidence_object_gcs := evidence_object_gcs db @
           [\<lparr>gc_id = next_gc_id db, gc_organization_id = eb_organization_id blob,
             gc_document_id = eb_document_id blob, gc_storage_provider = eb_storage_provider blob,
             gc_object_key = eb_object_key blob, gc_reason = reason,
             gc_not_before = pe_now env + timedelta_seconds (max 0 grace), gc_attempts = 0, gc_last_error = None\<rparr>],
         next_gc_id := next_gc_id db + 1\<rparr>)"

section \<open>Helpers\<close>

definition decode_payload :: "lib \<Rightarrow> sync_record \<Rightarrow> dict res" where
  "decode_payload lib record =
     (let raw = sr_payload record;
          value = (case Option.bind (b64decode raw) (json_loads lib) of
              Some v \<Rightarrow> Some v
            | None \<Rightarrow> json_loads lib raw)
      in case value of Some (JObj d) \<Rightarrow> ok d | _ \<Rightarrow> raise InvalidMutation)"

text \<open>\<open>coalesce(max(...), 0)\<close>\<close>

definition max_or_zero :: "int list \<Rightarrow> int" where
  "max_or_zero xs = (case xs of [] \<Rightarrow> 0 | x # rest \<Rightarrow> fold max rest x)"

definition next_revision :: "db \<Rightarrow> string \<Rightarrow> int" where
  "next_revision db org =
     max_or_zero (map se_server_revision (filter (\<lambda>e. se_organization_id e = org) (sync_entities db))) + 1"

definition item_has_immutable_audit_history :: "db \<Rightarrow> string \<Rightarrow> string \<Rightarrow> bool" where
  "item_has_immutable_audit_history db org item_id \<longleftrightarrow>
     list_ex (\<lambda>c. ic_organization_id c = org \<and> ic_entity_type c = ''item_audit_event''
       \<and> ic_item_id c = item_id \<and> ic_deleted_at c = None) (canonical_item_children db)"

definition mutation_row ::
  "principal \<Rightarrow> sync_batch \<Rightarrow> sync_record \<Rightarrow> string \<Rightarrow> string \<Rightarrow> int option \<Rightarrow> sync_mutation" where
  "mutation_row p batch record mutation_id status result_revision =
     \<lparr>sm_organization_id = organization_id p, sm_client_mutation_id = mutation_id,
      sm_submitted_by_user_id = user_id p, sm_membership_id = membership_id p,
      sm_session_id = session_id p, sm_authorization_revision = authorization_revision p,
      sm_device_id = sb_device_id batch, sm_entity_type = sr_entity_type record,
      sm_entity_id = sr_entity_id record, sm_base_server_revision = sr_base_server_revision record,
      sm_result_server_revision = result_revision, sm_result_status = status\<rparr>"

definition record_mutation ::
  "push_env \<Rightarrow> db \<Rightarrow> principal \<Rightarrow> sync_batch \<Rightarrow> sync_record \<Rightarrow> string \<Rightarrow> string \<Rightarrow> int option \<Rightarrow> db" where
  "record_mutation env db p batch record mutation_id status result_revision =
     db\<lparr>sync_mutations := put_row mutation_key
            (mutation_row p batch record mutation_id status result_revision) (sync_mutations db),
        sync_mutation_fingerprints := put_row fingerprint_key
            \<lparr>fp_organization_id = organization_id p, fp_client_mutation_id = mutation_id,
             fp_request_fingerprint = request_fingerprint (pe_lib env) record\<rparr>
            (sync_mutation_fingerprints db)\<rparr>"

record sync_outcome =
  ev_mutation_ref :: "string option"
  ev_device_ref :: "string option"
  ev_entity_ref :: "string option"
  ev_entity_type :: string
  ev_result_status :: string
  ev_reason :: string
  ev_base_server_revision :: "int option"
  ev_result_server_revision :: "int option"

definition correlation_ref :: "lib \<Rightarrow> string option \<Rightarrow> string option" where
  "correlation_ref lib value = (case value of
       None \<Rightarrow> None
     | Some s \<Rightarrow> if s = [] then None else Some (''sha256:'' @ take 16 (sha256_hex lib (utf8 s))))"

definition outcome_event ::
  "push_env \<Rightarrow> sync_batch \<Rightarrow> sync_record \<Rightarrow> string \<Rightarrow> string \<Rightarrow> int option \<Rightarrow> sync_outcome" where
  "outcome_event env batch record status reason result_revision =
     \<lparr>ev_mutation_ref = correlation_ref (pe_lib env) (sr_client_mutation_id record),
      ev_device_ref = correlation_ref (pe_lib env) (Some (sb_device_id batch)),
      ev_entity_ref = correlation_ref (pe_lib env) (Some (sr_entity_id record)),
      ev_entity_type = sr_entity_type record, ev_result_status = status, ev_reason = reason,
      ev_base_server_revision = sr_base_server_revision record,
      ev_result_server_revision = result_revision\<rparr>"

section \<open>One record\<close>

text \<open>The answer to a mutation id that was seen before.\<close>

definition same_request ::
  "push_env \<Rightarrow> sync_mutation \<Rightarrow> sync_mutation_fingerprint option \<Rightarrow> sync_record \<Rightarrow> bool" where
  "same_request env prior prior_fingerprint record =
     (case prior_fingerprint of
        Some fp \<Rightarrow> fp_request_fingerprint fp = request_fingerprint (pe_lib env) record
      | None \<Rightarrow> sm_entity_type prior = sr_entity_type record \<and> sm_entity_id prior = sr_entity_id record
                 \<and> sm_base_server_revision prior = sr_base_server_revision record)"

definition replay_outcome ::
  "push_env \<Rightarrow> sync_batch \<Rightarrow> sync_mutation \<Rightarrow> sync_mutation_fingerprint option \<Rightarrow> sync_record
     \<Rightarrow> bool \<times> sync_outcome" where
  "replay_outcome env batch prior prior_fingerprint record =
     (let same = same_request env prior prior_fingerprint record;
          accepted_replay = (same \<and> sm_result_status prior = ''accepted'');
          reason = (if \<not> same then ''mutation_id_collision''
                    else if accepted_replay then ''idempotent_replay''
                    else ''rejected_mutation_id_reuse'')
      in (accepted_replay,
          outcome_event env batch record (if accepted_replay then ''accepted'' else ''rejected'') reason
            (sm_result_server_revision prior)))"

text \<open>Optimistic concurrency: the base revision must be the current one, absent for a new entity.\<close>

definition stale_revision :: "sync_entity option \<Rightarrow> sync_record \<Rightarrow> bool" where
  "stale_revision current record =
     (case current of
        Some ent \<Rightarrow> sr_base_server_revision record \<noteq> Some (se_server_revision ent)
      | None \<Rightarrow> sr_base_server_revision record \<noteq> None)"

text \<open>The checks of the \<open>try\<close> block that only read.\<close>

definition validate_mutation ::
  "push_env \<Rightarrow> db \<Rightarrow> principal \<Rightarrow> sync_record \<Rightarrow> sync_entity option \<Rightarrow> dict \<Rightarrow> unit res" where
  "validate_mutation env db p record current payload =
     seq (rethrow [ValueError, ValidationError] InvalidMutation
           (validate_assembly_contract_mutation (pe_lib env) (sr_entity_type record) payload))
     (seq (guard (sr_entity_type record = ''item'' \<and> sr_deleted_at record \<noteq> None
             \<and> item_has_immutable_audit_history db (organization_id p) (sr_entity_id record))
           AuthorizationRejected)
     (if sr_entity_type record \<noteq> DELIVERY_ENTITY_TYPE
      then validate_lifecycle_mutation db p (sr_entity_type record) (sr_entity_id record) payload
             (sr_deleted_at record) current
      else ok ()))"

text \<open>Authorization and the ownership rows it writes.\<close>

definition authorize_and_own ::
  "push_env \<Rightarrow> db \<Rightarrow> principal \<Rightarrow> effective_scope \<Rightarrow> sync_record \<Rightarrow> sync_entity option \<Rightarrow> dict
     \<Rightarrow> db \<times> effective_scope \<times> unit res" where
  "authorize_and_own env db p scope record current payload =
     (if sr_entity_type record = DELIVERY_ENTITY_TYPE then
        (case authorize_delivery_execution db p scope (sr_entity_id record) payload (sr_deleted_at record) current of
           Inl e \<Rightarrow> (db, scope, raise e)
         | Inr project_id \<Rightarrow>
             let (db', r) = apply_delivery_execution_ownership db p (sr_entity_id record) project_id
             in (db', scope, r))
      else
        (case authorize_record (pe_lib env) db p scope (sr_entity_type record) (sr_entity_id record) payload
                (sr_deleted_at record) (current \<noteq> None) of
           Inl e \<Rightarrow> (db, scope, raise e)
         | Inr plan \<Rightarrow> apply_ownership_plan db p scope plan))"

definition queue_evidence_gc :: "push_env \<Rightarrow> db \<Rightarrow> principal \<Rightarrow> sync_record \<Rightarrow> db" where
  "queue_evidence_gc env db p record =
     (if sr_entity_type record = ''evidence'' \<and> sr_deleted_at record \<noteq> None then
        (case get_blob db (organization_id p) (sr_entity_id record) of
           None \<Rightarrow> db
         | Some blob \<Rightarrow> queue_blob_gc env db blob ''metadata_tombstone'' None)
      else db)"

text \<open>The whole \<open>try\<close> block: the payload, or the exception with the database it leaves.\<close>

definition try_mutation ::
  "push_env \<Rightarrow> db \<Rightarrow> principal \<Rightarrow> effective_scope \<Rightarrow> sync_record \<Rightarrow> sync_entity option
     \<Rightarrow> db \<times> effective_scope \<times> dict res" where
  "try_mutation env db p scope record current =
     (case ebind (decode_payload (pe_lib env) record) (\<lambda>payload.
             seq (validate_mutation env db p record current payload) (ok payload)) of
        Inl e \<Rightarrow> (db, scope, raise e)
      | Inr payload \<Rightarrow>
          (case authorize_and_own env db p scope record current payload of
             (db', scope', Inl e) \<Rightarrow> (db', scope', raise e)
           | (db', scope', Inr _) \<Rightarrow> (queue_evidence_gc env db' p record, scope', ok payload)))"

definition REJECTIONS :: "exn list" where
  "REJECTIONS = [InvalidMutation, AuthorizationRejected, LifecycleRejected, DeliveryExecutionRejected]"

text \<open>The canonical row, the accepted mutation and the change-log entry of a committed record.\<close>

definition new_entity :: "principal \<Rightarrow> sync_record \<Rightarrow> dict \<Rightarrow> int \<Rightarrow> sync_entity" where
  "new_entity p record payload revision =
     \<lparr>se_organization_id = organization_id p, se_entity_type = sr_entity_type record,
      se_entity_id = sr_entity_id record, se_server_revision = revision,
      se_payload_json = (if sr_deleted_at record = None then JObj payload else JNull),
      se_updated_at = sr_updated_at record, se_deleted_at = sr_deleted_at record\<rparr>"

definition updated_entity :: "sync_entity \<Rightarrow> sync_record \<Rightarrow> dict \<Rightarrow> int \<Rightarrow> sync_entity" where
  "updated_entity current record payload revision =
     current\<lparr>se_server_revision := revision,
       se_payload_json := (if sr_deleted_at record = None then JObj payload else JNull),
       se_updated_at := sr_updated_at record, se_deleted_at := sr_deleted_at record\<rparr>"

definition append_change :: "db \<Rightarrow> principal \<Rightarrow> sync_record \<Rightarrow> string \<Rightarrow> int \<Rightarrow> db" where
  "append_change db p record mutation_id revision =
     db\<lparr>sync_change_logs := sync_change_logs db @
           [\<lparr>cl_sequence = next_change_sequence db, cl_organization_id = organization_id p,
             cl_entity_type = sr_entity_type record, cl_entity_id = sr_entity_id record,
             cl_server_revision = revision, cl_client_mutation_id = mutation_id,
             cl_operation = (if sr_deleted_at record \<noteq> None then ''delete'' else ''upsert'')\<rparr>],
        next_change_sequence := next_change_sequence db + 1\<rparr>"

definition commit_record ::
  "push_env \<Rightarrow> db \<Rightarrow> principal \<Rightarrow> sync_batch \<Rightarrow> sync_record \<Rightarrow> string \<Rightarrow> sync_entity option \<Rightarrow> dict
     \<Rightarrow> db \<times> int" where
  "commit_record env db p batch record mutation_id current payload =
     (let revision = next_revision db (organization_id p);
          row = (case current of
              None \<Rightarrow> new_entity p record payload revision
            | Some ent \<Rightarrow> updated_entity ent record payload revision);
          db1 = db\<lparr>sync_entities := put_row entity_key row (sync_entities db)\<rparr>;
          db2 = record_mutation env db1 p batch record mutation_id ''accepted'' (Some revision)
      in (append_change db2 p record mutation_id revision, revision))"

text \<open>The body of the loop: the outcome and the event of one record, or an uncaught exception.\<close>

definition push_fresh ::
  "push_env \<Rightarrow> db \<Rightarrow> principal \<Rightarrow> effective_scope \<Rightarrow> sync_batch \<Rightarrow> sync_record \<Rightarrow> string
     \<Rightarrow> db \<times> effective_scope \<times> (bool \<times> sync_outcome) res" where
  "push_fresh env db p scope batch record mutation_id =
     (let current = get_entity db (organization_id p) (sr_entity_type record) (sr_entity_id record);
          current_revision = map_option se_server_revision current in
      if stale_revision current record then
        (record_mutation env db p batch record mutation_id ''rejected'' current_revision, scope,
         ok (False, outcome_event env batch record ''rejected'' ''stale_revision'' current_revision))
      else case try_mutation env db p scope record current of
          (db', scope', Inl e) \<Rightarrow>
            if e \<in> set REJECTIONS then
              (record_mutation env db' p batch record mutation_id ''rejected'' current_revision, scope',
               ok (False, outcome_event env batch record ''rejected'' (rejection_code e) current_revision))
            else (db', scope', raise e)
        | (db', scope', Inr payload) \<Rightarrow>
            let (db2, revision) = commit_record env db' p batch record mutation_id current payload
            in (db2, scope', ok (True, outcome_event env batch record ''accepted'' ''committed'' (Some revision))))"

definition push_record ::
  "push_env \<Rightarrow> db \<Rightarrow> principal \<Rightarrow> effective_scope \<Rightarrow> sync_batch \<Rightarrow> sync_record
     \<Rightarrow> db \<times> effective_scope \<times> (bool \<times> sync_outcome) res" where
  "push_record env db p scope batch record =
     (case sr_client_mutation_id record of
        None \<Rightarrow> (db, scope, ok (False, outcome_event env batch record ''rejected'' ''missing_client_mutation_id'' None))
      | Some mutation_id \<Rightarrow>
          if mutation_id = [] then
            (db, scope, ok (False, outcome_event env batch record ''rejected'' ''missing_client_mutation_id'' None))
          else case get_mutation db (organization_id p) mutation_id of
              Some prior \<Rightarrow>
                (db, scope, ok (replay_outcome env batch prior
                   (get_fingerprint db (organization_id p) mutation_id) record))
            | None \<Rightarrow> push_fresh env db p scope batch record mutation_id)"

section \<open>The batch\<close>

type_synonym outcomes = "(nat \<times> bool) list"

fun push_loop ::
  "push_env \<Rightarrow> db \<Rightarrow> principal \<Rightarrow> effective_scope \<Rightarrow> sync_batch \<Rightarrow> (nat \<times> sync_record) list
     \<Rightarrow> outcomes \<Rightarrow> sync_outcome list \<Rightarrow> db \<times> (outcomes \<times> sync_outcome list) res" where
  "push_loop env db p scope batch [] outcomes events = (db, ok (outcomes, events))"
| "push_loop env db p scope batch ((original_index, record) # rest) outcomes events =
     (case push_record env db p scope batch record of
        (db', scope', Inl e) \<Rightarrow> (db', raise e)
      | (db', scope', Inr (accepted, event)) \<Rightarrow>
          push_loop env db' p scope' batch rest ((original_index, accepted) # outcomes) (events @ [event]))"

definition indexed_records :: "sync_batch \<Rightarrow> (nat \<times> sync_record) list" where
  "indexed_records batch =
     sort_key (\<lambda>(i, r). mutation_sort_key (sr_entity_type r) i) (List.enumerate 0 (sb_records batch))"

text \<open>A rollback restores every row; the sequences it drew from stay advanced.\<close>

definition rollback :: "db \<Rightarrow> db \<Rightarrow> db" where
  "rollback db db' = db\<lparr>next_change_sequence := next_change_sequence db', next_gc_id := next_gc_id db'\<rparr>"

definition last_sequence :: "db \<Rightarrow> string \<Rightarrow> int" where
  "last_sequence db org =
     max_or_zero (map cl_sequence (filter (\<lambda>c. cl_organization_id c = org) (sync_change_logs db)))"

definition cursor_text :: "int \<Rightarrow> string" where
  "cursor_text n = ''seq:'' @ show_int n"

definition push_result :: "db \<Rightarrow> principal \<Rightarrow> sync_batch \<Rightarrow> outcomes \<Rightarrow> sync_result" where
  "push_result db p batch outcomes =
     \<lparr>accepted_record_ids = map (\<lambda>(i, r). sr_id r)
        (filter (\<lambda>(i, r). map_of outcomes i = Some True) (List.enumerate 0 (sb_records batch))),
      rejected_record_ids = map (\<lambda>(i, r). sr_id r)
        (filter (\<lambda>(i, r). map_of outcomes i \<noteq> Some True) (List.enumerate 0 (sb_records batch))),
      next_cursor = Some (cursor_text (last_sequence db (organization_id p)))\<rparr>"

definition apply_push_once ::
  "push_env \<Rightarrow> db \<Rightarrow> principal \<Rightarrow> sync_batch \<Rightarrow> db \<times> (sync_result \<times> sync_outcome list) res" where
  "apply_push_once env db p batch =
     (if ''sync'' \<notin> capabilities p then (db, raise PermissionError)
      else if get_organization db (organization_id p) = None then (db, raise PermissionError)
      else case push_loop env db p (from_principal p) batch (indexed_records batch) [] [] of
          (db', Inl e) \<Rightarrow> (rollback db db', raise e)
        | (db', Inr (outcomes, events)) \<Rightarrow> (db', ok (push_result db' p batch outcomes, events)))"

section \<open>Replaying aborted transactions\<close>

definition TRANSIENT_SQLSTATES :: "string list" where
  "TRANSIENT_SQLSTATES = [''40001'', ''40P01'', ''55P03'']"

definition STATEMENT_TIMEOUT :: string where
  "STATEMENT_TIMEOUT = ''57014''"

definition DEFAULT_ATTEMPTS :: nat where
  "DEFAULT_ATTEMPTS = 3"

text \<open>The code of a database error, from the driver's \<open>sqlstate\<close> or \<open>pgcode\<close>; an empty code counts as none.\<close>

definition sqlstate_of :: "exn \<Rightarrow> string option" where
  "sqlstate_of e = (case e of DBAPIError (Some code) \<Rightarrow> (if code = [] then None else Some code) | _ \<Rightarrow> None)"

definition is_transient :: "bool \<Rightarrow> exn \<Rightarrow> bool" where
  "is_transient include_timeout e = (case sqlstate_of e of
       None \<Rightarrow> False
     | Some state \<Rightarrow> if state = STATEMENT_TIMEOUT then include_timeout else state \<in> set TRANSIENT_SQLSTATES)"

text \<open>
  The loop from attempt \<open>attempt\<close> on, with the retries it reported to \<open>on_retry\<close>. The
  operation is given the number of the attempt, which is how the environment's aborts reach it,
  and returns the database as its transaction leaves it.
\<close>

function retry_loop ::
  "(nat \<Rightarrow> 's \<Rightarrow> 's \<times> 'a res) \<Rightarrow> bool \<Rightarrow> nat \<Rightarrow> nat \<Rightarrow> 's \<Rightarrow> (exn \<times> nat) list
     \<Rightarrow> 's \<times> (exn \<times> nat) list \<times> 'a res" where
  "retry_loop operation include_timeout attempts attempt s retried =
     (if attempts < attempt then (s, retried, raise AssertionError)
      else case operation attempt s of
          (s', Inr x) \<Rightarrow> (s', retried, ok x)
        | (s', Inl e) \<Rightarrow>
            if \<not> is_transient include_timeout e then (s', retried, raise e)
            else if attempt = attempts then (s', retried, raise e)
            else retry_loop operation include_timeout attempts (attempt + 1) s' (retried @ [(e, attempt)]))"
  by pat_completeness auto
termination
  by (relation "measure (\<lambda>(_, _, attempts, attempt, _, _). Suc attempts - attempt)") auto

declare retry_loop.simps [simp del]

definition run_with_transient_retry ::
  "(nat \<Rightarrow> 's \<Rightarrow> 's \<times> 'a res) \<Rightarrow> bool \<Rightarrow> nat \<Rightarrow> 's \<Rightarrow> 's \<times> (exn \<times> nat) list \<times> 'a res" where
  "run_with_transient_retry operation include_timeout attempts s =
     (if attempts < 1 then (s, [], raise ValueError)
      else retry_loop operation include_timeout attempts 1 s [])"

text \<open>
  A database failure of one attempt: before the commit is durable (every statement of the loop, and the
  commit itself when the server aborts it), or after it (the acknowledgement of the commit is lost, or
  the query for the last sequence that follows it fails). \<open>failure n\<close> is what happens to attempt \<open>n\<close>.
\<close>

datatype db_failure = BeforeCommit exn | AfterCommit exn

text \<open>
  One attempt. A failure before the commit rolls every row back; a failure after it raises although
  the rows are stored. An attempt whose own code raises never reaches the commit.
\<close>

definition push_attempt ::
  "(nat \<Rightarrow> db_failure option) \<Rightarrow> push_env \<Rightarrow> principal \<Rightarrow> sync_batch \<Rightarrow> nat \<Rightarrow> db
     \<Rightarrow> db \<times> (sync_result \<times> sync_outcome list) res" where
  "push_attempt failure env p batch attempt db =
     (case apply_push_once env db p batch of
        (db', Inl e) \<Rightarrow>
          (case failure attempt of Some (BeforeCommit e') \<Rightarrow> (rollback db db', raise e') | _ \<Rightarrow> (db', raise e))
      | (db', Inr x) \<Rightarrow>
          (case failure attempt of
             None \<Rightarrow> (db', ok x)
           | Some (BeforeCommit e) \<Rightarrow> (rollback db db', raise e)
           | Some (AfterCommit e) \<Rightarrow> (db', raise e)))"

definition apply_push ::
  "(nat \<Rightarrow> db_failure option) \<Rightarrow> push_env \<Rightarrow> db \<Rightarrow> principal \<Rightarrow> sync_batch
     \<Rightarrow> db \<times> (exn \<times> nat) list \<times> (sync_result \<times> sync_outcome list) res" where
  "apply_push failure env db p batch =
     run_with_transient_retry (push_attempt failure env p batch) False DEFAULT_ATTEMPTS db"

end
