(* ===== verification/Ownership_Correct.thy ===== *)
theory Ownership_Correct
  imports Ownership Delivery_Execution
begin

text \<open>
  Properties of the ownership policy: what an authorized plan implies, that applying plans keeps
  the ownership hierarchy and never moves a record to another parent, and where the policy lets
  something through.
\<close>

section \<open>The hierarchy\<close>

definition live_customer :: "db \<Rightarrow> string \<Rightarrow> string \<Rightarrow> bool" where
  "live_customer db org k \<longleftrightarrow> (\<exists>r. get_customer db org k = Some r \<and> cc_deleted_at r = None)"

definition live_project :: "db \<Rightarrow> string \<Rightarrow> string \<Rightarrow> bool" where
  "live_project db org k \<longleftrightarrow> (\<exists>r. get_project db org k = Some r \<and> cp_deleted_at r = None)"

definition live_sector :: "db \<Rightarrow> string \<Rightarrow> string \<Rightarrow> string \<Rightarrow> bool" where
  "live_sector db org k project \<longleftrightarrow>
     (\<exists>r. get_sector db org k = Some r \<and> cs_deleted_at r = None \<and> cs_project_id r = project)"

definition live_item :: "db \<Rightarrow> string \<Rightarrow> string \<Rightarrow> bool" where
  "live_item db org k \<longleftrightarrow> (\<exists>r. get_item db org k = Some r \<and> ci_deleted_at r = None)"

text \<open>
  Every live record hangs off a live parent: sectors, quotations and deliveries off a live project,
  items off a live sector of the same live project, sidecars off a live item. The audit history of
  an item is kept apart, by the deletion rule of the push.
\<close>

definition sectors_rooted :: "db \<Rightarrow> bool" where
  "sectors_rooted db \<longleftrightarrow> (\<forall>org k r. get_sector db org k = Some r \<longrightarrow> cs_deleted_at r = None
     \<longrightarrow> live_project db org (cs_project_id r))"

definition items_rooted :: "db \<Rightarrow> bool" where
  "items_rooted db \<longleftrightarrow> (\<forall>org k r. get_item db org k = Some r \<longrightarrow> ci_deleted_at r = None
     \<longrightarrow> live_project db org (ci_project_id r)
       \<and> (\<exists>sec. ci_project_sector_id r = Some sec \<and> live_sector db org sec (ci_project_id r)))"

definition project_children_rooted :: "db \<Rightarrow> bool" where
  "project_children_rooted db \<longleftrightarrow> (\<forall>org t k r. get_project_child db org t k = Some r
     \<longrightarrow> pc_deleted_at r = None \<longrightarrow> live_project db org (pc_project_id r))"

definition item_children_rooted :: "db \<Rightarrow> bool" where
  "item_children_rooted db \<longleftrightarrow> (\<forall>org t k r. get_item_child db org t k = Some r
     \<longrightarrow> ic_deleted_at r = None \<longrightarrow> t \<noteq> ''item_audit_event'' \<longrightarrow> live_item db org (ic_item_id r))"

definition hierarchy_ok :: "db \<Rightarrow> bool" where
  "hierarchy_ok db \<longleftrightarrow> sectors_rooted db \<and> items_rooted db \<and> project_children_rooted db
     \<and> item_children_rooted db"

lemmas rooted_defs = sectors_rooted_def items_rooted_def project_children_rooted_def
  item_children_rooted_def live_project_def live_sector_def live_item_def

section \<open>Stores\<close>

text \<open>Lookups after a store of one row.\<close>

lemma get_customer_put [tbl_simps]:
  "get_customer (db\<lparr>canonical_customers := put_row customer_key r (canonical_customers db)\<rparr>) org k
     = (if (org, k) = customer_key r then Some r else get_customer db org k)"
  by (simp add: get_customer_def tbl_simps)

lemma get_project_put [tbl_simps]:
  "get_project (db\<lparr>canonical_projects := put_row project_key r (canonical_projects db)\<rparr>) org k
     = (if (org, k) = project_key r then Some r else get_project db org k)"
  by (simp add: get_project_def tbl_simps)

lemma get_sector_put [tbl_simps]:
  "get_sector (db\<lparr>canonical_project_sectors := put_row sector_key r (canonical_project_sectors db)\<rparr>) org k
     = (if (org, k) = sector_key r then Some r else get_sector db org k)"
  by (simp add: get_sector_def tbl_simps)

lemma get_item_put [tbl_simps]:
  "get_item (db\<lparr>canonical_items := put_row item_key r (canonical_items db)\<rparr>) org k
     = (if (org, k) = item_key r then Some r else get_item db org k)"
  by (simp add: get_item_def tbl_simps)

lemma get_project_child_put [tbl_simps]:
  "get_project_child (db\<lparr>canonical_project_children :=
       put_row project_child_key r (canonical_project_children db)\<rparr>) org t k
     = (if (org, t, k) = project_child_key r then Some r else get_project_child db org t k)"
  by (simp add: get_project_child_def tbl_simps)

lemma get_item_child_put [tbl_simps]:
  "get_item_child (db\<lparr>canonical_item_children :=
       put_row item_child_key r (canonical_item_children db)\<rparr>) org t k
     = (if (org, t, k) = item_child_key r then Some r else get_item_child db org t k)"
  by (simp add: get_item_child_def tbl_simps)

text \<open>Lookups that a store into another table does not touch.\<close>

lemma get_frame [tbl_simps]:
  "get_project (db\<lparr>canonical_customers := x1\<rparr>) = get_project db"
  "get_sector (db\<lparr>canonical_customers := x1\<rparr>) = get_sector db"
  "get_item (db\<lparr>canonical_customers := x1\<rparr>) = get_item db"
  "get_project_child (db\<lparr>canonical_customers := x1\<rparr>) = get_project_child db"
  "get_item_child (db\<lparr>canonical_customers := x1\<rparr>) = get_item_child db"
  "get_customer (db\<lparr>canonical_projects := x2\<rparr>) = get_customer db"
  "get_sector (db\<lparr>canonical_projects := x2\<rparr>) = get_sector db"
  "get_item (db\<lparr>canonical_projects := x2\<rparr>) = get_item db"
  "get_project_child (db\<lparr>canonical_projects := x2\<rparr>) = get_project_child db"
  "get_item_child (db\<lparr>canonical_projects := x2\<rparr>) = get_item_child db"
  "get_customer (db\<lparr>canonical_project_sectors := x3\<rparr>) = get_customer db"
  "get_project (db\<lparr>canonical_project_sectors := x3\<rparr>) = get_project db"
  "get_item (db\<lparr>canonical_project_sectors := x3\<rparr>) = get_item db"
  "get_project_child (db\<lparr>canonical_project_sectors := x3\<rparr>) = get_project_child db"
  "get_item_child (db\<lparr>canonical_project_sectors := x3\<rparr>) = get_item_child db"
  "get_customer (db\<lparr>canonical_items := x4\<rparr>) = get_customer db"
  "get_project (db\<lparr>canonical_items := x4\<rparr>) = get_project db"
  "get_sector (db\<lparr>canonical_items := x4\<rparr>) = get_sector db"
  "get_project_child (db\<lparr>canonical_items := x4\<rparr>) = get_project_child db"
  "get_item_child (db\<lparr>canonical_items := x4\<rparr>) = get_item_child db"
  "get_customer (db\<lparr>canonical_project_children := x5\<rparr>) = get_customer db"
  "get_project (db\<lparr>canonical_project_children := x5\<rparr>) = get_project db"
  "get_sector (db\<lparr>canonical_project_children := x5\<rparr>) = get_sector db"
  "get_item (db\<lparr>canonical_project_children := x5\<rparr>) = get_item db"
  "get_item_child (db\<lparr>canonical_project_children := x5\<rparr>) = get_item_child db"
  "get_customer (db\<lparr>canonical_item_children := x6\<rparr>) = get_customer db"
  "get_project (db\<lparr>canonical_item_children := x6\<rparr>) = get_project db"
  "get_sector (db\<lparr>canonical_item_children := x6\<rparr>) = get_sector db"
  "get_item (db\<lparr>canonical_item_children := x6\<rparr>) = get_item db"
  "get_project_child (db\<lparr>canonical_item_children := x6\<rparr>) = get_project_child db"
  by (simp_all add: get_defs fun_eq_iff)

lemma get_frame_grant [tbl_simps]:
  "get_customer (db\<lparr>memberships := x, organizations := y\<rparr>) = get_customer db"
  "get_project (db\<lparr>memberships := x, organizations := y\<rparr>) = get_project db"
  "get_sector (db\<lparr>memberships := x, organizations := y\<rparr>) = get_sector db"
  "get_item (db\<lparr>memberships := x, organizations := y\<rparr>) = get_item db"
  "get_project_child (db\<lparr>memberships := x, organizations := y\<rparr>) = get_project_child db"
  "get_item_child (db\<lparr>memberships := x, organizations := y\<rparr>) = get_item_child db"
  by (simp_all add: get_defs fun_eq_iff)

lemma grant_frame:
  assumes "grant_created_scope db p c pr = (db', r)"
  shows "get_customer db' = get_customer db" "get_project db' = get_project db"
    "get_sector db' = get_sector db" "get_item db' = get_item db"
    "get_project_child db' = get_project_child db" "get_item_child db' = get_item_child db"
  using assms unfolding grant_created_scope_def Let_def
  by (auto split: option.splits if_splits simp: tbl_simps)

section \<open>What an authorized plan implies\<close>

lemma require_creatable_ok [res_simps]: "require_creatable g d = Inr u \<longleftrightarrow> \<not> g \<and> d = None"
  by (auto simp: require_creatable_def res_simps)

lemma require_capability_ok [res_simps]: "require_capability p c = Inr u \<longleftrightarrow> c \<in> capabilities p"
  by (simp add: require_capability_def res_simps)

lemma required_value_ok [res_simps]: "required_value d k = Inr v \<longleftrightarrow> normalized (dget d k) = Some v"
  by (auto simp: required_value_def split: option.splits)

lemma project_for_scope_ok [res_simps]:
  "project_for_scope db p scope k = Inr pr \<longleftrightarrow> get_project db (organization_id p) k = Some pr
     \<and> cp_project_id pr = k \<and> cp_deleted_at pr = None \<and> can_access_project scope k (cp_customer_id pr)"
  by (auto simp: project_for_scope_def res_simps dest: get_project_key)

lemma active_sector_of_ok [res_simps]:
  "active_sector_of db p k project = Inr s \<longleftrightarrow> get_sector db (organization_id p) k = Some s
     \<and> cs_project_sector_id s = k \<and> cs_deleted_at s = None \<and> cs_project_id s = project"
  by (auto simp: active_sector_of_def res_simps dest: get_sector_key)

lemma nonempty_str_Some [simp]: "nonempty_str x = Some s \<longleftrightarrow> x = Some s \<and> s \<noteq> []"
  by (auto simp: nonempty_str_def)

lemma item_for_scope_ok [res_simps]:
  "item_for_scope db p scope k = Inr (i, pr) \<longleftrightarrow> get_item db (organization_id p) k = Some i
     \<and> ci_deleted_at i = None
     \<and> get_project db (organization_id p) (ci_project_id i) = Some pr \<and> cp_project_id pr = ci_project_id i
     \<and> cp_deleted_at pr = None
     \<and> can_access_project scope (ci_project_id i) (cp_customer_id pr)
     \<and> (\<exists>sec s. ci_project_sector_id i = Some sec \<and> sec \<noteq> []
          \<and> get_sector db (organization_id p) sec = Some s \<and> cs_deleted_at s = None
          \<and> cs_project_id s = ci_project_id i)"
  by (auto simp: item_for_scope_def res_simps dest: get_sector_key)


lemma project_delete_safe:
  assumes "ensure_project_delete_safe db p k = Inr ()"
  shows "get_sector db (organization_id p) i = Some s \<Longrightarrow> cs_deleted_at s = None \<Longrightarrow> cs_project_id s \<noteq> k"
    and "get_item db (organization_id p) i = Some t \<Longrightarrow> ci_deleted_at t = None \<Longrightarrow> ci_project_id t \<noteq> k"
    and "get_project_child db (organization_id p) ty i = Some c \<Longrightarrow> pc_deleted_at c = None \<Longrightarrow> pc_project_id c \<noteq> k"
  using assms
  by (auto simp: ensure_project_delete_safe_def res_simps list_ex_iff
      dest!: get_sector_key get_item_key get_project_child_key)

lemma sector_delete_safe:
  assumes "ensure_project_sector_delete_safe db p k = Inr ()"
  shows "get_item db (organization_id p) i = Some t \<Longrightarrow> ci_deleted_at t = None \<Longrightarrow> ci_project_sector_id t \<noteq> Some k"
  using assms
  by (auto simp: ensure_project_sector_delete_safe_def res_simps list_ex_iff dest!: get_item_key)

lemma item_delete_safe:
  assumes "ensure_item_delete_safe db p k = Inr ()"
  shows "get_item_child db (organization_id p) ty i = Some c \<Longrightarrow> ic_deleted_at c = None
    \<Longrightarrow> ty \<noteq> ''item_audit_event'' \<Longrightarrow> ic_item_id c \<noteq> k"
  using assms
  by (auto simp: ensure_item_delete_safe_def res_simps list_ex_iff dest!: get_item_child_key)

lemma customer_delete_safe:
  assumes "ensure_customer_delete_safe db p k = Inr ()"
  shows "get_project db (organization_id p) i = Some r \<Longrightarrow> cp_deleted_at r = None \<Longrightarrow> cp_customer_id r \<noteq> k"
  using assms
  by (auto simp: ensure_customer_delete_safe_def res_simps list_ex_iff dest!: get_project_key)

text \<open>The plan of each branch, with the facts about the records it rests on.\<close>

lemma authorize_project_ok:
  assumes "authorize_project db p scope k payload del g = Inr plan"
  shows "op_entity_type plan = ''project'' \<and> op_entity_id plan = k \<and> op_deleted_at plan = del
    \<and> op_project_id plan = Some k
    \<and> (case get_project db (organization_id p) k of
         None \<Rightarrow> del = None \<and> ''project.create'' \<in> capabilities p
           \<and> (\<exists>c. op_customer_id plan = Some c \<and> live_customer db (organization_id p) c
                \<and> can_access_customer scope c)
       | Some r \<Rightarrow> op_customer_id plan = Some (cp_customer_id r) \<and> ''project.edit'' \<in> capabilities p
           \<and> can_access_project scope k (cp_customer_id r)
           \<and> (del \<noteq> None \<longrightarrow> ensure_project_delete_safe db p k = Inr ()))"
  using assms unfolding authorize_project_def authorize_project_create_def live_customer_def
  by (auto simp: res_simps base_plan_def split: option.splits dest: get_project_key)

lemma authorize_sector_ok:
  assumes "authorize_sector db p scope k payload del g = Inr plan"
  shows "op_entity_type plan = ''project_sector'' \<and> op_entity_id plan = k \<and> op_deleted_at plan = del
    \<and> ''project.edit'' \<in> capabilities p
    \<and> (\<exists>project pr. op_project_id plan = Some project \<and> get_project db (organization_id p) project = Some pr
        \<and> cp_deleted_at pr = None \<and> can_access_project scope project (cp_customer_id pr)
        \<and> (case get_sector db (organization_id p) k of
             None \<Rightarrow> del = None
           | Some r \<Rightarrow> project = cs_project_id r \<and> op_sector_id plan = Some (cs_sector_id r)
               \<and> (del \<noteq> None \<longrightarrow> ensure_project_sector_delete_safe db p k = Inr ())))"
  using assms unfolding authorize_sector_def
  by (auto simp: res_simps base_plan_def split: option.splits dest: get_project_key get_sector_key)

lemma authorize_item_ok:
  assumes "authorize_item db p scope k payload del g = Inr plan"
  shows "op_entity_type plan = ''item'' \<and> op_entity_id plan = k \<and> op_deleted_at plan = del
    \<and> (\<exists>project sec pr. op_project_id plan = Some project \<and> op_project_sector_id plan = Some sec
        \<and> get_project db (organization_id p) project = Some pr \<and> cp_deleted_at pr = None
        \<and> can_access_project scope project (cp_customer_id pr)
        \<and> live_sector db (organization_id p) sec project
        \<and> (case get_item db (organization_id p) k of
             None \<Rightarrow> del = None \<and> ''item.create'' \<in> capabilities p
           | Some r \<Rightarrow> ''item.edit'' \<in> capabilities p \<and> project = ci_project_id r
               \<and> ci_project_sector_id r = Some sec
               \<and> (del \<noteq> None \<longrightarrow> ensure_item_delete_safe db p k = Inr ())))"
  using assms unfolding authorize_item_def live_sector_def
  by (auto simp: res_simps base_plan_def split: option.splits dest: get_project_key get_sector_key get_item_key)

lemma authorize_item_child_ok:
  assumes "authorize_item_child lib db p scope t k payload del g = Inr plan"
  shows "op_entity_type plan = t \<and> op_entity_id plan = k \<and> op_deleted_at plan = del
    \<and> (\<exists>i item pr. op_item_id plan = Some i \<and> item_for_scope db p scope i = Inr (item, pr)
        \<and> child_item db p t k payload (get_item_child db (organization_id p) t k) = Inr i
        \<and> authorize_child_content lib db p item i t k payload (del \<noteq> None) = Inr ()
        \<and> (\<forall>c. get_item_child db (organization_id p) t k = Some c \<longrightarrow> i = ic_item_id c)
        \<and> require_child_writable t (get_item_child db (organization_id p) t k) g (del \<noteq> None) = Inr ())"
proof -
  let ?can = "get_item_child db (organization_id p) t k"
  from assms obtain i item pr where
    w: "require_child_writable t ?can g (del \<noteq> None) = Inr ()"
    and i: "child_item db p t k payload ?can = Inr i"
    and it: "item_for_scope db p scope i = Inr (item, pr)"
    and ct: "authorize_child_content lib db p item i t k payload (del \<noteq> None) = Inr ()"
    and pl: "plan = (base_plan t k (?can = None) del)\<lparr>op_customer_id := Some (cp_customer_id pr),
       op_project_id := Some (cp_project_id pr), op_project_sector_id := ci_project_sector_id item,
       op_item_id := Some i\<rparr>"
    unfolding authorize_item_child_def Let_def
    by (auto simp: seq_ok ebind_ok)
  moreover have "i = ic_item_id c" if "?can = Some c" for c
    using i that by (simp only: child_item_def option.case Let_def if_raise_ok) simp
  ultimately show ?thesis by (simp add: base_plan_def)
qed

lemma authorize_quotation_ok:
  assumes "authorize_quotation lib db p scope k payload del g = Inr plan"
  shows "op_entity_type plan = ''quotation'' \<and> op_entity_id plan = k \<and> op_deleted_at plan = del
    \<and> (\<exists>project pr. op_project_id plan = Some project \<and> project_for_scope db p scope project = Inr pr
        \<and> (if del = None then authorize_quotation_content lib db p scope pr project payload = Inr ()
           else ''quotation.create'' \<in> capabilities p)
        \<and> (\<forall>c. get_project_child db (organization_id p) ''quotation'' k = Some c \<longrightarrow> project = pc_project_id c)
        \<and> (get_project_child db (organization_id p) ''quotation'' k = None \<longrightarrow> del = None))"
  using assms unfolding authorize_quotation_def Let_def
  by (auto simp: res_simps base_plan_def split: option.splits if_splits dest: get_project_key)


section \<open>Preservation of the hierarchy\<close>

lemma hierarchy_frame:
  assumes "hierarchy_ok db" and "get_project db' = get_project db" and "get_sector db' = get_sector db"
    and "get_item db' = get_item db" and "get_project_child db' = get_project_child db"
    and "get_item_child db' = get_item_child db"
  shows "hierarchy_ok db'"
  using assms unfolding hierarchy_ok_def rooted_defs by simp

lemma customer_plan_hierarchy:
  assumes "hierarchy_ok db" and "apply_customer_plan db p scope plan = (db', scope', r)"
  shows "hierarchy_ok db'"
proof (rule hierarchy_frame [OF assms(1)])
  obtain rows where rows: "get_project db' = get_project (db\<lparr>canonical_customers := rows\<rparr>)"
    "get_sector db' = get_sector (db\<lparr>canonical_customers := rows\<rparr>)"
    "get_item db' = get_item (db\<lparr>canonical_customers := rows\<rparr>)"
    "get_project_child db' = get_project_child (db\<lparr>canonical_customers := rows\<rparr>)"
    "get_item_child db' = get_item_child (db\<lparr>canonical_customers := rows\<rparr>)"
    using assms(2) unfolding apply_customer_plan_def Let_def
    by (auto split: option.splits prod.splits dest: grant_frame)
  then show "get_project db' = get_project db" "get_sector db' = get_sector db" "get_item db' = get_item db"
    "get_project_child db' = get_project_child db" "get_item_child db' = get_item_child db"
    by (simp_all add: tbl_simps)
qed

text \<open>
  Storing a project row: a live one can only add support; a deleted one is safe when no live row of
  the organization refers to it.
\<close>

lemma project_store_hierarchy:
  assumes "hierarchy_ok db"
    and "cp_deleted_at row \<noteq> None \<longrightarrow> (\<forall>k s. get_sector db (cp_organization_id row) k = Some s
           \<longrightarrow> cs_deleted_at s = None \<longrightarrow> cs_project_id s \<noteq> cp_project_id row)
         \<and> (\<forall>k t. get_item db (cp_organization_id row) k = Some t
           \<longrightarrow> ci_deleted_at t = None \<longrightarrow> ci_project_id t \<noteq> cp_project_id row)
         \<and> (\<forall>ty k c. get_project_child db (cp_organization_id row) ty k = Some c
           \<longrightarrow> pc_deleted_at c = None \<longrightarrow> pc_project_id c \<noteq> cp_project_id row)"
  shows "hierarchy_ok (db\<lparr>canonical_projects := put_row project_key row (canonical_projects db)\<rparr>)"
proof -
  let ?db = "db\<lparr>canonical_projects := put_row project_key row (canonical_projects db)\<rparr>"
  have live: "live_project ?db org k"
    if "live_project db org k"
      and "cp_deleted_at row \<noteq> None \<Longrightarrow> org = cp_organization_id row \<Longrightarrow> k \<noteq> cp_project_id row" for org k
    using that by (cases "cp_deleted_at row") (auto simp: live_project_def tbl_simps project_key_def)
  have "sectors_rooted ?db"
    using assms unfolding hierarchy_ok_def sectors_rooted_def by (auto simp: tbl_simps intro!: live)
  moreover have "items_rooted ?db"
    using assms unfolding hierarchy_ok_def items_rooted_def live_sector_def
    by (auto simp: tbl_simps intro!: live)
  moreover have "project_children_rooted ?db"
    using assms unfolding hierarchy_ok_def project_children_rooted_def by (auto simp: tbl_simps intro!: live)
  ultimately show ?thesis
    using assms(1) unfolding hierarchy_ok_def item_children_rooted_def live_item_def by (simp add: tbl_simps)
qed

lemma project_plan_hierarchy:
  assumes "hierarchy_ok db" and "authorize_project db p scope k payload del g = Inr plan"
    and "apply_project_plan db p scope2 plan = (db', scope', r)"
  shows "hierarchy_ok db'"
proof (cases "get_project db (organization_id p) k")
  case None
  from authorize_project_ok [OF assms(2)] None obtain c where
    plan: "op_entity_id plan = k" "op_deleted_at plan = None" "op_customer_id plan = Some c" by auto
  let ?row = "\<lparr>cp_organization_id = organization_id p, cp_project_id = k, cp_customer_id = c, cp_deleted_at = None\<rparr>"
  let ?db = "db\<lparr>canonical_projects := put_row project_key ?row (canonical_projects db)\<rparr>"
  have "hierarchy_ok ?db" by (rule project_store_hierarchy [OF assms(1)]) simp
  moreover obtain pr where "grant_created_scope ?db p None (Some k) = (db', pr)"
    using assms(3) plan None by (auto simp: apply_project_plan_def Let_def split: prod.splits)
  ultimately show ?thesis using hierarchy_frame grant_frame [of ?db] by metis
next
  case (Some row)
  from authorize_project_ok [OF assms(2)] Some have
    plan: "op_entity_id plan = k" "op_deleted_at plan = del" "op_customer_id plan = Some (cp_customer_id row)"
    and safe: "del \<noteq> None \<longrightarrow> ensure_project_delete_safe db p k = Inr ()" by auto
  have key: "cp_organization_id row = organization_id p" "cp_project_id row = k"
    using get_project_key [OF Some] by auto
  have "db' = db\<lparr>canonical_projects := put_row project_key (row\<lparr>cp_deleted_at := del\<rparr>) (canonical_projects db)\<rparr>"
    using assms(3) plan Some by (simp add: apply_project_plan_def)
  moreover have "hierarchy_ok \<dots>"
    by (rule project_store_hierarchy [OF assms(1)]) (use safe key in \<open>auto dest: project_delete_safe\<close>)
  ultimately show ?thesis by simp
qed

lemma sector_store_hierarchy:
  assumes "hierarchy_ok db"
    and "cs_deleted_at row = None \<longrightarrow> live_project db (cs_organization_id row) (cs_project_id row)"
    and "\<forall>k t. get_item db (cs_organization_id row) k = Some t \<longrightarrow> ci_deleted_at t = None
           \<longrightarrow> ci_project_sector_id t = Some (cs_project_sector_id row)
           \<longrightarrow> cs_deleted_at row = None \<and> cs_project_id row = ci_project_id t"
  shows "hierarchy_ok (db\<lparr>canonical_project_sectors := put_row sector_key row (canonical_project_sectors db)\<rparr>)"
proof -
  let ?db = "db\<lparr>canonical_project_sectors := put_row sector_key row (canonical_project_sectors db)\<rparr>"
  have live: "live_sector ?db org k project"
    if "live_sector db org k project" "(org, k) = sector_key row \<longrightarrow> cs_deleted_at row = None \<and> cs_project_id row = project"
    for org k project
    using that by (auto simp: live_sector_def tbl_simps)
  have "sectors_rooted ?db"
    using assms(1,2) unfolding hierarchy_ok_def sectors_rooted_def live_project_def
    by (auto simp: tbl_simps sector_key_def)
  moreover have "items_rooted ?db"
    unfolding items_rooted_def
  proof (intro allI impI conjI)
    fix org k r assume r: "get_item ?db org k = Some r" "ci_deleted_at r = None"
    then have r': "get_item db org k = Some r" by (simp add: tbl_simps)
    with r assms(1) obtain sec where "live_project db org (ci_project_id r)"
      and sec: "ci_project_sector_id r = Some sec" "live_sector db org sec (ci_project_id r)"
      unfolding hierarchy_ok_def items_rooted_def by blast
    then show "live_project ?db org (ci_project_id r)" by (simp add: live_project_def tbl_simps)
    show "\<exists>sec. ci_project_sector_id r = Some sec \<and> live_sector ?db org sec (ci_project_id r)"
    proof (intro exI conjI)
      show "ci_project_sector_id r = Some sec" by (rule sec(1))
      show "live_sector ?db org sec (ci_project_id r)"
        using r' r(2) assms(3) sec by (intro live) (auto simp: sector_key_def)
    qed
  qed
  ultimately show ?thesis
    using assms(1) unfolding hierarchy_ok_def project_children_rooted_def item_children_rooted_def
      live_project_def live_item_def by (simp add: tbl_simps)
qed

lemma sector_plan_hierarchy:
  assumes "hierarchy_ok db" and "authorize_sector db p scope k payload del g = Inr plan"
    and "apply_sector_plan db p plan = (db', r)"
  shows "hierarchy_ok db'"
proof -
  from authorize_sector_ok [OF assms(2)] obtain project pr where
    plan: "op_entity_id plan = k" "op_deleted_at plan = del" "op_project_id plan = Some project"
    and pr: "get_project db (organization_id p) project = Some pr" "cp_deleted_at pr = None"
    and old: "case get_sector db (organization_id p) k of None \<Rightarrow> del = None
           | Some r \<Rightarrow> project = cs_project_id r \<and> op_sector_id plan = Some (cs_sector_id r)
               \<and> (del \<noteq> None \<longrightarrow> ensure_project_sector_delete_safe db p k = Inr ())" by blast
  have live: "live_project db (organization_id p) project" using pr by (auto simp: live_project_def)
  have item: "ci_project_sector_id t = Some k \<Longrightarrow> live_sector db (organization_id p) k (ci_project_id t)"
    if "get_item db (organization_id p) i = Some t" "ci_deleted_at t = None" for i t
    using that assms(1) unfolding hierarchy_ok_def items_rooted_def by fastforce
  show ?thesis
  proof (cases "get_sector db (organization_id p) k")
    case None
    with item have "ci_project_sector_id t \<noteq> Some k"
      if "get_item db (organization_id p) i = Some t" "ci_deleted_at t = None" for i t
      using that by (auto simp: live_sector_def)
    with assms plan None live show ?thesis
      by (auto simp: apply_sector_plan_def split: option.splits intro!: sector_store_hierarchy)
  next
    case (Some row)
    have key: "cs_organization_id row = organization_id p" "cs_project_sector_id row = k"
      using get_sector_key [OF Some] by auto
    from Some old assms(3) plan have "db' = db\<lparr>canonical_project_sectors :=
        put_row sector_key (row\<lparr>cs_deleted_at := del\<rparr>) (canonical_project_sectors db)\<rparr>"
      by (simp add: apply_sector_plan_def)
    moreover have "hierarchy_ok \<dots>"
      by (rule sector_store_hierarchy [OF assms(1)])
        (use Some old key live item in \<open>auto simp: live_sector_def dest: sector_delete_safe\<close>)
    ultimately show ?thesis by simp
  qed
qed


lemma item_store_hierarchy:
  assumes "hierarchy_ok db"
    and "ci_deleted_at row = None \<Longrightarrow> live_project db (ci_organization_id row) (ci_project_id row)
           \<and> (\<exists>sec. ci_project_sector_id row = Some sec
                \<and> live_sector db (ci_organization_id row) sec (ci_project_id row))"
    and "\<And>t k c. ci_deleted_at row \<noteq> None \<Longrightarrow> get_item_child db (ci_organization_id row) t k = Some c
           \<Longrightarrow> ic_deleted_at c = None \<Longrightarrow> t \<noteq> ''item_audit_event'' \<Longrightarrow> ic_item_id c \<noteq> ci_item_id row"
  shows "hierarchy_ok (db\<lparr>canonical_items := put_row item_key row (canonical_items db)\<rparr>)"
proof -
  let ?db = "db\<lparr>canonical_items := put_row item_key row (canonical_items db)\<rparr>"
  have live: "live_item ?db org k"
    if "live_item db org k"
      and "ci_deleted_at row \<noteq> None \<Longrightarrow> org = ci_organization_id row \<Longrightarrow> k \<noteq> ci_item_id row" for org k
    using that by (cases "ci_deleted_at row") (auto simp: live_item_def tbl_simps item_key_def)
  have "items_rooted ?db"
    using assms(1,2) unfolding hierarchy_ok_def items_rooted_def live_project_def live_sector_def
    by (simp add: tbl_simps item_key_def)
  moreover have "item_children_rooted ?db"
    using assms(1,3) unfolding hierarchy_ok_def item_children_rooted_def
    by (auto simp: tbl_simps intro!: live)
  ultimately show ?thesis
    using assms(1) unfolding hierarchy_ok_def sectors_rooted_def project_children_rooted_def live_project_def
    by (simp add: tbl_simps)
qed

lemma item_plan_hierarchy:
  assumes "hierarchy_ok db" and "authorize_item db p scope k payload del g = Inr plan"
    and "apply_item_plan db p plan = (db', r)"
  shows "hierarchy_ok db'"
proof -
  from authorize_item_ok [OF assms(2)] obtain project sec pr where
    plan: "op_entity_id plan = k" "op_deleted_at plan = del" "op_project_id plan = Some project"
      "op_project_sector_id plan = Some sec"
    and pr: "get_project db (organization_id p) project = Some pr" "cp_deleted_at pr = None"
    and sec: "live_sector db (organization_id p) sec project"
    and old: "case get_item db (organization_id p) k of None \<Rightarrow> del = None \<and> ''item.create'' \<in> capabilities p
           | Some r \<Rightarrow> ''item.edit'' \<in> capabilities p \<and> project = ci_project_id r
               \<and> ci_project_sector_id r = Some sec \<and> (del \<noteq> None \<longrightarrow> ensure_item_delete_safe db p k = Inr ())"
    by blast
  have live: "live_project db (organization_id p) project" using pr by (auto simp: live_project_def)
  show ?thesis
  proof (cases "get_item db (organization_id p) k")
    case None
    with assms plan old live sec show ?thesis
      by (auto simp: apply_item_plan_def intro!: item_store_hierarchy)
  next
    case (Some row)
    have key: "ci_organization_id row = organization_id p" "ci_item_id row = k"
      using get_item_key [OF Some] by auto
    from Some old assms(3) plan have "db' = db\<lparr>canonical_items :=
        put_row item_key (row\<lparr>ci_deleted_at := del\<rparr>) (canonical_items db)\<rparr>"
      by (auto simp: apply_item_plan_def)
    moreover have "hierarchy_ok \<dots>"
      by (rule item_store_hierarchy [OF assms(1)])
        (use Some old key live sec in \<open>auto dest: item_delete_safe\<close>)
    ultimately show ?thesis by simp
  qed
qed

lemma project_child_store_hierarchy:
  assumes "hierarchy_ok db" and "live_project db (pc_organization_id row) (pc_project_id row)"
  shows "hierarchy_ok (db\<lparr>canonical_project_children :=
     put_row project_child_key row (canonical_project_children db)\<rparr>)"
  using assms unfolding hierarchy_ok_def rooted_defs
  by (simp add: tbl_simps project_child_key_def)

lemma item_child_store_hierarchy:
  assumes "hierarchy_ok db" and "live_item db (ic_organization_id row) (ic_item_id row)"
  shows "hierarchy_ok (db\<lparr>canonical_item_children :=
     put_row item_child_key row (canonical_item_children db)\<rparr>)"
  using assms unfolding hierarchy_ok_def rooted_defs
  by (simp add: tbl_simps item_child_key_def)

lemma project_child_plan_hierarchy:
  assumes "hierarchy_ok db" and "apply_project_child_plan db p plan = (db', r)"
    and "op_project_id plan = Some project" and "live_project db (organization_id p) project"
  shows "hierarchy_ok db'"
  using assms
  by (auto simp: apply_project_child_plan_def split: option.splits if_splits
      intro!: project_child_store_hierarchy dest: get_project_child_key)

lemma item_child_plan_hierarchy:
  assumes "hierarchy_ok db" and "apply_item_child_plan db p plan = (db', r)"
    and "op_item_id plan = Some i" and "live_item db (organization_id p) i"
  shows "hierarchy_ok db'"
  using assms
  by (auto simp: apply_item_child_plan_def split: option.splits if_splits
      intro!: item_child_store_hierarchy dest: get_item_child_key)

lemma quotation_not_item_child [simp]: "''quotation'' \<notin> set ITEM_CHILD_TYPES"
  by (simp add: ITEM_CHILD_TYPES_def ITEM_CHILD_CAPABILITIES_def)

lemma item_child_type_cases:
  "t \<in> set ITEM_CHILD_TYPES \<Longrightarrow> t \<notin> {''customer'', ''project'', ''project_sector'', ''item''}
     \<and> t \<notin> set PROJECT_CHILD_TYPES"
  by (auto simp: ITEM_CHILD_TYPES_def ITEM_CHILD_CAPABILITIES_def PROJECT_CHILD_TYPES_def)

lemma authorize_customer_type:
  "authorize_customer db p scope k payload del g = Inr plan \<Longrightarrow> op_entity_type plan = ''customer''"
  unfolding authorize_customer_def by (auto simp: res_simps base_plan_def split: option.splits)

text \<open>Every authorized write keeps the hierarchy, also when applying it raises half-way.\<close>

lemma ownership_write_hierarchy:
  assumes h: "hierarchy_ok db"
    and auth: "authorize_record lib db p scope t k payload del g = Inr plan"
    and appl: "apply_ownership_plan db p scope2 plan = (db', scope', r)"
  shows "hierarchy_ok db'"
proof -
  consider (cust) "t = ''customer''" | (proj) "t = ''project''" | (sec) "t = ''project_sector''"
    | (item) "t = ''item''" | (child) "t \<in> set ITEM_CHILD_TYPES" | (quo) "t = ''quotation''"
    using auth unfolding authorize_record_def by (auto split: if_splits)
  then show ?thesis
  proof cases
    case cust
    then have "op_entity_type plan = ''customer''"
      using auth authorize_customer_type by (simp add: authorize_record_def)
    then show ?thesis using h appl customer_plan_hierarchy by (simp add: apply_ownership_plan_def)
  next
    case proj
    then have a: "authorize_project db p scope k payload del g = Inr plan"
      using auth by (simp add: authorize_record_def)
    then show ?thesis using h appl authorize_project_ok [OF a] project_plan_hierarchy [OF h a]
      by (simp add: apply_ownership_plan_def)
  next
    case sec
    then have a: "authorize_sector db p scope k payload del g = Inr plan"
      using auth by (simp add: authorize_record_def)
    then show ?thesis using appl authorize_sector_ok [OF a] sector_plan_hierarchy [OF h a]
      by (auto simp: apply_ownership_plan_def split: prod.splits)
  next
    case item
    then have a: "authorize_item db p scope k payload del g = Inr plan"
      using auth by (simp add: authorize_record_def)
    then show ?thesis using appl authorize_item_ok [OF a] item_plan_hierarchy [OF h a]
      by (auto simp: apply_ownership_plan_def split: prod.splits)
  next
    case child
    note ty = item_child_type_cases [OF child]
    with child have a: "authorize_item_child lib db p scope t k payload del g = Inr plan"
      using auth by (simp add: authorize_record_def)
    from authorize_item_child_ok [OF a] obtain i it pr where
      pl: "op_entity_type plan = t" "op_item_id plan = Some i" "item_for_scope db p scope i = Inr (it, pr)" by blast
    then have "live_item db (organization_id p) i" by (auto simp: item_for_scope_ok live_item_def)
    then show ?thesis using appl pl ty child item_child_plan_hierarchy [OF h]
      by (auto simp: apply_ownership_plan_def split: prod.splits)
  next
    case quo
    then have a: "authorize_quotation lib db p scope k payload del g = Inr plan"
      using auth by (simp add: authorize_record_def)
    from authorize_quotation_ok [OF a] obtain project pr where
      pl: "op_entity_type plan = ''quotation''" "op_project_id plan = Some project"
      "project_for_scope db p scope project = Inr pr" by blast
    then have "live_project db (organization_id p) project" by (auto simp: project_for_scope_ok live_project_def)
    then show ?thesis using appl pl project_child_plan_hierarchy [OF h]
      by (auto simp: apply_ownership_plan_def PROJECT_CHILD_TYPES_def split: prod.splits)
  qed
qed

lemma delivery_write_hierarchy:
  assumes "hierarchy_ok db" and "live_project db (organization_id p) project"
    and "apply_delivery_execution_ownership db p k project = (db', r)"
  shows "hierarchy_ok db'"
  using assms
  by (auto simp: apply_delivery_execution_ownership_def split: option.splits
      intro!: project_child_store_hierarchy)


section \<open>Ownership never moves\<close>

text \<open>Every row that exists still exists, under the same parent.\<close>

definition parents_kept :: "db \<Rightarrow> db \<Rightarrow> bool" where
  "parents_kept db db' \<longleftrightarrow>
     (\<forall>org k r. get_customer db org k = Some r \<longrightarrow> (\<exists>r'. get_customer db' org k = Some r'))
     \<and> (\<forall>org k r. get_project db org k = Some r \<longrightarrow>
          (\<exists>r'. get_project db' org k = Some r' \<and> cp_customer_id r' = cp_customer_id r))
     \<and> (\<forall>org k r. get_sector db org k = Some r \<longrightarrow>
          (\<exists>r'. get_sector db' org k = Some r' \<and> cs_project_id r' = cs_project_id r
             \<and> cs_sector_id r' = cs_sector_id r))
     \<and> (\<forall>org k r. get_item db org k = Some r \<longrightarrow>
          (\<exists>r'. get_item db' org k = Some r' \<and> ci_project_id r' = ci_project_id r
             \<and> ci_project_sector_id r' = ci_project_sector_id r))
     \<and> (\<forall>org t k r. get_project_child db org t k = Some r \<longrightarrow>
          (\<exists>r'. get_project_child db' org t k = Some r' \<and> pc_project_id r' = pc_project_id r))
     \<and> (\<forall>org t k r. get_item_child db org t k = Some r \<longrightarrow>
          (\<exists>r'. get_item_child db' org t k = Some r' \<and> ic_item_id r' = ic_item_id r))"

lemma parents_kept_refl: "parents_kept db db"
  by (simp add: parents_kept_def)

lemma parents_kept_trans: "parents_kept a b \<Longrightarrow> parents_kept b c \<Longrightarrow> parents_kept a c"
  unfolding parents_kept_def by (elim conjE, intro conjI; metis)

lemma parents_kept_frame:
  assumes "parents_kept db db1" and "get_customer db' = get_customer db1" and "get_project db' = get_project db1"
    and "get_sector db' = get_sector db1" and "get_item db' = get_item db1"
    and "get_project_child db' = get_project_child db1" and "get_item_child db' = get_item_child db1"
  shows "parents_kept db db'"
  using assms unfolding parents_kept_def by simp

lemma grant_parents:
  assumes "parents_kept db db1" and "grant_created_scope db1 p c pr = (db', r)"
  shows "parents_kept db db'"
  by (rule parents_kept_frame [OF assms(1)]) (rule grant_frame [OF assms(2)])+

lemma store_parents:
  "parents_kept db (db\<lparr>canonical_customers := put_row customer_key r1 (canonical_customers db)\<rparr>)"
  "(\<And>r. get_project db (cp_organization_id r2) (cp_project_id r2) = Some r \<Longrightarrow> cp_customer_id r2 = cp_customer_id r) \<Longrightarrow>
     parents_kept db (db\<lparr>canonical_projects := put_row project_key r2 (canonical_projects db)\<rparr>)"
  "(\<And>r. get_sector db (cs_organization_id r3) (cs_project_sector_id r3) = Some r \<Longrightarrow>
       cs_project_id r3 = cs_project_id r \<and> cs_sector_id r3 = cs_sector_id r) \<Longrightarrow>
     parents_kept db (db\<lparr>canonical_project_sectors := put_row sector_key r3 (canonical_project_sectors db)\<rparr>)"
  "(\<And>r. get_item db (ci_organization_id r4) (ci_item_id r4) = Some r \<Longrightarrow>
       ci_project_id r4 = ci_project_id r \<and> ci_project_sector_id r4 = ci_project_sector_id r) \<Longrightarrow>
     parents_kept db (db\<lparr>canonical_items := put_row item_key r4 (canonical_items db)\<rparr>)"
  "(\<And>r. get_project_child db (pc_organization_id r5) (pc_entity_type r5) (pc_entity_id r5) = Some r \<Longrightarrow>
       pc_project_id r5 = pc_project_id r) \<Longrightarrow>
     parents_kept db (db\<lparr>canonical_project_children := put_row project_child_key r5 (canonical_project_children db)\<rparr>)"
  "(\<And>r. get_item_child db (ic_organization_id r6) (ic_entity_type r6) (ic_entity_id r6) = Some r \<Longrightarrow>
       ic_item_id r6 = ic_item_id r) \<Longrightarrow>
     parents_kept db (db\<lparr>canonical_item_children := put_row item_child_key r6 (canonical_item_children db)\<rparr>)"
  unfolding parents_kept_def by (simp_all add: tbl_simps key_defs)

text \<open>A looked-up row is found again under its own key.\<close>

lemma get_self:
  "get_project db org k = Some r2 \<Longrightarrow> get_project db (cp_organization_id r2) (cp_project_id r2) = Some r2"
  "get_sector db org k = Some r3 \<Longrightarrow> get_sector db (cs_organization_id r3) (cs_project_sector_id r3) = Some r3"
  "get_item db org k = Some r4 \<Longrightarrow> get_item db (ci_organization_id r4) (ci_item_id r4) = Some r4"
  "get_project_child db org t k = Some r5 \<Longrightarrow>
     get_project_child db (pc_organization_id r5) (pc_entity_type r5) (pc_entity_id r5) = Some r5"
  "get_item_child db org t k = Some r6 \<Longrightarrow>
     get_item_child db (ic_organization_id r6) (ic_entity_type r6) (ic_entity_id r6) = Some r6"
  by (auto dest: get_project_key get_sector_key get_item_key get_project_child_key get_item_child_key)

lemma apply_plan_parents:
  assumes "apply_ownership_plan db p scope plan = (db', scope', r)"
  shows "parents_kept db db'"
proof -
  have cust: "parents_kept db db'" if "apply_customer_plan db p scope plan = (db', scope', r)" for scope' r
    using that unfolding apply_customer_plan_def Let_def
    by (auto split: option.splits prod.splits intro!: store_parents intro: grant_parents [OF store_parents(1)])
  have proj: "parents_kept db db'" if "apply_project_plan db p scope plan = (db', scope', r)" for scope' r
  proof -
    have "parents_kept db (db\<lparr>canonical_projects := put_row project_key
        \<lparr>cp_organization_id = organization_id p, cp_project_id = k, cp_customer_id = c, cp_deleted_at = d\<rparr>
        (canonical_projects db)\<rparr>)" if "get_project db (organization_id p) k = None" for k c d
      using that by (intro store_parents) simp
    with that show ?thesis unfolding apply_project_plan_def Let_def
      by (auto split: option.splits prod.splits if_splits intro: grant_parents parents_kept_refl
          intro!: store_parents dest: get_self)
  qed
  have sec: "parents_kept db db'" if "apply_sector_plan db p plan = (db', r)" for r
    using that unfolding apply_sector_plan_def
    by (auto split: option.splits if_splits intro: parents_kept_refl intro!: store_parents dest: get_self)
  have item: "parents_kept db db'" if "apply_item_plan db p plan = (db', r)" for r
    using that unfolding apply_item_plan_def
    by (auto split: option.splits if_splits intro: parents_kept_refl intro!: store_parents dest: get_self)
  have pc: "parents_kept db db'" if "apply_project_child_plan db p plan = (db', r)" for r
    using that unfolding apply_project_child_plan_def
    by (auto split: option.splits if_splits intro: parents_kept_refl intro!: store_parents
        dest: get_self)
  have ic: "parents_kept db db'" if "apply_item_child_plan db p plan = (db', r)" for r
    using that unfolding apply_item_child_plan_def
    by (auto split: option.splits if_splits intro: parents_kept_refl intro!: store_parents
        dest: get_self)
  show ?thesis
    using assms unfolding apply_ownership_plan_def Let_def
    by (auto split: if_splits prod.splits intro: cust proj sec item pc ic parents_kept_refl)
qed

lemma apply_delivery_parents:
  assumes "apply_delivery_execution_ownership db p k project = (db', r)"
  shows "parents_kept db db'"
  using assms unfolding apply_delivery_execution_ownership_def
  by (auto split: option.splits intro: parents_kept_refl intro!: store_parents)


section \<open>Authority of a write\<close>

text \<open>
  The capability a write of each kind needs: by entity type, by whether it creates or tombstones,
  by the kind of an audit event and by the status of a quotation.
\<close>

definition write_capability :: "string \<Rightarrow> bool \<Rightarrow> bool \<Rightarrow> dict \<Rightarrow> string" where
  "write_capability t creating deleting payload =
     (if t = ''customer'' then (if creating then ''customer.create'' else ''customer.edit'')
      else if t = ''project'' then (if creating then ''project.create'' else ''project.edit'')
      else if t = ''project_sector'' then ''project.edit''
      else if t = ''item'' then (if creating then ''item.create'' else ''item.edit'')
      else if t = ''item_audit_event'' then
        (if dget payload ''kind'' = JStr ''created'' then ''item.create''
         else if dget payload ''kind'' = JStr ''updated'' then ''item.edit'' else ''item.readiness.change'')
      else if t = ''quotation'' then
        (if deleting then ''quotation.create''
         else if dget payload ''status'' = JStr ''sent'' then ''quotation.send''
         else if dget payload ''status'' = JStr ''approved'' then ''quotation.approve''
         else ''quotation.create'')
      else (case map_of ITEM_CHILD_CAPABILITIES t of Some c \<Rightarrow> c | None \<Rightarrow> []))"

text \<open>
  The scope a write needs: the customer itself, the customer of a new project, and otherwise the
  live project the plan places the record in.
\<close>

definition write_in_scope :: "db \<Rightarrow> principal \<Rightarrow> effective_scope \<Rightarrow> string \<Rightarrow> bool \<Rightarrow> ownership_plan \<Rightarrow> bool" where
  "write_in_scope db p scope t creating plan \<longleftrightarrow>
     (if t = ''customer'' then creating \<or> can_access_customer scope (op_entity_id plan)
      else if t = ''project'' \<and> creating then
        (\<exists>c. op_customer_id plan = Some c \<and> live_customer db (organization_id p) c \<and> can_access_customer scope c)
      else (\<exists>k r. op_project_id plan = Some k \<and> get_project db (organization_id p) k = Some r
              \<and> can_access_project scope k (cp_customer_id r)
              \<and> (t \<noteq> ''project'' \<longrightarrow> cp_deleted_at r = None)))"

definition creates_record :: "db \<Rightarrow> principal \<Rightarrow> string \<Rightarrow> string \<Rightarrow> bool" where
  "creates_record db p t k =
     (if t = ''customer'' then get_customer db (organization_id p) k = None
      else if t = ''project'' then get_project db (organization_id p) k = None
      else if t = ''project_sector'' then get_sector db (organization_id p) k = None
      else if t = ''item'' then get_item db (organization_id p) k = None
      else if t = ''quotation'' then get_project_child db (organization_id p) t k = None
      else get_item_child db (organization_id p) t k = None)"

lemma authorize_customer_ok:
  assumes "authorize_customer db p scope k payload del g = Inr plan"
  shows "op_entity_id plan = k \<and> (case get_customer db (organization_id p) k of
      None \<Rightarrow> ''customer.create'' \<in> capabilities p
    | Some r \<Rightarrow> ''customer.edit'' \<in> capabilities p \<and> can_access_customer scope k)"
  using assms unfolding authorize_customer_def
  by (auto simp: res_simps base_plan_def split: option.splits dest: get_customer_key)

lemma audit_event_capability:
  "authorize_audit_event p item i payload = Inr () \<Longrightarrow>
     write_capability ''item_audit_event'' c d payload \<in> capabilities p"
  unfolding authorize_audit_event_def write_capability_def by (auto simp: res_simps split: if_splits)

lemma quotation_content_capability:
  "authorize_quotation_content lib db p scope pr k payload = Inr () \<Longrightarrow>
     write_capability ''quotation'' c False payload \<in> capabilities p"
  unfolding authorize_quotation_content_def write_capability_def quotation_capability_def QUOTATION_CAPABILITIES_def
  by (cases "dget payload ''status''") (auto simp: res_simps split: if_splits)

lemma child_content_capability:
  assumes "authorize_child_content lib db p item i t k payload d = Inr ()" and "t \<in> set ITEM_CHILD_TYPES"
  shows "write_capability t c d payload \<in> capabilities p"
proof (cases "t = ''item_audit_event''")
  case True
  with assms(1) show ?thesis using audit_event_capability
    by (auto simp: authorize_child_content_def res_simps)
next
  case False
  from assms(1) False obtain cap where "map_of ITEM_CHILD_CAPABILITIES t = Some cap" "cap \<in> capabilities p"
    by (auto simp: authorize_child_content_def res_simps)
  with False item_child_type_cases [OF assms(2)] show ?thesis
    by (simp add: write_capability_def PROJECT_CHILD_TYPES_def)
qed

lemma child_in_scope:
  assumes "authorize_item_child lib db p scope t k payload del g = Inr plan"
  shows "\<exists>pk r. op_project_id plan = Some pk \<and> get_project db (organization_id p) pk = Some r
     \<and> can_access_project scope pk (cp_customer_id r) \<and> cp_deleted_at r = None"
  using assms unfolding authorize_item_child_def Let_def
  by (auto simp: seq_ok ebind_ok item_for_scope_ok base_plan_def)

section \<open>Sample values\<close>

definition demo_owner_db :: db where
  "demo_owner_db = empty_db\<lparr>
     canonical_customers := [\<lparr>cc_organization_id = ''o'', cc_customer_id = ''c'', cc_deleted_at = Some demo_time\<rparr>],
     canonical_projects := [
       \<lparr>cp_organization_id = ''o'', cp_project_id = ''gone'', cp_customer_id = ''c'', cp_deleted_at = Some demo_time\<rparr>,
       \<lparr>cp_organization_id = ''o'', cp_project_id = ''p'', cp_customer_id = ''c2'', cp_deleted_at = None\<rparr>],
     canonical_project_sectors := [\<lparr>cs_organization_id = ''o'', cs_project_sector_id = ''s'',
       cs_project_id = ''p'', cs_sector_id = ''kitchen'', cs_deleted_at = None\<rparr>],
     canonical_items := [\<lparr>ci_organization_id = ''o'', ci_item_id = ''i'', ci_project_id = ''p'',
       ci_project_sector_id = Some ''s'', ci_deleted_at = None\<rparr>],
     canonical_item_children := [\<lparr>ic_organization_id = ''o'', ic_entity_type = ''configuration'',
       ic_entity_id = ''cfg'', ic_item_id = ''i'', ic_deleted_at = None\<rparr>],
     sync_entities := [\<lparr>se_organization_id = ''o'', se_entity_type = ''configuration'', se_entity_id = ''cfg'',
       se_server_revision = 7, se_payload_json = JObj [(''id'', JStr ''cfg''), (''status'', JStr ''complete'')],
       se_updated_at = demo_time, se_deleted_at = None\<rparr>]\<rparr>"

definition demo_editor :: principal where
  "demo_editor = demo_principal\<lparr>capabilities := {''project.edit'', ''item.edit'', ''item.create'',
     ''item.configuration.manage''}\<rparr>"

definition demo_item_payload :: dict where
  "demo_item_payload = [(''id'', JStr ''i2''), (''projectID'', JStr ''p''), (''projectSectorID'', JStr ''s'')]"

lemma demo_item_authorized:
  "\<exists>plan. authorize_record demo_lib demo_owner_db demo_editor (from_principal demo_editor) ''item'' ''i2''
     demo_item_payload None False = Inr plan \<and> op_entity_id plan = ''i2''"
  by (intro exI [of _ "(base_plan ''item'' ''i2'' True None)\<lparr>op_customer_id := Some ''c2'',
     op_project_id := Some ''p'', op_project_sector_id := Some ''s''\<rparr>"]) code_simp

section \<open>Properties\<close>

text \<open>
  C31. Authority of every accepted write: the principal holds the capability of that kind of
  write, and the record lies in its scope: an existing customer or the live customer of a new
  project is reachable, and any other record is placed in a reachable project, which is live
  unless the write edits the project itself.
\<close>

theorem authorized_write_in_scope:
  assumes "authorize_record lib db p scope t k payload del g = Inr plan"
  shows "write_capability t (creates_record db p t k) (del \<noteq> None) payload \<in> capabilities p
    \<and> write_in_scope db p scope t (creates_record db p t k) plan"
proof -
  consider (cust) "t = ''customer''" "authorize_customer db p scope k payload del g = Inr plan"
    | (proj) "t = ''project''" "authorize_project db p scope k payload del g = Inr plan"
    | (sec) "t = ''project_sector''" "authorize_sector db p scope k payload del g = Inr plan"
    | (item) "t = ''item''" "authorize_item db p scope k payload del g = Inr plan"
    | (child) "t \<in> set ITEM_CHILD_TYPES" "authorize_item_child lib db p scope t k payload del g = Inr plan"
    | (quo) "t = ''quotation''" "authorize_quotation lib db p scope k payload del g = Inr plan"
    using assms unfolding authorize_record_def by (auto split: if_splits)
  then show ?thesis
  proof cases
    case cust
    then show ?thesis using authorize_customer_ok [OF cust(2)]
      by (auto simp: write_capability_def write_in_scope_def creates_record_def split: option.splits)
  next
    case proj
    then show ?thesis using authorize_project_ok [OF proj(2)]
      by (auto simp: write_capability_def write_in_scope_def creates_record_def split: option.splits)
  next
    case sec
    then show ?thesis using authorize_sector_ok [OF sec(2)]
      by (auto simp: write_capability_def write_in_scope_def creates_record_def)
  next
    case item
    then show ?thesis using authorize_item_ok [OF item(2)]
      by (auto simp: write_capability_def write_in_scope_def creates_record_def split: option.splits)
  next
    case child
    with item_child_type_cases [OF child(1)] show ?thesis
      using authorize_item_child_ok [OF child(2)] child_content_capability child_in_scope [OF child(2)]
      by (auto simp: write_in_scope_def)
  next
    case quo
    from authorize_quotation_ok [OF quo(2)] obtain project pr where
      pl: "op_project_id plan = Some project" "project_for_scope db p scope project = Inr pr"
      and cap: "if del = None then authorize_quotation_content lib db p scope pr project payload = Inr ()
           else ''quotation.create'' \<in> capabilities p" by blast
    have "write_capability ''quotation'' (creates_record db p ''quotation'' k) (del \<noteq> None) payload \<in> capabilities p"
    proof (cases "del = None")
      case True
      with cap quotation_content_capability show ?thesis by simp
    next
      case False
      with cap show ?thesis by (simp add: write_capability_def)
    qed
    moreover have "write_in_scope db p scope ''quotation'' (creates_record db p ''quotation'' k) plan"
      using pl by (simp add: write_in_scope_def project_for_scope_ok)
    ultimately show ?thesis using quo(1) by simp
  qed
qed

theorem authorized_write_in_scope_witness:
  "\<exists>plan. ''item.create'' \<in> capabilities demo_editor
     \<and> write_in_scope demo_owner_db demo_editor (from_principal demo_editor) ''item'' True plan"
proof -
  obtain plan where "authorize_record demo_lib demo_owner_db demo_editor (from_principal demo_editor)
      ''item'' ''i2'' demo_item_payload None False = Inr plan"
    using demo_item_authorized by blast
  from authorized_write_in_scope [OF this] show ?thesis
    by (auto simp: creates_record_def write_capability_def demo_owner_db_def get_item_def item_key_def)
qed


text \<open>
  Item audit events and configuration versions are append-only: an authorized write of one
  creates a record that has neither an ownership row nor a stored entity, and never tombstones.
\<close>

theorem append_only_history:
  assumes "authorize_record lib db p scope t k payload del g = Inr plan" and "t \<in> set APPEND_ONLY_TYPES"
  shows "get_item_child db (organization_id p) t k = None \<and> \<not> g \<and> del = None \<and> op_is_create plan"
proof -
  from assms(2) have t: "t \<in> set ITEM_CHILD_TYPES" "t \<notin> {''customer'', ''project'', ''project_sector'', ''item''}"
    by (auto simp: APPEND_ONLY_TYPES_def ITEM_CHILD_TYPES_def ITEM_CHILD_CAPABILITIES_def)
  then have a: "authorize_item_child lib db p scope t k payload del g = Inr plan"
    using assms(1) by (simp add: authorize_record_def)
  then have "require_child_writable t (get_item_child db (organization_id p) t k) g (del \<noteq> None) = Inr ()"
    using authorize_item_child_ok by blast
  moreover from a have "op_is_create plan = (get_item_child db (organization_id p) t k = None)"
    unfolding authorize_item_child_def Let_def by (auto simp: seq_ok ebind_ok base_plan_def)
  ultimately show ?thesis using assms(2) by (auto simp: require_child_writable_def res_simps)
qed

theorem append_only_history_witness:
  "get_item_child demo_owner_db ''o'' ''configuration_version'' ''cfg#v2'' = None"
proof -
  have "authorize_record demo_lib demo_owner_db demo_editor (from_principal demo_editor)
      ''configuration_version'' ''cfg#v2'' [(''id'', JStr ''cfg#v2''),
        (''configuration'', JObj [(''id'', JStr ''cfg''), (''version'', JInt 2), (''itemID'', JStr ''i''),
           (''status'', JStr ''complete'')])] None False
    = Inr ((base_plan ''configuration_version'' ''cfg#v2'' True None)\<lparr>op_customer_id := Some ''c2'',
        op_project_id := Some ''p'', op_project_sector_id := Some ''s'', op_item_id := Some ''i''\<rparr>)"
    by code_simp
  from append_only_history [OF this] show ?thesis
    by (simp add: APPEND_ONLY_TYPES_def demo_editor_def demo_principal_def)
qed

text \<open>
  The capability to reopen a completed configuration can be avoided: identity is checked on
  the stripped id, but the stored status is looked up under the raw id. When the payload pads its
  id with white space and nothing is stored under the padded id, a write that takes the
  configuration out of Complete passes the content check for any principal that may manage
  configurations at all.
\<close>

theorem reopen_check_bypassed:
  assumes "dget payload ''id'' = JStr padded" and "get_entity db (organization_id p) ''configuration'' padded = None"
    and "''item.configuration.manage'' \<in> capabilities p"
    and "dget payload ''status'' \<noteq> JStr ''complete''"
    and "dget payload ''customerRequirements'' = JList []" and "dget payload ''blockerIDs'' = JList []"
    and "dget payload ''assembly'' = JNull"
  shows "authorize_child_content lib db p item item_id ''configuration'' k payload False = Inr ()"
proof -
  have dflt: "dget_default payload key d = v" if "dget payload key = v" "v \<noteq> JNull" for key d v
    using that by (auto simp: dget_default_def dget_def split: option.splits)
  have "configuration_current db p payload k = Inr None"
    using assms(1,2) dflt by (simp add: configuration_current_def current_payload_of_def)
  then have "authorize_configuration lib db p item_id ''configuration'' k payload = Inr ()"
    using assms dflt
    by (simp add: authorize_configuration_def configuration_status_capability_def require_item_references_def res_simps)
  with assms(3) show ?thesis
    by (simp add: authorize_child_content_def ITEM_CHILD_CAPABILITIES_def res_simps)
qed

definition demo_item :: canonical_item where
  "demo_item = \<lparr>ci_organization_id = ''o'', ci_item_id = ''i'', ci_project_id = ''p'',
     ci_project_sector_id = Some ''s'', ci_deleted_at = None\<rparr>"

definition demo_reopen :: dict where
  "demo_reopen = [(''id'', JStr '' cfg''), (''status'', JStr ''draft''), (''customerRequirements'', JList []),
     (''blockerIDs'', JList [])]"

theorem reopen_check_bypassed_witness:
  "''item.configuration.reopen'' \<notin> capabilities demo_editor
    \<and> map_option (\<lambda>d. dget d ''status'') (current_payload_of demo_owner_db demo_editor ''configuration'' ''cfg'')
        = Some (JStr ''complete'')
    \<and> require_identity demo_reopen ''cfg'' False = Inr ()
    \<and> authorize_child_content demo_lib demo_owner_db demo_editor demo_item ''i'' ''configuration'' ''cfg'' demo_reopen False
        = Inr ()"
proof -
  have "authorize_child_content demo_lib demo_owner_db demo_editor demo_item ''i'' ''configuration'' ''cfg'' demo_reopen False
      = Inr ()"
    by (rule reopen_check_bypassed [where padded = "'' cfg''"]) code_simp+
  moreover have "''item.configuration.reopen'' \<notin> capabilities demo_editor" by (simp add: demo_editor_def)
  moreover have "map_option (\<lambda>d. dget d ''status'')
      (current_payload_of demo_owner_db demo_editor ''configuration'' ''cfg'') = Some (JStr ''complete'')"
    "require_identity demo_reopen ''cfg'' False = Inr ()" by code_simp+
  ultimately show ?thesis by blast
qed

text \<open>
  A tombstoned project comes back to life without its customer: an upsert of an existing
  project never looks at the customer, so a principal who may edit the project revives it although
  the customer that owns it is deleted or missing.
\<close>

theorem project_revived_without_customer:
  assumes "get_project db (organization_id p) k = Some r" and "cp_deleted_at r \<noteq> None"
    and "''project.edit'' \<in> capabilities p" and "can_access_project scope k (cp_customer_id r)"
    and "dget payload ''id'' = JStr k" and "py_strip k = k" and "dget payload ''customerID'' = JNull"
  shows "\<exists>plan db'. authorize_record lib db p scope ''project'' k payload None True = Inr plan
    \<and> apply_ownership_plan db p scope plan = (db', scope, Inr ()) \<and> live_project db' (organization_id p) k
    \<and> live_customer db' = live_customer db"
proof -
  have key: "cp_project_id r = k" "cp_organization_id r = organization_id p" using get_project_key [OF assms(1)] by auto
  let ?plan = "(base_plan ''project'' k False None)\<lparr>op_customer_id := Some (cp_customer_id r), op_project_id := Some k\<rparr>"
  let ?db = "db\<lparr>canonical_projects := put_row project_key (r\<lparr>cp_deleted_at := None\<rparr>) (canonical_projects db)\<rparr>"
  have "authorize_record lib db p scope ''project'' k payload None True = Inr ?plan"
    using assms key
    by (simp add: authorize_record_def authorize_project_def require_identity_def owner_changed_def
        require_capability_def guard_def seq_def)
  moreover have "apply_ownership_plan db p scope ?plan = (?db, scope, Inr ())"
    using assms(1) by (simp add: apply_ownership_plan_def apply_project_plan_def base_plan_def)
  moreover have "live_project ?db (organization_id p) k"
    using key by (simp add: live_project_def tbl_simps project_key_def)
  moreover have "live_customer ?db = live_customer db"
    by (simp add: live_customer_def tbl_simps fun_eq_iff)
  ultimately show ?thesis by blast
qed

theorem project_revived_without_customer_witness:
  "\<exists>db'. live_project db' ''o'' ''gone'' \<and> \<not> live_customer db' ''o'' ''c''"
proof -
  let ?r = "\<lparr>cp_organization_id = ''o'', cp_project_id = ''gone'', cp_customer_id = ''c'', cp_deleted_at = Some demo_time\<rparr>"
  have "\<exists>plan db'. authorize_record demo_lib demo_owner_db demo_editor (from_principal demo_editor) ''project'' ''gone''
        [(''id'', JStr ''gone'')] None True = Inr plan
    \<and> apply_ownership_plan demo_owner_db demo_editor (from_principal demo_editor) plan
        = (db', from_principal demo_editor, Inr ())
    \<and> live_project db' (organization_id demo_editor) ''gone'' \<and> live_customer db' = live_customer demo_owner_db"
    by (rule project_revived_without_customer [where r = ?r]) code_simp+
  moreover have "\<not> live_customer demo_owner_db ''o'' ''c''"
    by (simp add: live_customer_def demo_owner_db_def get_customer_def customer_key_def)
  moreover have "organization_id demo_editor = ''o''" by (simp add: demo_editor_def demo_principal_def)
  ultimately show ?thesis by metis
qed

end
