(* ===== verification/Pull_Prefetch.thy ===== *)
theory Pull_Prefetch
  imports Ownership_Correct
begin

text \<open>
  \<open>app/pull_prefetch.py\<close>: the rows a pull page needs, loaded in a fixed number of set-based
  queries, and the two resolvers that must agree with the per-record lookups they replace.
\<close>

section \<open>Loading\<close>

definition MAX_BATCH :: nat where
  "MAX_BATCH = 2000"

text \<open>\<open>_chunks\<close>: slices of at most \<open>n\<close> (which is positive).\<close>

function chunks :: "nat \<Rightarrow> 'a list \<Rightarrow> 'a list list" where
  "chunks n xs = (if xs = [] \<or> n = 0 then [] else take n xs # chunks n (drop n xs))"
  by pat_completeness auto
termination by (relation "measure (\<lambda>(_, xs). length xs)") auto

declare chunks.simps [simp del]

text \<open>
  \<open>_load_keyed\<close>: one query per chunk of keys; the dictionary is a list with the newest entry first,
  so that a later row with the same key wins.
\<close>

definition load_keyed :: "('r \<Rightarrow> 'k) \<Rightarrow> 'k list \<Rightarrow> 'r list \<Rightarrow> ('k \<times> 'r) list" where
  "load_keyed key keys table =
     rev (concat (map (\<lambda>chunk. map (\<lambda>r. (key r, r)) (filter (\<lambda>r. key r \<in> set chunk) table))
       (chunks MAX_BATCH keys)))"

record page_context =
  ctx_organization_id :: string
  ctx_scope :: effective_scope
  ctx_customers :: "(string \<times> canonical_customer) list"
  ctx_projects :: "(string \<times> canonical_project) list"
  ctx_sectors :: "(string \<times> canonical_project_sector) list"
  ctx_items :: "(string \<times> canonical_item) list"
  ctx_project_children :: "((string \<times> string) \<times> canonical_project_child) list"
  ctx_item_children :: "((string \<times> string) \<times> canonical_item_child) list"
  ctx_entities :: "((string \<times> string) \<times> sync_entity) list"

text \<open>\<open>{k[1]: v for k, v in rows.items()}\<close> and \<open>{(k[1], k[2]): v ...}\<close>: the organization is dropped.\<close>

definition strip_org :: "((string \<times> 'k) \<times> 'r) list \<Rightarrow> ('k \<times> 'r) list" where
  "strip_org rows = map (\<lambda>((_, k), r). (k, r)) rows"

definition ids_of_type :: "sync_change_log list \<Rightarrow> string \<Rightarrow> string list" where
  "ids_of_type changes t = map cl_entity_id (filter (\<lambda>c. cl_entity_type c = t) changes)"

definition typed_keys :: "string \<Rightarrow> sync_change_log list \<Rightarrow> string list \<Rightarrow> (string \<times> string \<times> string) list" where
  "typed_keys org changes types = concat (map (\<lambda>t. map (\<lambda>e. (org, t, e)) (ids_of_type changes t)) types)"

definition load_page_context :: "db \<Rightarrow> principal \<Rightarrow> sync_change_log list \<Rightarrow> page_context" where
  "load_page_context db p changes =
     (let org = organization_id p;
          entities = strip_org (load_keyed entity_key
            (typed_keys org changes (remdups (map cl_entity_type changes))) (sync_entities db));
          customers = strip_org (load_keyed customer_key
            (map (\<lambda>e. (org, e)) (ids_of_type changes ''customer'')) (canonical_customers db));
          project_children = strip_org (load_keyed project_child_key
            (typed_keys org changes PROJECT_CHILD_TYPES) (canonical_project_children db));
          item_children = strip_org (load_keyed item_child_key
            (typed_keys org changes ITEM_CHILD_TYPES) (canonical_item_children db));
          sectors = strip_org (load_keyed sector_key
            (map (\<lambda>e. (org, e)) (ids_of_type changes ''project_sector'')) (canonical_project_sectors db));
          reachable_item_ids = ids_of_type changes ''item'' @ map (\<lambda>(_, c). ic_item_id c) item_children;
          items = strip_org (load_keyed item_key
            (map (\<lambda>e. (org, e)) reachable_item_ids) (canonical_items db));
          wanted_projects = ids_of_type changes ''project''
            @ map (\<lambda>(_, c). pc_project_id c) project_children
            @ map (\<lambda>(_, s). cs_project_id s) sectors
            @ map (\<lambda>(_, i). ci_project_id i) items;
          projects = strip_org (load_keyed project_key
            (map (\<lambda>e. (org, e)) wanted_projects) (canonical_projects db))
      in \<lparr>ctx_organization_id = org, ctx_scope = from_principal p, ctx_customers = customers,
          ctx_projects = projects, ctx_sectors = sectors, ctx_items = items,
          ctx_project_children = project_children, ctx_item_children = item_children,
          ctx_entities = entities\<rparr>)"

section \<open>Resolving\<close>

definition ctx_project_in_scope :: "page_context \<Rightarrow> string \<Rightarrow> bool" where
  "ctx_project_in_scope ctx project_id =
     (case map_of (ctx_projects ctx) project_id of
        None \<Rightarrow> False
      | Some project \<Rightarrow> can_access_project (ctx_scope ctx) (cp_project_id project) (cp_customer_id project))"

definition resolve_visible :: "page_context \<Rightarrow> string \<Rightarrow> string \<Rightarrow> bool" where
  "resolve_visible ctx entity_type entity_id =
     (if entity_type = ''customer'' then
        (case map_of (ctx_customers ctx) entity_id of
           None \<Rightarrow> False
         | Some customer \<Rightarrow> can_access_customer (ctx_scope ctx) (cc_customer_id customer))
      else if entity_type = ''project'' then ctx_project_in_scope ctx entity_id
      else if entity_type = ''project_sector'' then
        (case map_of (ctx_sectors ctx) entity_id of
           None \<Rightarrow> False | Some sector \<Rightarrow> ctx_project_in_scope ctx (cs_project_id sector))
      else if entity_type = ''item'' then
        (case map_of (ctx_items ctx) entity_id of
           None \<Rightarrow> False | Some item \<Rightarrow> ctx_project_in_scope ctx (ci_project_id item))
      else if entity_type \<in> set PROJECT_CHILD_TYPES then
        (case map_of (ctx_project_children ctx) (entity_type, entity_id) of
           None \<Rightarrow> False | Some child \<Rightarrow> ctx_project_in_scope ctx (pc_project_id child))
      else if entity_type \<in> set ITEM_CHILD_TYPES then
        (case map_of (ctx_item_children ctx) (entity_type, entity_id) of
           None \<Rightarrow> False
         | Some child \<Rightarrow>
             (case map_of (ctx_items ctx) (ic_item_id child) of
                None \<Rightarrow> False | Some item \<Rightarrow> ctx_project_in_scope ctx (ci_project_id item)))
      else False)"

definition resolve_delivery_visible :: "page_context \<Rightarrow> string \<Rightarrow> bool" where
  "resolve_delivery_visible ctx entity_id =
     (case map_of (ctx_entities ctx) (DELIVERY_ENTITY_TYPE, entity_id) of
        None \<Rightarrow> False
      | Some ent \<Rightarrow>
          if se_deleted_at ent \<noteq> None \<or> \<not> is_dict (se_payload_json ent) then False
          else case map_of (ctx_project_children ctx) (DELIVERY_ENTITY_TYPE, entity_id) of
              None \<Rightarrow> False
            | Some child \<Rightarrow>
                if pc_deleted_at child \<noteq> None then False
                else case map_of (ctx_projects ctx) (pc_project_id child) of
                    None \<Rightarrow> False
                  | Some project \<Rightarrow>
                      if cp_deleted_at project \<noteq> None then False
                      else can_access_project (ctx_scope ctx) (cp_project_id project) (cp_customer_id project))"

section \<open>Correctness of the loads\<close>

lemma chunks_concat: "0 < n \<Longrightarrow> concat (chunks n xs) = xs"
  by (induction n xs rule: chunks.induct) (subst chunks.simps, auto)

lemma chunks_bound: "c \<in> set (chunks n xs) \<Longrightarrow> length c \<le> n"
  by (induction n xs rule: chunks.induct) (subst (asm) (2) chunks.simps, auto split: if_splits)

lemma set_load_keyed: "set (load_keyed key keys table) = {(key r, r) | r. r \<in> set table \<and> key r \<in> set keys}"
proof -
  have "set keys = (\<Union>c \<in> set (chunks MAX_BATCH keys). set c)"
    using arg_cong [OF chunks_concat [of MAX_BATCH keys], of set] by (simp add: MAX_BATCH_def)
  then show ?thesis by (auto simp: load_keyed_def)
qed

text \<open>The contract of a batched load: under unique primary keys it is the lookup, for the keys asked.\<close>

lemma load_keyed_lookup:
  assumes "keys_ok key table" and "k \<in> set keys"
  shows "map_of (load_keyed key keys table) k = get_row key k table"
proof (cases "get_row key k table")
  case None
  then have "k \<notin> key ` set table" by (simp add: get_row_None)
  then have "k \<notin> fst ` set (load_keyed key keys table)" unfolding set_load_keyed by auto
  with None show ?thesis by (simp add: map_of_eq_None_iff)
next
  case (Some r)
  then have r: "key r = k" "r \<in> set table" using get_row_SomeD by metis+
  then have "(k, r) \<in> set (load_keyed key keys table)" using assms(2) by (auto simp: set_load_keyed)
  then obtain r' where r': "map_of (load_keyed key keys table) k = Some r'"
    by (meson weak_map_of_SomeI)
  then have "(k, r') \<in> set (load_keyed key keys table)" by (rule map_of_SomeD)
  then have "r' \<in> set table" "key r' = k" by (auto simp: set_load_keyed)
  with get_row_mem [OF assms(1)] Some have "r' = r" by fastforce
  with r' Some show ?thesis by simp
qed

lemma map_of_strip_org:
  assumes "\<And>k r. (k, r) \<in> set rows \<Longrightarrow> fst k = org"
  shows "map_of (strip_org rows) k = map_of rows (org, k)"
  using assms
proof (induction rows)
  case (Cons x rows)
  obtain o' k' r' where x: "x = ((o', k'), r')" by (metis surj_pair)
  with Cons.prems [of "(o', k')" r'] have "o' = org" by simp
  with x Cons show ?case by (auto simp: strip_org_def)
qed (simp add: strip_org_def)

lemma strip_load_lookup:
  assumes "keys_ok key table" and "(org, k) \<in> set keys" and "\<And>x. x \<in> set keys \<Longrightarrow> fst x = org"
  shows "map_of (strip_org (load_keyed key keys table)) k = get_row key (org, k) table"
proof -
  have "map_of (strip_org (load_keyed key keys table)) k = map_of (load_keyed key keys table) (org, k)"
    by (rule map_of_strip_org) (use assms(3) in \<open>auto simp: set_load_keyed\<close>)
  then show ?thesis using load_keyed_lookup [OF assms(1,2)] by simp
qed


definition unique_keys :: "db \<Rightarrow> bool" where
  "unique_keys db \<longleftrightarrow> keys_ok customer_key (canonical_customers db) \<and> keys_ok project_key (canonical_projects db)
     \<and> keys_ok sector_key (canonical_project_sectors db) \<and> keys_ok item_key (canonical_items db)
     \<and> keys_ok project_child_key (canonical_project_children db)
     \<and> keys_ok item_child_key (canonical_item_children db) \<and> keys_ok entity_key (sync_entities db)"

text \<open>What a loaded page knows about the change \<open>(t, e)\<close>.\<close>

lemma in_ids_of_type: "c \<in> set changes \<Longrightarrow> cl_entity_id c \<in> set (ids_of_type changes (cl_entity_type c))"
  by (auto simp: ids_of_type_def)

lemma in_typed_keys: "(org, t, e) \<in> set (typed_keys org changes types) \<longleftrightarrow> t \<in> set types \<and> e \<in> set (ids_of_type changes t)"
  by (auto simp: typed_keys_def)

lemma typed_keys_org: "(a, b) \<in> set (typed_keys org changes types) \<Longrightarrow> a = org"
  by (auto simp: typed_keys_def)

lemma ids_of_type_type: "e \<in> set (ids_of_type changes t) \<Longrightarrow> t \<in> cl_entity_type ` set changes"
  by (auto simp: ids_of_type_def)

lemma ctx_scope_load [simp]: "ctx_scope (load_page_context db p changes) = from_principal p"
  by (simp add: load_page_context_def Let_def)

lemma ctx_loads:
  fixes p :: principal
  assumes u: "unique_keys db" and e: "e \<in> set (ids_of_type changes t)"
  defines "ctx \<equiv> load_page_context db p changes"
  shows "map_of (ctx_entities ctx) (t, e) = get_entity db (organization_id p) t e"
    and "t = ''customer'' \<Longrightarrow> map_of (ctx_customers ctx) e = get_customer db (organization_id p) e"
    and "t \<in> set PROJECT_CHILD_TYPES \<Longrightarrow>
           map_of (ctx_project_children ctx) (t, e) = get_project_child db (organization_id p) t e"
    and "t \<in> set ITEM_CHILD_TYPES \<Longrightarrow>
           map_of (ctx_item_children ctx) (t, e) = get_item_child db (organization_id p) t e"
    and "t = ''project_sector'' \<Longrightarrow> map_of (ctx_sectors ctx) e = get_sector db (organization_id p) e"
    and "t = ''item'' \<Longrightarrow> map_of (ctx_items ctx) e = get_item db (organization_id p) e"
    and "t = ''project'' \<Longrightarrow> map_of (ctx_projects ctx) e = get_project db (organization_id p) e"
  using u e ids_of_type_type [OF e]
  by (auto simp: ctx_def load_page_context_def Let_def get_defs unique_keys_def in_typed_keys
      intro!: strip_load_lookup dest: typed_keys_org)

lemma load_ids:
  "keys_ok key table \<Longrightarrow> x \<in> set ids \<Longrightarrow>
     map_of (strip_org (load_keyed key (map (\<lambda>e. (org, e)) ids) table)) x = get_row key (org, x) table"
  by (rule strip_load_lookup) auto

lemma map_of_value: "map_of xs k = Some v \<Longrightarrow> f v \<in> set (map (\<lambda>(_, c). f c) xs)"
  by (force dest: map_of_SomeD)

lemma ctx_items_load:
  "ctx_items (load_page_context db p changes) = strip_org (load_keyed item_key
     (map (\<lambda>e. (organization_id p, e)) (ids_of_type changes ''item''
        @ map (\<lambda>(_, c). ic_item_id c) (ctx_item_children (load_page_context db p changes))))
     (canonical_items db))"
  by (simp add: load_page_context_def Let_def)

lemma ctx_projects_load:
  "ctx_projects (load_page_context db p changes) = strip_org (load_keyed project_key
     (map (\<lambda>e. (organization_id p, e)) (ids_of_type changes ''project''
        @ map (\<lambda>(_, c). pc_project_id c) (ctx_project_children (load_page_context db p changes))
        @ map (\<lambda>(_, s). cs_project_id s) (ctx_sectors (load_page_context db p changes))
        @ map (\<lambda>(_, i). ci_project_id i) (ctx_items (load_page_context db p changes))))
     (canonical_projects db))"
  by (simp add: load_page_context_def Let_def)

lemma ctx_second_hop:
  assumes "unique_keys db"
  shows "map_of (ctx_item_children (load_page_context db p changes)) k = Some c \<Longrightarrow>
           map_of (ctx_items (load_page_context db p changes)) (ic_item_id c)
             = get_item db (organization_id p) (ic_item_id c)"
    and "map_of (ctx_project_children (load_page_context db p changes)) k = Some pc \<Longrightarrow>
           map_of (ctx_projects (load_page_context db p changes)) (pc_project_id pc)
             = get_project db (organization_id p) (pc_project_id pc)"
    and "map_of (ctx_sectors (load_page_context db p changes)) i = Some s \<Longrightarrow>
           map_of (ctx_projects (load_page_context db p changes)) (cs_project_id s)
             = get_project db (organization_id p) (cs_project_id s)"
    and "map_of (ctx_items (load_page_context db p changes)) i = Some it \<Longrightarrow>
           map_of (ctx_projects (load_page_context db p changes)) (ci_project_id it)
             = get_project db (organization_id p) (ci_project_id it)"
proof -
  have u: "keys_ok item_key (canonical_items db)" "keys_ok project_key (canonical_projects db)"
    using assms by (simp_all add: unique_keys_def)
  show "map_of (ctx_items (load_page_context db p changes)) (ic_item_id c) = get_item db (organization_id p) (ic_item_id c)"
    if "map_of (ctx_item_children (load_page_context db p changes)) k = Some c"
    unfolding ctx_items_load get_item_def
    by (rule load_ids [OF u(1)]) (use map_of_value [OF that, of ic_item_id] in simp)
  show "map_of (ctx_projects (load_page_context db p changes)) (pc_project_id pc) = get_project db (organization_id p) (pc_project_id pc)"
    if "map_of (ctx_project_children (load_page_context db p changes)) k = Some pc"
    unfolding ctx_projects_load get_project_def
    by (rule load_ids [OF u(2)]) (use map_of_value [OF that, of pc_project_id] in simp)
  show "map_of (ctx_projects (load_page_context db p changes)) (cs_project_id s) = get_project db (organization_id p) (cs_project_id s)"
    if "map_of (ctx_sectors (load_page_context db p changes)) i = Some s"
    unfolding ctx_projects_load get_project_def
    by (rule load_ids [OF u(2)]) (use map_of_value [OF that, of cs_project_id] in simp)
  show "map_of (ctx_projects (load_page_context db p changes)) (ci_project_id it) = get_project db (organization_id p) (ci_project_id it)"
    if "map_of (ctx_items (load_page_context db p changes)) i = Some it"
    unfolding ctx_projects_load get_project_def
    by (rule load_ids [OF u(2)]) (use map_of_value [OF that, of ci_project_id] in simp)
qed

section \<open>Equivalence\<close>

lemma page_resolves:
  assumes "unique_keys db" and "c \<in> set changes"
  shows "resolve_visible (load_page_context db p changes) (cl_entity_type c) (cl_entity_id c)
      = record_is_visible db p (cl_entity_type c) (cl_entity_id c)
    \<and> (cl_entity_type c = DELIVERY_ENTITY_TYPE \<longrightarrow>
         resolve_delivery_visible (load_page_context db p changes) (cl_entity_id c)
         = delivery_execution_is_visible db p (cl_entity_id c))
    \<and> map_of (ctx_entities (load_page_context db p changes)) (cl_entity_type c, cl_entity_id c)
      = get_entity db (organization_id p) (cl_entity_type c) (cl_entity_id c)"
proof -
  let ?ctx = "load_page_context db p changes"
  have e: "cl_entity_id c \<in> set (ids_of_type changes (cl_entity_type c))" by (rule in_ids_of_type [OF assms(2)])
  note first = ctx_loads [OF assms(1) e, of p]
  note hop = ctx_second_hop [OF assms(1), of p changes]
  have proj: "ctx_project_in_scope ?ctx k = project_in_scope db p k"
    if "map_of (ctx_projects ?ctx) k = get_project db (organization_id p) k" for k
    using that by (simp add: ctx_project_in_scope_def project_in_scope_def split: option.split)
  have sec: "(case map_of (ctx_sectors ?ctx) k of None \<Rightarrow> False | Some s \<Rightarrow> ctx_project_in_scope ?ctx (cs_project_id s))
      = (case map_of (ctx_sectors ?ctx) k of None \<Rightarrow> False | Some s \<Rightarrow> project_in_scope db p (cs_project_id s))" for k
    by (cases "map_of (ctx_sectors ?ctx) k") (simp_all add: proj hop)
  have pch: "(case map_of (ctx_project_children ?ctx) k of None \<Rightarrow> False | Some s \<Rightarrow> ctx_project_in_scope ?ctx (pc_project_id s))
      = (case map_of (ctx_project_children ?ctx) k of None \<Rightarrow> False | Some s \<Rightarrow> project_in_scope db p (pc_project_id s))" for k
    by (cases "map_of (ctx_project_children ?ctx) k") (simp_all add: proj hop)
  have itm: "(case map_of (ctx_items ?ctx) k of None \<Rightarrow> False | Some s \<Rightarrow> ctx_project_in_scope ?ctx (ci_project_id s))
      = (case map_of (ctx_items ?ctx) k of None \<Rightarrow> False | Some s \<Rightarrow> project_in_scope db p (ci_project_id s))" for k
    by (cases "map_of (ctx_items ?ctx) k") (simp_all add: proj hop)
  have ich: "(case map_of (ctx_item_children ?ctx) k of None \<Rightarrow> False
        | Some ch \<Rightarrow> (case map_of (ctx_items ?ctx) (ic_item_id ch) of None \<Rightarrow> False | Some s \<Rightarrow> project_in_scope db p (ci_project_id s)))
      = (case map_of (ctx_item_children ?ctx) k of None \<Rightarrow> False
        | Some ch \<Rightarrow> (case get_item db (organization_id p) (ic_item_id ch) of None \<Rightarrow> False | Some s \<Rightarrow> project_in_scope db p (ci_project_id s)))" for k
    by (cases "map_of (ctx_item_children ?ctx) k") (simp_all add: hop)
  have "resolve_visible ?ctx (cl_entity_type c) (cl_entity_id c)
      = record_is_visible db p (cl_entity_type c) (cl_entity_id c)"
    unfolding resolve_visible_def record_is_visible_def sec pch itm ich ctx_scope_load
    by (intro if_cong refl; simp add: first proj)
  moreover have "resolve_delivery_visible ?ctx (cl_entity_id c) = delivery_execution_is_visible db p (cl_entity_id c)"
    if "cl_entity_type c = DELIVERY_ENTITY_TYPE"
    unfolding resolve_delivery_visible_def delivery_execution_is_visible_def
    using first(1,3) that
    by (auto simp: PROJECT_CHILD_TYPES_def DELIVERY_ENTITY_TYPE_def hop split: option.split)
  ultimately show ?thesis using first(1) by blast
qed

section \<open>Properties\<close>

text \<open>
  C30. The batched resolvers decide exactly what the per-record functions decide: for every change
  of the page, the visibility computed from the loaded context is that of the single-record
  lookup, for deliveries the stricter one, and the payload row is the stored entity. The only
  assumption is that primary keys are unique.
\<close>

theorem prefetch_equivalent:
  assumes "unique_keys db" and "c \<in> set changes"
  shows "resolve_visible (load_page_context db p changes) (cl_entity_type c) (cl_entity_id c)
      = record_is_visible db p (cl_entity_type c) (cl_entity_id c)
    \<and> (cl_entity_type c = DELIVERY_ENTITY_TYPE \<longrightarrow>
         resolve_delivery_visible (load_page_context db p changes) (cl_entity_id c)
         = delivery_execution_is_visible db p (cl_entity_id c))
    \<and> map_of (ctx_entities (load_page_context db p changes)) (cl_entity_type c, cl_entity_id c)
      = get_entity db (organization_id p) (cl_entity_type c) (cl_entity_id c)"
  by (rule page_resolves [OF assms])

definition demo_change :: sync_change_log where
  "demo_change = \<lparr>cl_sequence = 1, cl_organization_id = ''o'', cl_entity_type = ''configuration'',
     cl_entity_id = ''cfg'', cl_server_revision = 7, cl_client_mutation_id = ''m1'', cl_operation = ''upsert''\<rparr>"

theorem prefetch_equivalent_witness:
  "resolve_visible (load_page_context demo_owner_db demo_editor [demo_change]) ''configuration'' ''cfg''"
proof -
  have "unique_keys demo_owner_db"
    by (simp add: unique_keys_def demo_owner_db_def empty_db_def keys_ok_def project_key_def)
  moreover have "record_is_visible demo_owner_db demo_editor ''configuration'' ''cfg''" by code_simp
  ultimately show ?thesis
    using prefetch_equivalent [of demo_owner_db demo_change "[demo_change]" demo_editor]
    by (simp add: demo_change_def)
qed

end
