(* ===== verification/Sync_Pull.thy ===== *)
theory Sync_Pull
  imports Sync_Push Pull_Prefetch
begin

text \<open>
  The pull half of \<open>app/sync_service.py\<close>: cursors, the page of changes after a cursor, the records
  built from it and the ceilings of a page. The size of a batch as pydantic serializes it
  (\<open>model_dump_json\<close>) is the parameter \<open>dump_size\<close>.
\<close>

section \<open>Cursors\<close>

definition MAX_CURSOR_SEQUENCE :: int where
  "MAX_CURSOR_SEQUENCE = 2 ^ 63 - 1"

definition MAX_CURSOR_DIGITS :: nat where
  "MAX_CURSOR_DIGITS = 19"

text \<open>\<open>str.isdigit\<close> below code point 256: the ASCII digits and the superscripts two, three and one.\<close>

definition py_isdigit :: "string \<Rightarrow> bool" where
  "py_isdigit s \<longleftrightarrow> s \<noteq> [] \<and> list_all (\<lambda>c. ascii_digit c \<or> c = CHR 0xB2 \<or> c = CHR 0xB3 \<or> c = CHR 0xB9) s"

text \<open>\<open>int(digits)\<close> accepts decimal digits only.\<close>

definition int_of_digits :: "string \<Rightarrow> int res" where
  "int_of_digits s = (if list_all ascii_digit s then ok (int (parse_nat s)) else raise ValueError)"

definition parse_cursor :: "string option \<Rightarrow> int res" where
  "parse_cursor cursor =
     (case cursor of
        None \<Rightarrow> ok 0
      | Some c \<Rightarrow>
          if c = [] then ok 0
          else if take 4 c \<noteq> ''seq:'' \<or> \<not> py_isdigit (drop 4 c) then raise InvalidMutation
          else let digits = drop 4 c in
            if MAX_CURSOR_DIGITS < length digits then raise InvalidMutation
            else ebind (int_of_digits digits) (\<lambda>n.
              if MAX_CURSOR_SEQUENCE < n then raise InvalidMutation else ok n))"

section \<open>The page\<close>

definition MAX_SYNC_PULL_SCAN_CHANGES :: nat where
  "MAX_SYNC_PULL_SCAN_CHANGES = 500"

definition MAX_SYNC_PULL_RESPONSE_BYTES :: nat where
  "MAX_SYNC_PULL_RESPONSE_BYTES = 2250000"

definition changes_after :: "db \<Rightarrow> string \<Rightarrow> int \<Rightarrow> sync_change_log list" where
  "changes_after db org start =
     sort_key cl_sequence (filter (\<lambda>c. cl_organization_id c = org \<and> start < cl_sequence c) (sync_change_logs db))"

definition page_batch :: "sync_record list \<Rightarrow> int \<Rightarrow> sync_batch" where
  "page_batch records sequence =
     \<lparr>sb_device_id = ''server'', sb_cursor = Some (cursor_text sequence), sb_records = records\<rparr>"

definition pull_page_accepts ::
  "(sync_batch \<Rightarrow> nat) \<Rightarrow> sync_record list \<Rightarrow> sync_record \<Rightarrow> int \<Rightarrow> bool res" where
  "pull_page_accepts dump_size records record sequence =
     (if MAX_SYNC_RECORDS \<le> length records then ok False
      else if MAX_SYNC_V1_BATCH_PAYLOAD_BYTES
                < sum_list (map (\<lambda>item. length (sr_payload item)) records) + length (sr_payload record)
      then ok False
      else let candidate = page_batch (records @ [record]) sequence in
        if \<not> sync_batch_valid candidate then raise ValidationError
        else ok (dump_size candidate \<le> MAX_SYNC_PULL_RESPONSE_BYTES))"

definition encoded_payload :: "sync_entity \<Rightarrow> string" where
  "encoded_payload ent =
     b64encode (utf8 (json_dumps True (if py_truthy (se_payload_json ent) then se_payload_json ent else JObj [])))"

definition server_record :: "sync_change_log \<Rightarrow> sync_entity \<Rightarrow> sync_record" where
  "server_record change ent =
     \<lparr>sr_id = ''server:'' @ show_int (cl_sequence change), sr_entity_type = cl_entity_type change,
      sr_entity_id = cl_entity_id change, sr_updated_at = se_updated_at ent,
      sr_payload = encoded_payload ent, sr_base_server_revision = None,
      sr_server_revision = Some (se_server_revision ent),
      sr_client_mutation_id = Some (cl_client_mutation_id change), sr_deleted_at = se_deleted_at ent\<rparr>"

definition change_visible :: "page_context \<Rightarrow> sync_change_log \<Rightarrow> bool" where
  "change_visible page change =
     (if cl_entity_type change = DELIVERY_ENTITY_TYPE then resolve_delivery_visible page (cl_entity_id change)
      else resolve_visible page (cl_entity_type change) (cl_entity_id change))"

text \<open>The loop: records, the last consumed sequence and whether a record did not fit.\<close>

fun pull_loop ::
  "(sync_batch \<Rightarrow> nat) \<Rightarrow> page_context \<Rightarrow> sync_change_log list \<Rightarrow> sync_record list \<Rightarrow> int
     \<Rightarrow> (sync_record list \<times> int \<times> bool) res" where
  "pull_loop dump_size page [] records max_seq = ok (records, max_seq, False)"
| "pull_loop dump_size page (change # rest) records max_seq =
     (if \<not> change_visible page change
      then pull_loop dump_size page rest records (max max_seq (cl_sequence change))
      else case map_of (ctx_entities page) (cl_entity_type change, cl_entity_id change) of
          None \<Rightarrow> pull_loop dump_size page rest records (max max_seq (cl_sequence change))
        | Some ent \<Rightarrow>
            let record = server_record change ent in
            if \<not> sync_record_valid record then raise ValidationError
            else ebind (pull_page_accepts dump_size records record (cl_sequence change)) (\<lambda>fits.
              if \<not> fits then ok (records, max_seq, True)
              else pull_loop dump_size page rest (records @ [record]) (max max_seq (cl_sequence change))))"

definition pull_since :: "(sync_batch \<Rightarrow> nat) \<Rightarrow> db \<Rightarrow> principal \<Rightarrow> string option \<Rightarrow> sync_batch res" where
  "pull_since dump_size db p cursor =
     (if ''sync'' \<notin> capabilities p then raise PermissionError
      else ebind (parse_cursor cursor) (\<lambda>start.
        let changes = take MAX_SYNC_PULL_SCAN_CHANGES (changes_after db (organization_id p) start);
            page = load_page_context db p changes
        in ebind (pull_loop dump_size page changes [] start) (\<lambda>(records, max_seq, _).
             if sync_batch_valid (page_batch records max_seq) then ok (page_batch records max_seq)
             else raise ValidationError)))"

end
