(* ===== verification/Sync_Push_Relation.thy ===== *)
theory Sync_Push_Relation
  imports Sync_Push Ownership_Correct Pull_Prefetch
begin

text \<open>
  What a push does to the database. The row stores of the ownership layer are abstracted by the step
  relation \<open>own_step\<close>; the locale \<open>push_relation\<close> says what a relation between databases must
  satisfy to hold between the state before and the state after a whole push, and is interpreted
  on the relations the properties are about.
\<close>

section \<open>Stores of the ownership layer\<close>

inductive own_step :: "principal \<Rightarrow> db \<Rightarrow> db \<Rightarrow> bool" for p where
  customer: "cc_organization_id r = organization_id p \<Longrightarrow>
    own_step p db (db\<lparr>canonical_customers := put_row customer_key r (canonical_customers db)\<rparr>)"
| project: "cp_organization_id r = organization_id p \<Longrightarrow>
    own_step p db (db\<lparr>canonical_projects := put_row project_key r (canonical_projects db)\<rparr>)"
| sector: "cs_organization_id r = organization_id p \<Longrightarrow>
    own_step p db (db\<lparr>canonical_project_sectors := put_row sector_key r (canonical_project_sectors db)\<rparr>)"
| item: "ci_organization_id r = organization_id p \<Longrightarrow>
    own_step p db (db\<lparr>canonical_items := put_row item_key r (canonical_items db)\<rparr>)"
| project_child: "pc_organization_id r = organization_id p \<Longrightarrow>
    own_step p db (db\<lparr>canonical_project_children := put_row project_child_key r (canonical_project_children db)\<rparr>)"
| item_child: "ic_organization_id r = organization_id p \<Longrightarrow>
    own_step p db (db\<lparr>canonical_item_children := put_row item_child_key r (canonical_item_children db)\<rparr>)"
| grant: "get_membership db (mem_id m) = Some m0 \<Longrightarrow> mem_organization_id m0 = organization_id p \<Longrightarrow>
    mem_organization_id m = organization_id p \<Longrightarrow> org_id o' = organization_id p \<Longrightarrow>
    own_step p db (db\<lparr>memberships := put_row mem_id m (memberships db),
      organizations := put_row org_id o' (organizations db)\<rparr>)"

definition own_steps :: "principal \<Rightarrow> db \<Rightarrow> db \<Rightarrow> bool" where
  "own_steps p = (own_step p)\<^sup>*\<^sup>*"

lemma own_steps_refl [intro, simp]: "own_steps p db db"
  by (simp add: own_steps_def)

lemma own_stepI: "own_step p db db' \<Longrightarrow> own_steps p db db'"
  by (simp add: own_steps_def)

lemma own_steps_trans: "own_steps p a b \<Longrightarrow> own_steps p b c \<Longrightarrow> own_steps p a c"
  unfolding own_steps_def by (rule rtranclp_trans)

lemma grant_own:
  assumes "grant_created_scope db p c pr = (db', r)"
  shows "own_steps p db db'"
proof (cases "db' = db")
  case False
  with assms obtain m org where m: "get_membership db (membership_id p) = Some m"
    and org: "get_organization db (organization_id p) = Some org" and "mem_organization_id m = organization_id p"
    by (auto simp: grant_created_scope_def split: option.splits if_splits)
  moreover have "get_membership db (mem_id m) = Some m" using get_membership_key [OF m] m by simp
  ultimately show ?thesis
    using assms get_organization_key [OF org] unfolding grant_created_scope_def Let_def
    by (auto split: option.splits if_splits intro!: own_stepI own_step.grant)
qed simp

lemma store_grant_own:
  "own_step p db db1 \<Longrightarrow> grant_created_scope db1 p c pr = (db', r) \<Longrightarrow> own_steps p db db'"
  by (blast intro: own_steps_trans own_stepI grant_own)

lemma customer_plan_own:
  assumes "apply_customer_plan db p scope plan = (db', scope', r)"
  shows "own_steps p db db'"
proof (cases "get_customer db (organization_id p) (op_entity_id plan)")
  case None
  with assms show ?thesis unfolding apply_customer_plan_def Let_def
    by (auto split: prod.splits elim!: store_grant_own [rotated] intro: own_step.customer)
next
  case (Some model)
  with assms get_customer_key [OF Some] show ?thesis unfolding apply_customer_plan_def
    by (auto intro!: own_stepI own_step.customer)
qed

lemma project_plan_own:
  assumes "apply_project_plan db p scope plan = (db', scope', r)"
  shows "own_steps p db db'"
proof (cases "get_project db (organization_id p) (op_entity_id plan)")
  case None
  with assms show ?thesis unfolding apply_project_plan_def Let_def
    by (auto split: prod.splits option.splits elim!: store_grant_own [rotated] intro: own_step.project)
next
  case (Some model)
  with assms get_project_key [OF Some] show ?thesis unfolding apply_project_plan_def
    by (auto split: option.splits if_splits intro!: own_stepI own_step.project)
qed

lemma leaf_plan_own:
  "apply_sector_plan db p plan = (db', r) \<Longrightarrow> own_steps p db db'"
  "apply_item_plan db p plan = (db', r) \<Longrightarrow> own_steps p db db'"
  "apply_project_child_plan db p plan = (db', r) \<Longrightarrow> own_steps p db db'"
  "apply_item_child_plan db p plan = (db', r) \<Longrightarrow> own_steps p db db'"
  unfolding apply_sector_plan_def apply_item_plan_def apply_project_child_plan_def apply_item_child_plan_def
  by (auto split: option.splits if_splits
      dest!: get_sector_key get_item_key get_project_child_key get_item_child_key
      intro!: own_stepI own_step.intros)

lemma plan_own: "apply_ownership_plan db p scope plan = (db', scope', r) \<Longrightarrow> own_steps p db db'"
  unfolding apply_ownership_plan_def Let_def
  by (auto split: if_splits prod.splits intro: customer_plan_own project_plan_own leaf_plan_own)

lemma delivery_own: "apply_delivery_execution_ownership db p k project = (db', r) \<Longrightarrow> own_steps p db db'"
  unfolding apply_delivery_execution_ownership_def
  by (auto split: option.splits intro!: own_stepI own_step.intros)

lemma authorize_and_own_steps:
  "authorize_and_own env db p scope record current payload = (db', scope', r) \<Longrightarrow> own_steps p db db'"
  unfolding authorize_and_own_def
  by (auto split: if_splits sum.splits prod.splits intro: plan_own delivery_own)

text \<open>They touch no synchronization table and keep every organization.\<close>

definition sync_frame :: "db \<Rightarrow> db \<Rightarrow> bool" where
  "sync_frame db db' \<longleftrightarrow> sync_entities db' = sync_entities db \<and> sync_mutations db' = sync_mutations db
     \<and> sync_mutation_fingerprints db' = sync_mutation_fingerprints db
     \<and> sync_change_logs db' = sync_change_logs db \<and> next_change_sequence db' = next_change_sequence db
     \<and> evidence_blobs db' = evidence_blobs db"

lemma own_steps_frame: "own_steps p db db' \<Longrightarrow> sync_frame db db'"
  unfolding own_steps_def
proof (induction rule: rtranclp_induct)
  case (step y z)
  from step.hyps(2) have "sync_frame y z" by cases (simp_all add: sync_frame_def)
  with step.IH show ?case by (simp add: sync_frame_def)
qed (simp add: sync_frame_def)

lemma sync_frame_gets:
  assumes "sync_frame db db'"
  shows "get_entity db' = get_entity db" "get_mutation db' = get_mutation db"
    "get_fingerprint db' = get_fingerprint db" "next_revision db' = next_revision db"
    "last_sequence db' = last_sequence db"
  using assms by (simp_all add: sync_frame_def get_defs next_revision_def last_sequence_def fun_eq_iff)

lemma gc_frame: "sync_frame db (queue_evidence_gc env db p record)"
  by (simp add: queue_evidence_gc_def queue_blob_gc_def sync_frame_def Let_def split: option.split)

lemma sync_frame_trans: "sync_frame a b \<Longrightarrow> sync_frame b c \<Longrightarrow> sync_frame a c"
  by (simp add: sync_frame_def)

lemma sync_frame_refl [intro, simp]: "sync_frame db db"
  by (simp add: sync_frame_def)

section \<open>Inversion\<close>

lemma try_mutationE:
  assumes "try_mutation env db p scope record current = (db', scope', r)"
  obtains (invalid) e where "db' = db" "scope' = scope" "r = Inl e"
  | (denied) payload e where "decode_payload (pe_lib env) record = Inr payload"
      "validate_mutation env db p record current payload = Inr ()"
      "authorize_and_own env db p scope record current payload = (db', scope', Inl e)" "r = Inl e"
  | (granted) payload db1 where "decode_payload (pe_lib env) record = Inr payload"
      "validate_mutation env db p record current payload = Inr ()"
      "authorize_and_own env db p scope record current payload = (db1, scope', Inr ())"
      "db' = queue_evidence_gc env db1 p record" "r = Inr payload"
proof (cases "ebind (decode_payload (pe_lib env) record) (\<lambda>payload.
    seq (validate_mutation env db p record current payload) (ok payload))")
  case (Inl e)
  with assms have "db' = db \<and> scope' = scope \<and> r = Inl e" by (simp add: try_mutation_def)
  with invalid show thesis by blast
next
  case (Inr payload)
  then have ok: "decode_payload (pe_lib env) record = Inr payload"
    "validate_mutation env db p record current payload = Inr ()" by (auto simp: res_simps)
  obtain db1 scope1 q where q: "authorize_and_own env db p scope record current payload = (db1, scope1, q)"
    by (rule prod_cases3)
  show thesis
  proof (cases q)
    case (Inl e)
    with assms ok q denied show thesis by (simp add: try_mutation_def)
  next
    case (Inr u)
    with assms ok q granted show thesis by (simp add: try_mutation_def)
  qed
qed

lemma try_mutation_frame:
  "try_mutation env db p scope record current = (db', scope', r) \<Longrightarrow> sync_frame db db'"
  by (erule try_mutationE)
    (auto dest!: authorize_and_own_steps own_steps_frame intro: sync_frame_trans gc_frame)

text \<open>The four ways one record ends: no effect, a spent id, an accepted write, an uncaught exception.\<close>

lemma push_recordE:
  assumes "push_record env db p scope batch record = (db', scope', r)"
  obtains (unchanged) b where "db' = db" "scope' = scope" "r = Inr b"
      "\<And>k. sr_client_mutation_id record = Some k \<Longrightarrow> k = [] \<or> get_mutation db (organization_id p) k \<noteq> None"
  | (stale) k rev ev where "sr_client_mutation_id record = Some k" "k \<noteq> []" "get_mutation db (organization_id p) k = None"
      "db' = record_mutation env db p batch record k ''rejected'' rev" "scope' = scope" "r = Inr (False, ev)"
  | (rejected) k rev ev e db1 current where "sr_client_mutation_id record = Some k" "k \<noteq> []"
      "get_mutation db (organization_id p) k = None"
      "current = get_entity db (organization_id p) (sr_entity_type record) (sr_entity_id record)"
      "try_mutation env db p scope record current = (db1, scope', Inl e)"
      "db' = record_mutation env db1 p batch record k ''rejected'' rev" "r = Inr (False, ev)"
  | (accepted) k rev ev db1 current payload where "sr_client_mutation_id record = Some k" "k \<noteq> []"
      "get_mutation db (organization_id p) k = None"
      "current = get_entity db (organization_id p) (sr_entity_type record) (sr_entity_id record)"
      "\<not> stale_revision current record"
      "try_mutation env db p scope record current = (db1, scope', Inr payload)"
      "commit_record env db1 p batch record k current payload = (db', rev)" "r = Inr (True, ev)"
  | (raised) e current where
      "current = get_entity db (organization_id p) (sr_entity_type record) (sr_entity_id record)"
      "try_mutation env db p scope record current = (db', scope', Inl e)" "r = Inl e"
proof (cases "\<exists>k. sr_client_mutation_id record = Some k \<and> k \<noteq> [] \<and> get_mutation db (organization_id p) k = None")
  case False
  with assms have "db' = db \<and> scope' = scope \<and> (\<exists>b. r = Inr b)"
    by (auto simp: push_record_def split: option.splits if_splits)
  then obtain b where "db' = db" "scope' = scope" "r = Inr b" by blast
  from this show thesis by (rule unchanged) (use False in auto)
next
  case True
  then obtain k where k: "sr_client_mutation_id record = Some k" "k \<noteq> []"
    "get_mutation db (organization_id p) k = None" by blast
  let ?c = "get_entity db (organization_id p) (sr_entity_type record) (sr_entity_id record)"
  from assms k have fresh: "push_fresh env db p scope batch record k = (db', scope', r)"
    by (simp add: push_record_def)
  show thesis
  proof (cases "stale_revision ?c record")
    case True
    with fresh stale [OF k] show thesis by (auto simp: push_fresh_def Let_def)
  next
    case fit: False
    obtain db1 scope1 q where q: "try_mutation env db p scope record ?c = (db1, scope1, q)"
      by (rule prod_cases3)
    show thesis
    proof (cases q)
      case (Inl e)
      with fresh fit q rejected [OF k refl] raised [OF refl] show thesis
        by (auto simp: push_fresh_def Let_def split: if_splits)
    next
      case (Inr payload)
      with fresh fit q accepted [OF k refl fit] show thesis
        by (auto simp: push_fresh_def Let_def split: prod.splits)
    qed
  qed
qed

section \<open>Relations a push satisfies\<close>

text \<open>
  A preorder that a rollback satisfies; one that in addition holds for every single record of a
  push holds for the whole push. \<open>push_relation\<close> gives the latter from the single writes.
\<close>

locale db_relation =
  fixes rel :: "principal \<Rightarrow> db \<Rightarrow> db \<Rightarrow> bool"
  assumes rel_refl: "rel p db db"
    and rel_trans: "rel p db db1 \<Longrightarrow> rel p db1 db2 \<Longrightarrow> rel p db db2"
    and rel_rollback: "next_change_sequence db \<le> next_change_sequence db' \<Longrightarrow> rel p db (rollback db db')"

locale record_relation = db_relation +
  assumes rel_record: "push_record env db p scope batch record = (db', scope', r) \<Longrightarrow> rel p db db'"
begin

lemma rel_loop:
  assumes "push_loop env db p scope batch rs outcomes events = (db', r)"
  shows "rel p db db'"
  using assms
proof (induction rs arbitrary: db scope outcomes events)
  case (Cons x rs)
  obtain i rec where x: "x = (i, rec)" by fastforce
  obtain db1 scope1 q where q: "push_record env db p scope batch rec = (db1, scope1, q)"
    by (rule prod_cases3)
  from Cons x q rel_record [OF q] show ?case
    by (cases q) (auto split: prod.splits intro: rel_trans)
qed (simp add: rel_refl)

end

locale push_relation = db_relation +
  assumes rel_own: "authorize_and_own env db p scope record current payload = (db', scope', q) \<Longrightarrow> rel p db db'"
    and rel_gc: "rel p db (queue_evidence_gc env db p record)"
    and rel_reject: "get_mutation db (organization_id p) k = None \<Longrightarrow>
      rel p db (record_mutation env db p batch record k ''rejected'' rv)"
    and rel_commit: "get_mutation db (organization_id p) k = None \<Longrightarrow>
      current = get_entity db (organization_id p) (sr_entity_type record) (sr_entity_id record) \<Longrightarrow>
      \<not> stale_revision current record \<Longrightarrow>
      commit_record env db p batch record k current payload = (db', revision) \<Longrightarrow> rel p db db'"
begin

lemma rel_try:
  assumes "try_mutation env db p scope record current = (db', scope', r)"
  shows "rel p db db'"
  using assms by (cases rule: try_mutationE) (auto intro: rel_refl rel_own rel_trans [OF rel_own rel_gc])

lemma rel_writes:
  assumes "push_record env db p scope batch record = (db', scope', r)"
  shows "rel p db db'"
  using assms
proof (cases rule: push_recordE)
  case (rejected k rv ev e db1 current)
  then have "get_mutation db1 (organization_id p) k = None"
    using sync_frame_gets [OF try_mutation_frame] by metis
  with rejected show ?thesis by (blast intro: rel_trans rel_try rel_reject)
next
  case (accepted k rv ev db1 current payload)
  note same = sync_frame_gets [OF try_mutation_frame [OF accepted(6)]]
  from accepted(3-5) have "rel p db1 db'"
    by (intro rel_commit [OF _ _ _ accepted(7)]) (simp_all add: same)
  with accepted(6) show ?thesis by (blast intro: rel_trans rel_try)
qed (auto intro: rel_refl rel_reject rel_try)

end

sublocale push_relation \<subseteq> record_relation
  by unfold_locales (rule rel_writes)

text \<open>Sequence numbers only grow.\<close>

lemma commit_record_next:
  "commit_record env db p batch record k current payload = (db', rv) \<Longrightarrow>
     next_change_sequence db' = next_change_sequence db + 1"
  by (auto simp: commit_record_def Let_def append_change_def record_mutation_def)

interpretation seq_up: push_relation "\<lambda>_ db db'. next_change_sequence db \<le> next_change_sequence db'"
proof unfold_locales
  show "next_change_sequence db \<le> next_change_sequence db'"
    if "authorize_and_own env db p scope rec current payload = (db', scope', q)"
    for env db p scope rec current payload db' scope' q
    using own_steps_frame [OF authorize_and_own_steps [OF that]] by (simp add: sync_frame_def)
  show "next_change_sequence db \<le> next_change_sequence (queue_evidence_gc env db p rec)" for db env p rec
    using gc_frame [of db env p rec] by (simp add: sync_frame_def)
qed (auto simp: record_mutation_def rollback_def dest: commit_record_next)

context record_relation
begin

lemma rel_once: "rel p db (fst (apply_push_once env db p batch))"
  unfolding apply_push_once_def
  by (auto split: prod.splits sum.splits intro: rel_refl rel_loop rel_rollback dest: seq_up.rel_loop)

lemma rel_attempt: "rel p db (fst (push_attempt abort env p batch n db))"
proof -
  obtain db' q where once: "apply_push_once env db p batch = (db', q)" by fastforce
  then have "rel p db db'" "rel p db (rollback db db')"
    using rel_once [of p db env batch] rel_rollback seq_up.rel_once [of db env p batch] by auto
  with once show ?thesis
    by (auto simp: push_attempt_def split: sum.split option.split db_failure.split)
qed

end

lemma retry_loop_rel:
  assumes refl: "\<And>s. R s s" and trans: "\<And>s t u. R s t \<Longrightarrow> R t u \<Longrightarrow> R s u"
    and step: "\<And>n s. R s (fst (operation n s))"
  shows "R s (fst (retry_loop operation tm attempts n s retried))"
proof (induction "Suc attempts - n" arbitrary: n s retried rule: less_induct)
  case less
  obtain s' q where q: "operation n s = (s', q)" by fastforce
  with step [of s n] have s': "R s s'" by simp
  show ?case
  proof (cases "\<exists>e. q = Inl e \<and> is_transient tm e \<and> n < attempts")
    case True
    then obtain e where e: "q = Inl e" "is_transient tm e" "n < attempts" by blast
    with q have "retry_loop operation tm attempts n s retried
        = retry_loop operation tm attempts (n + 1) s' (retried @ [(e, n)])"
      by (simp add: retry_loop.simps [of _ _ _ n])
    moreover from e have "Suc attempts - (n + 1) < Suc attempts - n" by simp
    ultimately show ?thesis using less [of "n + 1" s' "retried @ [(e, n)]"] s' trans by metis
  next
    case False
    with q s' refl show ?thesis
      by (auto simp: retry_loop.simps [of _ _ _ n] split: sum.split)
  qed
qed

context record_relation
begin

lemma rel_push:
  assumes "apply_push abort env db p batch = (db', retried, r)"
  shows "rel p db db'"
  using retry_loop_rel [of "rel p" "push_attempt abort env p batch" db False DEFAULT_ATTEMPTS 1 "[]"]
    rel_refl rel_trans rel_attempt assms
  by (simp add: apply_push_def run_with_transient_retry_def DEFAULT_ATTEMPTS_def)

end

end
