(* ===== verification/Sync_Push_Correct.thy ===== *)
theory Sync_Push_Correct
  imports Sync_Push_Relation
begin

text \<open>
  The relations a push satisfies, each an interpretation of \<open>push_relation\<close>: rows of the mutation
  log are kept, other tenants are not touched, revisions grow, every change is logged, ownership
  never moves, and the invariants of the synchronization tables and of the ownership hierarchy
  hold afterwards. From them: replays are idempotent, at most one of two concurrent updates wins.
\<close>

section \<open>Effects of the two stores\<close>

lemma authorize_and_ownE:
  assumes "authorize_and_own env db p scope record current payload = (db', scope', q)"
  obtains (nothing) "db' = db"
  | (delivery) project where
      "authorize_delivery_execution db p scope (sr_entity_id record) payload (sr_deleted_at record) current = Inr project"
      "apply_delivery_execution_ownership db p (sr_entity_id record) project = (db', q)"
  | (owned) plan where
      "authorize_record (pe_lib env) db p scope (sr_entity_type record) (sr_entity_id record) payload
         (sr_deleted_at record) (current \<noteq> None) = Inr plan"
      "apply_ownership_plan db p scope plan = (db', scope', q)"
  using assms unfolding authorize_and_own_def
  by (auto split: if_splits sum.splits prod.splits)

lemma record_mutation_gets:
  "get_mutation (record_mutation env db p batch record k st rv) org j =
     (if org = organization_id p \<and> j = k then Some (mutation_row p batch record k st rv) else get_mutation db org j)"
  "get_fingerprint (record_mutation env db p batch record k st rv) org j =
     (if org = organization_id p \<and> j = k
      then Some \<lparr>fp_organization_id = organization_id p, fp_client_mutation_id = k,
        fp_request_fingerprint = request_fingerprint (pe_lib env) record\<rparr>
      else get_fingerprint db org j)"
  by (simp_all add: record_mutation_def get_mutation_def get_fingerprint_def tbl_simps
      mutation_key_def fingerprint_key_def mutation_row_def)

text \<open>The tables outside the mutation log.\<close>

definition canonical_frame :: "db \<Rightarrow> db \<Rightarrow> bool" where
  "canonical_frame db db' \<longleftrightarrow> canonical_customers db' = canonical_customers db
     \<and> canonical_projects db' = canonical_projects db \<and> canonical_project_sectors db' = canonical_project_sectors db
     \<and> canonical_items db' = canonical_items db \<and> canonical_project_children db' = canonical_project_children db
     \<and> canonical_item_children db' = canonical_item_children db \<and> organizations db' = organizations db
     \<and> memberships db' = memberships db"

lemma canonical_frame_gets:
  assumes "canonical_frame db db'"
  shows "get_customer db' = get_customer db" "get_project db' = get_project db" "get_sector db' = get_sector db"
    "get_item db' = get_item db" "get_project_child db' = get_project_child db"
    "get_item_child db' = get_item_child db" "get_organization db' = get_organization db"
    "get_membership db' = get_membership db"
  using assms by (simp_all add: canonical_frame_def get_defs fun_eq_iff)

lemma record_mutation_frame:
  "canonical_frame db (record_mutation env db p batch record k st rv)"
  "sync_entities (record_mutation env db p batch record k st rv) = sync_entities db"
  "sync_change_logs (record_mutation env db p batch record k st rv) = sync_change_logs db"
  "next_change_sequence (record_mutation env db p batch record k st rv) = next_change_sequence db"
  "evidence_object_gcs (record_mutation env db p batch record k st rv) = evidence_object_gcs db"
  "get_entity (record_mutation env db p batch record k st rv) = get_entity db"
  by (simp_all add: record_mutation_def canonical_frame_def get_entity_def fun_eq_iff)

lemma gc_canonical: "canonical_frame db (queue_evidence_gc env db p record)"
  by (simp add: queue_evidence_gc_def queue_blob_gc_def canonical_frame_def Let_def split: option.split)

lemma rollback_gets:
  "canonical_frame db (rollback db db')" "get_entity (rollback db db') = get_entity db"
  "get_mutation (rollback db db') = get_mutation db" "get_fingerprint (rollback db db') = get_fingerprint db"
  "sync_entities (rollback db db') = sync_entities db" "sync_mutations (rollback db db') = sync_mutations db"
  "sync_mutation_fingerprints (rollback db db') = sync_mutation_fingerprints db"
  "sync_change_logs (rollback db db') = sync_change_logs db"
  "evidence_object_gcs (rollback db db') = evidence_object_gcs db"
  "next_change_sequence (rollback db db') = next_change_sequence db'"
  by (simp_all add: rollback_def canonical_frame_def get_defs fun_eq_iff)

text \<open>The row a commit stores.\<close>

definition committed_row :: "db \<Rightarrow> principal \<Rightarrow> sync_record \<Rightarrow> dict \<Rightarrow> sync_entity" where
  "committed_row db p record payload = new_entity p record payload (next_revision db (organization_id p))"

definition committed_change :: "db \<Rightarrow> principal \<Rightarrow> sync_record \<Rightarrow> string \<Rightarrow> sync_change_log" where
  "committed_change db p record k =
     \<lparr>cl_sequence = next_change_sequence db, cl_organization_id = organization_id p,
      cl_entity_type = sr_entity_type record, cl_entity_id = sr_entity_id record,
      cl_server_revision = next_revision db (organization_id p), cl_client_mutation_id = k,
      cl_operation = (if sr_deleted_at record \<noteq> None then ''delete'' else ''upsert'')\<rparr>"

lemma updated_entity_new:
  assumes "get_entity db (organization_id p) (sr_entity_type record) (sr_entity_id record) = Some ent"
  shows "updated_entity ent record payload rv = new_entity p record payload rv"
  using get_entity_key [OF assms] by (simp add: updated_entity_def new_entity_def)

lemma commit_record_effects:
  assumes "commit_record env db p batch record k current payload = (db', rv)"
    and "current = get_entity db (organization_id p) (sr_entity_type record) (sr_entity_id record)"
  shows "rv = next_revision db (organization_id p)" "canonical_frame db db'"
    "sync_entities db' = put_row entity_key (committed_row db p record payload) (sync_entities db)"
    "sync_change_logs db' = sync_change_logs db @ [committed_change db p record k]"
    "next_change_sequence db' = next_change_sequence db + 1"
    "evidence_object_gcs db' = evidence_object_gcs db"
    "sync_mutations db' = put_row mutation_key (mutation_row p batch record k ''accepted'' (Some rv)) (sync_mutations db)"
    "sync_mutation_fingerprints db' = sync_mutation_fingerprints (record_mutation env db p batch record k ''accepted'' (Some rv))"
  using assms
  by (auto simp: commit_record_def Let_def append_change_def record_mutation_def canonical_frame_def
      committed_row_def committed_change_def updated_entity_new split: option.splits)

lemma commit_record_gets:
  assumes "commit_record env db p batch record k current payload = (db', rv)"
    and "current = get_entity db (organization_id p) (sr_entity_type record) (sr_entity_id record)"
  shows "get_entity db' org t j = (if org = organization_id p \<and> t = sr_entity_type record \<and> j = sr_entity_id record
      then Some (committed_row db p record payload) else get_entity db org t j)"
    "get_mutation db' org i = (if org = organization_id p \<and> i = k
      then Some (mutation_row p batch record k ''accepted'' (Some rv)) else get_mutation db org i)"
    "get_fingerprint db' org i = get_fingerprint (record_mutation env db p batch record k ''accepted'' (Some rv)) org i"
proof -
  note eff = commit_record_effects [OF assms]
  show "get_entity db' org t j = (if org = organization_id p \<and> t = sr_entity_type record \<and> j = sr_entity_id record
      then Some (committed_row db p record payload) else get_entity db org t j)"
    by (simp add: get_entity_def eff tbl_simps entity_key_def committed_row_def new_entity_def)
  show "get_mutation db' org i = (if org = organization_id p \<and> i = k
      then Some (mutation_row p batch record k ''accepted'' (Some rv)) else get_mutation db org i)"
    by (simp add: get_mutation_def eff tbl_simps mutation_key_def mutation_row_def)
  show "get_fingerprint db' org i = get_fingerprint (record_mutation env db p batch record k ''accepted'' (Some rv)) org i"
    by (simp add: get_fingerprint_def eff)
qed

lemma max_or_zero_ge: "x \<in> set xs \<Longrightarrow> x \<le> max_or_zero xs"
proof (cases xs)
  case (Cons y ys)
  have "fold max ys y = Max (set (y # ys))" by (rule Max.set_eq_fold [symmetric])
  moreover assume "x \<in> set xs"
  ultimately show ?thesis using Cons by (simp add: max_or_zero_def)
qed simp

lemma max_or_zero_nonneg: "(\<And>x. x \<in> set xs \<Longrightarrow> 0 \<le> x) \<Longrightarrow> 0 \<le> max_or_zero xs"
proof (cases xs)
  case (Cons y ys)
  assume "\<And>x. x \<in> set xs \<Longrightarrow> 0 \<le> x"
  with Cons max_or_zero_ge [of y xs] show ?thesis by fastforce
qed (simp add: max_or_zero_def)

lemma next_revision_greater:
  "e \<in> set (sync_entities db) \<Longrightarrow> se_organization_id e = org \<Longrightarrow> se_server_revision e < next_revision db org"
  unfolding next_revision_def by (rule zle_add1_eq_le [THEN iffD2], rule max_or_zero_ge) auto


section \<open>The relations\<close>

text \<open>Two parameters of the interface at once: effects of ownership stores and of the collector queue.\<close>

lemmas own_frames = own_steps_frame [OF authorize_and_own_steps]

text \<open>A row of the mutation log and its fingerprint never change.\<close>

definition mutations_kept :: "db \<Rightarrow> db \<Rightarrow> bool" where
  "mutations_kept db db' \<longleftrightarrow> (\<forall>org k m. get_mutation db org k = Some m \<longrightarrow>
     get_mutation db' org k = Some m \<and> get_fingerprint db' org k = get_fingerprint db org k)"

interpretation mutlog: push_relation "\<lambda>_. mutations_kept"
proof unfold_locales
  fix env :: push_env and db db' :: db and p scope rec current payload scope' q
  assume "authorize_and_own env db p scope rec current payload = (db', scope', q)"
  then show "mutations_kept db db'" by (simp add: mutations_kept_def sync_frame_gets [OF own_frames])
next
  fix db env p rec
  show "mutations_kept db (queue_evidence_gc env db p rec)"
    by (simp add: mutations_kept_def sync_frame_gets [OF gc_frame])
next
  fix db db' :: db and p :: principal and k current rec env batch payload revision
  assume "get_mutation db (organization_id p) k = None"
    and c: "current = get_entity db (organization_id p) (sr_entity_type rec) (sr_entity_id rec)"
      "commit_record env db p batch rec k current payload = (db', revision)"
  then show "mutations_kept db db'"
    by (auto simp: mutations_kept_def commit_record_gets [OF c(2,1)] record_mutation_gets)
qed (auto simp: mutations_kept_def record_mutation_gets rollback_gets)

text \<open>Organizations stay.\<close>

definition organizations_kept :: "db \<Rightarrow> db \<Rightarrow> bool" where
  "organizations_kept db db' \<longleftrightarrow> (\<forall>k. get_organization db k \<noteq> None \<longrightarrow> get_organization db' k \<noteq> None)"

lemma own_organizations: "own_steps p db db' \<Longrightarrow> organizations_kept db db'"
  unfolding own_steps_def
proof (induction rule: rtranclp_induct)
  case (step y z)
  from step.hyps(2) have "organizations_kept y z"
    by cases (simp_all add: organizations_kept_def get_organization_def tbl_simps)
  with step.IH show ?case by (simp add: organizations_kept_def)
qed (simp add: organizations_kept_def)

interpretation orgs: push_relation "\<lambda>_. organizations_kept"
proof unfold_locales
  fix env :: push_env and db db' :: db and p scope rec current payload scope' q
  assume "authorize_and_own env db p scope rec current payload = (db', scope', q)"
  then show "organizations_kept db db'" by (rule own_organizations [OF authorize_and_own_steps])
next
  fix db db' :: db and p :: principal and k current rec env batch payload revision
  assume c: "current = get_entity db (organization_id p) (sr_entity_type rec) (sr_entity_id rec)"
      "commit_record env db p batch rec k current payload = (db', revision)"
  then show "organizations_kept db db'"
    by (simp add: organizations_kept_def canonical_frame_gets [OF commit_record_effects(2) [OF c(2,1)]])
qed (auto simp: organizations_kept_def canonical_frame_gets [OF gc_canonical]
    canonical_frame_gets [OF record_mutation_frame(1)] canonical_frame_gets [OF rollback_gets(1)])

text \<open>Ownership: rows keep their parents and the hierarchy stays well-founded.\<close>

lemma canonical_parents: "canonical_frame db db' \<Longrightarrow> parents_kept db db'"
  by (rule parents_kept_frame [OF parents_kept_refl]) (simp_all add: canonical_frame_gets)

interpretation parents: push_relation "\<lambda>_. parents_kept"
proof unfold_locales
  fix env :: push_env and db db' :: db and p scope rec current payload scope' q
  assume "authorize_and_own env db p scope rec current payload = (db', scope', q)"
  then show "parents_kept db db'"
    by (cases rule: authorize_and_ownE) (auto intro: parents_kept_refl apply_delivery_parents apply_plan_parents)
next
  fix db db' :: db and p :: principal and k current rec env batch payload revision
  assume c: "current = get_entity db (organization_id p) (sr_entity_type rec) (sr_entity_id rec)"
      "commit_record env db p batch rec k current payload = (db', revision)"
  then show "parents_kept db db'" by (intro canonical_parents commit_record_effects(2) [OF c(2,1)])
qed (auto intro: parents_kept_refl parents_kept_trans canonical_parents gc_canonical record_mutation_frame rollback_gets)

lemma canonical_hierarchy: "canonical_frame db db' \<Longrightarrow> hierarchy_ok db \<Longrightarrow> hierarchy_ok db'"
  by (erule hierarchy_frame) (simp_all add: canonical_frame_gets)

lemma own_hierarchy:
  assumes "hierarchy_ok db" and "authorize_and_own env db p scope record current payload = (db', scope', q)"
  shows "hierarchy_ok db'"
  using assms(2)
proof (cases rule: authorize_and_ownE)
  case (delivery project)
  then have "live_project db (organization_id p) project"
    by (auto simp: authorize_delivery_execution_def live_project_def res_simps Let_def split: if_splits option.splits)
  with assms(1) delivery show ?thesis by (blast intro: delivery_write_hierarchy)
qed (use assms(1) in \<open>auto intro: ownership_write_hierarchy\<close>)

interpretation hierarchy: push_relation "\<lambda>_ db db'. hierarchy_ok db \<longrightarrow> hierarchy_ok db'"
proof unfold_locales
  fix db db' :: db and p :: principal and k current rec env batch payload revision
  assume c: "current = get_entity db (organization_id p) (sr_entity_type rec) (sr_entity_id rec)"
      "commit_record env db p batch rec k current payload = (db', revision)"
  then show "hierarchy_ok db \<longrightarrow> hierarchy_ok db'"
    using canonical_hierarchy [OF commit_record_effects(2) [OF c(2,1)]] by blast
qed (auto intro: own_hierarchy canonical_hierarchy gc_canonical record_mutation_frame rollback_gets)


text \<open>The rows of the canonical tables have unique primary keys.\<close>

lemma own_unique: "own_steps p db db' \<Longrightarrow> unique_keys db \<Longrightarrow> unique_keys db'"
  unfolding own_steps_def
proof (induction rule: rtranclp_induct)
  case (step y z)
  from step.hyps(2) have "unique_keys y \<Longrightarrow> unique_keys z"
    by cases (simp_all add: unique_keys_def keys_ok_put_row)
  with step show ?case by blast
qed simp

lemma canonical_unique:
  "canonical_frame db db' \<Longrightarrow> keys_ok entity_key (sync_entities db') \<Longrightarrow> unique_keys db \<Longrightarrow> unique_keys db'"
  by (simp add: unique_keys_def canonical_frame_def)

interpretation unique: push_relation "\<lambda>_ db db'. unique_keys db \<longrightarrow> unique_keys db'"
proof unfold_locales
  fix db db' :: db and p :: principal and k current rec env batch payload revision
  assume c: "current = get_entity db (organization_id p) (sr_entity_type rec) (sr_entity_id rec)"
      "commit_record env db p batch rec k current payload = (db', revision)"
  note eff = commit_record_effects [OF c(2,1)]
  show "unique_keys db \<longrightarrow> unique_keys db'"
    using canonical_unique [OF eff(2)] by (simp add: eff(3) keys_ok_put_row unique_keys_def)
next
  fix db env p rec
  show "unique_keys db \<longrightarrow> unique_keys (queue_evidence_gc env db p rec)"
    using canonical_unique [OF gc_canonical [of db env p rec]] gc_frame [of db env p rec]
    by (simp add: sync_frame_def unique_keys_def)
next
  fix env :: push_env and db db' :: db and p scope rec current payload scope' q
  assume "authorize_and_own env db p scope rec current payload = (db', scope', q)"
  then show "unique_keys db \<longrightarrow> unique_keys db'" by (blast intro: own_unique authorize_and_own_steps)
qed (auto simp: unique_keys_def record_mutation_def rollback_def)

text \<open>Rows of other organizations are not touched.\<close>

definition same_rows :: "('r \<Rightarrow> string) \<Rightarrow> string \<Rightarrow> 'r list \<Rightarrow> 'r list \<Rightarrow> bool" where
  "same_rows owner org rows rows' \<longleftrightarrow> filter (\<lambda>r. owner r = org) rows' = filter (\<lambda>r. owner r = org) rows"

definition same_tenant :: "string \<Rightarrow> db \<Rightarrow> db \<Rightarrow> bool" where
  "same_tenant org db db' \<longleftrightarrow> same_rows org_id org (organizations db) (organizations db')
     \<and> same_rows mem_organization_id org (memberships db) (memberships db')
     \<and> same_rows cc_organization_id org (canonical_customers db) (canonical_customers db')
     \<and> same_rows cp_organization_id org (canonical_projects db) (canonical_projects db')
     \<and> same_rows cs_organization_id org (canonical_project_sectors db) (canonical_project_sectors db')
     \<and> same_rows ci_organization_id org (canonical_items db) (canonical_items db')
     \<and> same_rows pc_organization_id org (canonical_project_children db) (canonical_project_children db')
     \<and> same_rows ic_organization_id org (canonical_item_children db) (canonical_item_children db')
     \<and> same_rows se_organization_id org (sync_entities db) (sync_entities db')
     \<and> same_rows sm_organization_id org (sync_mutations db) (sync_mutations db')
     \<and> same_rows fp_organization_id org (sync_mutation_fingerprints db) (sync_mutation_fingerprints db')
     \<and> same_rows cl_organization_id org (sync_change_logs db) (sync_change_logs db')
     \<and> same_rows gc_organization_id org (evidence_object_gcs db) (evidence_object_gcs db')"

definition tenants_isolated :: "principal \<Rightarrow> db \<Rightarrow> db \<Rightarrow> bool" where
  "tenants_isolated p db db' \<longleftrightarrow> (\<forall>org. org \<noteq> organization_id p \<longrightarrow> same_tenant org db db')"

lemma same_rows_refl [simp]: "same_rows f org rows rows"
  by (simp add: same_rows_def)

lemma same_rows_append [simp]: "f r \<noteq> org \<Longrightarrow> same_rows f org rows (rows @ [r])"
  by (simp add: same_rows_def)

lemma same_tenant_trans: "same_tenant org a b \<Longrightarrow> same_tenant org b c \<Longrightarrow> same_tenant org a c"
  unfolding same_tenant_def same_rows_def by simp

lemma tenants_isolated_trans: "tenants_isolated p a b \<Longrightarrow> tenants_isolated p b c \<Longrightarrow> tenants_isolated p a c"
  unfolding tenants_isolated_def by (blast intro: same_tenant_trans)

lemma tenants_isolated_refl [simp]: "tenants_isolated p db db"
  by (simp add: tenants_isolated_def same_tenant_def)

lemma filter_put_row:
  assumes "\<And>x. get_row key (key r) rows = Some x \<Longrightarrow> \<not> P x" and "\<not> P r"
  shows "filter P (put_row key r rows) = filter P rows"
  using assms(1)
proof (induction rows)
  case (Cons x rows)
  show ?case
  proof (cases "key x = key r")
    case True
    with Cons.prems [of x] assms(2) show ?thesis by simp
  next
    case False
    with Cons.IH Cons.prems show ?thesis by simp
  qed
qed (simp add: assms(2))

lemma same_rows_put_row:
  assumes "\<And>x. key x = key r \<Longrightarrow> f x = f r" and "f r \<noteq> org"
  shows "same_rows f org rows (put_row key r rows)"
  unfolding same_rows_def
proof (rule filter_put_row)
  fix x assume "get_row key (key r) rows = Some x"
  from get_row_SomeD [OF this] assms show "f x \<noteq> org" by metis
qed (rule assms(2))

text \<open>One instance per table: the owner is the first component of the primary key.\<close>

lemma same_rows_stores [simp]:
  "cc_organization_id r1 \<noteq> org \<Longrightarrow> same_rows cc_organization_id org t1 (put_row customer_key r1 t1)"
  "cp_organization_id r2 \<noteq> org \<Longrightarrow> same_rows cp_organization_id org t2 (put_row project_key r2 t2)"
  "cs_organization_id r3 \<noteq> org \<Longrightarrow> same_rows cs_organization_id org t3 (put_row sector_key r3 t3)"
  "ci_organization_id r4 \<noteq> org \<Longrightarrow> same_rows ci_organization_id org t4 (put_row item_key r4 t4)"
  "pc_organization_id r5 \<noteq> org \<Longrightarrow> same_rows pc_organization_id org t5 (put_row project_child_key r5 t5)"
  "ic_organization_id r6 \<noteq> org \<Longrightarrow> same_rows ic_organization_id org t6 (put_row item_child_key r6 t6)"
  "se_organization_id r7 \<noteq> org \<Longrightarrow> same_rows se_organization_id org t7 (put_row entity_key r7 t7)"
  "sm_organization_id r8 \<noteq> org \<Longrightarrow> same_rows sm_organization_id org t8 (put_row mutation_key r8 t8)"
  "fp_organization_id r9 \<noteq> org \<Longrightarrow> same_rows fp_organization_id org t9 (put_row fingerprint_key r9 t9)"
  "org_id ra \<noteq> org \<Longrightarrow> same_rows org_id org ta (put_row org_id ra ta)"
  by (rule same_rows_put_row; simp add: key_defs)+

lemma own_isolated: "own_steps p db db' \<Longrightarrow> tenants_isolated p db db'"
  unfolding own_steps_def
proof (induction rule: rtranclp_induct)
  case (step y z)
  have "same_tenant org y z" if "org \<noteq> organization_id p" for org
    using step.hyps(2)
  proof cases
    case (grant m m0 o')
    then have "same_rows mem_organization_id org (memberships y) (put_row mem_id m (memberships y))"
      unfolding same_rows_def using that by (intro filter_put_row) (auto simp: get_membership_def)
    with grant that show ?thesis by (simp add: same_tenant_def)
  qed (use that in \<open>simp_all add: same_tenant_def\<close>)
  then have "tenants_isolated p y z" by (simp add: tenants_isolated_def)
  with step.IH show ?case by (rule tenants_isolated_trans)
qed simp

lemma record_mutation_isolated: "tenants_isolated p db (record_mutation env db p batch record k st rv)"
  by (auto simp: tenants_isolated_def same_tenant_def record_mutation_def mutation_row_def)

lemma commit_isolated:
  assumes "commit_record env db p batch record k current payload = (db', rv)"
    and "current = get_entity db (organization_id p) (sr_entity_type record) (sr_entity_id record)"
  shows "tenants_isolated p db db'"
proof -
  note eff = commit_record_effects [OF assms]
  from eff(2) show ?thesis
    by (auto simp: tenants_isolated_def same_tenant_def canonical_frame_def eff(3-8) record_mutation_def
        mutation_row_def committed_row_def new_entity_def committed_change_def)
qed

lemma gc_isolated: "tenants_isolated p db (queue_evidence_gc env db p record)"
proof -
  have "eb_organization_id b = organization_id p" if "get_blob db (organization_id p) k = Some b" for b k
    using get_row_SomeD [OF that [unfolded get_blob_def]] by (simp add: blob_key_def)
  then show ?thesis
    by (auto simp: queue_evidence_gc_def queue_blob_gc_def tenants_isolated_def same_tenant_def Let_def
        split: option.split)
qed

lemma rollback_isolated: "tenants_isolated p db (rollback db db')"
  by (simp add: tenants_isolated_def same_tenant_def rollback_def)

interpretation tenants: push_relation tenants_isolated
  by unfold_locales
    (blast intro: tenants_isolated_refl tenants_isolated_trans own_isolated authorize_and_own_steps gc_isolated
      record_mutation_isolated commit_isolated rollback_isolated)+

text \<open>Revisions of an entity only grow, and a row that is not newer is the same row.\<close>

definition revisions_grow :: "db \<Rightarrow> db \<Rightarrow> bool" where
  "revisions_grow db db' \<longleftrightarrow> (\<forall>org t k e. get_entity db org t k = Some e \<longrightarrow>
     (\<exists>e'. get_entity db' org t k = Some e' \<and> (e' = e \<or> se_server_revision e < se_server_revision e')))"

lemma revisions_grow_trans:
  assumes "revisions_grow a b" and "revisions_grow b c"
  shows "revisions_grow a c"
  unfolding revisions_grow_def
proof (intro allI impI)
  fix org t k e
  assume "get_entity a org t k = Some e"
  with assms(1) obtain e1 where 1: "get_entity b org t k = Some e1" "e1 = e \<or> se_server_revision e < se_server_revision e1"
    unfolding revisions_grow_def by blast
  with assms(2) obtain e2 where "get_entity c org t k = Some e2" "e2 = e1 \<or> se_server_revision e1 < se_server_revision e2"
    unfolding revisions_grow_def by blast
  with 1 show "\<exists>e'. get_entity c org t k = Some e' \<and> (e' = e \<or> se_server_revision e < se_server_revision e')" by auto
qed

lemma revisions_grow_same: "get_entity db' = get_entity db \<Longrightarrow> revisions_grow db db'"
  by (simp add: revisions_grow_def)

lemma commit_revisions:
  assumes "commit_record env db p batch record k current payload = (db', rv)"
    and "current = get_entity db (organization_id p) (sr_entity_type record) (sr_entity_id record)"
  shows "revisions_grow db db'"
  by (auto simp: revisions_grow_def commit_record_gets(1) [OF assms] committed_row_def new_entity_def
      dest: get_entity_key intro: next_revision_greater)

interpretation revs: push_relation "\<lambda>_. revisions_grow"
  by unfold_locales
    (blast intro: revisions_grow_trans commit_revisions revisions_grow_same sync_frame_gets(1) own_frames gc_frame
      record_mutation_frame(6) rollback_gets(2) refl)+

text \<open>The change log is append-only and every change of an entity has an entry after the old end.\<close>

definition changes_logged :: "principal \<Rightarrow> db \<Rightarrow> db \<Rightarrow> bool" where
  "changes_logged p db db' \<longleftrightarrow> next_change_sequence db \<le> next_change_sequence db'
     \<and> (\<exists>ext. sync_change_logs db' = sync_change_logs db @ ext
       \<and> (\<forall>c \<in> set ext. cl_organization_id c = organization_id p \<and> next_change_sequence db \<le> cl_sequence c)
       \<and> (\<forall>org t k. get_entity db' org t k \<noteq> get_entity db org t k \<longrightarrow>
            org = organization_id p \<and> (\<exists>c \<in> set ext. cl_entity_type c = t \<and> cl_entity_id c = k)))"

lemma changes_logged_same:
  "get_entity db' = get_entity db \<Longrightarrow> sync_change_logs db' = sync_change_logs db \<Longrightarrow>
     next_change_sequence db \<le> next_change_sequence db' \<Longrightarrow> changes_logged p db db'"
  by (simp add: changes_logged_def)

lemma changes_logged_frame: "sync_frame db db' \<Longrightarrow> changes_logged p db db'"
  by (rule changes_logged_same) (simp_all add: sync_frame_gets, simp_all add: sync_frame_def)

lemma changes_logged_trans:
  assumes "changes_logged p a b" and "changes_logged p b c"
  shows "changes_logged p a c"
proof -
  from assms(1) obtain x where x: "next_change_sequence a \<le> next_change_sequence b" "sync_change_logs b = sync_change_logs a @ x"
    "\<forall>l \<in> set x. cl_organization_id l = organization_id p \<and> next_change_sequence a \<le> cl_sequence l"
    "\<And>org t k. get_entity b org t k \<noteq> get_entity a org t k \<Longrightarrow>
      org = organization_id p \<and> (\<exists>l \<in> set x. cl_entity_type l = t \<and> cl_entity_id l = k)"
    unfolding changes_logged_def by blast
  from assms(2) obtain y where y: "next_change_sequence b \<le> next_change_sequence c" "sync_change_logs c = sync_change_logs b @ y"
    "\<forall>l \<in> set y. cl_organization_id l = organization_id p \<and> next_change_sequence b \<le> cl_sequence l"
    "\<And>org t k. get_entity c org t k \<noteq> get_entity b org t k \<Longrightarrow>
      org = organization_id p \<and> (\<exists>l \<in> set y. cl_entity_type l = t \<and> cl_entity_id l = k)"
    unfolding changes_logged_def by blast
  have "org = organization_id p \<and> (\<exists>l \<in> set (x @ y). cl_entity_type l = t \<and> cl_entity_id l = k)"
    if "get_entity c org t k \<noteq> get_entity a org t k" for org t k
    using x(4) [of org t k] y(4) [of org t k] that by (cases "get_entity b org t k = get_entity a org t k") auto
  with x(1-3) y(1-3) show ?thesis
    unfolding changes_logged_def by (intro conjI exI [of _ "x @ y"]) auto
qed

lemma commit_logged:
  assumes "commit_record env db p batch record k current payload = (db', rv)"
    and "current = get_entity db (organization_id p) (sr_entity_type record) (sr_entity_id record)"
  shows "changes_logged p db db'"
  by (auto simp: changes_logged_def commit_record_effects(4,5) [OF assms] commit_record_gets(1) [OF assms]
      committed_change_def split: if_splits)

interpretation logged: push_relation changes_logged
proof unfold_locales
  fix db db' :: db and p
  assume "next_change_sequence db \<le> next_change_sequence db'"
  then show "changes_logged p db (rollback db db')" by (intro changes_logged_same) (simp_all add: rollback_gets)
next
  fix db p k env batch rec rv
  show "changes_logged p db (record_mutation env db p batch rec k ''rejected'' rv)"
    by (intro changes_logged_same) (simp_all add: record_mutation_frame)
qed (blast intro: changes_logged_frame sync_frame_refl changes_logged_trans own_frames gc_frame commit_logged)+


section \<open>Invariant of the synchronization tables\<close>

definition same_entity :: "sync_entity \<Rightarrow> sync_change_log \<Rightarrow> bool" where
  "same_entity e c \<longleftrightarrow> cl_organization_id c = se_organization_id e \<and> cl_entity_type c = se_entity_type e
     \<and> cl_entity_id c = se_entity_id e"

text \<open>The newest change of an entity carries its current revision.\<close>

definition latest_change :: "sync_change_log list \<Rightarrow> sync_entity \<Rightarrow> bool" where
  "latest_change logs e \<longleftrightarrow> (\<exists>c \<in> set logs. same_entity e c \<and> cl_server_revision c = se_server_revision e
     \<and> (\<forall>c' \<in> set logs. same_entity e c' \<longrightarrow> cl_sequence c' \<le> cl_sequence c))"

definition log_ordered :: "db \<Rightarrow> bool" where
  "log_ordered db \<longleftrightarrow> sorted_wrt (<) (map cl_sequence (sync_change_logs db))
     \<and> (\<forall>c \<in> set (sync_change_logs db). 0 < cl_sequence c \<and> cl_sequence c < next_change_sequence db)
     \<and> 0 < next_change_sequence db"

definition revisions_unique :: "db \<Rightarrow> bool" where
  "revisions_unique db \<longleftrightarrow> (\<forall>e \<in> set (sync_entities db). \<forall>e' \<in> set (sync_entities db).
     se_organization_id e = se_organization_id e' \<longrightarrow> se_server_revision e = se_server_revision e' \<longrightarrow> e = e')"

definition log_complete :: "db \<Rightarrow> bool" where
  "log_complete db \<longleftrightarrow> (\<forall>e \<in> set (sync_entities db). 0 < se_server_revision e \<and> latest_change (sync_change_logs db) e)
     \<and> (\<forall>c \<in> set (sync_change_logs db). \<exists>e \<in> set (sync_entities db). same_entity e c)"

definition sync_wf :: "db \<Rightarrow> bool" where
  "sync_wf db \<longleftrightarrow> keys_ok entity_key (sync_entities db) \<and> keys_ok mutation_key (sync_mutations db)
     \<and> keys_ok fingerprint_key (sync_mutation_fingerprints db) \<and> log_ordered db \<and> revisions_unique db
     \<and> log_complete db"

lemma sync_wf_frame: "sync_frame db db' \<Longrightarrow> sync_wf db \<Longrightarrow> sync_wf db'"
  by (simp add: sync_wf_def log_ordered_def revisions_unique_def log_complete_def sync_frame_def)

lemma sync_wf_rollback:
  "next_change_sequence db \<le> next_change_sequence db' \<Longrightarrow> sync_wf db \<Longrightarrow> sync_wf (rollback db db')"
  by (force simp: sync_wf_def log_ordered_def revisions_unique_def log_complete_def rollback_gets)

lemma sync_wf_reject: "sync_wf db \<Longrightarrow> sync_wf (record_mutation env db p batch record k st rv)"
  by (simp add: sync_wf_def log_ordered_def revisions_unique_def log_complete_def record_mutation_def keys_ok_put_row)

lemma next_revision_pos:
  assumes "log_complete db"
  shows "0 < next_revision db org"
proof -
  have "0 \<le> max_or_zero (map se_server_revision (filter (\<lambda>e. se_organization_id e = org) (sync_entities db)))"
    by (rule max_or_zero_nonneg) (use assms in \<open>force simp: log_complete_def\<close>)
  then show ?thesis by (simp add: next_revision_def)
qed

lemma commit_revisions_unique:
  assumes rows: "\<And>e. e \<in> set (sync_entities db') \<Longrightarrow> e = committed_row db p record payload \<or> e \<in> set (sync_entities db)"
    and unique: "revisions_unique db"
  shows "revisions_unique db'"
proof -
  let ?row = "committed_row db p record payload"
  have row: "e = ?row" if "e = ?row \<or> e \<in> set (sync_entities db)" "se_organization_id e = se_organization_id ?row"
    "se_server_revision e = se_server_revision ?row" for e
    using that next_revision_greater [of e db "organization_id p"] by (auto simp: committed_row_def new_entity_def)
  show ?thesis unfolding revisions_unique_def
  proof (intro ballI impI)
    fix e e'
    assume "e \<in> set (sync_entities db')" "e' \<in> set (sync_entities db')"
      and eq: "se_organization_id e = se_organization_id e'" "se_server_revision e = se_server_revision e'"
    then have m: "e = ?row \<or> e \<in> set (sync_entities db)" "e' = ?row \<or> e' \<in> set (sync_entities db)" using rows by blast+
    show "e = e'"
    proof (cases "e = ?row \<or> e' = ?row")
      case True
      with row [of e] row [of e'] m eq show ?thesis by auto
    next
      case False
      with m eq unique show ?thesis unfolding revisions_unique_def by blast
    qed
  qed
qed

lemma committed_same_entity:
  "same_entity e (committed_change db p record k) \<longleftrightarrow> entity_key e = entity_key (committed_row db p record payload)"
  by (auto simp: same_entity_def committed_change_def entity_key_def committed_row_def new_entity_def)

lemma commit_log_complete:
  assumes mem: "\<And>e. e \<in> set (sync_entities db') \<longleftrightarrow> e = committed_row db p record payload
      \<or> e \<in> set (sync_entities db) \<and> entity_key e \<noteq> entity_key (committed_row db p record payload)"
    and logs: "sync_change_logs db' = sync_change_logs db @ [committed_change db p record k]"
    and ordered: "log_ordered db" and complete: "log_complete db"
  shows "log_complete db'"
proof -
  let ?row = "committed_row db p record payload" and ?ch = "committed_change db p record k"
  note same = committed_same_entity [of _ db p "record" k payload]
  have old: "cl_sequence l < cl_sequence ?ch" if "l \<in> set (sync_change_logs db)" for l
    using ordered that by (simp add: log_ordered_def committed_change_def)
  have new: "latest_change (sync_change_logs db') ?row"
    unfolding latest_change_def logs
    using old by (intro bexI [of _ ?ch])
      (auto simp: same, auto simp: committed_change_def committed_row_def new_entity_def order.strict_implies_order)
  have kept: "latest_change (sync_change_logs db') e"
    if "e \<in> set (sync_entities db)" "entity_key e \<noteq> entity_key ?row" for e
    using complete that same [of e] unfolding log_complete_def latest_change_def logs by fastforce
  have covered: "\<exists>e \<in> set (sync_entities db'). same_entity e l" if "l \<in> set (sync_change_logs db)" for l
  proof -
    from complete that obtain e where e: "e \<in> set (sync_entities db)" "same_entity e l"
      unfolding log_complete_def by blast
    show ?thesis
    proof (cases "entity_key e = entity_key ?row")
      case True
      with e(2) have "same_entity ?row l" by (simp add: same_entity_def entity_key_def)
      with mem show ?thesis by blast
    qed (use e mem in blast)
  qed
  have "0 < se_server_revision ?row"
    using next_revision_pos [OF complete] by (simp add: committed_row_def new_entity_def)
  moreover have "same_entity ?row ?ch" using same by simp
  ultimately show ?thesis
    unfolding log_complete_def using complete mem new kept covered by (auto simp: log_complete_def logs)
qed

lemma commit_wf:
  assumes c: "commit_record env db p batch record k current payload = (db', rv)"
    and cur: "current = get_entity db (organization_id p) (sr_entity_type record) (sr_entity_id record)"
    and wf: "sync_wf db"
  shows "sync_wf db'"
proof -
  note eff = commit_record_effects [OF c cur]
  have keys: "keys_ok entity_key (sync_entities db)" "log_ordered db" "log_complete db" "revisions_unique db"
    using wf by (simp_all add: sync_wf_def)
  have mem: "e \<in> set (sync_entities db') \<longleftrightarrow> e = committed_row db p record payload
      \<or> e \<in> set (sync_entities db) \<and> entity_key e \<noteq> entity_key (committed_row db p record payload)" for e
    unfolding eff(3) by (rule rows.mem_store_iff [OF keys(1)])
  have "log_ordered db'"
    using keys(2) by (fastforce simp: log_ordered_def eff(4,5) committed_change_def sorted_wrt_append)
  moreover have "revisions_unique db'" using commit_revisions_unique mem keys(4) by blast
  moreover have "log_complete db'" using mem eff(4) keys(2,3) by (rule commit_log_complete)
  ultimately show ?thesis
    using wf by (simp add: sync_wf_def eff(3,7,8) keys_ok_put_row record_mutation_def)
qed

interpretation wf: push_relation "\<lambda>_ db db'. sync_wf db \<longrightarrow> sync_wf db'"
  by unfold_locales
    (blast intro: sync_wf_frame own_frames gc_frame sync_wf_reject sync_wf_rollback commit_wf)+

end
