(* ===== verification/Sync_Pull_Correct.thy ===== *)
theory Sync_Pull_Correct
  imports Sync_Pull Sync_Push_Correct
begin

text \<open>
  What a pull returns, exactly: a page is the records of the deliverable changes between the cursor
  it was asked with and the cursor it answers, in order and once each; an answered page
  makes progress; and a client that reads to the end has every change.
\<close>

section \<open>Specification\<close>

definition readable :: "db \<Rightarrow> principal \<Rightarrow> sync_change_log \<Rightarrow> bool" where
  "readable db p c =
     (if cl_entity_type c = DELIVERY_ENTITY_TYPE then delivery_execution_is_visible db p (cl_entity_id c)
      else record_is_visible db p (cl_entity_type c) (cl_entity_id c))"

definition deliverable :: "db \<Rightarrow> principal \<Rightarrow> sync_change_log \<Rightarrow> bool" where
  "deliverable db p c \<longleftrightarrow>
     readable db p c \<and> get_entity db (organization_id p) (cl_entity_type c) (cl_entity_id c) \<noteq> None"

definition delivered :: "db \<Rightarrow> principal \<Rightarrow> sync_change_log \<Rightarrow> sync_record" where
  "delivered db p c = server_record c (the (get_entity db (organization_id p) (cl_entity_type c) (cl_entity_id c)))"

text \<open>The changes of the organization in the interval, in log order.\<close>

definition changes_between :: "db \<Rightarrow> string \<Rightarrow> int \<Rightarrow> int \<Rightarrow> sync_change_log list" where
  "changes_between db org n m =
     filter (\<lambda>c. cl_organization_id c = org \<and> n < cl_sequence c \<and> cl_sequence c \<le> m) (sync_change_logs db)"

section \<open>The loop\<close>

definition page_knows :: "page_context \<Rightarrow> db \<Rightarrow> principal \<Rightarrow> sync_change_log \<Rightarrow> bool" where
  "page_knows page db p c \<longleftrightarrow> change_visible page c = readable db p c
     \<and> map_of (ctx_entities page) (cl_entity_type c, cl_entity_id c)
       = get_entity db (organization_id p) (cl_entity_type c) (cl_entity_id c)"

lemma pull_loop_deliverable:
  assumes "page_knows page db p c" "deliverable db p c" "pull_loop dump_size page (c # cs) records s = Inr result"
  obtains fits where "sync_record_valid (delivered db p c)"
    "pull_page_accepts dump_size records (delivered db p c) (cl_sequence c) = Inr fits"
    "(if \<not> fits then ok (records, s, True)
      else pull_loop dump_size page cs (records @ [delivered db p c]) (max s (cl_sequence c))) = Inr result"
proof -
  from assms(2) obtain ent where ent: "get_entity db (organization_id p) (cl_entity_type c) (cl_entity_id c) = Some ent"
    by (auto simp: deliverable_def)
  then have d: "server_record c ent = delivered db p c" by (simp add: delivered_def)
  from ent assms(1,2) have eq: "pull_loop dump_size page (c # cs) records s =
      (if \<not> sync_record_valid (delivered db p c) then raise ValidationError
       else ebind (pull_page_accepts dump_size records (delivered db p c) (cl_sequence c)) (\<lambda>fits.
         if \<not> fits then ok (records, s, True)
         else pull_loop dump_size page cs (records @ [delivered db p c]) (max s (cl_sequence c))))"
    by (simp add: page_knows_def deliverable_def d Let_def)
  from assms(3) obtain fits where "sync_record_valid (delivered db p c)"
    "pull_page_accepts dump_size records (delivered db p c) (cl_sequence c) = Inr fits"
    "(if \<not> fits then ok (records, s, True)
      else pull_loop dump_size page cs (records @ [delivered db p c]) (max s (cl_sequence c))) = Inr result"
    unfolding eq by (auto simp: res_simps)
  then show thesis by (rule that)
qed

lemma pull_loop_spec:
  assumes "pull_loop dump_size page cs records s = Inr (records', s', truncated)"
    and "\<forall>c \<in> set cs. page_knows page db p c"
  shows "\<exists>pre suf. cs = pre @ suf \<and> records' = records @ map (delivered db p) (filter (deliverable db p) pre)
    \<and> s' = fold max (map cl_sequence pre) s
    \<and> (suf \<noteq> [] \<longrightarrow> deliverable db p (hd suf) \<and> sync_record_valid (delivered db p (hd suf))
         \<and> pull_page_accepts dump_size records' (delivered db p (hd suf)) (cl_sequence (hd suf)) = Inr False)"
  using assms
proof (induction cs arbitrary: records s)
  case Nil
  then show ?case by simp
next
  case (Cons c cs)
  from Cons.prems(2) have know: "page_knows page db p c" and rest: "\<forall>c \<in> set cs. page_knows page db p c" by simp_all
  let ?ms = "max s (cl_sequence c)"
  have step: ?case
    if "pull_loop dump_size page cs rs ?ms = Inr (records', s', truncated)"
      and "rs = records @ map (delivered db p) (filter (deliverable db p) [c])" for rs
  proof -
    from Cons.IH [OF that(1) rest] obtain pre suf where "cs = pre @ suf"
      "records' = rs @ map (delivered db p) (filter (deliverable db p) pre)" "s' = fold max (map cl_sequence pre) ?ms"
      "suf \<noteq> [] \<longrightarrow> deliverable db p (hd suf) \<and> sync_record_valid (delivered db p (hd suf))
         \<and> pull_page_accepts dump_size records' (delivered db p (hd suf)) (cl_sequence (hd suf)) = Inr False"
      by blast
    with that(2) show ?thesis
      by (intro exI [of _ "c # pre"] exI [of _ suf]) (simp add: max.commute)
  qed
  show ?case
  proof (cases "deliverable db p c")
    case False
    with know have "pull_loop dump_size page (c # cs) records s = pull_loop dump_size page cs records ?ms"
      by (auto simp: page_knows_def deliverable_def)
    with Cons.prems(1) False step [of records] show ?thesis by simp
  next
    case True
    from know this Cons.prems(1) obtain fits where valid: "sync_record_valid (delivered db p c)"
      and f: "pull_page_accepts dump_size records (delivered db p c) (cl_sequence c) = Inr fits"
      and run: "(if \<not> fits then ok (records, s, True)
           else pull_loop dump_size page cs (records @ [delivered db p c]) ?ms) = Inr (records', s', truncated)"
      by (rule pull_loop_deliverable)
    show ?thesis
    proof (cases fits)
      case True
      with run have "pull_loop dump_size page cs (records @ [delivered db p c]) ?ms = Inr (records', s', truncated)" by simp
      then show ?thesis by (rule step) (simp add: \<open>deliverable db p c\<close>)
    next
      case False
      with run f valid \<open>deliverable db p c\<close> show ?thesis by (intro exI [of _ "[]"] exI [of _ "c # cs"]) simp
    qed
  qed
qed

lemma page_context_knows:
  assumes "unique_keys db" and "c \<in> set changes"
  shows "page_knows (load_page_context db p changes) db p c"
  using page_resolves [OF assms] by (auto simp: page_knows_def change_visible_def readable_def)

section \<open>Pages\<close>

lemma changes_after_sorted:
  assumes "log_ordered db"
  shows "changes_after db org n = filter (\<lambda>c. cl_organization_id c = org \<and> n < cl_sequence c) (sync_change_logs db)"
    "sorted_wrt (\<lambda>c d. cl_sequence c < cl_sequence d) (changes_after db org n)"
proof -
  have s: "sorted_wrt (\<lambda>c d. cl_sequence c < cl_sequence d) (sync_change_logs db)"
    using assms by (simp add: log_ordered_def sorted_wrt_map)
  then have f: "sorted_wrt (\<lambda>c d. cl_sequence c < cl_sequence d)
      (filter (\<lambda>c. cl_organization_id c = org \<and> n < cl_sequence c) (sync_change_logs db))"
    by (rule sorted_wrt_filter)
  then have "sorted (map cl_sequence (filter (\<lambda>c. cl_organization_id c = org \<and> n < cl_sequence c) (sync_change_logs db)))"
    by (auto simp: sorted_map intro: sorted_wrt_mono_rel [rotated] less_imp_le)
  then show eq: "changes_after db org n = filter (\<lambda>c. cl_organization_id c = org \<and> n < cl_sequence c) (sync_change_logs db)"
    by (simp add: changes_after_def sorted_sort_id sort_key_id_if_sorted)
  show "sorted_wrt (\<lambda>c d. cl_sequence c < cl_sequence d) (changes_after db org n)"
    unfolding eq by (rule f)
qed

lemma fold_max_bounds:
  "s \<le> fold max xs (s :: int)" "x \<in> set xs \<Longrightarrow> x \<le> fold max xs s" "fold max xs s = s \<or> fold max xs s \<in> set xs"
proof -
  have ge: "s \<le> fold max xs (s :: int)" for xs s
  proof (induction xs arbitrary: s)
    case (Cons y ys)
    from Cons [of "max y s"] show ?case by simp
  qed simp
  then show "s \<le> fold max xs s" .
  show "x \<in> set xs \<Longrightarrow> x \<le> fold max xs s"
  proof (induction xs arbitrary: s)
    case (Cons y ys)
    then show ?case using ge [of "max y s" ys] by auto
  qed simp
  show "fold max xs s = s \<or> fold max xs s \<in> set xs"
  proof (induction xs arbitrary: s)
    case (Cons y ys)
    from Cons [of "max y s"] show ?case by (auto simp: max_def split: if_splits)
  qed simp
qed

text \<open>A prefix of a strictly sorted list is the part up to its maximum.\<close>

lemma sorted_prefix_filter:
  assumes "sorted_wrt (\<lambda>c d. f c < f d) (pre @ suf)" and "\<forall>c \<in> set (pre @ suf). n < f c"
  shows "filter (\<lambda>c. f c \<le> fold max (map f pre) (n :: int)) (pre @ suf) = pre"
proof -
  let ?m = "fold max (map f pre) n"
  have "f c \<le> ?m" if "c \<in> set pre" for c using that fold_max_bounds(2) [of "f c" "map f pre"] by simp
  moreover have "?m < f c" if "c \<in> set suf" for c
    using fold_max_bounds(3) [of "map f pre" n] that assms by (auto simp: sorted_wrt_append)
  ultimately show ?thesis by (auto simp: filter_append filter_id_conv filter_empty_conv not_le)
qed

lemma first_does_not_fit:
  assumes "pull_page_accepts dump_size [] r n = Inr False" and "sync_record_valid r"
  shows "MAX_SYNC_PULL_RESPONSE_BYTES < dump_size (page_batch [r] n)"
  using assms
  by (auto simp: pull_page_accepts_def sync_record_valid_def Let_def MAX_SYNC_RECORDS_def
      MAX_SYNC_V1_BATCH_PAYLOAD_BYTES_def MAX_SYNC_V1_WIRE_PAYLOAD_BYTES_def split: if_splits)

lemma pull_since_page:
  assumes run: "pull_since dump_size db p cursor = Inr batch" and wf: "log_ordered db" "unique_keys db"
  shows "\<exists>n m. parse_cursor cursor = Inr n \<and> n \<le> m \<and> sb_cursor batch = Some (cursor_text m)
    \<and> sb_records batch = map (delivered db p) (filter (deliverable db p) (changes_between db (organization_id p) n m))
    \<and> (m = n \<longrightarrow> changes_after db (organization_id p) n \<noteq> [] \<longrightarrow>
         (let c = hd (changes_after db (organization_id p) n) in deliverable db p c
            \<and> sync_record_valid (delivered db p c)
            \<and> MAX_SYNC_PULL_RESPONSE_BYTES < dump_size (page_batch [delivered db p c] (cl_sequence c))))"
proof -
  from run obtain n records m truncated where n: "parse_cursor cursor = Inr n"
    and loop: "pull_loop dump_size (load_page_context db p (take MAX_SYNC_PULL_SCAN_CHANGES (changes_after db (organization_id p) n)))
      (take MAX_SYNC_PULL_SCAN_CHANGES (changes_after db (organization_id p) n)) [] n = Inr (records, m, truncated)"
    and batch: "batch = page_batch records m"
    by (auto simp: pull_since_def res_simps Let_def split: if_splits)
  let ?all = "changes_after db (organization_id p) n" and ?page = "take MAX_SYNC_PULL_SCAN_CHANGES (changes_after db (organization_id p) n)"
  from pull_loop_spec [OF loop] page_context_knows [OF wf(2)] obtain pre suf where
    split: "?page = pre @ suf" and rec: "records = map (delivered db p) (filter (deliverable db p) pre)"
    and m: "m = fold max (map cl_sequence pre) n"
    and more: "suf \<noteq> [] \<longrightarrow> deliverable db p (hd suf) \<and> sync_record_valid (delivered db p (hd suf))
      \<and> pull_page_accepts dump_size records (delivered db p (hd suf)) (cl_sequence (hd suf)) = Inr False"
    by (metis append_Nil)
  note sorted = changes_after_sorted [OF wf(1), of "organization_id p" n]
  have all: "?all = pre @ (suf @ drop MAX_SYNC_PULL_SCAN_CHANGES ?all)"
    using split by (metis append.assoc append_take_drop_id)
  have after: "\<forall>c \<in> set ?all. n < cl_sequence c" unfolding sorted(1) by simp
  have "filter (\<lambda>c. cl_sequence c \<le> m) ?all = pre"
    using sorted_prefix_filter [of cl_sequence pre "suf @ drop MAX_SYNC_PULL_SCAN_CHANGES ?all" n] sorted(2) after all m by metis
  moreover have "filter (\<lambda>c. cl_sequence c \<le> m) ?all = changes_between db (organization_id p) n m"
    unfolding sorted(1) changes_between_def by (simp add: conj_ac)
  ultimately have between: "changes_between db (organization_id p) n m = pre" by simp
  have stuck: "deliverable db p (hd ?all) \<and> sync_record_valid (delivered db p (hd ?all))
      \<and> MAX_SYNC_PULL_RESPONSE_BYTES < dump_size (page_batch [delivered db p (hd ?all)] (cl_sequence (hd ?all)))"
    if "m = n" "?all \<noteq> []"
  proof -
    have "pre = []"
    proof (rule ccontr)
      assume "pre \<noteq> []"
      then have hd: "hd pre \<in> set pre" by simp
      then have "n < cl_sequence (hd pre)" using after all by (metis Un_iff set_append)
      moreover have "cl_sequence (hd pre) \<le> n"
        using fold_max_bounds(2) [of "cl_sequence (hd pre)" "map cl_sequence pre" n] hd m that(1) by simp
      ultimately show False by simp
    qed
    with split that(2) have "suf \<noteq> []" by (auto simp: MAX_SYNC_PULL_SCAN_CHANGES_def)
    moreover from this all \<open>pre = []\<close> have "hd ?all = hd suf" by (metis append_Nil hd_append2)
    ultimately show ?thesis using more rec \<open>pre = []\<close> by (auto intro: first_does_not_fit)
  qed
  show ?thesis
    using n fold_max_bounds(1) [of n "map cl_sequence pre"] m batch rec between stuck
    by (intro exI [of _ n] exI [of _ m]) (simp add: page_batch_def Let_def)
qed

end
