(* ===== verification/Sync_Properties.thy ===== *)
theory Sync_Properties
  imports Sync_Push_Correct "HOL-Library.Multiset"
begin

text \<open>
  Properties of \<open>apply_push\<close>: exactly-once application under replays, optimistic concurrency,
  the partition of a batch into accepted and rejected records, isolation of organizations and the
  invariants of every reachable database.
\<close>

section \<open>Replays\<close>

lemma record_replay:
  assumes run: "push_record env db p scope batch record = (db', scope', Inr (b, ev))"
    and kept: "mutations_kept db' db2" and lib: "pe_lib env2 = pe_lib env"
  shows "\<exists>ev2. push_record env2 db2 p scope2 batch record = (db2, scope2, Inr (b, ev2)) \<and> ev_reason ev2 \<noteq> ''committed''"
proof -
  have spent: ?thesis
    if k: "sr_client_mutation_id record = Some k" "k \<noteq> []" and st: "st = ''rejected'' \<and> \<not> b \<or> st = ''accepted'' \<and> b"
      and m: "get_mutation db' (organization_id p) k = Some (mutation_row p batch record k st rv)"
      and f: "get_fingerprint db' (organization_id p) k = Some fp"
        "fp_request_fingerprint fp = request_fingerprint (pe_lib env) record" for k st rv fp
    using kept m f k st lib
    by (auto simp: mutations_kept_def push_record_def replay_outcome_def same_request_def mutation_row_def
        outcome_event_def Let_def)
  show ?thesis using run
  proof (cases rule: push_recordE)
    case (unchanged b')
    show ?thesis
    proof (cases "sr_client_mutation_id record")
      case None
      with run show ?thesis by (simp add: push_record_def outcome_event_def)
    next
      case (Some k)
      show ?thesis
      proof (cases "k = []")
        case True
        with Some run show ?thesis by (simp add: push_record_def outcome_event_def)
      next
        case False
        with unchanged(4) [OF Some] obtain m where m: "get_mutation db (organization_id p) k = Some m" by auto
        with kept unchanged(1) have "get_mutation db2 (organization_id p) k = Some m"
          "get_fingerprint db2 (organization_id p) k = get_fingerprint db (organization_id p) k"
          by (auto simp: mutations_kept_def)
        with run Some False m lib show ?thesis
          by (auto simp: push_record_def replay_outcome_def same_request_def outcome_event_def Let_def split: option.splits)
      qed
    qed
  next
    case (stale k rv ev')
    then show ?thesis by (intro spent [of k]) (auto simp: record_mutation_gets)
  next
    case (rejected k rv ev' e db1 current)
    then show ?thesis by (intro spent [of k]) (auto simp: record_mutation_gets)
  next
    case (accepted k rv ev' db1 current payload)
    have "current = get_entity db1 (organization_id p) (sr_entity_type record) (sr_entity_id record)"
      using accepted(4) sync_frame_gets(1) [OF try_mutation_frame [OF accepted(6)]] by simp
    note g = commit_record_gets [OF accepted(7) this]
    from accepted show ?thesis by (intro spent [of k]) (auto simp: g record_mutation_gets)
  qed simp
qed

lemma loop_replay:
  assumes "push_loop env db p scope batch rs oc evs = (db', Inr (oc', evs'))"
    and "mutations_kept db' db2" and "pe_lib env2 = pe_lib env"
  shows "\<exists>evs2. push_loop env2 db2 p scope2 batch rs oc evs0 = (db2, Inr (oc', evs0 @ evs2))
    \<and> (\<forall>ev \<in> set evs2. ev_reason ev \<noteq> ''committed'')"
  using assms(1)
proof (induction rs arbitrary: db scope oc evs evs0 scope2)
  case (Cons x rs)
  obtain i rec where x: "x = (i, rec)" by fastforce
  obtain db1 scope1 q where q: "push_record env db p scope batch rec = (db1, scope1, q)" by (rule prod_cases3)
  with Cons.prems x obtain b ev where qb: "q = Inr (b, ev)" by (cases q) auto
  with Cons.prems x q have rest: "push_loop env db1 p scope1 batch rs ((i, b) # oc) (evs @ [ev]) = (db', Inr (oc', evs'))"
    by simp
  have "mutations_kept db1 db2"
    using mutlog.rel_trans mutlog.rel_loop [OF rest] assms(2) by blast
  from record_replay [OF q [unfolded qb] this assms(3)] obtain ev2
    where r: "push_record env2 db2 p scope2 batch rec = (db2, scope2, Inr (b, ev2))" "ev_reason ev2 \<noteq> ''committed''" by blast
  from Cons.IH [OF rest, of scope2 "evs0 @ [ev2]"] obtain evs2 where
    "push_loop env2 db2 p scope2 batch rs ((i, b) # oc) (evs0 @ [ev2]) = (db2, Inr (oc', (evs0 @ [ev2]) @ evs2))"
    "\<forall>ev \<in> set evs2. ev_reason ev \<noteq> ''committed''" by blast
  with r x show ?case by (intro exI [of _ "ev2 # evs2"]) simp
qed simp

text \<open>Databases reached by pushes of anybody, aborted and replayed ones included.\<close>

inductive pushes :: "db \<Rightarrow> db \<Rightarrow> bool" where
  start: "pushes db db"
| push: "pushes db db1 \<Longrightarrow> apply_push abort env db1 p batch = (db2, retried, r) \<Longrightarrow> pushes db db2"

lemma pushes_kept: "pushes db db' \<Longrightarrow> mutations_kept db db' \<and> organizations_kept db db'"
proof (induction rule: pushes.induct)
  case (push db db1 abort env p batch db2 retried r)
  with mutlog.rel_push [OF push.hyps(2)] orgs.rel_push [OF push.hyps(2)] show ?case
    by (blast intro: mutlog.rel_trans orgs.rel_trans)
qed (blast intro: mutlog.rel_refl orgs.rel_refl)

lemma pushes_wf: "pushes db db' \<Longrightarrow> sync_wf db \<Longrightarrow> sync_wf db'"
proof (induction rule: pushes.induct)
  case (push db db1 abort env p batch db2 retried r)
  then show ?case using wf.rel_push [OF push.hyps(2)] by blast
qed

lemma pushes_unique: "pushes db db' \<Longrightarrow> unique_keys db \<Longrightarrow> unique_keys db'"
proof (induction rule: pushes.induct)
  case (push db db1 abort env p batch db2 retried r)
  then show ?case using unique.rel_push [OF push.hyps(2)] by blast
qed

lemma pushes_trans: "pushes db db1 \<Longrightarrow> pushes db1 db2 \<Longrightarrow> pushes db db2"
  by (rotate_tac, induction rule: pushes.induct) (auto intro: pushes.intros)

lemma pushes_log: "pushes db db' \<Longrightarrow> set (sync_change_logs db) \<subseteq> set (sync_change_logs db')"
proof (induction rule: pushes.induct)
  case (push db db1 failure env p batch db2 retried r)
  with logged.rel_push [OF push.hyps(2)] show ?case by (auto simp: changes_logged_def)
qed simp

lemma pushes_grow: "pushes db db' \<Longrightarrow> revisions_grow db db'"
proof (induction rule: pushes.induct)
  case (push db db1 abort env p batch db2 retried r)
  with revs.rel_push [OF push.hyps(2)] show ?case by (blast intro: revisions_grow_trans)
qed (rule revs.rel_refl)

lemma apply_push_once_ok:
  "apply_push_once env db p batch = (db', Inr (r, evs)) \<longleftrightarrow>
     ''sync'' \<in> capabilities p \<and> get_organization db (organization_id p) \<noteq> None
     \<and> (\<exists>oc. push_loop env db p (from_principal p) batch (indexed_records batch) [] [] = (db', Inr (oc, evs))
          \<and> r = push_result db' p batch oc)"
  by (auto simp: apply_push_once_def split: prod.splits sum.splits)


section \<open>Counting outcomes\<close>

lemma loop_outcomes:
  assumes "push_loop env db p scope batch rs oc evs = (db', Inr (oc', evs'))"
  shows "\<exists>bs es. length bs = length rs \<and> length es = length rs \<and> oc' = rev (zip (map fst rs) bs) @ oc \<and> evs' = evs @ es
    \<and> map (\<lambda>ev. ev_result_status ev = ''accepted'') es = bs"
  using assms
proof (induction rs arbitrary: db scope oc evs)
  case (Cons x rs)
  obtain i rec where x: "x = (i, rec)" by fastforce
  obtain db1 scope1 q where q: "push_record env db p scope batch rec = (db1, scope1, q)" by (rule prod_cases3)
  with Cons.prems x obtain b ev where qb: "q = Inr (b, ev)" by (cases q) auto
  have st: "(ev_result_status ev = ''accepted'') = b"
    using q qb by (auto simp: push_record_def push_fresh_def replay_outcome_def outcome_event_def Let_def
        split: option.splits if_splits prod.splits sum.splits)
  from Cons.prems x q qb have "push_loop env db1 p scope1 batch rs ((i, b) # oc) (evs @ [ev]) = (db', Inr (oc', evs'))"
    by simp
  from Cons.IH [OF this] obtain bs es where "length bs = length rs" "length es = length rs"
    "oc' = rev (zip (map fst rs) bs) @ (i, b) # oc" "evs' = (evs @ [ev]) @ es"
    "map (\<lambda>ev. ev_result_status ev = ''accepted'') es = bs" by blast
  with x st show ?case by (intro exI [of _ "b # bs"] exI [of _ "ev # es"]) simp
qed simp

lemma distinct_indexes: "distinct (map fst (indexed_records batch))"
proof -
  have "mset (indexed_records batch) = mset (List.enumerate 0 (sb_records batch))"
    by (simp add: indexed_records_def)
  then have "mset (map fst (indexed_records batch)) = mset [0..<length (sb_records batch)]"
    by (metis mset_map map_fst_enumerate add_0)
  then show ?thesis by (metis distinct_upt mset_eq_imp_distinct_iff)
qed

section \<open>Retries\<close>

text \<open>
  The loop by an invariant of the attempts: if \<open>I n s\<close> holds before attempt \<open>n\<close> in state \<open>s\<close> and every
  failed attempt establishes it for the next one, it holds before the attempt that decides the result.
\<close>

lemma retry_loop_spec:
  assumes failed: "\<And>n s s' e. I n s \<Longrightarrow> operation n s = (s', Inl e) \<Longrightarrow> I (n + 1) s'"
    and run: "retry_loop operation tm attempts n s retried = (s', retried', r)" and n: "n \<le> attempts" and "I n s"
  shows "\<exists>ext. retried' = retried @ ext \<and> map snd ext = [n..<n + length ext] \<and> n + length ext \<le> attempts
    \<and> (\<forall>x \<in> set ext. is_transient tm (fst x))
    \<and> (\<exists>s0. I (n + length ext) s0 \<and> operation (n + length ext) s0 = (s', r))
    \<and> (\<forall>e. r = Inl e \<longrightarrow> is_transient tm e \<longrightarrow> n + length ext = attempts)"
  using run n \<open>I n s\<close>
proof (induction "attempts - n" arbitrary: n s retried rule: less_induct)
  case less
  obtain s1 q where q: "operation n s = (s1, q)" by fastforce
  show ?case
  proof (cases "\<exists>e. q = Inl e \<and> is_transient tm e \<and> n < attempts")
    case True
    then obtain e where e: "q = Inl e" "is_transient tm e" "n < attempts" by blast
    with q less.prems have "retry_loop operation tm attempts (n + 1) s1 (retried @ [(e, n)]) = (s', retried', r)"
      by (simp add: retry_loop.simps [of _ _ _ n])
    moreover from e(3) have "attempts - (n + 1) < attempts - n" "n + 1 \<le> attempts" by simp_all
    moreover have "I (n + 1) s1" using failed less.prems(3) q e(1) by blast
    ultimately obtain ext s0 where ext: "retried' = (retried @ [(e, n)]) @ ext"
      "map snd ext = [n + 1..<n + 1 + length ext]" "n + 1 + length ext \<le> attempts"
      "\<forall>x \<in> set ext. is_transient tm (fst x)" "I (n + 1 + length ext) s0" "operation (n + 1 + length ext) s0 = (s', r)"
      "\<forall>e. r = Inl e \<longrightarrow> is_transient tm e \<longrightarrow> n + 1 + length ext = attempts"
      using less.hyps [of "n + 1" s1 "retried @ [(e, n)]"] by blast
    moreover have "map snd ((e, n) # ext) = [n..<n + length ((e, n) # ext)]"
      using ext(2) by (simp add: upt_conv_Cons del: upt_Suc)
    ultimately show ?thesis
      using e by (intro exI [of _ "(e, n) # ext"]) auto
  next
    case False
    with q less.prems have "s' = s1 \<and> r = q \<and> retried' = retried \<and> (\<forall>e. q = Inl e \<longrightarrow> is_transient tm e \<longrightarrow> n = attempts)"
      by (auto simp: retry_loop.simps [of _ _ _ n] split: sum.splits if_splits)
    with q less.prems(2,3) show ?thesis by (intro exI [of _ "[]"]) auto
  qed
qed

lemma rollback_rollback [simp]: "rollback (rollback db db1) db2 = rollback db db2"
  by (simp add: rollback_def)

lemma rollback_refl [simp]: "rollback db db = db"
  by (simp add: rollback_def)

lemma rollback_trans: "rollback a b = b \<Longrightarrow> rollback b c = c \<Longrightarrow> rollback a c = c"
  by (metis rollback_rollback)

lemma rollback_self [simp]: "rollback db (rollback db db') = rollback db db'"
  by (simp add: rollback_def)

lemma once_fails_back: "apply_push_once env db p batch = (db', Inl e) \<Longrightarrow> rollback db db' = db'"
  by (auto simp: apply_push_once_def split: if_splits prod.splits sum.splits)

lemma once_again:
  assumes "apply_push_once env db p batch = (db1, Inr y)"
  shows "\<exists>z. apply_push_once env db1 p batch = (db1, Inr z) \<and> fst z = fst y
    \<and> (\<forall>ev \<in> set (snd z). ev_reason ev \<noteq> ''committed'')"
proof -
  obtain r evs where y: "y = (r, evs)" by fastforce
  with assms obtain oc where sync: "''sync'' \<in> capabilities p" and org: "get_organization db (organization_id p) \<noteq> None"
    and run: "push_loop env db p (from_principal p) batch (indexed_records batch) [] [] = (db1, Inr (oc, evs))"
    and r: "r = push_result db1 p batch oc"
    unfolding y apply_push_once_ok by blast
  from loop_replay [OF run mutlog.rel_refl refl, of "from_principal p" "[]"] obtain evs2 where
    again: "push_loop env db1 p (from_principal p) batch (indexed_records batch) [] [] = (db1, Inr (oc, evs2))"
      "\<forall>ev \<in> set evs2. ev_reason ev \<noteq> ''committed''" by auto
  have "get_organization db1 (organization_id p) \<noteq> None"
    using org orgs.rel_loop [OF run] by (auto simp: organizations_kept_def)
  with sync again r y show ?thesis by (simp add: apply_push_once_def)
qed

text \<open>
  What the database holds before attempt \<open>n\<close>: nothing was stored yet, or an earlier attempt failed
  after its commit and the rows are those it stored.
\<close>

definition stored_at_most_once ::
  "(nat \<Rightarrow> db_failure option) \<Rightarrow> push_env \<Rightarrow> principal \<Rightarrow> sync_batch \<Rightarrow> db \<Rightarrow> nat \<Rightarrow> db \<Rightarrow> bool" where
  "stored_at_most_once failure env p batch db n s \<longleftrightarrow> rollback db s = s
     \<or> (\<exists>m e db0 y. m < n \<and> failure m = Some (AfterCommit e) \<and> rollback db db0 = db0
          \<and> apply_push_once env db0 p batch = (s, Inr y))"

lemma attempt_fails:
  assumes "stored_at_most_once failure env p batch db n s" and "push_attempt failure env p batch n s = (s', Inl e)"
  shows "stored_at_most_once failure env p batch db (n + 1) s'"
  using assms(1) [unfolded stored_at_most_once_def]
proof (elim disjE exE conjE)
  assume bk: "rollback db s = s"
  obtain d q where once: "apply_push_once env s p batch = (d, q)" by fastforce
  show ?thesis
  proof (cases "rollback s s' = s'")
    case True
    with bk show ?thesis unfolding stored_at_most_once_def by (blast intro: rollback_trans)
  next
    case False
    with assms(2) once once_fails_back [of env s p batch] obtain x e' where
      "q = Inr x" "failure n = Some (AfterCommit e')" "s' = d"
      by (auto simp: push_attempt_def split: sum.splits option.splits db_failure.splits)
    with bk once show ?thesis unfolding stored_at_most_once_def by (metis less_add_one)
  qed
next
  fix m e' db0 y
  assume m: "m < n" "failure m = Some (AfterCommit e')" "rollback db db0 = db0"
    and once: "apply_push_once env db0 p batch = (s, Inr y)"
  from once_again [OF once] obtain z where "apply_push_once env s p batch = (s, Inr z)" by blast
  with assms(2) have "s' = s"
    by (auto simp: push_attempt_def split: option.splits db_failure.splits)
  with m once show ?thesis unfolding stored_at_most_once_def by (metis less_SucI Suc_eq_plus1)
qed

lemma attempt_answers:
  assumes "stored_at_most_once failure env p batch db n s" and "push_attempt failure env p batch n s = (s', Inr x)"
  shows "\<exists>db0 y. rollback db db0 = db0 \<and> apply_push_once env db0 p batch = (s', Inr y) \<and> fst x = fst y"
proof -
  from assms(2) have now: "apply_push_once env s p batch = (s', Inr x)"
    by (auto simp: push_attempt_def split: prod.splits sum.splits option.splits db_failure.splits)
  from assms(1) show ?thesis unfolding stored_at_most_once_def
  proof (elim disjE exE conjE)
    fix m e db0 y
    assume "rollback db db0 = db0" and once: "apply_push_once env db0 p batch = (s, Inr y)"
    moreover from once_again [OF once] now have "s' = s \<and> fst x = fst y" by auto
    ultimately show ?thesis by blast
  qed (use now in blast)
qed


section \<open>Sample push\<close>

text \<open>The creation of customer \<open>c\<close> by the sample principal in an organization without data.\<close>

definition demo_push_db :: db where
  "demo_push_db = empty_db\<lparr>
     organizations := [\<lparr>org_id = ''o'', org_name = ''Org'', org_authorization_revision = 3\<rparr>],
     memberships := [\<lparr>mem_id = ''m'', mem_organization_id = ''o'', mem_user_id = ''u'', mem_active = True,
       mem_all_customers = True, mem_all_projects = True, mem_customer_ids = [], mem_project_ids = [],
       mem_roles = [], mem_capabilities = []\<rparr>]\<rparr>"

definition demo_env :: push_env where
  "demo_env = \<lparr>pe_lib = demo_lib\<lparr>json_loads := (\<lambda>_. Some (JObj [(''id'', JStr ''c'')]))\<rparr>, pe_now = 0, pe_grace = 60\<rparr>"

definition demo_batch :: sync_batch where
  "demo_batch = \<lparr>sb_device_id = ''d'', sb_cursor = None, sb_records = [demo_record]\<rparr>"

definition demo_owned_db :: db where
  "demo_owned_db = demo_push_db\<lparr>canonical_customers :=
     [\<lparr>cc_organization_id = ''o'', cc_customer_id = ''c'', cc_deleted_at = None\<rparr>]\<rparr>"

definition demo_pushed_db :: db where
  "demo_pushed_db =
     fst (commit_record demo_env demo_owned_db demo_principal demo_batch demo_record ''m1'' None [(''id'', JStr ''c'')])"

lemma demo_try:
  "try_mutation demo_env demo_push_db demo_principal (from_principal demo_principal) demo_record None
     = (demo_owned_db, (from_principal demo_principal)\<lparr>sc_customer_ids := {''c''}\<rparr>, Inr [(''id'', JStr ''c'')])"
proof -
  have "decode_payload (pe_lib demo_env) demo_record = Inr [(''id'', JStr ''c'')]"
    by (cases "b64decode (sr_payload demo_record)") (simp_all add: decode_payload_def Let_def demo_env_def)
  moreover have "validate_mutation demo_env demo_push_db demo_principal demo_record None [(''id'', JStr ''c'')] = Inr ()"
    by code_simp
  moreover have "authorize_and_own demo_env demo_push_db demo_principal (from_principal demo_principal) demo_record
      None [(''id'', JStr ''c'')]
    = (demo_owned_db, (from_principal demo_principal)\<lparr>sc_customer_ids := {''c''}\<rparr>, Inr ())"
    by code_simp
  ultimately show ?thesis
    by (simp add: try_mutation_def queue_evidence_gc_def demo_record_def)
qed

lemma demo_push_record:
  "\<exists>scope' ev. push_record demo_env demo_push_db demo_principal (from_principal demo_principal) demo_batch demo_record
     = (demo_pushed_db, scope', Inr (True, ev))"
proof -
  have fields: "sr_client_mutation_id demo_record = Some ''m1''" "sr_base_server_revision demo_record = None"
    by (simp_all add: demo_record_def)
  have none: "get_mutation demo_push_db x y = None" "get_entity demo_push_db x y z = None" for x y z
    by (simp_all add: demo_push_db_def empty_db_def get_defs)
  from demo_try show ?thesis
    by (simp add: push_record_def push_fresh_def fields none stale_revision_def Let_def demo_pushed_db_def
        split: prod.split)
qed

lemma demo_push_once:
  "\<exists>evs. apply_push_once demo_env demo_push_db demo_principal demo_batch
     = (demo_pushed_db, Inr (push_result demo_pushed_db demo_principal demo_batch [(0, True)], evs))"
proof -
  obtain scope' ev where "push_record demo_env demo_push_db demo_principal (from_principal demo_principal) demo_batch
      demo_record = (demo_pushed_db, scope', Inr (True, ev))"
    using demo_push_record by blast
  moreover have "''sync'' \<in> capabilities demo_principal" "get_organization demo_push_db (organization_id demo_principal) \<noteq> None"
    by (simp_all add: demo_principal_def demo_push_db_def get_organization_def)
  moreover have "indexed_records demo_batch = [(0, demo_record)]"
    by (simp add: indexed_records_def demo_batch_def)
  ultimately show ?thesis by (simp add: apply_push_once_def)
qed

lemma demo_pushed_customer:
  "get_entity demo_pushed_db ''o'' ''customer'' ''c'' \<noteq> None" "get_organization demo_pushed_db ''o'' \<noteq> None"
  by (simp_all add: demo_pushed_db_def commit_record_def Let_def new_entity_def demo_record_def demo_principal_def
      append_change_def record_mutation_def get_entity_def entity_key_def tbl_simps
      get_organization_def demo_owned_db_def demo_push_db_def)


section \<open>Properties\<close>

text \<open>
  C1. Exactly once. After a push was answered, sending the same batch again, immediately or after any
  further pushes of anybody, applies nothing: the database is unchanged, every record gets the
  answer it got the first time, and no record is reported as committed.
\<close>

theorem push_exactly_once:
  assumes first: "apply_push_once env db p batch = (db1, Inr (r, evs))"
    and later: "pushes db1 db2" and lib: "pe_lib env2 = pe_lib env"
  shows "\<exists>r2 evs2. apply_push_once env2 db2 p batch = (db2, Inr (r2, evs2))
    \<and> accepted_record_ids r2 = accepted_record_ids r \<and> rejected_record_ids r2 = rejected_record_ids r
    \<and> (db2 = db1 \<longrightarrow> r2 = r) \<and> (\<forall>ev \<in> set evs2. ev_reason ev \<noteq> ''committed'')"
proof -
  from first obtain oc where sync: "''sync'' \<in> capabilities p" and org: "get_organization db (organization_id p) \<noteq> None"
    and run: "push_loop env db p (from_principal p) batch (indexed_records batch) [] [] = (db1, Inr (oc, evs))"
    and r: "r = push_result db1 p batch oc"
    unfolding apply_push_once_ok by blast
  note kept = pushes_kept [OF later]
  from loop_replay [OF run _ lib, of db2 "from_principal p" "[]"] kept obtain evs2 where
    again: "push_loop env2 db2 p (from_principal p) batch (indexed_records batch) [] [] = (db2, Inr (oc, evs2))"
    "\<forall>ev \<in> set evs2. ev_reason ev \<noteq> ''committed''" by auto
  have "get_organization db2 (organization_id p) \<noteq> None"
    using org kept orgs.rel_loop [OF run] by (auto simp: organizations_kept_def)
  with sync again(1) have "apply_push_once env2 db2 p batch = (db2, Inr (push_result db2 p batch oc, evs2))"
    by (simp add: apply_push_once_def)
  with again(2) r show ?thesis by (auto simp: push_result_def)
qed

theorem push_exactly_once_witness:
  "\<exists>r evs. apply_push_once demo_env demo_pushed_db demo_principal demo_batch = (demo_pushed_db, Inr (r, evs))
     \<and> accepted_record_ids r = [''r1''] \<and> rejected_record_ids r = []"
proof -
  obtain evs where "apply_push_once demo_env demo_push_db demo_principal demo_batch
      = (demo_pushed_db, Inr (push_result demo_pushed_db demo_principal demo_batch [(0, True)], evs))"
    using demo_push_once by blast
  from push_exactly_once [OF this pushes.start refl] show ?thesis
    by (auto simp: push_result_def demo_batch_def demo_record_def)
qed

text \<open>
  C2. No lost update. Once a record was committed, no record that was made against the same state of the
  entity (the same base revision) is accepted under another mutation id, whichever member of the
  organization sends it, in that or in any later state of the database.
\<close>

theorem concurrent_update_rejected:
  assumes won: "push_record env db p scope batch record = (db1, scope1, Inr (True, ev))"
    and new: "sr_client_mutation_id record = Some k" "get_mutation db (organization_id p) k = None"
    and later: "pushes db1 db2"
    and same: "sr_entity_type rival = sr_entity_type record" "sr_entity_id rival = sr_entity_id record"
      "sr_base_server_revision rival = sr_base_server_revision record"
    and tenant: "organization_id q = organization_id p"
    and id: "\<forall>j. sr_client_mutation_id rival = Some j \<longrightarrow> get_mutation db2 (organization_id q) j = None"
    and rerun: "push_record env2 db2 q scope2 batch2 rival = (db3, scope3, Inr (b, ev2))"
  shows "\<not> b \<and> sync_entities db3 = sync_entities db2 \<and> sync_change_logs db3 = sync_change_logs db2"
proof -
  let ?get = "\<lambda>d. get_entity d (organization_id p) (sr_entity_type record) (sr_entity_id record)"
  have grow: "revisions_grow db1 db2" by (rule pushes_grow [OF later])
  obtain e where e: "?get db1 = Some e" "\<And>n. sr_base_server_revision record = Some n \<Longrightarrow> n < se_server_revision e"
    using won
  proof (cases rule: push_recordE)
    case (unchanged b')
    with new won show thesis by (cases "k = []") (auto simp: push_record_def)
  next
    case (accepted j rv ev' db' current payload)
    note fr = sync_frame_gets [OF try_mutation_frame [OF accepted(6)]]
    have cur: "current = ?get db'" using accepted(4) fr by simp
    have "?get db1 = Some (committed_row db' p record payload)"
      by (simp add: commit_record_gets(1) [OF accepted(7) cur])
    moreover have "n < se_server_revision (committed_row db' p record payload)"
      if "sr_base_server_revision record = Some n" for n
    proof -
      from accepted(5) that obtain c where c: "current = Some c" "se_server_revision c = n"
        by (auto simp: stale_revision_def split: option.splits)
      with cur have "?get db' = Some c" by simp
      from get_entity_key [OF this] c(2) show ?thesis
        using next_revision_greater [of c db'] by (auto simp: committed_row_def new_entity_def)
    qed
    ultimately show thesis by (rule that)
  qed auto
  from e(1) grow obtain e2 where e2: "?get db2 = Some e2" "se_server_revision e \<le> se_server_revision e2"
    unfolding revisions_grow_def by (metis order_refl less_imp_le)
  have stale: "stale_revision (get_entity db2 (organization_id q) (sr_entity_type rival) (sr_entity_id rival)) rival"
    using e(2) e2 same tenant by (auto simp: stale_revision_def)
  from rerun show ?thesis
  proof (cases rule: push_recordE)
    case (unchanged b')
    with rerun id show ?thesis
      by (auto simp: push_record_def push_fresh_def stale Let_def split: option.splits if_splits)
  next
    case (rejected j rv ev' e' d current)
    then show ?thesis
      using try_mutation_frame [OF rejected(5)] by (simp add: record_mutation_frame sync_frame_def)
  qed (use stale in \<open>auto simp: record_mutation_frame\<close>)
qed

theorem concurrent_update_rejected_witness:
  "\<exists>db3 scope3 b ev2. push_record demo_env demo_pushed_db (demo_principal\<lparr>user_id := ''v''\<rparr>) (from_principal demo_principal)
     demo_batch (demo_record\<lparr>sr_client_mutation_id := Some ''m2''\<rparr>) = (db3, scope3, Inr (b, ev2)) \<and> \<not> b"
proof -
  let ?rival = "demo_record\<lparr>sr_client_mutation_id := Some ''m2''\<rparr>" and ?q = "demo_principal\<lparr>user_id := ''v''\<rparr>"
  obtain scope' ev where won: "push_record demo_env demo_push_db demo_principal (from_principal demo_principal) demo_batch
      demo_record = (demo_pushed_db, scope', Inr (True, ev))"
    using demo_push_record by blast
  have new: "sr_client_mutation_id demo_record = Some ''m1''"
    "get_mutation demo_push_db (organization_id demo_principal) ''m1'' = None"
    by (simp_all add: demo_record_def demo_push_db_def empty_db_def get_defs)
  have fresh: "\<forall>j. sr_client_mutation_id ?rival = Some j \<longrightarrow> get_mutation demo_pushed_db (organization_id ?q) j = None"
    by (simp add: demo_pushed_db_def commit_record_def Let_def append_change_def record_mutation_def get_mutation_def
        mutation_key_def mutation_row_def tbl_simps demo_owned_db_def demo_push_db_def empty_db_def)
  have "\<exists>db3 scope3 b ev2. push_record demo_env demo_pushed_db ?q (from_principal demo_principal) demo_batch ?rival
      = (db3, scope3, Inr (b, ev2))"
    using demo_pushed_customer(1) fresh
    by (auto simp: push_record_def push_fresh_def stale_revision_def Let_def demo_record_def demo_principal_def)
  then obtain db3 scope3 b ev2 where run: "push_record demo_env demo_pushed_db ?q (from_principal demo_principal)
      demo_batch ?rival = (db3, scope3, Inr (b, ev2))" by blast
  from concurrent_update_rejected [OF won new pushes.start _ _ _ _ fresh run] run show ?thesis by auto
qed


lemma accepted_count:
  assumes "length js = length bs" and "distinct js"
  shows "length (filter (\<lambda>i. map_of (zip js bs) i = Some True) js) = length (filter id bs)"
  using assms
proof (induction js bs rule: list_induct2)
  case (Cons j js b bs)
  then have "filter (\<lambda>i. map_of (zip (j # js) (b # bs)) i = Some True) js
      = filter (\<lambda>i. map_of (zip js bs) i = Some True) js"
    by (intro filter_cong) auto
  with Cons show ?case by simp
qed simp

lemma map_of_rev_distinct: "distinct (map fst xs) \<Longrightarrow> map_of (rev xs) = map_of xs"
  by (rule map_of_inject_set [THEN iffD2]) (simp_all flip: rev_map)

text \<open>
  The answer accounts for the batch. Every record is reported exactly once, as accepted or as rejected,
  one outcome event is emitted per record, and as many records are reported accepted as there
  are accepting events, although records are processed in dependency order and reported in
  the order they were sent.
\<close>

theorem push_result_partition:
  assumes "apply_push_once env db p batch = (db', Inr (r, evs))"
  shows "mset (accepted_record_ids r) + mset (rejected_record_ids r) = mset (map sr_id (sb_records batch))
    \<and> length evs = length (sb_records batch)
    \<and> length (accepted_record_ids r) = length (filter (\<lambda>ev. ev_result_status ev = ''accepted'') evs)"
proof -
  from assms obtain oc where run: "push_loop env db p (from_principal p) batch (indexed_records batch) [] [] = (db', Inr (oc, evs))"
    and r: "r = push_result db' p batch oc" unfolding apply_push_once_ok by blast
  let ?en = "List.enumerate 0 (sb_records batch)" and ?js = "map fst (indexed_records batch)"
  have perm: "mset (indexed_records batch) = mset ?en" by (simp add: indexed_records_def)
  then have len: "length (indexed_records batch) = length (sb_records batch)" by (metis length_enumerate size_mset)
  from loop_outcomes [OF run] obtain bs es where "length bs = length (indexed_records batch)" "length es = length (indexed_records batch)"
    "oc = rev (zip ?js bs) @ []" "evs = [] @ es" "map (\<lambda>ev. ev_result_status ev = ''accepted'') es = bs" by blast
  then have bs: "length bs = length ?js" "length evs = length ?js"
    "oc = rev (zip ?js bs)" "map (\<lambda>ev. ev_result_status ev = ''accepted'') evs = bs" by simp_all
  have oc: "map_of oc = map_of (zip ?js bs)"
    unfolding bs(3) by (rule map_of_rev_distinct) (simp add: bs(1) distinct_indexes)
  let ?P = "\<lambda>(i, x :: sync_record). map_of oc i = Some True"
  have ids: "map (\<lambda>(i, x). sr_id x) ?en = map sr_id (sb_records batch)"
    by (simp add: map_snd_enumerate case_prod_unfold flip: map_map [of sr_id snd, unfolded comp_def])
  have "mset (map (\<lambda>(i, x). sr_id x) (filter ?P ?en)) + mset (map (\<lambda>(i, x). sr_id x) (filter (\<lambda>x. \<not> ?P x) ?en))
      = mset (map sr_id (sb_records batch))"
    unfolding ids [symmetric] by (simp flip: image_mset_union multiset_partition)
  moreover have "length (filter ?P ?en) = length (filter id bs)"
  proof -
    have "length (filter ?P ?en) = length (filter ?P (indexed_records batch))"
      by (metis mset_filter perm size_mset)
    also have "\<dots> = length (filter (\<lambda>i. map_of oc i = Some True) ?js)"
      by (simp add: filter_map comp_def case_prod_unfold)
    also have "\<dots> = length (filter id bs)"
      unfolding oc by (rule accepted_count) (simp_all add: bs(1) distinct_indexes)
    finally show ?thesis .
  qed
  moreover have "length (filter id bs) = length (filter (\<lambda>ev. ev_result_status ev = ''accepted'') evs)"
    unfolding bs(4) [symmetric] by (simp add: filter_map comp_def)
  ultimately show ?thesis
    using bs(2) len by (simp add: r push_result_def case_prod_unfold)
qed


theorem push_result_partition_witness:
  "\<exists>r evs. apply_push_once demo_env demo_push_db demo_principal demo_batch = (demo_pushed_db, Inr (r, evs))
     \<and> length evs = 1 \<and> mset (accepted_record_ids r) + mset (rejected_record_ids r) = {#''r1''#}"
proof -
  obtain r evs where "apply_push_once demo_env demo_push_db demo_principal demo_batch = (demo_pushed_db, Inr (r, evs))"
    using demo_push_once by blast
  with push_result_partition [OF this] show ?thesis by (auto simp: demo_batch_def demo_record_def)
qed

text \<open>
  C3. What one record does. A record reported as committed was decoded, was made against the current
  revision, and stores exactly the row it describes under the next revision of its organization,
  with one new change-log entry, leaving every other entity alone. Any other record leaves
  entities and change log as they were; if it is reported accepted it is a replay and changed
  nothing at all. The reported reason is never the catch-all code.
\<close>

theorem push_record_effect:
  assumes run: "push_record env db p scope batch record = (db', scope', Inr (b, ev))"
  shows "ev_reason ev \<noteq> ''internal_error'' \<and>
    (if ev_reason ev = ''committed'' then
       b \<and> (\<exists>payload k. decode_payload (pe_lib env) record = Inr payload \<and> sr_client_mutation_id record = Some k
         \<and> \<not> stale_revision (get_entity db (organization_id p) (sr_entity_type record) (sr_entity_id record)) record
         \<and> sync_change_logs db' = sync_change_logs db @ [committed_change db p record k]
         \<and> (\<forall>org t e. get_entity db' org t e =
              (if org = organization_id p \<and> t = sr_entity_type record \<and> e = sr_entity_id record
               then Some (new_entity p record payload (next_revision db (organization_id p)))
               else get_entity db org t e)))
     else sync_entities db' = sync_entities db \<and> sync_change_logs db' = sync_change_logs db
       \<and> (b \<longrightarrow> db' = db \<and> ev_reason ev = ''idempotent_replay''))"
proof -
  have codes: "e \<in> set REJECTIONS \<Longrightarrow> rejection_code e \<noteq> ''internal_error'' \<and> rejection_code e \<noteq> ''committed''" for e
    by (auto simp: REJECTIONS_def rejection_code_def DEFAULT_BY_CLASS_def)
  from run show ?thesis
  proof (cases rule: push_recordE)
    case (unchanged b')
    with run show ?thesis
      by (auto simp: push_record_def replay_outcome_def outcome_event_def Let_def split: option.splits if_splits)
  next
    case (stale k rv ev')
    then have "ev_reason ev \<noteq> ''internal_error'' \<and> ev_reason ev \<noteq> ''committed''"
      using run by (auto simp: push_record_def push_fresh_def outcome_event_def Let_def
          split: if_splits prod.splits sum.splits dest: codes)
    with stale show ?thesis by (auto simp: record_mutation_frame)
  next
    case (rejected k rv ev' e db1 current)
    then have "ev_reason ev = ''stale_revision'' \<or> e \<in> set REJECTIONS \<and> ev_reason ev = rejection_code e"
      using run by (auto simp: push_record_def push_fresh_def outcome_event_def Let_def split: if_splits)
    with codes [of e] have "ev_reason ev \<noteq> ''internal_error'' \<and> ev_reason ev \<noteq> ''committed''" by auto
    with rejected try_mutation_frame [OF rejected(5)] show ?thesis
      by (simp add: record_mutation_frame sync_frame_def)
  next
    case (accepted k rv ev' db1 current payload)
    have reason: "ev_reason ev = ''committed''"
      using run accepted(1-7) by (auto simp: push_record_def push_fresh_def outcome_event_def Let_def split: if_splits prod.splits)
    have fr: "sync_frame db db1" by (rule try_mutation_frame [OF accepted(6)])
    have cur: "current = get_entity db1 (organization_id p) (sr_entity_type record) (sr_entity_id record)"
      using accepted(4) sync_frame_gets [OF fr] by simp
    have dec: "decode_payload (pe_lib env) record = Inr payload"
      using accepted(6) by (cases rule: try_mutationE) auto
    have log: "sync_change_logs db' = sync_change_logs db @ [committed_change db p record k]"
      using fr sync_frame_gets [OF fr] commit_record_effects(4) [OF accepted(7) cur]
      by (simp add: committed_change_def sync_frame_def)
    have rows: "\<forall>org t e. get_entity db' org t e =
        (if org = organization_id p \<and> t = sr_entity_type record \<and> e = sr_entity_id record
         then Some (new_entity p record payload (next_revision db (organization_id p)))
         else get_entity db org t e)"
      by (simp add: commit_record_gets(1) [OF accepted(7) cur] committed_row_def sync_frame_gets [OF fr])
    from reason accepted(1,4,5,8) dec log rows show ?thesis by simp
  qed simp
qed


theorem push_record_effect_witness:
  "\<exists>ev scope'. push_record demo_env demo_push_db demo_principal (from_principal demo_principal) demo_batch demo_record
      = (demo_pushed_db, scope', Inr (True, ev)) \<and> ev_reason ev = ''committed''"
proof -
  obtain scope' ev where run: "push_record demo_env demo_push_db demo_principal (from_principal demo_principal) demo_batch
      demo_record = (demo_pushed_db, scope', Inr (True, ev))"
    using demo_push_record by blast
  have "get_entity demo_push_db ''o'' ''customer'' ''c'' = None"
    by (simp add: demo_push_db_def empty_db_def get_entity_def)
  with demo_pushed_customer(1) have "demo_pushed_db \<noteq> demo_push_db" by metis
  with push_record_effect [OF run] have "ev_reason ev = ''committed''" by (auto split: if_splits)
  with run show ?thesis by blast
qed

text \<open>
  C7. Tenant isolation. Whatever a principal pushes, and however often the database aborts it, no row of
  another organization appears, disappears or changes, in any of the thirteen tables a push
  can write.
\<close>

theorem push_isolates_tenants:
  assumes "apply_push abort env db p batch = (db', retried, r)" and "org \<noteq> organization_id p"
  shows "same_tenant org db db'"
  using tenants.rel_push [OF assms(1)] assms(2) by (simp add: tenants_isolated_def)

theorem push_isolates_tenants_witness:
  "same_tenant ''x'' demo_push_db (fst (apply_push (\<lambda>_. None) demo_env demo_push_db demo_principal demo_batch))"
  using push_isolates_tenants [of "\<lambda>_. None" demo_env demo_push_db demo_principal demo_batch
      "fst (apply_push (\<lambda>_. None) demo_env demo_push_db demo_principal demo_batch)"
      "fst (snd (apply_push (\<lambda>_. None) demo_env demo_push_db demo_principal demo_batch))"
      "snd (snd (apply_push (\<lambda>_. None) demo_env demo_push_db demo_principal demo_batch))" "''x''"]
  by (simp add: demo_principal_def)

text \<open>
  C6. The synchronization tables stay consistent over any history of pushes from an empty change log:
  keys are unique, revisions are unique per organization, sequence numbers are strictly increasing and
  below the next one, every entity's newest change carries its current revision, and every
  change has its entity.
\<close>

theorem pushes_keep_sync_invariant:
  assumes "pushes db0 db" and "sync_entities db0 = []" and "sync_mutations db0 = []"
    and "sync_mutation_fingerprints db0 = []" and "sync_change_logs db0 = []" and "0 < next_change_sequence db0"
  shows "sync_wf db"
proof -
  have "sync_wf db0" using assms(2-6)
    by (simp add: sync_wf_def log_ordered_def revisions_unique_def log_complete_def)
  with assms(1) show ?thesis by (rule pushes_wf)
qed

lemma demo_apply_push:
  "\<exists>r. apply_push (\<lambda>_. None) demo_env demo_push_db demo_principal demo_batch = (demo_pushed_db, [], r)"
proof -
  obtain r evs where "apply_push_once demo_env demo_push_db demo_principal demo_batch = (demo_pushed_db, Inr (r, evs))"
    using demo_push_once by blast
  then show ?thesis
    by (simp add: apply_push_def run_with_transient_retry_def DEFAULT_ATTEMPTS_def retry_loop.simps [of _ _ _ "Suc 0"]
        push_attempt_def)
qed

lemma demo_pushes: "pushes demo_push_db demo_pushed_db"
  using demo_apply_push by (blast intro: pushes.intros)

theorem pushes_keep_sync_invariant_witness:
  "sync_wf demo_pushed_db \<and> get_entity demo_pushed_db ''o'' ''customer'' ''c'' \<noteq> None"
  using pushes_keep_sync_invariant [OF demo_pushes] demo_pushed_customer
  by (simp add: demo_push_db_def empty_db_def)

text \<open>
  C8. Ownership never moves. Over any history of pushes from a database where it holds: a live sector
  has a live project, a live item a live project and a live sector of it, a live quotation or
  delivery execution a live project and a live item sidecar other than an audit event a live item, each in its
  own organization; and no canonical row is lost or given another parent. Not covered: the customer of
  a live project, which the code lets be deleted, and the item of an audit event, which is protected by
  the deletion rule of the push and not by ownership.
\<close>

theorem pushes_keep_ownership:
  assumes "pushes db db'" and "hierarchy_ok db"
  shows "hierarchy_ok db' \<and> parents_kept db db'"
  using assms
proof (induction rule: pushes.induct)
  case (push db db1 abort env p batch db2 retried r)
  then show ?case
    using hierarchy.rel_push [OF push.hyps(2)] parents.rel_push [OF push.hyps(2)] by (blast intro: parents_kept_trans)
qed (simp add: parents_kept_refl)

theorem pushes_keep_ownership_witness:
  "hierarchy_ok demo_pushed_db \<and> parents_kept demo_push_db demo_pushed_db"
proof -
  have "hierarchy_ok demo_push_db"
    by (simp add: demo_push_db_def empty_db_def hierarchy_ok_def rooted_defs get_defs)
  from pushes_keep_ownership [OF demo_pushes this] show ?thesis .
qed

text \<open>
  C9. Replaying failed transactions. A push runs at most three attempts; only transient errors are
  retried, in order, and a transient error surfaces only from the third attempt. The rows change as by
  at most one run of the batch: a push that answers leaves the database of a single run on the rows it
  found and gives the answer of that run, even when an attempt failed after its commit and the
  answer comes from a replay; a push that raises leaves every row as it was (only the sequences have
  advanced), unless one of its attempts failed after the commit, when the rows are those of a single run.
\<close>

theorem push_retries_bounded:
  assumes "apply_push failure env db p batch = (db', retried, r)"
  shows "length retried \<le> 2 \<and> map snd retried = [1..<1 + length retried] \<and> (\<forall>x \<in> set retried. is_transient False (fst x))
    \<and> (\<forall>e. r = Inl e \<longrightarrow> is_transient False e \<longrightarrow> length retried = 2)
    \<and> (\<forall>x. r = Inr x \<longrightarrow> (\<exists>db0 y. rollback db db0 = db0
          \<and> apply_push_once env db0 p batch = (db', Inr y) \<and> fst x = fst y))
    \<and> (\<forall>e. r = Inl e \<longrightarrow> rollback db db' = db'
        \<or> (\<exists>m e' db0 y. m \<le> 1 + length retried \<and> failure m = Some (AfterCommit e') \<and> rollback db db0 = db0
             \<and> apply_push_once env db0 p batch = (db', Inr y)))"
proof -
  let ?I = "stored_at_most_once failure env p batch db"
  have start: "?I 1 db" by (simp add: stored_at_most_once_def)
  have "retry_loop (push_attempt failure env p batch) False 3 1 db [] = (db', retried, r)"
    using assms by (simp add: apply_push_def run_with_transient_retry_def DEFAULT_ATTEMPTS_def)
  then have "\<exists>ext. retried = [] @ ext \<and> map snd ext = [1..<1 + length ext] \<and> 1 + length ext \<le> 3
      \<and> (\<forall>x \<in> set ext. is_transient False (fst x))
      \<and> (\<exists>s0. ?I (1 + length ext) s0 \<and> push_attempt failure env p batch (1 + length ext) s0 = (db', r))
      \<and> (\<forall>e. r = Inl e \<longrightarrow> is_transient False e \<longrightarrow> 1 + length ext = 3)"
    by (rule retry_loop_spec [where I = ?I, rotated]) (simp_all only: attempt_fails start one_le_numeral)
  then obtain ext s0 where
    "retried = [] @ ext" "map snd ext = [1..<1 + length ext]" "1 + length ext \<le> 3"
    "\<forall>x \<in> set ext. is_transient False (fst x)" "?I (1 + length ext) s0"
    "push_attempt failure env p batch (1 + length ext) s0 = (db', r)"
    "\<forall>e. r = Inl e \<longrightarrow> is_transient False e \<longrightarrow> 1 + length ext = 3" by (elim exE conjE) (rule that)
  then have spec: "map snd retried = [1..<1 + length retried]" "1 + length retried \<le> 3"
    "\<forall>x \<in> set retried. is_transient False (fst x)" "?I (1 + length retried) s0"
    "push_attempt failure env p batch (1 + length retried) s0 = (db', r)"
    "\<forall>e. r = Inl e \<longrightarrow> is_transient False e \<longrightarrow> 1 + length retried = 3" by simp_all
  have "\<exists>db0 y. rollback db db0 = db0 \<and> apply_push_once env db0 p batch = (db', Inr y) \<and> fst x = fst y"
    if "r = Inr x" for x using attempt_answers [OF spec(4)] spec(5) that by blast
  moreover have "rollback db db' = db' \<or> (\<exists>m e' db0 y. m \<le> 1 + length retried \<and> failure m = Some (AfterCommit e')
      \<and> rollback db db0 = db0 \<and> apply_push_once env db0 p batch = (db', Inr y))" if "r = Inl e" for e
    using attempt_fails [OF spec(4) spec(5) [unfolded that]] unfolding stored_at_most_once_def
    by (metis Suc_eq_plus1 less_Suc_eq_le)
  ultimately show ?thesis using spec by auto
qed

theorem push_retries_bounded_witness:
  "\<exists>db' x. apply_push (\<lambda>n. if n = 1 then Some (AfterCommit (DBAPIError (Some ''40001''))) else None)
        demo_env demo_push_db demo_principal demo_batch = (db', [(DBAPIError (Some ''40001''), 1)], Inr x)
     \<and> (\<exists>db0 y. rollback demo_push_db db0 = db0
          \<and> apply_push_once demo_env db0 demo_principal demo_batch = (db', Inr y) \<and> fst x = fst y)"
proof -
  let ?e = "DBAPIError (Some ''40001'')"
  let ?f = "\<lambda>n. if n = 1 then Some (AfterCommit ?e) else None"
  obtain y where y: "apply_push_once demo_env demo_push_db demo_principal demo_batch = (demo_pushed_db, Inr y)"
    using demo_push_once by blast
  obtain z where z: "apply_push_once demo_env demo_pushed_db demo_principal demo_batch = (demo_pushed_db, Inr z)"
    using once_again [OF y] by blast
  have run: "apply_push ?f demo_env demo_push_db demo_principal demo_batch = (demo_pushed_db, [(?e, 1)], Inr z)"
    by (simp add: apply_push_def run_with_transient_retry_def DEFAULT_ATTEMPTS_def push_attempt_def y z
        retry_loop.simps [of _ _ _ "Suc 0"] retry_loop.simps [of _ _ _ "Suc (Suc 0)"]
        is_transient_def sqlstate_of_def STATEMENT_TIMEOUT_def TRANSIENT_SQLSTATES_def)
  with push_retries_bounded [OF run] show ?thesis by blast
qed

end
