(* ===== verification/Sync_Pull_Properties.thy ===== *)
theory Sync_Pull_Properties
  imports Sync_Pull_Correct Sync_Properties
begin

text \<open>
  Properties of \<open>pull_since\<close> and of push and pull together, with the two ways in which a pull ends in an
  unhandled exception.
\<close>

section \<open>Cursor text\<close>

lemma show_nat_isdigit: "py_isdigit (show_nat n)"
  using show_nat_digits [of n] by (auto simp: py_isdigit_def list_all_iff)

lemma parse_cursor_text:
  assumes "0 \<le> n" and "n \<le> MAX_CURSOR_SEQUENCE"
  shows "parse_cursor (Some (cursor_text n)) = Inr n"
proof -
  have "nat n < 10 ^ 19" using assms by (simp add: MAX_CURSOR_SEQUENCE_def nat_less_iff)
  then have "length (show_nat (nat n)) \<le> 19" by (rule show_nat_length) simp
  with assms show ?thesis
    using show_nat_isdigit [of "nat n"] show_nat_digits [of "nat n"]
    by (simp add: parse_cursor_def cursor_text_def show_int_def MAX_CURSOR_DIGITS_def int_of_digits_def)
qed

lemma parse_cursor_range: "parse_cursor cursor = Inr n \<Longrightarrow> 0 \<le> n \<and> n \<le> MAX_CURSOR_SEQUENCE"
  by (auto simp: parse_cursor_def int_of_digits_def MAX_CURSOR_SEQUENCE_def Let_def res_simps
      split: option.splits if_splits)

text \<open>
  A cursor round-trips. Every cursor the service hands out for a sequence number of the change log's
  64-bit column is parsed back to that number, and no accepted cursor denotes anything outside the column.
\<close>

theorem cursor_roundtrip:
  assumes "0 \<le> n" and "n \<le> MAX_CURSOR_SEQUENCE"
  shows "parse_cursor (Some (cursor_text n)) = Inr n
    \<and> (\<forall>cursor k. parse_cursor cursor = Inr k \<longrightarrow> 0 \<le> k \<and> k \<le> MAX_CURSOR_SEQUENCE)"
  using parse_cursor_text [OF assms] parse_cursor_range by blast

theorem cursor_roundtrip_witness:
  "parse_cursor (Some (cursor_text 9223372036854775807)) = Inr 9223372036854775807"
  using cursor_roundtrip [of 9223372036854775807] by (simp add: MAX_CURSOR_SEQUENCE_def)

text \<open>
  A cursor of superscript digits escapes the cursor check. \<open>str.isdigit\<close> accepts the superscripts, \<open>int\<close>
  does not: the pull raises \<open>ValueError\<close>, which the route does not handle, instead of the rejection of
  a malformed cursor.
\<close>

theorem superscript_cursor_raises:
  assumes "''sync'' \<in> capabilities p" and "py_isdigit ds" and "length ds \<le> MAX_CURSOR_DIGITS" and "\<not> list_all ascii_digit ds"
  shows "pull_since dump_size db p (Some (''seq:'' @ ds)) = Inl ValueError"
  using assms by (simp add: pull_since_def parse_cursor_def int_of_digits_def)

theorem superscript_cursor_raises_witness:
  "pull_since (\<lambda>_. 0) empty_db demo_principal (Some (''seq:'' @ [CHR 0xB2])) = Inl ValueError"
  by (rule superscript_cursor_raises)
    (simp_all add: demo_principal_def py_isdigit_def MAX_CURSOR_DIGITS_def ascii_digit_def)

section \<open>Reading pages\<close>

text \<open>
  C4. A page is exactly the readable changes of its interval. The answered cursor is not before the asked one, and
  the records are those of the deliverable changes of the principal's organization between the two
  cursors, each once, in sequence order, with the entity's current payload; a change is passed
  over only if the principal may not read it or its entity is gone. A page that does not advance
  means that there is nothing left to read, except in one case: the next change is readable and its
  record alone serialises to more than the response limit.
\<close>

theorem pull_page_exact:
  assumes "pull_since dump_size db p cursor = Inr batch" and "sync_wf db" and "unique_keys db"
  shows "\<exists>n m. parse_cursor cursor = Inr n \<and> n \<le> m \<and> sb_cursor batch = Some (cursor_text m)
    \<and> sb_records batch = map (delivered db p) (filter (deliverable db p) (changes_between db (organization_id p) n m))
    \<and> (m = n \<longrightarrow> (case changes_after db (organization_id p) n of
          [] \<Rightarrow> True
        | c # _ \<Rightarrow> deliverable db p c \<and> sync_record_valid (delivered db p c)
            \<and> 2250000 < dump_size (page_batch [delivered db p c] (cl_sequence c))))"
proof -
  have "log_ordered db" using assms(2) by (simp add: sync_wf_def)
  from pull_since_page [OF assms(1) this assms(3)] obtain n m where
    page: "parse_cursor cursor = Inr n" "n \<le> m" "sb_cursor batch = Some (cursor_text m)"
      "sb_records batch = map (delivered db p) (filter (deliverable db p) (changes_between db (organization_id p) n m))"
    and unmoved: "m = n \<longrightarrow> changes_after db (organization_id p) n \<noteq> [] \<longrightarrow>
         (let c = hd (changes_after db (organization_id p) n) in deliverable db p c
            \<and> sync_record_valid (delivered db p c)
            \<and> MAX_SYNC_PULL_RESPONSE_BYTES < dump_size (page_batch [delivered db p c] (cl_sequence c)))" by blast
  from unmoved have "m = n \<longrightarrow> (case changes_after db (organization_id p) n of [] \<Rightarrow> True
        | c # _ \<Rightarrow> deliverable db p c \<and> sync_record_valid (delivered db p c)
            \<and> 2250000 < dump_size (page_batch [delivered db p c] (cl_sequence c)))"
    by (cases "changes_after db (organization_id p) n") (simp_all add: MAX_SYNC_PULL_RESPONSE_BYTES_def Let_def)
  with page show ?thesis by blast
qed

section \<open>Sample page\<close>

lemma demo_pushed_log:
  "sync_change_logs demo_pushed_db = [\<lparr>cl_sequence = 1, cl_organization_id = ''o'', cl_entity_type = ''customer'',
     cl_entity_id = ''c'', cl_server_revision = 1, cl_client_mutation_id = ''m1'', cl_operation = ''upsert''\<rparr>]"
  by (simp add: demo_pushed_db_def commit_record_def Let_def append_change_def record_mutation_def demo_owned_db_def
      demo_push_db_def empty_db_def demo_record_def demo_principal_def next_revision_def max_or_zero_def)

lemma demo_pushed_entity:
  "get_entity demo_pushed_db ''o'' ''customer'' ''c'' = Some \<lparr>se_organization_id = ''o'', se_entity_type = ''customer'',
     se_entity_id = ''c'', se_server_revision = 1, se_payload_json = JObj [(''id'', JStr ''c'')],
     se_updated_at = demo_time, se_deleted_at = None\<rparr>"
  by (simp add: demo_pushed_db_def commit_record_def Let_def new_entity_def demo_record_def demo_principal_def
      append_change_def record_mutation_def get_entity_def entity_key_def tbl_simps demo_owned_db_def demo_push_db_def
      empty_db_def next_revision_def max_or_zero_def)

lemma demo_pushed_unique: "unique_keys demo_pushed_db"
  by (simp add: unique_keys_def demo_pushed_db_def commit_record_def Let_def append_change_def record_mutation_def
      demo_owned_db_def demo_push_db_def empty_db_def keys_ok_def)

lemma demo_payload_text: "json_dumps True (JObj [(''id'', JStr ''c'')]) = ''{''  @ [CHR 0x22] @ ''id'' @ [CHR 0x22] @ '':'' @ [CHR 0x22] @ ''c'' @ [CHR 0x22] @ ''}''"
  by (simp add: json_string_def esc_char_def join_def)


lemma demo_visible: "record_is_visible demo_pushed_db demo_principal ''customer'' ''c''"
  by (simp add: record_is_visible_def demo_pushed_db_def commit_record_def Let_def append_change_def record_mutation_def
      demo_owned_db_def get_customer_def customer_key_def demo_principal_def can_access_customer_def from_principal_def)

definition demo_change1 :: sync_change_log where
  "demo_change1 = \<lparr>cl_sequence = 1, cl_organization_id = ''o'', cl_entity_type = ''customer'',
     cl_entity_id = ''c'', cl_server_revision = 1, cl_client_mutation_id = ''m1'', cl_operation = ''upsert''\<rparr>"

lemma demo_delivered_valid: "sync_record_valid (delivered demo_pushed_db demo_principal demo_change1)"
proof -
  have "length (encoded_payload (the (get_entity demo_pushed_db ''o'' ''customer'' ''c''))) = 16"
    by (simp add: encoded_payload_def demo_pushed_entity demo_payload_text utf8_def utf8_char_def Let_def
        del: json_dumps.simps)
  then show ?thesis
    by (simp add: sync_record_valid_def delivered_def server_record_def demo_change1_def demo_principal_def bounded_id_def
        ENTITY_TYPES_def MAX_SYNC_IDENTIFIER_LENGTH_def MAX_SYNC_V1_WIRE_PAYLOAD_BYTES_def demo_pushed_entity
        show_int_def show_nat.simps [of "Suc 0"])
qed


text \<open>A serialiser in the manner of the real one: a frame for the batch and for each record, and the payloads.\<close>

definition demo_dump :: "sync_batch \<Rightarrow> nat" where
  "demo_dump b = 64 + (\<Sum>r\<leftarrow>sb_records b. 256 + length (sr_payload r))"

lemma demo_pull:
  "pull_since demo_dump demo_pushed_db demo_principal None
     = Inr (page_batch [delivered demo_pushed_db demo_principal demo_change1] 1)"
proof -
  let ?c = demo_change1 and ?p = demo_principal
  have org: "organization_id ?p = ''o''" by (simp add: demo_principal_def)
  have "changes_after demo_pushed_db ''o'' 0 = [?c]"
    by (simp add: changes_after_def demo_pushed_log demo_change1_def)
  then have page: "take MAX_SYNC_PULL_SCAN_CHANGES (changes_after demo_pushed_db ''o'' 0) = [?c]"
    by (simp add: MAX_SYNC_PULL_SCAN_CHANGES_def)
  have "page_knows (load_page_context demo_pushed_db ?p [?c]) demo_pushed_db ?p ?c"
    by (rule page_context_knows [OF demo_pushed_unique]) simp
  then have know: "change_visible (load_page_context demo_pushed_db ?p [?c]) ?c"
    "map_of (ctx_entities (load_page_context demo_pushed_db ?p [?c])) (cl_entity_type ?c, cl_entity_id ?c)
       = get_entity demo_pushed_db ''o'' ''customer'' ''c''"
    using demo_visible by (simp_all add: page_knows_def readable_def demo_change1_def DELIVERY_ENTITY_TYPE_def org)
  have valid: "sync_batch_valid (page_batch [delivered demo_pushed_db ?p ?c] 1)"
    using demo_delivered_valid
    by (simp add: sync_batch_valid_def page_batch_def bounded_id_def cursor_text_def show_int_def show_nat.simps [of "Suc 0"]
        aggregate_payload_must_be_bounded_def sync_record_valid_def MAX_SYNC_IDENTIFIER_LENGTH_def MAX_SYNC_RECORDS_def
        MAX_SYNC_V1_BATCH_PAYLOAD_BYTES_def MAX_SYNC_V1_WIRE_PAYLOAD_BYTES_def)
  have "length (sr_payload (delivered demo_pushed_db ?p ?c)) \<le> MAX_SYNC_V1_BATCH_PAYLOAD_BYTES"
    using demo_delivered_valid
    by (simp add: sync_record_valid_def MAX_SYNC_V1_BATCH_PAYLOAD_BYTES_def MAX_SYNC_V1_WIRE_PAYLOAD_BYTES_def)
  moreover have "demo_dump (page_batch [delivered demo_pushed_db ?p ?c] 1) \<le> MAX_SYNC_PULL_RESPONSE_BYTES"
    using demo_delivered_valid
    by (simp add: demo_dump_def page_batch_def sync_record_valid_def MAX_SYNC_V1_WIRE_PAYLOAD_BYTES_def
        MAX_SYNC_PULL_RESPONSE_BYTES_def)
  ultimately have "pull_page_accepts demo_dump [] (delivered demo_pushed_db ?p ?c) 1 = Inr True"
    using valid by (simp add: pull_page_accepts_def MAX_SYNC_RECORDS_def)
  moreover have "server_record ?c (the (get_entity demo_pushed_db ''o'' ''customer'' ''c'')) = delivered demo_pushed_db ?p ?c"
    by (simp add: delivered_def org demo_change1_def)
  moreover have "cl_sequence ?c = 1" by (simp add: demo_change1_def)
  moreover have "''sync'' \<in> capabilities ?p" by (simp add: demo_principal_def)
  ultimately show ?thesis
    using know demo_delivered_valid valid demo_pushed_entity
    by (simp add: pull_since_def parse_cursor_def page org Let_def)
qed

lemma demo_push_db_wf: "sync_wf demo_push_db"
  by (simp add: sync_wf_def log_ordered_def revisions_unique_def log_complete_def demo_push_db_def empty_db_def)

theorem pull_page_exact_witness:
  "\<exists>batch. pull_since demo_dump demo_pushed_db demo_principal None = Inr batch \<and> length (sb_records batch) = 1
     \<and> (\<exists>m. sb_records batch = map (delivered demo_pushed_db demo_principal)
          (filter (deliverable demo_pushed_db demo_principal) (changes_between demo_pushed_db ''o'' 0 m)))"
proof -
  have "sync_wf demo_pushed_db" by (rule pushes_wf [OF demo_pushes demo_push_db_wf])
  from pull_page_exact [OF demo_pull this demo_pushed_unique] obtain n m where
    "parse_cursor None = Inr n" and page: "sb_records (page_batch [delivered demo_pushed_db demo_principal demo_change1] 1)
      = map (delivered demo_pushed_db demo_principal)
          (filter (deliverable demo_pushed_db demo_principal) (changes_between demo_pushed_db (organization_id demo_principal) n m))"
    by blast
  then have "n = 0" by (simp add: parse_cursor_def)
  moreover have "organization_id demo_principal = ''o''" by (simp add: demo_principal_def)
  moreover have "length (sb_records (page_batch [delivered demo_pushed_db demo_principal demo_change1] 1)) = 1"
    by (simp add: page_batch_def)
  ultimately show ?thesis using demo_pull page by metis
qed

section \<open>Oversized payloads\<close>

lemma b64encode_length: "length (b64encode bs) = 4 * ((length bs + 2) div 3)"
proof (induction bs rule: b64encode.induct)
  case (4 a b c rest)
  have "(5 + length rest) div 3 = (length rest + 2) div 3 + 1" by presburger
  with 4 show ?case by (simp add: Let_def)
qed (simp_all add: Let_def)

lemma oversized_invalid:
  assumes "se_payload_json ent = JObj d" and "d \<noteq> []" and "1575000 < length (json_dumps True (JObj d))"
  shows "\<not> sync_record_valid (server_record c ent)"
proof -
  have len: "length s \<le> length (utf8 s)" for s
    by (induction s) (simp_all add: utf8_def utf8_char_def Let_def)
  have "2100000 < length (encoded_payload ent)"
    using assms len [of "json_dumps True (JObj d)"]
    by (simp add: encoded_payload_def b64encode_length del: json_dumps.simps)
  then show ?thesis
    by (simp add: sync_record_valid_def server_record_def MAX_SYNC_V1_WIRE_PAYLOAD_BYTES_def)
qed

lemma pull_since_valid: "pull_since dump_size db p cursor = Inr page \<Longrightarrow> sync_batch_valid page"
  by (auto simp: pull_since_def res_simps Let_def split: if_splits)

text \<open>
  C39. A reader never gets past an oversized payload. A wire payload may be plain JSON of up to 2,100,000 bytes,
  but a pull re-encodes it in base64 and the record it builds is limited to the same number. When a readable
  change after the cursor carries an entity whose canonical JSON text has more than 1,575,000
  characters, every page the pull answers ends before that change, and once it is the next change of the
  organization the pull raises \<open>ValidationError\<close> (which the route does not handle) instead of a page.
\<close>

theorem oversized_payload_blocks_pull:
  assumes sync: "''sync'' \<in> capabilities p" and wf: "sync_wf db" "unique_keys db" and n: "parse_cursor cursor = Inr n"
    and c: "c \<in> set (sync_change_logs db)" "cl_organization_id c = organization_id p" "n < cl_sequence c" "readable db p c"
    and ent: "get_entity db (organization_id p) (cl_entity_type c) (cl_entity_id c) = Some ent"
    and large: "se_payload_json ent = JObj d" "d \<noteq> []" "1575000 < length (json_dumps True (JObj d))"
  shows "(\<forall>page. pull_since dump_size db p cursor = Inr page \<longrightarrow>
        (\<exists>m. sb_cursor page = Some (cursor_text m) \<and> n \<le> m \<and> m < cl_sequence c))
    \<and> (hd (changes_after db (organization_id p) n) = c \<longrightarrow> pull_since dump_size db p cursor = Inl ValidationError)"
proof -
  have ordered: "log_ordered db" using wf(1) by (simp add: sync_wf_def)
  have invalid: "\<not> sync_record_valid (server_record c ent)" by (rule oversized_invalid [OF large])
  have d: "deliverable db p c" "delivered db p c = server_record c ent"
    using c(4) ent by (simp_all add: deliverable_def delivered_def)
  have "\<exists>m. sb_cursor page = Some (cursor_text m) \<and> n \<le> m \<and> m < cl_sequence c"
    if run: "pull_since dump_size db p cursor = Inr page" for page
  proof -
    from pull_since_page [OF run ordered wf(2)] n obtain m where m: "n \<le> m" "sb_cursor page = Some (cursor_text m)"
      "sb_records page = map (delivered db p) (filter (deliverable db p) (changes_between db (organization_id p) n m))" by auto
    have "m < cl_sequence c"
    proof (rule ccontr)
      assume "\<not> m < cl_sequence c"
      with c have "c \<in> set (changes_between db (organization_id p) n m)" by (simp add: changes_between_def)
      with d have "server_record c ent \<in> set (sb_records page)" unfolding m(3) by force
      with invalid pull_since_valid [OF run] show False by (auto simp: sync_batch_valid_def list_all_iff)
    qed
    with m show ?thesis by blast
  qed
  moreover have "pull_since dump_size db p cursor = Inl ValidationError"
    if first: "hd (changes_after db (organization_id p) n) = c"
  proof -
    have "c \<in> set (changes_after db (organization_id p) n)" using c by (simp add: changes_after_def)
    with first obtain cs where all: "changes_after db (organization_id p) n = c # cs"
      by (cases "changes_after db (organization_id p) n") auto
    let ?page = "take MAX_SYNC_PULL_SCAN_CHANGES (c # cs)"
    have page: "?page = c # take 499 cs" by (simp add: MAX_SYNC_PULL_SCAN_CHANGES_def take_Cons')
    have "page_knows (load_page_context db p ?page) db p c"
      by (rule page_context_knows [OF wf(2)]) (simp add: page)
    with invalid c(4) ent have "pull_loop dump_size (load_page_context db p ?page) ?page [] n = Inl ValidationError"
      by (simp add: page_knows_def page Let_def)
    with sync n all show ?thesis by (simp add: pull_since_def Let_def)
  qed
  ultimately show ?thesis by blast
qed


text \<open>The sample database with the payload of customer \<open>c\<close> replaced by one with a name of 1,600,000 letters.\<close>

definition demo_long_payload :: dict where
  "demo_long_payload = [(''name'', JStr (replicate 1600000 (CHR ''a'')))]"

definition demo_long_entity :: sync_entity where
  "demo_long_entity = \<lparr>se_organization_id = ''o'', se_entity_type = ''customer'', se_entity_id = ''c'', se_server_revision = 1,
     se_payload_json = JObj demo_long_payload, se_updated_at = demo_time, se_deleted_at = None\<rparr>"

definition demo_long_db :: db where
  "demo_long_db = demo_pushed_db\<lparr>sync_entities := [demo_long_entity]\<rparr>"

lemma demo_long_length: "1575000 < length (json_dumps True (JObj demo_long_payload))"
proof -
  have "concat (map (esc_char True) (replicate n (CHR ''a''))) = replicate n (CHR ''a'')" for n
    by (induction n) (simp_all add: esc_char_def)
  then show ?thesis
    by (simp add: demo_long_payload_def json_string_def join_def)
qed

theorem oversized_payload_blocks_pull_witness:
  "pull_since demo_dump demo_long_db demo_principal None = Inl ValidationError"
proof -
  have org: "organization_id demo_principal = ''o''" by (simp add: demo_principal_def)
  have rev: "get_entity demo_long_db x y z = (if x = ''o'' \<and> y = ''customer'' \<and> z = ''c'' then Some demo_long_entity else None)"
    for x y z by (auto simp: demo_long_db_def get_entity_def demo_long_entity_def entity_key_def)
  have "sync_wf demo_pushed_db" by (rule pushes_wf [OF demo_pushes demo_push_db_wf])
  then have wf: "sync_wf demo_long_db"
    by (simp add: sync_wf_def log_ordered_def revisions_unique_def log_complete_def rev)
      (simp add: demo_long_db_def demo_pushed_log demo_long_entity_def latest_change_def same_entity_def keys_ok_def)
  have uk: "unique_keys demo_long_db"
    using demo_pushed_unique by (simp add: unique_keys_def demo_long_db_def keys_ok_def)
  have log: "changes_after demo_long_db (organization_id demo_principal) 0 = [demo_change1]"
    by (simp add: changes_after_def demo_long_db_def demo_pushed_log demo_change1_def org)
  have "record_is_visible demo_long_db demo_principal ''customer'' ''c''"
    using demo_visible by (simp add: record_is_visible_def demo_long_db_def get_customer_def)
  then have "readable demo_long_db demo_principal demo_change1"
    by (simp add: readable_def demo_change1_def DELIVERY_ENTITY_TYPE_def)
  moreover have "demo_change1 \<in> set (sync_change_logs demo_long_db)"
    by (simp add: demo_long_db_def demo_pushed_log demo_change1_def)
  moreover have "''sync'' \<in> capabilities demo_principal" by (simp add: demo_principal_def)
  ultimately show ?thesis
    using oversized_payload_blocks_pull [OF _ wf uk, of demo_principal None 0 demo_change1 demo_long_entity
        demo_long_payload demo_dump] log demo_long_length
    by (simp add: parse_cursor_def rev org demo_change1_def demo_long_entity_def demo_long_payload_def del: json_dumps.simps)
qed

text \<open>
  What a client pulls it can decode. Decoding the payload of a delivered record gives the object that
  \<open>json.loads\<close> reads from the canonical text of the stored payload: the base64 layer is transparent.
  The hypothesis is that the JSON library reads an object back from its own output.
\<close>

theorem pulled_payload_decodes:
  assumes "json_loads lib (utf8 (json_dumps True (JObj d))) = Some (JObj d')"
    and "se_payload_json ent = JObj d" and "d \<noteq> []"
  shows "decode_payload lib (server_record c ent) = Inr d'"
  using assms by (simp add: decode_payload_def server_record_def encoded_payload_def b64_roundtrip del: json_dumps.simps)

theorem pulled_payload_decodes_witness:
  "decode_payload (pe_lib demo_env) (delivered demo_pushed_db demo_principal demo_change1) = Inr [(''id'', JStr ''c'')]"
proof -
  have org: "organization_id demo_principal = ''o''" by (simp add: demo_principal_def)
  have "json_loads (pe_lib demo_env) (utf8 (json_dumps True (JObj [(''id'', JStr ''c'')]))) = Some (JObj [(''id'', JStr ''c'')])"
    by (simp add: demo_env_def)
  from pulled_payload_decodes [OF this, of "the (get_entity demo_pushed_db ''o'' ''customer'' ''c'')"] show ?thesis
    by (simp add: delivered_def org demo_change1_def demo_pushed_entity)
qed

section \<open>Reading to the end\<close>

text \<open>
  A reader that pulls page after page, each from the cursor of the page before, while anybody may push
  between two pulls: the databases the pages were read from, with the pages.
\<close>

inductive reads :: "(sync_batch \<Rightarrow> nat) \<Rightarrow> principal \<Rightarrow> db \<Rightarrow> string option \<Rightarrow> (db \<times> sync_batch) list \<Rightarrow> bool"
  for dump_size q where
  one: "pull_since dump_size db q cursor = Inr page \<Longrightarrow> reads dump_size q db cursor [(db, page)]"
| more: "pull_since dump_size db q cursor = Inr page \<Longrightarrow> pushes db db1 \<Longrightarrow>
    reads dump_size q db1 (sb_cursor page) ps \<Longrightarrow> reads dump_size q db cursor ((db, page) # ps)"

lemma reads_nonempty: "reads dump_size q db cursor ps \<Longrightarrow> ps \<noteq> []"
  by (induction rule: reads.induct) simp_all

lemma cursor_text_parses: "0 \<le> m \<Longrightarrow> parse_cursor (Some (cursor_text m)) = Inr n \<Longrightarrow> n = m"
  using show_nat_digits [of "nat m"]
  by (auto simp: parse_cursor_def cursor_text_def show_int_def int_of_digits_def Let_def res_simps split: if_splits)

lemma pull_parses: "pull_since dump_size db q cursor = Inr page \<Longrightarrow> \<exists>n. parse_cursor cursor = Inr n"
  by (auto simp: pull_since_def res_simps split: if_splits)

lemma reads_deliver:
  assumes "reads dump_size q db cursor ps" and "sync_wf db" and "unique_keys db"
    and "c \<in> set (sync_change_logs db)" and "cl_organization_id c = organization_id q"
    and "parse_cursor cursor = Inr n" and "n < cl_sequence c"
    and "sb_cursor (snd (last ps)) = Some (cursor_text m)" and "cl_sequence c \<le> m"
    and "get_entity db (organization_id q) (cl_entity_type c) (cl_entity_id c) \<noteq> None"
    and "\<forall>x \<in> set ps. readable (fst x) q c"
  shows "\<exists>(d, page) \<in> set ps. pushes db d \<and> delivered d q c \<in> set (sb_records page)"
  using assms
proof (induction arbitrary: n rule: reads.induct)
  case (one db cursor page)
  have "log_ordered db" using one.prems(1) by (simp add: sync_wf_def)
  from pull_since_page [OF one.hyps this one.prems(2)] one.prems(5,7) obtain m' where
    m': "n \<le> m'" "cursor_text m = cursor_text m'"
      "sb_records page = map (delivered db q) (filter (deliverable db q) (changes_between db (organization_id q) n m'))"
    by auto
  then have "m' = m" by (simp add: cursor_text_def)
  with one.prems have "c \<in> set (changes_between db (organization_id q) n m')" by (simp add: changes_between_def)
  moreover have "deliverable db q c" using one.prems by (simp add: deliverable_def)
  ultimately show ?case using m'(3) pushes.start by simp
next
  case (more db cursor page db1 ps)
  have "log_ordered db" using more.prems(1) by (simp add: sync_wf_def)
  from pull_since_page [OF more.hyps(1) this more.prems(2)] more.prems(5) obtain m' where
    m': "n \<le> m'" "sb_cursor page = Some (cursor_text m')"
      "sb_records page = map (delivered db q) (filter (deliverable db q) (changes_between db (organization_id q) n m'))"
    by auto
  show ?case
  proof (cases "cl_sequence c \<le> m'")
    case True
    with more.prems have "c \<in> set (changes_between db (organization_id q) n m')" by (simp add: changes_between_def)
    moreover have "deliverable db q c" using more.prems by (simp add: deliverable_def)
    ultimately show ?thesis using m'(3) pushes.start by (intro bexI [of _ "(db, page)"]) simp_all
  next
    case False
    obtain n1 where n1: "parse_cursor (sb_cursor page) = Inr n1"
      using more.hyps(3) pull_parses by (cases rule: reads.cases) blast+
    moreover have "0 \<le> m'" using parse_cursor_range [OF more.prems(5)] m'(1) by linarith
    ultimately have "n1 = m'" using cursor_text_parses m'(2) by simp
    moreover have "sync_wf db1" "unique_keys db1" "c \<in> set (sync_change_logs db1)"
      using pushes_wf pushes_unique pushes_log more.hyps(2) more.prems(1-3) by blast+
    moreover have "get_entity db1 (organization_id q) (cl_entity_type c) (cl_entity_id c) \<noteq> None"
      using pushes_grow [OF more.hyps(2)] more.prems(9) unfolding revisions_grow_def by blast
    ultimately have "\<exists>(d, page) \<in> set ps. pushes db1 d \<and> delivered d q c \<in> set (sb_records page)"
      using more.IH [OF _ _ _ more.prems(4) n1] more.prems(7,8,10) False reads_nonempty [OF more.hyps(3)] by auto
    then show ?thesis using pushes_trans [OF more.hyps(2)] by fastforce
  qed
qed

text \<open>
  C5. A push reaches every reader. If a push changes an entity, then a member of the organization who holds a
  cursor from before the push and who pulls page after page, with any pushes before, between and after the pages,
  until a cursor at or past the end the log had after that push, has been given the entity, provided it may
  read it in the states it pulls from: one of the pages has a record of it with the revision, payload and deletion mark the
  entity had when the page was read, and that revision is the pushed one or a later one.
\<close>

theorem push_reaches_readers:
  assumes push: "apply_push failure env db p batch = (db', retried, r)" and wf: "sync_wf db" "unique_keys db"
    and changed: "get_entity db' (organization_id p) t k \<noteq> get_entity db (organization_id p) t k"
    and reader: "organization_id q = organization_id p" "parse_cursor cursor = Inr n" "n < next_change_sequence db"
    and pages: "pushes db' db1" "reads dump_size q db1 cursor pages"
    and readable: "\<forall>x \<in> set pages. \<forall>c. cl_entity_type c = t \<longrightarrow> cl_entity_id c = k \<longrightarrow> readable (fst x) q c"
    and to_end: "sb_cursor (snd (last pages)) = Some (cursor_text m)" "last_sequence db' (organization_id p) \<le> m"
  shows "\<exists>(d, page) \<in> set pages. \<exists>x \<in> set (sb_records page). \<exists>ent pushed.
    get_entity d (organization_id p) t k = Some ent \<and> get_entity db' (organization_id p) t k = Some pushed
    \<and> se_server_revision pushed \<le> se_server_revision ent
    \<and> sr_entity_type x = t \<and> sr_entity_id x = k \<and> sr_server_revision x = Some (se_server_revision ent)
    \<and> sr_payload x = encoded_payload ent \<and> sr_deleted_at x = se_deleted_at ent"
proof -
  have wf1: "sync_wf db1" "unique_keys db1"
    using wf.rel_push [OF push] unique.rel_push [OF push] wf pushes_wf pushes_unique pages(1) by blast+
  from logged.rel_push [OF push] changed obtain c where
    c: "c \<in> set (sync_change_logs db')" "cl_organization_id c = organization_id p" "next_change_sequence db \<le> cl_sequence c"
      "cl_entity_type c = t" "cl_entity_id c = k"
    unfolding changes_logged_def by (metis Un_iff set_append)
  have "get_entity db' (organization_id p) t k \<noteq> None"
  proof (cases "get_entity db (organization_id p) t k")
    case (Some e)
    with revs.rel_push [OF push] show ?thesis unfolding revisions_grow_def by blast
  qed (use changed in auto)
  then obtain pushed where pushed: "get_entity db' (organization_id p) t k = Some pushed" by blast
  have later: "\<exists>ent. get_entity d (organization_id p) t k = Some ent \<and> se_server_revision pushed \<le> se_server_revision ent"
    if "pushes db' d" for d
    using pushes_grow [OF that] pushed unfolding revisions_grow_def by (metis less_imp_le order_refl)
  have "cl_sequence c \<le> m"
    using to_end(2) max_or_zero_ge [of "cl_sequence c"
      "map cl_sequence (filter (\<lambda>c. cl_organization_id c = organization_id p) (sync_change_logs db'))"] c(1,2)
    by (force simp: last_sequence_def)
  moreover have "c \<in> set (sync_change_logs db1)" using c(1) pushes_log pages(1) by blast
  moreover have "get_entity db1 (organization_id q) t k \<noteq> None" using later [OF pages(1)] reader(1) by auto
  ultimately obtain d page where dp: "(d, page) \<in> set pages" "pushes db1 d" "delivered d q c \<in> set (sb_records page)"
    using reads_deliver [OF pages(2) wf1, of c n m] reader c readable to_end(1) by auto
  from later [OF pushes_trans [OF pages(1) dp(2)]] obtain ent where
    ent: "get_entity d (organization_id p) t k = Some ent" "se_server_revision pushed \<le> se_server_revision ent" by blast
  then have "delivered d q c = server_record c ent" using c reader(1) by (simp add: delivered_def)
  with dp(3) ent pushed c(4,5) show ?thesis
    by (intro bexI [OF _ dp(1)]) (auto intro!: bexI [of _ "server_record c ent"] simp: server_record_def)
qed


theorem push_reaches_readers_witness:
  "\<exists>(d, page) \<in> set [(demo_pushed_db, page_batch [delivered demo_pushed_db demo_principal demo_change1] 1)].
     \<exists>x \<in> set (sb_records page). \<exists>ent. get_entity d ''o'' ''customer'' ''c'' = Some ent \<and> sr_payload x = encoded_payload ent"
proof -
  have org: "organization_id demo_principal = ''o''" by (simp add: demo_principal_def)
  obtain r where push: "apply_push (\<lambda>_. None) demo_env demo_push_db demo_principal demo_batch = (demo_pushed_db, [], r)"
    using demo_apply_push by blast
  have "get_entity demo_pushed_db (organization_id demo_principal) ''customer'' ''c''
      \<noteq> get_entity demo_push_db (organization_id demo_principal) ''customer'' ''c''"
    unfolding org demo_pushed_entity by (simp add: get_entity_def demo_push_db_def empty_db_def)
  moreover have "unique_keys demo_push_db" by (simp add: unique_keys_def demo_push_db_def empty_db_def)
  moreover have "\<forall>c. cl_entity_type c = ''customer'' \<longrightarrow> cl_entity_id c = ''c'' \<longrightarrow> readable demo_pushed_db demo_principal c"
    using demo_visible by (simp add: readable_def DELIVERY_ENTITY_TYPE_def)
  moreover have "parse_cursor None = Inr 0" "(0 :: int) < next_change_sequence demo_push_db"
    by (simp_all add: parse_cursor_def demo_push_db_def empty_db_def)
  moreover have "sb_cursor (page_batch [delivered demo_pushed_db demo_principal demo_change1] 1) = Some (cursor_text 1)"
    by (simp add: page_batch_def)
  moreover have "last_sequence demo_pushed_db (organization_id demo_principal) \<le> 1"
    by (simp add: last_sequence_def demo_pushed_log org max_or_zero_def)
  ultimately show ?thesis
    using push_reaches_readers [OF push demo_push_db_wf _ _ refl _ _ pushes.start reads.one [OF demo_pull],
        of "''customer''" "''c''" 0 1]
    by (fastforce simp: org)
qed

end
