(* ===== verification/Sync_V2.thy ===== *)
theory Sync_V2
  imports Sync_Pull
begin

text \<open>
  The second sync protocol, \<open>app/sync_v2.py\<close> and \<open>app/sync_v2_routes.py\<close>, with the sync routes of
  \<open>app/main.py\<close>: typed payloads on the wire, translated to and from the records of the first
  protocol, whose push and pull do the work.
\<close>

section \<open>Wire records\<close>

definition MAX_SYNC_V2_PAYLOAD_BYTES :: nat where
  "MAX_SYNC_V2_PAYLOAD_BYTES = 1500000"

definition canonical_json_bytes :: "dict \<Rightarrow> char list" where
  "canonical_json_bytes payload = utf8 (json_dumps False (JObj payload))"

record sync_record_v2 =
  rv_id :: string
  rv_entity_type :: string
  rv_entity_id :: string
  rv_updated_at :: datetime
  rv_payload :: dict
  rv_entity_schema_version :: int
  rv_base_server_revision :: "int option"
  rv_server_revision :: "int option"
  rv_client_mutation_id :: "string option"
  rv_deleted_at :: "datetime option"

record sync_batch_v2 =
  bv_protocol_version :: int
  bv_device_id :: string
  bv_cursor :: "string option"
  bv_records :: "sync_record_v2 list"

record sync_result_v2 =
  rs_protocol_version :: int
  v2_accepted_record_ids :: "string list"
  v2_rejected_record_ids :: "string list"
  v2_next_cursor :: "string option"

definition payload_must_be_bounded :: "dict \<Rightarrow> bool" where
  "payload_must_be_bounded payload \<longleftrightarrow> length (canonical_json_bytes payload) \<le> MAX_SYNC_V2_PAYLOAD_BYTES"

definition sync_record_v2_valid :: "sync_record_v2 \<Rightarrow> bool" where
  "sync_record_v2_valid r \<longleftrightarrow> bounded_id (rv_id r) \<and> rv_entity_type r \<in> set ENTITY_TYPES
     \<and> bounded_id (rv_entity_id r) \<and> payload_must_be_bounded (rv_payload r) \<and> 1 \<le> rv_entity_schema_version r
     \<and> (case rv_base_server_revision r of None \<Rightarrow> True | Some n \<Rightarrow> 0 \<le> n)
     \<and> (case rv_server_revision r of None \<Rightarrow> True | Some n \<Rightarrow> 0 \<le> n)
     \<and> (case rv_client_mutation_id r of None \<Rightarrow> True | Some i \<Rightarrow> length i \<le> MAX_SYNC_IDENTIFIER_LENGTH)"

definition v2_aggregate_payload_must_be_bounded :: "sync_record_v2 list \<Rightarrow> bool" where
  "v2_aggregate_payload_must_be_bounded rs \<longleftrightarrow>
     sum_list (map (\<lambda>r. length (canonical_json_bytes (rv_payload r))) rs) \<le> MAX_SYNC_V1_BATCH_PAYLOAD_BYTES"

definition sync_batch_v2_valid :: "sync_batch_v2 \<Rightarrow> bool" where
  "sync_batch_v2_valid b \<longleftrightarrow> bv_protocol_version b = 2 \<and> bounded_id (bv_device_id b)
     \<and> (case bv_cursor b of None \<Rightarrow> True | Some c \<Rightarrow> length c \<le> MAX_SYNC_IDENTIFIER_LENGTH)
     \<and> length (bv_records b) \<le> MAX_SYNC_RECORDS \<and> list_all sync_record_v2_valid (bv_records b)
     \<and> v2_aggregate_payload_must_be_bounded (bv_records b)"

section \<open>Translation\<close>

definition to_v1_record :: "sync_record_v2 \<Rightarrow> sync_record res" where
  "to_v1_record r =
    (if rv_entity_schema_version r \<noteq> 1 then raise InvalidMutation
     else let r1 = \<lparr>sr_id = rv_id r, sr_entity_type = rv_entity_type r, sr_entity_id = rv_entity_id r,
            sr_updated_at = rv_updated_at r, sr_payload = canonical_json_bytes (rv_payload r),
            sr_base_server_revision = rv_base_server_revision r, sr_server_revision = rv_server_revision r,
            sr_client_mutation_id = rv_client_mutation_id r, sr_deleted_at = rv_deleted_at r\<rparr>
       in if sync_record_valid r1 then ok r1 else raise ValidationError)"

definition v2_record :: "sync_record \<Rightarrow> dict \<Rightarrow> sync_record_v2" where
  "v2_record r payload =
    \<lparr>rv_id = sr_id r, rv_entity_type = sr_entity_type r, rv_entity_id = sr_entity_id r,
     rv_updated_at = sr_updated_at r, rv_payload = payload, rv_entity_schema_version = 1,
     rv_base_server_revision = sr_base_server_revision r, rv_server_revision = sr_server_revision r,
     rv_client_mutation_id = sr_client_mutation_id r, rv_deleted_at = sr_deleted_at r\<rparr>"

definition from_v1_record :: "lib \<Rightarrow> sync_record \<Rightarrow> sync_record_v2 res" where
  "from_v1_record lib r = ebind (decode_payload lib r) (\<lambda>payload.
     if sync_record_v2_valid (v2_record r payload) then ok (v2_record r payload) else raise ValidationError)"

fun map_res :: "('a \<Rightarrow> 'b res) \<Rightarrow> 'a list \<Rightarrow> 'b list res" where
  "map_res f [] = ok []"
| "map_res f (x # xs) = ebind (f x) (\<lambda>y. ebind (map_res f xs) (\<lambda>ys. ok (y # ys)))"

definition to_v1_batch :: "sync_batch_v2 \<Rightarrow> sync_batch res" where
  "to_v1_batch b = ebind (map_res to_v1_record (bv_records b)) (\<lambda>rs.
     let b1 = \<lparr>sb_device_id = bv_device_id b, sb_cursor = bv_cursor b, sb_records = rs\<rparr>
     in if sync_batch_valid b1 then ok b1 else raise ValidationError)"

definition apply_push_v2 :: "(nat \<Rightarrow> db_failure option) \<Rightarrow> push_env \<Rightarrow> db \<Rightarrow> principal \<Rightarrow> sync_batch_v2
    \<Rightarrow> db \<times> (exn \<times> nat) list \<times> (sync_result_v2 \<times> sync_outcome list) res" where
  "apply_push_v2 abort env db p b = (case to_v1_batch b of
     Inl e \<Rightarrow> (db, [], raise e)
   | Inr b1 \<Rightarrow> (case apply_push abort env db p b1 of (db', retried, r) \<Rightarrow>
       (db', retried, ebind r (\<lambda>(result, events).
          ok (\<lparr>rs_protocol_version = 2, v2_accepted_record_ids = accepted_record_ids result,
               v2_rejected_record_ids = rejected_record_ids result, v2_next_cursor = next_cursor result\<rparr>, events)))))"

definition pull_since_v2 :: "lib \<Rightarrow> (sync_batch \<Rightarrow> nat) \<Rightarrow> db \<Rightarrow> principal \<Rightarrow> string option \<Rightarrow> sync_batch_v2 res" where
  "pull_since_v2 lib dump_size db p cursor = ebind (pull_since dump_size db p cursor) (\<lambda>b1.
     ebind (map_res (from_v1_record lib) (sb_records b1)) (\<lambda>rs.
       let b = \<lparr>bv_protocol_version = 2, bv_device_id = sb_device_id b1, bv_cursor = sb_cursor b1, bv_records = rs\<rparr>
       in if sync_batch_v2_valid b then ok b else raise ValidationError))"

section \<open>Routes\<close>

text \<open>The error mapping every sync route shares; other exceptions reach the server.\<close>

definition sync_error :: "'a res \<Rightarrow> 'a res" where
  "sync_error r = (case r of
     Inl PermissionError \<Rightarrow> raise (HTTPException 403)
   | Inl InvalidMutation \<Rightarrow> raise (HTTPException 400)
   | r \<Rightarrow> r)"

definition sync_push where
  "sync_push abort env db p batch = (case apply_push abort env db p batch of (db', retried, r) \<Rightarrow> (db', retried, sync_error r))"

definition sync_pull where
  "sync_pull dump_size db p cursor = sync_error (pull_since dump_size db p cursor)"

definition sync_push_v2 where
  "sync_push_v2 abort env db p batch = (case apply_push_v2 abort env db p batch of (db', retried, r) \<Rightarrow> (db', retried, sync_error r))"

definition sync_pull_v2 where
  "sync_pull_v2 lib dump_size db p cursor = sync_error (pull_since_v2 lib dump_size db p cursor)"

definition version_v2 :: "string \<Rightarrow> string \<times> int \<times> string" where
  "version_v2 service_version = (''v2'', 2, service_version)"

section \<open>Canonical text\<close>

text \<open>The value the canonical text of a value denotes: keys sorted at every level.\<close>

fun json_sorted :: "json \<Rightarrow> json" where
  "json_sorted (JList xs) = JList (map json_sorted xs)"
| "json_sorted (JObj d) = JObj (sort_key fst (map (\<lambda>kv. (fst kv, json_sorted (snd kv))) d))"
| "json_sorted v = v"

definition dict_sorted :: "dict \<Rightarrow> dict" where
  "dict_sorted d = sort_key fst (map (\<lambda>kv. (fst kv, json_sorted (snd kv))) d)"

fun floats_ascii :: "json \<Rightarrow> bool" where
  "floats_ascii (JFloat f) \<longleftrightarrow> list_all (\<lambda>c. (of_char c :: nat) < 128) (float_text f)"
| "floats_ascii (JList xs) \<longleftrightarrow> list_all floats_ascii xs"
| "floats_ascii (JObj d) \<longleftrightarrow> list_all (\<lambda>kv. floats_ascii (snd kv)) d"
| "floats_ascii v \<longleftrightarrow> True"

lemma insort_map: "insort_key g (f x) (map f ys) = map f (insort_key (\<lambda>z. g (f z)) x ys)"
  by (induction ys) auto

lemma sort_map: "sort_key g (map f xs) = map f (sort_key (\<lambda>z. g (f z)) xs)"
  by (induction xs) (simp_all add: insort_map)

lemma json_dumps_JObj:
  "json_dumps a (JObj d) = ''{'' @ join '','' (map (\<lambda>kv. json_string a (fst kv) @ '':'' @ json_dumps a (snd kv)) (sort_key fst d)) @ ''}''"
  by (simp add: sort_map comp_def case_prod_beta)

lemma sort_key_idem: "sort_key f (sort_key f xs) = sort_key f xs"
  by (simp add: sort_key_id_if_sorted)

lemma json_dumps_sorted: "json_dumps a (json_sorted v) = json_dumps a v"
proof (induction v)
  case (JObj d)
  have "map (\<lambda>kv. json_string a (fst kv) @ '':'' @ json_dumps a (json_sorted (snd kv))) (sort_key fst d)
      = map (\<lambda>kv. json_string a (fst kv) @ '':'' @ json_dumps a (snd kv)) (sort_key fst d)"
    using JObj by (intro map_cong) (auto simp: prod.set_map)
  then show ?case
    unfolding json_sorted.simps json_dumps_JObj sort_key_idem sort_map map_map comp_def fst_conv snd_conv by (simp only:)
qed (simp_all add: comp_def cong: map_cong)

lemma utf8_append [simp]: "utf8 (xs @ ys) = utf8 xs @ utf8 ys"
  by (simp add: utf8_def)

lemma utf8_Nil [simp]: "utf8 [] = []"
  by (simp add: utf8_def)

lemma utf8_Cons: "utf8 (c # s) = utf8_char c @ utf8 s"
  by (simp add: utf8_def)

lemma utf8_ascii: "list_all (\<lambda>c. (of_char c :: nat) < 128) s \<Longrightarrow> utf8 s = s"
  by (induction s) (simp_all add: utf8_def utf8_char_def)

lemma utf8_join:
  assumes "list_all2 (\<lambda>x y. length (utf8 x) \<le> length y) xs ys"
  shows "length (utf8 (join '','' xs)) \<le> length (join '','' ys)"
proof -
  define sep where "sep z = '','' @ z" for z :: string
  have sep: "length (utf8 (sep z)) = Suc (length (utf8 z))" "length (sep z) = Suc (length z)" for z
    by (simp_all add: sep_def utf8_Cons utf8_char_def)
  have rest: "length (utf8 (concat (map sep xs))) \<le> length (concat (map sep ys))"
    if "list_all2 (\<lambda>x y. length (utf8 x) \<le> length y) xs ys" for xs ys
    using that by induction (auto simp: sep intro: add_mono)
  have "join '','' xs = concat (case xs of [] \<Rightarrow> [] | y # ys \<Rightarrow> y # map sep ys)" for xs
    unfolding join_def sep_def ..
  with assms rest show ?thesis by (cases xs; cases ys) (auto intro: add_mono)
qed

lemma esc_char_shorter: "length (utf8 (esc_char False c)) \<le> length (esc_char True c)"
proof -
  have "list_all (\<lambda>x. (of_char x :: nat) < 128) (esc_char False c) \<and> esc_char False c = esc_char True c
      \<or> esc_char False c = [c] \<and> (length (esc_char True c) = 6 \<or> esc_char True c = [c] \<and> (of_char c :: nat) < 128)"
    using esc_char_ascii [of c] by (auto simp: esc_char_def Let_def)
  then show ?thesis by (auto simp: utf8_ascii utf8_Cons utf8_char_def Let_def)
qed

lemma json_string_shorter: "length (utf8 (json_string False s)) \<le> length (json_string True s)"
proof -
  have "length (utf8 (concat (map (esc_char False) s))) \<le> length (concat (map (esc_char True) s))"
    by (induction s) (auto intro: add_mono esc_char_shorter)
  then show ?thesis by (simp add: json_string_def utf8_Cons utf8_char_def)
qed

lemma show_int_ascii: "list_all (\<lambda>c. (of_char c :: nat) < 128) (show_int n)"
  using show_nat_digits [of "nat n"] show_nat_digits [of "nat (- n)"]
  by (auto simp: show_int_def list_all_iff ascii_digit_def)

text \<open>The text of the second protocol is never longer than the one the first protocol encodes.\<close>

lemma json_dumps_shorter: "floats_ascii v \<Longrightarrow> length (utf8 (json_dumps False v)) \<le> length (json_dumps True v)"
proof (induction v)
  case (JObj d)
  have "list_all2 (\<lambda>x y. length (utf8 x) \<le> length y)
      (map (\<lambda>kv. json_string False (fst kv) @ '':'' @ json_dumps False (snd kv)) (sort_key fst d))
      (map (\<lambda>kv. json_string True (fst kv) @ '':'' @ json_dumps True (snd kv)) (sort_key fst d))"
    unfolding list_all2_map1 list_all2_map2 list_all2_same set_sort
  proof
    fix kv assume kv: "kv \<in> set d"
    with JObj.prems have "floats_ascii (snd kv)" by (simp add: list_all_iff)
    with JObj.IH [of kv "snd kv"] kv have "length (utf8 (json_dumps False (snd kv))) \<le> length (json_dumps True (snd kv))"
      by (cases kv) auto
    with json_string_shorter [of "fst kv"]
    show "length (utf8 (json_string False (fst kv) @ '':'' @ json_dumps False (snd kv)))
      \<le> length (json_string True (fst kv) @ '':'' @ json_dumps True (snd kv))"
      by (simp add: utf8_Cons utf8_char_def)
  qed
  from utf8_join [OF this] show ?case unfolding json_dumps_JObj by (simp add: utf8_Cons utf8_char_def)
next
  case (JList xs)
  then have "list_all2 (\<lambda>x y. length (utf8 x) \<le> length y) (map (json_dumps False) xs) (map (json_dumps True) xs)"
    by (simp add: list_all2_map1 list_all2_map2 list_all2_same list_all_iff)
  from utf8_join [OF this] show ?case by (simp add: utf8_Cons utf8_char_def)
qed (auto simp: utf8_ascii show_int_ascii json_string_shorter)

end
