(* ===== verification/Sync_V2_Properties.thy ===== *)
theory Sync_V2_Properties
  imports Sync_V2 Sync_Pull_Properties
begin

text \<open>
  The second protocol carries the same records: a valid batch becomes a valid batch of the first
  protocol whose payloads decode to what the client sent, and a page of the first protocol becomes a
  page of the second, unless one of its payloads exceeds the second protocol's own limit.
\<close>

lemma map_res_ok: "\<forall>x \<in> set xs. f x = ok (g x) \<Longrightarrow> map_res f xs = ok (map g xs)"
  by (induction xs) auto

lemma map_res_map: "map_res f (map g xs) = map_res (\<lambda>x. f (g x)) xs"
  by (induction xs) auto

lemma map_res_raise:
  assumes "\<forall>x \<in> set xs. f x = ok (g x) \<or> f x = raise e" "\<exists>x \<in> set xs. f x = raise e"
  shows "map_res f xs = raise e"
  using assms
proof (induction xs)
  case (Cons x xs)
  show ?case
  proof (cases "f x = raise e")
    case False
    with Cons have "map_res f xs = raise e" "f x = ok (g x)" by auto
    then show ?thesis by simp
  qed simp
qed simp

lemma brace_not_base64: "b64decode (CHR ''{'' # s) = None"
  by (cases "CHR ''{'' # s" rule: b64decode.cases) (auto simp: b64_value_def)

lemma canonical_object: "\<exists>s. canonical_json_bytes d = CHR ''{'' # s"
  by (simp add: canonical_json_bytes_def utf8_Cons utf8_char_def)

lemma decode_canonical:
  assumes "json_loads lib (canonical_json_bytes d) = Some (JObj d')" "sr_payload r = canonical_json_bytes d"
  shows "decode_payload lib r = ok d'"
proof -
  have "b64decode (sr_payload r) = None" using canonical_object [of d] brace_not_base64 assms(2) by metis
  with assms show ?thesis by (simp add: decode_payload_def)
qed

section \<open>Push\<close>

text \<open>
  C10. A valid batch of the second protocol with a record of a schema version other than 1 is
  refused as a client error before anything is read or written. Every other valid batch is
  translated to a valid batch of the first protocol with the same device, cursor and fields, in which
  the payload of every record decodes to the payload the client sent, its keys sorted; the push has
  the effect, the retries and the answer of a push of that batch, failures included. The hypothesis
  on the JSON library is that it reads the canonical text of the payloads back.
\<close>

theorem v2_push_is_v1_push:
  assumes valid: "sync_batch_v2_valid b"
    and lib: "\<forall>r \<in> set (bv_records b). json_loads lib (canonical_json_bytes (rv_payload r)) = Some (JObj (dict_sorted (rv_payload r)))"
  shows "if \<exists>r \<in> set (bv_records b). rv_entity_schema_version r \<noteq> 1
    then apply_push_v2 abort env db p b = (db, [], raise InvalidMutation)
    else \<exists>b1. to_v1_batch b = ok b1 \<and> sync_batch_valid b1 \<and> sb_device_id b1 = bv_device_id b \<and> sb_cursor b1 = bv_cursor b
      \<and> list_all2 (\<lambda>r1 r. decode_payload lib r1 = ok (dict_sorted (rv_payload r)) \<and> v2_record r1 (rv_payload r) = r)
          (sb_records b1) (bv_records b)
      \<and> apply_push_v2 abort env db p b = (case apply_push abort env db p b1 of (db', retried, answer) \<Rightarrow>
          (db', retried, ebind answer (\<lambda>(result, events). ok (\<lparr>rs_protocol_version = 2,
            v2_accepted_record_ids = accepted_record_ids result, v2_rejected_record_ids = rejected_record_ids result,
            v2_next_cursor = next_cursor result\<rparr>, events))))"
proof -
  define conv where "conv r = \<lparr>sr_id = rv_id r, sr_entity_type = rv_entity_type r, sr_entity_id = rv_entity_id r,
    sr_updated_at = rv_updated_at r, sr_payload = canonical_json_bytes (rv_payload r),
    sr_base_server_revision = rv_base_server_revision r, sr_server_revision = rv_server_revision r,
    sr_client_mutation_id = rv_client_mutation_id r, sr_deleted_at = rv_deleted_at r\<rparr>" for r :: sync_record_v2
  define b1 where "b1 = \<lparr>sb_device_id = bv_device_id b, sb_cursor = bv_cursor b, sb_records = map conv (bv_records b)\<rparr>"
  have rec: "sync_record_valid (conv r)" if "r \<in> set (bv_records b)" for r
    using valid that by (auto simp: sync_batch_v2_valid_def list_all_iff sync_record_v2_valid_def sync_record_valid_def conv_def
        payload_must_be_bounded_def MAX_SYNC_V2_PAYLOAD_BYTES_def MAX_SYNC_V1_WIRE_PAYLOAD_BYTES_def)
  then have to1: "to_v1_record r = (if rv_entity_schema_version r = 1 then ok (conv r) else raise InvalidMutation)"
    if "r \<in> set (bv_records b)" for r
    using that by (simp add: to_v1_record_def conv_def Let_def)
  show ?thesis
  proof (cases "\<exists>r \<in> set (bv_records b). rv_entity_schema_version r \<noteq> 1")
    case True
    with to1 have "map_res to_v1_record (bv_records b) = raise InvalidMutation"
      by (intro map_res_raise [where g = conv]) auto
    with True show ?thesis by (simp add: apply_push_v2_def to_v1_batch_def)
  next
    case False
    with to1 have "map_res to_v1_record (bv_records b) = ok (map conv (bv_records b))"
      by (intro map_res_ok) simp
    moreover have b1: "sync_batch_valid b1"
      using valid rec by (auto simp: sync_batch_v2_valid_def sync_batch_valid_def b1_def list_all_iff comp_def
          aggregate_payload_must_be_bounded_def v2_aggregate_payload_must_be_bounded_def conv_def)
    ultimately have to: "to_v1_batch b = ok b1" by (simp add: to_v1_batch_def b1_def Let_def)
    have "list_all2 (\<lambda>r1 r. decode_payload lib r1 = ok (dict_sorted (rv_payload r)) \<and> v2_record r1 (rv_payload r) = r)
        (sb_records b1) (bv_records b)"
      using lib False decode_canonical [of lib _ _ "conv _"]
      by (auto simp: b1_def list_all2_map1 list_all2_same conv_def v2_record_def)
    moreover have "apply_push_v2 abort env db p b = (case apply_push abort env db p b1 of (db', retried, answer) \<Rightarrow>
          (db', retried, ebind answer (\<lambda>(result, events). ok (\<lparr>rs_protocol_version = 2,
            v2_accepted_record_ids = accepted_record_ids result, v2_rejected_record_ids = rejected_record_ids result,
            v2_next_cursor = next_cursor result\<rparr>, events))))"
      by (simp add: apply_push_v2_def to)
    ultimately show ?thesis unfolding if_not_P [OF False] using to b1 by (intro exI [of _ b1]) (simp add: b1_def)
  qed
qed

definition demo_batch_v2 :: sync_batch_v2 where
  "demo_batch_v2 = \<lparr>bv_protocol_version = 2, bv_device_id = ''d'', bv_cursor = None,
     bv_records = [v2_record demo_record [(''id'', JStr ''c'')]]\<rparr>"

theorem v2_push_is_v1_push_witness: "\<exists>b1. to_v1_batch demo_batch_v2 = ok b1 \<and> sync_batch_valid b1 \<and> length (sb_records b1) = 1"
proof -
  have size: "length (canonical_json_bytes [(''id'', JStr ''c'')]) = 10"
    by (simp add: canonical_json_bytes_def json_string_def join_def esc_char_def utf8_Cons utf8_char_def)
  have valid: "sync_batch_v2_valid demo_batch_v2"
    by (simp add: sync_batch_v2_valid_def demo_batch_v2_def v2_record_def demo_record_def bounded_id_def
        MAX_SYNC_IDENTIFIER_LENGTH_def MAX_SYNC_RECORDS_def sync_record_v2_valid_def ENTITY_TYPES_def payload_must_be_bounded_def
        v2_aggregate_payload_must_be_bounded_def MAX_SYNC_V2_PAYLOAD_BYTES_def MAX_SYNC_V1_BATCH_PAYLOAD_BYTES_def size)
  have one: "\<not> (\<exists>r \<in> set (bv_records demo_batch_v2). rv_entity_schema_version r \<noteq> 1)"
    and lib: "\<forall>r \<in> set (bv_records demo_batch_v2). json_loads (pe_lib demo_env) (canonical_json_bytes (rv_payload r))
      = Some (JObj (dict_sorted (rv_payload r)))"
    by (simp_all add: demo_batch_v2_def v2_record_def demo_env_def dict_sorted_def)
  from v2_push_is_v1_push [OF valid lib] one obtain b1 where "to_v1_batch demo_batch_v2 = ok b1" "sync_batch_valid b1"
    "list_all2 (\<lambda>r1 r. decode_payload (pe_lib demo_env) r1 = ok (dict_sorted (rv_payload r)) \<and> v2_record r1 (rv_payload r) = r)
      (sb_records b1) (bv_records demo_batch_v2)" unfolding if_not_P [OF one] by blast
  then show ?thesis by (auto simp: demo_batch_v2_def dest: list_all2_lengthD)
qed

section \<open>Pull\<close>

definition reads_back :: "lib \<Rightarrow> json \<Rightarrow> bool" where
  "reads_back lib v \<longleftrightarrow> (case v of JObj d \<Rightarrow> floats_ascii v \<and> json_loads lib (utf8 (json_dumps True v)) = Some (JObj (dict_sorted d))
     | _ \<Rightarrow> False)"

text \<open>What a pull encodes: the stored payload, or an empty object where there is none, as for a tombstone.\<close>

definition sent_payload :: "sync_entity \<Rightarrow> json" where
  "sent_payload ent = (if py_truthy (se_payload_json ent) then se_payload_json ent else JObj [])"

definition v2_size :: "json \<Rightarrow> nat" where
  "v2_size v = length (utf8 (json_dumps False v))"

lemma sorted_object: "JObj (dict_sorted d) = json_sorted (JObj d)"
  by (simp add: dict_sorted_def)

lemma length_le_b64: "length s \<le> length (b64encode (utf8 s))"
proof -
  have "length s \<le> length (utf8 s)" by (induction s) (simp_all add: utf8_Cons utf8_char_def Let_def)
  also have "\<dots> \<le> length (b64encode (utf8 s))" unfolding b64encode_length by presburger
  finally show ?thesis .
qed

lemma from_v1_server_record:
  assumes "reads_back lib (sent_payload ent)" "sync_record_valid (server_record c ent)"
  obtains d where "sent_payload ent = JObj d"
    and "from_v1_record lib (server_record c ent) = (if v2_size (sent_payload ent) \<le> MAX_SYNC_V2_PAYLOAD_BYTES
      then ok (v2_record (server_record c ent) (dict_sorted d)) else raise ValidationError)"
    and "length (canonical_json_bytes (dict_sorted d)) \<le> length (sr_payload (server_record c ent))"
proof -
  from assms(1) obtain d where d: "sent_payload ent = JObj d" and fa: "floats_ascii (JObj d)"
    and load: "json_loads lib (utf8 (json_dumps True (JObj d))) = Some (JObj (dict_sorted d))"
    by (auto simp: reads_back_def split: json.splits)
  have enc: "encoded_payload ent = b64encode (utf8 (json_dumps True (JObj d)))"
    unfolding encoded_payload_def sent_payload_def [symmetric] d ..
  have dec: "decode_payload lib (server_record c ent) = ok (dict_sorted d)"
    using load by (simp add: decode_payload_def server_record_def enc b64_roundtrip del: json_dumps.simps)
  have size: "length (canonical_json_bytes (dict_sorted d)) = v2_size (sent_payload ent)"
    unfolding canonical_json_bytes_def sorted_object json_dumps_sorted v2_size_def d ..
  have "sync_record_v2_valid (v2_record (server_record c ent) (dict_sorted d))
      \<longleftrightarrow> v2_size (sent_payload ent) \<le> MAX_SYNC_V2_PAYLOAD_BYTES"
    using assms(2) by (simp add: sync_record_v2_valid_def sync_record_valid_def v2_record_def payload_must_be_bounded_def size)
  then have "from_v1_record lib (server_record c ent) = (if v2_size (sent_payload ent) \<le> MAX_SYNC_V2_PAYLOAD_BYTES
      then ok (v2_record (server_record c ent) (dict_sorted d)) else raise ValidationError)"
    by (simp add: from_v1_record_def dec)
  moreover have "length (canonical_json_bytes (dict_sorted d)) \<le> length (sr_payload (server_record c ent))"
  proof -
    have "length (canonical_json_bytes (dict_sorted d)) \<le> length (json_dumps True (JObj d))"
      unfolding canonical_json_bytes_def sorted_object json_dumps_sorted using fa by (rule json_dumps_shorter)
    also have "\<dots> \<le> length (sr_payload (server_record c ent))"
      using length_le_b64 [of "json_dumps True (JObj d)"] by (simp add: server_record_def enc del: json_dumps.simps)
    finally show ?thesis .
  qed
  ultimately show ?thesis using d by (rule_tac that)
qed

lemma from_v1_valid: "from_v1_record lib r = ok x \<Longrightarrow> sync_record_v2_valid x"
  by (auto simp: from_v1_record_def res_simps split: if_splits)

definition stored_payload :: "db \<Rightarrow> principal \<Rightarrow> sync_change_log \<Rightarrow> json" where
  "stored_payload db p c = sent_payload (the (get_entity db (organization_id p) (cl_entity_type c) (cl_entity_id c)))"

definition v2_delivered :: "db \<Rightarrow> principal \<Rightarrow> sync_change_log \<Rightarrow> sync_record_v2" where
  "v2_delivered db p c = v2_record (delivered db p c) (dict_sorted (the_dict (stored_payload db p c)))"

text \<open>
  C11. A pull of the second protocol returns the page of the first one, record for record, tombstones
  included, with the stored payloads themselves, their keys sorted (an empty object where none is
  stored); or it raises \<open>ValidationError\<close>, which the route does
  not handle, exactly when the page has a payload of more than 1,500,000 bytes. The first protocol
  stores payloads beyond that limit, so such a record blocks every reader of the second at its
  cursor. The hypothesis is that what the reader may see is stored as objects or as nothing, and that the
  JSON library reads each sent payload back from its text.
\<close>

theorem v2_pull_is_v1_page:
  assumes pull: "pull_since dump_size db p cursor = ok b1" and wf: "sync_wf db" "unique_keys db"
    and lib: "\<forall>c \<in> set (sync_change_logs db). deliverable db p c \<longrightarrow> reads_back lib (stored_payload db p c)"
  shows "\<exists>cs. sb_records b1 = map (delivered db p) cs \<and> pull_since_v2 lib dump_size db p cursor =
    (if \<forall>c \<in> set cs. v2_size (stored_payload db p c) \<le> MAX_SYNC_V2_PAYLOAD_BYTES
     then ok \<lparr>bv_protocol_version = 2, bv_device_id = sb_device_id b1, bv_cursor = sb_cursor b1, bv_records = map (v2_delivered db p) cs\<rparr>
     else raise ValidationError)"
proof -
  have "log_ordered db" using wf(1) by (simp add: sync_wf_def)
  from pull_since_page [OF pull this wf(2)] obtain cs where cs: "sb_records b1 = map (delivered db p) cs"
    and dl: "\<forall>c \<in> set cs. c \<in> set (sync_change_logs db) \<and> deliverable db p c"
    by (fastforce simp: changes_between_def)
  have valid: "sync_batch_valid b1" by (rule pull_since_valid [OF pull])
  have each: "from_v1_record lib (delivered db p c) = (if v2_size (stored_payload db p c) \<le> MAX_SYNC_V2_PAYLOAD_BYTES
      then ok (v2_delivered db p c) else raise ValidationError)
    \<and> length (canonical_json_bytes (rv_payload (v2_delivered db p c))) \<le> length (sr_payload (delivered db p c))"
    if c: "c \<in> set cs" for c
  proof -
    have "sync_record_valid (delivered db p c)" using valid cs c by (auto simp: sync_batch_valid_def list_all_iff)
    with lib dl c obtain d where "stored_payload db p c = JObj d"
      "from_v1_record lib (delivered db p c) = (if v2_size (stored_payload db p c) \<le> MAX_SYNC_V2_PAYLOAD_BYTES
        then ok (v2_record (delivered db p c) (dict_sorted d)) else raise ValidationError)"
      "length (canonical_json_bytes (dict_sorted d)) \<le> length (sr_payload (delivered db p c))"
      unfolding delivered_def stored_payload_def by (metis from_v1_server_record)
    then show ?thesis by (simp add: v2_delivered_def) (simp add: v2_record_def)
  qed
  show ?thesis
  proof (cases "\<forall>c \<in> set cs. v2_size (stored_payload db p c) \<le> MAX_SYNC_V2_PAYLOAD_BYTES")
    case False
    then have "\<exists>r \<in> set (sb_records b1). from_v1_record lib r = raise ValidationError" using each cs by auto
    moreover have "\<forall>r \<in> set (sb_records b1). from_v1_record lib r = ok (SOME x. from_v1_record lib r = ok x)
        \<or> from_v1_record lib r = raise ValidationError"
      using each cs by (auto intro: someI2)
    ultimately have "map_res (from_v1_record lib) (sb_records b1) = raise ValidationError" by (rule map_res_raise [rotated])
    with pull cs False show ?thesis by (intro exI [of _ cs]) (simp add: pull_since_v2_def)
  next
    case True
    let ?b = "\<lparr>bv_protocol_version = 2, bv_device_id = sb_device_id b1, bv_cursor = sb_cursor b1, bv_records = map (v2_delivered db p) cs\<rparr>"
    have "map_res (\<lambda>c. from_v1_record lib (delivered db p c)) cs = ok (map (v2_delivered db p) cs)"
      using True each by (intro map_res_ok) simp
    then have recs: "map_res (from_v1_record lib) (sb_records b1) = ok (map (v2_delivered db p) cs)"
      unfolding cs map_res_map by (simp add: comp_def)
    have "sum_list (map (\<lambda>c. length (canonical_json_bytes (rv_payload (v2_delivered db p c)))) cs)
        \<le> sum_list (map (\<lambda>c. length (sr_payload (delivered db p c))) cs)"
      using each by (intro sum_list_mono) simp
    also have "\<dots> \<le> MAX_SYNC_V1_BATCH_PAYLOAD_BYTES"
      using valid cs by (simp add: sync_batch_valid_def aggregate_payload_must_be_bounded_def comp_def)
    finally have "v2_aggregate_payload_must_be_bounded (map (v2_delivered db p) cs)"
      by (simp add: v2_aggregate_payload_must_be_bounded_def comp_def)
    moreover have "list_all sync_record_v2_valid (map (v2_delivered db p) cs)"
      using True each from_v1_valid by (fastforce simp: list_all_iff)
    ultimately have "sync_batch_v2_valid ?b" using valid cs by (simp add: sync_batch_v2_valid_def sync_batch_valid_def)
    with pull cs True recs show ?thesis by (intro exI [of _ cs]) (simp add: pull_since_v2_def)
  qed
qed

text \<open>For a tombstone the hypothesis asks that the library reads the empty object.\<close>

lemma tombstone_sent:
  assumes "json_loads lib ''{}'' = Some (JObj [])" and "se_payload_json ent = JNull"
  shows "reads_back lib (sent_payload ent)" "sent_payload ent = JObj []"
  using assms by (simp_all add: reads_back_def sent_payload_def dict_sorted_def join_def utf8_Cons utf8_char_def)

theorem v2_pull_is_v1_page_witness:
  "\<exists>b. pull_since_v2 (pe_lib demo_env) demo_dump demo_pushed_db demo_principal None = ok b \<and> length (bv_records b) = 1"
proof -
  have org: "organization_id demo_principal = ''o''" by (simp add: demo_principal_def)
  have wf: "sync_wf demo_pushed_db" by (rule pushes_wf [OF demo_pushes demo_push_db_wf])
  have stored: "stored_payload demo_pushed_db demo_principal demo_change1 = JObj [(''id'', JStr ''c'')]"
    by (simp add: stored_payload_def org demo_change1_def demo_pushed_entity sent_payload_def)
  have log: "sync_change_logs demo_pushed_db = [demo_change1]" by (simp add: demo_pushed_log demo_change1_def)
  have lib: "\<forall>c \<in> set (sync_change_logs demo_pushed_db). deliverable demo_pushed_db demo_principal c \<longrightarrow>
      reads_back (pe_lib demo_env) (stored_payload demo_pushed_db demo_principal c)"
    by (simp add: log stored reads_back_def demo_env_def dict_sorted_def)
  have size: "v2_size (JObj [(''id'', JStr ''c'')]) \<le> MAX_SYNC_V2_PAYLOAD_BYTES"
    by (simp add: v2_size_def json_string_def join_def esc_char_def utf8_Cons utf8_char_def MAX_SYNC_V2_PAYLOAD_BYTES_def)
  from v2_pull_is_v1_page [OF demo_pull wf demo_pushed_unique lib] obtain cs where
    recs: "sb_records (page_batch [delivered demo_pushed_db demo_principal demo_change1] 1) = map (delivered demo_pushed_db demo_principal) cs"
    and pull: "pull_since_v2 (pe_lib demo_env) demo_dump demo_pushed_db demo_principal None =
      (if \<forall>c \<in> set cs. v2_size (stored_payload demo_pushed_db demo_principal c) \<le> MAX_SYNC_V2_PAYLOAD_BYTES
       then ok \<lparr>bv_protocol_version = 2, bv_device_id = sb_device_id (page_batch [delivered demo_pushed_db demo_principal demo_change1] 1),
         bv_cursor = sb_cursor (page_batch [delivered demo_pushed_db demo_principal demo_change1] 1),
         bv_records = map (v2_delivered demo_pushed_db demo_principal) cs\<rparr>
       else raise ValidationError)" by blast
  from recs obtain c where c: "cs = [c]" "delivered demo_pushed_db demo_principal c = delivered demo_pushed_db demo_principal demo_change1"
    by (auto simp: page_batch_def)
  then have "cl_entity_type c = cl_entity_type demo_change1" "cl_entity_id c = cl_entity_id demo_change1"
    by (simp_all add: delivered_def server_record_def)
  then have "stored_payload demo_pushed_db demo_principal c = JObj [(''id'', JStr ''c'')]"
    using stored by (simp add: stored_payload_def)
  with pull c(1) size show ?thesis by simp
qed

end
