(* ===== verification/Storage.thy ===== *)
theory Storage
  imports Ownership
begin

text \<open>
  \<open>app/storage.py\<close>: the content-addressed keys, the store on the local file system and the store on
  S3. The operating system's path resolution and the boto3 client are parameters; both stores are
  packaged as a record of operations, which is what their callers see of the class \<open>ObjectStore\<close>.
\<close>

section \<open>Interface\<close>

type_synonym bytes = string

text \<open>
  A request body: the chunks that arrive and the exception that ends the stream early, if any. An error of the operating
  system while the chunks are written ends it in the same way; otherwise the local file system does not fail.
\<close>

record byte_stream =
  bs_chunks :: "bytes list"
  bs_error :: "exn option"

record StoredObject =
  so_sha256 :: string
  so_size_bytes :: nat

record 's ObjectStore =
  provider :: string
  put_verified :: "'s \<Rightarrow> string \<Rightarrow> byte_stream \<Rightarrow> string \<Rightarrow> 's \<times> StoredObject res"
  store_exists :: "'s \<Rightarrow> string \<Rightarrow> bool res"
  store_stream :: "'s \<Rightarrow> string \<Rightarrow> bytes list res"
  store_delete :: "'s \<Rightarrow> string \<Rightarrow> 's \<times> unit res"

section \<open>Keys\<close>

definition hex_digest_ok :: "string \<Rightarrow> bool" where
  "hex_digest_ok digest \<longleftrightarrow> length digest = 64 \<and> list_all (\<lambda>c. c \<in> set ''0123456789abcdef'') digest"

definition object_key_for :: "lib \<Rightarrow> string \<Rightarrow> string \<Rightarrow> string \<Rightarrow> string res" where
  "object_key_for lib organization document_id sha256 =
     (let org = sha256_hex lib (utf8 organization);
          document = sha256_hex lib (utf8 document_id);
          digest = py_lower sha256
      in if \<not> hex_digest_ok digest then raise ValueError
         else ok (''blobs/'' @ org @ ''/'' @ document @ ''/'' @ digest))"

section \<open>The local file system\<close>

text \<open>
  \<open>fs_resolve\<close> is \<open>Path.resolve\<close>, which follows the symbolic links of the host; the files are a map
  from resolved paths to contents.
\<close>

record local_fs =
  fs_resolve :: "string \<Rightarrow> string"
  fs_root :: string

type_synonym files = "string \<rightharpoonup> bytes"

definition is_relative_to :: "string \<Rightarrow> string \<Rightarrow> bool" where
  "is_relative_to path base \<longleftrightarrow> path = base \<or> take (length base + 1) path = base @ ''/''"

definition join_path :: "string \<Rightarrow> string \<Rightarrow> string" where
  "join_path base raw = base @ ''/'' @ raw"

definition local_path :: "local_fs \<Rightarrow> string \<Rightarrow> string res" where
  "local_path fs key =
     (let base = fs_resolve fs (fs_root fs);
          candidate =
            (if take 1 key = ''/'' then fs_resolve fs key
             else let direct = fs_resolve fs key in
               if is_relative_to direct base then direct else fs_resolve fs (join_path base key))
      in if is_relative_to candidate base then ok candidate else raise (StorageError None))"

text \<open>
  The bytes go to a temporary file first; an exception of the stream or a wrong digest removes it
  and leaves the destination as it was.
\<close>

definition local_put_verified ::
  "lib \<Rightarrow> local_fs \<Rightarrow> files \<Rightarrow> string \<Rightarrow> byte_stream \<Rightarrow> string \<Rightarrow> files \<times> StoredObject res" where
  "local_put_verified lib fs files key chunks expected_sha256 =
     (case local_path fs key of
        Inl e \<Rightarrow> (files, raise e)
      | Inr destination \<Rightarrow>
          (case bs_error chunks of
             Some e \<Rightarrow> (files, raise e)
           | None \<Rightarrow>
               let data = concat (bs_chunks chunks);
                   actual = sha256_hex lib data
               in if py_lower actual \<noteq> py_lower expected_sha256 then (files, raise StorageDigestMismatch)
                  else (files(destination \<mapsto> data), ok \<lparr>so_sha256 = actual, so_size_bytes = length data\<rparr>)))"

definition local_exists :: "local_fs \<Rightarrow> files \<Rightarrow> string \<Rightarrow> bool res" where
  "local_exists fs files key = ebind (local_path fs key) (\<lambda>path. ok (files path \<noteq> None))"

definition CHUNK_BYTES :: nat where
  "CHUNK_BYTES = 1024 * 1024"

text \<open>Reading in pieces until an empty one.\<close>

function read_chunks :: "nat \<Rightarrow> bytes \<Rightarrow> bytes list" where
  "read_chunks n data = (if data = [] \<or> n = 0 then [] else take n data # read_chunks n (drop n data))"
  by pat_completeness auto
termination
  by (relation "measure (\<lambda>(n, data). length data)") auto

declare read_chunks.simps [simp del]

definition local_stream :: "local_fs \<Rightarrow> files \<Rightarrow> string \<Rightarrow> bytes list res" where
  "local_stream fs files key = ebind (local_path fs key) (\<lambda>path.
     case files path of None \<Rightarrow> raise FileNotFoundError | Some data \<Rightarrow> ok (read_chunks CHUNK_BYTES data))"

definition local_delete :: "local_fs \<Rightarrow> files \<Rightarrow> string \<Rightarrow> files \<times> unit res" where
  "local_delete fs files key =
     (case local_path fs key of
        Inl e \<Rightarrow> (files, raise e)
      | Inr path \<Rightarrow> (files(path := None), ok ()))"

definition LocalObjectStore :: "lib \<Rightarrow> local_fs \<Rightarrow> files ObjectStore" where
  "LocalObjectStore lib fs = \<lparr>provider = ''local'', put_verified = local_put_verified lib fs,
     store_exists = local_exists fs, store_stream = local_stream fs, store_delete = local_delete fs\<rparr>"

section \<open>S3\<close>

text \<open>
  The client calls the store makes, each of which may raise anything. A part is identified by its
  number and the tag the service returns.
\<close>

type_synonym part = "nat \<times> string"

record 's s3_client =
  create_multipart_upload :: "'s \<Rightarrow> string \<Rightarrow> 's \<times> string res"
  upload_part :: "'s \<Rightarrow> string \<Rightarrow> string \<Rightarrow> nat \<Rightarrow> bytes \<Rightarrow> 's \<times> string res"
  complete_multipart_upload :: "'s \<Rightarrow> string \<Rightarrow> string \<Rightarrow> part list \<Rightarrow> 's \<times> unit res"
  abort_multipart_upload :: "'s \<Rightarrow> string \<Rightarrow> string \<Rightarrow> 's \<times> unit res"
  copy_object :: "'s \<Rightarrow> string \<Rightarrow> string \<Rightarrow> 's \<times> unit res"
  delete_object :: "'s \<Rightarrow> string \<Rightarrow> 's \<times> unit res"
  head_object :: "'s \<Rightarrow> string \<Rightarrow> unit res"
  get_object :: "'s \<Rightarrow> string \<Rightarrow> bytes res"

text \<open>\<open>max(settings.s3_part_size_bytes, 5 * 1024 * 1024)\<close>\<close>

definition part_size_for :: "nat \<Rightarrow> nat" where
  "part_size_for configured = max configured (5 * 1024 * 1024)"

text \<open>Upload full parts off the front of the buffer.\<close>

function flush_parts ::
  "'s s3_client \<Rightarrow> nat \<Rightarrow> string \<Rightarrow> string \<Rightarrow> 's \<Rightarrow> part list \<Rightarrow> bytes \<Rightarrow> 's \<times> (part list \<times> bytes) res" where
  "flush_parts cl part_size staging upload_id s parts buffer =
     (if part_size = 0 \<or> length buffer < part_size then (s, ok (parts, buffer))
      else case upload_part cl s staging upload_id (length parts + 1) (take part_size buffer) of
          (s', Inl e) \<Rightarrow> (s', raise e)
        | (s', Inr etag) \<Rightarrow>
            flush_parts cl part_size staging upload_id s' (parts @ [(length parts + 1, etag)]) (drop part_size buffer))"
  by pat_completeness auto
termination
  by (relation "measure (\<lambda>(cl, n, st, u, s, parts, buffer). length buffer)") auto

declare flush_parts.simps [simp del]

fun upload_chunks ::
  "'s s3_client \<Rightarrow> nat \<Rightarrow> string \<Rightarrow> string \<Rightarrow> 's \<Rightarrow> part list \<Rightarrow> bytes \<Rightarrow> bytes list \<Rightarrow> exn option
     \<Rightarrow> 's \<times> (part list \<times> bytes) res" where
  "upload_chunks cl part_size staging upload_id s parts buffer [] failure =
     (case failure of Some e \<Rightarrow> (s, raise e) | None \<Rightarrow> (s, ok (parts, buffer)))"
| "upload_chunks cl part_size staging upload_id s parts buffer (chunk # chunks) failure =
     (case flush_parts cl part_size staging upload_id s parts (buffer @ chunk) of
        (s', Inl e) \<Rightarrow> (s', raise e)
      | (s', Inr (parts', buffer')) \<Rightarrow>
          upload_chunks cl part_size staging upload_id s' parts' buffer' chunks failure)"

text \<open>The rest of the buffer, and an empty part when there was none at all.\<close>

definition upload_rest ::
  "'s s3_client \<Rightarrow> string \<Rightarrow> string \<Rightarrow> 's \<Rightarrow> part list \<Rightarrow> bytes \<Rightarrow> 's \<times> part list res" where
  "upload_rest cl staging upload_id s parts buffer =
     (if buffer \<noteq> [] \<or> parts = [] then
        (case upload_part cl s staging upload_id (length parts + 1) buffer of
           (s', Inl e) \<Rightarrow> (s', raise e)
         | (s', Inr etag) \<Rightarrow> (s', ok (parts @ [(length parts + 1, etag)])))
      else (s, ok parts))"

text \<open>The broad handler: clean up, swallow what the cleanup raises, and wrap the cause.\<close>

definition s3_failed ::
  "'s s3_client \<Rightarrow> string \<Rightarrow> string option \<Rightarrow> 's \<Rightarrow> exn \<Rightarrow> 's \<times> StoredObject res" where
  "s3_failed cl staging upload_id s e =
     (let s' = (case upload_id of
          Some u \<Rightarrow> fst (abort_multipart_upload cl s staging u)
        | None \<Rightarrow> fst (delete_object cl s staging))
      in (s', raise (StorageError (Some e))))"

definition s3_assemble ::
  "'s s3_client \<Rightarrow> nat \<Rightarrow> string \<Rightarrow> string \<Rightarrow> 's \<Rightarrow> byte_stream \<Rightarrow> 's \<times> unit res" where
  "s3_assemble cl part_size staging upload_id s chunks =
     (case upload_chunks cl part_size staging upload_id s [] [] (bs_chunks chunks) (bs_error chunks) of
        (s1, Inl e) \<Rightarrow> (s1, raise e)
      | (s1, Inr (parts, buffer)) \<Rightarrow>
          (case upload_rest cl staging upload_id s1 parts buffer of
             (s2, Inl e) \<Rightarrow> (s2, raise e)
           | (s2, Inr parts') \<Rightarrow> complete_multipart_upload cl s2 staging upload_id parts'))"

text \<open>
  After the copy the object is published; a failing removal of the staging object is only logged.
  A wrong digest removes the staging object outside the broad handler, so what that removal raises
  replaces the mismatch.
\<close>

definition s3_publish ::
  "lib \<Rightarrow> 's s3_client \<Rightarrow> string \<Rightarrow> 's \<Rightarrow> string \<Rightarrow> bytes \<Rightarrow> string \<Rightarrow> 's \<times> StoredObject res" where
  "s3_publish lib cl staging s key data expected_sha256 =
     (let actual = sha256_hex lib data in
      if py_lower actual \<noteq> py_lower expected_sha256 then
        (case delete_object cl s staging of
           (s', Inl e) \<Rightarrow> (s', raise e)
         | (s', Inr _) \<Rightarrow> (s', raise StorageDigestMismatch))
      else case copy_object cl s staging key of
          (s', Inl e) \<Rightarrow> s3_failed cl staging None s' e
        | (s', Inr _) \<Rightarrow>
            (fst (delete_object cl s' staging), ok \<lparr>so_sha256 = actual, so_size_bytes = length data\<rparr>))"

definition s3_put_verified ::
  "lib \<Rightarrow> 's s3_client \<Rightarrow> nat \<Rightarrow> string \<Rightarrow> 's \<Rightarrow> string \<Rightarrow> byte_stream \<Rightarrow> string \<Rightarrow> 's \<times> StoredObject res" where
  "s3_put_verified lib cl part_size staging s key chunks expected_sha256 =
     (case create_multipart_upload cl s staging of
        (s1, Inl e) \<Rightarrow> s3_failed cl staging None s1 e
      | (s1, Inr upload_id) \<Rightarrow>
          (case s3_assemble cl part_size staging upload_id s1 chunks of
             (s2, Inl e) \<Rightarrow> s3_failed cl staging (Some upload_id) s2 e
           | (s2, Inr _) \<Rightarrow> s3_publish lib cl staging s2 key (concat (bs_chunks chunks)) expected_sha256))"

definition s3_exists :: "'s s3_client \<Rightarrow> 's \<Rightarrow> string \<Rightarrow> bool res" where
  "s3_exists cl s key =
     (case head_object cl s key of
        Inr _ \<Rightarrow> ok True
      | Inl (ClientError status code) \<Rightarrow>
          if status = Some 404 \<or> code \<in> {Some ''404'', Some ''NoSuchKey'', Some ''NotFound''} then ok False
          else raise (StorageError (Some (ClientError status code)))
      | Inl e \<Rightarrow> raise e)"

definition s3_stream :: "'s s3_client \<Rightarrow> 's \<Rightarrow> string \<Rightarrow> bytes list res" where
  "s3_stream cl s key =
     (case get_object cl s key of
        Inr data \<Rightarrow> ok (read_chunks CHUNK_BYTES data)
      | Inl (ClientError status code) \<Rightarrow>
          if status = Some 404 then raise FileNotFoundError
          else raise (StorageError (Some (ClientError status code)))
      | Inl e \<Rightarrow> raise e)"

definition s3_delete :: "'s s3_client \<Rightarrow> 's \<Rightarrow> string \<Rightarrow> 's \<times> unit res" where
  "s3_delete cl s key =
     (case delete_object cl s key of
        (s', Inl e) \<Rightarrow> (s', raise (StorageError (Some e)))
      | (s', Inr _) \<Rightarrow> (s', ok ()))"

definition S3ObjectStore :: "lib \<Rightarrow> 's s3_client \<Rightarrow> nat \<Rightarrow> string \<Rightarrow> 's ObjectStore" where
  "S3ObjectStore lib cl part_size staging = \<lparr>provider = ''s3'',
     put_verified = s3_put_verified lib cl (part_size_for part_size) staging,
     store_exists = s3_exists cl, store_stream = s3_stream cl, store_delete = s3_delete cl\<rparr>"

section \<open>Choosing a store\<close>

text \<open>
  Both stores work on one state that holds the files and the bucket. The S3 store cannot be built
  without a bucket name.
\<close>

record 's stores =
  st_local :: "'s ObjectStore"
  st_s3 :: "'s ObjectStore"
  st_s3_bucket :: string
  st_current :: string

definition store_for_provider :: "'s stores \<Rightarrow> string \<Rightarrow> 's ObjectStore res" where
  "store_for_provider st name =
     (if name = ''local'' then ok (st_local st)
      else if name = ''s3'' then (if st_s3_bucket st = [] then raise (StorageError None) else ok (st_s3 st))
      else raise (StorageError None))"

definition current_store :: "'s stores \<Rightarrow> 's ObjectStore res" where
  "current_store st = store_for_provider st (st_current st)"

end
