(* ===== verification/Evidence.thy ===== *)
theory Evidence
  imports Storage Sync_Push Sync_Pull
begin

text \<open>
  \<open>app/evidence.py\<close> (uploads), the collector of \<open>app/evidence_gc.py\<close> and the evidence routes of
  \<open>app/main.py\<close>. An upload is three pieces with other requests between them: the checks, the write
  to the object store, and the pointer switch under the row lock of the organization; a refused
  switch is followed, after its rollback, by the removal of the candidate object.
\<close>

section \<open>Uploads\<close>

fun bounded_from :: "nat \<Rightarrow> nat \<Rightarrow> bytes list \<Rightarrow> exn option \<Rightarrow> byte_stream" where
  "bounded_from limit consumed [] failure = \<lparr>bs_chunks = [], bs_error = failure\<rparr>"
| "bounded_from limit consumed (chunk # body) failure =
     (if chunk = [] then bounded_from limit consumed body failure
      else if limit < consumed + length chunk then \<lparr>bs_chunks = [], bs_error = Some EvidenceBlobTooLarge\<rparr>
      else let rest = bounded_from limit (consumed + length chunk) body failure
        in rest\<lparr>bs_chunks := chunk # bs_chunks rest\<rparr>)"

definition bounded_chunks :: "byte_stream \<Rightarrow> int \<Rightarrow> byte_stream" where
  "bounded_chunks body max_bytes = bounded_from (nat (max 1 max_bytes)) 0 (bs_chunks body) (bs_error body)"

definition evidence_metadata :: "db \<Rightarrow> string \<Rightarrow> string \<Rightarrow> canonical_item_child option" where
  "evidence_metadata db org document_id = get_item_child db org ''evidence'' document_id"

definition metadata_deleted :: "canonical_item_child option \<Rightarrow> bool" where
  "metadata_deleted m = (case m of None \<Rightarrow> False | Some c \<Rightarrow> ic_deleted_at c \<noteq> None)"

definition cancel_gc_for_key :: "db \<Rightarrow> string \<Rightarrow> string \<Rightarrow> string \<Rightarrow> db" where
  "cancel_gc_for_key db org storage_provider object_key =
     db\<lparr>evidence_object_gcs := filter (\<lambda>g. \<not> (gc_organization_id g = org
          \<and> gc_storage_provider g = storage_provider \<and> gc_object_key g = object_key)) (evidence_object_gcs db)\<rparr>"

text \<open>A failing removal is ignored.\<close>

definition discard_candidate :: "'s ObjectStore \<Rightarrow> 's \<Rightarrow> string \<Rightarrow> bool \<Rightarrow> 's" where
  "discard_candidate store s key preserve = (if preserve then s else fst (store_delete store s key))"

definition require_evidence_manager :: "db \<Rightarrow> principal \<Rightarrow> string \<Rightarrow> unit res" where
  "require_evidence_manager db p item_id =
     rethrow [AuthorizationRejected] (HTTPException 403)
       (ebind (require_item_access db p item_id (Some ''item.evidence.manage'')) (\<lambda>_. ok ()))"

text \<open>\<open>put_blob\<close> up to the rollback before the stream is read.\<close>

definition put_blob_check :: "db \<Rightarrow> principal \<Rightarrow> string \<Rightarrow> string \<Rightarrow> unit res" where
  "put_blob_check db p document_id item_id =
     (let initial = get_blob db (organization_id p) document_id in
      if initial \<noteq> None \<and> eb_item_id (the initial) \<noteq> item_id then raise (HTTPException 409)
      else if metadata_deleted (evidence_metadata db (organization_id p) document_id)
      then raise (HTTPException 409)
      else require_evidence_manager db p
             (case initial of Some b \<Rightarrow> eb_item_id b | None \<Rightarrow> item_id))"

definition upload_error :: "exn \<Rightarrow> exn" where
  "upload_error e = (case e of
       EvidenceBlobTooLarge \<Rightarrow> HTTPException 413
     | StorageDigestMismatch \<Rightarrow> HTTPException 409
     | StorageError cause \<Rightarrow> if cause = Some EvidenceBlobTooLarge then HTTPException 413 else HTTPException 503
     | _ \<Rightarrow> e)"

text \<open>The write: the candidate's key and what the store reports of it.\<close>

definition put_blob_store ::
  "lib \<Rightarrow> int \<Rightarrow> 's ObjectStore \<Rightarrow> 's \<Rightarrow> string \<Rightarrow> string \<Rightarrow> string \<Rightarrow> byte_stream
     \<Rightarrow> 's \<times> (string \<times> StoredObject) res" where
  "put_blob_store lib max_bytes store s org document_id expected_sha256 body =
     (case object_key_for lib org document_id expected_sha256 of
        Inl e \<Rightarrow> (s, raise e)
      | Inr new_key \<Rightarrow>
          (case put_verified store s new_key (bounded_chunks body max_bytes) expected_sha256 of
             (s', Inl e) \<Rightarrow> (s', raise (upload_error e))
           | (s', Inr stored) \<Rightarrow> (s', ok (new_key, stored))))"

text \<open>
  How the pointer switch ends: committed; refused with an exception, after which the candidate is
  removed unless it is to be preserved; or left by an exception no handler catches.
\<close>

datatype publish_outcome = Published evidence_blob | Refused exn bool | Escaped exn

definition candidate_is_canonical :: "'s ObjectStore \<Rightarrow> evidence_blob option \<Rightarrow> string \<Rightarrow> bool" where
  "candidate_is_canonical store model new_key = (case model of
       None \<Rightarrow> False
     | Some b \<Rightarrow> eb_storage_provider b = provider store \<and> eb_object_key b = new_key)"

text \<open>The row to commit, with the garbage-collection entry of the object it replaces.\<close>

definition switch_pointer ::
  "push_env \<Rightarrow> db \<Rightarrow> principal \<Rightarrow> 's ObjectStore \<Rightarrow> string \<Rightarrow> string \<Rightarrow> string \<Rightarrow> string \<Rightarrow> string
     \<Rightarrow> StoredObject \<Rightarrow> db \<times> evidence_blob" where
  "switch_pointer env db p store document_id item_id filename mime_type new_key stored =
     (case get_blob db (organization_id p) document_id of
        None \<Rightarrow>
          let b = \<lparr>eb_organization_id = organization_id p, eb_document_id = document_id, eb_item_id = item_id,
                   eb_filename = filename, eb_mime_type = mime_type, eb_sha256 = so_sha256 stored,
                   eb_size_bytes = so_size_bytes stored, eb_storage_provider = provider store,
                   eb_object_key = new_key\<rparr>
          in (db\<lparr>evidence_blobs := put_row blob_key b (evidence_blobs db)\<rparr>, b)
      | Some model \<Rightarrow>
          let db1 = (if candidate_is_canonical store (Some model) new_key then db
                     else queue_blob_gc env db model ''replaced'' None);
              b = model\<lparr>eb_filename := filename, eb_mime_type := mime_type, eb_sha256 := so_sha256 stored,
                   eb_size_bytes := so_size_bytes stored, eb_storage_provider := provider store,
                   eb_object_key := new_key\<rparr>
          in (db1\<lparr>evidence_blobs := put_row blob_key b (evidence_blobs db1)\<rparr>, b))"

text \<open>The unique index on \<open>object_key\<close>.\<close>

definition object_key_taken :: "db \<Rightarrow> evidence_blob \<Rightarrow> bool" where
  "object_key_taken db b \<longleftrightarrow>
     list_ex (\<lambda>x. eb_object_key x = eb_object_key b \<and> blob_key x \<noteq> blob_key b) (evidence_blobs db)"

definition put_blob_publish ::
  "push_env \<Rightarrow> db \<Rightarrow> 's \<Rightarrow> 's ObjectStore \<Rightarrow> principal \<Rightarrow> string \<Rightarrow> string \<Rightarrow> string \<Rightarrow> string \<Rightarrow> string
     \<Rightarrow> StoredObject \<Rightarrow> exn option \<Rightarrow> db \<times> publish_outcome" where
  "put_blob_publish env db s store p document_id item_id filename mime_type new_key stored abort =
     (let model = get_blob db (organization_id p) document_id;
          canonical = candidate_is_canonical store model new_key in
      if get_organization db (organization_id p) = None then (db, Refused (HTTPException 403) False)
      else if metadata_deleted (evidence_metadata db (organization_id p) document_id)
      then (db, Refused (HTTPException 409) canonical)
      else if model \<noteq> None \<and> eb_item_id (the model) \<noteq> item_id
      then (db, Refused (HTTPException 409) canonical)
      else
        let canonical_item_id = (case model of Some b \<Rightarrow> eb_item_id b | None \<Rightarrow> item_id);
            db1 = cancel_gc_for_key db (organization_id p) (provider store) new_key
        in case store_exists store s new_key of
             Inl e \<Rightarrow> (db, Escaped e)
           | Inr present \<Rightarrow>
               if \<not> present then (db, Refused (HTTPException 503) canonical)
               else case require_evidence_manager db1 p canonical_item_id of
                   Inl e \<Rightarrow> (db, Refused e canonical)
                 | Inr _ \<Rightarrow>
                     let (db2, b) = switch_pointer env db1 p store document_id canonical_item_id
                           filename mime_type new_key stored
                     in case (if abort = None \<and> object_key_taken db1 b then Some (DBAPIError (Some ''23505''))
                              else abort) of
                          Some e \<Rightarrow> (rollback db db2, Refused e canonical)
                        | None \<Rightarrow> (db2, Published b))"

text \<open>The whole handler when nothing happens between its pieces.\<close>

definition put_blob ::
  "push_env \<Rightarrow> int \<Rightarrow> 's stores \<Rightarrow> db \<Rightarrow> 's \<Rightarrow> principal \<Rightarrow> string \<Rightarrow> string \<Rightarrow> string \<Rightarrow> string \<Rightarrow> string
     \<Rightarrow> byte_stream \<Rightarrow> exn option \<Rightarrow> db \<times> 's \<times> evidence_blob res" where
  "put_blob env max_bytes st db s p document_id item_id filename mime_type expected_sha256 body abort =
     (case seq (put_blob_check db p document_id item_id) (current_store st) of
        Inl e \<Rightarrow> (db, s, raise e)
      | Inr store \<Rightarrow>
          (case put_blob_store (pe_lib env) max_bytes store s (organization_id p) document_id expected_sha256 body of
             (s1, Inl e) \<Rightarrow> (db, s1, raise e)
           | (s1, Inr (new_key, stored)) \<Rightarrow>
               (case put_blob_publish env db s1 store p document_id item_id filename mime_type new_key stored abort of
                  (db2, Published b) \<Rightarrow> (db2, s1, ok b)
                | (db2, Refused e preserve) \<Rightarrow> (db2, discard_candidate store s1 new_key preserve, raise e)
                | (db2, Escaped e) \<Rightarrow> (db2, s1, raise e))))"

section \<open>Routes\<close>

definition authorized_blob :: "db \<Rightarrow> principal \<Rightarrow> string \<Rightarrow> evidence_blob res" where
  "authorized_blob db p document_id =
     (case get_blob db (organization_id p) document_id of
        None \<Rightarrow> raise (HTTPException 404)
      | Some model \<Rightarrow>
          seq (rethrow [AuthorizationRejected] (HTTPException 403)
                (ebind (require_item_access db p (eb_item_id model) None) (\<lambda>_. ok ())))
            (ok model))"

definition is_storage_error :: "exn \<Rightarrow> bool" where
  "is_storage_error e = (case e of StorageError _ \<Rightarrow> True | StorageDigestMismatch \<Rightarrow> True | _ \<Rightarrow> False)"

definition storage_503 :: "'a res \<Rightarrow> 'a res" where
  "storage_503 m = (case m of Inl e \<Rightarrow> if is_storage_error e then raise (HTTPException 503) else raise e | Inr x \<Rightarrow> ok x)"

text \<open>The answer is the digest header.\<close>

definition evidence_head :: "'s stores \<Rightarrow> db \<Rightarrow> 's \<Rightarrow> principal \<Rightarrow> string \<Rightarrow> string res" where
  "evidence_head st db s p document_id =
     ebind (authorized_blob db p document_id) (\<lambda>model.
       ebind (storage_503 (ebind (store_for_provider st (eb_storage_provider model))
                (\<lambda>store. store_exists store s (eb_object_key model)))) (\<lambda>present.
         if present then ok (eb_sha256 model) else raise (HTTPException 404)))"

definition check_content_length :: "int \<Rightarrow> string option \<Rightarrow> unit res" where
  "check_content_length max_bytes content_length =
     (case content_length of
        None \<Rightarrow> ok ()
      | Some text \<Rightarrow>
          if py_isdigit text
          then ebind (int_of_digits text) (\<lambda>n. if max_bytes < n then raise (HTTPException 413) else ok ())
          else ok ())"

definition evidence_put ::
  "push_env \<Rightarrow> int \<Rightarrow> 's stores \<Rightarrow> db \<Rightarrow> 's \<Rightarrow> principal \<Rightarrow> string \<Rightarrow> string option \<Rightarrow> string \<Rightarrow> string \<Rightarrow> string
     \<Rightarrow> string \<Rightarrow> byte_stream \<Rightarrow> exn option \<Rightarrow> db \<times> 's \<times> string res" where
  "evidence_put env max_bytes st db s p document_id content_length item_id filename mime_type sha256 body abort =
     (case check_content_length max_bytes content_length of
        Inl e \<Rightarrow> (db, s, raise e)
      | Inr _ \<Rightarrow> case put_blob env max_bytes st db s p document_id item_id filename mime_type sha256 body abort of
          (db', s', r) \<Rightarrow> (db', s', ebind r (\<lambda>model. ok (eb_sha256 model))))"

text \<open>
  The store is chosen before the handler's \<open>try\<close>, so an unsupported provider is not turned into a 503.
\<close>

definition evidence_get ::
  "'s stores \<Rightarrow> db \<Rightarrow> 's \<Rightarrow> principal \<Rightarrow> string \<Rightarrow> (bytes list \<times> string \<times> string) res" where
  "evidence_get st db s p document_id =
     ebind (authorized_blob db p document_id) (\<lambda>model.
     ebind (store_for_provider st (eb_storage_provider model)) (\<lambda>store.
     ebind (storage_503 (store_exists store s (eb_object_key model))) (\<lambda>present.
       if \<not> present then raise (HTTPException 404)
       else ebind (store_stream store s (eb_object_key model)) (\<lambda>content.
         ok (content, if eb_mime_type model = [] then ''application/octet-stream'' else eb_mime_type model,
             eb_sha256 model)))))"

section \<open>The collector\<close>

record GCResult =
  gc_deleted :: nat
  gc_skipped :: nat
  gc_failed :: nat

definition GC_BACKOFF_BASE_SECONDS :: int where
  "GC_BACKOFF_BASE_SECONDS = 300"

definition GC_BACKOFF_MAX_SECONDS :: int where
  "GC_BACKOFF_MAX_SECONDS = 3600"

definition gc_delay :: "int \<Rightarrow> int" where
  "gc_delay attempts = min (GC_BACKOFF_BASE_SECONDS * 2 ^ nat (min (attempts - 1) 16)) GC_BACKOFF_MAX_SECONDS"

definition reschedule :: "evidence_object_gc \<Rightarrow> string \<Rightarrow> int \<Rightarrow> evidence_object_gc" where
  "reschedule row error now =
     (let attempts = gc_attempts row + 1
      in row\<lparr>gc_attempts := attempts, gc_last_error := Some error,
             gc_not_before := now + timedelta_seconds (gc_delay attempts)\<rparr>)"

definition is_referenced :: "db \<Rightarrow> string \<Rightarrow> string \<Rightarrow> bool" where
  "is_referenced db org document_id \<longleftrightarrow>
     list_ex (\<lambda>r. se_organization_id r = org \<and> se_entity_type r \<in> {''measurement'', ''customer_requirement''}
       \<and> se_deleted_at r = None \<and> evidence_reference_filter document_id r) (sync_entities db)"

definition delete_gc_row :: "db \<Rightarrow> int \<Rightarrow> db" where
  "delete_gc_row db i = db\<lparr>evidence_object_gcs := filter (\<lambda>g. gc_id g \<noteq> i) (evidence_object_gcs db)\<rparr>"

definition update_gc_row :: "db \<Rightarrow> evidence_object_gc \<Rightarrow> db" where
  "update_gc_row db row = db\<lparr>evidence_object_gcs := put_row gc_id row (evidence_object_gcs db)\<rparr>"

definition delete_blob :: "db \<Rightarrow> string \<times> string \<Rightarrow> db" where
  "delete_blob db k = db\<lparr>evidence_blobs := filter (\<lambda>b. blob_key b \<noteq> k) (evidence_blobs db)\<rparr>"

definition points_to_candidate :: "db \<Rightarrow> evidence_object_gc \<Rightarrow> bool" where
  "points_to_candidate db row =
     (case get_blob db (gc_organization_id row) (gc_document_id row) of
        None \<Rightarrow> False
      | Some current \<Rightarrow> eb_storage_provider current = gc_storage_provider row
                         \<and> eb_object_key current = gc_object_key row)"

definition evidence_live :: "db \<Rightarrow> string \<Rightarrow> string \<Rightarrow> bool" where
  "evidence_live db org document_id =
     (case get_item_child db org ''evidence'' document_id of None \<Rightarrow> False | Some c \<Rightarrow> ic_deleted_at c = None)"

datatype gc_verdict = GC_Deleted | GC_Skipped | GC_Failed

text \<open>
  One row, inside its savepoint. A storage error rolls the savepoint back and reschedules the row;
  any other exception leaves the run. \<open>describe\<close> is the text of an exception.
\<close>

definition collect_row ::
  "'s stores \<Rightarrow> (exn \<Rightarrow> string) \<Rightarrow> int \<Rightarrow> bool \<Rightarrow> db \<Rightarrow> 's \<Rightarrow> evidence_object_gc \<Rightarrow> db \<times> 's \<times> gc_verdict res" where
  "collect_row st describe cutoff dry_run db s row =
     (let pointed = points_to_candidate db row in
      if pointed \<and> evidence_live db (gc_organization_id row) (gc_document_id row)
      then (if dry_run then db else delete_gc_row db (gc_id row), s, ok GC_Skipped)
      else if pointed \<and> is_referenced db (gc_organization_id row) (gc_document_id row)
      then (if dry_run then db else update_gc_row db (reschedule row ''canonical evidence is still referenced'' cutoff),
            s, ok GC_Skipped)
      else if dry_run then (db, s, ok GC_Deleted)
      else case (case store_for_provider st (gc_storage_provider row) of
                   Inl e \<Rightarrow> (s, raise e)
                 | Inr store \<Rightarrow> store_delete store s (gc_object_key row)) of
          (s', Inr _) \<Rightarrow>
            (delete_gc_row (if pointed then delete_blob db (gc_organization_id row, gc_document_id row) else db)
               (gc_id row), s', ok GC_Deleted)
        | (s', Inl e) \<Rightarrow>
            if \<not> is_storage_error e then (db, s', raise e)
            else (case get_row gc_id (gc_id row) (evidence_object_gcs db) of
                    None \<Rightarrow> db
                  | Some retry \<Rightarrow> update_gc_row db (reschedule retry (take 1024 (describe e)) cutoff),
                  s', ok GC_Failed))"

fun collect_rows ::
  "'s stores \<Rightarrow> (exn \<Rightarrow> string) \<Rightarrow> int \<Rightarrow> bool \<Rightarrow> evidence_object_gc list \<Rightarrow> db \<Rightarrow> 's \<Rightarrow> gc_verdict list
     \<Rightarrow> db \<times> 's \<times> gc_verdict list res" where
  "collect_rows st describe cutoff dry_run [] db s verdicts = (db, s, ok verdicts)"
| "collect_rows st describe cutoff dry_run (row # rows) db s verdicts =
     (case collect_row st describe cutoff dry_run db s row of
        (db', s', Inl e) \<Rightarrow> (db', s', raise e)
      | (db', s', Inr v) \<Rightarrow> collect_rows st describe cutoff dry_run rows db' s' (verdicts @ [v]))"

text \<open>Rows another run holds are skipped; the limit is clamped.\<close>

definition due_rows :: "db \<Rightarrow> (evidence_object_gc \<Rightarrow> bool) \<Rightarrow> int \<Rightarrow> int \<Rightarrow> evidence_object_gc list" where
  "due_rows db locked limit cutoff =
     take (nat (max 1 (min limit 1000)))
       (sort_key gc_id (filter (\<lambda>g. gc_not_before g \<le> cutoff \<and> \<not> locked g) (evidence_object_gcs db)))"

text \<open>
  One transaction for the run: an exception, or an abort of the commit, restores the rows, but not
  the objects already removed. A dry run commits nothing.
\<close>

definition collect_due_evidence_gc ::
  "'s stores \<Rightarrow> (exn \<Rightarrow> string) \<Rightarrow> (evidence_object_gc \<Rightarrow> bool) \<Rightarrow> db \<Rightarrow> 's \<Rightarrow> int \<Rightarrow> bool \<Rightarrow> int \<Rightarrow> exn option
     \<Rightarrow> db \<times> 's \<times> GCResult res" where
  "collect_due_evidence_gc st describe locked db s limit dry_run cutoff abort =
     (case collect_rows st describe cutoff dry_run (due_rows db locked limit cutoff) db s [] of
        (db', s', Inl e) \<Rightarrow> (db, s', raise e)
      | (db', s', Inr verdicts) \<Rightarrow>
          let totals = \<lparr>gc_deleted = length (filter (\<lambda>v. v = GC_Deleted) verdicts),
                        gc_skipped = length (filter (\<lambda>v. v = GC_Skipped) verdicts),
                        gc_failed = length (filter (\<lambda>v. v = GC_Failed) verdicts)\<rparr>
          in if dry_run then (db, s', ok totals)
             else case abort of Some e \<Rightarrow> (db, s', raise e) | None \<Rightarrow> (db', s', ok totals))"

end
