(* ===== verification/Evidence_Correct.thy ===== *)
theory Evidence_Correct
  imports Evidence Sync_Push_Correct
begin

text \<open>
  Uploads, collector runs and pushes in any order keep every evidence pointer backed by an object,
  except for the objects that a late removal of a refused candidate or an aborted collector run took
  away, which the step relation records. The locale \<open>object_store\<close> is the contract the evidence code relies on; it is interpreted on the
  local store.
\<close>

section \<open>The contract of an object store\<close>

text \<open>
  \<open>loc\<close> is where a key is stored; only a successful removal makes objects disappear, and only the
  one at its location.
\<close>

locale object_store =
  fixes store :: "'s ObjectStore"
    and loc :: "string \<Rightarrow> string option"
  assumes put_keeps: "put_verified store s k body sha = (s', r) \<Longrightarrow> store_exists store s k' = Inr True \<Longrightarrow>
      store_exists store s' k' = Inr True"
    and put_present: "put_verified store s k body sha = (s', Inr stored) \<Longrightarrow> store_exists store s' k = Inr True"
    and delete_other: "store_delete store s k = (s', u) \<Longrightarrow> store_exists store s k' = Inr True \<Longrightarrow>
      loc k' \<noteq> loc k \<Longrightarrow> store_exists store s' k' = Inr True"
    and delete_failed: "store_delete store s k = (s', Inl e) \<Longrightarrow> store_exists store s k' = Inr True \<Longrightarrow>
      store_exists store s' k' = Inr True"
    and delete_other_stream: "store_delete store s k = (s', u) \<Longrightarrow> loc k' \<noteq> loc k \<Longrightarrow>
      store_stream store s' k' = store_stream store s k'"
    and delete_failed_stream: "store_delete store s k = (s', Inl e) \<Longrightarrow> store_stream store s' k' = store_stream store s k'"

definition local_location :: "local_fs \<Rightarrow> string \<Rightarrow> string option" where
  "local_location fs key = (case local_path fs key of Inl _ \<Rightarrow> None | Inr path \<Rightarrow> Some path)"

lemma local_put_effect:
  assumes "local_put_verified lib fs files k body sha = (files', r)"
  shows "files' = files \<and> (\<exists>e. r = Inl e) \<or>
    (\<exists>path data. local_path fs k = Inr path \<and> bs_error body = None \<and> data = concat (bs_chunks body)
      \<and> py_lower (sha256_hex lib data) = py_lower sha \<and> files' = files(path \<mapsto> data)
      \<and> r = Inr \<lparr>so_sha256 = sha256_hex lib data, so_size_bytes = length data\<rparr>)"
  using assms unfolding local_put_verified_def
  by (auto simp: Let_def split: sum.splits option.splits if_splits)

lemma local_exists_iff: "local_exists fs files k = Inr True \<longleftrightarrow> (\<exists>path. local_path fs k = Inr path \<and> files path \<noteq> None)"
  by (auto simp: local_exists_def res_simps)

interpretation local_store: object_store "LocalObjectStore lib fs" "local_location fs"
proof unfold_locales
  fix s k body sha s' r k'
  assume "put_verified (LocalObjectStore lib fs) s k body sha = (s', r)"
    and "store_exists (LocalObjectStore lib fs) s k' = Inr True"
  then show "store_exists (LocalObjectStore lib fs) s' k' = Inr True"
    using local_put_effect [of lib fs s k body sha s' r] by (auto simp: LocalObjectStore_def local_exists_iff)
next
  fix s k body sha s' stored
  assume "put_verified (LocalObjectStore lib fs) s k body sha = (s', Inr stored)"
  then show "store_exists (LocalObjectStore lib fs) s' k = Inr True"
    using local_put_effect [of lib fs s k body sha s' "Inr stored"]
    by (auto simp: LocalObjectStore_def local_exists_iff)
next
  fix s k s' u k'
  assume "store_delete (LocalObjectStore lib fs) s k = (s', u)" and "local_location fs k' \<noteq> local_location fs k"
  then show "store_stream (LocalObjectStore lib fs) s' k' = store_stream (LocalObjectStore lib fs) s k'"
    by (cases "local_path fs k"; cases "local_path fs k'")
      (auto simp: LocalObjectStore_def local_stream_def local_delete_def local_location_def)
qed (auto simp: LocalObjectStore_def local_exists_iff local_delete_def local_location_def split: sum.splits)

section \<open>Invariants\<close>

text \<open>An object belongs to one document: its key is the content address of that document.\<close>

definition owned :: "lib \<Rightarrow> (string \<times> string) set \<Rightarrow> 's ObjectStore \<Rightarrow> string \<Rightarrow> string \<Rightarrow> string \<Rightarrow> string \<Rightarrow> bool" where
  "owned lib ids store org doc prov key \<longleftrightarrow>
     (org, doc) \<in> ids \<and> prov = provider store \<and> (\<exists>sha. object_key_for lib org doc sha = Inr key)"

definition separate :: "lib \<Rightarrow> (string \<times> string) set \<Rightarrow> (string \<Rightarrow> string option) \<Rightarrow> bool" where
  "separate lib ids loc \<longleftrightarrow> (\<forall>org doc sha key org' doc' sha' key'.
     (org, doc) \<in> ids \<and> (org', doc') \<in> ids \<and> object_key_for lib org doc sha = Inr key
     \<and> object_key_for lib org' doc' sha' = Inr key' \<and> loc key = loc key' \<longrightarrow> org = org' \<and> doc = doc' \<and> key = key')"

definition evidence_ok :: "lib \<Rightarrow> (string \<times> string) set \<Rightarrow> 's ObjectStore \<Rightarrow> db \<Rightarrow> bool" where
  "evidence_ok lib ids store db \<longleftrightarrow> keys_ok blob_key (evidence_blobs db)
     \<and> (\<forall>b \<in> set (evidence_blobs db). get_organization db (eb_organization_id b) \<noteq> None
          \<and> owned lib ids store (eb_organization_id b) (eb_document_id b) (eb_storage_provider b) (eb_object_key b))
     \<and> (\<forall>g \<in> set (evidence_object_gcs db).
          owned lib ids store (gc_organization_id g) (gc_document_id g) (gc_storage_provider g) (gc_object_key g))"

text \<open>Every row has its object, but for the keys in \<open>lost\<close>.\<close>

definition backed_but :: "string set \<Rightarrow> 's ObjectStore \<Rightarrow> db \<Rightarrow> 's \<Rightarrow> bool" where
  "backed_but lost store db s \<longleftrightarrow> (\<forall>b \<in> set (evidence_blobs db). eb_object_key b \<notin> lost \<longrightarrow>
     store_exists store s (eb_object_key b) = Inr True)"

abbreviation backed :: "'s ObjectStore \<Rightarrow> db \<Rightarrow> 's \<Rightarrow> bool" where
  "backed \<equiv> backed_but {}"

lemma separateD:
  "separate lib ids loc \<Longrightarrow> owned lib ids store org doc prov key \<Longrightarrow> owned lib ids store org' doc' prov' key' \<Longrightarrow>
    loc key = loc key' \<Longrightarrow> org = org' \<and> doc = doc' \<and> key = key'"
  unfolding separate_def owned_def by blast

lemma blob_keyI: "keys_ok blob_key rows \<Longrightarrow> b \<in> set rows \<Longrightarrow> get_row blob_key (eb_organization_id b, eb_document_id b) rows = Some b"
  using get_row_mem [of blob_key rows b] by (simp add: blob_key_def)

lemma get_blob_mem: "evidence_ok lib ids store db \<Longrightarrow> b \<in> set (evidence_blobs db) \<Longrightarrow>
    get_blob db (eb_organization_id b) (eb_document_id b) = Some b"
  by (simp add: evidence_ok_def get_blob_def blob_keyI)

lemma get_blob_key: "get_blob db org doc = Some b \<Longrightarrow>
    eb_organization_id b = org \<and> eb_document_id b = doc \<and> b \<in> set (evidence_blobs db)"
  unfolding get_blob_def by (drule get_row_SomeD) (simp add: blob_key_def)

lemma keys_ok_filter: "keys_ok key rows \<Longrightarrow> keys_ok key (filter P rows)"
  by (simp add: keys_ok_def distinct_map_filter)

lemma set_put_row_subset: "set (put_row key r rows) \<subseteq> insert r (set rows)"
  by (induction rows) auto

section \<open>The pointer switch\<close>

lemma switch_pointer_blobs:
  assumes "switch_pointer env db p store doc item fn mt k stored = (db', b)"
  shows "evidence_blobs db' = put_row blob_key b (evidence_blobs db) \<and> eb_object_key b = k
    \<and> eb_storage_provider b = provider store \<and> eb_organization_id b = organization_id p \<and> eb_document_id b = doc
    \<and> organizations db' = organizations db
    \<and> (\<forall>g \<in> set (evidence_object_gcs db'). g \<in> set (evidence_object_gcs db) \<or>
        (\<exists>m \<in> set (evidence_blobs db). gc_organization_id g = eb_organization_id m \<and> gc_document_id g = eb_document_id m
          \<and> gc_storage_provider g = eb_storage_provider m \<and> gc_object_key g = eb_object_key m))"
proof (cases "get_blob db (organization_id p) doc")
  case None
  with assms show ?thesis by (auto simp: switch_pointer_def Let_def)
next
  case (Some m)
  note m = get_blob_key [OF Some]
  show ?thesis
  proof (cases "candidate_is_canonical store (Some m) k")
    case True
    with assms Some m show ?thesis by (auto simp: switch_pointer_def Let_def)
  next
    case False
    with assms Some have "b = m\<lparr>eb_filename := fn, eb_mime_type := mt, eb_sha256 := so_sha256 stored,
        eb_size_bytes := so_size_bytes stored, eb_storage_provider := provider store, eb_object_key := k\<rparr>"
      and "db' = (queue_blob_gc env db m ''replaced'' None)\<lparr>evidence_blobs := put_row blob_key b (evidence_blobs db)\<rparr>"
      by (auto simp: switch_pointer_def Let_def queue_blob_gc_def)
    with m show ?thesis by (auto simp: queue_blob_gc_def Let_def intro!: bexI [of _ m])
  qed
qed

lemma put_blob_publishE:
  assumes "put_blob_publish env db s store p doc item fn mt k stored abort = (db', out)"
  obtains (published) b item' where "out = Published b" "store_exists store s k = Inr True"
      "get_organization db (organization_id p) \<noteq> None"
      "switch_pointer env (cancel_gc_for_key db (organization_id p) (provider store) k) p store doc item' fn mt k stored = (db', b)"
  | (refused) e preserve where "out = Refused e preserve" "evidence_blobs db' = evidence_blobs db"
      "evidence_object_gcs db' = evidence_object_gcs db" "organizations db' = organizations db"
      "preserve = (get_organization db (organization_id p) \<noteq> None
         \<and> candidate_is_canonical store (get_blob db (organization_id p) doc) k)"
  | (escaped) e where "out = Escaped e" "db' = db"
proof -
  define model where "model = get_blob db (organization_id p) doc"
  define item' where "item' = (case model of Some b \<Rightarrow> eb_item_id b | None \<Rightarrow> item)"
  define db1 where "db1 = cancel_gc_for_key db (organization_id p) (provider store) k"
  note unf = assms [unfolded put_blob_publish_def Let_def, folded model_def, folded item'_def, folded db1_def]
  consider (noorg) "get_organization db (organization_id p) = None"
    | (early) e where "get_organization db (organization_id p) \<noteq> None" "db' = db"
        "out = Refused e (candidate_is_canonical store model k)"
    | (gone) e where "get_organization db (organization_id p) \<noteq> None" "db' = db" "out = Escaped e"
    | (switch) "get_organization db (organization_id p) \<noteq> None" "store_exists store s k = Inr True"
        "(case switch_pointer env db1 p store doc item' fn mt k stored of (db2, b) \<Rightarrow>
           case (if abort = None \<and> object_key_taken db1 b then Some (DBAPIError (Some ''23505'')) else abort) of
             Some e \<Rightarrow> (rollback db db2, Refused e (candidate_is_canonical store model k))
           | None \<Rightarrow> (db2, Published b)) = (db', out)"
    using unf by (force split: if_splits sum.splits)
  then show thesis
  proof cases
    case noorg
    with unf refused [of "HTTPException 403" False] show thesis by auto
  next
    case early
    with refused show thesis by (simp add: model_def)
  next
    case gone
    with escaped show thesis by blast
  next
    case switch
    obtain db2 b where sw: "switch_pointer env db1 p store doc item' fn mt k stored = (db2, b)" by fastforce
    show thesis
    proof (cases "if abort = None \<and> object_key_taken db1 b then Some (DBAPIError (Some ''23505'')) else abort")
      case None
      with switch sw have "db' = db2" "out = Published b" by (auto split: if_splits)
      with published switch sw show thesis unfolding db1_def by blast
    next
      case (Some e)
      with switch sw have "db' = rollback db db2" "out = Refused e (candidate_is_canonical store model k)"
        by (auto split: if_splits)
      with refused switch(1) show thesis by (simp add: rollback_def model_def)
    qed
  qed
qed

text \<open>What an operation may do to the rows: keep the key structure, and take new entries from old pointers.\<close>

lemma evidence_ok_put:
  assumes "evidence_ok lib ids store db" and "evidence_blobs db' = put_row blob_key b (evidence_blobs db)"
    and "organizations db' = organizations db" and "get_organization db (eb_organization_id b) \<noteq> None"
    and "owned lib ids store (eb_organization_id b) (eb_document_id b) (eb_storage_provider b) (eb_object_key b)"
    and "\<forall>g \<in> set (evidence_object_gcs db'). owned lib ids store (gc_organization_id g) (gc_document_id g)
      (gc_storage_provider g) (gc_object_key g)"
  shows "evidence_ok lib ids store db'"
  using assms set_put_row_subset [of blob_key b "evidence_blobs db"]
  by (auto simp: evidence_ok_def get_organization_def intro: keys_ok_put_row)

lemma evidence_ok_gcs:
  "evidence_ok lib ids store db \<Longrightarrow> set (evidence_object_gcs db') \<subseteq> set (evidence_object_gcs db) \<Longrightarrow>
    evidence_blobs db' = evidence_blobs db \<Longrightarrow> organizations db' = organizations db \<Longrightarrow> evidence_ok lib ids store db'"
  by (auto simp: evidence_ok_def get_organization_def)

lemma publish_ok:
  assumes "put_blob_publish env db s store p doc item fn mt k stored abort = (db', out)"
    and inv: "evidence_ok lib ids store db" and key: "owned lib ids store (organization_id p) doc (provider store) k"
  shows "evidence_ok lib ids store db'"
  using assms(1)
proof (cases rule: put_blob_publishE)
  case (published b item')
  let ?db1 = "cancel_gc_for_key db (organization_id p) (provider store) k"
  have inv1: "evidence_ok lib ids store ?db1"
    by (rule evidence_ok_gcs [OF inv]) (auto simp: cancel_gc_for_key_def)
  note sw = switch_pointer_blobs [OF published(4)]
  have org: "get_organization ?db1 (eb_organization_id b) \<noteq> None"
    using published(3) sw by (simp add: get_organization_def cancel_gc_for_key_def)
  have gcs: "\<forall>g \<in> set (evidence_object_gcs db'). owned lib ids store (gc_organization_id g) (gc_document_id g)
      (gc_storage_provider g) (gc_object_key g)"
    using sw inv1 by (fastforce simp: evidence_ok_def)
  show ?thesis by (rule evidence_ok_put [OF inv1 _ _ org _ gcs]) (use sw key in simp_all)
next
  case (refused e preserve)
  with inv show ?thesis by (intro evidence_ok_gcs [OF inv]) auto
qed (simp add: inv)

context object_store
begin

lemma write_backed:
  assumes "put_blob_store lib mb store s org doc sha body = (s', r)" and "backed_but lost store db s"
  shows "backed_but lost store db s'"
  using assms unfolding put_blob_store_def
  by (auto simp: backed_but_def split: sum.splits prod.splits dest: put_keeps)

lemma write_owned:
  assumes "put_blob_store lib mb store s org doc sha body = (s', Inr (k, stored))" and "(org, doc) \<in> ids"
  shows "owned lib ids store org doc (provider store) k"
  using assms unfolding put_blob_store_def owned_def by (auto split: sum.splits prod.splits)

lemma publish_backed:
  assumes "put_blob_publish env db s store p doc item fn mt k stored abort = (db', out)" and "backed_but lost store db s"
  shows "backed_but lost store db' s"
  using assms(1)
proof (cases rule: put_blob_publishE)
  case (published b item')
  then show ?thesis
    using switch_pointer_blobs [OF published(4)] assms(2)
      set_put_row_subset [of blob_key b "evidence_blobs db"]
    by (auto simp: backed_but_def cancel_gc_for_key_def)
qed (use assms(2) in \<open>simp_all add: backed_but_def\<close>)

text \<open>The removal of one object: only a row that points to it loses its bytes.\<close>

lemma discard_backed:
  assumes inv: "evidence_ok lib ids store db" and key: "owned lib ids store org doc prov k"
    and sep: "separate lib ids loc" and b: "backed_but lost store db s"
    and lost': "lost \<subseteq> lost'" "\<forall>x \<in> set (evidence_blobs db). eb_object_key x = k \<longrightarrow> k \<in> lost'"
  shows "backed_but lost' store db (fst (store_delete store s k))"
  unfolding backed_but_def
proof (intro ballI impI)
  fix x assume x: "x \<in> set (evidence_blobs db)" "eb_object_key x \<notin> lost'"
  have ox: "owned lib ids store (eb_organization_id x) (eb_document_id x) (eb_storage_provider x) (eb_object_key x)"
    using inv x by (simp add: evidence_ok_def)
  have "eb_object_key x \<noteq> k" using x lost'(2) by blast
  with separateD [OF sep ox key] have "loc (eb_object_key x) \<noteq> loc k" by blast
  moreover obtain s' r where "store_delete store s k = (s', r)" by fastforce
  moreover have "store_exists store s (eb_object_key x) = Inr True"
    using b x lost'(1) unfolding backed_but_def by blast
  ultimately show "store_exists store (fst (store_delete store s k)) (eb_object_key x) = Inr True"
    using delete_other by fastforce
qed

end

section \<open>The collector\<close>

definition gc_owned :: "lib \<Rightarrow> (string \<times> string) set \<Rightarrow> 's ObjectStore \<Rightarrow> evidence_object_gc \<Rightarrow> bool" where
  "gc_owned lib ids store g =
     owned lib ids store (gc_organization_id g) (gc_document_id g) (gc_storage_provider g) (gc_object_key g)"

lemma reschedule_owned [simp]: "gc_owned lib ids store (reschedule g x now) = gc_owned lib ids store g"
  by (simp add: gc_owned_def reschedule_def Let_def)

lemma evidence_ok_shrink:
  assumes "evidence_ok lib ids store db" and "evidence_blobs db' = filter P (evidence_blobs db)"
    and "organizations db' = organizations db"
    and "\<And>g. g \<in> set (evidence_object_gcs db') \<Longrightarrow> g \<in> set (evidence_object_gcs db) \<or> gc_owned lib ids store g"
  shows "evidence_ok lib ids store db'"
  using assms unfolding evidence_ok_def get_organization_def gc_owned_def
  by (auto intro: keys_ok_filter)

text \<open>The last branch: the object is removed, with what follows from the answer of the store.\<close>

definition removal :: "'s stores \<Rightarrow> 's \<Rightarrow> evidence_object_gc \<Rightarrow> 's \<times> unit res" where
  "removal st s row = (case store_for_provider st (gc_storage_provider row) of
     Inl e \<Rightarrow> (s, raise e) | Inr store \<Rightarrow> store_delete store s (gc_object_key row))"

lemma removal_ok: "removal st s row = (s', Inr u) \<Longrightarrow>
  \<exists>store. store_for_provider st (gc_storage_provider row) = Inr store \<and> store_delete store s (gc_object_key row) = (s', Inr ())"
  by (auto simp: removal_def split: sum.splits)

lemma removal_failed: "removal st s row = (s', Inl e) \<Longrightarrow>
  s' = s \<or> (\<exists>store e. store_for_provider st (gc_storage_provider row) = Inr store \<and> store_delete store s (gc_object_key row) = (s', Inl e))"
  by (auto simp: removal_def split: sum.splits)

lemma collect_row_removal [consumes 2]:
  assumes "collect_row st describe cutoff False db s row = (db', s', r)"
    and free: "points_to_candidate db row \<longrightarrow> \<not> evidence_live db (gc_organization_id row) (gc_document_id row)
      \<and> \<not> is_referenced db (gc_organization_id row) (gc_document_id row)"
  obtains (deleted) u where "removal st s row = (s', Inr u)" "r = Inr GC_Deleted"
      "db' = delete_gc_row (if points_to_candidate db row then delete_blob db (gc_organization_id row, gc_document_id row) else db) (gc_id row)"
  | (failed) e where "removal st s row = (s', Inl e)" "db' = db"
  | (later) e g x where "removal st s row = (s', Inl e)" "db' = update_gc_row db (reschedule g x cutoff)" "g \<in> set (evidence_object_gcs db)"
proof -
  obtain s1 q where q: "removal st s row = (s1, q)" by fastforce
  with assms have row: "(case (s1, q) of
        (s', Inr _) \<Rightarrow> (delete_gc_row (if points_to_candidate db row then delete_blob db (gc_organization_id row, gc_document_id row) else db)
             (gc_id row), s', ok GC_Deleted)
      | (s', Inl e) \<Rightarrow>
          if \<not> is_storage_error e then (db, s', raise e)
          else (case get_row gc_id (gc_id row) (evidence_object_gcs db) of
                  None \<Rightarrow> db
                | Some retry \<Rightarrow> update_gc_row db (reschedule retry (take 1024 (describe e)) cutoff),
                s', ok GC_Failed)) = (db', s', r)"
    by (auto simp: collect_row_def removal_def Let_def)
  show thesis
  proof (cases q)
    case (Inr u)
    with q row deleted show thesis by auto
  next
    case (Inl e)
    with q row have fail: "removal st s row = (s', Inl e)" by (auto split: if_splits)
    consider "db' = db" | g x where "db' = update_gc_row db (reschedule g x cutoff)" "g \<in> set (evidence_object_gcs db)"
      using row Inl by (auto split: if_splits option.splits dest: get_row_SomeD)
    then show thesis using fail failed later by cases blast+
  qed
qed

lemma collect_rowE:
  assumes "collect_row st describe cutoff dry db s row = (db', s', r)"
  obtains (kept) P where "s' = s" "db' = db\<lparr>evidence_object_gcs := filter P (evidence_object_gcs db)\<rparr>"
  | (later) g x where "db' = update_gc_row db (reschedule g x cutoff)" "g = row \<or> g \<in> set (evidence_object_gcs db)"
      "s' = s \<or> (\<exists>store e. store_for_provider st (gc_storage_provider row) = Inr store
        \<and> store_delete store s (gc_object_key row) = (s', Inl e))"
  | (failed) store e where "db' = db" "store_for_provider st (gc_storage_provider row) = Inr store"
      "store_delete store s (gc_object_key row) = (s', Inl e)"
  | (deleted) store where "store_for_provider st (gc_storage_provider row) = Inr store"
      "store_delete store s (gc_object_key row) = (s', Inr ())" "\<not> dry" "r = Inr GC_Deleted"
      "db' = delete_gc_row (if points_to_candidate db row then delete_blob db (gc_organization_id row, gc_document_id row)
         else db) (gc_id row)"
      "points_to_candidate db row \<Longrightarrow> \<not> evidence_live db (gc_organization_id row) (gc_document_id row)
        \<and> \<not> is_referenced db (gc_organization_id row) (gc_document_id row)"
proof -
  let ?p = "points_to_candidate db row" and ?l = "evidence_live db (gc_organization_id row) (gc_document_id row)"
    and ?r = "is_referenced db (gc_organization_id row) (gc_document_id row)"
  have same: thesis if "s' = s" "db' = db"
    using that by (intro kept [of "\<lambda>_. True"]) simp_all
  consider (a) "?p \<and> ?l" | (b) "\<not> (?p \<and> ?l)" "?p \<and> ?r" | (c) "\<not> (?p \<and> ?l)" "\<not> (?p \<and> ?r)" "dry"
    | (d) "\<not> (?p \<and> ?l)" "\<not> (?p \<and> ?r)" "\<not> dry" by blast
  then show thesis
  proof cases
    case a
    with assms have "s' = s" "db' = (if dry then db else delete_gc_row db (gc_id row))" by (auto simp: collect_row_def Let_def)
    then show thesis
      by (cases dry) (simp_all add: same kept [of "\<lambda>g. gc_id g \<noteq> gc_id row"] delete_gc_row_def)
  next
    case b
    show thesis
    proof (cases dry)
      case True
      with assms b have "s' = s" "db' = db" by (auto simp: collect_row_def Let_def)
      then show thesis by (rule same)
    next
      case False
      with assms b have "s' = s" "db' = update_gc_row db (reschedule row ''canonical evidence is still referenced'' cutoff)"
        by (auto simp: collect_row_def Let_def)
      with later show thesis by blast
    qed
  next
    case c
    with assms have "s' = s" "db' = db" by (auto simp: collect_row_def Let_def)
    then show thesis by (rule same)
  next
    case d
    then have free: "?p \<longrightarrow> \<not> ?l \<and> \<not> ?r" by blast
    from assms d have "collect_row st describe cutoff False db s row = (db', s', r)" by simp
    from this free show thesis
    proof (cases rule: collect_row_removal)
      case (deleted u)
      from removal_ok [OF deleted(1)] obtain store where
        "store_for_provider st (gc_storage_provider row) = Inr store" "store_delete store s (gc_object_key row) = (s', Inr ())" by blast
      with deleted(2,3) d(3) free that(4) show thesis by blast
    next
      case (failed e)
      with removal_failed [OF failed(1)] same that(3) show thesis by blast
    next
      case (later e g x)
      with removal_failed [OF later(1)] that(2) show thesis by blast
    qed
  qed
qed

lemma gc_update_frame:
  "evidence_live (update_gc_row db g) = evidence_live db" "is_referenced (update_gc_row db g) = is_referenced db"
  "evidence_live (delete_gc_row db i) = evidence_live db" "is_referenced (delete_gc_row db i) = is_referenced db"
  "evidence_live (delete_blob db k) = evidence_live db" "is_referenced (delete_blob db k) = is_referenced db"
  by (simp_all add: evidence_live_def is_referenced_def get_item_child_def update_gc_row_def delete_gc_row_def
      delete_blob_def fun_eq_iff)

text \<open>
  A queued object that a row still points to although its metadata is deleted or gone and no live
  record lists it: the run deletes it together with its row.
\<close>

definition abandoned :: "db \<Rightarrow> evidence_object_gc \<Rightarrow> bool" where
  "abandoned db g \<longleftrightarrow> points_to_candidate db g \<and> \<not> evidence_live db (gc_organization_id g) (gc_document_id g)
     \<and> \<not> is_referenced db (gc_organization_id g) (gc_document_id g)"

definition abandoned_keys :: "db \<Rightarrow> (evidence_object_gc \<Rightarrow> bool) \<Rightarrow> int \<Rightarrow> int \<Rightarrow> string set" where
  "abandoned_keys db locked limit cutoff =
     gc_object_key ` {g \<in> set (due_rows db locked limit cutoff). abandoned db g}"

text \<open>What a turn of the collector leaves: rows may go, uses stay.\<close>

definition used_frame :: "db \<Rightarrow> db \<Rightarrow> bool" where
  "used_frame db db' \<longleftrightarrow> evidence_live db' = evidence_live db \<and> is_referenced db' = is_referenced db
     \<and> set (evidence_blobs db') \<subseteq> set (evidence_blobs db)"

lemma abandoned_frame:
  assumes "used_frame db db'" and "evidence_ok lib ids store db" and "abandoned db' g"
  shows "abandoned db g"
proof -
  from assms(3) obtain c where c: "get_blob db' (gc_organization_id g) (gc_document_id g) = Some c"
    "eb_storage_provider c = gc_storage_provider g" "eb_object_key c = gc_object_key g"
    by (auto simp: abandoned_def points_to_candidate_def split: option.splits)
  from get_blob_key [OF c(1)] assms(1) have "c \<in> set (evidence_blobs db)" "eb_organization_id c = gc_organization_id g"
    "eb_document_id c = gc_document_id g" unfolding used_frame_def by blast+
  with get_blob_mem [OF assms(2)] have "get_blob db (gc_organization_id g) (gc_document_id g) = Some c" by metis
  with c assms(1,3) show ?thesis by (simp add: abandoned_def points_to_candidate_def used_frame_def)
qed

lemma collect_rows_dry:
  "collect_rows st describe cutoff True rows db s vs = (db', s', r) \<Longrightarrow> db' = db \<and> s' = s"
  by (induction rows arbitrary: vs) (auto simp: collect_row_def Let_def split: if_splits)

context object_store
begin

lemma collect_row_ok:
  assumes "collect_row st describe cutoff dry db s row = (db', s', r)"
    and st: "store_for_provider st (provider store) = Inr store"
    and inv: "evidence_ok lib ids store db" and row: "gc_owned lib ids store row"
    and sep: "separate lib ids loc" and b: "backed_but lost store db s"
  shows "evidence_ok lib ids store db' \<and> backed_but lost store db' s'"
proof -
  have prov: "store_for_provider st (gc_storage_provider row) = Inr store"
    using row st by (simp add: gc_owned_def owned_def)
  have gcs: "gc_owned lib ids store g" if "g \<in> set (evidence_object_gcs db)" for g
    using inv that by (simp add: evidence_ok_def gc_owned_def)
  have fail: "backed_but lost store db s'" if "store_delete store s (gc_object_key row) = (s', Inl e)" for e
    using that b delete_failed by (auto simp: backed_but_def)
  show ?thesis using assms(1)
  proof (cases rule: collect_rowE)
    case (kept P)
    with inv b show ?thesis by (auto simp: backed_but_def evidence_ok_def get_organization_def)
  next
    case (later g x)
    have "evidence_ok lib ids store db'"
      by (rule evidence_ok_shrink [OF inv, where P = "\<lambda>_. True"])
        (use later(1,2) row gcs set_put_row_subset [of gc_id "reschedule g x cutoff" "evidence_object_gcs db"]
          in \<open>auto simp: update_gc_row_def\<close>)
    moreover have "evidence_blobs db' = evidence_blobs db" using later(1) by (simp add: update_gc_row_def)
    ultimately show ?thesis using later(3) b fail prov by (auto simp: backed_but_def)
  next
    case (failed x e)
    with prov inv fail show ?thesis by auto
  next
    case (deleted x)
    define P where "P = (\<lambda>y. points_to_candidate db row \<longrightarrow> blob_key y \<noteq> (gc_organization_id row, gc_document_id row))"
    have blobs: "evidence_blobs db' = filter P (evidence_blobs db)" "organizations db' = organizations db"
      "set (evidence_object_gcs db') \<subseteq> set (evidence_object_gcs db)"
      using deleted(5) by (auto simp: P_def delete_gc_row_def delete_blob_def)
    have "store_exists store s' (eb_object_key y) = Inr True"
      if y: "y \<in> set (evidence_blobs db)" "P y" "eb_object_key y \<notin> lost" for y
    proof (rule delete_other)
      show "store_delete store s (gc_object_key row) = (s', Inr ())" using deleted(1,2) prov by simp
      show "store_exists store s (eb_object_key y) = Inr True" using b y by (simp add: backed_but_def)
      have oy: "owned lib ids store (eb_organization_id y) (eb_document_id y) (eb_storage_provider y) (eb_object_key y)"
        using inv y by (simp add: evidence_ok_def)
      show "loc (eb_object_key y) \<noteq> loc (gc_object_key row)"
      proof
        assume "loc (eb_object_key y) = loc (gc_object_key row)"
        from separateD [OF sep oy row [unfolded gc_owned_def] this] get_blob_mem [OF inv y(1)] oy row y(2)
        show False by (simp add: points_to_candidate_def P_def blob_key_def gc_owned_def owned_def)
      qed
    qed
    then show ?thesis using blobs evidence_ok_shrink [OF inv blobs(1,2)] by (auto simp: backed_but_def)
  qed
qed

text \<open>A queued row whose document is still pointed to but unused: what a run will delete with its row.\<close>

lemma collect_row_keeps:
  assumes "collect_row st describe cutoff dry db s row = (db', s', r)"
    and st: "store_for_provider st (provider store) = Inr store"
    and inv: "evidence_ok lib ids store db" and row: "gc_owned lib ids store row"
    and sep: "separate lib ids loc" and y: "y \<in> set (evidence_blobs db)"
    and kept: "abandoned db row \<longrightarrow> gc_object_key row \<noteq> eb_object_key y"
    and there: "store_exists store s (eb_object_key y) = Inr True"
  shows "y \<in> set (evidence_blobs db') \<and> store_exists store s' (eb_object_key y) = Inr True \<and> used_frame db db'"
proof -
  have prov: "store_for_provider st (gc_storage_provider row) = Inr store"
    using row st by (simp add: gc_owned_def owned_def)
  show ?thesis using assms(1)
  proof (cases rule: collect_rowE)
    case (kept P)
    with y there show ?thesis by (auto simp: used_frame_def evidence_live_def is_referenced_def get_item_child_def fun_eq_iff)
  next
    case (later g x)
    then have "used_frame db db'" "evidence_blobs db' = evidence_blobs db"
      by (simp_all add: used_frame_def gc_update_frame) (simp_all add: update_gc_row_def)
    with later(3) y there prov delete_failed show ?thesis by auto
  next
    case (failed x e)
    with y there prov delete_failed show ?thesis by (auto simp: used_frame_def)
  next
    case (deleted x)
    have oy: "owned lib ids store (eb_organization_id y) (eb_document_id y) (eb_storage_provider y) (eb_object_key y)"
      using inv y by (simp add: evidence_ok_def)
    have other: "eb_object_key y \<noteq> gc_object_key row"
    proof
      assume eq: "eb_object_key y = gc_object_key row"
      then have "eb_organization_id y = gc_organization_id row \<and> eb_document_id y = gc_document_id row"
        using separateD [OF sep oy row [unfolded gc_owned_def]] by simp
      with eq get_blob_mem [OF inv y] oy row have "points_to_candidate db row"
        by (auto simp: points_to_candidate_def gc_owned_def owned_def)
      with deleted(6) kept eq show False by (simp add: abandoned_def)
    qed
    then have "loc (eb_object_key y) \<noteq> loc (gc_object_key row)"
      using separateD [OF sep oy row [unfolded gc_owned_def]] by blast
    with deleted(1,2) prov there delete_other have "store_exists store s' (eb_object_key y) = Inr True" by auto
    moreover have "y \<in> set (evidence_blobs db')"
    proof -
      have "blob_key y \<noteq> (gc_organization_id row, gc_document_id row)" if "points_to_candidate db row"
        using that other get_blob_mem [OF inv y] by (auto simp: points_to_candidate_def blob_key_def)
      with y show ?thesis unfolding deleted(5) by (auto simp: delete_gc_row_def delete_blob_def)
    qed
    moreover have "used_frame db db'"
      unfolding deleted(5) by (auto simp: used_frame_def gc_update_frame) (auto simp: delete_gc_row_def delete_blob_def split: if_splits)
    ultimately show ?thesis by blast
  qed
qed

lemma collect_rows_keep:
  assumes "collect_rows st describe cutoff dry rows db s vs = (db', s', r)"
    and "store_for_provider st (provider store) = Inr store"
    and "evidence_ok lib ids store db" and "\<forall>g \<in> set rows. gc_owned lib ids store g"
    and "separate lib ids loc" and "y \<in> set (evidence_blobs db)"
    and "\<forall>g \<in> set rows. abandoned db g \<longrightarrow> gc_object_key g \<noteq> eb_object_key y"
    and "store_exists store s (eb_object_key y) = Inr True"
  shows "store_exists store s' (eb_object_key y) = Inr True"
  using assms
proof (induction rows arbitrary: db s vs)
  case (Cons row rows)
  obtain db1 s1 q where q: "collect_row st describe cutoff dry db s row = (db1, s1, q)" by (rule prod_cases3)
  with Cons.prems have one: "y \<in> set (evidence_blobs db1) \<and> store_exists store s1 (eb_object_key y) = Inr True \<and> used_frame db db1"
    by (intro collect_row_keeps [OF q]) simp_all
  show ?case
  proof (cases q)
    case (Inl e)
    with Cons.prems(1) q one show ?thesis by simp
  next
    case (Inr v)
    have "evidence_ok lib ids store db1"
      using collect_row_ok [OF q Cons.prems(2,3) _ Cons.prems(5), of UNIV] Cons.prems(4) by (simp add: backed_but_def)
    moreover have "abandoned db g" if "abandoned db1 g" for g
      using that one abandoned_frame Cons.prems(3) by blast
    ultimately show ?thesis
      using Cons.IH [of db1 s1 "vs @ [v]"] Cons.prems q Inr one by auto
  qed
qed simp

lemma collect_rows_ok:
  assumes "collect_rows st describe cutoff dry rows db s vs = (db', s', r)"
    and "store_for_provider st (provider store) = Inr store"
    and "evidence_ok lib ids store db" and "\<forall>g \<in> set rows. gc_owned lib ids store g"
    and "separate lib ids loc" and "backed_but lost store db s"
  shows "evidence_ok lib ids store db' \<and> backed_but lost store db' s'"
  using assms
proof (induction rows arbitrary: db s vs)
  case (Cons row rows)
  obtain db1 s1 q where q: "collect_row st describe cutoff dry db s row = (db1, s1, q)" by (rule prod_cases3)
  with Cons.prems have "evidence_ok lib ids store db1 \<and> backed_but lost store db1 s1"
    by (intro collect_row_ok [OF q]) simp_all
  with Cons q show ?case by (cases q) auto
qed simp

lemma collect_ok:
  assumes run: "collect_due_evidence_gc st describe locked db s limit dry cutoff abort = (db', s', Inr totals)"
    and st: "store_for_provider st (provider store) = Inr store"
    and inv: "evidence_ok lib ids store db" and sep: "separate lib ids loc" and b: "backed_but lost store db s"
  shows "evidence_ok lib ids store db' \<and> backed_but lost store db' s'"
proof -
  obtain db1 s1 q where q: "collect_rows st describe cutoff dry (due_rows db locked limit cutoff) db s [] = (db1, s1, q)"
    by (rule prod_cases3)
  have "\<forall>g \<in> set (due_rows db locked limit cutoff). gc_owned lib ids store g"
    using inv by (auto simp: due_rows_def evidence_ok_def gc_owned_def dest!: in_set_takeD)
  from collect_rows_ok [OF q st inv this sep b] have "evidence_ok lib ids store db1 \<and> backed_but lost store db1 s1" .
  moreover have "s' = s1" "db' = (if dry then db else db1)"
    using run q by (auto simp: collect_due_evidence_gc_def Let_def split: sum.splits if_splits option.splits)
  moreover have "s1 = s" if dry using collect_rows_dry q that by metis
  ultimately show ?thesis using inv b by (cases dry) auto
qed

lemma collect_failed_ok:
  assumes run: "collect_due_evidence_gc st describe locked db s limit dry cutoff abort = (db', s', Inl x)"
    and st: "store_for_provider st (provider store) = Inr store"
    and inv: "evidence_ok lib ids store db" and sep: "separate lib ids loc" and b: "backed_but lost store db s"
  shows "db' = db \<and> backed_but (lost \<union> abandoned_keys db locked limit cutoff) store db s'"
proof -
  obtain db1 s1 q where q: "collect_rows st describe cutoff dry (due_rows db locked limit cutoff) db s [] = (db1, s1, q)"
    by (rule prod_cases3)
  have own: "\<forall>g \<in> set (due_rows db locked limit cutoff). gc_owned lib ids store g"
    using inv by (auto simp: due_rows_def evidence_ok_def gc_owned_def dest!: in_set_takeD)
  have "s' = s1" "db' = db"
    using run q by (auto simp: collect_due_evidence_gc_def Let_def split: sum.splits if_splits option.splits)
  moreover have "store_exists store s1 (eb_object_key y) = Inr True"
    if "y \<in> set (evidence_blobs db)" "eb_object_key y \<notin> lost \<union> abandoned_keys db locked limit cutoff" for y
  proof (rule collect_rows_keep [OF q st inv own sep that(1)])
    show "\<forall>g \<in> set (due_rows db locked limit cutoff). abandoned db g \<longrightarrow> gc_object_key g \<noteq> eb_object_key y"
      using that(2) by (auto simp: abandoned_keys_def image_iff)
    show "store_exists store s (eb_object_key y) = Inr True" using b that unfolding backed_but_def by blast
  qed
  ultimately show ?thesis by (simp add: backed_but_def)
qed

end

section \<open>Pushes\<close>

text \<open>A push changes no pointer; what it queues is copied from one.\<close>

definition blob_frame :: "db \<Rightarrow> db \<Rightarrow> bool" where
  "blob_frame db db' \<longleftrightarrow> evidence_blobs db' = evidence_blobs db
     \<and> (\<forall>g \<in> set (evidence_object_gcs db'). g \<in> set (evidence_object_gcs db) \<or>
        (\<exists>m \<in> set (evidence_blobs db). gc_organization_id g = eb_organization_id m \<and> gc_document_id g = eb_document_id m
          \<and> gc_storage_provider g = eb_storage_provider m \<and> gc_object_key g = eb_object_key m))"

lemma blob_frame_same:
  "evidence_blobs db' = evidence_blobs db \<Longrightarrow> evidence_object_gcs db' = evidence_object_gcs db \<Longrightarrow> blob_frame db db'"
  by (simp add: blob_frame_def)

lemma own_steps_blobs: "own_steps p db db' \<Longrightarrow> blob_frame db db'"
  unfolding own_steps_def
proof (induction rule: rtranclp_induct)
  case (step y z)
  from step.hyps(2) have "evidence_blobs z = evidence_blobs y" "evidence_object_gcs z = evidence_object_gcs y"
    by (cases; simp)+
  with step.IH show ?case by (simp add: blob_frame_def)
qed (simp add: blob_frame_def)

interpretation blobs: push_relation "\<lambda>_. blob_frame"
proof unfold_locales
  show "blob_frame db (queue_evidence_gc env db p rec)" for db env p rec
  proof (cases "get_blob db (organization_id p) (sr_entity_id rec)")
    case (Some m)
    with get_blob_key [OF Some] show ?thesis
      by (auto simp: blob_frame_def queue_evidence_gc_def queue_blob_gc_def Let_def intro!: bexI [of _ m])
  qed (simp add: blob_frame_def queue_evidence_gc_def)
  show "blob_frame db db'" if "authorize_and_own env db p scope rec current payload = (db', scope', q)"
    for env db p scope rec current payload db' scope' q
    using that by (rule own_steps_blobs [OF authorize_and_own_steps])
  show "blob_frame db db'" if "commit_record env db p batch rec k current payload = (db', revision)"
    for env db p batch rec k current payload db' revision
    using that by (intro blob_frame_same) (auto simp: commit_record_def Let_def append_change_def record_mutation_def)
  show "blob_frame db db2" if "blob_frame db db1" "blob_frame db1 db2" for db db1 db2
    using that unfolding blob_frame_def by fastforce
qed (auto intro!: blob_frame_same simp: record_mutation_def rollback_def)

lemma push_evidence_ok:
  assumes "apply_push abort env db p batch = (db', retried, r)" and inv: "evidence_ok lib ids store db"
  shows "evidence_ok lib ids store db' \<and> evidence_blobs db' = evidence_blobs db"
proof -
  from blobs.rel_push [OF assms(1)] have f: "blob_frame db db'" .
  from orgs.rel_push [OF assms(1)] have o: "organizations_kept db db'" .
  have "owned lib ids store (gc_organization_id g) (gc_document_id g) (gc_storage_provider g) (gc_object_key g)"
    if "g \<in> set (evidence_object_gcs db')" for g
    using that f inv by (fastforce simp: blob_frame_def evidence_ok_def)
  with f o inv show ?thesis by (auto simp: blob_frame_def evidence_ok_def organizations_kept_def)
qed

section \<open>Interleavings\<close>

text \<open>
  The database, the objects, the uploads whose object is written but whose pointer is not yet
  switched, and the keys of refused candidates still to be removed. The steps of different requests
  interleave freely; a switch holds the lock of the organization, so it is one step, and so is a run of the
  collector, which holds the locks of the organizations it works on. A refusal releases the lock before
  the candidate is removed, so the removal is a step of its own that may come at any later time; so is
  the removal after a commit that was stored but whose acknowledgement failed. A collector run that raises
  restores the rows, but not the objects it removed.

  \<open>es_lost\<close> is a record for the proofs, which no step reads: the keys of rows that had a row pointing to
  them when such a removal took their object, or that a failed collector run may have taken; writing the
  object again takes its key out.
\<close>

record 's evidence_state =
  es_db :: db
  es_objects :: 's
  es_candidates :: "(string \<times> string \<times> string \<times> StoredObject) list"
  es_discards :: "string list"
  es_lost :: "string set"

definition pointed_key :: "db \<Rightarrow> string \<Rightarrow> bool" where
  "pointed_key db k \<longleftrightarrow> (\<exists>b \<in> set (evidence_blobs db). eb_object_key b = k)"

inductive evidence_step ::
  "'s stores \<Rightarrow> 's ObjectStore \<Rightarrow> lib \<Rightarrow> (string \<times> string) set \<Rightarrow> 's evidence_state \<Rightarrow> 's evidence_state \<Rightarrow> bool"
  for st store lib ids where
  upload: "(org, doc) \<in> ids \<Longrightarrow>
    put_blob_store lib max_bytes store (es_objects e) org doc sha body = (s', Inr (k, stored)) \<Longrightarrow>
    evidence_step st store lib ids e (e\<lparr>es_objects := s', es_candidates := (org, doc, k, stored) # es_candidates e,
      es_lost := es_lost e - {k}\<rparr>)"
| upload_failed: "put_blob_store lib max_bytes store (es_objects e) org doc sha body = (s', Inl x) \<Longrightarrow>
    evidence_step st store lib ids e (e\<lparr>es_objects := s'\<rparr>)"
| publish: "(organization_id p, doc, k, stored) \<in> set (es_candidates e) \<Longrightarrow>
    put_blob_publish env (es_db e) (es_objects e) store p doc item fn mt k stored abort = (db', Published b) \<Longrightarrow>
    evidence_step st store lib ids e
      (e\<lparr>es_db := db', es_candidates := remove1 (organization_id p, doc, k, stored) (es_candidates e)\<rparr>)"
| unacknowledged: "(organization_id p, doc, k, stored) \<in> set (es_candidates e) \<Longrightarrow>
    put_blob_publish env (es_db e) (es_objects e) store p doc item fn mt k stored abort = (db', Published b) \<Longrightarrow>
    \<not> candidate_is_canonical store (get_blob (es_db e) (organization_id p) doc) k \<Longrightarrow>
    evidence_step st store lib ids e
      (e\<lparr>es_db := db', es_candidates := remove1 (organization_id p, doc, k, stored) (es_candidates e),
         es_discards := k # es_discards e\<rparr>)"
| refuse: "(organization_id p, doc, k, stored) \<in> set (es_candidates e) \<Longrightarrow>
    put_blob_publish env (es_db e) (es_objects e) store p doc item fn mt k stored abort = (db', Refused x preserve) \<Longrightarrow>
    evidence_step st store lib ids e
      (e\<lparr>es_db := db', es_candidates := remove1 (organization_id p, doc, k, stored) (es_candidates e),
         es_discards := (if preserve then es_discards e else k # es_discards e)\<rparr>)"
| escape: "(organization_id p, doc, k, stored) \<in> set (es_candidates e) \<Longrightarrow>
    put_blob_publish env (es_db e) (es_objects e) store p doc item fn mt k stored abort = (db', Escaped x) \<Longrightarrow>
    evidence_step st store lib ids e
      (e\<lparr>es_db := db', es_candidates := remove1 (organization_id p, doc, k, stored) (es_candidates e)\<rparr>)"
| discard: "k \<in> set (es_discards e) \<Longrightarrow>
    evidence_step st store lib ids e (e\<lparr>es_objects := discard_candidate store (es_objects e) k False,
      es_discards := remove1 k (es_discards e),
      es_lost := (if pointed_key (es_db e) k then insert k (es_lost e) else es_lost e)\<rparr>)"
| collect: "collect_due_evidence_gc st describe locked (es_db e) (es_objects e) limit dry cutoff abort = (db', s', Inr totals) \<Longrightarrow>
    evidence_step st store lib ids e (e\<lparr>es_db := db', es_objects := s'\<rparr>)"
| collect_failed: "collect_due_evidence_gc st describe locked (es_db e) (es_objects e) limit dry cutoff abort = (db', s', Inl x) \<Longrightarrow>
    evidence_step st store lib ids e (e\<lparr>es_db := db', es_objects := s',
      es_lost := es_lost e \<union> abandoned_keys (es_db e) locked limit cutoff\<rparr>)"
| push: "apply_push abort' env (es_db e) q batch = (db', retried, r) \<Longrightarrow>
    evidence_step st store lib ids e (e\<lparr>es_db := db'\<rparr>)"

text \<open>The only ways to lose an object a row points to.\<close>

lemma lost_by:
  assumes "evidence_step st store lib ids e e'" and "k \<in> es_lost e'" and "k \<notin> es_lost e"
  shows "k \<in> set (es_discards e) \<and> pointed_key (es_db e) k
    \<or> (\<exists>locked limit cutoff. k \<in> abandoned_keys (es_db e) locked limit cutoff)"
  using assms by cases (auto split: if_splits)

definition evidence_safe ::
  "lib \<Rightarrow> (string \<times> string) set \<Rightarrow> 's ObjectStore \<Rightarrow> 's evidence_state \<Rightarrow> bool" where
  "evidence_safe lib ids store e \<longleftrightarrow> evidence_ok lib ids store (es_db e)
     \<and> backed_but (es_lost e) store (es_db e) (es_objects e)
     \<and> (\<forall>(org, doc, k, stored) \<in> set (es_candidates e). owned lib ids store org doc (provider store) k)
     \<and> (\<forall>k \<in> set (es_discards e). \<exists>org doc. owned lib ids store org doc (provider store) k)"

context object_store
begin

lemma write_present:
  assumes "put_blob_store lib mb store s org doc sha body = (s', Inr (k, stored))"
  shows "store_exists store s' k = Inr True"
  using assms unfolding put_blob_store_def by (auto split: sum.splits prod.splits dest: put_present)

lemma same_discards:
  "e\<lparr>es_db := d, es_candidates := c, es_discards := es_discards e\<rparr> = e\<lparr>es_db := d, es_candidates := c\<rparr>"
  by (cases e) simp

lemma publish_safe:
  assumes "(organization_id p, doc, k, stored) \<in> set (es_candidates e)"
    and "put_blob_publish env (es_db e) (es_objects e) store p doc item fn mt k stored abort = (db', out)"
    and safe: "evidence_safe lib ids store e" and "set ks \<subseteq> insert k (set (es_discards e))"
  shows "evidence_safe lib ids store
    (e\<lparr>es_db := db', es_candidates := remove1 c (es_candidates e), es_discards := ks\<rparr>)"
proof -
  have own: "owned lib ids store (organization_id p) doc (provider store) k" using assms(1) safe by (auto simp: evidence_safe_def)
  have inv: "evidence_ok lib ids store (es_db e)" and b: "backed_but (es_lost e) store (es_db e) (es_objects e)"
    using safe by (simp_all add: evidence_safe_def)
  have "\<forall>(org, doc, k, stored) \<in> set (remove1 c (es_candidates e)). owned lib ids store org doc (provider store) k"
    using safe set_remove1_subset [of c "es_candidates e"] by (auto simp: evidence_safe_def)
  moreover have "\<forall>k \<in> set ks. \<exists>org doc. owned lib ids store org doc (provider store) k"
    using assms(4) own safe unfolding evidence_safe_def by blast
  ultimately show ?thesis
    using publish_ok [OF assms(2) inv own] publish_backed [OF assms(2) b] by (simp add: evidence_safe_def)
qed

lemma discard_safe:
  assumes "k \<in> set (es_discards e)" and sep: "separate lib ids loc" and safe: "evidence_safe lib ids store e"
  shows "evidence_safe lib ids store (e\<lparr>es_objects := discard_candidate store (es_objects e) k False,
      es_discards := remove1 k (es_discards e),
      es_lost := (if pointed_key (es_db e) k then insert k (es_lost e) else es_lost e)\<rparr>)"
proof -
  let ?lost = "if pointed_key (es_db e) k then insert k (es_lost e) else es_lost e"
  from assms(1) safe obtain org doc where own: "owned lib ids store org doc (provider store) k" by (auto simp: evidence_safe_def)
  have "backed_but ?lost store (es_db e) (fst (store_delete store (es_objects e) k))"
    by (rule discard_backed [OF _ own sep, where lost = "es_lost e"])
      (use safe in \<open>auto simp: evidence_safe_def pointed_key_def\<close>)
  moreover have "\<forall>k' \<in> set (remove1 k (es_discards e)). \<exists>org doc. owned lib ids store org doc (provider store) k'"
    using safe set_remove1_subset [of k "es_discards e"] by (auto simp: evidence_safe_def)
  ultimately show ?thesis using safe by (simp add: evidence_safe_def discard_candidate_def)
qed

lemma upload_safe:
  assumes "(org, doc) \<in> ids" and put: "put_blob_store lib mb store (es_objects e) org doc sha body = (s', Inr (k, stored))"
    and safe: "evidence_safe lib ids store e"
  shows "evidence_safe lib ids store (e\<lparr>es_objects := s', es_candidates := (org, doc, k, stored) # es_candidates e,
      es_lost := es_lost e - {k}\<rparr>)"
proof -
  have "backed_but (es_lost e) store (es_db e) s'"
    using write_backed [OF put] safe by (simp add: evidence_safe_def)
  then have "backed_but (es_lost e - {k}) store (es_db e) s'"
    using write_present [OF put] by (auto simp: backed_but_def)
  with write_owned [OF put assms(1)] safe show ?thesis by (simp add: evidence_safe_def)
qed

lemma evidence_step_safe:
  assumes "evidence_step st store lib ids e e'" and "store_for_provider st (provider store) = Inr store"
    and "separate lib ids loc" and safe: "evidence_safe lib ids store e"
  shows "evidence_safe lib ids store e'"
proof -
  from safe have inv: "evidence_ok lib ids store (es_db e)" and b: "backed_but (es_lost e) store (es_db e) (es_objects e)"
    by (simp_all add: evidence_safe_def)
  show ?thesis using assms(1)
  proof cases
    case (upload org doc max_bytes sha body s' k stored)
    then show ?thesis using upload_safe safe by simp
  next
    case (upload_failed max_bytes org doc sha body s' x)
    with write_backed [OF upload_failed(2) b] safe show ?thesis by (simp add: evidence_safe_def)
  next
    case (publish p doc k stored env item fn mt abort db' b')
    with publish_safe [OF publish(2,3) safe, where ks = "es_discards e", unfolded same_discards] show ?thesis by auto
  next
    case (unacknowledged p doc k stored env item fn mt abort db' b')
    with publish_safe [OF unacknowledged(2,3) safe, where ks = "k # es_discards e"] show ?thesis by auto
  next
    case (refuse p doc k stored env item fn mt abort db' x preserve)
    have "set (if preserve then es_discards e else k # es_discards e) \<subseteq> insert k (set (es_discards e))" by auto
    from publish_safe [OF refuse(2,3) safe this] show ?thesis unfolding refuse(1) .
  next
    case (escape p doc k stored env item fn mt abort db' x)
    with publish_safe [OF escape(2,3) safe, where ks = "es_discards e", unfolded same_discards] show ?thesis by auto
  next
    case (discard k)
    with discard_safe [OF discard(2) assms(3) safe] show ?thesis by simp
  next
    case (collect describe locked limit dry cutoff abort db' s' totals)
    with collect_ok [OF collect(2) assms(2) inv assms(3) b] safe show ?thesis by (simp add: evidence_safe_def)
  next
    case (collect_failed describe locked limit dry cutoff abort db' s' x)
    with collect_failed_ok [OF collect_failed(2) assms(2) inv assms(3) b] safe show ?thesis by (simp add: evidence_safe_def)
  next
    case (push abort' env q batch db' retried r)
    with push_evidence_ok [OF push(2) inv] safe show ?thesis by (simp add: evidence_safe_def backed_but_def)
  qed
qed

lemma evidence_steps_safe:
  assumes "(evidence_step st store lib ids)\<^sup>*\<^sup>* e e'" and "store_for_provider st (provider store) = Inr store"
    and "separate lib ids loc" and "evidence_safe lib ids store e"
  shows "evidence_safe lib ids store e'"
  using assms by (induction rule: rtranclp_induct) (auto intro: evidence_step_safe)

end

end
