(* ===== verification/Evidence_Properties.thy ===== *)
theory Evidence_Properties
  imports Evidence_Correct
begin

text \<open>
  The properties of evidence uploads and of the collector, with their witnesses, and the race
  between the removal of a refused candidate and another upload of the same bytes.
\<close>

section \<open>Samples\<close>

text \<open>
  One item of organization \<open>o\<close>, a digest function constant at 64 zeros (every content matches
  it), and a file system without symbolic links whose root is \<open>/e\<close>.
\<close>

definition demo_item_db :: db where
  "demo_item_db = empty_db\<lparr>
     organizations := [\<lparr>org_id = ''o'', org_name = ''Org'', org_authorization_revision = 3\<rparr>],
     canonical_customers := [\<lparr>cc_organization_id = ''o'', cc_customer_id = ''c'', cc_deleted_at = None\<rparr>],
     canonical_projects := [\<lparr>cp_organization_id = ''o'', cp_project_id = ''p'', cp_customer_id = ''c'', cp_deleted_at = None\<rparr>],
     canonical_project_sectors := [\<lparr>cs_organization_id = ''o'', cs_project_sector_id = ''s'', cs_project_id = ''p'',
       cs_sector_id = ''x'', cs_deleted_at = None\<rparr>],
     canonical_items := [\<lparr>ci_organization_id = ''o'', ci_item_id = ''i'', ci_project_id = ''p'',
       ci_project_sector_id = Some ''s'', ci_deleted_at = None\<rparr>]\<rparr>"

definition demo_digest :: string where
  "demo_digest = replicate 64 CHR ''0''"

definition demo_digest_lib :: lib where
  "demo_digest_lib = demo_lib\<lparr>sha256_hex := (\<lambda>_. demo_digest)\<rparr>"

definition demo_fs :: local_fs where
  "demo_fs = \<lparr>fs_resolve = (\<lambda>x. if take 1 x = ''/'' then x else ''/w/'' @ x), fs_root = ''/e''\<rparr>"

definition demo_store :: "files ObjectStore" where
  "demo_store = LocalObjectStore demo_digest_lib demo_fs"

definition demo_stores :: "files stores" where
  "demo_stores = \<lparr>st_local = demo_store, st_s3 = demo_store, st_s3_bucket = ''b'', st_current = ''local''\<rparr>"

definition demo_key :: string where
  "demo_key = ''blobs/'' @ demo_digest @ ''/'' @ demo_digest @ ''/'' @ demo_digest"

definition demo_stored :: StoredObject where
  "demo_stored = \<lparr>so_sha256 = demo_digest, so_size_bytes = 2\<rparr>"

definition demo_files :: files where
  "demo_files = Map.empty(''/e/'' @ demo_key \<mapsto> ''ab'')"

definition demo_evidence_env :: push_env where
  "demo_evidence_env = \<lparr>pe_lib = demo_digest_lib, pe_now = 0, pe_grace = 60\<rparr>"

definition demo_blob :: evidence_blob where
  "demo_blob = \<lparr>eb_organization_id = ''o'', eb_document_id = ''d'', eb_item_id = ''i'', eb_filename = ''f'',
     eb_mime_type = ''t'', eb_sha256 = demo_digest, eb_size_bytes = 2, eb_storage_provider = ''local'',
     eb_object_key = demo_key\<rparr>"

lemma demo_digest_ok: "hex_digest_ok (py_lower demo_digest)" "py_lower demo_digest = demo_digest"
  by (simp_all add: demo_digest_def hex_digest_ok_def py_lower_def lower_latin_def list_all_iff)

lemma demo_object_key: "object_key_for demo_digest_lib org doc demo_digest = Inr demo_key"
  using demo_digest_ok by (simp add: object_key_for_def Let_def demo_digest_lib_def demo_key_def)

lemma demo_local_path: "take 1 key \<noteq> ''/'' \<Longrightarrow> local_path demo_fs key = Inr (''/e/'' @ key)"
  by (simp add: local_path_def Let_def demo_fs_def is_relative_to_def join_path_def)

lemma demo_key_relative: "object_key_for lib org doc sha = Inr key \<Longrightarrow> take 1 key \<noteq> ''/''"
  by (auto simp: object_key_for_def Let_def split: if_splits)

lemma demo_separate: "separate demo_digest_lib {(''o'', ''d'')} (local_location demo_fs)"
  unfolding separate_def local_location_def
  by (auto simp: demo_local_path dest!: demo_key_relative)

lemma demo_access: "require_evidence_manager (demo_item_db\<lparr>evidence_object_gcs := gs, evidence_blobs := bs\<rparr>) demo_principal ''i'' = Inr ()"
  by (simp add: require_evidence_manager_def require_item_access_def require_capability_def item_for_scope_def
      get_defs key_defs demo_item_db_def demo_principal_def project_for_scope_def active_sector_of_def
      from_principal_def can_access_project_def can_access_customer_def nonempty_str_def
      rethrow_def)

lemma demo_path: "local_path demo_fs demo_key = Inr (''/e/'' @ demo_key)"
  by (rule demo_local_path) (simp add: demo_key_def)

lemma demo_sha: "sha256_hex demo_digest_lib x = demo_digest"
  by (simp add: demo_digest_lib_def)

lemma demo_put: "put_blob_store demo_digest_lib 10 demo_store Map.empty ''o'' ''d'' demo_digest \<lparr>bs_chunks = [''ab''], bs_error = None\<rparr>
    = (demo_files, Inr (demo_key, demo_stored))"
  by (simp add: put_blob_store_def demo_object_key bounded_chunks_def demo_store_def LocalObjectStore_def
      local_put_verified_def Let_def demo_sha demo_stored_def demo_path demo_files_def)

lemma demo_present: "store_exists demo_store demo_files demo_key = Inr True"
  by (simp add: demo_store_def LocalObjectStore_def local_exists_def demo_path demo_files_def)

lemma demo_publish:
  "put_blob_publish demo_evidence_env demo_item_db demo_files demo_store demo_principal
     ''d'' ''i'' ''f'' ''t'' demo_key demo_stored None = (demo_item_db\<lparr>evidence_blobs := [demo_blob]\<rparr>, Published demo_blob)"
proof -
  have rows: "get_blob demo_item_db ''o'' ''d'' = None" "get_organization demo_item_db ''o'' \<noteq> None"
    "evidence_metadata demo_item_db ''o'' ''d'' = None" "evidence_blobs demo_item_db = []"
    "cancel_gc_for_key demo_item_db ''o'' pr demo_key = demo_item_db" for pr
    by (simp_all add: demo_item_db_def empty_db_def get_defs evidence_metadata_def cancel_gc_for_key_def)
  have p: "organization_id demo_principal = ''o''" by (simp add: demo_principal_def)
  have "demo_item_db\<lparr>evidence_object_gcs := [], evidence_blobs := []\<rparr> = demo_item_db"
    by (simp add: demo_item_db_def empty_db_def)
  then have access: "require_evidence_manager demo_item_db demo_principal ''i'' = Inr ()"
    using demo_access [of "[]" "[]"] by simp
  have "switch_pointer demo_evidence_env demo_item_db demo_principal demo_store ''d'' ''i'' ''f'' ''t'' demo_key demo_stored
      = (demo_item_db\<lparr>evidence_blobs := [demo_blob]\<rparr>, demo_blob)"
    by (simp add: switch_pointer_def p rows Let_def demo_blob_def demo_store_def LocalObjectStore_def demo_stored_def)
  then show ?thesis
    by (simp add: put_blob_publish_def Let_def p rows metadata_deleted_def access demo_present object_key_taken_def)
qed

section \<open>Pointers and objects\<close>

text \<open>
  C12. No dangling pointer but for the recorded losses. Starting from a consistent state with nothing in flight,
  take any interleaving of object writes, pointer switches that commit, are refused or escape, commits
  whose acknowledgement fails, removals of refused candidates at any later time, collector runs that
  commit or raise half way, and pushes. Every row of \<open>evidence_blobs\<close> still has its object in the local
  store, unless its key is lost: since it was last written, a removal of a refused candidate hit it while a
  row pointed to it, or a collector run that raised was due to delete it as unused. In particular, without
  these two events no evidence download finds a row without its bytes. The row invariant holds in any case. The
  hypothesis \<open>separate\<close> says that the content addresses of two documents are not a SHA-256 collision
  and that the file system does not alias two keys.
\<close>

theorem evidence_pointers_backed:
  assumes "(evidence_step st (LocalObjectStore lib fs) lib ids)\<^sup>*\<^sup>* e e'"
    and "st_local st = LocalObjectStore lib fs" and "separate lib ids (local_location fs)"
    and "evidence_ok lib ids (LocalObjectStore lib fs) (es_db e)"
    and "backed (LocalObjectStore lib fs) (es_db e) (es_objects e)"
    and "es_candidates e = []" and "es_discards e = []" and "es_lost e = {}"
  shows "(\<forall>b \<in> set (evidence_blobs (es_db e')). eb_object_key b \<notin> es_lost e' \<longrightarrow>
        store_exists (LocalObjectStore lib fs) (es_objects e') (eb_object_key b) = Inr True)
    \<and> evidence_ok lib ids (LocalObjectStore lib fs) (es_db e')"
proof -
  have "store_for_provider st (provider (LocalObjectStore lib fs)) = Inr (LocalObjectStore lib fs)"
    using assms(2) by (simp add: store_for_provider_def LocalObjectStore_def)
  from local_store.evidence_steps_safe [OF assms(1) this assms(3)] assms(4-8) show ?thesis
    by (simp add: evidence_safe_def backed_but_def)
qed

theorem evidence_pointers_backed_witness:
  "\<exists>e' :: files evidence_state. evidence_blobs (es_db e') = [demo_blob] \<and> es_lost e' = {} \<and> es_discards e' = [demo_key]
     \<and> store_exists demo_store (es_objects e') demo_key = Inr True"
proof -
  let ?e = "\<lparr>es_db = demo_item_db, es_objects = Map.empty, es_candidates = [], es_discards = [], es_lost = {}\<rparr> :: files evidence_state"
  let ?s = demo_files
  let ?e1 = "?e\<lparr>es_objects := ?s, es_candidates := [(''o'', ''d'', demo_key, demo_stored)]\<rparr>"
  let ?e2 = "?e1\<lparr>es_db := demo_item_db\<lparr>evidence_blobs := [demo_blob]\<rparr>, es_candidates := [], es_discards := [demo_key]\<rparr>"
  have "evidence_step demo_stores demo_store demo_digest_lib {(''o'', ''d'')} ?e ?e1"
    using evidence_step.upload [of "''o''" "''d''" "{(''o'', ''d'')}" demo_digest_lib 10 demo_store ?e demo_digest
        "\<lparr>bs_chunks = [''ab''], bs_error = None\<rparr>" ?s demo_key demo_stored demo_stores] demo_put by simp
  moreover have "get_blob demo_item_db ''o'' ''d'' = None"
    by (simp add: demo_item_db_def empty_db_def get_defs)
  then have "evidence_step demo_stores demo_store demo_digest_lib {(''o'', ''d'')} ?e1 ?e2"
    using evidence_step.unacknowledged [of demo_principal "''d''" demo_key demo_stored ?e1 demo_evidence_env demo_store "''i''"
        "''f''" "''t''" None "demo_item_db\<lparr>evidence_blobs := [demo_blob]\<rparr>" demo_blob demo_stores demo_digest_lib
        "{(''o'', ''d'')}"] demo_publish by (simp add: demo_principal_def candidate_is_canonical_def)
  ultimately have "(evidence_step demo_stores demo_store demo_digest_lib {(''o'', ''d'')})\<^sup>*\<^sup>* ?e ?e2" by simp
  from evidence_pointers_backed [OF this [unfolded demo_store_def] _ demo_separate]
  have "store_exists demo_store (es_objects ?e2) demo_key = Inr True"
    by (simp add: demo_stores_def demo_store_def evidence_ok_def backed_but_def demo_item_db_def empty_db_def)
      (simp add: demo_blob_def)
  then show ?thesis by (intro exI [of _ ?e2]) simp
qed

section \<open>The race of the removal\<close>

text \<open>
  C38. A refused upload can delete another upload's evidence. \<open>put_blob\<close> rolls back, and so releases
  the organization lock, before it removes the candidate of a refused pointer switch. When the
  switch of another upload of the same document and bytes commits in between, the removal takes
  away the object of the row just committed: the uploader has its 201 and the row points to nothing.
\<close>

theorem refused_upload_deletes_published:
  assumes "put_blob_publish env db s (LocalObjectStore lib fs) p doc item fn mt k stored abort = (db1, Refused e False)"
    and "put_blob_publish env' db1 s (LocalObjectStore lib fs) q doc item' fn' mt' k stored' None = (db2, Published b)"
  shows "b \<in> set (evidence_blobs db2) \<and> store_exists (LocalObjectStore lib fs) s (eb_object_key b) = Inr True
    \<and> store_exists (LocalObjectStore lib fs) (discard_candidate (LocalObjectStore lib fs) s k False) (eb_object_key b) = Inr False"
  using assms(2)
proof (cases rule: put_blob_publishE)
  case (published b' item2)
  note sw = switch_pointer_blobs [OF published(4)]
  from sw have "b' \<in> set (evidence_blobs db2)" using get_row_SomeD [OF rows.look_store_same, of blob_key b'] by metis
  moreover have "local_exists fs s k = Inr True" using published(2) by (simp add: LocalObjectStore_def)
  ultimately show ?thesis
    using published(1) sw
    by (auto simp: LocalObjectStore_def discard_candidate_def local_delete_def local_exists_def res_simps)
qed simp_all

text \<open>
  The document holds other bytes for item \<open>i\<close>; an upload for item \<open>j\<close> is refused, and an upload
  of the same bytes for \<open>i\<close> commits before the refused candidate is removed.
\<close>

definition demo_older_blob :: evidence_blob where
  "demo_older_blob = demo_blob\<lparr>eb_object_key := ''blobs/older''\<rparr>"

theorem refused_upload_deletes_published_witness:
  "\<exists>(db2 :: db) (b :: evidence_blob). b \<in> set (evidence_blobs db2) \<and> eb_item_id b = ''i''
     \<and> store_exists demo_store (discard_candidate demo_store demo_files demo_key False) (eb_object_key b) = Inr False"
proof -
  let ?db = "demo_item_db\<lparr>evidence_blobs := [demo_older_blob]\<rparr>"
  have p: "organization_id demo_principal = ''o''" by (simp add: demo_principal_def)
  have rows: "get_blob ?db ''o'' ''d'' = Some demo_older_blob" "get_organization ?db ''o'' \<noteq> None"
    "evidence_metadata ?db ''o'' ''d'' = None" "cancel_gc_for_key ?db ''o'' pr demo_key = ?db"
    "?db = demo_item_db\<lparr>evidence_object_gcs := [], evidence_blobs := [demo_older_blob]\<rparr>"
    "eb_item_id demo_older_blob = ''i''" "eb_organization_id demo_older_blob = ''o''" "eb_document_id demo_older_blob = ''d''" for pr
    by (simp_all add: demo_item_db_def empty_db_def get_defs key_defs evidence_metadata_def cancel_gc_for_key_def
        demo_older_blob_def demo_blob_def)
  have canon: "\<not> candidate_is_canonical demo_store (Some demo_older_blob) demo_key"
    by (simp add: candidate_is_canonical_def demo_older_blob_def demo_blob_def demo_key_def)
      (simp add: demo_digest_def numeral_eq_Suc)
  have refused: "put_blob_publish demo_evidence_env ?db demo_files demo_store demo_principal ''d'' ''j'' ''f'' ''t''
      demo_key demo_stored None = (?db, Refused (HTTPException 409) False)"
    by (simp add: put_blob_publish_def Let_def p rows(1-3,6) metadata_deleted_def canon)
  obtain db2 b where sw: "switch_pointer demo_evidence_env ?db demo_principal demo_store ''d'' ''i'' ''f'' ''t'' demo_key
      demo_stored = (db2, b)" by fastforce
  have key: "eb_item_id b = ''i''" "blob_key b = (''o'', ''d'')"
    using sw by (auto simp: switch_pointer_def p rows(1,6-8) canon Let_def blob_key_def)
  have "require_evidence_manager ?db demo_principal ''i'' = Inr ()"
    using demo_access [where gs = "[]" and bs = "[demo_older_blob]"] rows(5) by simp
  moreover have "\<not> object_key_taken ?db b"
    using key by (simp add: object_key_taken_def blob_key_def rows(7,8))
  ultimately have "put_blob_publish demo_evidence_env ?db demo_files demo_store demo_principal ''d'' ''i'' ''f'' ''t''
      demo_key demo_stored None = (db2, Published b)"
    by (simp add: put_blob_publish_def Let_def p rows(1-4,6) metadata_deleted_def demo_present sw)
  from refused_upload_deletes_published [OF refused [unfolded demo_store_def] this [unfolded demo_store_def]] key(1)
  show ?thesis unfolding demo_store_def by blast
qed

section \<open>The collector\<close>

text \<open>A document the collector must not touch: its metadata is live, or a live record lists it.\<close>

definition protected :: "db \<Rightarrow> evidence_blob \<Rightarrow> bool" where
  "protected db b \<longleftrightarrow> b \<in> set (evidence_blobs db)
     \<and> (evidence_live db (eb_organization_id b) (eb_document_id b) \<or> is_referenced db (eb_organization_id b) (eb_document_id b))"

context object_store
begin

lemma collect_row_protected:
  assumes "collect_row st describe cutoff dry db s row = (db', s', r)"
    and st: "store_for_provider st (provider store) = Inr store"
    and inv: "evidence_ok lib ids store db" and row: "gc_owned lib ids store row"
    and sep: "separate lib ids loc" and b: "protected db b"
  shows "protected db' b \<and> store_stream store s' (eb_object_key b) = store_stream store s (eb_object_key b)"
proof -
  have prov: "store_for_provider st (gc_storage_provider row) = Inr store"
    using row st by (simp add: gc_owned_def owned_def)
  have mem: "b \<in> set (evidence_blobs db)" using b by (simp add: protected_def)
  have ob: "owned lib ids store (eb_organization_id b) (eb_document_id b) (eb_storage_provider b) (eb_object_key b)"
    using inv mem by (simp add: evidence_ok_def)
  show ?thesis using assms(1)
  proof (cases rule: collect_rowE)
    case (kept P)
    with b show ?thesis by (simp add: protected_def evidence_live_def is_referenced_def get_item_child_def)
  next
    case (later g x)
    have "protected db' b" using b later(1) by (simp add: protected_def gc_update_frame) (simp add: update_gc_row_def)
    with later(3) prov delete_failed_stream show ?thesis by auto
  next
    case (failed y e)
    with b prov delete_failed_stream show ?thesis by auto
  next
    case (deleted y)
    have "\<not> (points_to_candidate db row \<and> blob_key b = (gc_organization_id row, gc_document_id row))"
      using deleted(6) b by (auto simp: protected_def blob_key_def)
    then have "protected db' b"
      using b unfolding deleted(5) by (auto simp: protected_def gc_update_frame) (auto simp: delete_gc_row_def delete_blob_def)
    moreover have "loc (eb_object_key b) \<noteq> loc (gc_object_key row)"
    proof
      assume "loc (eb_object_key b) = loc (gc_object_key row)"
      from separateD [OF sep ob row [unfolded gc_owned_def] this] get_blob_mem [OF inv mem] ob row deleted(6) b
      show False by (auto simp: points_to_candidate_def gc_owned_def owned_def protected_def)
    qed
    ultimately show ?thesis using deleted(1,2) prov delete_other_stream by auto
  qed
qed

lemma collect_rows_protected:
  assumes "collect_rows st describe cutoff dry rows db s vs = (db', s', r)"
    and "store_for_provider st (provider store) = Inr store"
    and "evidence_ok lib ids store db" and "\<forall>g \<in> set rows. gc_owned lib ids store g"
    and "separate lib ids loc" and "backed store db s" and "protected db b"
  shows "protected db' b \<and> store_stream store s' (eb_object_key b) = store_stream store s (eb_object_key b)"
  using assms
proof (induction rows arbitrary: db s vs)
  case (Cons row rows)
  obtain db1 s1 q where q: "collect_row st describe cutoff dry db s row = (db1, s1, q)" by (rule prod_cases3)
  with Cons.prems have "evidence_ok lib ids store db1 \<and> backed store db1 s1"
    by (intro collect_row_ok [OF q]) simp_all
  moreover from q Cons.prems have "protected db1 b \<and> store_stream store s1 (eb_object_key b) = store_stream store s (eb_object_key b)"
    by (intro collect_row_protected [OF q]) simp_all
  ultimately show ?case using Cons q by (cases q) auto
qed simp

end

text \<open>
  C13. The collector spares evidence in use. Whatever a run does, committed or not, rehearsed or not,
  and whatever objects it fails to delete, a blob whose metadata is live or that a live measurement
  or requirement still lists keeps its row, and its content reads as before.
\<close>

theorem collector_spares_evidence_in_use:
  assumes "collect_due_evidence_gc st describe locked db s limit dry cutoff abort = (db', s', r)"
    and "st_local st = LocalObjectStore lib fs" and "separate lib ids (local_location fs)"
    and "evidence_ok lib ids (LocalObjectStore lib fs) db" and "backed (LocalObjectStore lib fs) db s"
    and "protected db b"
  shows "b \<in> set (evidence_blobs db') \<and> local_stream fs s' (eb_object_key b) = local_stream fs s (eb_object_key b)"
proof -
  obtain db1 s1 q where q: "collect_rows st describe cutoff dry (due_rows db locked limit cutoff) db s [] = (db1, s1, q)"
    by (rule prod_cases3)
  have st: "store_for_provider st (provider (LocalObjectStore lib fs)) = Inr (LocalObjectStore lib fs)"
    using assms(2) by (simp add: store_for_provider_def LocalObjectStore_def)
  have "\<forall>g \<in> set (due_rows db locked limit cutoff). gc_owned lib ids (LocalObjectStore lib fs) g"
    using assms(4) by (auto simp: due_rows_def evidence_ok_def gc_owned_def dest!: in_set_takeD)
  from local_store.collect_rows_protected [OF q st assms(4) this assms(3,5,6)]
  have "protected db1 b" "local_stream fs s1 (eb_object_key b) = local_stream fs s (eb_object_key b)"
    by (simp_all add: LocalObjectStore_def)
  moreover have "s' = s1" "db' = db \<or> db' = db1"
    using assms(1) q by (auto simp: collect_due_evidence_gc_def Let_def split: sum.splits if_splits option.splits)
  ultimately show ?thesis using assms(6) by (auto simp: protected_def)
qed

definition demo_gc :: evidence_object_gc where
  "demo_gc = \<lparr>gc_id = 1, gc_organization_id = ''o'', gc_document_id = ''d'', gc_storage_provider = ''local'',
     gc_object_key = demo_key, gc_reason = ''metadata_tombstone'', gc_not_before = 0, gc_attempts = 0, gc_last_error = None\<rparr>"

definition demo_gc_db :: db where
  "demo_gc_db = demo_item_db\<lparr>evidence_blobs := [demo_blob], evidence_object_gcs := [demo_gc],
     canonical_item_children := [\<lparr>ic_organization_id = ''o'', ic_entity_type = ''evidence'', ic_entity_id = ''d'',
       ic_item_id = ''i'', ic_deleted_at = None\<rparr>]\<rparr>"

lemma demo_owned: "owned demo_digest_lib {(''o'', ''d'')} (LocalObjectStore lib fs) ''o'' ''d'' ''local'' demo_key"
  using demo_object_key by (auto simp: owned_def LocalObjectStore_def)

theorem collector_spares_evidence_in_use_witness:
  "demo_blob \<in> set (evidence_blobs (fst (collect_due_evidence_gc demo_stores (\<lambda>_. []) (\<lambda>_. False) demo_gc_db demo_files
     100 False 5 None)))"
proof -
  obtain db' s' r where run: "collect_due_evidence_gc demo_stores (\<lambda>_. []) (\<lambda>_. False) demo_gc_db demo_files
      100 False 5 None = (db', s', r)" by (rule prod_cases3)
  have "evidence_ok demo_digest_lib {(''o'', ''d'')} (LocalObjectStore demo_digest_lib demo_fs) demo_gc_db"
    using demo_owned by (simp add: evidence_ok_def demo_gc_db_def demo_blob_def demo_gc_def keys_ok_def demo_item_db_def
        empty_db_def get_organization_def)
  moreover have "backed (LocalObjectStore demo_digest_lib demo_fs) demo_gc_db demo_files"
    using demo_present by (simp add: backed_but_def demo_gc_db_def demo_blob_def demo_store_def)
  moreover have "protected demo_gc_db demo_blob"
    by (simp add: protected_def demo_gc_db_def evidence_live_def demo_blob_def get_item_child_def key_defs)
  moreover have "st_local demo_stores = LocalObjectStore demo_digest_lib demo_fs"
    by (simp add: demo_stores_def demo_store_def)
  ultimately show ?thesis
    using collector_spares_evidence_in_use [OF run _ demo_separate] run by simp
qed

section \<open>Progress of the queue\<close>

lemma gc_delay_bounds: "300 \<le> gc_delay n \<and> gc_delay n \<le> 3600"
proof -
  have "(1::int) \<le> 2 ^ nat (min (n - 1) 16)" by simp
  then show ?thesis unfolding gc_delay_def GC_BACKOFF_BASE_SECONDS_def GC_BACKOFF_MAX_SECONDS_def by linarith
qed

lemma reschedule_fields [simp]: "gc_id (reschedule g x c) = gc_id g"
  by (simp add: reschedule_def Let_def)

lemma set_put_row_keys:
  assumes "keys_ok key rows"
  shows "set (put_row key r rows) = insert r {x \<in> set rows. key x \<noteq> key r}"
  using assms by (auto simp: rows.mem_store_iff)

text \<open>After its turn a row is gone or rescheduled, and the others are as they were.\<close>

lemma collect_row_turn:
  assumes "collect_row st describe cutoff False db s row = (db', s', Inr v)"
    and keys: "keys_ok gc_id (evidence_object_gcs db)"
  shows "keys_ok gc_id (evidence_object_gcs db') \<and> (\<forall>g \<in> set (evidence_object_gcs db').
    if gc_id g = gc_id row then \<exists>g0 x. g = reschedule g0 x cutoff else g \<in> set (evidence_object_gcs db))"
proof -
  have del: "keys_ok gc_id (evidence_object_gcs (delete_gc_row d (gc_id row)))
      \<and> (\<forall>g \<in> set (evidence_object_gcs (delete_gc_row d (gc_id row))).
        if gc_id g = gc_id row then \<exists>g0 x. g = reschedule g0 x cutoff else g \<in> set (evidence_object_gcs db))"
    if "evidence_object_gcs d = evidence_object_gcs db" for d
    using that keys by (auto simp: delete_gc_row_def intro: keys_ok_filter)
  have upd: "keys_ok gc_id (evidence_object_gcs (update_gc_row db (reschedule g x cutoff)))
      \<and> (\<forall>h \<in> set (evidence_object_gcs (update_gc_row db (reschedule g x cutoff))).
        if gc_id h = gc_id row then \<exists>g0 x. h = reschedule g0 x cutoff else h \<in> set (evidence_object_gcs db))"
    if "gc_id g = gc_id row" for g x
    using that keys by (auto simp: update_gc_row_def keys_ok_put_row set_put_row_keys)
  have none: "keys_ok gc_id (evidence_object_gcs db) \<and> (\<forall>h \<in> set (evidence_object_gcs db).
        if gc_id h = gc_id row then \<exists>g0 x. h = reschedule g0 x cutoff else h \<in> set (evidence_object_gcs db))"
    if "get_row gc_id (gc_id row) (evidence_object_gcs db) = None"
    using that keys by (auto simp: get_row_None image_iff)
  have blob: "evidence_object_gcs (delete_blob db k) = evidence_object_gcs db" for k
    by (simp add: delete_blob_def)
  note dels = del [OF refl] del [OF blob]
  have retry: "gc_id g = gc_id row" if "get_row gc_id (gc_id row) (evidence_object_gcs db) = Some g" for g
    using that by (auto dest: get_row_SomeD)
  from assms(1) consider
      d where "db' = delete_gc_row d (gc_id row)" "d = db \<or> (\<exists>k. d = delete_blob db k)"
    | g x where "db' = update_gc_row db (reschedule g x cutoff)" "gc_id g = gc_id row"
    | "db' = db" "get_row gc_id (gc_id row) (evidence_object_gcs db) = None"
    unfolding collect_row_def Let_def
    by (auto split: if_splits sum.splits prod.splits option.splits dest: retry)
  then show ?thesis
  proof cases
    case 1
    then show ?thesis using del blob by blast
  next
    case 2
    then show ?thesis using upd by simp
  next
    case 3
    then show ?thesis using none by simp
  qed
qed

lemma collect_rows_turn:
  assumes "collect_rows st describe cutoff False rows db s vs = (db', s', Inr vs')"
    and "keys_ok gc_id (evidence_object_gcs db)"
  shows "length vs' = length vs + length rows \<and> (\<forall>g \<in> set (evidence_object_gcs db').
    if gc_id g \<in> gc_id ` set rows then \<exists>g0 x. g = reschedule g0 x cutoff else g \<in> set (evidence_object_gcs db))"
  using assms
proof (induction rows arbitrary: db s vs)
  case (Cons row rows)
  from Cons.prems(1) obtain db1 s1 v where q: "collect_row st describe cutoff False db s row = (db1, s1, Inr v)"
    and rest: "collect_rows st describe cutoff False rows db1 s1 (vs @ [v]) = (db', s', Inr vs')"
    by (auto split: prod.splits sum.splits)
  from collect_row_turn [OF q Cons.prems(2)] Cons.IH [OF rest] show ?case by (fastforce split: if_splits)
qed simp

text \<open>
  No row blocks the queue. A committed run reports one verdict per row it selected; each of
  those rows is gone afterwards, or was pushed out of the selection window by at least five minutes
  and at most an hour, so a second run at the same instant selects none of them; every other row
  is as it was.
\<close>

theorem collector_makes_progress:
  assumes "collect_due_evidence_gc st describe locked db s limit False cutoff None = (db', s', Inr totals)"
    and "keys_ok gc_id (evidence_object_gcs db)"
  shows "gc_deleted totals + gc_skipped totals + gc_failed totals = length (due_rows db locked limit cutoff)
    \<and> length (due_rows db locked limit cutoff) \<le> 1000
    \<and> (\<forall>g \<in> set (evidence_object_gcs db').
      if gc_id g \<in> gc_id ` set (due_rows db locked limit cutoff)
      then cutoff + timedelta_seconds 300 \<le> gc_not_before g \<and> gc_not_before g \<le> cutoff + timedelta_seconds 3600
      else g \<in> set (evidence_object_gcs db))"
proof -
  let ?rows = "due_rows db locked limit cutoff"
  from assms(1) obtain vs where vs: "collect_rows st describe cutoff False ?rows db s [] = (db', s', Inr vs)"
    and totals: "totals = \<lparr>gc_deleted = length (filter (\<lambda>v. v = GC_Deleted) vs),
        gc_skipped = length (filter (\<lambda>v. v = GC_Skipped) vs), gc_failed = length (filter (\<lambda>v. v = GC_Failed) vs)\<rparr>"
    by (auto simp: collect_due_evidence_gc_def Let_def split: prod.splits sum.splits)
  have count: "length (filter (\<lambda>v. v = GC_Deleted) us) + length (filter (\<lambda>v. v = GC_Skipped) us)
      + length (filter (\<lambda>v. v = GC_Failed) us) = length us" for us
    by (induction us) (auto split: if_splits intro: gc_verdict.exhaust)
  have window: "cutoff + timedelta_seconds 300 \<le> gc_not_before (reschedule g x cutoff)
      \<and> gc_not_before (reschedule g x cutoff) \<le> cutoff + timedelta_seconds 3600" for g x
    using gc_delay_bounds [of "gc_attempts g + 1"] by (simp add: reschedule_def Let_def timedelta_seconds_def)
  note turn = collect_rows_turn [OF vs assms(2)]
  have "length ?rows \<le> 1000" by (simp add: due_rows_def)
  moreover have "gc_deleted totals + gc_skipped totals + gc_failed totals = length ?rows"
    using count [of vs] turn by (simp add: totals)
  moreover have "if gc_id g \<in> gc_id ` set ?rows
      then cutoff + timedelta_seconds 300 \<le> gc_not_before g \<and> gc_not_before g \<le> cutoff + timedelta_seconds 3600
      else g \<in> set (evidence_object_gcs db)" if "g \<in> set (evidence_object_gcs db')" for g
    using turn that window by (auto split: if_splits)
  ultimately show ?thesis by blast
qed

text \<open>A store that cannot be reached keeps the row, an hour at most away.\<close>

theorem collector_makes_progress_witness:
  "\<exists>db' s' totals. collect_due_evidence_gc (demo_stores\<lparr>st_local := demo_store\<lparr>store_delete := (\<lambda>s _. (s, Inl (StorageError None)))\<rparr>\<rparr>)
     (\<lambda>_. ''down'') (\<lambda>_. False) (demo_gc_db\<lparr>canonical_item_children := []\<rparr>) demo_files 100 False 5 None = (db', s', Inr totals)
   \<and> gc_deleted totals + gc_skipped totals + gc_failed totals = 1
   \<and> (\<forall>g \<in> set (evidence_object_gcs db'). gc_id g = 1 \<longrightarrow> gc_not_before g \<le> 5 + timedelta_seconds 3600)"
proof -
  let ?db = "demo_gc_db\<lparr>canonical_item_children := []\<rparr>"
  let ?st = "demo_stores\<lparr>st_local := demo_store\<lparr>store_delete := (\<lambda>s _. (s, Inl (StorageError None)))\<rparr>\<rparr>"
  have due: "due_rows ?db (\<lambda>_. False) 100 5 = [demo_gc]"
    by (simp add: due_rows_def demo_gc_db_def demo_gc_def)
  have "\<exists>db' s' v. collect_row ?st (\<lambda>_. ''down'') 5 False ?db demo_files demo_gc = (db', s', Inr v)"
    by (simp add: collect_row_def Let_def store_for_provider_def demo_gc_def is_storage_error_def
        evidence_live_def get_item_child_def is_referenced_def demo_gc_db_def demo_item_db_def empty_db_def)
  then obtain db' s' totals where run: "collect_due_evidence_gc ?st (\<lambda>_. ''down'') (\<lambda>_. False) ?db demo_files 100 False 5 None
      = (db', s', Inr totals)"
    by (auto simp: collect_due_evidence_gc_def due Let_def)
  have "keys_ok gc_id (evidence_object_gcs ?db)" by (simp add: demo_gc_db_def keys_ok_def)
  from collector_makes_progress [OF run this] run show ?thesis
    unfolding due by (auto simp: demo_gc_def)
qed

section \<open>Upload and download\<close>

lemma read_chunks_concat: "0 < n \<Longrightarrow> concat (read_chunks n data) = data"
proof (induction n data rule: read_chunks.induct)
  case (1 n data)
  then show ?case by (subst read_chunks.simps) (auto simp del: append_take_drop_id simp: append_take_drop_id [of n data])
qed

lemma bounded_from_concat:
  "bs_error (bounded_from limit consumed cs failure) = None \<Longrightarrow>
    failure = None \<and> concat (bs_chunks (bounded_from limit consumed cs failure)) = concat cs
    \<and> (consumed \<le> limit \<longrightarrow> consumed + length (concat cs) \<le> limit)"
proof (induction limit consumed cs failure rule: bounded_from.induct)
  case (2 limit consumed c cs failure)
  then show ?case by (cases "c = []"; cases "limit < consumed + length c") (auto simp: Let_def)
qed simp

lemma require_evidence_manager_access:
  assumes "require_evidence_manager db p item = Inr u"
  shows "\<exists>x. require_item_access db p item None = Inr x"
  using assms by (auto simp: require_evidence_manager_def require_item_access_def res_simps)

lemma item_access_frame:
  assumes "canonical_items db' = canonical_items db" "canonical_projects db' = canonical_projects db"
    "canonical_project_sectors db' = canonical_project_sectors db"
  shows "require_item_access db' p item c = require_item_access db p item c"
proof -
  have eqs: "project_for_scope db' = project_for_scope db" "active_sector_of db' = active_sector_of db"
    using assms by (simp_all add: fun_eq_iff project_for_scope_def active_sector_of_def get_defs)
  show ?thesis unfolding require_item_access_def item_for_scope_def get_item_def assms eqs ..
qed

lemma put_blob_okE:
  assumes "put_blob env mb st db s p doc item fn mt sha body abort = (db', s', Inr b)"
  obtains store k stored where "current_store st = Inr store"
    "put_blob_store (pe_lib env) mb store s (organization_id p) doc sha body = (s', Inr (k, stored))"
    "put_blob_publish env db s' store p doc item fn mt k stored abort = (db', Published b)"
proof (cases "seq (put_blob_check db p doc item) (current_store st)")
  case (Inr store)
  then have "current_store st = Inr store" by (simp add: res_simps)
  with assms Inr that show thesis
    by (auto simp: put_blob_def split: prod.splits sum.splits publish_outcome.splits)
qed (use assms in \<open>simp add: put_blob_def\<close>)

lemma published_blob:
  assumes "put_blob_publish env db s store p doc item fn mt k stored abort = (db', Published b)"
  shows "get_blob db' (organization_id p) doc = Some b \<and> eb_object_key b = k \<and> eb_storage_provider b = provider store
    \<and> eb_sha256 b = so_sha256 stored \<and> eb_mime_type b = mt
    \<and> (\<exists>x. require_item_access db' p (eb_item_id b) None = Inr x)"
proof -
  let ?db1 = "cancel_gc_for_key db (organization_id p) (provider store) k"
  let ?item = "case get_blob db (organization_id p) doc of Some b \<Rightarrow> eb_item_id b | None \<Rightarrow> item"
  have sw: "switch_pointer env ?db1 p store doc ?item fn mt k stored = (db', b)"
    and mgr: "\<exists>u. require_evidence_manager ?db1 p ?item = Inr u"
    using assms unfolding put_blob_publish_def Let_def
    by (auto split: if_splits sum.splits option.splits prod.splits)
  have gb: "get_blob ?db1 = get_blob db" by (simp add: fun_eq_iff get_blob_def cancel_gc_for_key_def)
  note e = switch_pointer_blobs [OF sw]
  have fields: "eb_sha256 b = so_sha256 stored" "eb_mime_type b = mt" "eb_item_id b = ?item"
    using sw unfolding switch_pointer_def gb by (auto simp: Let_def split: option.splits)
  have frame: "canonical_items db' = canonical_items ?db1" "canonical_projects db' = canonical_projects ?db1"
    "canonical_project_sectors db' = canonical_project_sectors ?db1"
    using sw unfolding switch_pointer_def by (auto simp: Let_def queue_blob_gc_def split: option.splits if_splits)
  from mgr have "\<exists>x. require_item_access db' p (eb_item_id b) None = Inr x"
    unfolding fields(3) item_access_frame [OF frame] using require_evidence_manager_access by blast
  moreover have "get_blob db' (organization_id p) doc = Some b"
    using e get_row_put_row [of blob_key "(organization_id p, doc)" b] by (simp add: get_blob_def blob_key_def)
  ultimately show ?thesis using e fields by simp
qed

text \<open>
  C14. What is uploaded is what is downloaded. After a successful upload to the local store, the
  same principal downloads exactly the bytes of the request body, under the media type and the
  digest that were stored; the bytes hash to the digest the client announced and respect the
  configured size limit.
\<close>

theorem evidence_roundtrip:
  assumes "put_blob env mb st db s p doc item fn mt sha body abort = (db', s', Inr b)"
    and "st_local st = LocalObjectStore (pe_lib env) fs" and "st_current st = ''local''"
  shows "\<exists>pieces media. evidence_get st db' s' p doc = Inr (pieces, media, eb_sha256 b)
    \<and> concat pieces = concat (bs_chunks body) \<and> media = (if mt = [] then ''application/octet-stream'' else mt)
    \<and> eb_sha256 b = sha256_hex (pe_lib env) (concat (bs_chunks body)) \<and> py_lower (eb_sha256 b) = py_lower sha
    \<and> int (length (concat (bs_chunks body))) \<le> max 1 mb"
proof -
  let ?S = "LocalObjectStore (pe_lib env) fs"
  from assms(1) obtain store k stored where store: "current_store st = Inr store"
    and put: "put_blob_store (pe_lib env) mb store s (organization_id p) doc sha body = (s', Inr (k, stored))"
    and pub: "put_blob_publish env db s' store p doc item fn mt k stored abort = (db', Published b)"
    by (rule put_blob_okE)
  from store assms(2,3) have S: "store = ?S" by (simp add: current_store_def store_for_provider_def)
  let ?body = "bounded_chunks body mb"
  from put S have "local_put_verified (pe_lib env) fs s k ?body sha = (s', Inr stored)"
    by (auto simp: put_blob_store_def LocalObjectStore_def split: sum.splits prod.splits)
  then obtain path data where path: "local_path fs k = Inr path" and err: "bs_error ?body = None"
    and data: "data = concat (bs_chunks ?body)" "py_lower (sha256_hex (pe_lib env) data) = py_lower sha"
      "s' = s(path \<mapsto> data)" "so_sha256 stored = sha256_hex (pe_lib env) data"
    by (auto dest!: local_put_effect)
  have body: "data = concat (bs_chunks body)" "int (length data) \<le> max 1 mb"
    using bounded_from_concat [OF err [unfolded bounded_chunks_def]] data(1)
    by (auto simp: bounded_chunks_def)
  note pubd = published_blob [OF pub]
  then have km: "eb_object_key b = k" "eb_mime_type b = mt" by blast+
  from pubd obtain x where acc: "require_item_access db' p (eb_item_id b) None = Inr x" by blast
  have auth: "authorized_blob db' p doc = Inr b"
    using pubd acc by (simp add: authorized_blob_def rethrow_def)
  have sel: "store_for_provider st (eb_storage_provider b) = Inr ?S"
    using pubd S assms(2) by (simp add: store_for_provider_def LocalObjectStore_def)
  have "store_exists ?S s' k = Inr True" "store_stream ?S s' k = Inr (read_chunks CHUNK_BYTES data)"
    using path data(3) by (simp_all add: LocalObjectStore_def local_exists_def local_stream_def)
  then have "evidence_get st db' s' p doc = Inr (read_chunks CHUNK_BYTES data,
      if mt = [] then ''application/octet-stream'' else mt, eb_sha256 b)"
    using km by (simp add: evidence_get_def auth sel storage_503_def)
  moreover have "concat (read_chunks CHUNK_BYTES data) = data"
    by (rule read_chunks_concat) (simp add: CHUNK_BYTES_def)
  ultimately show ?thesis using body data pubd by auto
qed

theorem evidence_roundtrip_witness:
  "\<exists>db' s' b pieces. put_blob demo_evidence_env 10 demo_stores demo_item_db Map.empty demo_principal ''d'' ''i'' ''f'' ''t''
      demo_digest \<lparr>bs_chunks = [''ab''], bs_error = None\<rparr> None = (db', s', Inr b)
   \<and> evidence_get demo_stores db' s' demo_principal ''d'' = Inr (pieces, ''t'', eb_sha256 b) \<and> concat pieces = ''ab''"
proof -
  have "demo_item_db\<lparr>evidence_object_gcs := [], evidence_blobs := []\<rparr> = demo_item_db"
    by (simp add: demo_item_db_def empty_db_def)
  then have "require_evidence_manager demo_item_db demo_principal ''i'' = Inr ()"
    using demo_access [of "[]" "[]"] by simp
  moreover have "get_blob demo_item_db ''o'' ''d'' = None" "evidence_metadata demo_item_db ''o'' ''d'' = None"
    by (simp_all add: demo_item_db_def empty_db_def get_defs evidence_metadata_def)
  ultimately have check: "put_blob_check demo_item_db demo_principal ''d'' ''i'' = Inr ()"
    by (simp add: put_blob_check_def Let_def metadata_deleted_def demo_principal_def)
  have st: "current_store demo_stores = Inr demo_store" "st_current demo_stores = ''local''"
    "st_local demo_stores = LocalObjectStore (pe_lib demo_evidence_env) demo_fs"
    by (simp_all add: demo_stores_def current_store_def store_for_provider_def demo_evidence_env_def demo_store_def)
  have org: "organization_id demo_principal = ''o''" "pe_lib demo_evidence_env = demo_digest_lib"
    by (simp_all add: demo_principal_def demo_evidence_env_def)
  have put: "put_blob demo_evidence_env 10 demo_stores demo_item_db Map.empty demo_principal ''d'' ''i'' ''f'' ''t''
      demo_digest \<lparr>bs_chunks = [''ab''], bs_error = None\<rparr> None
    = (demo_item_db\<lparr>evidence_blobs := [demo_blob]\<rparr>, demo_files, Inr demo_blob)"
    using demo_put demo_publish by (simp add: put_blob_def check st(1) org)
  from evidence_roundtrip [OF put st(3,2)] put show ?thesis by auto
qed

section \<open>The S3 store\<close>

text \<open>
  An upload to S3 succeeds exactly when the copy to the final key did, whatever the removal of the
  staging object says, and then the bytes hash to the announced digest.
\<close>

lemma s3_publish_ok:
  "s3_publish lib cl staging s key data sha = (s', Inr stored) \<longleftrightarrow>
    py_lower (sha256_hex lib data) = py_lower sha \<and> (\<exists>s1 u. copy_object cl s staging key = (s1, Inr u)
      \<and> s' = fst (delete_object cl s1 staging))
    \<and> stored = \<lparr>so_sha256 = sha256_hex lib data, so_size_bytes = length data\<rparr>"
  by (auto simp: s3_publish_def s3_failed_def Let_def split: prod.splits sum.splits)

text \<open>
  A digest mismatch whose cleanup fails is reported as the failure of the cleanup: the caller sees
  the raw client error, which the upload handler turns into neither 409 nor 503.
\<close>

lemma s3_mismatch_masked:
  assumes "py_lower (sha256_hex lib data) \<noteq> py_lower sha" and "delete_object cl s staging = (s', Inl (ClientError status code))"
  shows "s3_publish lib cl staging s key data sha = (s', Inl (ClientError status code))
    \<and> upload_error (ClientError status code) = ClientError status code"
  using assms by (simp add: s3_publish_def Let_def upload_error_def)

end
