(* ===== verification/Reference.thy ===== *)
theory Reference
  imports Idempotency "HOL-Library.Product_Lexorder"
begin

text \<open>
  \<open>app/reference_data.py\<close>: publications of reference data, their digests, the bundled baselines and
  their race-tolerant seeding, publishing and the read operations. What pydantic makes of a
  request is the input; the JSON text pydantic gives a timestamp and the offset PostgreSQL's driver
  assumes for a naive one are parameters.
\<close>

section \<open>Requests\<close>

record ReferenceEntry =
  re_id :: string
  re_kind :: string
  re_code :: string
  re_name :: string
  re_active :: bool
  re_vendor_sku :: "string option"
  re_unit_cost_minor :: "int option"
  re_currency :: "string option"
  re_attributes :: dict

record CompatibilityRule =
  cr_id :: string
  cr_item_type_id :: string
  cr_available_components :: "string list"
  cr_required_components :: "string list"
  cr_allowed_section_types :: "string list"
  cr_compatible_entry_ids :: "string list"
  cr_attributes :: dict

record PriceBookLine =
  pb_id :: string
  pb_item_type_id :: "string option"
  pb_reference_entry_id :: "string option"
  pb_description :: string
  pb_unit_price_minor :: int
  pb_currency :: string
  pb_active :: bool
  pb_attributes :: dict

record ReferencePublicationPayload =
  pl_source :: string
  pl_authoritative :: bool
  pl_entries :: "ReferenceEntry list"
  pl_rules :: "CompatibilityRule list"
  pl_price_lines :: "PriceBookLine list"
  pl_metadata :: dict

record ReferencePublicationCreate =
  rc_publication_id :: string
  rc_kind :: string
  rc_version_id :: string
  rc_effective_from :: datetime
  rc_effective_until :: "datetime option"
  rc_supersedes :: "string option"
  rc_payload :: ReferencePublicationPayload

text \<open>The declared constraints of the fields; a request that violates one is answered with a 422.\<close>

definition PublicationKind :: "string list" where
  "PublicationKind = [''catalog'', ''compatibility_rules'', ''price_book'']"

definition ReferenceEntryKind :: "string list" where
  "ReferenceEntryKind = [''sector'', ''item_type'', ''aluminum_system'', ''aluminum_profile'', ''finish'', ''glass_type'',
     ''glass_thickness'', ''glass_treatment'', ''hardware'', ''accessory'', ''vendor_material'']"

definition text_within :: "nat \<Rightarrow> nat \<Rightarrow> string \<Rightarrow> bool" where
  "text_within lo hi s \<longleftrightarrow> lo \<le> length s \<and> length s \<le> hi"

definition entry_valid :: "ReferenceEntry \<Rightarrow> bool" where
  "entry_valid e \<longleftrightarrow> text_within 1 256 (re_id e) \<and> re_kind e \<in> set ReferenceEntryKind \<and> text_within 1 128 (re_code e)
     \<and> text_within 1 512 (re_name e) \<and> pred_option (text_within 0 256) (re_vendor_sku e)
     \<and> pred_option (\<lambda>n. 0 \<le> n) (re_unit_cost_minor e) \<and> pred_option (text_within 3 3) (re_currency e)"

definition rule_valid :: "CompatibilityRule \<Rightarrow> bool" where
  "rule_valid r \<longleftrightarrow> text_within 1 256 (cr_id r) \<and> text_within 1 256 (cr_item_type_id r)"

definition price_line_valid :: "PriceBookLine \<Rightarrow> bool" where
  "price_line_valid l \<longleftrightarrow> text_within 1 256 (pb_id l) \<and> pred_option (text_within 0 256) (pb_item_type_id l)
     \<and> pred_option (text_within 0 256) (pb_reference_entry_id l) \<and> text_within 1 512 (pb_description l)
     \<and> 0 \<le> pb_unit_price_minor l \<and> text_within 3 3 (pb_currency l)"

definition payload_valid :: "ReferencePublicationPayload \<Rightarrow> bool" where
  "payload_valid p \<longleftrightarrow> text_within 1 128 (pl_source p) \<and> list_all entry_valid (pl_entries p)
     \<and> list_all rule_valid (pl_rules p) \<and> list_all price_line_valid (pl_price_lines p)"

definition publication_request_valid :: "ReferencePublicationCreate \<Rightarrow> bool" where
  "publication_request_valid r \<longleftrightarrow> text_within 1 256 (rc_publication_id r) \<and> rc_kind r \<in> set PublicationKind
     \<and> text_within 1 256 (rc_version_id r) \<and> pred_option (text_within 0 256) (rc_supersedes r)
     \<and> payload_valid (rc_payload r)"

definition opt_json :: "('a \<Rightarrow> json) \<Rightarrow> 'a option \<Rightarrow> json" where
  "opt_json f x = (case x of None \<Rightarrow> JNull | Some y \<Rightarrow> f y)"

definition str_list :: "string list \<Rightarrow> json" where
  "str_list xs = JList (map JStr xs)"

text \<open>\<open>model_dump(mode="json")\<close>, in field order.\<close>

definition dump_entry :: "ReferenceEntry \<Rightarrow> json" where
  "dump_entry e = JObj [(''id'', JStr (re_id e)), (''kind'', JStr (re_kind e)), (''code'', JStr (re_code e)),
     (''name'', JStr (re_name e)), (''active'', JBool (re_active e)), (''vendorSKU'', opt_json JStr (re_vendor_sku e)),
     (''unitCostMinor'', opt_json JInt (re_unit_cost_minor e)), (''currency'', opt_json JStr (re_currency e)),
     (''attributes'', JObj (re_attributes e))]"

definition dump_rule :: "CompatibilityRule \<Rightarrow> json" where
  "dump_rule r = JObj [(''id'', JStr (cr_id r)), (''itemTypeID'', JStr (cr_item_type_id r)),
     (''availableComponents'', str_list (cr_available_components r)),
     (''requiredComponents'', str_list (cr_required_components r)),
     (''allowedSectionTypes'', str_list (cr_allowed_section_types r)),
     (''compatibleEntryIDs'', str_list (cr_compatible_entry_ids r)), (''attributes'', JObj (cr_attributes r))]"

definition dump_price_line :: "PriceBookLine \<Rightarrow> json" where
  "dump_price_line l = JObj [(''id'', JStr (pb_id l)), (''itemTypeID'', opt_json JStr (pb_item_type_id l)),
     (''referenceEntryID'', opt_json JStr (pb_reference_entry_id l)), (''description'', JStr (pb_description l)),
     (''unitPriceMinor'', JInt (pb_unit_price_minor l)), (''currency'', JStr (pb_currency l)),
     (''active'', JBool (pb_active l)), (''attributes'', JObj (pb_attributes l))]"

definition dump_payload :: "ReferencePublicationPayload \<Rightarrow> json" where
  "dump_payload p = JObj [(''source'', JStr (pl_source p)), (''authoritative'', JBool (pl_authoritative p)),
     (''entries'', JList (map dump_entry (pl_entries p))), (''compatibilityRules'', JList (map dump_rule (pl_rules p))),
     (''priceBookLines'', JList (map dump_price_line (pl_price_lines p))), (''metadata'', JObj (pl_metadata p))]"

section \<open>Timestamps\<close>

text \<open>
  \<open>rf_text\<close> is pydantic's JSON text of a timestamp, \<open>rf_local_offset\<close> the offset (minutes) of the
  server's own time zone, which \<open>astimezone\<close> assumes for a naive one; \<open>rf_now\<close> is the time of the
  transaction.
\<close>

record ref_env =
  rf_lib :: lib
  rf_text :: "datetime \<Rightarrow> string"
  rf_local_offset :: int
  rf_now :: int

definition days_before_year :: "int \<Rightarrow> int" where
  "days_before_year y = (y - 1) * 365 + (y - 1) div 4 - (y - 1) div 100 + (y - 1) div 400"

definition is_leap :: "int \<Rightarrow> bool" where
  "is_leap y \<longleftrightarrow> y mod 4 = 0 \<and> (y mod 100 \<noteq> 0 \<or> y mod 400 = 0)"

definition days_before_month :: "int \<Rightarrow> nat \<Rightarrow> int" where
  "days_before_month y m = sum_list (take (m - 1) [31, if is_leap y then 29 else 28, 31, 30, 31, 30, 31, 31, 30, 31, 30, 31])"

text \<open>Microseconds since the epoch, with the offset to subtract.\<close>

definition instant_at :: "int \<Rightarrow> datetime \<Rightarrow> int" where
  "instant_at offset t =
     (let days = days_before_year (int (dt_year t)) + days_before_month (int (dt_year t)) (dt_month t)
            + int (dt_day t) - 719163;
          minutes = (days * 24 + int (dt_hour t)) * 60 + int (dt_minute t) - offset
      in (minutes * 60 + int (dt_second t)) * 1000000 + int (dt_microsecond t))"

definition to_timestamptz :: "ref_env \<Rightarrow> datetime \<Rightarrow> int" where
  "to_timestamptz env t = instant_at (case dt_offset t of Some m \<Rightarrow> m | None \<Rightarrow> rf_local_offset env) t"

text \<open>\<open>a <= b\<close>: a naive and an aware timestamp do not compare.\<close>

definition datetime_le :: "datetime \<Rightarrow> datetime \<Rightarrow> bool res" where
  "datetime_le a b = (case (dt_offset a, dt_offset b) of
       (Some m, Some n) \<Rightarrow> ok (instant_at m a \<le> instant_at n b)
     | (None, None) \<Rightarrow> ok (instant_at 0 a \<le> instant_at 0 b)
     | _ \<Rightarrow> raise TypeError)"

section \<open>The bundled baselines\<close>

definition utc :: "nat \<Rightarrow> nat \<Rightarrow> nat \<Rightarrow> datetime" where
  "utc y m d = \<lparr>dt_year = y, dt_month = m, dt_day = d, dt_hour = 0, dt_minute = 0, dt_second = 0,
     dt_microsecond = 0, dt_offset = Some 0\<rparr>"

definition BASELINE_EFFECTIVE_FROM :: datetime where
  "BASELINE_EFFECTIVE_FROM = utc 2026 1 1"

definition APPLICATION_CATALOG_EFFECTIVE_FROM :: datetime where
  "APPLICATION_CATALOG_EFFECTIVE_FROM = utc 2026 9 10"

definition entry :: "string \<Rightarrow> string \<Rightarrow> string \<Rightarrow> string \<Rightarrow> ReferenceEntry" where
  "entry i kind code name = \<lparr>re_id = i, re_kind = kind, re_code = code, re_name = name, re_active = True,
     re_vendor_sku = None, re_unit_cost_minor = None, re_currency = None, re_attributes = []\<rparr>"

definition rule :: "string \<Rightarrow> string \<Rightarrow> string list \<Rightarrow> string list \<Rightarrow> string list \<Rightarrow> CompatibilityRule" where
  "rule i item_type available required sections = \<lparr>cr_id = i, cr_item_type_id = item_type,
     cr_available_components = available, cr_required_components = required,
     cr_allowed_section_types = sections, cr_compatible_entry_ids = [], cr_attributes = []\<rparr>"

definition BASELINE_ENTRIES :: "ReferenceEntry list" where
  "BASELINE_ENTRIES = [
     entry ''al-system-sliding'' ''aluminum_system'' ''SLIDING'' ''Sliding Aluminum System'',
     entry ''al-system-projected'' ''aluminum_system'' ''PROJECTED'' ''Projected / Casement System'',
     entry ''al-system-swing-door'' ''aluminum_system'' ''SWING_DOOR'' ''Swing Door System'',
     entry ''al-system-storefront'' ''aluminum_system'' ''STOREFRONT'' ''Storefront / Facade System'',
     entry ''al-system-railing'' ''aluminum_system'' ''RAILING'' ''Railing / Guard System'',
     entry ''al-profile-frame'' ''aluminum_profile'' ''FRAME'' ''Frame Profile'',
     entry ''al-profile-sash'' ''aluminum_profile'' ''SASH'' ''Sash / Vent Profile'',
     entry ''al-profile-mullion'' ''aluminum_profile'' ''MULLION'' ''Mullion Profile'',
     entry ''al-profile-transom'' ''aluminum_profile'' ''TRANSOM'' ''Transom Profile'',
     entry ''al-profile-threshold'' ''aluminum_profile'' ''THRESHOLD'' ''Threshold / Sill Profile'',
     entry ''finish-natural-anodized'' ''finish'' ''NATURAL_ANODIZED'' ''Natural Anodized'',
     entry ''finish-black'' ''finish'' ''BLACK'' ''Black'',
     entry ''finish-white'' ''finish'' ''WHITE'' ''White'',
     entry ''finish-bronze'' ''finish'' ''BRONZE'' ''Bronze'',
     entry ''finish-custom'' ''finish'' ''CUSTOM'' ''Custom / Project Finish'',
     entry ''glass-clear-float'' ''glass_type'' ''CLEAR_FLOAT'' ''Clear Float Glass'',
     entry ''glass-tempered'' ''glass_type'' ''TEMPERED'' ''Tempered Safety Glass'',
     entry ''glass-laminated'' ''glass_type'' ''LAMINATED'' ''Laminated Safety Glass'',
     entry ''glass-insulated'' ''glass_type'' ''INSULATED'' ''Insulated Glass Unit'',
     entry ''glass-patterned'' ''glass_type'' ''PATTERNED'' ''Patterned / Privacy Glass'',
     entry ''glass-4mm'' ''glass_thickness'' ''4MM'' ''4 mm'',
     entry ''glass-5mm'' ''glass_thickness'' ''5MM'' ''5 mm'',
     entry ''glass-6mm'' ''glass_thickness'' ''6MM'' ''6 mm'',
     entry ''glass-8mm'' ''glass_thickness'' ''8MM'' ''8 mm'',
     entry ''glass-10mm'' ''glass_thickness'' ''10MM'' ''10 mm'',
     entry ''glass-12mm'' ''glass_thickness'' ''12MM'' ''12 mm'',
     entry ''glass-treatment-none'' ''glass_treatment'' ''NONE'' ''No Additional Treatment'',
     entry ''glass-treatment-frosted'' ''glass_treatment'' ''FROSTED'' ''Frosted / Etched'',
     entry ''glass-treatment-low-e'' ''glass_treatment'' ''LOW_E'' ''Low-E Coating'',
     entry ''glass-treatment-reflective'' ''glass_treatment'' ''REFLECTIVE'' ''Reflective Coating'',
     entry ''glass-treatment-tinted'' ''glass_treatment'' ''TINTED'' ''Tinted'',
     entry ''hardware-handle'' ''hardware'' ''HANDLE'' ''Handle / Pull'',
     entry ''hardware-lock'' ''hardware'' ''LOCK'' ''Lock'',
     entry ''hardware-multipoint-lock'' ''hardware'' ''MULTIPOINT_LOCK'' ''Multi-point Lock'',
     entry ''hardware-roller'' ''hardware'' ''ROLLER'' ''Roller Assembly'',
     entry ''hardware-hinge'' ''hardware'' ''HINGE'' ''Hinge Set'',
     entry ''hardware-closer'' ''hardware'' ''CLOSER'' ''Door Closer'',
     entry ''accessory-screen'' ''accessory'' ''SCREEN'' ''Insect Screen'',
     entry ''accessory-weather-seal'' ''accessory'' ''WEATHER_SEAL'' ''Weather Seal / Gasket'',
     entry ''accessory-drainage'' ''accessory'' ''DRAINAGE'' ''Drainage / Weep Kit'',
     entry ''accessory-trim'' ''accessory'' ''TRIM'' ''Interior / Exterior Trim'',
     entry ''accessory-anchor-kit'' ''accessory'' ''ANCHOR_KIT'' ''Anchor / Fastener Kit'']"

definition APPLICATION_CATALOG_ENTRIES :: "ReferenceEntry list" where
  "APPLICATION_CATALOG_ENTRIES = [
     (entry ''sector-aluminum-glass-steel'' ''sector'' ''ALUMINUM_GLASS_STEEL'' ''Aluminum, Glass & Steel'')\<lparr>re_attributes := [(''description'', JStr ''Architectural aluminum, glass, steel and metal construction elements.'')]\<rparr>,
     (entry ''item-type-window'' ''item_type'' ''WINDOW'' ''Window'')\<lparr>re_attributes := [(''sectorID'', JStr ''sector-aluminum-glass-steel''), (''sortOrder'', JInt 10)]\<rparr>,
     (entry ''item-type-door'' ''item_type'' ''DOOR'' ''Door'')\<lparr>re_attributes := [(''sectorID'', JStr ''sector-aluminum-glass-steel''), (''sortOrder'', JInt 20)]\<rparr>,
     (entry ''item-type-bathroom-division'' ''item_type'' ''BATHROOM_DIVISION'' ''Bathroom Division'')\<lparr>re_attributes := [(''sectorID'', JStr ''sector-aluminum-glass-steel''), (''sortOrder'', JInt 30)]\<rparr>,
     (entry ''item-type-office-division'' ''item_type'' ''OFFICE_DIVISION'' ''Office Division'')\<lparr>re_attributes := [(''sectorID'', JStr ''sector-aluminum-glass-steel''), (''sortOrder'', JInt 40)]\<rparr>,
     (entry ''item-type-facade'' ''item_type'' ''FACADE'' ''Facade'')\<lparr>re_attributes := [(''sectorID'', JStr ''sector-aluminum-glass-steel''), (''sortOrder'', JInt 50)]\<rparr>,
     (entry ''item-type-balcony-railing'' ''item_type'' ''BALCONY_RAILING'' ''Balcony / Railing'')\<lparr>re_attributes := [(''sectorID'', JStr ''sector-aluminum-glass-steel''), (''sortOrder'', JInt 60)]\<rparr>,
     (entry ''item-type-other'' ''item_type'' ''OTHER'' ''Other'')\<lparr>re_attributes := [(''sectorID'', JStr ''sector-aluminum-glass-steel''), (''sortOrder'', JInt 70)]\<rparr>]"

definition BASELINE_COMPATIBILITY_RULES :: "CompatibilityRule list" where
  "BASELINE_COMPATIBILITY_RULES = [
     rule ''rule-item-type-window-v1'' ''item-type-window''
       [''vanoDimensions'', ''structure'', ''aluminumSystem'', ''aluminumProfile'', ''aluminumColor'', ''glassType'', ''glassThickness'', ''glassColor'', ''glassTreatment'', ''hardware'', ''accessories'', ''openingDirection'']
       [''vanoDimensions'', ''structure'', ''aluminumSystem'', ''aluminumProfile'', ''aluminumColor'', ''glassType'', ''glassThickness'']
       [''fixed'', ''sliding'', ''projected''],
     rule ''rule-item-type-door-v1'' ''item-type-door''
       [''vanoDimensions'', ''structure'', ''aluminumSystem'', ''aluminumProfile'', ''aluminumColor'', ''glassType'', ''glassThickness'', ''glassColor'', ''glassTreatment'', ''hardware'', ''accessories'', ''openingDirection'']
       [''vanoDimensions'', ''structure'', ''aluminumSystem'', ''aluminumProfile'', ''aluminumColor'']
       [''sliding'', ''swing'', ''fixed''],
     rule ''rule-item-type-bathroom-division-v1'' ''item-type-bathroom-division''
       [''vanoDimensions'', ''structure'', ''aluminumSystem'', ''aluminumProfile'', ''aluminumColor'', ''glassType'', ''glassThickness'', ''glassColor'', ''glassTreatment'', ''hardware'', ''accessories'', ''openingDirection'']
       [''vanoDimensions'', ''structure'', ''glassType'', ''glassThickness'']
       [''fixed'', ''sliding'', ''swing''],
     rule ''rule-item-type-office-division-v1'' ''item-type-office-division''
       [''vanoDimensions'', ''structure'', ''aluminumSystem'', ''aluminumProfile'', ''aluminumColor'', ''glassType'', ''glassThickness'', ''glassColor'', ''glassTreatment'', ''hardware'', ''accessories'', ''openingDirection'']
       [''vanoDimensions'', ''structure'']
       [''fixed'', ''sliding'', ''swing''],
     rule ''rule-item-type-facade-v1'' ''item-type-facade''
       [''vanoDimensions'', ''structure'', ''aluminumSystem'', ''aluminumProfile'', ''aluminumColor'', ''glassType'', ''glassThickness'', ''glassColor'', ''glassTreatment'', ''hardware'', ''accessories'']
       [''vanoDimensions'', ''structure'']
       [''fixed''],
     rule ''rule-item-type-balcony-railing-v1'' ''item-type-balcony-railing''
       [''vanoDimensions'', ''structure'', ''aluminumSystem'', ''aluminumProfile'', ''aluminumColor'', ''glassType'', ''glassThickness'', ''glassColor'', ''glassTreatment'', ''hardware'', ''accessories'']
       [''vanoDimensions'', ''structure'']
       [''fixed''],
     rule ''rule-item-type-other-v1'' ''item-type-other''
       [''vanoDimensions'', ''structure'', ''aluminumSystem'', ''aluminumProfile'', ''aluminumColor'', ''glassType'', ''glassThickness'', ''glassColor'', ''glassTreatment'', ''hardware'', ''accessories'', ''openingDirection'']
       [''vanoDimensions'']
       [''fixed'', ''sliding'', ''projected'', ''swing'', ''other'']]"

definition BASELINE_CATALOG :: ReferencePublicationCreate where
  "BASELINE_CATALOG = \<lparr>rc_publication_id = ''catalog-bundled-v1'', rc_kind = ''catalog'', rc_version_id = ''configurator-catalog-v1'',
     rc_effective_from = BASELINE_EFFECTIVE_FROM, rc_effective_until = None, rc_supersedes = None,
     rc_payload = \<lparr>pl_source = ''bundled-ios-v1'', pl_authoritative = False, pl_entries = BASELINE_ENTRIES,
       pl_rules = [], pl_price_lines = [],
       pl_metadata = [(''note'', JStr ''Bundled compatibility baseline; vendor SKUs/costs are intentionally absent until authoritative data is published.'')]\<rparr>\<rparr>"

definition BASELINE_CATALOG_V2 :: ReferencePublicationCreate where
  "BASELINE_CATALOG_V2 = \<lparr>rc_publication_id = ''catalog-bundled-v2'', rc_kind = ''catalog'', rc_version_id = ''configurator-catalog-v2'',
     rc_effective_from = APPLICATION_CATALOG_EFFECTIVE_FROM, rc_effective_until = None, rc_supersedes = Some ''catalog-bundled-v1'',
     rc_payload = \<lparr>pl_source = ''bundled-ios-v1+application-catalog-v2'', pl_authoritative = False, pl_entries = (BASELINE_ENTRIES @ APPLICATION_CATALOG_ENTRIES),
       pl_rules = [], pl_price_lines = [],
       pl_metadata = [(''note'', JStr ''Adds typed configurable Sector and Item Type entries required by SCRUM-1/SCRUM-5 while preserving the V1 technical catalog IDs. Vendor SKUs/costs remain intentionally absent until authoritative data is published.'')]\<rparr>\<rparr>"

definition BASELINE_RULES :: ReferencePublicationCreate where
  "BASELINE_RULES = \<lparr>rc_publication_id = ''compatibility-rules-bundled-v1'', rc_kind = ''compatibility_rules'', rc_version_id = ''configurator-rules-v1'',
     rc_effective_from = BASELINE_EFFECTIVE_FROM, rc_effective_until = None, rc_supersedes = None,
     rc_payload = \<lparr>pl_source = ''bundled-ios-v1'', pl_authoritative = False, pl_entries = [],
       pl_rules = BASELINE_COMPATIBILITY_RULES, pl_price_lines = [],
       pl_metadata = []\<rparr>\<rparr>"

definition BASELINE_PRICE_BOOK :: ReferencePublicationCreate where
  "BASELINE_PRICE_BOOK = \<lparr>rc_publication_id = ''price-book-unconfigured-v1'', rc_kind = ''price_book'', rc_version_id = ''price-book-unconfigured-v1'',
     rc_effective_from = BASELINE_EFFECTIVE_FROM, rc_effective_until = None, rc_supersedes = None,
     rc_payload = \<lparr>pl_source = ''system-baseline'', pl_authoritative = False, pl_entries = [],
       pl_rules = [], pl_price_lines = [],
       pl_metadata = [(''configured'', JBool False), (''note'', JStr ''No authoritative vendor pricing has been supplied; no costs or prices are fabricated.'')]\<rparr>\<rparr>"

definition BASELINE_PUBLICATIONS :: "ReferencePublicationCreate list" where
  "BASELINE_PUBLICATIONS = [BASELINE_CATALOG, BASELINE_CATALOG_V2, BASELINE_RULES, BASELINE_PRICE_BOOK]"

definition BASELINE_SEED_ATTEMPTS :: nat where
  "BASELINE_SEED_ATTEMPTS = 2"

section \<open>Digests\<close>

definition canonical_material :: "ref_env \<Rightarrow> ReferencePublicationCreate \<Rightarrow> json" where
  "canonical_material env request = JObj [(''publicationID'', JStr (rc_publication_id request)),
     (''kind'', JStr (rc_kind request)), (''versionID'', JStr (rc_version_id request)),
     (''effectiveFrom'', JStr (rf_text env (rc_effective_from request))),
     (''effectiveUntil'', opt_json (\<lambda>t. JStr (rf_text env t)) (rc_effective_until request)),
     (''supersedesPublicationID'', opt_json JStr (rc_supersedes request)),
     (''payload'', dump_payload (rc_payload request))]"

definition publication_sha256 :: "ref_env \<Rightarrow> ReferencePublicationCreate \<Rightarrow> string" where
  "publication_sha256 env request =
     sha256_hex (rf_lib env) (utf8 (json_dumps False (canonical_material env request)))"

section \<open>Inserting\<close>

definition new_publication ::
  "ref_env \<Rightarrow> string \<Rightarrow> ReferencePublicationCreate \<Rightarrow> string \<Rightarrow> reference_publication" where
  "new_publication env org request published_by =
     \<lparr>rp_organization_id = org, rp_publication_id = rc_publication_id request, rp_kind = rc_kind request,
      rp_version_id = rc_version_id request, rp_effective_from = to_timestamptz env (rc_effective_from request),
      rp_effective_until = map_option (to_timestamptz env) (rc_effective_until request),
      rp_supersedes_publication_id = rc_supersedes request,
      rp_payload_json = dump_payload (rc_payload request), rp_content_sha256 = publication_sha256 env request,
      rp_published_by_user_id = published_by, rp_published_at = rf_now env\<rparr>"

definition version_owner :: "db \<Rightarrow> string \<Rightarrow> ReferencePublicationCreate \<Rightarrow> bool" where
  "version_owner db org request \<longleftrightarrow>
     list_ex (\<lambda>r. rp_organization_id r = org \<and> rp_kind r = rc_kind request \<and> rp_version_id r = rc_version_id request)
       (reference_publications db)"

definition check_predecessor :: "db \<Rightarrow> string \<Rightarrow> ReferencePublicationCreate \<Rightarrow> unit res" where
  "check_predecessor db org request =
     (case rc_supersedes request of
        None \<Rightarrow> ok ()
      | Some k \<Rightarrow>
          (case get_publication_row db org k of
             None \<Rightarrow> raise PublicationConflict
           | Some predecessor \<Rightarrow>
               if rp_kind predecessor \<noteq> rc_kind request then raise PublicationConflict else ok ()))"

definition insert_publication ::
  "ref_env \<Rightarrow> db \<Rightarrow> string \<Rightarrow> ReferencePublicationCreate \<Rightarrow> string \<Rightarrow> db \<times> reference_publication res" where
  "insert_publication env db org request published_by =
     (case (case rc_effective_until request of
              None \<Rightarrow> ok ()
            | Some until \<Rightarrow> ebind (datetime_le until (rc_effective_from request)) (\<lambda>early. guard early PublicationConflict)) of
        Inl e \<Rightarrow> (db, raise e)
      | Inr _ \<Rightarrow>
          (case get_publication_row db org (rc_publication_id request) of
             Some existing \<Rightarrow>
               (db, if rp_content_sha256 existing = publication_sha256 env request then ok existing
                    else raise PublicationConflict)
           | None \<Rightarrow>
               if version_owner db org request then (db, raise PublicationConflict)
               else case check_predecessor db org request of
                   Inl e \<Rightarrow> (db, raise e)
                 | Inr _ \<Rightarrow>
                     let model = new_publication env org request published_by
                     in (db\<lparr>reference_publications := reference_publications db @ [model]\<rparr>, ok model)))"

section \<open>Seeding\<close>

fun seed_requests :: "ref_env \<Rightarrow> string \<Rightarrow> ReferencePublicationCreate list \<Rightarrow> bool \<Rightarrow> db \<Rightarrow> db \<times> bool res" where
  "seed_requests env org [] created db = (db, ok created)"
| "seed_requests env org (request # requests) created db =
     (case get_publication_row db org (rc_publication_id request) of
        Some _ \<Rightarrow> seed_requests env org requests created db
      | None \<Rightarrow>
          (case insert_publication env db org request ''system:baseline'' of
             (db', Inl e) \<Rightarrow> (db', raise e)
           | (db', Inr _) \<Rightarrow> seed_requests env org requests True db'))"

definition seed_baseline_publications :: "ref_env \<Rightarrow> string \<Rightarrow> db \<Rightarrow> db \<times> bool res" where
  "seed_baseline_publications env org db = seed_requests env org BASELINE_PUBLICATIONS False db"

text \<open>
  \<open>races n\<close> is the transaction of a concurrent seeder that commits first and makes attempt \<open>n\<close>
  violate the primary key; the attempt rolls back and the next one sees what the winner committed.
\<close>

function ensure_from :: "(nat \<Rightarrow> ref_env option) \<Rightarrow> ref_env \<Rightarrow> string \<Rightarrow> nat \<Rightarrow> db \<Rightarrow> db \<times> unit res" where
  "ensure_from races env org attempt db =
     (if BASELINE_SEED_ATTEMPTS < attempt then (db, ok ())
      else case races attempt of
          Some winner \<Rightarrow>
            let db' = (case seed_baseline_publications winner org db of (d, Inr _) \<Rightarrow> d | (_, Inl _) \<Rightarrow> db)
            in if attempt = BASELINE_SEED_ATTEMPTS then (db', raise (DBAPIError (Some ''23505'')))
               else ensure_from races env org (attempt + 1) db'
        | None \<Rightarrow>
            (case seed_baseline_publications env org db of
               (db', Inr _) \<Rightarrow> (db', ok ())
             | (_, Inl e) \<Rightarrow> (db, raise e)))"
  by pat_completeness auto
termination
  by (relation "measure (\<lambda>(races, env, org, attempt, db). Suc BASELINE_SEED_ATTEMPTS - attempt)") auto

declare ensure_from.simps [simp del]

definition ensure_baseline_publications ::
  "(nat \<Rightarrow> ref_env option) \<Rightarrow> ref_env \<Rightarrow> string \<Rightarrow> db \<Rightarrow> db \<times> unit res" where
  "ensure_baseline_publications races env org db = ensure_from races env org 1 db"

section \<open>Operations\<close>

record ReferencePublicationResponse =
  rs_publication_id :: string
  rs_kind :: string
  rs_version_id :: string
  rs_effective_from :: int
  rs_effective_until :: "int option"
  rs_supersedes :: "string option"
  rs_content_sha256 :: string
  rs_published_by :: string
  rs_published_at :: int
  rs_payload :: json

record ReferencePublicationSummary =
  sy_publication_id :: string
  sy_kind :: string
  sy_version_id :: string
  sy_effective_from :: int
  sy_effective_until :: "int option"
  sy_content_sha256 :: string
  sy_published_at :: int

definition to_response :: "reference_publication \<Rightarrow> ReferencePublicationResponse" where
  "to_response r = \<lparr>rs_publication_id = rp_publication_id r, rs_kind = rp_kind r, rs_version_id = rp_version_id r,
     rs_effective_from = rp_effective_from r, rs_effective_until = rp_effective_until r,
     rs_supersedes = rp_supersedes_publication_id r, rs_content_sha256 = rp_content_sha256 r,
     rs_published_by = rp_published_by_user_id r, rs_published_at = rp_published_at r, rs_payload = rp_payload_json r\<rparr>"

definition summary :: "ReferencePublicationResponse \<Rightarrow> ReferencePublicationSummary" where
  "summary p = \<lparr>sy_publication_id = rs_publication_id p, sy_kind = rs_kind p, sy_version_id = rs_version_id p,
     sy_effective_from = rs_effective_from p, sy_effective_until = rs_effective_until p,
     sy_content_sha256 = rs_content_sha256 p, sy_published_at = rs_published_at p\<rparr>"

definition require_manage_capability :: "principal \<Rightarrow> string \<Rightarrow> unit res" where
  "require_manage_capability p kind =
     guard ((if kind = ''price_book'' then ''pricing.manage'' else ''catalog.manage'') \<notin> capabilities p) PermissionError"

definition publish_reference ::
  "(nat \<Rightarrow> ref_env option) \<Rightarrow> ref_env \<Rightarrow> db \<Rightarrow> principal \<Rightarrow> ReferencePublicationCreate
     \<Rightarrow> db \<times> ReferencePublicationResponse res" where
  "publish_reference races env db p request =
     (case require_manage_capability p (rc_kind request) of
        Inl e \<Rightarrow> (db, raise e)
      | Inr _ \<Rightarrow>
          (case ensure_baseline_publications races env (organization_id p) db of
             (db1, Inl e) \<Rightarrow> (db1, raise e)
           | (db1, Inr _) \<Rightarrow>
               (case insert_publication env db1 (organization_id p) request (user_id p) of
                  (_, Inl e) \<Rightarrow> (db1, raise e)
                | (db2, Inr model) \<Rightarrow> (db2, ok (to_response model)))))"

text \<open>Every read seeds first.\<close>

definition seeded :: "(nat \<Rightarrow> ref_env option) \<Rightarrow> ref_env \<Rightarrow> db \<Rightarrow> principal \<Rightarrow> (db \<Rightarrow> 'a res) \<Rightarrow> db \<times> 'a res" where
  "seeded races env db p f =
     (case ensure_baseline_publications races env (organization_id p) db of
        (db1, Inl e) \<Rightarrow> (db1, raise e)
      | (db1, Inr _) \<Rightarrow> (db1, f db1))"

definition get_publication ::
  "(nat \<Rightarrow> ref_env option) \<Rightarrow> ref_env \<Rightarrow> db \<Rightarrow> principal \<Rightarrow> string \<Rightarrow> db \<times> ReferencePublicationResponse res" where
  "get_publication races env db p publication_id =
     seeded races env db p (\<lambda>db1.
       case get_publication_row db1 (organization_id p) publication_id of
         None \<Rightarrow> raise PublicationNotFound
       | Some model \<Rightarrow> ok (to_response model))"

text \<open>\<open>order_by(kind.asc(), effective_from.desc(), published_at.desc())\<close>\<close>

definition publication_order :: "reference_publication list \<Rightarrow> reference_publication list" where
  "publication_order rows = sort_key (\<lambda>r. (rp_kind r, - rp_effective_from r, - rp_published_at r)) rows"

definition list_publications_rows :: "db \<Rightarrow> principal \<Rightarrow> string option \<Rightarrow> ReferencePublicationResponse list" where
  "list_publications_rows db p kind =
     map to_response (publication_order (filter (\<lambda>r. rp_organization_id r = organization_id p
       \<and> (case kind of None \<Rightarrow> True | Some k \<Rightarrow> rp_kind r = k)) (reference_publications db)))"

definition list_publications ::
  "(nat \<Rightarrow> ref_env option) \<Rightarrow> ref_env \<Rightarrow> db \<Rightarrow> principal \<Rightarrow> string option \<Rightarrow> db \<times> ReferencePublicationResponse list res" where
  "list_publications races env db p kind = seeded races env db p (\<lambda>db1. ok (list_publications_rows db1 p kind))"

definition effective_at :: "int \<Rightarrow> reference_publication \<Rightarrow> bool" where
  "effective_at moment r \<longleftrightarrow> rp_effective_from r \<le> moment
     \<and> (case rp_effective_until r of None \<Rightarrow> True | Some u \<Rightarrow> moment < u)"

text \<open>\<open>selected.setdefault(row.kind, row)\<close> keeps the first row of each kind.\<close>

fun setdefault_all :: "reference_publication list \<Rightarrow> (string \<times> reference_publication) list \<Rightarrow> (string \<times> reference_publication) list" where
  "setdefault_all [] selected = selected"
| "setdefault_all (r # rows) selected =
     setdefault_all rows (if map_of selected (rp_kind r) = None then selected @ [(rp_kind r, r)] else selected)"

definition current_publications_rows :: "db \<Rightarrow> principal \<Rightarrow> int \<Rightarrow> ReferencePublicationResponse list" where
  "current_publications_rows db p moment =
     (let rows = publication_order (filter (\<lambda>r. rp_organization_id r = organization_id p \<and> effective_at moment r)
            (reference_publications db));
          selected = setdefault_all rows []
      in map (\<lambda>key. to_response (the (map_of selected key))) (sort (map fst selected)))"

definition current_publications ::
  "(nat \<Rightarrow> ref_env option) \<Rightarrow> ref_env \<Rightarrow> db \<Rightarrow> principal \<Rightarrow> int option \<Rightarrow> db \<times> ReferencePublicationResponse list res" where
  "current_publications races env db p moment =
     seeded races env db p (\<lambda>db1. ok (current_publications_rows db1 p (case moment of Some t \<Rightarrow> t | None \<Rightarrow> rf_now env)))"

record ReferencePublicationManifest =
  mf_current :: "ReferencePublicationSummary list"
  mf_available :: "ReferencePublicationSummary list"

definition publication_manifest ::
  "(nat \<Rightarrow> ref_env option) \<Rightarrow> ref_env \<Rightarrow> db \<Rightarrow> principal \<Rightarrow> db \<times> ReferencePublicationManifest res" where
  "publication_manifest races env db p =
     seeded races env db p (\<lambda>db1. ok \<lparr>mf_current = map summary (current_publications_rows db1 p (rf_now env)),
       mf_available = map summary (list_publications_rows db1 p None)\<rparr>)"

section \<open>Routes\<close>

definition publication_route ::
  "(nat \<Rightarrow> ref_env option) \<Rightarrow> ref_env \<Rightarrow> db \<Rightarrow> principal \<Rightarrow> string \<Rightarrow> db \<times> ReferencePublicationResponse res" where
  "publication_route races env db p publication_id =
     (if \<not> text_within 1 256 publication_id then (db, raise (HTTPException 422))
      else case get_publication races env db p publication_id of
        (db1, r) \<Rightarrow> (db1, rethrow [PublicationNotFound] (HTTPException 404) r))"

definition publish_route ::
  "(nat \<Rightarrow> ref_env option) \<Rightarrow> ref_env \<Rightarrow> db \<Rightarrow> principal \<Rightarrow> ReferencePublicationCreate
     \<Rightarrow> db \<times> ReferencePublicationResponse res" where
  "publish_route races env db p request =
     (if \<not> publication_request_valid request then (db, raise (HTTPException 422))
      else case publish_reference races env db p request of
        (db1, r) \<Rightarrow> (db1, rethrow [PublicationConflict] (HTTPException 409)
          (rethrow [PermissionError] (HTTPException 403) r)))"

end
