(* ===== verification/Access.thy ===== *)
theory Access
  imports Reference Sync_Push
begin

text \<open>
  \<open>app/auth.py\<close>, \<open>app/pairing.py\<close>, \<open>app/auth_session_routes.py\<close> and \<open>app/admin.py\<close>: bearer
  authentication, single-use pairing codes, logout, and the administrative plane. The clock and the
  random values a call draws (\<open>secrets.token_urlsafe\<close>, \<open>uid\<close>) are arguments. Each handler is one
  transaction: a refusal leaves the database as it was.
\<close>

section \<open>Authentication\<close>

definition token_hash :: "lib \<Rightarrow> string \<Rightarrow> string" where
  "token_hash lib token = sha256_hex lib (utf8 token)"

definition unauthorized :: exn where
  "unauthorized = HTTPException 401"

definition find_session :: "db \<Rightarrow> string \<Rightarrow> auth_session option" where
  "find_session db hash = get_row ses_access_token_hash hash (auth_sessions db)"

text \<open>The credentials are the scheme and the token of the \<open>Authorization\<close> header.\<close>

definition current_principal :: "lib \<Rightarrow> int \<Rightarrow> db \<Rightarrow> (string \<times> string) option \<Rightarrow> principal res" where
  "current_principal lib now db credentials =
     (case credentials of
        None \<Rightarrow> raise unauthorized
      | Some (scheme, token) \<Rightarrow>
          if py_lower scheme \<noteq> ''bearer'' then raise unauthorized
          else case find_session db (token_hash lib token) of
              None \<Rightarrow> raise unauthorized
            | Some s \<Rightarrow>
                if ses_revoked_at s \<noteq> None \<or> ses_expires_at s \<le> now then raise unauthorized
                else case (get_membership db (ses_membership_id s), get_organization db (ses_organization_id s)) of
                    (Some m, Some org) \<Rightarrow>
                      if \<not> mem_active m then raise unauthorized
                      else if mem_organization_id m \<noteq> ses_organization_id s \<or> mem_user_id m \<noteq> ses_user_id s
                      then raise unauthorized
                      else ok \<lparr>user_id = ses_user_id s, organization_id = ses_organization_id s,
                             membership_id = ses_membership_id s, session_id = ses_id s,
                             authorization_revision = org_authorization_revision org,
                             capabilities = set (mem_capabilities m), customer_ids = set (mem_customer_ids m),
                             project_ids = set (mem_project_ids m), all_customers = mem_all_customers m,
                             all_projects = mem_all_projects m\<rparr>
                  | _ \<Rightarrow> raise unauthorized)"

record AuthorizationProfile =
  ap_principal_id :: string
  ap_display_name :: string
  ap_email :: "string option"
  ap_customer_ids :: "string list"
  ap_all_customers :: bool
  ap_capabilities :: "string list"
  ap_issued_at :: int
  ap_expires_at :: int
  ap_organization_id :: string
  ap_membership_id :: string
  ap_session_id :: string
  ap_authorization_revision :: int
  ap_project_ids :: "string list"
  ap_all_projects :: bool
  ap_roles :: "(string \<times> string) list"

definition Capability :: "string list" where
  "Capability = [''customer.create'', ''customer.edit'', ''project.create'', ''project.edit'', ''item.create'',
     ''item.edit'', ''item.readiness.change'', ''item.readiness.override'', ''item.blockers.manage'',
     ''item.measurements.manage'', ''item.evidence.manage'', ''item.requirements.manage'',
     ''item.configuration.manage'', ''item.configuration.finalize'', ''item.configuration.reopen'',
     ''quotation.create'', ''quotation.send'', ''quotation.approve'', ''delivery.manage'', ''catalog.manage'',
     ''pricing.manage'', ''organization.members.manage'', ''organization.roles.manage'', ''sync'']"

definition profile_valid :: "AuthorizationProfile \<Rightarrow> bool" where
  "profile_valid a \<longleftrightarrow> set (ap_capabilities a) \<subseteq> set Capability \<and> 0 \<le> ap_authorization_revision a"

definition profile_for :: "db \<Rightarrow> principal \<Rightarrow> AuthorizationProfile res" where
  "profile_for db p =
     (case (get_user db (user_id p), get_membership db (membership_id p), get_session db (session_id p)) of
        (Some u, Some m, Some s) \<Rightarrow>
          let profile = \<lparr>ap_principal_id = usr_id u, ap_display_name = usr_display_name u, ap_email = usr_email u,
                ap_customer_ids = sorted_list_of_set (customer_ids p), ap_all_customers = all_customers p,
                ap_capabilities = sorted_list_of_set (capabilities p), ap_issued_at = ses_issued_at s,
                ap_expires_at = ses_expires_at s, ap_organization_id = organization_id p,
                ap_membership_id = membership_id p, ap_session_id = session_id p,
                ap_authorization_revision = authorization_revision p,
                ap_project_ids = sorted_list_of_set (project_ids p), ap_all_projects = all_projects p,
                ap_roles = mem_roles m\<rparr>
          in if profile_valid profile then ok profile else raise ValidationError
      | _ \<Rightarrow> raise unauthorized)"

section \<open>Pairing\<close>

record AdminPairingGrantRequest =
  gr_membership_id :: string
  gr_grant_ttl_seconds :: int
  gr_session_ttl_seconds :: int

definition pairing_request_valid :: "AdminPairingGrantRequest \<Rightarrow> bool" where
  "pairing_request_valid r \<longleftrightarrow> 1 \<le> length (gr_membership_id r) \<and> length (gr_membership_id r) \<le> 128
     \<and> 60 \<le> gr_grant_ttl_seconds r \<and> gr_grant_ttl_seconds r \<le> 3600
     \<and> 300 \<le> gr_session_ttl_seconds r \<and> gr_session_ttl_seconds r \<le> 2592000"

definition find_grant :: "db \<Rightarrow> string \<Rightarrow> pairing_grant option" where
  "find_grant db hash = get_row pg_code_hash hash (pairing_grants db)"

text \<open>The answer is the grant id, the code and the expiry; a unique index guards both columns.\<close>

definition issue_pairing_grant ::
  "lib \<Rightarrow> int \<Rightarrow> db \<Rightarrow> AdminPairingGrantRequest \<Rightarrow> string \<Rightarrow> string \<Rightarrow> db \<times> (string \<times> string \<times> int) res" where
  "issue_pairing_grant lib now db request pairing_code grant_id =
     (case get_membership db (gr_membership_id request) of
        None \<Rightarrow> (db, raise (HTTPException 404))
      | Some m \<Rightarrow>
          if \<not> mem_active m then (db, raise (HTTPException 409))
          else
            let grant = \<lparr>pg_id = grant_id, pg_organization_id = mem_organization_id m, pg_membership_id = mem_id m,
                  pg_user_id = mem_user_id m, pg_code_hash = token_hash lib pairing_code,
                  pg_expires_at = now + timedelta_seconds (gr_grant_ttl_seconds request),
                  pg_session_ttl_seconds = gr_session_ttl_seconds request, pg_consumed_at = None\<rparr>
            in if list_ex (\<lambda>g. pg_id g = grant_id \<or> pg_code_hash g = pg_code_hash grant) (pairing_grants db)
               then (db, raise (DBAPIError (Some ''23505'')))
               else (db\<lparr>pairing_grants := pairing_grants db @ [grant]\<rparr>,
                     ok (grant_id, pairing_code, pg_expires_at grant)))"

definition normalized_code :: "string \<Rightarrow> string" where
  "normalized_code value = py_strip value"

text \<open>Inserting a session, refused by the primary key or by the unique token hash.\<close>

definition add_session :: "db \<Rightarrow> auth_session \<Rightarrow> db res" where
  "add_session db s =
     (if list_ex (\<lambda>x. ses_id x = ses_id s \<or> ses_access_token_hash x = ses_access_token_hash s) (auth_sessions db)
      then raise (DBAPIError (Some ''23505''))
      else ok (db\<lparr>auth_sessions := auth_sessions db @ [s]\<rparr>))"

definition grant_session :: "lib \<Rightarrow> int \<Rightarrow> pairing_grant \<Rightarrow> string \<Rightarrow> string \<Rightarrow> auth_session" where
  "grant_session lib now g access_token sid =
     \<lparr>ses_id = sid, ses_organization_id = pg_organization_id g, ses_membership_id = pg_membership_id g,
      ses_user_id = pg_user_id g, ses_access_token_hash = token_hash lib access_token, ses_issued_at = now,
      ses_expires_at = now + timedelta_seconds (pg_session_ttl_seconds g), ses_revoked_at = None\<rparr>"

definition exchange_pairing_code ::
  "lib \<Rightarrow> int \<Rightarrow> db \<Rightarrow> string \<Rightarrow> string \<Rightarrow> string \<Rightarrow> db \<times> (string \<times> int) res" where
  "exchange_pairing_code lib now db pairing_code access_token sid =
     (let code = normalized_code pairing_code in
      if length code < 16 then (db, raise unauthorized)
      else case find_grant db (token_hash lib code) of
          None \<Rightarrow> (db, raise unauthorized)
        | Some g \<Rightarrow>
            if pg_consumed_at g \<noteq> None \<or> pg_expires_at g \<le> now then (db, raise unauthorized)
            else case get_membership db (pg_membership_id g) of
                None \<Rightarrow> (db, raise unauthorized)
              | Some m \<Rightarrow>
                  if \<not> mem_active m \<or> mem_organization_id m \<noteq> pg_organization_id g \<or> mem_user_id m \<noteq> pg_user_id g
                  then (db, raise unauthorized)
                  else
                    let s = grant_session lib now g access_token sid in
                    case add_session (db\<lparr>pairing_grants := put_row pg_code_hash (g\<lparr>pg_consumed_at := Some now\<rparr>)
                                        (pairing_grants db)\<rparr>) s of
                      Inl e \<Rightarrow> (db, raise e)
                    | Inr db' \<Rightarrow> (db', ok (access_token, ses_expires_at s)))"

section \<open>Revocation\<close>

definition revoke_row :: "db \<Rightarrow> int \<Rightarrow> auth_session \<Rightarrow> db" where
  "revoke_row db now s =
     (if ses_revoked_at s = None
      then db\<lparr>auth_sessions := put_row ses_id (s\<lparr>ses_revoked_at := Some now\<rparr>) (auth_sessions db)\<rparr> else db)"

definition auth_logout :: "int \<Rightarrow> db \<Rightarrow> principal \<Rightarrow> db \<times> unit res" where
  "auth_logout now db p =
     (case get_session db (session_id p) of
        None \<Rightarrow> (db, raise unauthorized)
      | Some s \<Rightarrow> (revoke_row db now s, ok ()))"

definition revoke_session :: "int \<Rightarrow> db \<Rightarrow> string \<Rightarrow> string \<Rightarrow> db \<times> (string \<times> string \<times> int) res" where
  "revoke_session now db sid org =
     (case get_session db sid of
        None \<Rightarrow> (db, raise (HTTPException 404))
      | Some s \<Rightarrow>
          if ses_organization_id s \<noteq> org then (db, raise (HTTPException 404))
          else (revoke_row db now s,
                ok (ses_organization_id s, ses_id s, case ses_revoked_at s of Some t \<Rightarrow> t | None \<Rightarrow> now)))"

section \<open>The administrative plane\<close>

text \<open>\<open>hmac.compare_digest\<close> raises for text outside ASCII; an empty setting or header counts as absent.\<close>

definition require_admin_key :: "lib \<Rightarrow> string option \<Rightarrow> string option \<Rightarrow> unit res" where
  "require_admin_key lib admin_api_key_hash supplied =
     (case admin_api_key_hash of
        None \<Rightarrow> raise (HTTPException 404)
      | Some configured \<Rightarrow>
          if configured = [] then raise (HTTPException 404)
          else case supplied of
              None \<Rightarrow> raise unauthorized
            | Some key \<Rightarrow>
                if key = [] then raise unauthorized
                else if \<not> list_all (\<lambda>c. (of_char c :: nat) < 128) (py_lower configured) then raise TypeError
                else if sha256_hex lib (utf8 key) \<noteq> py_lower configured then raise unauthorized
                else ok ())"

record AdminBootstrapRequest =
  ab_organization_id :: string
  ab_organization_name :: string
  ab_user_id :: string
  ab_display_name :: string
  ab_email :: "string option"
  ab_membership_id :: string
  ab_active :: bool
  ab_all_customers :: bool
  ab_all_projects :: bool
  ab_customer_ids :: "string list"
  ab_project_ids :: "string list"
  ab_roles :: "(string \<times> string) list"
  ab_capabilities :: "string list"
  ab_session_id :: "string option"
  ab_session_ttl_seconds :: int

definition bounded_text :: "nat \<Rightarrow> string \<Rightarrow> bool" where
  "bounded_text n s \<longleftrightarrow> 1 \<le> length s \<and> length s \<le> n"

definition bootstrap_request_valid :: "AdminBootstrapRequest \<Rightarrow> bool" where
  "bootstrap_request_valid r \<longleftrightarrow> bounded_text 128 (ab_organization_id r) \<and> bounded_text 256 (ab_organization_name r)
     \<and> bounded_text 128 (ab_user_id r) \<and> bounded_text 256 (ab_display_name r)
     \<and> (case ab_email r of None \<Rightarrow> True | Some e \<Rightarrow> length e \<le> 320) \<and> bounded_text 128 (ab_membership_id r)
     \<and> (case ab_session_id r of None \<Rightarrow> True | Some i \<Rightarrow> bounded_text 128 i)
     \<and> set (ab_capabilities r) \<subseteq> set Capability \<and> 300 \<le> ab_session_ttl_seconds r \<and> ab_session_ttl_seconds r \<le> 2592000"

type_synonym authority = "bool \<times> bool \<times> bool \<times> string list \<times> string list \<times> (string \<times> string) list \<times> string list"

definition membership_authority :: "membership \<Rightarrow> authority" where
  "membership_authority m = (mem_active m, mem_all_customers m, mem_all_projects m, sort (mem_customer_ids m),
     sort (mem_project_ids m), sort (mem_roles m), sort (mem_capabilities m))"

definition sorted_set :: "string list \<Rightarrow> string list" where
  "sorted_set xs = sorted_list_of_set (set xs)"

definition requested_authority :: "AdminBootstrapRequest \<Rightarrow> authority" where
  "requested_authority r = (ab_active r, ab_all_customers r, ab_all_projects r, sorted_set (ab_customer_ids r),
     sorted_set (ab_project_ids r), sort (ab_roles r), sorted_set (ab_capabilities r))"

text \<open>The organization and the user of the request, created or updated.\<close>

definition bootstrap_organization :: "db \<Rightarrow> AdminBootstrapRequest \<Rightarrow> organization" where
  "bootstrap_organization db r = (case get_organization db (ab_organization_id r) of
       None \<Rightarrow> \<lparr>org_id = ab_organization_id r, org_name = ab_organization_name r, org_authorization_revision = 0\<rparr>
     | Some org \<Rightarrow> org\<lparr>org_name := ab_organization_name r\<rparr>)"

definition bootstrap_user :: "AdminBootstrapRequest \<Rightarrow> user_row" where
  "bootstrap_user r = \<lparr>usr_id = ab_user_id r, usr_display_name = ab_display_name r, usr_email = ab_email r\<rparr>"

definition email_owner :: "db \<Rightarrow> string \<Rightarrow> user_row option" where
  "email_owner db email = get_row usr_email (Some email) (users db)"

definition check_email :: "db \<Rightarrow> AdminBootstrapRequest \<Rightarrow> unit res" where
  "check_email db r = (case ab_email r of
       None \<Rightarrow> ok ()
     | Some email \<Rightarrow>
         if email = [] then ok ()
         else case email_owner db email of
             None \<Rightarrow> ok ()
           | Some u \<Rightarrow> guard (usr_id u \<noteq> ab_user_id r) (HTTPException 409))"

text \<open>The unique index on \<open>email\<close>, reached by the flush after the user is stored.\<close>

definition email_taken :: "db \<Rightarrow> AdminBootstrapRequest \<Rightarrow> bool" where
  "email_taken db r \<longleftrightarrow> ab_email r \<noteq> None
     \<and> list_ex (\<lambda>u. usr_email u = ab_email r \<and> usr_id u \<noteq> ab_user_id r) (users db)"

definition membership_for_pair :: "db \<Rightarrow> AdminBootstrapRequest \<Rightarrow> membership option" where
  "membership_for_pair db r =
     get_row (\<lambda>m. (mem_organization_id m, mem_user_id m)) (ab_organization_id r, ab_user_id r) (memberships db)"

definition check_membership :: "db \<Rightarrow> AdminBootstrapRequest \<Rightarrow> unit res" where
  "check_membership db r =
     seq (case get_membership db (ab_membership_id r) of
            None \<Rightarrow> ok ()
          | Some m \<Rightarrow> guard (mem_organization_id m \<noteq> ab_organization_id r \<or> mem_user_id m \<noteq> ab_user_id r) (HTTPException 409))
     (case membership_for_pair db r of
        None \<Rightarrow> ok ()
      | Some m \<Rightarrow> guard (mem_id m \<noteq> ab_membership_id r) (HTTPException 409))"

definition authority_changed :: "db \<Rightarrow> AdminBootstrapRequest \<Rightarrow> bool" where
  "authority_changed db r = (case get_membership db (ab_membership_id r) of
       None \<Rightarrow> True
     | Some m \<Rightarrow> membership_authority m \<noteq> requested_authority r)"

definition bootstrap_membership :: "AdminBootstrapRequest \<Rightarrow> membership" where
  "bootstrap_membership r = \<lparr>mem_id = ab_membership_id r, mem_organization_id = ab_organization_id r,
     mem_user_id = ab_user_id r, mem_active = ab_active r, mem_all_customers = ab_all_customers r,
     mem_all_projects = ab_all_projects r, mem_customer_ids = sorted_set (ab_customer_ids r),
     mem_project_ids = sorted_set (ab_project_ids r), mem_roles = ab_roles r,
     mem_capabilities = sorted_set (ab_capabilities r)\<rparr>"

definition store_identity :: "db \<Rightarrow> AdminBootstrapRequest \<Rightarrow> db" where
  "store_identity db r =
     (let org = bootstrap_organization db r;
          org' = (if authority_changed db r
            then org\<lparr>org_authorization_revision := org_authorization_revision org + 1\<rparr> else org)
      in db\<lparr>organizations := put_row org_id org' (organizations db),
            users := put_row usr_id (bootstrap_user r) (users db),
            memberships := put_row mem_id (bootstrap_membership r) (memberships db)\<rparr>)"

record AdminBootstrapResponse =
  br_organization_id :: string
  br_user_id :: string
  br_membership_id :: string
  br_session_id :: string
  br_authorization_revision :: int
  br_issued_at :: int
  br_expires_at :: int
  br_access_token :: string

definition bootstrap_session :: "ref_env \<Rightarrow> AdminBootstrapRequest \<Rightarrow> string \<Rightarrow> string \<Rightarrow> auth_session" where
  "bootstrap_session env r access_token fresh_id =
     \<lparr>ses_id = (case ab_session_id r of None \<Rightarrow> fresh_id | Some i \<Rightarrow> if i = [] then fresh_id else i),
      ses_organization_id = ab_organization_id r, ses_membership_id = ab_membership_id r, ses_user_id = ab_user_id r,
      ses_access_token_hash = token_hash (rf_lib env) access_token, ses_issued_at = rf_now env,
      ses_expires_at = rf_now env + timedelta_seconds (ab_session_ttl_seconds r), ses_revoked_at = None\<rparr>"

text \<open>
  No reader seeds the same organization at the same time: the seed commits, with it everything
  before it, or inserts nothing and the commit of the handler follows.
\<close>

definition bootstrap_identity ::
  "ref_env \<Rightarrow> db \<Rightarrow> AdminBootstrapRequest \<Rightarrow> string \<Rightarrow> string \<Rightarrow> db \<times> AdminBootstrapResponse res" where
  "bootstrap_identity env db r access_token fresh_id =
     (case seq (check_email db r) (if email_taken db r then raise (DBAPIError (Some ''23505'')) else check_membership db r) of
        Inl e \<Rightarrow> (db, raise e)
      | Inr _ \<Rightarrow>
          let db1 = store_identity db r; s = bootstrap_session env r access_token fresh_id in
          if get_session db1 (ses_id s) \<noteq> None then (db, raise (HTTPException 409))
          else case add_session db1 s of
              Inl e \<Rightarrow> (db, raise e)
            | Inr db2 \<Rightarrow>
                (case ensure_baseline_publications (\<lambda>_. None) env (ab_organization_id r) db2 of
                   (_, Inl e) \<Rightarrow> (db, raise e)
                 | (db3, Inr _) \<Rightarrow>
                     (db3, ok \<lparr>br_organization_id = ab_organization_id r, br_user_id = ab_user_id r,
                        br_membership_id = ab_membership_id r, br_session_id = ses_id s,
                        br_authorization_revision =
                          (case get_organization db3 (ab_organization_id r) of
                             Some org \<Rightarrow> org_authorization_revision org | None \<Rightarrow> 0),
                        br_issued_at = ses_issued_at s, br_expires_at = ses_expires_at s,
                        br_access_token = access_token\<rparr>)))"

section \<open>Routes\<close>

text \<open>A body pydantic refuses is a 422.\<close>

definition auth_pair :: "lib \<Rightarrow> int \<Rightarrow> db \<Rightarrow> string \<Rightarrow> string \<Rightarrow> string \<Rightarrow> db \<times> (string \<times> int) res" where
  "auth_pair lib now db pairing_code access_token sid =
     (if length pairing_code < 16 \<or> 128 < length pairing_code then (db, raise (HTTPException 422))
      else exchange_pairing_code lib now db pairing_code access_token sid)"

definition logout_route :: "lib \<Rightarrow> int \<Rightarrow> db \<Rightarrow> (string \<times> string) option \<Rightarrow> db \<times> unit res" where
  "logout_route lib now db credentials =
     (case current_principal lib now db credentials of
        Inl e \<Rightarrow> (db, raise e)
      | Inr p \<Rightarrow> auth_logout now db p)"

definition auth_me :: "lib \<Rightarrow> int \<Rightarrow> db \<Rightarrow> (string \<times> string) option \<Rightarrow> AuthorizationProfile res" where
  "auth_me lib now db credentials = ebind (current_principal lib now db credentials) (profile_for db)"

definition admin_pairing_grant ::
  "lib \<Rightarrow> string option \<Rightarrow> string option \<Rightarrow> int \<Rightarrow> db \<Rightarrow> AdminPairingGrantRequest \<Rightarrow> string \<Rightarrow> string
     \<Rightarrow> db \<times> (string \<times> string \<times> int) res" where
  "admin_pairing_grant lib key_hash key now db request code grant_id =
     (case require_admin_key lib key_hash key of
        Inl e \<Rightarrow> (db, raise e)
      | Inr _ \<Rightarrow>
          if \<not> pairing_request_valid request then (db, raise (HTTPException 422))
          else issue_pairing_grant lib now db request code grant_id)"

definition admin_bootstrap ::
  "string option \<Rightarrow> string option \<Rightarrow> ref_env \<Rightarrow> db \<Rightarrow> AdminBootstrapRequest \<Rightarrow> string \<Rightarrow> string
     \<Rightarrow> db \<times> AdminBootstrapResponse res" where
  "admin_bootstrap key_hash key env db r access_token fresh_id =
     (case require_admin_key (rf_lib env) key_hash key of
        Inl e \<Rightarrow> (db, raise e)
      | Inr _ \<Rightarrow>
          if \<not> bootstrap_request_valid r then (db, raise (HTTPException 422))
          else bootstrap_identity env db r access_token fresh_id)"

definition admin_revoke_session ::
  "lib \<Rightarrow> string option \<Rightarrow> string option \<Rightarrow> int \<Rightarrow> db \<Rightarrow> string \<Rightarrow> string \<Rightarrow> db \<times> (string \<times> string \<times> int) res" where
  "admin_revoke_session lib key_hash key now db sid org =
     (case require_admin_key lib key_hash key of
        Inl e \<Rightarrow> (db, raise e)
      | Inr _ \<Rightarrow>
          if \<not> bounded_text 128 sid \<or> \<not> bounded_text 128 org then (db, raise (HTTPException 422))
          else revoke_session now db sid org)"

end
