(* ===== verification/Reference_Properties.thy ===== *)
theory Reference_Properties
  imports Reference
begin

text \<open>
  Publications are append-only and consistent under any history of reads and publishes, raced or
  not, and the current publication of a kind is the latest effective one. The locale
  \<open>insert_relation\<close> carries what an insertion guarantees over to every operation.
\<close>

section \<open>Insertion\<close>

lemma insert_publicationE:
  assumes "insert_publication env db org request by = (db', r)"
  obtains (same) "db' = db"
  | (new) model where "db' = db\<lparr>reference_publications := reference_publications db @ [model]\<rparr>" "r = Inr model"
      "model = new_publication env org request by"
      "get_publication_row db org (rc_publication_id request) = None" "\<not> version_owner db org request"
      "check_predecessor db org request = Inr ()"
proof (cases "db' = db")
  case False
  define dates where "dates = (case rc_effective_until request of None \<Rightarrow> ok ()
    | Some until \<Rightarrow> ebind (datetime_le until (rc_effective_from request)) (\<lambda>early. guard early PublicationConflict))"
  note unf = assms [unfolded insert_publication_def, folded dates_def]
  from unf False obtain u where "dates = Inr u" by (cases dates) auto
  with unf False have row: "get_publication_row db org (rc_publication_id request) = None"
    by (cases "get_publication_row db org (rc_publication_id request)") auto
  with unf False \<open>dates = Inr u\<close> have ver: "\<not> version_owner db org request" by auto
  with unf False row \<open>dates = Inr u\<close> have pre: "check_predecessor db org request = Inr ()"
    by (cases "check_predecessor db org request") auto
  from unf row ver pre \<open>dates = Inr u\<close>
  have "db' = db\<lparr>reference_publications := reference_publications db @ [new_publication env org request by]\<rparr>"
    "r = Inr (new_publication env org request by)" by (auto simp: Let_def)
  from new [OF this refl row ver pre] show thesis .
qed (rule same)

locale insert_relation =
  fixes rel :: "db \<Rightarrow> db \<Rightarrow> bool"
  assumes rel_refl: "rel db db"
    and rel_trans: "rel db db1 \<Longrightarrow> rel db1 db2 \<Longrightarrow> rel db db2"
    and rel_new: "get_publication_row db org (rc_publication_id request) = None \<Longrightarrow> \<not> version_owner db org request \<Longrightarrow>
      check_predecessor db org request = Inr () \<Longrightarrow>
      rel db (db\<lparr>reference_publications := reference_publications db @ [new_publication env org request by]\<rparr>)"
begin

lemma rel_insert: "insert_publication env db org request by = (db', r) \<Longrightarrow> rel db db'"
  by (erule insert_publicationE) (auto intro: rel_refl rel_new)

lemma rel_requests: "seed_requests env org requests created db = (db', r) \<Longrightarrow> rel db db'"
proof (induction requests arbitrary: created db)
  case (Cons request requests)
  obtain db1 q where q: "insert_publication env db org request ''system:baseline'' = (db1, q)" by fastforce
  from Cons q rel_insert [OF q] show ?case
    by (cases q) (auto split: option.splits intro: rel_trans)
qed (simp add: rel_refl)

lemma rel_seed: "seed_baseline_publications env org db = (db', r) \<Longrightarrow> rel db db'"
  unfolding seed_baseline_publications_def by (rule rel_requests)

lemma rel_ensure_from: "ensure_from races env org n db = (db', r) \<Longrightarrow> rel db db'"
proof (induction races env org n db rule: ensure_from.induct)
  case (1 races env org n db)
  consider (done_) "BASELINE_SEED_ATTEMPTS < n" | (race) winner where "\<not> BASELINE_SEED_ATTEMPTS < n" "races n = Some winner"
    | (free) "\<not> BASELINE_SEED_ATTEMPTS < n" "races n = None" by fastforce
  then show ?case
  proof cases
    case done_
    with 1 show ?thesis by (simp add: ensure_from.simps [of races env org n db] rel_refl)
  next
    case race
    let ?d = "case seed_baseline_publications winner org db of (d, Inr _) \<Rightarrow> d | (_, Inl _) \<Rightarrow> db"
    have d: "rel db ?d" by (auto split: prod.splits sum.splits intro: rel_refl rel_seed)
    show ?thesis
    proof (cases "n = BASELINE_SEED_ATTEMPTS")
      case True
      with 1(2) [unfolded ensure_from.simps [of races env org n db]] race d show ?thesis by (simp add: Let_def)
    next
      case False
      with 1(2) race have "ensure_from races env org (n + 1) ?d = (db', r)"
        by (simp add: ensure_from.simps [of races env org n db] Let_def)
      with 1(1) [OF race refl False] d show ?thesis by (blast intro: rel_trans)
    qed
  next
    case free
    with 1(2) show ?thesis
      by (auto simp: ensure_from.simps [of races env org n db] split: prod.splits sum.splits intro: rel_refl rel_seed)
  qed
qed

lemma rel_ensure: "ensure_baseline_publications races env org db = (db', r) \<Longrightarrow> rel db db'"
  unfolding ensure_baseline_publications_def by (rule rel_ensure_from)

lemma rel_seeded: "seeded races env db p f = (db', r) \<Longrightarrow> rel db db'"
  unfolding seeded_def by (auto split: prod.splits sum.splits intro: rel_ensure)

lemma rel_publish: "publish_reference races env db p request = (db', r) \<Longrightarrow> rel db db'"
  unfolding publish_reference_def
  by (auto split: prod.splits sum.splits intro: rel_refl rel_ensure rel_trans [OF rel_ensure rel_insert])

end

section \<open>Append-only and consistent\<close>

definition extends :: "db \<Rightarrow> db \<Rightarrow> bool" where
  "extends db db' \<longleftrightarrow> (\<exists>rows. db' = db\<lparr>reference_publications := reference_publications db @ rows\<rparr>)"

interpretation append_only: insert_relation extends
proof unfold_locales
  show "extends db db" for db by (auto simp: extends_def intro: exI [of _ "[]"])
qed (auto simp: extends_def)

definition version_key :: "reference_publication \<Rightarrow> string \<times> string \<times> string" where
  "version_key r = (rp_organization_id r, rp_kind r, rp_version_id r)"

definition reference_wf :: "db \<Rightarrow> bool" where
  "reference_wf db \<longleftrightarrow> keys_ok publication_key (reference_publications db)
     \<and> keys_ok version_key (reference_publications db)
     \<and> (\<forall>r \<in> set (reference_publications db). case rp_supersedes_publication_id r of None \<Rightarrow> True
         | Some k \<Rightarrow> \<exists>q \<in> set (reference_publications db). rp_organization_id q = rp_organization_id r
             \<and> rp_publication_id q = k \<and> rp_kind q = rp_kind r)"

lemma keys_ok_snoc: "keys_ok key (rows @ [r]) \<longleftrightarrow> keys_ok key rows \<and> key r \<notin> key ` set rows"
  by (auto simp: keys_ok_def)

lemma get_row_append: "get_row key k (xs @ ys) = (case get_row key k xs of Some r \<Rightarrow> Some r | None \<Rightarrow> get_row key k ys)"
  by (induction xs) auto

lemma reference_wf_new:
  assumes wf: "reference_wf db" and row: "get_publication_row db org (rc_publication_id request) = None"
    and ver: "\<not> version_owner db org request" and pre: "check_predecessor db org request = Inr ()"
  shows "reference_wf (db\<lparr>reference_publications := reference_publications db @ [new_publication env org request by]\<rparr>)"
proof -
  let ?m = "new_publication env org request by" and ?rows = "reference_publications db"
  have "publication_key ?m \<notin> publication_key ` set ?rows"
    using row by (simp add: get_publication_row_def get_row_None publication_key_def new_publication_def)
  moreover have "version_key ?m \<notin> version_key ` set ?rows"
    using ver by (auto simp: version_owner_def list_ex_iff version_key_def new_publication_def)
  moreover have "case rp_supersedes_publication_id ?m of None \<Rightarrow> True
      | Some k \<Rightarrow> \<exists>q \<in> set (?rows @ [?m]). rp_organization_id q = rp_organization_id ?m
          \<and> rp_publication_id q = k \<and> rp_kind q = rp_kind ?m"
    using pre by (auto simp: check_predecessor_def new_publication_def get_publication_row_def publication_key_def
        split: option.splits if_splits dest!: get_row_SomeD)
  ultimately show ?thesis using wf by (fastforce simp: reference_wf_def keys_ok_snoc split: option.splits)
qed

interpretation consistent: insert_relation "\<lambda>db db'. reference_wf db \<longrightarrow> reference_wf db'"
  by unfold_locales (auto intro: reference_wf_new)

text \<open>The operations, with whatever races and environments.\<close>

inductive reference_op :: "db \<Rightarrow> db \<Rightarrow> bool" where
  publish: "publish_reference races env db p request = (db', r1) \<Longrightarrow> reference_op db db'"
| get: "get_publication races env db p k = (db', r2) \<Longrightarrow> reference_op db db'"
| list_: "list_publications races env db p kind = (db', r3) \<Longrightarrow> reference_op db db'"
| current: "current_publications races env db p moment = (db', r4) \<Longrightarrow> reference_op db db'"
| manifest: "publication_manifest races env db p = (db', r5) \<Longrightarrow> reference_op db db'"

context insert_relation
begin

lemma rel_op: "reference_op db db' \<Longrightarrow> rel db db'"
  by (induction rule: reference_op.induct)
    (auto simp: get_publication_def list_publications_def current_publications_def publication_manifest_def
      intro: rel_publish rel_seeded)

lemma rel_ops: "reference_op\<^sup>*\<^sup>* db db' \<Longrightarrow> rel db db'"
  by (induction rule: rtranclp_induct) (auto intro: rel_refl rel_trans rel_op)

end

text \<open>
  C17. Publications are immutable. Over any history of publishes and reads, including seeds that
  lose a race against a concurrent seeder, a stored publication stays what it is, publication ids
  and versions stay unique, a superseded publication exists and has the same kind, and publishing
  other content under the id is refused as a conflict, whatever its period of effect (unless its two
  instants cannot be compared, which raises \<open>TypeError\<close>), and stores nothing.
\<close>

theorem reference_publications_immutable:
  assumes "reference_op\<^sup>*\<^sup>* db db'" and "reference_wf db" and "get_publication_row db org k = Some r"
  shows "get_publication_row db' org k = Some r \<and> reference_wf db'
    \<and> (\<forall>env request by. rc_publication_id request = k \<and> publication_sha256 env request \<noteq> rp_content_sha256 r
        \<longrightarrow> insert_publication env db' org request by = (db', Inl
          (if \<exists>t. rc_effective_until request = Some t \<and> datetime_le t (rc_effective_from request) = raise TypeError
           then TypeError else PublicationConflict)))"
proof -
  from append_only.rel_ops [OF assms(1)] have "get_publication_row db' org k = Some r"
    using assms(3) by (auto simp: extends_def get_publication_row_def get_row_append)
  moreover from this have "insert_publication env db' org request by = (db', Inl
      (if \<exists>t. rc_effective_until request = Some t \<and> datetime_le t (rc_effective_from request) = raise TypeError
       then TypeError else PublicationConflict))"
    if "rc_publication_id request = k" "publication_sha256 env request \<noteq> rp_content_sha256 r" for env request "by"
    using that by (cases "rc_effective_until request")
      (auto simp: insert_publication_def datetime_le_def guard_def split: option.splits)
  ultimately show ?thesis using consistent.rel_ops [OF assms(1)] assms(2) by blast
qed

section \<open>The current publication\<close>

lemma setdefault_all_keys:
  "set (map fst (setdefault_all rows selected)) = set (map fst selected) \<union> rp_kind ` set rows
   \<and> (distinct (map fst selected) \<longrightarrow> distinct (map fst (setdefault_all rows selected)))"
proof (induction rows arbitrary: selected)
  case (Cons r rows)
  have "rp_kind r \<in> fst ` set selected" if "map_of selected (rp_kind r) \<noteq> None"
    using that by (simp add: map_of_eq_None_iff)
  with Cons show ?case by (auto simp: map_of_eq_None_iff)
qed simp

lemma setdefault_all_first:
  "map_of (setdefault_all rows selected) k =
    (case map_of selected k of Some r \<Rightarrow> Some r | None \<Rightarrow> List.find (\<lambda>r. rp_kind r = k) rows)"
proof (induction rows arbitrary: selected)
  case (Cons r rows)
  then show ?case by (auto simp: map_add_def split: option.splits)
qed (simp split: option.splits)

lemma find_sorted_least:
  assumes "sorted (map f rows)" and "List.find P rows = Some r" and "q \<in> set rows" and "P q"
  shows "f r \<le> f q"
  using assms by (induction rows) (auto split: if_splits)

definition precedence :: "reference_publication \<Rightarrow> int \<times> int" where
  "precedence r = (rp_effective_from r, rp_published_at r)"

definition effective_rows :: "db \<Rightarrow> principal \<Rightarrow> int \<Rightarrow> reference_publication set" where
  "effective_rows db p t =
     {r \<in> set (reference_publications db). rp_organization_id r = organization_id p \<and> effective_at t r}"

text \<open>
  C18. The current publication of a kind is the latest effective one. At any instant the answer has
  one entry for each kind that has an effective publication of the organization, ordered by kind,
  and it is one with the greatest effective date, and among those the greatest publication date.
\<close>

theorem current_publications_latest:
  "sorted (map rs_kind (current_publications_rows db p t)) \<and> distinct (map rs_kind (current_publications_rows db p t))
    \<and> rs_kind ` set (current_publications_rows db p t) = rp_kind ` effective_rows db p t
    \<and> (\<forall>x \<in> set (current_publications_rows db p t). \<exists>r \<in> effective_rows db p t. x = to_response r
        \<and> (\<forall>q \<in> effective_rows db p t. rp_kind q = rp_kind r \<longrightarrow> precedence q \<le> precedence r))"
proof -
  let ?key = "\<lambda>r. (rp_kind r, - rp_effective_from r, - rp_published_at r)"
  define os where "os = publication_order (filter (\<lambda>r. rp_organization_id r = organization_id p \<and> effective_at t r)
    (reference_publications db))"
  define sel where "sel = setdefault_all os []"
  have os: "set os = effective_rows db p t" "sorted (map ?key os)" by (auto simp: os_def publication_order_def effective_rows_def)
  have keys: "set (map fst sel) = rp_kind ` effective_rows db p t" "distinct (map fst sel)"
    using setdefault_all_keys [of os "[]"] os by (auto simp: sel_def)
  have res: "current_publications_rows db p t = map (\<lambda>k. to_response (the (map_of sel k))) (sort (map fst sel))"
    by (simp add: current_publications_rows_def Let_def sel_def os_def)
  have pick: "\<exists>r \<in> effective_rows db p t. map_of sel k = Some r \<and> rp_kind r = k
      \<and> (\<forall>q \<in> effective_rows db p t. rp_kind q = k \<longrightarrow> precedence q \<le> precedence r)" if "k \<in> set (map fst sel)" for k
  proof -
    from that have "\<exists>r \<in> set os. rp_kind r = k" using keys os by auto
    then obtain r where r: "List.find (\<lambda>r. rp_kind r = k) os = Some r"
      by (cases "List.find (\<lambda>r. rp_kind r = k) os") (auto simp: find_None_iff)
    then have mem: "r \<in> set os" "rp_kind r = k" by (auto simp: find_Some_iff)
    have "precedence q \<le> precedence r" if "q \<in> effective_rows db p t" "rp_kind q = k" for q
      using find_sorted_least [OF os(2) r, of q] that os mem
      by (auto simp: precedence_def less_eq_prod_def)
    with r mem os show ?thesis by (auto simp: sel_def setdefault_all_first)
  qed
  have kinds: "map rs_kind (current_publications_rows db p t) = sort (map fst sel)"
    unfolding res map_map
  proof (rule map_idI)
    fix k assume "k \<in> set (sort (map fst sel))"
    with pick [of k] show "(rs_kind \<circ> (\<lambda>k. to_response (the (map_of sel k)))) k = k" by (auto simp: to_response_def)
  qed
  have "\<exists>r \<in> effective_rows db p t. x = to_response r \<and> (\<forall>q \<in> effective_rows db p t. rp_kind q = rp_kind r \<longrightarrow> precedence q \<le> precedence r)"
    if "x \<in> set (current_publications_rows db p t)" for x
  proof -
    from that obtain k where k: "k \<in> set (map fst sel)" "x = to_response (the (map_of sel k))" by (auto simp: res)
    from pick [OF k(1)] k(2) show ?thesis by auto
  qed
  moreover have "rs_kind ` set (current_publications_rows db p t) = rp_kind ` effective_rows db p t"
    using arg_cong [OF kinds, of set] keys(1) by simp
  ultimately show ?thesis using kinds keys(2) by simp
qed

definition demo_publication :: reference_publication where
  "demo_publication = \<lparr>rp_organization_id = ''o'', rp_publication_id = ''x'', rp_kind = ''catalog'', rp_version_id = ''v'',
     rp_effective_from = 1, rp_effective_until = None, rp_supersedes_publication_id = None, rp_payload_json = JObj [],
     rp_content_sha256 = ''h'', rp_published_by_user_id = ''u'', rp_published_at = 1\<rparr>"

definition demo_reference_db :: db where
  "demo_reference_db = empty_db\<lparr>reference_publications := [demo_publication,
     demo_publication\<lparr>rp_publication_id := ''y'', rp_version_id := ''w'', rp_effective_from := 3\<rparr>]\<rparr>"

theorem reference_publications_immutable_witness:
  "\<exists>db' env r. publication_manifest (\<lambda>_. None) env demo_reference_db demo_principal = (db', r)
     \<and> get_publication_row db' ''o'' ''x'' = Some demo_publication"
proof -
  obtain env :: ref_env where True by blast
  obtain db' r where op: "publication_manifest (\<lambda>_. None) env demo_reference_db demo_principal = (db', r)" by fastforce
  have "reference_wf demo_reference_db" "get_publication_row demo_reference_db ''o'' ''x'' = Some demo_publication"
    by (simp_all add: reference_wf_def demo_reference_db_def demo_publication_def keys_ok_def version_key_def
        key_defs get_publication_row_def)
  moreover have "reference_op\<^sup>*\<^sup>* demo_reference_db db'" using reference_op.manifest [OF op] by blast
  ultimately have "get_publication_row db' ''o'' ''x'' = Some demo_publication"
    using reference_publications_immutable by blast
  with op show ?thesis by blast
qed

theorem current_publications_latest_witness:
  "rs_kind ` set (current_publications_rows demo_reference_db demo_principal 5) = {''catalog''}
   \<and> list_all (\<lambda>x. rs_effective_from x = 3) (current_publications_rows demo_reference_db demo_principal 5)"
proof -
  define a where "a = demo_publication"
  define b where "b = demo_publication\<lparr>rp_publication_id := ''y'', rp_version_id := ''w'', rp_effective_from := 3\<rparr>"
  have rows: "effective_rows demo_reference_db demo_principal 5 = {a, b}"
    by (auto simp: effective_rows_def demo_reference_db_def demo_publication_def demo_principal_def effective_at_def a_def b_def)
  have fields: "rp_kind a = ''catalog''" "rp_kind b = ''catalog''" "\<not> precedence b \<le> precedence a" "rp_effective_from b = 3"
    by (simp_all add: a_def b_def demo_publication_def precedence_def less_eq_prod_def)
  note latest = current_publications_latest [of demo_reference_db demo_principal 5, unfolded rows]
  have "rs_effective_from x = 3" if "x \<in> set (current_publications_rows demo_reference_db demo_principal 5)" for x
  proof -
    from latest that obtain r where "r = a \<or> r = b" "x = to_response r"
      "\<forall>q \<in> {a, b}. rp_kind q = rp_kind r \<longrightarrow> precedence q \<le> precedence r" by blast
    with fields show ?thesis by (auto simp: to_response_def)
  qed
  moreover from latest fields have "rs_kind ` set (current_publications_rows demo_reference_db demo_principal 5) = {''catalog''}"
    by simp
  ultimately show ?thesis by (simp add: list_all_iff)
qed

section \<open>The baselines\<close>

text \<open>
  The bundled requests satisfy the declared constraints, every compatibility rule is about an item
  type of the second catalog and requires only components it makes available, and no two entries
  or rules share an id.
\<close>

lemma baseline_requests_valid: "list_all publication_request_valid BASELINE_PUBLICATIONS"
  by (simp add: BASELINE_PUBLICATIONS_def BASELINE_CATALOG_def BASELINE_CATALOG_V2_def BASELINE_RULES_def
      BASELINE_PRICE_BOOK_def BASELINE_ENTRIES_def APPLICATION_CATALOG_ENTRIES_def BASELINE_COMPATIBILITY_RULES_def
      publication_request_valid_def payload_valid_def entry_valid_def rule_valid_def entry_def rule_def
      text_within_def PublicationKind_def ReferenceEntryKind_def)

lemma baseline_rules_consistent:
  "list_all (\<lambda>r. cr_item_type_id r \<in> set (map re_id APPLICATION_CATALOG_ENTRIES)
       \<and> list_all (\<lambda>c. c \<in> set (cr_available_components r)) (cr_required_components r)) BASELINE_COMPATIBILITY_RULES"
  "distinct (map cr_id BASELINE_COMPATIBILITY_RULES)"
  "distinct (map re_id (BASELINE_ENTRIES @ APPLICATION_CATALOG_ENTRIES))"
  by code_simp+

section \<open>Mixed offsets\<close>

text \<open>
  A window whose ends are one naive and one aware timestamp raises \<open>TypeError\<close>, which the publish
  route does not turn into a client error.
\<close>

lemma mixed_offsets_raise:
  assumes "rc_effective_until request = Some u" and "(dt_offset u = None) \<noteq> (dt_offset (rc_effective_from request) = None)"
  shows "insert_publication env db org request by = (db, Inl TypeError)"
  using assms by (auto simp: insert_publication_def datetime_le_def split: option.splits)

end
