(* ===== verification/Access_Properties.thy ===== *)
theory Access_Properties
  imports Access Reference_Properties Sync_Push_Correct
begin

text \<open>
  Sessions and pairing grants over any history of the service: what was revoked or consumed stays
  so, whatever anybody does in between.
\<close>

section \<open>What every operation keeps\<close>

text \<open>Rows are never deleted; of a session only the revocation changes, of a grant only its consumption, and once.\<close>

definition sessions_kept :: "db \<Rightarrow> db \<Rightarrow> bool" where
  "sessions_kept db db' \<longleftrightarrow> (\<forall>h s. find_session db h = Some s \<longrightarrow>
     (\<exists>t. find_session db' h = Some (s\<lparr>ses_revoked_at := t\<rparr>) \<and> (ses_revoked_at s \<noteq> None \<longrightarrow> t = ses_revoked_at s)))"

definition grants_kept :: "db \<Rightarrow> db \<Rightarrow> bool" where
  "grants_kept db db' \<longleftrightarrow> (\<forall>h g. find_grant db h = Some g \<longrightarrow>
     (\<exists>t. find_grant db' h = Some (g\<lparr>pg_consumed_at := t\<rparr>) \<and> (pg_consumed_at g \<noteq> None \<longrightarrow> t = pg_consumed_at g)))"

definition access_kept :: "db \<Rightarrow> db \<Rightarrow> bool" where
  "access_kept db db' \<longleftrightarrow> sessions_kept db db' \<and> grants_kept db db'"

definition access_wf :: "db \<Rightarrow> bool" where
  "access_wf db \<longleftrightarrow> keys_ok ses_id (auth_sessions db) \<and> keys_ok ses_access_token_hash (auth_sessions db)
     \<and> keys_ok pg_code_hash (pairing_grants db)"

lemma kept_same:
  "auth_sessions db' = auth_sessions db \<Longrightarrow> pairing_grants db' = pairing_grants db \<Longrightarrow> access_kept db db'"
  by (auto simp: access_kept_def sessions_kept_def grants_kept_def find_session_def find_grant_def)
    (metis auth_session.surjective auth_session.update_convs(8) pairing_grant.surjective pairing_grant.update_convs(8))+

lemma kept_trans: "access_kept a b \<Longrightarrow> access_kept b c \<Longrightarrow> access_kept a c"
  unfolding access_kept_def sessions_kept_def grants_kept_def by fastforce

lemma keys_unique: "keys_ok key rows \<Longrightarrow> x \<in> set rows \<Longrightarrow> y \<in> set rows \<Longrightarrow> key x = key y \<Longrightarrow> x = y"
  by (auto simp: keys_ok_def distinct_map inj_on_def)

text \<open>Storing a row by one unique column keeps the other columns' lookups.\<close>

lemma map_put_row_other:
  assumes "keys_ok k1 rows" and "x \<in> set rows" and "k1 x' = k1 x" and "k2 x' = k2 x"
  shows "map k2 (put_row k1 x' rows) = map k2 rows"
  using assms
proof (induction rows)
  case (Cons r rows)
  show ?case
  proof (cases "k1 r = k1 x'")
    case True
    with Cons.prems have "r = x" using keys_unique [OF Cons.prems(1), of r x] by simp
    with True Cons.prems show ?thesis by simp
  next
    case False
    with Cons show ?thesis by (auto simp: keys_ok_def)
  qed
qed simp

lemma get_put_row_other:
  assumes "keys_ok k1 rows" and "keys_ok k2 rows" and "x \<in> set rows" and "k1 x' = k1 x" and "k2 x' = k2 x"
  shows "get_row k2 h (put_row k1 x' rows) = (if h = k2 x then Some x' else get_row k2 h rows)"
  using assms
proof (induction rows)
  case (Cons r rows)
  have tail: "keys_ok k1 rows" "keys_ok k2 rows" using Cons.prems by (simp_all add: keys_ok_def)
  show ?case
  proof (cases "k1 r = k1 x'")
    case True
    with Cons.prems have "r = x" using keys_unique [OF Cons.prems(1), of r x] by simp
    with True Cons.prems show ?thesis by auto
  next
    case False
    with Cons.prems have x: "x \<in> set rows" by auto
    then have "k2 r \<noteq> k2 x" using Cons.prems(2) by (auto simp: keys_ok_def)
    with False x Cons.IH [OF tail x] Cons.prems show ?thesis by auto
  qed
qed simp

lemma find_session_key: "find_session db h = Some s \<Longrightarrow> ses_access_token_hash s = h \<and> s \<in> set (auth_sessions db)"
  by (auto simp: find_session_def dest: get_row_SomeD)

lemma find_grant_key: "find_grant db h = Some g \<Longrightarrow> pg_code_hash g = h \<and> g \<in> set (pairing_grants db)"
  by (auto simp: find_grant_def dest: get_row_SomeD)

definition access_ok :: "db \<Rightarrow> db \<Rightarrow> bool" where
  "access_ok db db' \<longleftrightarrow> (access_wf db \<longrightarrow> access_kept db db' \<and> access_wf db')"

lemma access_ok_same:
  "auth_sessions db' = auth_sessions db \<Longrightarrow> pairing_grants db' = pairing_grants db \<Longrightarrow> access_ok db db'"
  by (simp add: access_ok_def kept_same) (simp add: access_wf_def)

lemma access_ok_trans: "access_ok a b \<Longrightarrow> access_ok b c \<Longrightarrow> access_ok a c"
  by (auto simp: access_ok_def intro: kept_trans)

lemma same_session: "s\<lparr>ses_revoked_at := ses_revoked_at s\<rparr> = (s :: auth_session)"
  by simp

lemma ex_same_session [simp]:
  "\<exists>t. s = s\<lparr>ses_revoked_at := t\<rparr> \<and> ((\<exists>y. ses_revoked_at s = Some y) \<longrightarrow> t = ses_revoked_at (s :: auth_session))"
  by (rule exI [of _ "ses_revoked_at s"]) simp

lemma ex_same_grant [simp]:
  "\<exists>t. g = g\<lparr>pg_consumed_at := t\<rparr> \<and> ((\<exists>y. pg_consumed_at g = Some y) \<longrightarrow> t = pg_consumed_at (g :: pairing_grant))"
  by (rule exI [of _ "pg_consumed_at g"]) simp

lemma same_grant: "g\<lparr>pg_consumed_at := pg_consumed_at g\<rparr> = (g :: pairing_grant)"
  by simp

lemma revoke_row_ok: "get_session db sid = Some s \<Longrightarrow> access_ok db (revoke_row db now s)"
proof (cases "ses_revoked_at s")
  case None
  assume "get_session db sid = Some s"
  then have s: "s \<in> set (auth_sessions db)" by (auto simp: get_session_def dest: get_row_SomeD)
  let ?s = "s\<lparr>ses_revoked_at := Some now\<rparr>"
  show ?thesis unfolding access_ok_def
  proof
    assume wf: "access_wf db"
    then have k: "keys_ok ses_id (auth_sessions db)" "keys_ok ses_access_token_hash (auth_sessions db)"
      by (simp_all add: access_wf_def)
    have find: "find_session (revoke_row db now s) h = (if h = ses_access_token_hash s then Some ?s else find_session db h)" for h
      using get_put_row_other [OF k s, of ?s] None by (simp add: revoke_row_def find_session_def)
    have mine: "find_session db (ses_access_token_hash s) = Some s"
      using get_row_mem [OF k(2) s] by (simp add: find_session_def)
    have "sessions_kept db (revoke_row db now s)"
      unfolding sessions_kept_def find using mine None same_session by (metis option.inject)
    moreover have "grants_kept db (revoke_row db now s)"
      using None by (auto simp: grants_kept_def revoke_row_def find_grant_def)
    moreover have "access_wf (revoke_row db now s)"
      using wf None map_put_row_other [OF k(1) s, of ?s ses_id] map_put_row_other [OF k(1) s, of ?s ses_access_token_hash]
      by (simp add: access_wf_def revoke_row_def keys_ok_def)
    ultimately show "access_kept db (revoke_row db now s) \<and> access_wf (revoke_row db now s)"
      by (simp add: access_kept_def)
  qed
qed (simp add: revoke_row_def access_ok_same)

lemma add_session_ok:
  assumes "add_session db s = Inr db'"
  shows "access_ok db db' \<and> (access_wf db \<longrightarrow> find_session db' (ses_access_token_hash s) = Some s)"
proof -
  from assms have db': "db' = db\<lparr>auth_sessions := auth_sessions db @ [s]\<rparr>"
    and new: "\<forall>x \<in> set (auth_sessions db). ses_id x \<noteq> ses_id s \<and> ses_access_token_hash x \<noteq> ses_access_token_hash s"
    by (auto simp: add_session_def list_ex_iff split: if_splits)
  have none: "get_row ses_access_token_hash (ses_access_token_hash s) (auth_sessions db) = None"
    using new by (auto simp: get_row_None)
  have "sessions_kept db db'" "grants_kept db db'"
    unfolding db' sessions_kept_def grants_kept_def find_session_def find_grant_def
    by (auto simp: get_row_append)
  moreover have "access_wf db'" if "access_wf db"
    using that new by (auto simp: db' access_wf_def keys_ok_snoc)
  ultimately show ?thesis using none by (auto simp: access_ok_def access_kept_def db' find_session_def get_row_append)
qed

lemma consume_ok:
  assumes "find_grant db h = Some g" and "pg_consumed_at g = None"
  shows "access_ok db (db\<lparr>pairing_grants := put_row pg_code_hash (g\<lparr>pg_consumed_at := Some now\<rparr>) (pairing_grants db)\<rparr>)"
proof -
  let ?g = "g\<lparr>pg_consumed_at := Some now\<rparr>"
  let ?db = "db\<lparr>pairing_grants := put_row pg_code_hash ?g (pairing_grants db)\<rparr>"
  have h: "pg_code_hash g = h" using find_grant_key [OF assms(1)] by simp
  have find: "find_grant ?db k = (if k = h then Some ?g else find_grant db k)" for k
    by (simp add: find_grant_def get_row_put_row h)
  have "grants_kept db ?db"
    unfolding grants_kept_def find using assms same_grant by (metis option.inject)
  moreover have "sessions_kept db ?db"
    by (auto simp: sessions_kept_def find_session_def)
  ultimately show ?thesis by (auto simp: access_ok_def access_kept_def access_wf_def intro: keys_ok_put_row)
qed

lemma exchangeE:
  assumes "exchange_pairing_code lib now db code tok sid = (db', r)"
  obtains (refused) e where "db' = db" "r = Inl e"
  | (granted) g m where "find_grant db (token_hash lib (normalized_code code)) = Some g" "pg_consumed_at g = None"
      "now < pg_expires_at g" "16 \<le> length (normalized_code code)"
      "get_membership db (pg_membership_id g) = Some m" "mem_active m" "mem_organization_id m = pg_organization_id g"
      "mem_user_id m = pg_user_id g"
      "add_session (db\<lparr>pairing_grants := put_row pg_code_hash (g\<lparr>pg_consumed_at := Some now\<rparr>) (pairing_grants db)\<rparr>)
         (grant_session lib now g tok sid) = Inr db'"
      "r = Inr (tok, now + timedelta_seconds (pg_session_ttl_seconds g))"
proof (cases r)
  case (Inl e)
  with assms refused show thesis
    unfolding exchange_pairing_code_def Let_def by (auto split: if_splits option.splits sum.splits)
next
  case (Inr x)
  with assms granted show thesis
    unfolding exchange_pairing_code_def Let_def
    by (auto split: if_splits option.splits sum.splits simp: grant_session_def)
qed

lemma exchange_ok:
  assumes "exchange_pairing_code lib now db code tok sid = (db', r)"
  shows "access_ok db db'"
  using assms
proof (cases rule: exchangeE)
  case (granted g m)
  from consume_ok [OF granted(1,2), of now] add_session_ok [OF granted(9)] show ?thesis by (blast intro: access_ok_trans)
qed (simp add: access_ok_same)

section \<open>Histories\<close>

definition same_access_rows :: "db \<Rightarrow> db \<Rightarrow> bool" where
  "same_access_rows db db' \<longleftrightarrow> auth_sessions db' = auth_sessions db \<and> pairing_grants db' = pairing_grants db"

lemma own_steps_access: "own_steps p db db' \<Longrightarrow> same_access_rows db db'"
  unfolding own_steps_def
proof (induction rule: rtranclp_induct)
  case (step y z)
  from step.hyps(2) have "same_access_rows y z" by cases (simp_all add: same_access_rows_def)
  with step.IH show ?case by (simp add: same_access_rows_def)
qed (simp add: same_access_rows_def)

interpretation access_rows: push_relation "\<lambda>_. same_access_rows"
proof unfold_locales
  show "same_access_rows db db'" if "authorize_and_own env db p scope rec current payload = (db', scope', q)"
    for env db p scope rec current payload db' scope' q
    using that by (rule own_steps_access [OF authorize_and_own_steps])
qed (auto simp: same_access_rows_def queue_evidence_gc_def queue_blob_gc_def Let_def record_mutation_def rollback_def
    commit_record_def append_change_def split: option.splits)

text \<open>Everything the service does to the database, but for uploads and the collector, which touch neither table.\<close>

inductive service_step :: "db \<Rightarrow> db \<Rightarrow> bool" where
  pair: "auth_pair lib now db code tok sid = (db', r1) \<Longrightarrow> service_step db db'"
| grant: "admin_pairing_grant lib kh key now db request code gid = (db', r2) \<Longrightarrow> service_step db db'"
| logout: "logout_route lib now db credentials = (db', r3) \<Longrightarrow> service_step db db'"
| revoke: "admin_revoke_session lib kh key now db sid org = (db', r4) \<Longrightarrow> service_step db db'"
| bootstrap: "admin_bootstrap kh key env db request' tok sid = (db', r5) \<Longrightarrow> service_step db db'"
| reference: "reference_op db db' \<Longrightarrow> service_step db db'"
| push: "apply_push abort penv db p batch = (db', retried, r6) \<Longrightarrow> service_step db db'"

lemma bootstrap_ok:
  assumes "bootstrap_identity env db r tok sid = (db', q)"
  shows "access_ok db db'"
proof (cases "db' = db")
  case False
  let ?s = "bootstrap_session env r tok sid"
  from assms False obtain db2 u where add: "add_session (store_identity db r) ?s = Inr db2"
    and ens: "ensure_baseline_publications (\<lambda>_. None) env (ab_organization_id r) db2 = (db', Inr u)"
    unfolding bootstrap_identity_def Let_def
    by (auto split: sum.splits if_splits prod.splits)
  have "access_ok db (store_identity db r)" by (rule access_ok_same) (simp_all add: store_identity_def Let_def)
  moreover have "access_ok db2 db'"
    using append_only.rel_ensure [OF ens] by (intro access_ok_same) (auto simp: extends_def)
  ultimately show ?thesis using add_session_ok [OF add] by (blast intro: access_ok_trans)
qed (simp add: access_ok_same)

lemma issue_ok:
  assumes "issue_pairing_grant lib now db request code gid = (db', r)"
  shows "access_ok db db'"
proof (cases "db' = db")
  case False
  with assms obtain g where db': "db' = db\<lparr>pairing_grants := pairing_grants db @ [g]\<rparr>"
    and new: "pg_code_hash g \<notin> pg_code_hash ` set (pairing_grants db)"
    unfolding issue_pairing_grant_def Let_def by (fastforce simp: list_ex_iff split: option.splits if_splits)
  then have "sessions_kept db db'" "grants_kept db db'"
    unfolding db' sessions_kept_def grants_kept_def find_session_def find_grant_def by (auto simp: get_row_append)
  with new show ?thesis by (auto simp: access_ok_def access_kept_def access_wf_def db' keys_ok_snoc)
qed (simp add: access_ok_same)

lemma service_step_ok: "service_step db db' \<Longrightarrow> access_ok db db'"
proof (induction rule: service_step.induct)
  case (pair lib now db code tok sid db' r1)
  then show ?case by (auto simp: auth_pair_def split: if_splits intro: access_ok_same exchange_ok)
next
  case (grant lib kh key now db request code gid db' r2)
  then show ?case by (auto simp: admin_pairing_grant_def split: sum.splits if_splits intro: access_ok_same issue_ok)
next
  case (logout lib now db credentials db' r3)
  then show ?case
    by (auto simp: logout_route_def auth_logout_def split: sum.splits option.splits intro: access_ok_same revoke_row_ok)
next
  case (revoke lib kh key now db sid org db' r4)
  then show ?case
    by (auto simp: admin_revoke_session_def revoke_session_def split: sum.splits option.splits if_splits
        intro: access_ok_same revoke_row_ok)
next
  case (bootstrap kh key env db request' tok sid db' r5)
  then show ?case by (auto simp: admin_bootstrap_def split: sum.splits if_splits intro: access_ok_same bootstrap_ok)
next
  case (reference db db')
  from append_only.rel_op [OF reference] show ?case by (intro access_ok_same) (auto simp: extends_def)
next
  case (push abort penv db p batch db' retried r6)
  from access_rows.rel_push [OF push] show ?case by (intro access_ok_same) (auto simp: same_access_rows_def)
qed

lemma service_steps_ok: "service_step\<^sup>*\<^sup>* db db' \<Longrightarrow> access_ok db db'"
  by (induction rule: rtranclp_induct) (auto intro: access_ok_same access_ok_trans service_step_ok)

text \<open>
  C16. Revocation is final. Once the session of a token is revoked, by its owner or by an
  administrator, or its expiry has passed, the token authenticates nobody again, at any later
  state of the service and whatever anybody did in between.
\<close>

theorem revocation_is_final:
  assumes "service_step\<^sup>*\<^sup>* db db'" and "access_wf db" and "find_session db (token_hash lib token) = Some s"
    and "ses_revoked_at s \<noteq> None \<or> ses_expires_at s \<le> now"
  shows "current_principal lib now db' (Some (scheme, token)) = Inl (HTTPException 401)"
proof -
  from service_steps_ok [OF assms(1)] assms(2,3) obtain t where
    "find_session db' (token_hash lib token) = Some (s\<lparr>ses_revoked_at := t\<rparr>)" "ses_revoked_at s \<noteq> None \<longrightarrow> t = ses_revoked_at s"
    unfolding access_ok_def access_kept_def sessions_kept_def by blast
  with assms(4) show ?thesis by (auto simp: current_principal_def unauthorized_def)
qed

text \<open>
  C15. A pairing code mints one session. A successful exchange found an unconsumed, unexpired grant
  whose membership is active and belongs to the grant's user and organization; it creates one
  session for exactly that membership, with the grant's lifetime; and no later exchange of the
  same code, padded or not, at any later state of the service, yields anything but a 401.
\<close>

theorem pairing_code_single_use:
  assumes "exchange_pairing_code lib now db code tok sid = (db1, Inr answer)" and "access_wf db"
    and "service_step\<^sup>*\<^sup>* db1 db2" and "normalized_code code' = normalized_code code"
  shows "exchange_pairing_code lib now' db2 code' tok' sid' = (db2, Inl (HTTPException 401))
    \<and> (\<exists>g m. find_grant db (token_hash lib (normalized_code code)) = Some g \<and> pg_consumed_at g = None \<and> now < pg_expires_at g
        \<and> get_membership db (pg_membership_id g) = Some m \<and> mem_active m \<and> mem_organization_id m = pg_organization_id g
        \<and> mem_user_id m = pg_user_id g \<and> auth_sessions db1 = auth_sessions db @ [grant_session lib now g tok sid])"
  using assms(1)
proof (cases rule: exchangeE)
  case (granted g m)
  let ?h = "token_hash lib (normalized_code code)"
  from granted(9) have db1: "auth_sessions db1 = auth_sessions db @ [grant_session lib now g tok sid]"
    "pairing_grants db1 = put_row pg_code_hash (g\<lparr>pg_consumed_at := Some now\<rparr>) (pairing_grants db)"
    by (auto simp: add_session_def split: if_splits)
  have "find_grant db1 ?h = Some (g\<lparr>pg_consumed_at := Some now\<rparr>)"
    using find_grant_key [OF granted(1)] by (simp add: find_grant_def db1 get_row_put_row)
  moreover have "access_wf db1" using exchange_ok [OF assms(1)] assms(2) by (simp add: access_ok_def)
  ultimately obtain g' where "find_grant db2 ?h = Some g'" "pg_consumed_at g' = Some now"
    using service_steps_ok [OF assms(3)] unfolding access_ok_def access_kept_def grants_kept_def by fastforce
  then have "exchange_pairing_code lib now' db2 code' tok' sid' = (db2, Inl (HTTPException 401))"
    using assms(4) granted(4) by (simp add: exchange_pairing_code_def Let_def unauthorized_def)
  with granted db1 show ?thesis by blast
qed simp

section \<open>Samples\<close>

definition demo_session :: auth_session where
  "demo_session = \<lparr>ses_id = ''s'', ses_organization_id = ''o'', ses_membership_id = ''m'', ses_user_id = ''u'',
     ses_access_token_hash = ''t'', ses_issued_at = 0, ses_expires_at = 100, ses_revoked_at = Some 3\<rparr>"

definition demo_code :: string where
  "demo_code = ''abcdefghijklmnop''"

definition demo_grant :: pairing_grant where
  "demo_grant = \<lparr>pg_id = ''g'', pg_organization_id = ''o'', pg_membership_id = ''m'', pg_user_id = ''u'',
     pg_code_hash = demo_code, pg_expires_at = 100, pg_session_ttl_seconds = 300, pg_consumed_at = None\<rparr>"

definition demo_access_db :: db where
  "demo_access_db = empty_db\<lparr>
     organizations := [\<lparr>org_id = ''o'', org_name = ''Org'', org_authorization_revision = 3\<rparr>],
     memberships := [\<lparr>mem_id = ''m'', mem_organization_id = ''o'', mem_user_id = ''u'', mem_active = True,
       mem_all_customers = True, mem_all_projects = True, mem_customer_ids = [], mem_project_ids = [],
       mem_roles = [], mem_capabilities = []\<rparr>],
     auth_sessions := [demo_session], pairing_grants := [demo_grant]\<rparr>"

lemma demo_access_wf: "access_wf demo_access_db"
  by (simp add: access_wf_def demo_access_db_def keys_ok_def)

lemma demo_code_hash: "token_hash demo_hash_lib (normalized_code demo_code) = demo_code" "length (normalized_code demo_code) = 16"
  by code_simp+

theorem revocation_is_final_witness:
  "\<exists>db' r. logout_route demo_hash_lib 5 demo_access_db (Some (''Bearer'', ''t'')) = (db', r)
     \<and> current_principal demo_hash_lib 5 db' (Some (''Bearer'', ''t'')) = Inl (HTTPException 401)"
proof -
  obtain db' r where out: "logout_route demo_hash_lib 5 demo_access_db (Some (''Bearer'', ''t'')) = (db', r)" by fastforce
  have "token_hash demo_hash_lib ''t'' = ''t''" by code_simp
  then have "find_session demo_access_db (token_hash demo_hash_lib ''t'') = Some demo_session"
    by (simp add: find_session_def demo_access_db_def demo_session_def)
  moreover have "service_step\<^sup>*\<^sup>* demo_access_db db'" using service_step.logout [OF out] by blast
  moreover have "ses_revoked_at demo_session \<noteq> None" by (simp add: demo_session_def)
  ultimately show ?thesis using out revocation_is_final demo_access_wf by blast
qed

theorem pairing_code_single_use_witness:
  "\<exists>db1 answer. exchange_pairing_code demo_hash_lib 5 demo_access_db demo_code ''token'' ''s2'' = (db1, Inr answer)
     \<and> exchange_pairing_code demo_hash_lib 6 db1 demo_code ''other'' ''s3'' = (db1, Inl (HTTPException 401))"
proof -
  have t: "token_hash demo_hash_lib ''token'' = ''token''" by code_simp
  have "\<exists>db1 answer. exchange_pairing_code demo_hash_lib 5 demo_access_db demo_code ''token'' ''s2'' = (db1, Inr answer)"
    by (simp add: exchange_pairing_code_def Let_def demo_code_hash find_grant_def demo_access_db_def demo_grant_def
        get_membership_def grant_session_def add_session_def demo_session_def t)
  then obtain db1 answer where ex: "exchange_pairing_code demo_hash_lib 5 demo_access_db demo_code ''token'' ''s2''
      = (db1, Inr answer)" by blast
  from pairing_code_single_use [OF ex demo_access_wf rtranclp.rtrancl_refl refl] ex show ?thesis by blast
qed

end
