(* ===== verification/Py_Number.thy ===== *)
theory Py_Number
  imports Py_Text Py_Float
begin

text \<open>
  \<open>int(text)\<close> and \<open>float(text)\<close> as the configuration of the service reads them, \<open>int\<close> of the bytes
  of a header, and the order of the floats: rounding to nearest is monotone, so that later instants
  have later cutoffs in a window of a fixed length.
\<close>

section \<open>Numerals\<close>

text \<open>
  White space around a numeral: tab to carriage return and space; in a text also the next line
  (133) and the no-break space (160), which the conversion replaces by a space first. The
  separators 28 to 31, white space for \<open>str.strip\<close>, are not skipped.
\<close>

definition c_isspace :: "char \<Rightarrow> bool" where
  "c_isspace c \<longleftrightarrow> (let n = of_char c :: nat in 9 \<le> n \<and> n \<le> 13 \<or> n = 32)"

definition num_isspace :: "char \<Rightarrow> bool" where
  "num_isspace c \<longleftrightarrow> c_isspace c \<or> (of_char c :: nat) = 133 \<or> (of_char c :: nat) = 160"

definition trim :: "(char \<Rightarrow> bool) \<Rightarrow> string \<Rightarrow> string" where
  "trim P s = rev (dropWhile P (rev (dropWhile P s)))"

text \<open>Underscores are allowed between two digits only; the first argument tells whether the
  previous character was a digit.\<close>

fun drop_underscores :: "bool \<Rightarrow> string \<Rightarrow> string option" where
  "drop_underscores d [] = Some []"
| "drop_underscores d (c # cs) =
     (if c = CHR ''_'' then
        (if d \<and> cs \<noteq> [] \<and> ascii_digit (hd cs) then drop_underscores False cs else None)
      else map_option ((#) c) (drop_underscores (ascii_digit c) cs))"

definition split_sign :: "string \<Rightarrow> bool \<times> string" where
  "split_sign s = (case s of
     c # cs \<Rightarrow> if c = CHR ''-'' then (True, cs) else if c = CHR ''+'' then (False, cs) else (False, s)
   | [] \<Rightarrow> (False, s))"

text \<open>\<open>int(text)\<close> after the white space is gone; \<open>None\<close> is the \<open>ValueError\<close>, raised for more than
  4300 digits too.\<close>

definition int_body :: "string \<Rightarrow> int option" where
  "int_body s = (let (neg, b) = split_sign s in
     case drop_underscores False b of
       None \<Rightarrow> None
     | Some ds \<Rightarrow> if ds = [] \<or> \<not> list_all ascii_digit ds \<or> 4300 < length ds then None
         else Some (if neg then - int (parse_nat ds) else int (parse_nat ds)))"

definition py_int :: "string \<Rightarrow> int option" where
  "py_int s = int_body (trim num_isspace s)"

definition py_int_bytes :: "string \<Rightarrow> int option" where
  "py_int_bytes s = int_body (trim c_isspace s)"

definition ascii_lower :: "char \<Rightarrow> char" where
  "ascii_lower c = (if 65 \<le> (of_char c :: nat) \<and> (of_char c :: nat) \<le> 90 then char_of ((of_char c :: nat) + 32) else c)"

definition pow10 :: "int \<Rightarrow> rat" where
  "pow10 k = (if 0 \<le> k then of_int (10 ^ nat k) else 1 / of_int (10 ^ nat (- k)))"

text \<open>The exponent of a decimal literal: absent, or \<open>e\<close>, a sign and digits up to the end.\<close>

definition exponent_of :: "string \<Rightarrow> int option" where
  "exponent_of s = (case s of
     [] \<Rightarrow> Some 0
   | c # cs \<Rightarrow> if ascii_lower c \<noteq> CHR ''e'' then None
       else let (neg, ds) = split_sign cs in
         if ds = [] \<or> \<not> list_all ascii_digit ds then None
         else Some (if neg then - int (parse_nat ds) else int (parse_nat ds)))"

definition decimal_value :: "string \<Rightarrow> rat option" where
  "decimal_value s = (let a = takeWhile ascii_digit s; r = dropWhile ascii_digit s;
       (f, r') = (case r of c # cs \<Rightarrow> if c = CHR ''.'' then (takeWhile ascii_digit cs, dropWhile ascii_digit cs) else ([], r)
                  | [] \<Rightarrow> ([], r))
     in if a @ f = [] then None
        else map_option (\<lambda>e. of_int (int (parse_nat (a @ f))) * pow10 (e - int (length f))) (exponent_of r'))"

definition py_float :: "string \<Rightarrow> fl option" where
  "py_float s = (case drop_underscores False (trim num_isspace s) of
     None \<Rightarrow> None
   | Some t \<Rightarrow> let (neg, b) = split_sign t; w = map ascii_lower b in
       if w = ''inf'' \<or> w = ''infinity'' then Some (FInf neg)
       else if w = ''nan'' then Some FNaN
       else map_option (\<lambda>q. fl_round (if neg then - q else q)) (decimal_value b))"

text \<open>The value read from text is the number the text shows, for the numerals \<open>str\<close> prints.\<close>

lemma drop_underscores_digits: "list_all ascii_digit s \<Longrightarrow> drop_underscores d s = Some s"
proof (induction s arbitrary: d)
  case (Cons c s)
  moreover from Cons have "c \<noteq> CHR ''_''" by (auto simp: ascii_digit_def)
  ultimately show ?case by simp
qed simp

lemma split_sign_digits: "list_all ascii_digit s \<Longrightarrow> split_sign s = (False, s)"
  by (cases s) (auto simp: split_sign_def ascii_digit_def)

lemma trim_id: "list_all (\<lambda>c. \<not> P c) s \<Longrightarrow> trim P s = s"
proof -
  assume a: "list_all (\<lambda>c. \<not> P c) s"
  then have "dropWhile P s = s" by (cases s) auto
  moreover from a have "list_all (\<lambda>c. \<not> P c) (rev s)" by (simp add: list_all_iff)
  then have "dropWhile P (rev s) = rev s" by (cases "rev s") auto
  ultimately show ?thesis by (simp add: trim_def)
qed

lemma digit_not_space: "ascii_digit c \<Longrightarrow> \<not> num_isspace c \<and> \<not> c_isspace c"
  by (auto simp: ascii_digit_def num_isspace_def c_isspace_def Let_def)

lemma int_body_show: "length (show_nat n) \<le> 4300 \<Longrightarrow> int_body (show_nat n) = Some (int n)"
  using show_nat_digits [of n] by (simp add: int_body_def split_sign_digits drop_underscores_digits)

lemma py_int_show: "length (show_nat n) \<le> 4300 \<Longrightarrow> py_int (show_nat n) = Some (int n)"
proof -
  assume n: "length (show_nat n) \<le> 4300"
  have "list_all (\<lambda>c. \<not> num_isspace c) (show_nat n)"
    using show_nat_digits [of n] by (auto simp: list_all_iff dest: digit_not_space)
  with n show ?thesis by (simp add: py_int_def trim_id int_body_show)
qed

lemma py_int_bytes_show: "length (show_nat n) \<le> 4300 \<Longrightarrow> py_int_bytes (show_nat n) = Some (int n)"
proof -
  assume n: "length (show_nat n) \<le> 4300"
  have "list_all (\<lambda>c. \<not> c_isspace c) (show_nat n)"
    using show_nat_digits [of n] by (auto simp: list_all_iff dest: digit_not_space)
  with n show ?thesis by (simp add: py_int_bytes_def trim_id int_body_show)
qed

section \<open>The order of the floats\<close>

definition fl_le :: "fl \<Rightarrow> fl \<Rightarrow> bool" where
  "fl_le a b \<longleftrightarrow> fl_less a b \<or> fl_eq a b"

definition is_finite :: "fl \<Rightarrow> bool" where
  "is_finite a \<longleftrightarrow> (case a of Fl _ \<Rightarrow> True | _ \<Rightarrow> False)"

lemma fl_le_trans: "fl_le a b \<Longrightarrow> fl_le b c \<Longrightarrow> fl_le a c"
  by (cases a; cases b; cases c) (auto simp: fl_le_def)

lemma fl_le_refl: "a \<noteq> FNaN \<Longrightarrow> fl_le a a"
  by (cases a) (auto simp: fl_le_def)

lemma fl_le_linear: "a \<noteq> FNaN \<Longrightarrow> b \<noteq> FNaN \<Longrightarrow> fl_le a b \<or> fl_le b a"
  by (cases a; cases b) (auto simp: fl_le_def)

lemma fl_le_Fl [simp]: "fl_le (Fl a) (Fl b) \<longleftrightarrow> a \<le> b"
  by (auto simp: fl_le_def)

lemma fl_le_inf [simp]: "fl_le (FInf True) (Fl b)" "fl_le (Fl b) (FInf False)" "fl_le (FInf True) (FInf s)" "fl_le (FInf s) (FInf False)"
  by (auto simp: fl_le_def)

lemma round_even_mono: "x \<le> y \<Longrightarrow> round_even x \<le> round_even y"
proof (rule ccontr)
  assume xy: "x \<le> y" and "\<not> round_even x \<le> round_even y"
  then have "round_even y + 1 \<le> round_even x" by simp
  then have "(of_int (round_even y) :: rat) + 1 \<le> of_int (round_even x)"
    by (metis of_int_1 of_int_add of_int_le_iff)
  with round_even_error [of x] round_even_error [of y] xy have "x = y" by linarith
  with \<open>\<not> round_even x \<le> round_even y\<close> show False by simp
qed

lemma round_even_of_int [simp]: "round_even (of_int n) = n"
  by (simp add: round_even_def)

lemma quotient_less:
  assumes "(a::nat) < 2 ^ i" "2 ^ j \<le> (b::nat)"
  shows "of_nat a / of_nat b < pow2 (int i - int j)"
proof -
  have "(of_nat a :: rat) < 2 ^ i" using assms(1) by (metis of_nat_less_iff of_nat_numeral of_nat_power)
  moreover have "(2::rat) ^ j \<le> of_nat b" using assms(2) by (metis of_nat_le_iff of_nat_numeral of_nat_power)
  ultimately have "of_nat a / of_nat b < (2::rat) ^ i / 2 ^ j"
    by (intro frac_less) simp_all
  then show ?thesis by (simp add: pow2_powi power_int_diff)
qed

lemma pow2_add_one: "pow2 (k + 1) = 2 * pow2 k"
  by (simp add: pow2_powi power_int_add_1)

lemma ilog2_less:
  assumes "0 < q"
  shows "q < pow2 (ilog2 q + 1)"
proof -
  obtain a b where ab: "quotient_of q = (a, b)" by fastforce
  then have b: "0 < b" and q: "q = of_int a / of_int b"
    using quotient_of_denom_pos quotient_of_div by blast+
  with assms have a: "0 < a" by (simp add: zero_less_divide_iff)
  define i where "i = floorlog 2 (nat a)"
  define j where "j = floorlog 2 (nat b)"
  have "nat a < 2 ^ i" unfolding i_def using floorlog_bounds [of "nat a" 2] a by simp
  moreover have "2 ^ (j - 1) \<le> nat b" unfolding j_def using floorlog_bounds [of "nat b" 2] b by simp
  ultimately have "of_nat (nat a) / of_nat (nat b) < pow2 (int i - int (j - 1))" by (rule quotient_less)
  moreover have "int i - int (j - 1) = int i - int j + 1" using b by (simp add: j_def floorlog_def)
  ultimately have "of_nat (nat a) / of_nat (nat b) < pow2 (int i - int j + 1)" by (simp only:)
  then have "q < pow2 (int i - int j + 1)" using a b q by simp
  moreover have "int i = bitlen a" "int j = bitlen b"
    by (simp_all add: i_def j_def bitlen_def)
  ultimately show ?thesis by (simp add: ilog2_def ab Let_def)
qed

lemma pow2_strict: "pow2 j < pow2 k \<Longrightarrow> j < k"
  by (meson leD linorder_le_less_linear pow2_mono)

lemma pow2_le: "pow2 j \<le> pow2 k \<Longrightarrow> j \<le> k"
proof (rule ccontr)
  assume le: "pow2 j \<le> pow2 k" and "\<not> j \<le> k"
  then have "pow2 (k + 1) \<le> pow2 j" by (intro pow2_mono) simp
  with le pow2_pos [of k] show False unfolding pow2_add_one by linarith
qed

lemma ilog2_mono: "0 < q \<Longrightarrow> q \<le> r \<Longrightarrow> ilog2 q \<le> ilog2 r"
  using ilog2_le [of q] ilog2_less [of r] pow2_strict [of "ilog2 q" "ilog2 r + 1"] by auto

text \<open>The magnitude a positive number rounds to, before overflow is tested.\<close>

definition fl_scale :: "rat \<Rightarrow> int" where
  "fl_scale q = max (ilog2 q - 52) (- 1074)"

definition fl_mag :: "rat \<Rightarrow> int" where
  "fl_mag q = round_even (q / pow2 (fl_scale q))"

lemma fl_scale_mono: "0 < q \<Longrightarrow> q \<le> r \<Longrightarrow> fl_scale q \<le> fl_scale r"
  using ilog2_mono [of q r] by (auto simp: fl_scale_def)

lemma pow2_add: "pow2 (j + k) = pow2 j * pow2 k"
  by (simp add: pow2_powi power_int_add)

lemma fl_mag_le: "0 < q \<Longrightarrow> fl_mag q \<le> 2 ^ 53"
proof -
  assume q: "0 < q"
  have "q \<le> pow2 (ilog2 q + 1)" using ilog2_less [OF q] by simp
  also have "\<dots> \<le> pow2 (53 + fl_scale q)" by (rule pow2_mono) (simp add: fl_scale_def)
  finally have "q / pow2 (fl_scale q) \<le> pow2 53" by (simp add: pow2_add divide_le_eq)
  then have "q / pow2 (fl_scale q) \<le> of_int (2 ^ 53)" by (simp add: pow2_def)
  from round_even_mono [OF this] show ?thesis unfolding fl_mag_def round_even_of_int .
qed

lemma fl_mag_ge:
  assumes "0 < q" "- 1074 < fl_scale q"
  shows "2 ^ 52 \<le> fl_mag q"
proof -
  from assms have "fl_scale q = ilog2 q - 52" by (simp add: fl_scale_def)
  then have "52 + fl_scale q = ilog2 q" by simp
  with ilog2_le [OF assms(1)] have "pow2 (52 + fl_scale q) \<le> q" by simp
  then have "pow2 52 \<le> q / pow2 (fl_scale q)" by (simp add: pow2_add le_divide_eq)
  then have "of_int (2 ^ 52) \<le> q / pow2 (fl_scale q)" by (simp add: pow2_def)
  from round_even_mono [OF this] show ?thesis unfolding fl_mag_def round_even_of_int .
qed

lemma fl_value_mono:
  assumes "0 < q" "q \<le> r"
  shows "of_int (fl_mag q) * pow2 (fl_scale q) \<le> of_int (fl_mag r) * pow2 (fl_scale r)"
proof (cases "fl_scale q = fl_scale r")
  case True
  have "q / pow2 (fl_scale r) \<le> r / pow2 (fl_scale r)" using assms by (intro divide_right_mono) (simp_all add: less_imp_le)
  then have "fl_mag q \<le> fl_mag r" unfolding fl_mag_def True by (rule round_even_mono)
  then show ?thesis unfolding True by (intro mult_right_mono) (simp_all add: less_imp_le)
next
  case False
  with fl_scale_mono [OF assms] have lt: "fl_scale q + 1 \<le> fl_scale r" by simp
  moreover have "- 1074 \<le> fl_scale q" by (simp add: fl_scale_def)
  ultimately have big: "- 1074 < fl_scale r" by linarith
  have "(of_int (fl_mag q) :: rat) \<le> of_int (2 ^ 53)" using fl_mag_le [OF assms(1)] by (simp only: of_int_le_iff)
  then have "of_int (fl_mag q) * pow2 (fl_scale q) \<le> of_int (2 ^ 53) * pow2 (fl_scale q)"
    by (intro mult_right_mono) (simp_all add: less_imp_le)
  also have "\<dots> = of_int (2 ^ 52) * pow2 (fl_scale q + 1)" by (simp add: pow2_add_one)
  also have "\<dots> \<le> of_int (2 ^ 52) * pow2 (fl_scale r)" by (intro mult_left_mono pow2_mono lt) simp
  also have "\<dots> \<le> of_int (fl_mag r) * pow2 (fl_scale r)"
    using fl_mag_ge [OF _ big] assms by (intro mult_right_mono) (simp_all add: less_imp_le)
  finally show ?thesis .
qed

definition fl_over :: "rat \<Rightarrow> bool" where
  "fl_over q \<longleftrightarrow> 971 < fl_scale q \<or> fl_scale q = 971 \<and> fl_mag q = 2 ^ 53"

lemma fl_over_mono:
  assumes "0 < q" "q \<le> r" "fl_over q"
  shows "fl_over r"
proof (cases "fl_scale r = 971")
  case True
  with fl_scale_mono [OF assms(1,2)] assms(3) have s: "fl_scale q = 971" "fl_mag q = 2 ^ 53" by (auto simp: fl_over_def)
  with fl_value_mono [OF assms(1,2)] True have "(of_int (2 ^ 53) :: rat) \<le> of_int (fl_mag r)"
    by (simp add: mult_le_cancel_right_pos)
  then have "2 ^ 53 \<le> fl_mag r" by (simp only: of_int_le_iff)
  with fl_mag_le [of r] assms True show ?thesis by (simp add: fl_over_def)
qed (use fl_scale_mono [OF assms(1,2)] assms(3) in \<open>auto simp: fl_over_def\<close>)

lemma fl_round_pos:
  assumes "0 < q"
  shows "fl_round q = (if fl_over q then FInf False else Fl (of_int (fl_mag q) * pow2 (fl_scale q)))"
  using assms by (auto simp: fl_round_def Let_def fl_over_def fl_mag_def simp flip: fl_scale_def)

lemma fl_round_neg:
  assumes "q < 0"
  shows "fl_round q = (if fl_over (- q) then FInf True else Fl (- (of_int (fl_mag (- q)) * pow2 (fl_scale (- q)))))"
  using assms by (auto simp: fl_round_def Let_def fl_over_def fl_mag_def simp flip: fl_scale_def)

lemma fl_mag_nonneg: "0 < q \<Longrightarrow> 0 \<le> fl_mag q"
  using round_even_mono [of 0 "q / pow2 (fl_scale q)"] round_even_of_int [of 0] pow2_pos [of "fl_scale q"]
  by (simp add: fl_mag_def less_imp_le)

lemma fl_round_mono_pos: "0 < q \<Longrightarrow> q \<le> r \<Longrightarrow> fl_le (fl_round q) (fl_round r)"
  using fl_over_mono [of q r] fl_value_mono [of q r] by (simp add: fl_round_pos)

theorem fl_round_mono:
  assumes "q \<le> r"
  shows "fl_le (fl_round q) (fl_round r)"
proof -
  have up: "fl_le (Fl 0) (fl_round x)" if "0 < x" for x
    using that fl_mag_nonneg [of x] by (simp add: fl_round_pos less_imp_le)
  have down: "fl_le (fl_round x) (Fl 0)" if "x < 0" for x
    using that fl_mag_nonneg [of "- x"] by (simp add: fl_round_neg less_imp_le)
  have zero: "fl_round 0 = Fl 0" by (simp add: fl_round_def)
  consider "0 < q" | "r < 0" | "q \<le> 0" "0 \<le> r" using assms by linarith
  then show ?thesis
  proof cases
    case 2
    then show ?thesis using assms fl_over_mono [of "- r" "- q"] fl_value_mono [of "- r" "- q"]
      by (simp add: fl_round_neg)
  next
    case 3
    then have "fl_le (fl_round q) (Fl 0)" "fl_le (Fl 0) (fl_round r)"
      using up [of r] down [of q] zero by (cases "q = 0"; cases "r = 0"; simp)+
    then show ?thesis by (rule fl_le_trans)
  qed (use assms fl_round_mono_pos in blast)
qed

lemma fl_round_not_nan: "fl_round q \<noteq> FNaN"
  by (simp add: fl_round_def Let_def)

text \<open>Instants are finite; subtracting a window of any length, even an infinite one, keeps their order.\<close>

lemma fl_sub_mono: "a \<le> b \<Longrightarrow> w \<noteq> FNaN \<Longrightarrow> fl_le (fl_sub (Fl a) w) (fl_sub (Fl b) w)"
  by (cases w) (auto simp: fl_sub_def intro: fl_round_mono fl_le_refl)

text \<open>Integers up to \<open>2 ^ 53\<close> are floats.\<close>

lemma pow2_scale_int:
  assumes "0 \<le> k"
  shows "\<exists>m. of_int n / pow2 (- k) = of_int m"
  using assms by (intro exI [of _ "n * 2 ^ nat k"]) (simp add: pow2_def)

lemma fl_round_int:
  assumes "0 \<le> n" "n \<le> 2 ^ 53"
  shows "fl_round (of_int n) = Fl (of_int n)"
proof (cases "n = 0")
  case False
  let ?q = "of_int n :: rat"
  have q: "0 < ?q" using assms False by simp
  have "pow2 (ilog2 ?q) \<le> ?q" by (rule ilog2_le [OF q])
  also have "\<dots> \<le> of_int (2 ^ 53)" using assms(2) by (simp only: of_int_le_iff)
  also have "\<dots> = pow2 53" by (simp add: pow2_def)
  finally have top: "ilog2 ?q \<le> 53" by (rule pow2_le)
  have "pow2 0 \<le> ?q" using q assms False by (simp add: pow2_def)
  moreover have "?q < pow2 (ilog2 ?q + 1)" by (rule ilog2_less [OF q])
  ultimately have bot: "0 \<le> ilog2 ?q" using pow2_strict [of 0 "ilog2 ?q + 1"] by simp
  have scale: "fl_scale ?q = ilog2 ?q - 52" using bot by (simp add: fl_scale_def)
  obtain m where m: "?q / pow2 (fl_scale ?q) = of_int m"
  proof (cases "ilog2 ?q = 53")
    case True
    have "(of_int (2 ^ 53) :: rat) = pow2 53" by (simp add: pow2_def)
    also have "\<dots> \<le> ?q" using ilog2_le [OF q] True by simp
    finally have "2 ^ 53 \<le> n" by (simp only: of_int_le_iff)
    with assms(2) have "n = 2 ^ 53" by (rule order_antisym)
    then show ?thesis using that [of "2 ^ 52"] True scale by (simp add: pow2_def)
  next
    case False
    then have "0 \<le> 52 - ilog2 ?q" using top by simp
    from pow2_scale_int [OF this, of n] show ?thesis using that scale by auto
  qed
  then have mag: "fl_mag ?q = m" by (simp add: fl_mag_def)
  have "of_int m * pow2 (fl_scale ?q) = ?q" using m pow2_pos [of "fl_scale ?q"] by (simp add: divide_eq_eq)
  moreover have "\<not> fl_over ?q" using scale top by (simp add: fl_over_def)
  ultimately show ?thesis using q by (simp add: fl_round_pos mag)
qed (simp add: fl_round_def)

lemma fl_add_one: "n < 2 ^ 53 \<Longrightarrow> fl_add (Fl (of_nat n)) (Fl 1) = Fl (of_nat (Suc n))"
  using fl_round_int [of "int n + 1"] by (simp add: add.commute)

end
