(* ===== verification/Request_Size.thy ===== *)
theory Request_Size
  imports Py_Number
begin

text \<open>
  The whole-request byte guard, \<open>app/request_size.py\<close>: the limits and their configuration, the
  declared length, the capped reader and the middleware around an ASGI application.

  An ASGI application is a function of the process state, the connection scope and the receive
  channel; it returns the new state, the messages it sent and the exception that left it, if any.
  A receive channel answers its \<open>n\<close>-th call with a message, or never (\<open>None\<close>). Bytes are
  characters below 256.
\<close>

section \<open>Connections\<close>

record asgi_scope =
  sc_type :: "string option"
  sc_path :: "string option"
  sc_method :: "string option"
  sc_headers :: "(string \<times> string) list"
  sc_client :: "string option"

record asgi_message =
  msg_type :: string
  msg_body :: "string option"
  msg_more_body :: "bool option"

type_synonym receive = "nat \<Rightarrow> asgi_message option"

datatype sent = ResponseStart nat "(string \<times> string) list" | ResponseBody string

datatype fault = ClientDisconnect | Fault exn

type_synonym 's asgi_app = "'s \<Rightarrow> asgi_scope \<Rightarrow> receive \<Rightarrow> 's \<times> sent list \<times> fault option"

section \<open>Limits\<close>

type_synonym environ = "string \<Rightarrow> string option"

definition MIB :: int where
  "MIB = 1024 * 1024"

definition DEFAULT_PATH_LIMITS :: "(string \<times> int) list" where
  "DEFAULT_PATH_LIMITS =
    [(''/api/v1/auth/pair'', 16 * 1024),
     (''/api/v1/sync/push'', 4 * MIB),
     (''/api/v2/sync/push'', 4 * MIB),
     (''/internal/admin/v1'', 64 * 1024)]"

definition positive_int :: "environ \<Rightarrow> string \<Rightarrow> int \<Rightarrow> int" where
  "positive_int env name fallback = (case env name of
     None \<Rightarrow> fallback
   | Some raw \<Rightarrow> (case py_int raw of
       None \<Rightarrow> fallback
     | Some v \<Rightarrow> if 0 < v then v else fallback))"

text \<open>\<open>str.isalnum\<close> below 256; \<open>str.upper\<close> of ASCII text, which the prefixes are.\<close>

definition py_isalnum :: "char \<Rightarrow> bool" where
  "py_isalnum c \<longleftrightarrow> (let n = of_char c :: nat in
     48 \<le> n \<and> n \<le> 57 \<or> 65 \<le> n \<and> n \<le> 90 \<or> 97 \<le> n \<and> n \<le> 122 \<or> n \<in> {170, 178, 179, 181, 185, 186, 188, 189, 190}
     \<or> 192 \<le> n \<and> n \<noteq> 215 \<and> n \<noteq> 247)"

definition ascii_upper :: "char \<Rightarrow> char" where
  "ascii_upper c = (if 97 \<le> (of_char c :: nat) \<and> (of_char c :: nat) \<le> 122 then char_of ((of_char c :: nat) - 32) else c)"

definition env_suffix :: "string \<Rightarrow> string" where
  "env_suffix pre = map ascii_upper (trim (\<lambda>c. c = CHR ''_'') (map (\<lambda>c. if py_isalnum c then c else CHR ''_'') pre))"

text \<open>
  \<open>limits\<close>: the override of a prefix is read, and then \<open>_positive_int(override, default)\<close> looks up
  the environment variable whose name is that value. An empty override counts as absent.
\<close>

definition limits :: "environ \<Rightarrow> (string \<times> int) list" where
  "limits env = map (\<lambda>(pre, default).
     (pre, case env (''VITRIAL_MAX_BODY_BYTES_'' @ env_suffix pre) of
        None \<Rightarrow> default
      | Some override \<Rightarrow> if override = [] then default else positive_int env override default)) DEFAULT_PATH_LIMITS"

fun best_limit :: "string \<Rightarrow> (string \<times> int) list \<Rightarrow> int option \<Rightarrow> int \<Rightarrow> int option" where
  "best_limit path [] best best_length = best"
| "best_limit path ((pre, limit) # rest) best best_length =
     (if prefix pre path \<and> best_length < int (length pre)
      then best_limit path rest (Some limit) (int (length pre))
      else best_limit path rest best best_length)"

definition limit_for_path :: "environ \<Rightarrow> string \<Rightarrow> int option" where
  "limit_for_path env path = best_limit path (limits env) None (- 1)"

fun header_length :: "(string \<times> string) list \<Rightarrow> int option" where
  "header_length [] = None"
| "header_length ((name, v) # hs) =
     (if name = ''content-length'' then
        (case py_int_bytes v of None \<Rightarrow> None | Some n \<Rightarrow> if 0 \<le> n then Some n else None)
      else header_length hs)"

definition declared_length :: "asgi_scope \<Rightarrow> int option" where
  "declared_length sc = header_length (sc_headers sc)"

section \<open>The capped reader\<close>

definition body_of :: "asgi_message \<Rightarrow> string" where
  "body_of m = (case msg_body m of None \<Rightarrow> [] | Some b \<Rightarrow> b)"

text \<open>
  \<open>_read_capped\<close> from the \<open>n\<close>-th call of the channel on; the result is the body and whether it
  passed the limit. \<open>None\<close>: the loop never ends, because the channel stays silent or keeps
  sending messages that do not end the body.
\<close>

partial_function (option) read_capped :: "receive \<Rightarrow> int \<Rightarrow> nat \<Rightarrow> int \<Rightarrow> string list \<Rightarrow> (string \<times> bool) option" where
  "read_capped ch limit n tot chunks = (case ch n of
     None \<Rightarrow> None
   | Some m \<Rightarrow>
       if msg_type m = ''http.disconnect'' then Some (concat chunks, False)
       else if msg_type m \<noteq> ''http.request'' then read_capped ch limit (Suc n) tot chunks
       else if limit < tot + int (length (body_of m)) then Some ([], True)
       else if msg_more_body m = Some True
         then read_capped ch limit (Suc n) (tot + int (length (body_of m))) (chunks @ [body_of m])
       else Some (concat (chunks @ [body_of m]), False))"

text \<open>\<open>_ReplayReceive\<close>: the buffered body once, disconnected from then on.\<close>

definition replay_receive :: "string \<Rightarrow> receive" where
  "replay_receive body n = Some (if n = 0
     then \<lparr>msg_type = ''http.request'', msg_body = Some body, msg_more_body = Some False\<rparr>
     else \<lparr>msg_type = ''http.disconnect'', msg_body = None, msg_more_body = None\<rparr>)"

section \<open>The middleware\<close>

definition too_large_text :: string where
  "too_large_text = ''{\"detail\":\"request body too large\"}''"

definition reject :: "int \<Rightarrow> sent list" where
  "reject limit =
    [ResponseStart 413
       [(''content-type'', ''application/json''),
        (''content-length'', show_nat (length too_large_text)),
        (''cache-control'', ''no-store''),
        (''x-vitrial-max-body-bytes'', show_int limit)],
     ResponseBody too_large_text]"

definition replay_app :: "'s asgi_app \<Rightarrow> int \<Rightarrow> 's \<Rightarrow> asgi_scope \<Rightarrow> string \<Rightarrow> 's \<times> sent list \<times> fault option" where
  "replay_app app limit st sc body = (case app st sc (replay_receive body) of
     (st', out, Some ClientDisconnect) \<Rightarrow> (st', out @ reject limit, None)
   | r \<Rightarrow> r)"

text \<open>\<open>__call__\<close>; \<open>None\<close> when the reader never ends.\<close>

definition size_guard :: "environ \<Rightarrow> 's asgi_app \<Rightarrow> 's \<Rightarrow> asgi_scope \<Rightarrow> receive
    \<Rightarrow> ('s \<times> sent list \<times> fault option) option" where
  "size_guard env app st sc ch =
    (if sc_type sc \<noteq> Some ''http'' then Some (app st sc ch)
     else case limit_for_path env (case sc_path sc of None \<Rightarrow> [] | Some p \<Rightarrow> p) of
       None \<Rightarrow> Some (app st sc ch)
     | Some limit \<Rightarrow>
         if (case sc_method sc of None \<Rightarrow> ''GET'' | Some m \<Rightarrow> m) = ''GET'' then Some (app st sc ch)
         else if (case declared_length sc of None \<Rightarrow> False | Some d \<Rightarrow> limit < d) then Some (st, reject limit, None)
         else (case read_capped ch limit 0 0 [] of
             None \<Rightarrow> None
           | Some (body, over) \<Rightarrow>
               if over then Some (st, reject limit, None) else Some (replay_app app limit st sc body)))"

section \<open>Limits of paths\<close>

text \<open>The longest matching prefix wins.\<close>

lemma best_limit_Some:
  "best_limit path ls best n = Some l \<Longrightarrow>
    best = Some l \<and> (\<forall>(q, _) \<in> set ls. prefix q path \<longrightarrow> int (length q) \<le> n)
    \<or> (\<exists>p. (p, l) \<in> set ls \<and> prefix p path \<and> n < int (length p)
         \<and> (\<forall>(q, _) \<in> set ls. prefix q path \<longrightarrow> length q \<le> length p))"
proof (induction path ls best n rule: best_limit.induct)
  case (2 path pre limit rest best n)
  show ?case
  proof (cases "prefix pre path \<and> n < int (length pre)")
    case True
    with 2 have "Some limit = Some l \<and> (\<forall>(q, _) \<in> set rest. prefix q path \<longrightarrow> int (length q) \<le> int (length pre))
      \<or> (\<exists>p. (p, l) \<in> set rest \<and> prefix p path \<and> int (length pre) < int (length p)
           \<and> (\<forall>(q, _) \<in> set rest. prefix q path \<longrightarrow> length q \<le> length p))" by simp
    then show ?thesis
    proof
      assume "Some limit = Some l \<and> (\<forall>(q, _) \<in> set rest. prefix q path \<longrightarrow> int (length q) \<le> int (length pre))"
      with True show ?thesis by (intro disjI2 exI [of _ pre]) auto
    next
      assume "\<exists>p. (p, l) \<in> set rest \<and> prefix p path \<and> int (length pre) < int (length p)
           \<and> (\<forall>(q, _) \<in> set rest. prefix q path \<longrightarrow> length q \<le> length p)"
      then obtain p where "(p, l) \<in> set rest" "prefix p path" "int (length pre) < int (length p)"
        "\<forall>(q, _) \<in> set rest. prefix q path \<longrightarrow> length q \<le> length p" by blast
      with True show ?thesis by (intro disjI2 exI [of _ p]) auto
    qed
  next
    case False
    with 2(2,3) have IH: "best = Some l \<and> (\<forall>(q, _) \<in> set rest. prefix q path \<longrightarrow> int (length q) \<le> n)
      \<or> (\<exists>p. (p, l) \<in> set rest \<and> prefix p path \<and> n < int (length p)
           \<and> (\<forall>(q, _) \<in> set rest. prefix q path \<longrightarrow> length q \<le> length p))" by simp
    from False have "prefix pre path \<longrightarrow> int (length pre) \<le> n" by auto
    with IH show ?thesis by auto
  qed
qed simp

lemma best_limit_None: "best_limit path ls best n = None \<Longrightarrow> best = None \<and> (\<forall>(q, _) \<in> set ls. prefix q path \<longrightarrow> int (length q) \<le> n)"
proof (induction path ls best n rule: best_limit.induct)
  case (2 path pre limit rest best n)
  then show ?case by (cases "prefix pre path \<and> n < int (length pre)") auto
qed simp

lemma limit_for_path_Some:
  assumes "limit_for_path env path = Some l"
  shows "\<exists>p. (p, l) \<in> set (limits env) \<and> prefix p path \<and> (\<forall>(q, _) \<in> set (limits env). prefix q path \<longrightarrow> length q \<le> length p)"
  using best_limit_Some [OF assms [unfolded limit_for_path_def]] by blast

lemma limit_for_path_None: "limit_for_path env path = None \<Longrightarrow> \<forall>(q, _) \<in> set (limits env). \<not> prefix q path"
  unfolding limit_for_path_def by (drule best_limit_None) fastforce

section \<open>Bodies in chunks\<close>

text \<open>The channel of a client that sends a body in the given chunks, and then nothing.\<close>

definition body_channel :: "string list \<Rightarrow> receive" where
  "body_channel cs n = (if n < length cs
     then Some \<lparr>msg_type = ''http.request'', msg_body = Some (cs ! n), msg_more_body = Some (Suc n < length cs)\<rparr>
     else None)"

lemma read_capped_chunks:
  assumes "n < length cs"
  shows "read_capped (body_channel cs) limit n tot acc =
    Some (if limit < tot + int (length (concat (drop n cs))) then ([], True) else (concat acc @ concat (drop n cs), False))"
  using assms
proof (induction "length cs - n" arbitrary: n tot acc)
  case (Suc k)
  then have n: "drop n cs = cs ! n # drop (Suc n) cs" by (simp add: Cons_nth_drop_Suc)
  have m: "body_channel cs n = Some \<lparr>msg_type = ''http.request'', msg_body = Some (cs ! n), msg_more_body = Some (Suc n < length cs)\<rparr>"
    using Suc.prems by (simp add: body_channel_def)
  show ?case
  proof (cases "Suc n < length cs")
    case False
    then have "drop (Suc n) cs = []" by simp
    with n m False show ?thesis by (subst read_capped.simps) (simp add: body_of_def)
  next
    case True
    with Suc have "read_capped (body_channel cs) limit (Suc n) (tot + int (length (cs ! n))) (acc @ [cs ! n]) =
      Some (if limit < tot + int (length (cs ! n)) + int (length (concat (drop (Suc n) cs))) then ([], True)
        else (concat (acc @ [cs ! n]) @ concat (drop (Suc n) cs), False))" by simp
    with n m True show ?thesis by (subst read_capped.simps) (simp add: body_of_def)
  qed
qed simp

text \<open>The channel of a client that sends the given chunks, announces more, and goes away.\<close>

definition cut_channel :: "string list \<Rightarrow> receive" where
  "cut_channel cs n = Some (if n < length cs
     then \<lparr>msg_type = ''http.request'', msg_body = Some (cs ! n), msg_more_body = Some True\<rparr>
     else \<lparr>msg_type = ''http.disconnect'', msg_body = None, msg_more_body = None\<rparr>)"

lemma read_capped_cut:
  assumes "n \<le> length cs" and "tot \<le> limit"
  shows "read_capped (cut_channel cs) limit n tot acc =
    Some (if limit < tot + int (length (concat (drop n cs))) then ([], True) else (concat acc @ concat (drop n cs), False))"
  using assms
proof (induction "length cs - n" arbitrary: n tot acc)
  case 0
  then show ?case by (subst read_capped.simps) (simp add: cut_channel_def)
next
  case (Suc k)
  then have n: "drop n cs = cs ! n # drop (Suc n) cs" by (simp add: Cons_nth_drop_Suc)
  have m: "cut_channel cs n = Some \<lparr>msg_type = ''http.request'', msg_body = Some (cs ! n), msg_more_body = Some True\<rparr>"
    using Suc.hyps(2) by (simp add: cut_channel_def)
  show ?case
  proof (cases "limit < tot + int (length (cs ! n))")
    case True
    with n m show ?thesis by (subst read_capped.simps) (simp add: body_of_def)
  next
    case False
    with Suc have "read_capped (cut_channel cs) limit (Suc n) (tot + int (length (cs ! n))) (acc @ [cs ! n]) =
      Some (if limit < tot + int (length (cs ! n)) + int (length (concat (drop (Suc n) cs))) then ([], True)
        else (concat (acc @ [cs ! n]) @ concat (drop (Suc n) cs), False))" by simp
    with n m False show ?thesis by (subst read_capped.simps) (simp add: body_of_def)
  qed
qed

text \<open>The guard on a whole body: the reader sees its size, not its chunks.\<close>

lemma size_guard_body:
  assumes "sc_type sc = Some ''http''" "sc_path sc = Some path" "sc_method sc = Some method" "method \<noteq> ''GET''"
    and "limit_for_path env path = Some limit" "cs \<noteq> []"
  shows "size_guard env app st sc (body_channel cs) = Some
    (if (\<exists>d. declared_length sc = Some d \<and> limit < d) \<or> limit < int (length (concat cs)) then (st, reject limit, None)
     else replay_app app limit st sc (concat cs))"
proof -
  have "read_capped (body_channel cs) limit 0 0 [] =
    Some (if limit < int (length (concat cs)) then ([], True) else (concat cs, False))"
    using read_capped_chunks [of 0 cs limit 0 "[]"] assms(6) by simp
  with assms(1-5) show ?thesis by (cases "declared_length sc") (auto simp: size_guard_def)
qed

text \<open>
  The guard on a body cut short: the bytes that arrived stand for the whole body, whatever length
  was declared.
\<close>

lemma size_guard_cut:
  assumes "sc_type sc = Some ''http''" "sc_path sc = Some path" "sc_method sc = Some method" "method \<noteq> ''GET''"
    and "limit_for_path env path = Some limit" "0 \<le> limit"
  shows "size_guard env app st sc (cut_channel cs) = Some
    (if (\<exists>d. declared_length sc = Some d \<and> limit < d) \<or> limit < int (length (concat cs)) then (st, reject limit, None)
     else replay_app app limit st sc (concat cs))"
proof -
  have "read_capped (cut_channel cs) limit 0 0 [] =
    Some (if limit < int (length (concat cs)) then ([], True) else (concat cs, False))"
    using read_capped_cut [of 0 cs 0 limit "[]"] assms(6) by simp
  with assms(1-5) show ?thesis by (cases "declared_length sc") (auto simp: size_guard_def)
qed

lemma limit_positive: "limit_for_path env path = Some l \<Longrightarrow> 0 < l"
proof -
  assume "limit_for_path env path = Some l"
  then obtain p where "(p, l) \<in> set (limits env)" using limit_for_path_Some by blast
  then obtain d where "(p, d) \<in> set DEFAULT_PATH_LIMITS"
    and l: "l = (case env (''VITRIAL_MAX_BODY_BYTES_'' @ env_suffix p) of
        None \<Rightarrow> d | Some override \<Rightarrow> if override = [] then d else positive_int env override d)"
    by (auto simp: limits_def)
  then have "0 < d" by (auto simp: DEFAULT_PATH_LIMITS_def MIB_def)
  then show "0 < l" unfolding l by (auto simp: positive_int_def split: option.split)
qed

section \<open>Properties\<close>

text \<open>
  C19. A request other than a GET to a limited path is decided by its declared length and by the bytes that
  arrive: whatever the chunks, when the declared length or the bytes exceed the limit, the endpoint does not
  run, the process state is unchanged and the client receives the 413 with the limit. Otherwise the
  endpoint runs once on the concatenation of the chunks: the exact body when the client sent all of it, and, when the
  client disconnects in the middle, the part that arrived, presented as a complete body even if a greater
  length was declared.
\<close>

theorem body_guard_exact:
  fixes app :: "'s asgi_app" and st :: 's
  assumes "sc_type sc = Some ''http''" "sc_path sc = Some path" "sc_method sc = Some method" "method \<noteq> ''GET''"
    and "limit_for_path env path = Some limit"
  defines "decision cs \<equiv> if (\<exists>d. declared_length sc = Some d \<and> limit < d) \<or> limit < int (length (concat cs))
     then (st, reject limit, None) else replay_app app limit st sc (concat cs)"
  shows "(cs \<noteq> [] \<longrightarrow> size_guard env app st sc (body_channel cs) = Some (decision cs))
    \<and> size_guard env app st sc (cut_channel cs) = Some (decision cs)"
  unfolding decision_def
  by (intro conjI impI, rule size_guard_body [OF assms(1-5)], assumption,
      rule size_guard_cut [OF assms(1-5) less_imp_le [OF limit_positive [OF assms(5)]]])

definition demo_pair_scope :: asgi_scope where
  "demo_pair_scope = \<lparr>sc_type = Some ''http'', sc_path = Some ''/api/v1/auth/pair'', sc_method = Some ''POST'',
     sc_headers = [(''content-length'', ''1'')], sc_client = None\<rparr>"

definition echo_app :: "nat asgi_app" where
  "echo_app st sc ch = (Suc st, [ResponseBody (case ch 0 of None \<Rightarrow> [] | Some m \<Rightarrow> body_of m)], None)"

theorem body_guard_exact_witness:
  "size_guard (\<lambda>_. None) echo_app 0 demo_pair_scope (body_channel [''ab'', [], ''c'']) = Some (1, [ResponseBody ''abc''], None)
   \<and> size_guard (\<lambda>_. None) echo_app 0 demo_pair_scope (cut_channel [''ab'']) = Some (1, [ResponseBody ''ab''], None)"
proof -
  have sc: "sc_type demo_pair_scope = Some ''http''" "sc_path demo_pair_scope = Some ''/api/v1/auth/pair''"
    "sc_method demo_pair_scope = Some ''POST''" "''POST'' \<noteq> ''GET''"
    by (simp_all add: demo_pair_scope_def)
  have limit: "limit_for_path (\<lambda>_. None) ''/api/v1/auth/pair'' = Some 16384"
    by (simp add: limit_for_path_def limits_def DEFAULT_PATH_LIMITS_def)
  have "declared_length demo_pair_scope = Some 1"
    by (simp add: declared_length_def demo_pair_scope_def py_int_bytes_def trim_def c_isspace_def int_body_def
        split_sign_def ascii_digit_def parse_nat_def digit_value_def)
  with body_guard_exact [OF sc limit, of "[''ab'', [], ''c'']" echo_app 0]
    body_guard_exact [OF sc limit, of "[''ab'']" echo_app 0] show ?thesis
    by (simp add: replay_app_def echo_app_def replay_receive_def body_of_def)
qed

text \<open>
  C40. The size overrides of the environment have no effect: unless the environment has a variable
  whose name is the text of the override itself, every limit is the built-in one.
\<close>

theorem body_limit_overrides_ignored:
  assumes "\<forall>(pre, _) \<in> set DEFAULT_PATH_LIMITS. \<forall>v. env (''VITRIAL_MAX_BODY_BYTES_'' @ env_suffix pre) = Some v \<longrightarrow> env v = None"
  shows "limits env = DEFAULT_PATH_LIMITS"
  unfolding limits_def
proof (rule map_idI)
  fix e assume e: "e \<in> set DEFAULT_PATH_LIMITS"
  obtain p d where pd: "e = (p, d)" by fastforce
  with e assms have "\<forall>v. env (''VITRIAL_MAX_BODY_BYTES_'' @ env_suffix p) = Some v \<longrightarrow> env v = None" by blast
  then have "(case env (''VITRIAL_MAX_BODY_BYTES_'' @ env_suffix p) of None \<Rightarrow> d
      | Some override \<Rightarrow> if override = [] then d else positive_int env override d) = d"
    by (auto simp: positive_int_def split: option.split)
  then show "(case e of (pre, d) \<Rightarrow> (pre, case env (''VITRIAL_MAX_BODY_BYTES_'' @ env_suffix pre) of
      None \<Rightarrow> d | Some override \<Rightarrow> if override = [] then d else positive_int env override d)) = e"
    unfolding pd by (simp only: prod.case)
qed

definition demo_override_env :: environ where
  "demo_override_env name = (if name = ''VITRIAL_MAX_BODY_BYTES_API_V1_AUTH_PAIR'' then Some ''20000'' else None)"

theorem body_limit_overrides_ignored_witness:
  "demo_override_env (''VITRIAL_MAX_BODY_BYTES_'' @ env_suffix ''/api/v1/auth/pair'') = Some ''20000''
   \<and> limits demo_override_env = DEFAULT_PATH_LIMITS"
proof
  show "demo_override_env (''VITRIAL_MAX_BODY_BYTES_'' @ env_suffix ''/api/v1/auth/pair'') = Some ''20000''"
    by (simp add: demo_override_env_def env_suffix_def trim_def py_isalnum_def ascii_upper_def char_of_def bit_0)
  show "limits demo_override_env = DEFAULT_PATH_LIMITS"
    by (rule body_limit_overrides_ignored) (auto simp: demo_override_env_def)
qed

end
