(* ===== verification/Rate_Limit.thy ===== *)
theory Rate_Limit
  imports Request_Size "HOL-Library.AList"
begin

text \<open>
  The rate limit of the unauthenticated surfaces, \<open>app/rate_limit.py\<close>, and its middleware in
  \<open>app/main.py\<close>: the sliding window with its bounded table of clients, the cached limiter of the
  process, the client and surface keys, and the answer to a refused request.

  The window's contract is an unbounded log of admitted hits; the table refines it as long as fewer
  than \<open>max_clients\<close> clients have a hit inside the window. Instants are the floats of the monotonic
  clock.
\<close>

section \<open>The limiter\<close>

text \<open>The dictionary \<open>_hits\<close> in insertion order; a deque is a list, oldest hit first.\<close>

record limiter =
  lim_limit :: int
  lim_window :: fl
  lim_max_clients :: int
  lim_hits :: "(string \<times> fl list) list"

definition MAX_TRACKED_CLIENTS :: int where
  "MAX_TRACKED_CLIENTS = 10000"

definition sliding_window_limiter :: "int \<Rightarrow> fl \<Rightarrow> int \<Rightarrow> limiter" where
  "sliding_window_limiter l w m = \<lparr>lim_limit = l, lim_window = w, lim_max_clients = m, lim_hits = []\<rparr>"

definition py_max :: "fl \<Rightarrow> fl \<Rightarrow> fl" where
  "py_max a b = (if fl_less a b then b else a)"

text \<open>\<open>min(items, key=...)\<close>: the first item of least key.\<close>

definition last_hit :: "string \<times> fl list \<Rightarrow> fl" where
  "last_hit e = (if snd e = [] then Fl 0 else last (snd e))"

definition min_item :: "string \<times> fl list \<Rightarrow> (string \<times> fl list) list \<Rightarrow> string \<times> fl list" where
  "min_item x xs = foldl (\<lambda>m e. if fl_less (last_hit e) (last_hit m) then e else m) x xs"

definition stale :: "fl \<Rightarrow> string \<times> fl list \<Rightarrow> bool" where
  "stale cutoff e \<longleftrightarrow> snd e = [] \<or> fl_le (last (snd e)) cutoff"

text \<open>\<open>_evict_locked\<close>; \<open>min\<close> of nothing raises \<open>ValueError\<close>, after the expired keys are gone.\<close>

definition evict_locked :: "int \<Rightarrow> fl \<Rightarrow> (string \<times> fl list) list \<Rightarrow> (string \<times> fl list) list \<times> unit res" where
  "evict_locked max_clients cutoff hits = (let kept = filter (\<lambda>e. \<not> stale cutoff e) hits in
     if int (length kept) < max_clients then (kept, ok ())
     else case kept of
       [] \<Rightarrow> (kept, raise ValueError)
     | x # xs \<Rightarrow> (AList.delete (fst (min_item x xs)) kept, ok ()))"

definition allow :: "limiter \<Rightarrow> string \<Rightarrow> fl \<Rightarrow> limiter \<times> (bool \<times> fl) res" where
  "allow lm key moment = (let cutoff = fl_sub moment (lim_window lm);
     (hits, r) = (case map_of (lim_hits lm) key of
         Some _ \<Rightarrow> (lim_hits lm, ok ())
       | None \<Rightarrow> if lim_max_clients lm \<le> int (length (lim_hits lm))
           then evict_locked (lim_max_clients lm) cutoff (lim_hits lm) else (lim_hits lm, ok ()))
     in case r of
       Inl e \<Rightarrow> (lm\<lparr>lim_hits := hits\<rparr>, raise e)
     | Inr _ \<Rightarrow>
        (let bucket = dropWhile (\<lambda>t. fl_le t cutoff) (case map_of hits key of None \<Rightarrow> [] | Some b \<Rightarrow> b) in
         if lim_limit lm \<le> int (length bucket) then
           (lm\<lparr>lim_hits := AList.update key bucket hits\<rparr>,
            if bucket = [] then raise IndexError
            else ok (False, py_max (Fl 0) (fl_sub (fl_add (hd bucket) (lim_window lm)) moment)))
         else (lm\<lparr>lim_hits := AList.update key (bucket @ [moment]) hits\<rparr>, ok (True, Fl 0))))"

definition limiter_reset :: "limiter \<Rightarrow> limiter" where
  "limiter_reset lm = lm\<lparr>lim_hits := []\<rparr>"

section \<open>Configuration and keys\<close>

definition DEFAULT_LIMIT :: int where
  "DEFAULT_LIMIT = 30"

definition DEFAULT_WINDOW_SECONDS :: fl where
  "DEFAULT_WINDOW_SECONDS = Fl 60"

definition THROTTLED_PATH_PREFIXES :: "string list" where
  "THROTTLED_PATH_PREFIXES = [''/api/v1/auth/pair'', ''/internal/admin/v1'', ''/metrics'']"

definition positive_float :: "environ \<Rightarrow> string \<Rightarrow> fl \<Rightarrow> fl" where
  "positive_float env name fallback = (case env name of
     None \<Rightarrow> fallback
   | Some raw \<Rightarrow> (case py_float raw of
       None \<Rightarrow> fallback
     | Some v \<Rightarrow> if fl_less (Fl 0) v then v else fallback))"

definition rate_positive_int :: "environ \<Rightarrow> string \<Rightarrow> int \<Rightarrow> int" where
  "rate_positive_int env name fallback = (case env name of
     None \<Rightarrow> fallback
   | Some raw \<Rightarrow> (case py_int raw of
       None \<Rightarrow> fallback
     | Some v \<Rightarrow> if 0 < v then v else fallback))"

definition limit_for :: "environ \<Rightarrow> int" where
  "limit_for env = rate_positive_int env ''VITRIAL_AUTH_RATE_LIMIT'' DEFAULT_LIMIT"

definition window_seconds_for :: "environ \<Rightarrow> fl" where
  "window_seconds_for env = positive_float env ''VITRIAL_AUTH_RATE_WINDOW_SECONDS'' DEFAULT_WINDOW_SECONDS"

text \<open>The module's \<open>_limiter\<close> with the configuration \<open>_limiter_key\<close> it was built from.\<close>

type_synonym limiter_cache = "(limiter \<times> int \<times> fl) option"

definition limiter_for :: "environ \<Rightarrow> limiter_cache \<Rightarrow> limiter" where
  "limiter_for env cache = (let config = (limit_for env, window_seconds_for env) in
     case cache of
       Some (lm, key) \<Rightarrow> if key = config then lm
         else sliding_window_limiter (fst config) (snd config) MAX_TRACKED_CLIENTS
     | None \<Rightarrow> sliding_window_limiter (fst config) (snd config) MAX_TRACKED_CLIENTS)"

definition reset_limiter_for_tests :: "limiter_cache \<Rightarrow> limiter_cache" where
  "reset_limiter_for_tests cache = None"

text \<open>
  A request as the middleware reads it: \<open>rq_client\<close> is the host of the peer, absent when the server
  knows none; header names are in lower case, and \<open>headers.get\<close> returns the first value.
\<close>

record http_request =
  rq_path :: string
  rq_method :: string
  rq_headers :: "(string \<times> string) list"
  rq_client :: "string option"

definition client_key_for :: "http_request \<Rightarrow> string" where
  "client_key_for rq =
    (let peer = (case rq_client rq of
         Some host \<Rightarrow> if host \<noteq> [] then ''peer:'' @ host else ''peer:unknown''
       | None \<Rightarrow> ''peer:unknown'')
     in case map_of (rq_headers rq) ''x-forwarded-for'' of
       None \<Rightarrow> peer
     | Some forwarded \<Rightarrow> (let first = py_strip (takeWhile (\<lambda>c. c \<noteq> CHR '','') forwarded) in
         if first \<noteq> [] then ''xff:'' @ first else peer))"

definition throttled_surface_for :: "string \<Rightarrow> string option" where
  "throttled_surface_for path = List.find (\<lambda>pre. prefix pre path) THROTTLED_PATH_PREFIXES"

definition path_is_throttled :: "string \<Rightarrow> bool" where
  "path_is_throttled path \<longleftrightarrow> throttled_surface_for path \<noteq> None"

definition limiter_key_for :: "string \<Rightarrow> string \<Rightarrow> string" where
  "limiter_key_for surface client_key = surface @ ''|'' @ client_key"

section \<open>The middleware\<close>

record http_response =
  rs_status :: nat
  rs_headers :: "(string \<times> string) list"
  rs_body :: string

datatype rate_event = RateLimitBypassed exn | RateLimitRefused int

definition py_int_of_fl :: "fl \<Rightarrow> int res" where
  "py_int_of_fl a = (case a of
     Fl q \<Rightarrow> ok (if 0 \<le> q then \<lfloor>q\<rfloor> else - \<lfloor>- q\<rfloor>)
   | FInf _ \<Rightarrow> raise OverflowError
   | FNaN \<Rightarrow> raise ValueError)"

definition too_many_requests :: "int \<Rightarrow> http_response" where
  "too_many_requests n = \<lparr>rs_status = 429,
     rs_headers = [(''Retry-After'', show_int n), (''Cache-Control'', ''no-store'')],
     rs_body = ''{\"detail\":\"too many requests\"}''\<rparr>"

text \<open>
  The decision of \<open>auth_surface_rate_limit\<close> at an instant of the clock: the new cache of the limiter,
  the events it logs, and the answer, or \<open>None\<close> when the request is passed on. An exception of the
  limiter lets the request pass; the conversion of the waiting time is outside the \<open>try\<close>.
\<close>

definition rate_decision :: "environ \<Rightarrow> fl \<Rightarrow> limiter_cache \<Rightarrow> http_request
    \<Rightarrow> limiter_cache \<times> rate_event list \<times> http_response res option" where
  "rate_decision env now cache rq =
    (case throttled_surface_for (rq_path rq) of
       None \<Rightarrow> (cache, [], None)
     | Some surface \<Rightarrow>
        (let (lm, r) = allow (limiter_for env cache) (limiter_key_for surface (client_key_for rq)) now;
             cache' = Some (lm, limit_for env, window_seconds_for env)
         in case r of
           Inl e \<Rightarrow> (cache', [RateLimitBypassed e], None)
         | Inr (allowed, retry_after) \<Rightarrow>
             if allowed then (cache', [], None)
             else (case py_int_of_fl (fl_add retry_after (fl_round (999 / 1000))) of
                 Inl e \<Rightarrow> (cache', [], Some (raise e))
               | Inr n \<Rightarrow> (cache', [RateLimitRefused (max 1 n)], Some (ok (too_many_requests (max 1 n)))))))"

section \<open>The contract of the window\<close>

text \<open>
  The log of the admitted hits. A hit is live while it is after the cutoff; a call is admitted when
  fewer than \<open>limit\<close> hits of its key are live, and a refused call learns when the oldest one expires.
\<close>

definition live_hits :: "fl \<Rightarrow> string \<Rightarrow> (string \<times> fl) list \<Rightarrow> fl list" where
  "live_hits cutoff key hist = filter (\<lambda>t. \<not> fl_le t cutoff) (map snd (filter (\<lambda>(k, _). k = key) hist))"

definition spec_allow :: "int \<Rightarrow> fl \<Rightarrow> (string \<times> fl) list \<Rightarrow> string \<Rightarrow> fl \<Rightarrow> (string \<times> fl) list \<times> bool \<times> fl" where
  "spec_allow l w hist key moment = (let live = live_hits (fl_sub moment w) key hist in
     if l \<le> int (length live) then (hist, False, py_max (Fl 0) (fl_sub (fl_add (hd live) w) moment))
     else (hist @ [(key, moment)], True, Fl 0))"

definition live_keys :: "fl \<Rightarrow> (string \<times> fl) list \<Rightarrow> string set" where
  "live_keys cutoff hist = fst ` set (filter (\<lambda>(_, t). \<not> fl_le t cutoff) hist)"

text \<open>
  A machine and its contract, run on the same inputs: the outputs of a run, and the runs whose every
  input is allowed after the previous one.
\<close>

fun outputs :: "('x \<Rightarrow> 'i \<Rightarrow> 'x \<times> 'o) \<Rightarrow> 'x \<Rightarrow> 'i list \<Rightarrow> 'o list" where
  "outputs f x [] = []"
| "outputs f x (i # rest) = snd (f x i) # outputs f (fst (f x i)) rest"

fun admissible :: "('a \<Rightarrow> 'i \<Rightarrow> 'a \<times> 'o) \<Rightarrow> ('i option \<Rightarrow> 'a \<Rightarrow> 'i \<Rightarrow> bool) \<Rightarrow> 'i option \<Rightarrow> 'a \<Rightarrow> 'i list \<Rightarrow> bool" where
  "admissible f allowed p a [] \<longleftrightarrow> True"
| "admissible f allowed p a (i # rest) \<longleftrightarrow> allowed p a i \<and> admissible f allowed (Some i) (fst (f a i)) rest"

locale refinement =
  fixes cstep :: "'c \<Rightarrow> 'i \<Rightarrow> 'c \<times> 'o"
    and astep :: "'a \<Rightarrow> 'i \<Rightarrow> 'a \<times> 'o"
    and rel :: "'i option \<Rightarrow> 'c \<Rightarrow> 'a \<Rightarrow> bool"
    and allowed :: "'i option \<Rightarrow> 'a \<Rightarrow> 'i \<Rightarrow> bool"
  assumes step: "rel p c a \<Longrightarrow> allowed p a i \<Longrightarrow>
    snd (cstep c i) = snd (astep a i) \<and> rel (Some i) (fst (cstep c i)) (fst (astep a i))"
begin

lemma outputs_agree: "rel p c a \<Longrightarrow> admissible astep allowed p a inputs \<Longrightarrow> outputs cstep c inputs = outputs astep a inputs"
proof (induction inputs arbitrary: p c a)
  case (Cons i rest)
  then have "allowed p a i" by simp
  from step [OF Cons.prems(1) this] have "snd (cstep c i) = snd (astep a i)"
    "rel (Some i) (fst (cstep c i)) (fst (astep a i))" by simp_all
  with Cons.IH [OF this(2)] Cons.prems(2) show ?case by simp
qed simp

end

text \<open>
  The inputs are a key and a finite instant; an input is allowed when the clock does not go back and
  fewer than \<open>max_clients\<close> keys have a live hit.
\<close>

definition limiter_step :: "limiter \<Rightarrow> string \<times> rat \<Rightarrow> limiter \<times> (bool \<times> fl) res" where
  "limiter_step lm i = allow lm (fst i) (Fl (snd i))"

definition spec_step :: "int \<Rightarrow> fl \<Rightarrow> (string \<times> fl) list \<Rightarrow> string \<times> rat \<Rightarrow> (string \<times> fl) list \<times> (bool \<times> fl) res" where
  "spec_step l w hist i = (case spec_allow l w hist (fst i) (Fl (snd i)) of (hist', a, r) \<Rightarrow> (hist', ok (a, r)))"

definition uncrowded :: "int \<Rightarrow> fl \<Rightarrow> (string \<times> rat) option \<Rightarrow> (string \<times> fl) list \<Rightarrow> string \<times> rat \<Rightarrow> bool" where
  "uncrowded m w p hist i \<longleftrightarrow> (case p of None \<Rightarrow> True | Some (_, t) \<Rightarrow> t \<le> snd i)
     \<and> int (card (live_keys (fl_sub (Fl (snd i)) w) hist)) < m"

definition hits_of :: "string \<Rightarrow> (string \<times> 't) list \<Rightarrow> 't list" where
  "hits_of key hist = map snd (filter (\<lambda>(k, _). k = key) hist)"

definition bucket_of :: "string \<Rightarrow> (string \<times> fl list) list \<Rightarrow> fl list" where
  "bucket_of key hits = (case map_of hits key of None \<Rightarrow> [] | Some b \<Rightarrow> b)"

text \<open>
  The simulation: of every key the table holds the latest hits of the log, and the rest have
  expired at the last instant.
\<close>

definition tracks :: "int \<Rightarrow> fl \<Rightarrow> int \<Rightarrow> (string \<times> rat) option \<Rightarrow> limiter \<Rightarrow> (string \<times> fl) list \<Rightarrow> bool" where
  "tracks l w m p lm hist \<longleftrightarrow> 0 < l \<and> w \<noteq> FNaN \<and> lim_limit lm = l \<and> lim_window lm = w \<and> lim_max_clients lm = m
     \<and> distinct (map fst (lim_hits lm)) \<and> sorted_wrt fl_le (map snd hist)
     \<and> (case p of None \<Rightarrow> hist = [] \<and> lim_hits lm = []
        | Some (_, t) \<Rightarrow> (\<forall>x \<in> set hist. fl_le (snd x) (Fl t)) \<and>
            (\<forall>key. \<exists>old. hits_of key hist = old @ bucket_of key (lim_hits lm) \<and> (\<forall>x \<in> set old. fl_le x (fl_sub (Fl t) w))))"

lemma dropWhile_sorted: "sorted_wrt fl_le xs \<Longrightarrow> dropWhile (\<lambda>t. fl_le t c) xs = filter (\<lambda>t. \<not> fl_le t c) xs"
proof (induction xs)
  case (Cons x xs)
  show ?case
  proof (cases "fl_le x c")
    case False
    have "\<not> fl_le y c" if "y \<in> set xs" for y
      using Cons.prems False that fl_le_trans [of x y c] by auto
    then have "filter (\<lambda>t. \<not> fl_le t c) xs = xs" by (intro filter_True) blast
    with False show ?thesis by simp
  qed (use Cons in simp)
qed simp

lemma sorted_hits: "sorted_wrt fl_le (map snd hist) \<Longrightarrow> sorted_wrt fl_le (hits_of key hist)"
  unfolding hits_of_def sorted_wrt_map by (rule sorted_wrt_filter)

lemma bucket_update: "bucket_of k (AList.update key b hits) = (if k = key then b else bucket_of k hits)"
  by (simp add: bucket_of_def update_conv')

lemma hits_of_snoc: "hits_of k (hist @ [(key, t)]) = (if k = key then hits_of k hist @ [t] else hits_of k hist)"
  by (simp add: hits_of_def)

lemma bucket_filter:
  assumes "distinct (map fst hits)"
  shows "bucket_of key (filter P hits) = (if P (key, bucket_of key hits) then bucket_of key hits else [])"
  using assms
proof (induction hits)
  case (Cons e hits)
  obtain k b where e: "e = (k, b)" by fastforce
  from Cons have IH: "bucket_of key (filter P hits) = (if P (key, bucket_of key hits) then bucket_of key hits else [])" by simp
  have "bucket_of k (filter P hits) = []" if "k \<notin> fst ` set hits"
  proof -
    from that have "map_of (filter P hits) k = None" by (auto simp: map_of_eq_None_iff)
    then show ?thesis by (simp add: bucket_of_def)
  qed
  with Cons.prems IH show ?case by (cases "k = key") (auto simp: e bucket_of_def)
qed (simp add: bucket_of_def)

lemma evict_uncrowded:
  assumes "distinct (map fst hits)" "sorted_wrt fl_le (map snd hist)"
    and track: "\<And>key. \<exists>old. hits_of key hist = old @ bucket_of key hits \<and> (\<forall>x \<in> set old. fl_le x c)"
    and few: "int (card (live_keys c hist)) < m"
  shows "evict_locked m c hits = (filter (\<lambda>e. \<not> stale c e) hits, ok ())"
proof -
  define kept where "kept = filter (\<lambda>e. \<not> stale c e) hits"
  have dist: "distinct (map fst kept)" using assms(1) by (simp add: kept_def distinct_map_filter)
  have "fst ` set kept \<subseteq> live_keys c hist"
  proof
    fix k assume "k \<in> fst ` set kept"
    then obtain b where kb: "(k, b) \<in> set hits" "b \<noteq> []" "\<not> fl_le (last b) c" by (auto simp: kept_def stale_def)
    then have "bucket_of k hits = b" using assms(1) by (simp add: bucket_of_def map_of_is_SomeI)
    with track [of k] kb have "last b \<in> set (hits_of k hist)" by auto
    then show "k \<in> live_keys c hist" using kb by (force simp: hits_of_def live_keys_def)
  qed
  moreover have "finite (live_keys c hist)" by (simp add: live_keys_def)
  ultimately have "card (fst ` set kept) \<le> card (live_keys c hist)" by (rule card_mono [rotated])
  moreover have "card (fst ` set kept) = length kept" using distinct_card [OF dist] by simp
  ultimately show ?thesis using few by (simp add: evict_locked_def Let_def flip: kept_def)
qed

text \<open>Expired buckets may be forgotten: what is left still tracks the log.\<close>

lemma track_filter:
  assumes "distinct (map fst hits)" "sorted_wrt fl_le (hits_of key hist)"
    and "\<exists>old. hits_of key hist = old @ bucket_of key hits \<and> (\<forall>x \<in> set old. fl_le x c)"
  shows "\<exists>old. hits_of key hist = old @ bucket_of key (filter (\<lambda>e. \<not> stale c e) hits) \<and> (\<forall>x \<in> set old. fl_le x c)"
proof (cases "stale c (key, bucket_of key hits)")
  case True
  obtain old where old: "hits_of key hist = old @ bucket_of key hits" "\<forall>x \<in> set old. fl_le x c" using assms(3) by blast
  have "fl_le x c" if x: "x \<in> set (bucket_of key hits)" for x
  proof -
    have s: "sorted_wrt fl_le (bucket_of key hits)" using assms(2) old by (simp add: sorted_wrt_append)
    from x True have le: "fl_le (last (bucket_of key hits)) c" by (auto simp: stale_def)
    from x obtain ys where b: "bucket_of key hits = ys @ [last (bucket_of key hits)]" by (metis append_butlast_last_id list.set_cases list.distinct(1))
    with s x have "x = last (bucket_of key hits) \<or> fl_le x (last (bucket_of key hits))"
      by (metis UnE empty_iff empty_set list.set_intros(1) set_ConsD set_append sorted_wrt_append)
    with le show ?thesis using fl_le_trans by auto
  qed
  with old True show ?thesis by (intro exI [of _ "hits_of key hist"]) (auto simp: bucket_filter [OF assms(1)])
next
  case False
  with assms show ?thesis by (simp add: bucket_filter)
qed

lemma track_later:
  assumes "\<exists>old. hs = old @ b \<and> (\<forall>x \<in> set old. fl_le x c)" "fl_le c d"
  shows "\<exists>old. hs = old @ b \<and> (\<forall>x \<in> set old. fl_le x d)"
proof -
  from assms(1) obtain old where "hs = old @ b" "\<forall>x \<in> set old. fl_le x c" by blast
  with assms(2) show ?thesis by (intro exI [of _ old]) (auto intro: fl_le_trans)
qed

lemma live_bucket:
  assumes "hs = old @ b" "\<forall>x \<in> set old. fl_le x c" "sorted_wrt fl_le hs"
  shows "dropWhile (\<lambda>t. fl_le t c) b = filter (\<lambda>t. \<not> fl_le t c) hs"
  using assms dropWhile_sorted [of b c] by (auto simp: sorted_wrt_append)

text \<open>What the first half of \<open>allow\<close> leaves, and what the second half does with it.\<close>

lemma tracks_before:
  assumes t: "tracks l w m p lm hist" and u: "uncrowded m w p hist (key, t)" and w: "w \<noteq> FNaN"
  defines "c \<equiv> fl_sub (Fl t) w"
  shows "\<exists>hits. (case map_of (lim_hits lm) key of
         Some _ \<Rightarrow> (lim_hits lm, ok ())
       | None \<Rightarrow> if m \<le> int (length (lim_hits lm)) then evict_locked m c (lim_hits lm) else (lim_hits lm, ok ())) = (hits, ok ())
     \<and> distinct (map fst hits) \<and> (\<forall>k. \<exists>old. hits_of k hist = old @ bucket_of k hits \<and> (\<forall>x \<in> set old. fl_le x c))"
proof -
  have d: "distinct (map fst (lim_hits lm))" and s: "sorted_wrt fl_le (map snd hist)" using t by (simp_all add: tracks_def)
  have track: "\<exists>old. hits_of k hist = old @ bucket_of k (lim_hits lm) \<and> (\<forall>x \<in> set old. fl_le x c)" for k
  proof (cases p)
    case None
    with t show ?thesis by (simp add: tracks_def hits_of_def bucket_of_def)
  next
    case (Some q)
    then obtain k0 t0 where q: "p = Some (k0, t0)" by (cases q) simp
    with u w have "fl_le (fl_sub (Fl t0) w) c" by (auto simp: uncrowded_def c_def intro: fl_sub_mono)
    moreover from t q have "\<exists>old. hits_of k hist = old @ bucket_of k (lim_hits lm) \<and> (\<forall>x \<in> set old. fl_le x (fl_sub (Fl t0) w))"
      by (simp add: tracks_def)
    ultimately show ?thesis by (rule track_later [rotated])
  qed
  have few: "int (card (live_keys c hist)) < m" using u by (simp add: uncrowded_def c_def)
  note ev = evict_uncrowded [OF d s track few] and tf = track_filter [OF d sorted_hits [OF s] track]
  show ?thesis
  proof (cases "map_of (lim_hits lm) key = None \<and> m \<le> int (length (lim_hits lm))")
    case True
    then show ?thesis using ev tf d by (auto simp: distinct_map_filter)
  next
    case False
    then show ?thesis using d track by (cases "map_of (lim_hits lm) key") auto
  qed
qed

lemma limiter_refines:
  assumes t: "tracks l w m p lm hist" and u: "uncrowded m w p hist i"
  shows "snd (limiter_step lm i) = snd (spec_step l w hist i)
    \<and> tracks l w m (Some i) (fst (limiter_step lm i)) (fst (spec_step l w hist i))"
proof -
  obtain key t0 where i: "i = (key, t0)" by fastforce
  define c where "c = fl_sub (Fl t0) w"
  have l: "0 < l" and w: "w \<noteq> FNaN" and cfg: "lim_limit lm = l" "lim_window lm = w" "lim_max_clients lm = m" and s: "sorted_wrt fl_le (map snd hist)"
    using t by (simp_all add: tracks_def)
  obtain hits where hits: "(case map_of (lim_hits lm) key of
         Some _ \<Rightarrow> (lim_hits lm, ok ())
       | None \<Rightarrow> if m \<le> int (length (lim_hits lm)) then evict_locked m c (lim_hits lm) else (lim_hits lm, ok ())) = (hits, ok ())"
    and d: "distinct (map fst hits)"
    and track: "\<And>k. \<exists>old. hits_of k hist = old @ bucket_of k hits \<and> (\<forall>x \<in> set old. fl_le x c)"
    using tracks_before [OF t u [unfolded i] w, folded c_def] by blast
  define b where "b = dropWhile (\<lambda>x. fl_le x c) (bucket_of key hits)"
  obtain old where old: "hits_of key hist = old @ bucket_of key hits" "\<forall>x \<in> set old. fl_le x c" using track by blast
  have live: "live_hits c key hist = b"
    using live_bucket [OF old sorted_hits [OF s]] by (simp add: live_hits_def b_def hits_of_def)
  have split: "\<exists>old. hits_of key hist = old @ b \<and> (\<forall>x \<in> set old. fl_le x c)"
    using old by (intro exI [of _ "old @ takeWhile (\<lambda>x. fl_le x c) (bucket_of key hits)"]) (auto simp: b_def dest: set_takeWhileD)
  have past: "\<forall>x \<in> set hist. fl_le (snd x) (Fl t0)"
  proof (cases p)
    case None
    with t show ?thesis by (simp add: tracks_def)
  next
    case (Some q)
    with t u show ?thesis by (auto simp: tracks_def uncrowded_def i split: prod.splits intro: fl_le_trans)
  qed
  have "allow lm key (Fl t0) = (if l \<le> int (length b)
      then (lm\<lparr>lim_hits := AList.update key b hits\<rparr>, ok (False, py_max (Fl 0) (fl_sub (fl_add (hd b) w) (Fl t0))))
      else (lm\<lparr>lim_hits := AList.update key (b @ [Fl t0]) hits\<rparr>, ok (True, Fl 0)))"
    unfolding allow_def Let_def cfg c_def [symmetric] hits prod.case sum.case b_def [unfolded bucket_of_def, symmetric]
    using l by (cases "b = []") simp_all
  moreover have "spec_step l w hist i = (if l \<le> int (length b)
      then (hist, ok (False, py_max (Fl 0) (fl_sub (fl_add (hd b) w) (Fl t0)))) else (hist @ [(key, Fl t0)], ok (True, Fl 0)))"
    by (simp add: spec_step_def spec_allow_def i Let_def live flip: c_def)
  moreover have "tracks l w m (Some i) (lm\<lparr>lim_hits := AList.update key b hits\<rparr>) hist"
    using split track d past s cfg l w by (auto simp: tracks_def i bucket_update distinct_update simp flip: c_def)
  moreover have "tracks l w m (Some i) (lm\<lparr>lim_hits := AList.update key (b @ [Fl t0]) hits\<rparr>) (hist @ [(key, Fl t0)])"
    using split track d past s cfg l w
    by (auto simp: tracks_def i bucket_update distinct_update hits_of_snoc sorted_wrt_append simp flip: c_def)
  ultimately show ?thesis by (simp add: limiter_step_def i)
qed

interpretation window: refinement limiter_step "spec_step l w" "tracks l w m" "uncrowded m w"
  for l w m
  by unfold_locales (use limiter_refines in blast)

section \<open>Bounds\<close>

text \<open>The table never holds more clients than its capacity, nor a client more hits than the limit.\<close>

definition limiter_bounded :: "limiter \<Rightarrow> bool" where
  "limiter_bounded lm \<longleftrightarrow> 0 < lim_limit lm \<and> 0 < lim_max_clients lm \<and> distinct (map fst (lim_hits lm))
     \<and> int (length (lim_hits lm)) \<le> lim_max_clients lm
     \<and> (\<forall>e \<in> set (lim_hits lm). int (length (snd e)) \<le> lim_limit lm)"

lemma min_item_mem: "min_item x xs \<in> set (x # xs)"
  unfolding min_item_def by (induction xs arbitrary: x) auto

lemma delete_shrinks: "e \<in> set xs \<Longrightarrow> length (AList.delete (fst e) xs) < length xs"
  unfolding AList.delete_eq by (rule length_filter_less [of e]) auto

lemma evict_shrinks:
  assumes "0 < m" "m \<le> int (length hits)" "int (length hits) \<le> m" "distinct (map fst hits)"
  obtains hits' where "evict_locked m c hits = (hits', ok ())" "int (length hits') < m" "distinct (map fst hits')"
    "set hits' \<subseteq> set hits"
proof -
  define kept where "kept = filter (\<lambda>e. \<not> stale c e) hits"
  have kept: "length kept \<le> length hits" "distinct (map fst kept)" "set kept \<subseteq> set hits"
    using assms(4) by (auto simp: kept_def distinct_map_filter)
  show ?thesis
  proof (cases "int (length kept) < m")
    case True
    then show ?thesis using that [of kept] kept by (simp add: evict_locked_def flip: kept_def)
  next
    case False
    with assms(1) obtain x xs where x: "kept = x # xs" by (cases kept) auto
    have mem: "min_item x xs \<in> set kept" unfolding x by (rule min_item_mem)
    have "evict_locked m c hits = (AList.delete (fst (min_item x xs)) kept, ok ())"
      using False x by (simp add: evict_locked_def Let_def flip: kept_def)
    moreover have "int (length (AList.delete (fst (min_item x xs)) kept)) < m"
      using delete_shrinks [OF mem] kept(1) assms(3) by linarith
    moreover have "distinct (map fst (AList.delete (fst (min_item x xs)) kept))" using kept(2) by (rule distinct_delete)
    moreover have "set (AList.delete (fst (min_item x xs)) kept) \<subseteq> set hits" using kept(3) by (auto simp: AList.delete_eq)
    ultimately show ?thesis by (rule that)
  qed
qed

lemma length_update: "length (AList.update k v xs) = (if k \<in> fst ` set xs then length xs else Suc (length xs))"
  by (induction xs) auto

lemma set_update: "e \<in> set (AList.update k v xs) \<Longrightarrow> e = (k, v) \<or> e \<in> set xs"
  by (induction xs) (auto split: if_splits)

lemma allow_bounded:
  assumes "limiter_bounded lm"
  shows "limiter_bounded (fst (allow lm key moment)) \<and> (\<exists>a r. snd (allow lm key moment) = ok (a, r))"
proof -
  define c where "c = fl_sub moment (lim_window lm)"
  note b = assms [unfolded limiter_bounded_def]
  obtain hits where hits: "(case map_of (lim_hits lm) key of
         Some _ \<Rightarrow> (lim_hits lm, ok ())
       | None \<Rightarrow> if lim_max_clients lm \<le> int (length (lim_hits lm))
           then evict_locked (lim_max_clients lm) c (lim_hits lm) else (lim_hits lm, ok ())) = (hits, ok ())"
    and d: "distinct (map fst hits)" and sub: "set hits \<subseteq> set (lim_hits lm)"
    and room: "key \<in> fst ` set hits \<and> int (length hits) \<le> lim_max_clients lm \<or> int (length hits) < lim_max_clients lm"
  proof (cases "map_of (lim_hits lm) key = None \<and> lim_max_clients lm \<le> int (length (lim_hits lm))")
    case True
    obtain hits where "evict_locked (lim_max_clients lm) c (lim_hits lm) = (hits, ok ())"
      "int (length hits) < lim_max_clients lm" "distinct (map fst hits)" "set hits \<subseteq> set (lim_hits lm)"
      using evict_shrinks [of "lim_max_clients lm" "lim_hits lm" c] b True by blast
    with True that [of hits] show ?thesis by simp
  next
    case False
    then have "key \<in> fst ` set (lim_hits lm) \<or> int (length (lim_hits lm)) < lim_max_clients lm"
      by (auto simp: map_of_eq_None_iff)
    with False b that [of "lim_hits lm"] show ?thesis by (cases "map_of (lim_hits lm) key") auto
  qed
  define old where "old = bucket_of key hits"
  define bk where "bk = dropWhile (\<lambda>t. fl_le t c) old"
  have "int (length old) \<le> lim_limit lm"
    using b sub by (fastforce simp: old_def bucket_of_def dest!: map_of_SomeD split: option.split)
  moreover have "length bk \<le> length old" unfolding bk_def by (rule length_dropWhile_le)
  ultimately have len: "int (length bk) \<le> lim_limit lm" by linarith
  have keep: "limiter_bounded (lm\<lparr>lim_hits := AList.update key v hits\<rparr>)" if "int (length v) \<le> lim_limit lm" for v
    using b sub room that d by (auto simp: limiter_bounded_def length_update distinct_update dest!: set_update)
  have "allow lm key moment = (if lim_limit lm \<le> int (length bk)
      then (lm\<lparr>lim_hits := AList.update key bk hits\<rparr>,
        ok (False, py_max (Fl 0) (fl_sub (fl_add (hd bk) (lim_window lm)) moment)))
      else (lm\<lparr>lim_hits := AList.update key (bk @ [moment]) hits\<rparr>, ok (True, Fl 0)))"
    unfolding allow_def Let_def c_def [symmetric] hits prod.case sum.case
      bk_def [unfolded old_def bucket_of_def, symmetric]
    using b by (cases "bk = []") simp_all
  with keep len show ?thesis by auto
qed

section \<open>The keys\<close>

text \<open>Surfaces contain no bar, so distinct pairs of a surface and a client have distinct buckets.\<close>

lemma limiter_key_inj:
  assumes "s \<in> set THROTTLED_PATH_PREFIXES" "s' \<in> set THROTTLED_PATH_PREFIXES"
    and "limiter_key_for s k = limiter_key_for s' k'"
  shows "s = s' \<and> k = k'"
proof -
  have bar: "CHR ''|'' \<notin> set t" if "t \<in> set THROTTLED_PATH_PREFIXES" for t
    using that by (auto simp: THROTTLED_PATH_PREFIXES_def)
  have cut: "takeWhile (\<lambda>c. c \<noteq> CHR ''|'') (limiter_key_for t x) = t" if "t \<in> set THROTTLED_PATH_PREFIXES" for t x
    using bar [OF that] by (simp add: limiter_key_for_def takeWhile_tail, induction t) auto
  have "s = s'" using cut assms by metis
  with assms(3) show ?thesis by (simp add: limiter_key_for_def)
qed

lemma surface_throttled: "throttled_surface_for path = Some s \<Longrightarrow> s \<in> set THROTTLED_PATH_PREFIXES \<and> prefix s path"
  by (auto simp: throttled_surface_for_def find_Some_iff)

lemma config_positive: "0 < limit_for env" "fl_less (Fl 0) (window_seconds_for env)"
  by (auto simp: limit_for_def rate_positive_int_def DEFAULT_LIMIT_def window_seconds_for_def positive_float_def
      DEFAULT_WINDOW_SECONDS_def split: option.splits)

text \<open>The limiter a process keeps: bounded, and built from the configuration it is stored with.\<close>

definition cache_ok :: "limiter_cache \<Rightarrow> bool" where
  "cache_ok cache \<longleftrightarrow> (case cache of None \<Rightarrow> True
     | Some (lm, l, w) \<Rightarrow> limiter_bounded lm \<and> lim_limit lm = l \<and> lim_window lm = w \<and> lim_max_clients lm = MAX_TRACKED_CLIENTS)"

lemma limiter_for_ok:
  "cache_ok cache \<Longrightarrow> limiter_bounded (limiter_for env cache) \<and> lim_limit (limiter_for env cache) = limit_for env
    \<and> lim_window (limiter_for env cache) = window_seconds_for env \<and> lim_max_clients (limiter_for env cache) = MAX_TRACKED_CLIENTS"
  using config_positive(1) [of env]
  by (auto simp: cache_ok_def limiter_for_def Let_def sliding_window_limiter_def limiter_bounded_def MAX_TRACKED_CLIENTS_def
      split: option.splits)

lemma allow_config: "lim_limit (fst (allow lm k t)) = lim_limit lm" "lim_window (fst (allow lm k t)) = lim_window lm"
  "lim_max_clients (fst (allow lm k t)) = lim_max_clients lm"
  by (auto simp: allow_def Let_def split: prod.splits sum.splits option.splits if_splits)

section \<open>Properties\<close>

text \<open>
  C20. The limiter refines the log of admitted hits: on every sequence of calls by a clock that does
  not go back, in which fewer than \<open>max_clients\<close> keys have a live hit at a time, each call is
  admitted exactly when fewer than \<open>limit\<close> admitted hits of its key lie inside the window, and a
  refused call is told when the oldest of them leaves it.
\<close>

theorem limiter_refines_window:
  assumes "0 < l" "w \<noteq> FNaN" "admissible (spec_step l w) (uncrowded m w) None [] calls"
  shows "outputs limiter_step (sliding_window_limiter l w m) calls = outputs (spec_step l w) [] calls"
  by (rule window.outputs_agree [OF _ assms(3)]) (simp add: tracks_def sliding_window_limiter_def assms)

definition demo_calls :: "(string \<times> rat) list" where
  "demo_calls = [(''a'', 0), (''a'', 30), (''b'', 30), (''a'', 60)]"

theorem limiter_refines_window_witness:
  "outputs limiter_step (sliding_window_limiter 1 (Fl 60) 2) demo_calls
    = [ok (True, Fl 0), ok (False, Fl 30), ok (True, Fl 0), ok (True, Fl 0)]"
proof -
  have "admissible (spec_step 1 (Fl 60)) (uncrowded 2 (Fl 60)) None [] demo_calls" by code_simp
  moreover have "outputs (spec_step 1 (Fl 60)) [] demo_calls = [ok (True, Fl 0), ok (False, Fl 30), ok (True, Fl 0), ok (True, Fl 0)]"
    by code_simp
  ultimately show ?thesis using limiter_refines_window [of 1 "Fl 60" 2 demo_calls] by simp
qed

text \<open>
  C21. Whatever requests arrive and whatever the clock reads, the limiter never fails, so no request
  passes a throttled surface unchecked; its table stays within \<open>MAX_TRACKED_CLIENTS\<close> clients and
  \<open>limit\<close> hits for each; and only requests to a throttled surface are refused.
\<close>

theorem rate_limit_bounded_and_checked:
  assumes "cache_ok cache" "rate_decision env now cache rq = (cache', evs, d)"
  shows "cache_ok cache' \<and> (\<forall>e. RateLimitBypassed e \<notin> set evs) \<and> (d \<noteq> None \<longrightarrow> path_is_throttled (rq_path rq))"
proof (cases "throttled_surface_for (rq_path rq)")
  case None
  with assms show ?thesis by (auto simp: rate_decision_def)
next
  case (Some surface)
  define key where "key = limiter_key_for surface (client_key_for rq)"
  note cfg = limiter_for_ok [OF assms(1), of env]
  from allow_bounded [of "limiter_for env cache" key now] cfg
  obtain lm a t where al: "allow (limiter_for env cache) key now = (lm, ok (a, t))" and b: "limiter_bounded lm"
    by (metis prod.collapse)
  have lm: "lim_limit lm = limit_for env" "lim_window lm = window_seconds_for env" "lim_max_clients lm = MAX_TRACKED_CLIENTS"
    using allow_config [of "limiter_for env cache" key now] cfg by (simp_all add: al)
  have ok: "cache_ok (Some (lm, limit_for env, window_seconds_for env))" using b lm by (simp add: cache_ok_def)
  show ?thesis using assms(2) Some al ok
    by (auto simp: rate_decision_def Let_def path_is_throttled_def simp flip: key_def split: if_splits sum.splits)
qed

definition demo_rate_env :: environ where
  "demo_rate_env name = (if name = ''VITRIAL_AUTH_RATE_LIMIT'' then Some ''1''
     else if name = ''VITRIAL_AUTH_RATE_WINDOW_SECONDS'' then Some '' inf'' else None)"

definition demo_rate_request :: http_request where
  "demo_rate_request = \<lparr>rq_path = ''/metrics'', rq_method = ''GET'', rq_headers = [(''x-forwarded-for'', ''10.0.0.1, 10.0.0.2'')],
     rq_client = None\<rparr>"

definition demo_cache :: limiter_cache where
  "demo_cache = fst (rate_decision demo_rate_env (Fl 0) None demo_rate_request)"

lemma demo_first_request: "rate_decision demo_rate_env (Fl 0) None demo_rate_request = (demo_cache, [], None)"
  by code_simp

theorem rate_limit_bounded_and_checked_witness: "cache_ok demo_cache"
  using rate_limit_bounded_and_checked [OF _ demo_first_request] by (simp add: cache_ok_def)

text \<open>
  With an infinite window, which the configuration accepts, the refusal itself raises: the waiting
  time is infinite and has no integer part.
\<close>

lemma infinite_window_refusal_raises:
  "rate_decision demo_rate_env (Fl 1) demo_cache demo_rate_request = (demo_cache, [], Some (raise OverflowError))"
  by code_simp

end
