(* ===== verification/Metrics.thy ===== *)
theory Metrics
  imports Request_Size
begin

text \<open>
  The metrics of the service, \<open>app/metrics.py\<close>: the guard against unbounded label sets, counters,
  gauges and histograms, and the text exposition. The dictionary of a metric is an association list
  in insertion order; the printed form of a float that is not a small integer (\<open>repr\<close>) is the
  argument \<open>repr\<close>. The lock serializes the operations, each of which is one function here.
\<close>

section \<open>Label sets\<close>

type_synonym labels = "(string \<times> string) list"

text \<open>\<open>str.replace\<close> of one character.\<close>

definition replace_char :: "char \<Rightarrow> string \<Rightarrow> string \<Rightarrow> string" where
  "replace_char c r s = concat (map (\<lambda>x. if x = c then r else [x]) s)"

definition escape_label_value :: "string \<Rightarrow> string" where
  "escape_label_value s =
     replace_char (CHR 0x0A) [CHR 0x5C, CHR ''n''] (replace_char (CHR 0x22) [CHR 0x5C, CHR 0x22]
       (replace_char (CHR 0x5C) [CHR 0x5C, CHR 0x5C] s))"

record bounded_labels =
  bl_max_series :: nat
  bl_seen :: "string list list"
  bl_dropped_total :: nat

definition MAX_SERIES :: nat where
  "MAX_SERIES = 2000"

definition new_guard :: bounded_labels where
  "new_guard = \<lparr>bl_max_series = MAX_SERIES, bl_seen = [], bl_dropped_total = 0\<rparr>"

definition admit :: "bounded_labels \<Rightarrow> string list \<Rightarrow> bounded_labels \<times> bool" where
  "admit g key =
    (if key \<in> set (bl_seen g) then (g, True)
     else if bl_max_series g \<le> length (bl_seen g) then (g\<lparr>bl_dropped_total := bl_dropped_total g + 1\<rparr>, False)
     else (g\<lparr>bl_seen := bl_seen g @ [key]\<rparr>, True))"

definition label_key :: "string list \<Rightarrow> labels \<Rightarrow> string list res" where
  "label_key labelnames ls =
    (if \<not> list_all (\<lambda>kv. fst kv \<in> set labelnames) ls then raise KeyError
     else ok (map (\<lambda>n. case map_of ls n of None \<Rightarrow> [] | Some v \<Rightarrow> v) labelnames))"

section \<open>Counters and gauges\<close>

record metric =
  m_name :: string
  m_help :: string
  m_labelnames :: "string list"
  m_guard :: bounded_labels

record counter = metric +
  c_values :: "(string list \<times> fl) list"

record histogram = metric +
  h_buckets :: "fl list"
  h_counts :: "(string list \<times> fl list) list"
  h_sums :: "(string list \<times> fl) list"

definition new_counter :: "string \<Rightarrow> string \<Rightarrow> string list \<Rightarrow> counter" where
  "new_counter name help labelnames =
    \<lparr>m_name = name, m_help = help, m_labelnames = labelnames, m_guard = new_guard, c_values = []\<rparr>"

definition dict_put :: "'k \<Rightarrow> 'v \<Rightarrow> ('k \<times> 'v) list \<Rightarrow> ('k \<times> 'v) list" where
  "dict_put k v d = (if map_of d k = None then d @ [(k, v)] else map (\<lambda>kv. if fst kv = k then (k, v) else kv) d)"

definition get_or_zero :: "(string list \<times> fl) list \<Rightarrow> string list \<Rightarrow> fl" where
  "get_or_zero d k = (case map_of d k of None \<Rightarrow> Fl 0 | Some v \<Rightarrow> v)"

definition counter_inc :: "counter \<Rightarrow> fl \<Rightarrow> labels \<Rightarrow> counter \<times> unit res" where
  "counter_inc c amount ls = (case label_key (m_labelnames c) ls of
     Inl e \<Rightarrow> (c, raise e)
   | Inr key \<Rightarrow> (case admit (m_guard c) key of (g, admitted) \<Rightarrow>
       (if admitted then c\<lparr>m_guard := g, c_values := dict_put key (fl_add (get_or_zero (c_values c) key) amount) (c_values c)\<rparr>
        else c\<lparr>m_guard := g\<rparr>, ok ())))"

text \<open>\<open>Gauge.set\<close>; a gauge has the state of a counter.\<close>

definition gauge_set :: "counter \<Rightarrow> fl \<Rightarrow> labels \<Rightarrow> counter \<times> unit res" where
  "gauge_set c v ls = (case label_key (m_labelnames c) ls of
     Inl e \<Rightarrow> (c, raise e)
   | Inr key \<Rightarrow> (case admit (m_guard c) key of (g, admitted) \<Rightarrow>
       (if admitted then c\<lparr>m_guard := g, c_values := dict_put key v (c_values c)\<rparr> else c\<lparr>m_guard := g\<rparr>, ok ())))"

definition counter_value :: "counter \<Rightarrow> labels \<Rightarrow> fl res" where
  "counter_value c ls = ebind (label_key (m_labelnames c) ls) (\<lambda>key. ok (get_or_zero (c_values c) key))"

section \<open>Histograms\<close>

definition LATENCY_BUCKETS :: "fl list" where
  "LATENCY_BUCKETS = map (\<lambda>n. fl_round (of_int n / 1000))
     [5, 10, 25, 50, 100, 250, 500, 1000, 2500, 5000, 10000, 30000, 60000]"

text \<open>The constructor sorts the bounds; those of the module are in ascending order already.\<close>

definition new_histogram :: "string \<Rightarrow> string \<Rightarrow> string list \<Rightarrow> fl list \<Rightarrow> histogram" where
  "new_histogram name help labelnames buckets =
    \<lparr>m_name = name, m_help = help, m_labelnames = labelnames, m_guard = new_guard,
     h_buckets = buckets, h_counts = [], h_sums = []\<rparr>"

text \<open>The counts after one observation: every bucket whose bound is not below it, and the total.\<close>

definition bump :: "fl list \<Rightarrow> fl \<Rightarrow> fl list \<Rightarrow> fl list" where
  "bump buckets v counts =
    map (\<lambda>(bound, n). if fl_le v bound then fl_add n (Fl 1) else n) (zip buckets counts) @ [fl_add (last counts) (Fl 1)]"

definition observe :: "histogram \<Rightarrow> fl \<Rightarrow> labels \<Rightarrow> histogram \<times> unit res" where
  "observe h v ls = (case label_key (m_labelnames h) ls of
     Inl e \<Rightarrow> (h, raise e)
   | Inr key \<Rightarrow> (case admit (m_guard h) key of (g, admitted) \<Rightarrow>
       (if admitted then
          let counts = (case map_of (h_counts h) key of None \<Rightarrow> replicate (length (h_buckets h) + 1) (Fl 0) | Some c \<Rightarrow> c)
          in h\<lparr>m_guard := g, h_counts := dict_put key (bump (h_buckets h) v counts) (h_counts h),
               h_sums := dict_put key (fl_add (get_or_zero (h_sums h) key) v) (h_sums h)\<rparr>
        else h\<lparr>m_guard := g\<rparr>, ok ())))"

definition histogram_count :: "histogram \<Rightarrow> labels \<Rightarrow> fl res" where
  "histogram_count h ls = ebind (label_key (m_labelnames h) ls) (\<lambda>key.
     ok (case map_of (h_counts h) key of None \<Rightarrow> Fl 0 | Some counts \<Rightarrow> last counts))"

definition gauge_value :: "counter \<Rightarrow> labels \<Rightarrow> fl" where
  "gauge_value c ls = get_or_zero (c_values c) (map (\<lambda>n. case map_of ls n of None \<Rightarrow> [] | Some v \<Rightarrow> v) (m_labelnames c))"

definition counter_series_keys :: "counter \<Rightarrow> string list list" where
  "counter_series_keys c = sort (map fst (c_values c))"

text \<open>What \<open>Registry.reset\<close> does to one metric.\<close>

definition guard_reset :: "bounded_labels \<Rightarrow> bounded_labels" where
  "guard_reset g = g\<lparr>bl_seen := [], bl_dropped_total := 0\<rparr>"

definition counter_reset :: "counter \<Rightarrow> counter" where
  "counter_reset c = c\<lparr>c_values := [], m_guard := guard_reset (m_guard c)\<rparr>"

definition histogram_reset :: "histogram \<Rightarrow> histogram" where
  "histogram_reset h = h\<lparr>h_counts := [], h_sums := [], m_guard := guard_reset (m_guard h)\<rparr>"

section \<open>Exposition\<close>

definition fmt :: "(fl \<Rightarrow> string) \<Rightarrow> fl \<Rightarrow> string" where
  "fmt repr v = (case v of
     FInf neg \<Rightarrow> if neg then repr v else ''+Inf''
   | FNaN \<Rightarrow> repr v
   | Fl q \<Rightarrow> if of_int \<lfloor>q\<rfloor> = q \<and> \<bar>q\<bar> < 10 ^ 15 then show_int \<lfloor>q\<rfloor> else repr v)"

definition label_pair :: "string \<times> string \<Rightarrow> string" where
  "label_pair nv = fst nv @ ''='' @ [CHR 0x22] @ escape_label_value (snd nv) @ [CHR 0x22]"

definition label_text :: "string list \<Rightarrow> string list \<Rightarrow> string" where
  "label_text labelnames key = (if labelnames = [] then [] else ''{'' @ join '','' (map label_pair (zip labelnames key)) @ ''}'')"

definition histogram_labels :: "string list \<Rightarrow> string list \<Rightarrow> string option \<Rightarrow> string" where
  "histogram_labels labelnames key le =
    (let pairs = map label_pair (zip labelnames key)
         @ (case le of None \<Rightarrow> [] | Some b \<Rightarrow> [''le='' @ [CHR 0x22] @ b @ [CHR 0x22]])
     in if pairs = [] then [] else ''{'' @ join '','' pairs @ ''}'')"

definition metric_head :: "('a) metric_scheme \<Rightarrow> string \<Rightarrow> string list" where
  "metric_head m kind = [''# HELP '' @ m_name m @ '' '' @ m_help m, ''# TYPE '' @ m_name m @ '' '' @ kind]"

definition counter_lines :: "(fl \<Rightarrow> string) \<Rightarrow> string \<Rightarrow> counter \<Rightarrow> string list" where
  "counter_lines repr kind c = (let keys = sort (map fst (c_values c)) in
     metric_head c kind
     @ (if keys = [] \<and> m_labelnames c = [] then [m_name c @ '' 0''] else [])
     @ map (\<lambda>key. m_name c @ label_text (m_labelnames c) key @ '' '' @ fmt repr (get_or_zero (c_values c) key)) keys)"

definition histogram_lines :: "(fl \<Rightarrow> string) \<Rightarrow> histogram \<Rightarrow> string list" where
  "histogram_lines repr h = metric_head h ''histogram'' @
     concat (map (\<lambda>key. let counts = (case map_of (h_counts h) key of None \<Rightarrow> [] | Some c \<Rightarrow> c); whole = last counts in
        map (\<lambda>(bound, n). m_name h @ ''_bucket'' @ histogram_labels (m_labelnames h) key (Some (fmt repr bound)) @ '' '' @ fmt repr n)
          (zip (h_buckets h) counts)
        @ [m_name h @ ''_bucket'' @ histogram_labels (m_labelnames h) key (Some ''+Inf'') @ '' '' @ fmt repr whole,
           m_name h @ ''_sum'' @ histogram_labels (m_labelnames h) key None @ '' '' @ fmt repr (get_or_zero (h_sums h) key),
           m_name h @ ''_count'' @ histogram_labels (m_labelnames h) key None @ '' '' @ fmt repr whole])
      (sort (map fst (h_counts h))))"

datatype registered = Counter counter | Gauge counter | Histogram histogram

definition metric_lines :: "(fl \<Rightarrow> string) \<Rightarrow> registered \<Rightarrow> string list" where
  "metric_lines repr m = (case m of
     Counter c \<Rightarrow> counter_lines repr ''counter'' c
   | Gauge c \<Rightarrow> counter_lines repr ''gauge'' c
   | Histogram h \<Rightarrow> histogram_lines repr h)"

definition guard_of :: "registered \<Rightarrow> bounded_labels" where
  "guard_of m = (case m of Counter c \<Rightarrow> m_guard c | Gauge c \<Rightarrow> m_guard c | Histogram h \<Rightarrow> m_guard h)"

definition newline :: string where
  "newline = [CHR 0x0A]"

definition render :: "(fl \<Rightarrow> string) \<Rightarrow> registered list \<Rightarrow> string" where
  "render repr ms = join newline (map (\<lambda>m. join newline (metric_lines repr m)) ms
     @ [join newline
         [''# HELP vitrial_metrics_label_series_dropped_total Label series refused because the cardinality cap was reached.'',
          ''# TYPE vitrial_metrics_label_series_dropped_total counter'',
          ''vitrial_metrics_label_series_dropped_total '' @ show_nat (sum_list (map (\<lambda>m. bl_dropped_total (guard_of m)) ms))]])
     @ newline"

section \<open>The registry\<close>

text \<open>The metrics of the process, in the order of their registration.\<close>

record registry =
  requests_total :: counter
  request_duration_seconds :: histogram
  request_status_total :: counter
  sync_mutations_total :: counter
  sync_pull_page_size :: histogram
  sync_pull_truncated_total :: counter
  auth_failures_total :: counter
  db_pool_checked_out :: counter
  db_pool_size :: counter
  db_pool_saturated :: counter
  object_store_operation_duration_seconds :: histogram
  evidence_gc_total :: counter
  evidence_gc_backlog :: counter
  drain_active :: counter
  service_info :: counter

definition registered_metrics :: "registry \<Rightarrow> registered list" where
  "registered_metrics r =
    [Counter (requests_total r), Histogram (request_duration_seconds r), Counter (request_status_total r),
     Counter (sync_mutations_total r), Histogram (sync_pull_page_size r), Counter (sync_pull_truncated_total r),
     Counter (auth_failures_total r), Gauge (db_pool_checked_out r), Gauge (db_pool_size r), Gauge (db_pool_saturated r),
     Histogram (object_store_operation_duration_seconds r), Counter (evidence_gc_total r), Gauge (evidence_gc_backlog r),
     Gauge (drain_active r), Gauge (service_info r)]"

definition new_registry :: registry where
  "new_registry =
    \<lparr>requests_total = new_counter ''vitrial_requests_total'' ''HTTP requests by route template, method and status class.''
       [''route'', ''method'', ''status_class''],
     request_duration_seconds = new_histogram ''vitrial_request_duration_seconds''
       ''Request latency by route template and method.'' [''route'', ''method''] LATENCY_BUCKETS,
     request_status_total = new_counter ''vitrial_request_status_total''
       ''HTTP responses by route template, method and exact status code.'' [''route'', ''method'', ''status''],
     sync_mutations_total = new_counter ''vitrial_sync_mutations_total'' ''Sync mutations by stable outcome code.'' [''code''],
     sync_pull_page_size = new_histogram ''vitrial_sync_pull_page_size'' ''Records delivered per pull page.'' []
       [Fl 0, Fl 1, Fl 5, Fl 10, Fl 25, Fl 50, Fl 100, Fl 200, Fl 400, Fl 800],
     sync_pull_truncated_total = new_counter ''vitrial_sync_pull_truncated_total''
       ''Pulls whose page stopped early because the next record exceeded the page ceiling.'' [],
     auth_failures_total = new_counter ''vitrial_auth_failures_total'' ''Authorization failures by reason.'' [''reason''],
     db_pool_checked_out = new_counter ''vitrial_db_pool_checked_out''
       ''Connections currently checked out of the SQLAlchemy pool.'' [],
     db_pool_size = new_counter ''vitrial_db_pool_size'' ''Configured SQLAlchemy pool size, or 0 when running NullPool.'' [],
     db_pool_saturated = new_counter ''vitrial_db_pool_saturated''
       ''1 when every pooled connection is checked out (pool exhausted), else 0.'' [],
     object_store_operation_duration_seconds = new_histogram ''vitrial_object_store_operation_duration_seconds''
       ''Object storage latency by operation.'' [''operation''] LATENCY_BUCKETS,
     evidence_gc_total = new_counter ''vitrial_evidence_gc_total'' ''Evidence GC outcomes by result.'' [''result''],
     evidence_gc_backlog = new_counter ''vitrial_evidence_gc_backlog''
       (''Evidence GC queue depth: state=queued is every row, state=due is rows past ''
        @ ''their grace period that the collector should already have removed.'') [''state''],
     drain_active = new_counter ''vitrial_drain_active''
       ''1 while this instance is draining (SIGTERM received, in-flight work finishing), else 0.'' [],
     service_info = new_counter ''vitrial_service_info'' ''Build info; value is always 1.'' [''service_version'']\<rparr>"

definition registry_reset :: "registry \<Rightarrow> registry" where
  "registry_reset r =
    \<lparr>requests_total = counter_reset (requests_total r),
     request_duration_seconds = histogram_reset (request_duration_seconds r),
     request_status_total = counter_reset (request_status_total r),
     sync_mutations_total = counter_reset (sync_mutations_total r),
     sync_pull_page_size = histogram_reset (sync_pull_page_size r),
     sync_pull_truncated_total = counter_reset (sync_pull_truncated_total r),
     auth_failures_total = counter_reset (auth_failures_total r),
     db_pool_checked_out = counter_reset (db_pool_checked_out r),
     db_pool_size = counter_reset (db_pool_size r),
     db_pool_saturated = counter_reset (db_pool_saturated r),
     object_store_operation_duration_seconds = histogram_reset (object_store_operation_duration_seconds r),
     evidence_gc_total = counter_reset (evidence_gc_total r),
     evidence_gc_backlog = counter_reset (evidence_gc_backlog r),
     drain_active = counter_reset (drain_active r),
     service_info = counter_reset (service_info r)\<rparr>"

text \<open>
  \<open>refresh_dependency_gauges\<close>: \<open>pool\<close> is what the pool reports (its size and the connections checked
  out), \<open>None\<close> under \<open>NullPool\<close>, whose class has neither method. The pool of the engine raises nowhere.
\<close>

definition refresh_dependency_gauges :: "string \<Rightarrow> (int \<times> int) option \<Rightarrow> registry \<Rightarrow> registry" where
  "refresh_dependency_gauges version pool r =
    (let r1 = r\<lparr>service_info := fst (gauge_set (service_info r) (Fl 1) [(''service_version'', version)])\<rparr>;
         (size, used) = (case pool of Some p \<Rightarrow> p | None \<Rightarrow> (0, 0))
     in r1\<lparr>db_pool_size := fst (gauge_set (db_pool_size r1) (fl_round (of_int size)) []),
           db_pool_checked_out := fst (gauge_set (db_pool_checked_out r1) (fl_round (of_int used)) []),
           db_pool_saturated := fst (gauge_set (db_pool_saturated r1) (Fl (if 0 < size \<and> size \<le> used then 1 else 0)) [])\<rparr>)"

text \<open>\<open>refresh_gc_backlog\<close>: the two counts of the queue, or \<open>None\<close> when the database fails.\<close>

definition refresh_gc_backlog :: "(nat \<times> nat) option \<Rightarrow> registry \<Rightarrow> registry" where
  "refresh_gc_backlog counts r = (case counts of
     None \<Rightarrow> r
   | Some (whole, due) \<Rightarrow>
       let r1 = r\<lparr>evidence_gc_backlog := fst (gauge_set (evidence_gc_backlog r) (fl_round (of_nat whole)) [(''state'', ''queued'')])\<rparr>
       in r1\<lparr>evidence_gc_backlog := fst (gauge_set (evidence_gc_backlog r1) (fl_round (of_nat due)) [(''state'', ''due'')])\<rparr>)"

end
