(* ===== verification/Observability.thy ===== *)
theory Observability
  imports Py_Number Sync_Push
begin

text \<open>
  Request identity and logging, \<open>app/observability.py\<close>: the request id and trace context taken from
  headers, the request context, redaction and the JSON lines of the log.

  Fresh random values (\<open>uuid.uuid4\<close>, \<open>secrets.token_hex\<close>) are arguments. The values of a log line
  are JSON values; a log record is the text \<open>JsonFormatter\<close> writes.
\<close>

section \<open>Request ids\<close>

text \<open>\<open>s.replace(pat, "")\<close>.\<close>

function remove_all :: "string \<Rightarrow> string \<Rightarrow> string" where
  "remove_all pat s = (if pat = [] then s else case s of
     [] \<Rightarrow> []
   | c # cs \<Rightarrow> if prefix pat s then remove_all pat (drop (length pat) s) else c # remove_all pat cs)"
  by pat_completeness auto
termination by (relation "measure (\<lambda>(_, s). length s)") auto

declare remove_all.simps [simp del]

definition hex_value :: "char \<Rightarrow> nat option" where
  "hex_value c = (let n = (of_char c :: nat) in
     if 48 \<le> n \<and> n \<le> 57 then Some (n - 48)
     else if 97 \<le> n \<and> n \<le> 102 then Some (n - 87)
     else if 65 \<le> n \<and> n \<le> 70 then Some (n - 55) else None)"

definition is_hex :: "char \<Rightarrow> bool" where
  "is_hex c \<longleftrightarrow> hex_value c \<noteq> None"

definition parse_hex :: "string \<Rightarrow> nat" where
  "parse_hex s = foldl (\<lambda>n c. 16 * n + the (hex_value c)) 0 s"

fun hex_underscores :: "bool \<Rightarrow> string \<Rightarrow> string option" where
  "hex_underscores d [] = Some []"
| "hex_underscores d (c # cs) =
     (if c = CHR ''_'' then (if d \<and> cs \<noteq> [] \<and> is_hex (hd cs) then hex_underscores False cs else None)
      else map_option ((#) c) (hex_underscores (is_hex c) cs))"

text \<open>\<open>int(text, 16)\<close>, which skips white space, a sign, the prefix \<open>0x\<close> and underscores between digits.\<close>

definition py_int16 :: "string \<Rightarrow> int option" where
  "py_int16 s = (let (neg, b) = split_sign (trim num_isspace s);
       pre = 2 \<le> length b \<and> b ! 0 = CHR ''0'' \<and> ascii_lower (b ! 1) = CHR ''x'';
       digits = (if pre then (case drop 2 b of c # cs \<Rightarrow> if c = CHR ''_'' then cs else c # cs | [] \<Rightarrow> []) else b)
     in case hex_underscores False digits of
       None \<Rightarrow> None
     | Some ds \<Rightarrow> if ds = [] \<or> \<not> list_all is_hex ds then None
         else Some (if neg then - int (parse_hex ds) else int (parse_hex ds)))"

text \<open>\<open>uuid.UUID(text)\<close>: \<open>None\<close> is the \<open>ValueError\<close>.\<close>

definition uuid_of_text :: "string \<Rightarrow> nat option" where
  "uuid_of_text v = (let h = remove_all ''-'' (trim (\<lambda>c. c = CHR ''{'' \<or> c = CHR ''}'') (remove_all ''uuid:'' (remove_all ''urn:'' v)))
     in if length h \<noteq> 32 then None
        else case py_int16 h of None \<Rightarrow> None | Some n \<Rightarrow> if 0 \<le> n \<and> n < 2 ^ 128 then Some (nat n) else None)"

definition hex_digits :: "nat \<Rightarrow> nat \<Rightarrow> string" where
  "hex_digits k n = map (\<lambda>i. hex_digit (n div 16 ^ i mod 16)) (rev [0..<k])"

text \<open>\<open>str(uuid)\<close>.\<close>

definition uuid_text :: "nat \<Rightarrow> string" where
  "uuid_text n = (let h = hex_digits 32 n in
     take 8 h @ ''-'' @ take 4 (drop 8 h) @ ''-'' @ take 4 (drop 12 h) @ ''-'' @ take 4 (drop 16 h) @ ''-'' @ drop 20 h)"

definition request_id_for_header :: "nat \<Rightarrow> string option \<Rightarrow> string" where
  "request_id_for_header fresh v = (case v of
     None \<Rightarrow> uuid_text fresh
   | Some s \<Rightarrow> if s = [] then uuid_text fresh
       else (case uuid_of_text s of Some n \<Rightarrow> uuid_text n | None \<Rightarrow> uuid_text fresh))"

section \<open>Trace context\<close>

record trace_context =
  tc_trace_id :: string
  tc_span_id :: string
  tc_parent_span_id :: "string option"
  tc_sampled :: bool

definition lower_hex :: "char \<Rightarrow> bool" where
  "lower_hex c \<longleftrightarrow> (let n = (of_char c :: nat) in 48 \<le> n \<and> n \<le> 57 \<or> 97 \<le> n \<and> n \<le> 102)"

text \<open>\<open>_TRACEPARENT.fullmatch\<close>: the three groups of \<open>00-(32)-(16)-(2)\<close>.\<close>

definition traceparent_match :: "string \<Rightarrow> (string \<times> string \<times> string) option" where
  "traceparent_match s = (let t = take 32 (drop 3 s); p = take 16 (drop 36 s); f = drop 53 s in
     if length s = 55 \<and> take 3 s = ''00-'' \<and> list_all lower_hex t \<and> s ! 35 = CHR ''-''
       \<and> list_all lower_hex p \<and> s ! 52 = CHR ''-'' \<and> list_all lower_hex f
     then Some (t, p, f) else None)"

definition trace_context_for_header :: "string \<Rightarrow> string \<Rightarrow> string option \<Rightarrow> trace_context" where
  "trace_context_for_header span_id trace_id v =
    (let new = \<lparr>tc_trace_id = trace_id, tc_span_id = span_id, tc_parent_span_id = None, tc_sampled = False\<rparr> in
     case v of
       None \<Rightarrow> new
     | Some s \<Rightarrow> if s = [] then new else
        (case traceparent_match (py_strip s) of
           None \<Rightarrow> new
         | Some (t, p, f) \<Rightarrow> if t \<noteq> replicate 32 (CHR ''0'') \<and> p \<noteq> replicate 16 (CHR ''0'')
             then \<lparr>tc_trace_id = t, tc_span_id = span_id, tc_parent_span_id = Some p, tc_sampled = odd (parse_hex f)\<rparr>
             else new))"

definition release_char :: "char \<Rightarrow> bool" where
  "release_char c \<longleftrightarrow> (let n = (of_char c :: nat) in 48 \<le> n \<and> n \<le> 57 \<or> 65 \<le> n \<and> n \<le> 90 \<or> 97 \<le> n \<and> n \<le> 122)
     \<or> c \<in> set ''._+-''"

definition release_value :: "string option \<Rightarrow> string option" where
  "release_value v = (case v of
     None \<Rightarrow> None
   | Some s \<Rightarrow> let normalized = py_strip s in
       if s = [] \<or> normalized = [] \<or> 64 < length normalized \<or> \<not> list_all release_char normalized then None else Some normalized)"

section \<open>Request context\<close>

text \<open>The context variables of the module; a token holds the value a variable had when it was set.\<close>

record request_context =
  rc_request_id :: "string option"
  rc_organization_ref :: "string option"
  rc_actor_ref :: "string option"
  rc_membership_ref :: "string option"
  rc_session_ref :: "string option"
  rc_device_ref :: "string option"
  rc_app_version :: "string option"
  rc_app_build :: "string option"
  rc_trace_id :: "string option"
  rc_span_id :: "string option"
  rc_parent_span_id :: "string option"

definition begin_request :: "request_context \<Rightarrow> string \<Rightarrow> trace_context \<Rightarrow> request_context \<times> request_context" where
  "begin_request ctx request_id trace =
    (ctx,
     \<lparr>rc_request_id = Some request_id, rc_organization_ref = None, rc_actor_ref = None, rc_membership_ref = None,
      rc_session_ref = None, rc_device_ref = None, rc_app_version = None, rc_app_build = None,
      rc_trace_id = Some (tc_trace_id trace), rc_span_id = Some (tc_span_id trace),
      rc_parent_span_id = tc_parent_span_id trace\<rparr>)"

definition end_request :: "request_context \<Rightarrow> request_context \<Rightarrow> request_context" where
  "end_request tokens ctx = ctx\<lparr>rc_parent_span_id := rc_parent_span_id tokens, rc_span_id := rc_span_id tokens,
     rc_trace_id := rc_trace_id tokens, rc_app_build := rc_app_build tokens, rc_app_version := rc_app_version tokens,
     rc_device_ref := rc_device_ref tokens, rc_session_ref := rc_session_ref tokens,
     rc_membership_ref := rc_membership_ref tokens, rc_actor_ref := rc_actor_ref tokens,
     rc_organization_ref := rc_organization_ref tokens, rc_request_id := rc_request_id tokens\<rparr>"

definition bind_request_metadata ::
  "lib \<Rightarrow> string option \<Rightarrow> string option \<Rightarrow> string option \<Rightarrow> request_context \<Rightarrow> request_context" where
  "bind_request_metadata lib device_id app_version app_build ctx =
    ctx\<lparr>rc_device_ref := (case device_id of None \<Rightarrow> None
          | Some d \<Rightarrow> if py_strip d \<noteq> [] then correlation_ref lib (Some (py_strip d)) else None),
        rc_app_version := release_value app_version, rc_app_build := release_value app_build\<rparr>"

definition bind_principal :: "lib \<Rightarrow> principal \<Rightarrow> request_context \<Rightarrow> request_context" where
  "bind_principal lib p ctx =
    ctx\<lparr>rc_organization_ref := correlation_ref lib (Some (organization_id p)),
        rc_actor_ref := correlation_ref lib (Some (user_id p)),
        rc_membership_ref := correlation_ref lib (Some (membership_id p)),
        rc_session_ref := correlation_ref lib (Some (session_id p))\<rparr>"

section \<open>Redaction\<close>

definition SENSITIVE_KEYS :: "string list" where
  "SENSITIVE_KEYS = [''authorization'', ''proxyauthorization'', ''bearer'', ''cookie'', ''setcookie'', ''credential'',
     ''credentials'', ''password'', ''secret'', ''apikey'', ''accesstoken'', ''refreshtoken'', ''xvitrialadminkey'']"

text \<open>The lower-case letters and digits of a key; letters outside ASCII are dropped.\<close>

definition compact_key :: "string \<Rightarrow> string" where
  "compact_key key = filter (\<lambda>c. let n = (of_char c :: nat) in 97 \<le> n \<and> n \<le> 122 \<or> 48 \<le> n \<and> n \<le> 57) (map ascii_lower key)"

definition sensitive_key :: "string \<Rightarrow> bool" where
  "sensitive_key key \<longleftrightarrow> (let compact = compact_key key in
     compact \<in> set SENSITIVE_KEYS \<or> suffix ''token'' compact \<or> suffix ''password'' compact \<or> suffix ''secret'' compact)"

definition REDACTED :: json where
  "REDACTED = JStr ''<redacted>''"

fun redact :: "json \<Rightarrow> json" where
  "redact (JObj d) = JObj (map (\<lambda>kv. (fst kv, if sensitive_key (fst kv) then REDACTED else redact (snd kv))) d)"
| "redact (JList xs) = JList (map redact xs)"
| "redact v = v"

section \<open>Log lines\<close>

definition opt_str :: "string option \<Rightarrow> json" where
  "opt_str v = (case v of None \<Rightarrow> JNull | Some s \<Rightarrow> JStr s)"

text \<open>\<open>dict.update\<close>: the values of the second dictionary win; its new keys come last.\<close>

definition dict_set :: "dict \<Rightarrow> string \<times> json \<Rightarrow> dict" where
  "dict_set d kv = (if fst kv \<in> set (map fst d) then map (\<lambda>x. if fst x = fst kv then kv else x) d else d @ [kv])"

definition dict_update :: "dict \<Rightarrow> dict \<Rightarrow> dict" where
  "dict_update d e = foldl dict_set d e"

record log_record =
  lr_timestamp :: string
  lr_level :: string
  lr_event :: string
  lr_fields :: dict
  lr_exception_type :: "string option"

definition log_base :: "request_context \<Rightarrow> log_record \<Rightarrow> dict" where
  "log_base ctx r =
    [(''timestamp'', JStr (lr_timestamp r)), (''level'', JStr (lr_level r)), (''event'', JStr (lr_event r)),
     (''requestID'', opt_str (rc_request_id ctx)), (''traceID'', opt_str (rc_trace_id ctx)),
     (''spanID'', opt_str (rc_span_id ctx)), (''parentSpanID'', opt_str (rc_parent_span_id ctx)),
     (''organizationRef'', opt_str (rc_organization_ref ctx)), (''actorRef'', opt_str (rc_actor_ref ctx)),
     (''membershipRef'', opt_str (rc_membership_ref ctx)), (''sessionRef'', opt_str (rc_session_ref ctx)),
     (''deviceRef'', opt_str (rc_device_ref ctx)), (''appVersion'', opt_str (rc_app_version ctx)),
     (''appBuild'', opt_str (rc_app_build ctx))]"

definition log_payload :: "request_context \<Rightarrow> log_record \<Rightarrow> dict" where
  "log_payload ctx r =
    (let updated = (case redact (JObj (lr_fields r)) of JObj fs \<Rightarrow> dict_update (log_base ctx r) fs | _ \<Rightarrow> log_base ctx r)
     in case lr_exception_type r of None \<Rightarrow> updated | Some e \<Rightarrow> dict_update updated [(''exceptionType'', JStr e)])"

definition format_line :: "request_context \<Rightarrow> log_record \<Rightarrow> string" where
  "format_line ctx r = json_dumps True (JObj (log_payload ctx r))"

section \<open>The logger\<close>

text \<open>The handlers of the logger, each with its \<open>_vitrial_json\<close> mark.\<close>

record logger =
  lg_level :: string
  lg_propagate :: bool
  lg_handlers :: "bool list"

definition configure_logging :: "logger \<Rightarrow> logger" where
  "configure_logging lg = (let lg' = lg\<lparr>lg_level := ''INFO'', lg_propagate := False\<rparr> in
     if list_ex (\<lambda>m. m) (lg_handlers lg') then lg' else lg'\<lparr>lg_handlers := lg_handlers lg' @ [True]\<rparr>)"

lemma configure_logging_idem: "configure_logging (configure_logging lg) = configure_logging lg"
  by (simp add: configure_logging_def Let_def)

end
