(* ===== verification/Http_Stack.thy ===== *)
theory Http_Stack
  imports Rate_Limit Metrics Observability
begin

text \<open>
  How the parts around the routes are put together in \<open>app/main.py\<close>: request correlation, the rate
  limit, the byte guard and the instrumentation of \<open>app/metrics_middleware.py\<close>, in the order in which
  the framework nests them; the drain state of \<open>app/drain.py\<close> and the readiness of
  \<open>app/readiness.py\<close>.

  A middleware registered later wraps those registered before it, so the metrics middleware is the
  outermost and request correlation the innermost. The routes behind them are the argument
  \<open>handler\<close>. The framework runs a handler in a copy of the request context, and hands the same scope
  to every layer, so that the route template a handler was matched to is visible afterwards.
\<close>

section \<open>State\<close>

record 'a service =
  sv_context :: request_context
  sv_log :: "(request_context \<times> log_record) list"
  sv_limiter :: limiter_cache
  sv_metrics :: registry
  sv_route :: "string option"
  sv_app :: 'a

type_synonym 's http_app = "'s \<Rightarrow> http_request \<Rightarrow> receive \<Rightarrow> 's \<times> (fault + http_response)"

text \<open>What one request draws from its surroundings: random values, clocks and configuration.\<close>

record request_env =
  re_environ :: environ
  re_lib :: lib
  re_uuid :: nat
  re_span_id :: string
  re_trace_id :: string
  re_now :: fl
  re_timestamp :: string
  re_duration_ms :: json
  re_elapsed :: fl

section \<open>Log events\<close>

definition fault_name :: "fault \<Rightarrow> string" where
  "fault_name f = (case f of
     ClientDisconnect \<Rightarrow> ''ClientDisconnect''
   | Fault e \<Rightarrow> (case e of
       InvalidMutation \<Rightarrow> ''InvalidMutation'' | AuthorizationRejected \<Rightarrow> ''AuthorizationRejected''
     | LifecycleRejected \<Rightarrow> ''LifecycleRejected'' | DeliveryExecutionRejected \<Rightarrow> ''DeliveryExecutionRejected''
     | DeliveryInstallationRejected \<Rightarrow> ''DeliveryInstallationRejected''
     | DeliveryProductionRejected \<Rightarrow> ''DeliveryProductionRejected'' | PermissionError \<Rightarrow> ''PermissionError''
     | ValueError \<Rightarrow> ''ValueError'' | TypeError \<Rightarrow> ''TypeError'' | KeyError \<Rightarrow> ''KeyError''
     | AttributeError \<Rightarrow> ''AttributeError'' | DecimalInvalidOperation \<Rightarrow> ''InvalidOperation''
     | DecimalOverflow \<Rightarrow> ''Overflow'' | ValidationError \<Rightarrow> ''ValidationError'' | AssertionError \<Rightarrow> ''AssertionError''
     | IndexError \<Rightarrow> ''IndexError'' | OverflowError \<Rightarrow> ''OverflowError'' | StorageError _ \<Rightarrow> ''StorageError''
     | StorageDigestMismatch \<Rightarrow> ''StorageDigestMismatch'' | EvidenceBlobTooLarge \<Rightarrow> ''EvidenceBlobTooLarge''
     | PublicationConflict \<Rightarrow> ''PublicationConflict'' | PublicationNotFound \<Rightarrow> ''PublicationNotFound''
     | AssemblyTopologyAssemblyV1BridgeError \<Rightarrow> ''AssemblyTopologyAssemblyV1BridgeError''
     | TopologyDimensionVerificationError \<Rightarrow> ''TopologyDimensionVerificationError''
     | RuntimeError \<Rightarrow> ''RuntimeError'' | SystemExit \<Rightarrow> ''SystemExit''
     | FileNotFoundError \<Rightarrow> ''FileNotFoundError'' | ClientError _ _ \<Rightarrow> ''ClientError''
     | HTTPException _ \<Rightarrow> ''HTTPException'' | DBAPIError _ \<Rightarrow> ''DBAPIError''))"

definition log_event :: "request_env \<Rightarrow> string \<Rightarrow> string \<Rightarrow> dict \<Rightarrow> 'a service \<Rightarrow> 'a service" where
  "log_event re level event fs s = s\<lparr>sv_log := sv_log s @ [(sv_context s,
     \<lparr>lr_timestamp = re_timestamp re, lr_level = level, lr_event = event, lr_fields = fs, lr_exception_type = None\<rparr>)]\<rparr>"

section \<open>Request correlation\<close>

definition set_header :: "string \<Rightarrow> string \<Rightarrow> http_response \<Rightarrow> http_response" where
  "set_header name v r = r\<lparr>rs_headers := filter (\<lambda>h. map ascii_lower (fst h) \<noteq> map ascii_lower name) (rs_headers r) @ [(name, v)]\<rparr>"

definition request_correlation :: "request_env \<Rightarrow> 'a service http_app \<Rightarrow> 'a service http_app" where
  "request_correlation re call_next s rq ch =
    (let header = map_of (rq_headers rq);
         request_id = request_id_for_header (re_uuid re) (header ''x-request-id'');
         trace = trace_context_for_header (re_span_id re) (re_trace_id re) (header ''traceparent'');
         (tokens, ctx) = begin_request (sv_context s) request_id trace;
         ctx' = bind_request_metadata (re_lib re) (header ''x-vitrial-device-id'') (header ''x-vitrial-app-version'')
           (header ''x-vitrial-app-build'') ctx;
         s1 = log_event re ''info'' ''request.started'' [(''method'', JStr (rq_method rq))] (s\<lparr>sv_context := ctx'\<rparr>)
     in case call_next s1 rq ch of
       (s2, Inl f) \<Rightarrow>
         let s3 = log_event re ''error'' ''request.failed'' [(''method'', JStr (rq_method rq)), (''routeTemplate'', opt_str (sv_route s2)),
               (''durationMs'', re_duration_ms re), (''errorType'', JStr (fault_name f))] (s2\<lparr>sv_context := ctx'\<rparr>)
         in (s3\<lparr>sv_context := end_request tokens (sv_context s3)\<rparr>, Inl f)
     | (s2, Inr response) \<Rightarrow>
         let s3 = log_event re ''info'' ''request.completed'' [(''method'', JStr (rq_method rq)), (''routeTemplate'', opt_str (sv_route s2)),
               (''statusCode'', JInt (int (rs_status response))), (''durationMs'', re_duration_ms re)] (s2\<lparr>sv_context := ctx'\<rparr>)
         in (s3\<lparr>sv_context := end_request tokens (sv_context s3)\<rparr>, Inr (set_header ''X-Request-ID'' request_id response)))"

section \<open>The rate limit in the stack\<close>

definition log_rate_event :: "request_env \<Rightarrow> 'a service \<Rightarrow> rate_event \<Rightarrow> 'a service" where
  "log_rate_event re s ev = (case ev of
     RateLimitBypassed e \<Rightarrow> log_event re ''error'' ''auth.rate_limit_bypassed'' [(''errorType'', JStr (fault_name (Fault e)))] s
   | RateLimitRefused n \<Rightarrow> log_event re ''warning'' ''auth.rate_limit_refused''
       [(''routeTemplate'', opt_str (sv_route s)), (''retryAfterSeconds'', JInt n)] s)"

definition auth_surface_rate_limit :: "request_env \<Rightarrow> 'a service http_app \<Rightarrow> 'a service http_app" where
  "auth_surface_rate_limit re call_next s rq ch =
    (case rate_decision (re_environ re) (re_now re) (sv_limiter s) rq of (cache, evs, d) \<Rightarrow>
       (let s1 = foldl (log_rate_event re) (s\<lparr>sv_limiter := cache\<rparr>) evs in
        case d of
          None \<Rightarrow> call_next s1 rq ch
        | Some (Inl e) \<Rightarrow> (s1, Inl (Fault e))
        | Some (Inr r) \<Rightarrow> (s1, Inr r)))"

section \<open>From requests to connections\<close>

definition request_of :: "asgi_scope \<Rightarrow> http_request" where
  "request_of sc = \<lparr>rq_path = (case sc_path sc of None \<Rightarrow> [] | Some p \<Rightarrow> p),
     rq_method = (case sc_method sc of None \<Rightarrow> ''GET'' | Some m \<Rightarrow> m), rq_headers = sc_headers sc, rq_client = sc_client sc\<rparr>"

definition respond :: "http_response \<Rightarrow> sent list" where
  "respond r = [ResponseStart (rs_status r) (rs_headers r), ResponseBody (rs_body r)]"

definition asgi_of :: "'s http_app \<Rightarrow> 's asgi_app" where
  "asgi_of h s sc ch = (case h s (request_of sc) ch of
     (s', Inl f) \<Rightarrow> (s', [], Some f)
   | (s', Inr r) \<Rightarrow> (s', respond r, None))"

section \<open>Instrumentation\<close>

definition UNMATCHED_ROUTE :: string where
  "UNMATCHED_ROUTE = ''unmatched''"

definition route_template :: "string option \<Rightarrow> string" where
  "route_template r = (case r of None \<Rightarrow> UNMATCHED_ROUTE | Some p \<Rightarrow> if p = [] then UNMATCHED_ROUTE else p)"

definition status_class :: "nat \<Rightarrow> string" where
  "status_class status = show_nat (status div 100) @ ''xx''"

text \<open>\<open>_record\<close>; the labels are those the metrics declare, so that nothing is raised.\<close>

definition record_request :: "string \<Rightarrow> string \<Rightarrow> nat \<Rightarrow> fl \<Rightarrow> registry \<Rightarrow> registry" where
  "record_request route method status elapsed r =
    r\<lparr>requests_total := fst (counter_inc (requests_total r) (Fl 1)
         [(''route'', route), (''method'', method), (''status_class'', status_class status)]),
      request_status_total := fst (counter_inc (request_status_total r) (Fl 1)
         [(''route'', route), (''method'', method), (''status'', show_nat status)]),
      request_duration_seconds := fst (observe (request_duration_seconds r) elapsed [(''route'', route), (''method'', method)])\<rparr>"

text \<open>The status of the last response start that was sent; 500 when there was none or an exception left.\<close>

definition observed_status :: "sent list \<Rightarrow> fault option \<Rightarrow> nat" where
  "observed_status out f = (case f of
     Some _ \<Rightarrow> 500
   | None \<Rightarrow> foldl (\<lambda>n m. case m of ResponseStart status _ \<Rightarrow> status | ResponseBody _ \<Rightarrow> n) 500 out)"

text \<open>\<open>MetricsMiddleware.__call__\<close> around an application that may never answer (\<open>None\<close>).\<close>

definition metrics_middleware :: "request_env \<Rightarrow> ('a service \<Rightarrow> asgi_scope \<Rightarrow> receive \<Rightarrow> ('a service \<times> sent list \<times> fault option) option)
    \<Rightarrow> 'a service \<Rightarrow> asgi_scope \<Rightarrow> receive \<Rightarrow> ('a service \<times> sent list \<times> fault option) option" where
  "metrics_middleware re app s sc ch =
    (if sc_type sc \<noteq> Some ''http'' then app s sc ch
     else case app s sc ch of
       None \<Rightarrow> None
     | Some (s', out, f) \<Rightarrow>
         Some (s'\<lparr>sv_metrics := record_request (route_template (sv_route s'))
                  (case sc_method sc of None \<Rightarrow> ''UNKNOWN'' | Some m \<Rightarrow> m) (observed_status out f) (re_elapsed re) (sv_metrics s')\<rparr>, out, f))"

text \<open>The whole stack; the scope of a new connection has no route.\<close>

definition service_app :: "request_env \<Rightarrow> 'a service http_app \<Rightarrow> 'a service \<Rightarrow> asgi_scope \<Rightarrow> receive
    \<Rightarrow> ('a service \<times> sent list \<times> fault option) option" where
  "service_app re handler s sc ch =
    metrics_middleware re
      (size_guard (re_environ re) (asgi_of (auth_surface_rate_limit re (request_correlation re handler))))
      (s\<lparr>sv_route := None\<rparr>) sc ch"

section \<open>Drain and readiness\<close>

record drain_state =
  ds_draining :: bool

definition drain_begin :: "drain_state \<Rightarrow> drain_state \<times> bool" where
  "drain_begin d = (if ds_draining d then (d, False) else (d\<lparr>ds_draining := True\<rparr>, True))"

definition drain_reset :: "drain_state \<Rightarrow> drain_state" where
  "drain_reset d = d\<lparr>ds_draining := False\<rparr>"

text \<open>\<open>lifespan\<close>: what runs at startup and at shutdown.\<close>

definition lifespan_startup :: "registry \<Rightarrow> registry" where
  "lifespan_startup r = r\<lparr>drain_active := fst (gauge_set (drain_active r) (Fl 0) [])\<rparr>"

definition lifespan_shutdown :: "drain_state \<Rightarrow> registry \<Rightarrow> drain_state \<times> registry" where
  "lifespan_shutdown d r = (fst (drain_begin d), r\<lparr>drain_active := fst (gauge_set (drain_active r) (Fl 1) [])\<rparr>)"

record dependency_readiness =
  dr_database :: string
  dr_object_storage :: string

definition readiness_status :: "dependency_readiness \<Rightarrow> string" where
  "readiness_status r = (if dr_database r = ''ok'' \<and> dr_object_storage r = ''ok'' then ''ready'' else ''not-ready'')"

text \<open>
  \<open>probe_storage\<close>: the answer of \<open>head_bucket\<close> when the store is S3, otherwise of the file operations on
  the evidence root, whose \<open>OSError\<close> is \<open>None\<close>; other exceptions of the latter pass through.
\<close>

datatype storage_probe = S3Probe "unit res" | LocalProbe "unit res option"

definition probe_storage :: "storage_probe \<Rightarrow> unit res" where
  "probe_storage p = (case p of
     S3Probe r \<Rightarrow> (case r of Inl e \<Rightarrow> raise (StorageError (Some e)) | Inr u \<Rightarrow> ok u)
   | LocalProbe None \<Rightarrow> raise (StorageError None)
   | LocalProbe (Some r) \<Rightarrow> r)"

definition collect_dependency_readiness :: "unit res \<Rightarrow> storage_probe \<Rightarrow> dependency_readiness" where
  "collect_dependency_readiness database storage =
    \<lparr>dr_database = (case database of Inl _ \<Rightarrow> ''unavailable'' | Inr _ \<Rightarrow> ''ok''),
     dr_object_storage = (case probe_storage storage of Inl _ \<Rightarrow> ''unavailable'' | Inr _ \<Rightarrow> ''ok'')\<rparr>"

record ReadinessResponse =
  rr_status :: string
  rr_service_version :: string
  rr_database :: string
  rr_object_storage :: string

text \<open>\<open>GET /ready\<close>: the status code and the body; \<open>GET /health\<close> and \<open>GET /api/v1/version\<close>: the body.\<close>

definition ready_route :: "string \<Rightarrow> drain_state \<Rightarrow> unit res \<Rightarrow> storage_probe \<Rightarrow> nat \<times> ReadinessResponse" where
  "ready_route service_version d database storage =
    (let r = collect_dependency_readiness database storage;
         body = (\<lambda>status. \<lparr>rr_status = status, rr_service_version = service_version,
           rr_database = dr_database r, rr_object_storage = dr_object_storage r\<rparr>) in
     if ds_draining d then (503, body ''not-ready'')
     else (if readiness_status r \<noteq> ''ready'' then 503 else 200, body (readiness_status r)))"

definition health_route :: string where
  "health_route = ''ok''"

definition version_route :: "string \<Rightarrow> string \<times> string" where
  "version_route service_version = (''v1'', service_version)"

text \<open>\<open>GET /metrics\<close> behind the admin key.\<close>

definition metrics_route :: "(fl \<Rightarrow> string) \<Rightarrow> string \<Rightarrow> (int \<times> int) option \<Rightarrow> (nat \<times> nat) option \<Rightarrow> registry \<Rightarrow> registry \<times> string" where
  "metrics_route repr version pool backlog r =
    (let r' = refresh_gc_backlog backlog (refresh_dependency_gauges version pool r) in (r', render repr (registered_metrics r')))"

section \<open>Properties\<close>

text \<open>Correlation leaves the surrounding context as it was, so that nothing of a request leaks into the next.\<close>

lemma correlation_restores_context: "sv_context (fst (request_correlation re call_next s rq ch)) = sv_context s"
  by (auto simp: request_correlation_def begin_request_def end_request_def log_event_def Let_def split: prod.split sum.split)

lemma correlation_names_response:
  "snd (request_correlation re call_next s rq ch) = Inr r \<Longrightarrow>
    (''X-Request-ID'', request_id_for_header (re_uuid re) (map_of (rq_headers rq) ''x-request-id'')) \<in> set (rs_headers r)"
  by (auto simp: request_correlation_def begin_request_def set_header_def Let_def split: prod.splits sum.splits)

text \<open>An instance that has begun to drain reports itself as not ready, whatever its dependencies, from then on.\<close>

lemma draining_not_ready: "fst (ready_route version (fst (drain_begin d)) database storage) = 503"
  by (simp add: drain_begin_def ready_route_def Let_def)

lemma ready_iff:
  "fst (ready_route version d database storage) = 200 \<longleftrightarrow> \<not> ds_draining d \<and> (\<exists>u. database = ok u) \<and> (\<exists>u. probe_storage storage = ok u)"
  by (auto simp: ready_route_def collect_dependency_readiness_def readiness_status_def Let_def split: sum.splits)

text \<open>
  What the byte guard makes of a request, for any receive channel: it refuses, or lets the request
  through, or still waits for the body. Requests without a limit and GET requests pass unread.
\<close>

definition guard_refuses :: "environ \<Rightarrow> string \<Rightarrow> string \<Rightarrow> asgi_scope \<Rightarrow> receive \<Rightarrow> int \<Rightarrow> bool" where
  "guard_refuses env path method sc ch limit \<longleftrightarrow> limit_for_path env path = Some limit \<and> method \<noteq> ''GET''
     \<and> ((\<exists>d. declared_length sc = Some d \<and> limit < d) \<or> (\<exists>b. read_capped ch limit 0 0 [] = Some (b, True)))"

definition guard_passes :: "environ \<Rightarrow> string \<Rightarrow> string \<Rightarrow> asgi_scope \<Rightarrow> receive \<Rightarrow> bool" where
  "guard_passes env path method sc ch \<longleftrightarrow> method = ''GET'' \<or> (case limit_for_path env path of
       None \<Rightarrow> True
     | Some limit \<Rightarrow> \<not> (\<exists>d. declared_length sc = Some d \<and> limit < d) \<and> (\<exists>b. read_capped ch limit 0 0 [] = Some (b, False)))"

lemma size_guard_refuses:
  assumes "sc_type sc = Some ''http''" "sc_path sc = Some path" "sc_method sc = Some method"
    and "guard_refuses env path method sc ch limit"
  shows "size_guard env app st sc ch = Some (st, reject limit, None)"
  using assms by (cases "declared_length sc") (auto simp: size_guard_def guard_refuses_def)

lemma size_guard_passes:
  assumes sc: "sc_type sc = Some ''http''" "sc_path sc = Some path" "sc_method sc = Some method"
    and passes: "guard_passes env path method sc ch"
    and app: "\<And>ch. app st sc ch = (st', out, None)"
  shows "size_guard env app st sc ch = Some (st', out, None)"
proof (cases "limit_for_path env path")
  case None
  with sc app show ?thesis by (simp add: size_guard_def)
next
  case (Some limit)
  show ?thesis
  proof (cases "method = ''GET''")
    case True
    with sc Some app show ?thesis by (simp add: size_guard_def)
  next
    case False
    with passes Some obtain b where b: "read_capped ch limit 0 0 [] = Some (b, False)"
      and decl: "\<not> (\<exists>d. declared_length sc = Some d \<and> limit < d)" by (auto simp: guard_passes_def)
    have "replay_app app limit st sc b = (st', out, None)" by (simp add: replay_app_def app)
    with sc Some False b decl show ?thesis by (cases "declared_length sc") (simp_all add: size_guard_def)
  qed
qed

text \<open>
  C22. A refused request stops before the routes. When the byte guard refuses a request, for its
  declared length or for the bytes that arrive, the client gets the 413, and neither the rate limiter, the log nor
  the state of the handlers changes; when the limiter refuses a request the guard lets through, of any
  method and on any path, with a body limit or without, the client gets the 429 alone and the handlers' state is
  unchanged. Both are counted by the metrics under the unmatched route. Neither answer carries a request
  id, and no request event is logged for it: the refusal of the limiter is logged under the
  surrounding context.
\<close>

theorem refused_requests_stop:
  assumes sc: "sc_type sc = Some ''http''" "sc_path sc = Some path" "sc_method sc = Some method"
  shows "(\<forall>limit. guard_refuses (re_environ re) path method sc ch limit \<longrightarrow> service_app re handler s sc ch = Some
        (s\<lparr>sv_route := None, sv_metrics := record_request UNMATCHED_ROUTE method 413 (re_elapsed re) (sv_metrics s)\<rparr>, reject limit, None))
    \<and> (\<forall>cache n. guard_passes (re_environ re) path method sc ch \<longrightarrow>
        rate_decision (re_environ re) (re_now re) (sv_limiter s) (request_of sc)
          = (cache, [RateLimitRefused n], Some (ok (too_many_requests n))) \<longrightarrow>
        service_app re handler s sc ch = Some
          ((log_rate_event re (s\<lparr>sv_route := None, sv_limiter := cache\<rparr>) (RateLimitRefused n))
             \<lparr>sv_metrics := record_request UNMATCHED_ROUTE method 429 (re_elapsed re) (sv_metrics s)\<rparr>,
           respond (too_many_requests n), None))"
proof -
  let ?app = "asgi_of (auth_surface_rate_limit re (request_correlation re handler))"
  have refuse: "observed_status (reject limit) None = 413" "observed_status (respond (too_many_requests n)) None = 429" for limit n
    by (simp_all add: observed_status_def reject_def respond_def too_many_requests_def)
  have route: "route_template None = UNMATCHED_ROUTE" by (simp add: route_template_def)
  have "service_app re handler s sc ch = Some
      (s\<lparr>sv_route := None, sv_metrics := record_request UNMATCHED_ROUTE method 413 (re_elapsed re) (sv_metrics s)\<rparr>, reject limit, None)"
    if "guard_refuses (re_environ re) path method sc ch limit" for limit
    using size_guard_refuses [OF sc that, of ?app "s\<lparr>sv_route := None\<rparr>"] sc
    by (simp add: service_app_def metrics_middleware_def refuse route)
  moreover have "service_app re handler s sc ch = Some
      ((log_rate_event re (s\<lparr>sv_route := None, sv_limiter := cache\<rparr>) (RateLimitRefused n))
         \<lparr>sv_metrics := record_request UNMATCHED_ROUTE method 429 (re_elapsed re) (sv_metrics s)\<rparr>,
       respond (too_many_requests n), None)"
    if passes: "guard_passes (re_environ re) path method sc ch"
      and dec: "rate_decision (re_environ re) (re_now re) (sv_limiter s) (request_of sc)
      = (cache, [RateLimitRefused n], Some (ok (too_many_requests n)))" for cache n
  proof -
    have "?app (s\<lparr>sv_route := None\<rparr>) sc c
      = (log_rate_event re (s\<lparr>sv_route := None, sv_limiter := cache\<rparr>) (RateLimitRefused n), respond (too_many_requests n), None)" for c
      using dec by (simp add: asgi_of_def auth_surface_rate_limit_def)
    from size_guard_passes [OF sc passes, of ?app, OF this] show ?thesis using sc
      by (simp add: service_app_def metrics_middleware_def refuse route log_rate_event_def log_event_def)
  qed
  ultimately show ?thesis by blast
qed

definition demo_request_env :: request_env where
  "demo_request_env = \<lparr>re_environ = (\<lambda>_. None), re_lib = \<lparr>parse_assembly = (\<lambda>_. None), parse_design = (\<lambda>_. None),
       json_loads = (\<lambda>_. None), sha256_hex = (\<lambda>_. [])\<rparr>, re_uuid = 1, re_span_id = ''s'', re_trace_id = ''t'', re_now = Fl 0,
     re_timestamp = ''now'', re_duration_ms = JInt 1, re_elapsed = Fl 0\<rparr>"

definition demo_service :: "nat service" where
  "demo_service = \<lparr>sv_context = \<lparr>rc_request_id = None, rc_organization_ref = None, rc_actor_ref = None,
       rc_membership_ref = None, rc_session_ref = None, rc_device_ref = None, rc_app_version = None, rc_app_build = None,
       rc_trace_id = None, rc_span_id = None, rc_parent_span_id = None\<rparr>,
     sv_log = [], sv_limiter = None, sv_metrics = new_registry, sv_route = None, sv_app = 0\<rparr>"

definition demo_handler :: "nat service http_app" where
  "demo_handler s rq ch = (s\<lparr>sv_app := sv_app s + 1\<rparr>, Inr \<lparr>rs_status = 200, rs_headers = [], rs_body = []\<rparr>)"

text \<open>A client that has used up its window, reading the metrics.\<close>

definition demo_metrics_scope :: asgi_scope where
  "demo_metrics_scope = \<lparr>sc_type = Some ''http'', sc_path = Some ''/metrics'', sc_method = Some ''GET'', sc_headers = [], sc_client = None\<rparr>"

definition demo_full_cache :: limiter_cache where
  "demo_full_cache = Some (\<lparr>lim_limit = 30, lim_window = Fl 60, lim_max_clients = 10000,
     lim_hits = [(''/metrics|peer:unknown'', replicate 30 (Fl 0))]\<rparr>, 30, Fl 60)"

lemma demo_full_refused:
  "rate_decision (re_environ demo_request_env) (re_now demo_request_env) demo_full_cache (request_of demo_metrics_scope)
     = (demo_full_cache, [RateLimitRefused 60], Some (ok (too_many_requests 60)))"
proof -
  have "rate_decision (\<lambda>_. None) (Fl 0) demo_full_cache (request_of demo_metrics_scope)
     = (demo_full_cache, [RateLimitRefused 60], Some (ok (too_many_requests 60)))" by code_simp
  then show ?thesis by (simp add: demo_request_env_def)
qed

theorem refused_requests_stop_witness:
  "(\<exists>s'. service_app demo_request_env demo_handler demo_service
      (demo_pair_scope\<lparr>sc_headers := [(''content-length'', ''99999'')]\<rparr>) (body_channel [''x'']) = Some (s', reject 16384, None)
    \<and> sv_app s' = 0)
   \<and> (\<exists>s'. service_app demo_request_env demo_handler (demo_service\<lparr>sv_limiter := demo_full_cache\<rparr>) demo_metrics_scope (\<lambda>_. None)
      = Some (s', respond (too_many_requests 60), None) \<and> sv_app s' = 0)"
proof
  let ?sc = "demo_pair_scope\<lparr>sc_headers := [(''content-length'', ''99999'')]\<rparr>"
  have "declared_length ?sc = Some 99999"
    by (simp add: declared_length_def py_int_bytes_def trim_def c_isspace_def int_body_def
        split_sign_def ascii_digit_def parse_nat_def digit_value_def)
  moreover have "limit_for_path (re_environ demo_request_env) ''/api/v1/auth/pair'' = Some 16384"
    by (simp add: limit_for_path_def limits_def DEFAULT_PATH_LIMITS_def demo_request_env_def)
  ultimately show "\<exists>s'. service_app demo_request_env demo_handler demo_service ?sc (body_channel [''x'']) = Some (s', reject 16384, None)
      \<and> sv_app s' = 0"
    using refused_requests_stop [of ?sc "''/api/v1/auth/pair''" "''POST''" demo_request_env "body_channel [''x'']" demo_handler demo_service]
    by (simp add: demo_pair_scope_def demo_service_def guard_refuses_def)
  define s where "s = demo_service\<lparr>sv_limiter := demo_full_cache\<rparr>"
  have sc: "sc_type demo_metrics_scope = Some ''http''" "sc_path demo_metrics_scope = Some ''/metrics''"
    "sc_method demo_metrics_scope = Some ''GET''" by (simp_all add: demo_metrics_scope_def)
  have passes: "guard_passes (re_environ demo_request_env) ''/metrics'' ''GET'' demo_metrics_scope (\<lambda>_. None)"
    by (simp add: guard_passes_def)
  have lim: "sv_limiter s = demo_full_cache" by (simp add: s_def)
  have refused: "rate_decision (re_environ demo_request_env) (re_now demo_request_env) (sv_limiter s) (request_of demo_metrics_scope)
     = (demo_full_cache, [RateLimitRefused 60], Some (ok (too_many_requests 60)))"
    unfolding lim by (rule demo_full_refused)
  have answer: "service_app demo_request_env demo_handler s demo_metrics_scope (\<lambda>_. None) = Some
      ((log_rate_event demo_request_env (s\<lparr>sv_route := None, sv_limiter := demo_full_cache\<rparr>) (RateLimitRefused 60))
         \<lparr>sv_metrics := record_request UNMATCHED_ROUTE ''GET'' 429 (re_elapsed demo_request_env) (sv_metrics s)\<rparr>,
       respond (too_many_requests 60), None)"
    by (rule refused_requests_stop [OF sc, of demo_request_env "\<lambda>_. None" demo_handler s, THEN conjunct2,
        THEN spec [of _ demo_full_cache], THEN spec [of _ 60], THEN mp, THEN mp, OF passes refused])
  have "sv_app (log_rate_event re (s\<lparr>sv_route := None, sv_limiter := c\<rparr>) ev\<lparr>sv_metrics := m\<rparr>) = 0" for re c ev m
    by (cases ev) (simp_all add: log_rate_event_def log_event_def s_def demo_service_def)
  with answer show "\<exists>s'. service_app demo_request_env demo_handler (demo_service\<lparr>sv_limiter := demo_full_cache\<rparr>) demo_metrics_scope (\<lambda>_. None)
      = Some (s', respond (too_many_requests 60), None) \<and> sv_app s' = 0" unfolding s_def [symmetric] by blast
qed

end
