(* ===== verification/Metrics_Properties.thy ===== *)
theory Metrics_Properties
  imports Metrics
begin

text \<open>
  The metrics stay bounded whatever labels callers produce, histograms count exactly, and a label
  value cannot break out of its line of the exposition.
\<close>

section \<open>Label values\<close>

definition esc_label :: "char \<Rightarrow> string" where
  "esc_label c = (if c = CHR 0x5C then [CHR 0x5C, CHR 0x5C] else if c = CHR 0x22 then [CHR 0x5C, CHR 0x22]
     else if c = CHR 0x0A then [CHR 0x5C, CHR ''n''] else [c])"

lemma replace_char_append: "replace_char c r (s @ t) = replace_char c r s @ replace_char c r t"
  by (simp add: replace_char_def)

lemma escape_by_char: "escape_label_value s = concat (map esc_label s)"
proof (induction s)
  case (Cons c s)
  have "escape_label_value (c # s) = escape_label_value [c] @ escape_label_value s"
    using replace_char_append [of _ _ "[c]" s] by (simp add: escape_label_value_def replace_char_append)
  moreover have "escape_label_value [c] = esc_label c" by (simp add: escape_label_value_def replace_char_def esc_label_def)
  ultimately show ?case using Cons by simp
qed (simp add: escape_label_value_def replace_char_def)

fun unescape_label :: "string \<Rightarrow> string" where
  "unescape_label (c # d # s) = (if c = CHR 0x5C then (if d = CHR ''n'' then CHR 0x0A else d) # unescape_label s
     else c # unescape_label (d # s))"
| "unescape_label s = s"

lemma unescape_prefix: "unescape_label (esc_label c @ s) = c # unescape_label s"
  by (cases s) (auto simp: esc_label_def)

text \<open>A label value is read back from its escaped form, which contains no line break and no bare quote.\<close>

lemma label_roundtrip: "unescape_label (escape_label_value s) = s"
  unfolding escape_by_char by (induction s) (simp_all add: unescape_prefix)

lemma label_one_line: "CHR 0x0A \<notin> set (escape_label_value s)"
  unfolding escape_by_char by (induction s) (auto simp: esc_label_def split: if_splits)

section \<open>Bounded series\<close>

definition guard_ok :: "bounded_labels \<Rightarrow> bool" where
  "guard_ok g \<longleftrightarrow> bl_max_series g = MAX_SERIES \<and> distinct (bl_seen g) \<and> length (bl_seen g) \<le> MAX_SERIES"

definition series_ok :: "bounded_labels \<Rightarrow> string list list \<Rightarrow> bool" where
  "series_ok g keys \<longleftrightarrow> guard_ok g \<and> distinct keys \<and> set keys \<subseteq> set (bl_seen g)"

lemma admit_ok:
  assumes "guard_ok g" "admit g key = (g', a)"
  shows "guard_ok g' \<and> set (bl_seen g) \<subseteq> set (bl_seen g') \<and> (a \<longrightarrow> key \<in> set (bl_seen g'))"
  using assms by (auto simp: admit_def guard_ok_def split: if_splits)

lemma dict_put_keys: "map fst (dict_put k v d) = (if k \<in> fst ` set d then map fst d else map fst d @ [k])"
proof -
  have "map fst (map (\<lambda>kv. if fst kv = k then (k, v) else kv) d) = map fst d" by (induction d) auto
  then show ?thesis by (simp add: dict_put_def map_of_eq_None_iff)
qed

lemma series_put:
  assumes "series_ok g (map fst d)" "admit g key = (g', a)"
  shows "a \<Longrightarrow> series_ok g' (map fst (dict_put key v d))" "series_ok g' (map fst d)"
  using assms admit_ok [of g key g' a] by (auto simp: series_ok_def dict_put_keys)

lemma series_bound:
  assumes "series_ok g keys"
  shows "length keys \<le> MAX_SERIES"
proof -
  have "length keys = card (set keys)" using assms by (simp add: series_ok_def distinct_card)
  also have "\<dots> \<le> card (set (bl_seen g))" using assms by (auto simp: series_ok_def intro: card_mono)
  also have "\<dots> \<le> length (bl_seen g)" by (rule card_length)
  finally show ?thesis using assms by (simp add: series_ok_def guard_ok_def)
qed

definition counter_ok :: "counter \<Rightarrow> bool" where
  "counter_ok c \<longleftrightarrow> series_ok (m_guard c) (map fst (c_values c))"

definition histogram_ok :: "histogram \<Rightarrow> bool" where
  "histogram_ok h \<longleftrightarrow> series_ok (m_guard h) (map fst (h_counts h)) \<and> series_ok (m_guard h) (map fst (h_sums h))"

lemma counter_inc_ok: "counter_ok c \<Longrightarrow> counter_ok (fst (counter_inc c amount ls))"
  by (auto simp: counter_ok_def counter_inc_def intro: series_put split: sum.split prod.split)

lemma gauge_set_ok: "counter_ok c \<Longrightarrow> counter_ok (fst (gauge_set c v ls))"
  by (auto simp: counter_ok_def gauge_set_def intro: series_put split: sum.split prod.split)

lemma observe_ok: "histogram_ok h \<Longrightarrow> histogram_ok (fst (observe h v ls))"
  by (auto simp: histogram_ok_def observe_def Let_def intro: series_put split: sum.split prod.split)

text \<open>What the service may do to a metric, with any labels a caller can cause.\<close>

inductive metric_step :: "registered \<Rightarrow> registered \<Rightarrow> bool" where
  inc: "metric_step (Counter c) (Counter (fst (counter_inc c amount ls)))"
| set: "metric_step (Gauge c) (Gauge (fst (gauge_set c v ls)))"
| observe: "metric_step (Histogram h) (Histogram (fst (observe h v ls)))"

definition metric_ok :: "registered \<Rightarrow> bool" where
  "metric_ok m \<longleftrightarrow> (case m of Counter c \<Rightarrow> counter_ok c | Gauge c \<Rightarrow> counter_ok c | Histogram h \<Rightarrow> histogram_ok h)"

definition series_count :: "registered \<Rightarrow> nat" where
  "series_count m = (case m of Counter c \<Rightarrow> length (c_values c) | Gauge c \<Rightarrow> length (c_values c) | Histogram h \<Rightarrow> length (h_counts h))"

lemma metric_step_ok: "metric_step m m' \<Longrightarrow> metric_ok m \<Longrightarrow> metric_ok m'"
  by (induction rule: metric_step.induct) (simp_all add: metric_ok_def counter_inc_ok gauge_set_ok observe_ok)

lemma new_registry_ok: "list_all metric_ok (registered_metrics new_registry)"
  by (simp add: registered_metrics_def new_registry_def metric_ok_def counter_ok_def histogram_ok_def series_ok_def guard_ok_def
      new_counter_def new_histogram_def new_guard_def)

text \<open>
  C24. However many operations with however many distinct labels reach a metric of the process, it
  holds at most 2000 series: memory and the size of a scrape stay bounded.
\<close>

theorem metric_series_bounded:
  assumes "m \<in> set (registered_metrics new_registry)" "metric_step\<^sup>*\<^sup>* m m'"
  shows "series_count m' \<le> MAX_SERIES"
proof -
  have "metric_ok m" using assms(1) new_registry_ok by (auto simp: list_all_iff)
  with assms(2) have "metric_ok m'" by (induction rule: rtranclp_induct) (auto intro: metric_step_ok)
  then show ?thesis
    using series_bound by (fastforce simp: metric_ok_def series_count_def counter_ok_def histogram_ok_def split: registered.splits)
qed

theorem metric_series_bounded_witness:
  "series_count (Counter (fst (counter_inc (requests_total new_registry) (Fl 1) [(''route'', ''/health'')]))) \<le> MAX_SERIES"
  by (rule metric_series_bounded [of "Counter (requests_total new_registry)"])
    (auto simp: registered_metrics_def intro: metric_step.inc)

section \<open>Histograms\<close>

lemma map_of_put: "map_of (dict_put k v d) x = (if x = k then Some v else map_of d x)"
proof -
  have hit: "map_of (map (\<lambda>kv. if fst kv = k then (k, v) else kv) d) k = (if k \<in> fst ` set d then Some v else None)"
    by (induction d) auto
  have miss: "x \<noteq> k \<Longrightarrow> map_of (map (\<lambda>kv. if fst kv = k then (k, v) else kv) d) x = map_of d x"
    by (induction d) auto
  show ?thesis
  proof (cases "map_of d k = None")
    case True
    then show ?thesis by (cases "map_of d x") (auto simp: dict_put_def map_add_def)
  next
    case False
    then have "k \<in> fst ` set d" by (simp add: map_of_eq_None_iff)
    with hit miss show ?thesis unfolding dict_put_def if_not_P [OF False] by (cases "x = k") simp_all
  qed
qed

definition hits_below :: "fl list \<Rightarrow> fl \<Rightarrow> nat" where
  "hits_below vs bound = length (filter (\<lambda>v. fl_le v bound) vs)"

definition exact_counts :: "fl list \<Rightarrow> fl list \<Rightarrow> fl list" where
  "exact_counts buckets vs = map (\<lambda>b. Fl (of_nat (hits_below vs b))) buckets @ [Fl (of_nat (length vs))]"

lemma bump_exact:
  assumes "length vs < 2 ^ 53"
  shows "bump buckets v (exact_counts buckets vs) = exact_counts buckets (vs @ [v])"
proof -
  have le: "hits_below vs b < 2 ^ 53" for b
    unfolding hits_below_def by (rule le_less_trans [OF length_filter_le assms])
  have "zip buckets (map f buckets @ xs) = map (\<lambda>b. (b, f b)) buckets" for f :: "fl \<Rightarrow> fl" and xs
    by (induction buckets) auto
  then show ?thesis using assms le
    by (auto simp: bump_def exact_counts_def hits_below_def comp_def fl_add_one [unfolded hits_below_def] simp del: fl_add.simps)
qed

definition observe_all :: "histogram \<Rightarrow> labels \<Rightarrow> fl list \<Rightarrow> histogram" where
  "observe_all h ls vs = foldl (\<lambda>h v. fst (observe h v ls)) h vs"

text \<open>
  The buckets of a histogram are exact: after any fewer than \<open>2 ^ 53\<close> observations of a series,
  each bucket counts the observations that do not exceed its bound and the last entry counts all of
  them; so the exposed buckets are cumulative.
\<close>

theorem histogram_counts_exact:
  assumes "label_key labelnames ls = ok key" "vs \<noteq> []" "length vs \<le> 2 ^ 53"
  shows "map_of (h_counts (observe_all (new_histogram name help labelnames buckets) ls vs)) key = Some (exact_counts buckets vs)"
proof -
  define h where "h vs = observe_all (new_histogram name help labelnames buckets) ls vs" for vs
  have "m_labelnames (h vs) = labelnames \<and> h_buckets (h vs) = buckets \<and>
    (vs = [] \<and> h vs = new_histogram name help labelnames buckets \<or>
     key \<in> set (bl_seen (m_guard (h vs))) \<and> map_of (h_counts (h vs)) key = Some (exact_counts buckets vs))"
    using assms(3)
  proof (induction vs rule: rev_induct)
    case Nil
    then show ?case by (simp add: h_def observe_all_def new_histogram_def)
  next
    case (snoc v vs)
    then have IH: "m_labelnames (h vs) = labelnames" "h_buckets (h vs) = buckets"
      "vs = [] \<and> h vs = new_histogram name help labelnames buckets \<or>
       key \<in> set (bl_seen (m_guard (h vs))) \<and> map_of (h_counts (h vs)) key = Some (exact_counts buckets vs)" by simp_all
    have len: "length vs < 2 ^ 53" using snoc.prems by simp
    have step: "h (vs @ [v]) = fst (observe (h vs) v ls)" by (simp add: h_def observe_all_def)
    have zero: "replicate (length buckets + 1) (Fl 0) = exact_counts buckets []"
      by (simp add: exact_counts_def hits_below_def map_replicate_const replicate_append_same)
    from IH(3) consider "vs = []" "h vs = new_histogram name help labelnames buckets"
      | "key \<in> set (bl_seen (m_guard (h vs)))" "map_of (h_counts (h vs)) key = Some (exact_counts buckets vs)" by blast
    then show ?case
    proof cases
      case 1
      have "fst (observe (new_histogram name help labelnames buckets) v ls) = (new_histogram name help labelnames buckets)
          \<lparr>m_guard := new_guard\<lparr>bl_seen := [key]\<rparr>, h_counts := [(key, exact_counts buckets [v])], h_sums := [(key, fl_add (Fl 0) v)]\<rparr>"
        using assms(1) bump_exact [of "[]" buckets v] zero
        by (simp add: observe_def new_histogram_def admit_def new_guard_def MAX_SERIES_def dict_put_def get_or_zero_def Let_def)
      with 1 show ?thesis using step by (simp add: new_histogram_def)
    next
      case 2
      with assms(1) IH(1,2) bump_exact [OF len] show ?thesis
        by (simp add: step observe_def admit_def map_of_put Let_def)
    qed
  qed
  with assms(2) show ?thesis by (simp add: h_def)
qed

theorem histogram_counts_exact_witness:
  "map_of (h_counts (observe_all (new_histogram ''h'' ''help'' [] [Fl 1, Fl 5]) [] [Fl 3, Fl 0])) [] = Some [Fl 1, Fl 2, Fl 2]"
  using histogram_counts_exact [of "[]" "[]" "[]" "[Fl 3, Fl 0]" "''h''" "''help''" "[Fl 1, Fl 5]"]
  by (simp add: label_key_def exact_counts_def hits_below_def)

end
