(* ===== verification/Observability_Properties.thy ===== *)
theory Observability_Properties
  imports Observability
begin

text \<open>
  What callers can write into the log: request ids are canonical whatever the header held, values
  under sensitive keys never influence a line, and a line is printable ASCII without line breaks.
\<close>

section \<open>Request ids\<close>

lemma remove_all_id: "c \<notin> set s \<Longrightarrow> remove_all (c # pat) s = s"
proof (induction s)
  case (Cons x s)
  then show ?case by (simp add: remove_all.simps [of "c # pat" "x # s"])
qed (simp add: remove_all.simps)

lemma remove_all_char: "remove_all [c] s = filter (\<lambda>x. x \<noteq> c) s"
proof (induction s)
  case (Cons x s)
  then show ?case by (simp add: remove_all.simps [of "[c]" "x # s"])
qed (simp add: remove_all.simps)

lemma hex_digit_props:
  assumes "d < 16"
  shows "hex_value (hex_digit d) = Some d" "lower_hex (hex_digit d)" "hex_digit d \<noteq> CHR ''-''"
    "\<not> num_isspace (hex_digit d)" "hex_digit d \<noteq> CHR ''_''" "hex_digit d \<noteq> CHR ''+''" "ascii_lower (hex_digit d) \<noteq> CHR ''x''"
    "hex_digit d \<noteq> CHR ''u''" "hex_digit d \<noteq> CHR ''{''" "hex_digit d \<noteq> CHR ''}''"
proof -
  have "d \<in> {0..<16}" using assms by simp
  then have "d = 0 \<or> d = 1 \<or> d = 2 \<or> d = 3 \<or> d = 4 \<or> d = 5 \<or> d = 6 \<or> d = 7 \<or> d = 8 \<or> d = 9 \<or> d = 10 \<or> d = 11 \<or> d = 12
    \<or> d = 13 \<or> d = 14 \<or> d = 15" by (simp add: atLeastLessThanSuc numeral_eq_Suc) blast
  moreover have "hex_digit 0 = CHR ''0''" "hex_digit 1 = CHR ''1''" "hex_digit 2 = CHR ''2''" "hex_digit 3 = CHR ''3''"
    "hex_digit 4 = CHR ''4''" "hex_digit 5 = CHR ''5''" "hex_digit 6 = CHR ''6''" "hex_digit 7 = CHR ''7''"
    "hex_digit 8 = CHR ''8''" "hex_digit 9 = CHR ''9''" "hex_digit 10 = CHR ''a''" "hex_digit 11 = CHR ''b''"
    "hex_digit 12 = CHR ''c''" "hex_digit 13 = CHR ''d''" "hex_digit 14 = CHR ''e''" "hex_digit 15 = CHR ''f''"
    by (simp_all add: hex_digit_def char_of_def bit_0)
  ultimately show "hex_value (hex_digit d) = Some d" "lower_hex (hex_digit d)" "hex_digit d \<noteq> CHR ''-''"
    "\<not> num_isspace (hex_digit d)" "hex_digit d \<noteq> CHR ''_''" "hex_digit d \<noteq> CHR ''+''" "ascii_lower (hex_digit d) \<noteq> CHR ''x''"
    "hex_digit d \<noteq> CHR ''u''" "hex_digit d \<noteq> CHR ''{''" "hex_digit d \<noteq> CHR ''}''"
    by (elim disjE; simp add: hex_value_def lower_hex_def num_isspace_def c_isspace_def ascii_lower_def)+
qed

lemma hex_digits_mem: "c \<in> set (hex_digits k n) \<Longrightarrow> \<exists>d < 16. c = hex_digit d"
proof -
  assume "c \<in> set (hex_digits k n)"
  then obtain i where "c = hex_digit (n div 16 ^ i mod 16)" by (auto simp: hex_digits_def)
  then show ?thesis by (intro exI [of _ "n div 16 ^ i mod 16"]) simp
qed

lemma length_hex_digits [simp]: "length (hex_digits k n) = k"
  by (simp add: hex_digits_def)

lemma hex_digits_Suc: "hex_digits (Suc k) n = hex_digit (n div 16 ^ k mod 16) # hex_digits k n"
  by (simp add: hex_digits_def)

lemma parse_hex_from: "foldl (\<lambda>n c. 16 * n + the (hex_value c)) a (hex_digits k n) = a * 16 ^ k + n mod 16 ^ k"
proof (induction k arbitrary: a)
  case (Suc k)
  have "n mod (16 ^ k * 16) = 16 ^ k * (n div 16 ^ k mod 16) + n mod 16 ^ k" by (rule mod_mult2_eq)
  with Suc show ?case by (simp add: hex_digits_Suc hex_digit_props(1) algebra_simps)
qed (simp add: hex_digits_def)

lemma parse_hex_digits: "parse_hex (hex_digits k n) = n mod 16 ^ k"
  by (simp add: parse_hex_def parse_hex_from)

lemma hex_underscores_none: "CHR ''_'' \<notin> set s \<Longrightarrow> hex_underscores d s = Some s"
  by (induction s arbitrary: d) auto

lemma py_int16_digits:
  assumes "0 < k"
  shows "py_int16 (hex_digits k n) = Some (int (n mod 16 ^ k))"
proof -
  let ?h = "hex_digits k n"
  have all: "\<not> num_isspace c \<and> c \<noteq> CHR ''_'' \<and> c \<noteq> CHR ''+'' \<and> c \<noteq> CHR ''-'' \<and> is_hex c \<and> ascii_lower c \<noteq> CHR ''x''"
    if "c \<in> set ?h" for c
    using hex_digits_mem [OF that] hex_digit_props by (auto simp: is_hex_def)
  have ne: "?h \<noteq> []" using assms by (simp flip: length_0_conv)
  have trim: "trim num_isspace ?h = ?h" using all by (intro trim_id) (auto simp: list_all_iff)
  have sign: "split_sign ?h = (False, ?h)" using all ne by (cases ?h) (auto simp: split_sign_def)
  have pre: "\<not> (2 \<le> length ?h \<and> ?h ! 0 = CHR ''0'' \<and> ascii_lower (?h ! 1) = CHR ''x'')"
    using all [of "?h ! 1"] by (auto simp del: length_hex_digits)
  have us: "hex_underscores False ?h = Some ?h" using all by (intro hex_underscores_none) blast
  have "list_all is_hex ?h" using all by (auto simp: list_all_iff)
  with ne trim sign us show ?thesis
    unfolding py_int16_def Let_def trim sign prod.case if_not_P [OF pre] by (simp add: parse_hex_digits)
qed

definition uuid_pattern :: "bool list" where
  "uuid_pattern = replicate 8 False @ [True] @ replicate 4 False @ [True] @ replicate 4 False @ [True] @ replicate 4 False
     @ [True] @ replicate 12 False"

definition canonical_uuid :: "string \<Rightarrow> bool" where
  "canonical_uuid s \<longleftrightarrow> list_all2 (\<lambda>dash c. if dash then c = CHR ''-'' else lower_hex c) uuid_pattern s"

lemma split32: "length h = 32 \<Longrightarrow> h = take 8 h @ take 4 (drop 8 h) @ take 4 (drop 12 h) @ take 4 (drop 16 h) @ drop 20 h"
proof -
  have "take 4 (drop k h) @ drop (k + 4) h = drop k h" for k
    using append_take_drop_id [of 4 "drop k h"] by (simp add: add.commute)
  from this [of 8] this [of 12] this [of 16] show ?thesis by simp
qed

lemma uuid_text_filter: "filter (\<lambda>c. c \<noteq> CHR ''-'') (uuid_text n) = hex_digits 32 n"
proof -
  let ?h = "hex_digits 32 n"
  have keep: "filter (\<lambda>c. c \<noteq> CHR ''-'') xs = xs" if "set xs \<subseteq> set ?h" for xs
    using that hex_digits_mem hex_digit_props(3) by (fastforce simp: filter_id_conv)
  have "filter (\<lambda>c. c \<noteq> CHR ''-'') (uuid_text n)
      = take 8 ?h @ take 4 (drop 8 ?h) @ take 4 (drop 12 ?h) @ take 4 (drop 16 ?h) @ drop 20 ?h"
    by (simp add: uuid_text_def Let_def keep set_take_subset order_trans [OF set_take_subset] set_drop_subset)
  then show ?thesis using split32 [of ?h] by simp
qed

lemma uuid_text_mem: "c \<in> set (uuid_text n) \<Longrightarrow> c = CHR ''-'' \<or> c \<in> set (hex_digits 32 n)"
  unfolding uuid_text_filter [symmetric] by auto

lemma uuid_text_canonical: "canonical_uuid (uuid_text n)"
proof -
  let ?P = "\<lambda>dash c. if dash then c = CHR ''-'' else lower_hex c"
  have hex: "lower_hex c" if "c \<in> set (hex_digits 32 n)" for c
    using hex_digits_mem [OF that] hex_digit_props(2) by blast
  have group: "list_all2 ?P (replicate k False) xs" if "length xs = k" "set xs \<subseteq> set (hex_digits 32 n)" for k xs
    using that hex by (auto simp: list_all2_conv_all_nth subset_iff)
  show ?thesis unfolding canonical_uuid_def uuid_pattern_def uuid_text_def Let_def
    by (intro list_all2_appendI group)
      (simp_all add: set_take_subset set_drop_subset order_trans [OF set_take_subset])
qed

lemma uuid_roundtrip:
  assumes "n < 2 ^ 128"
  shows "uuid_of_text (uuid_text n) = Some n"
proof -
  have u: "CHR ''u'' \<notin> set (uuid_text n)" and br: "list_all (\<lambda>c. \<not> (c = CHR ''{'' \<or> c = CHR ''}'')) (uuid_text n)"
    using uuid_text_mem [of _ n] hex_digits_mem [of _ 32 n] hex_digit_props(8,9,10) by (fastforce simp: list_all_iff)+
  have "remove_all ''-'' (trim (\<lambda>c. c = CHR ''{'' \<or> c = CHR ''}'') (remove_all ''uuid:'' (remove_all ''urn:'' (uuid_text n))))
      = hex_digits 32 n"
    using u br by (simp add: remove_all_id trim_id remove_all_char uuid_text_filter)
  moreover have "(16::nat) ^ 32 = 2 ^ 128" by simp
  ultimately show ?thesis using assms by (simp add: uuid_of_text_def py_int16_digits)
qed

text \<open>
  Whatever a caller puts into \<open>X-Request-ID\<close>, the request id that is logged and echoed is a
  canonical UUID; and a caller that sends a canonical UUID gets it back.
\<close>

theorem request_id_canonical:
  "canonical_uuid (request_id_for_header fresh header)
    \<and> (\<forall>n. n < 2 ^ 128 \<longrightarrow> request_id_for_header fresh (Some (uuid_text n)) = uuid_text n)"
proof -
  have "canonical_uuid (request_id_for_header fresh header)"
    by (simp add: request_id_for_header_def uuid_text_canonical split: option.split)
  moreover have "uuid_text n \<noteq> []" for n by (simp add: uuid_text_def Let_def)
  ultimately show ?thesis by (simp add: request_id_for_header_def uuid_roundtrip)
qed

theorem request_id_canonical_witness:
  "request_id_for_header 7 (Some (uuid_text 42)) = uuid_text 42 \<and> canonical_uuid (request_id_for_header 7 (Some ''Bearer secret''))"
  using request_id_canonical [of 7 "Some ''Bearer secret''"] by simp

section \<open>Redaction\<close>

text \<open>Values that differ only under sensitive keys, at any depth.\<close>

inductive public_eq :: "json \<Rightarrow> json \<Rightarrow> bool" where
  same: "public_eq v v"
| elements: "list_all2 public_eq xs ys \<Longrightarrow> public_eq (JList xs) (JList ys)"
| fields: "list_all2 (\<lambda>a b. fst a = fst b \<and> (sensitive_key (fst a) \<or> public_eq (snd a) (snd b))) d e \<Longrightarrow> public_eq (JObj d) (JObj e)"

lemma list_all2_map_eq: "list_all2 (\<lambda>a b. f a = f b) d e \<Longrightarrow> map f d = map f e"
  by (induction rule: list_all2_induct) auto

lemma redact_public: "public_eq x y \<Longrightarrow> redact x = redact y"
proof (induction rule: public_eq.induct)
  case (elements xs ys)
  then have "list_all2 (\<lambda>x y. redact x = redact y) xs ys" by (rule list_all2_mono) blast
  then show ?case by (simp add: list_all2_map_eq)
next
  case (fields d e)
  let ?f = "\<lambda>kv. (fst kv, if sensitive_key (fst kv) then REDACTED else redact (snd kv))"
  from fields have "list_all2 (\<lambda>a b. ?f a = ?f b) d e" by (rule list_all2_mono) auto
  then have "map ?f d = map ?f e" by (rule list_all2_map_eq)
  then show ?case by simp
qed simp

section \<open>Lines\<close>

definition printable :: "string \<Rightarrow> bool" where
  "printable s \<longleftrightarrow> list_all (\<lambda>c. 32 \<le> (of_char c :: nat) \<and> (of_char c :: nat) < 127) s"

fun floats_printable :: "json \<Rightarrow> bool" where
  "floats_printable (JFloat f) \<longleftrightarrow> printable (float_text f)"
| "floats_printable (JList xs) \<longleftrightarrow> list_all floats_printable xs"
| "floats_printable (JObj d) \<longleftrightarrow> list_all (\<lambda>kv. floats_printable (snd kv)) d"
| "floats_printable v \<longleftrightarrow> True"

lemma printable_append [simp]: "printable (xs @ ys) \<longleftrightarrow> printable xs \<and> printable ys"
  by (simp add: printable_def)

lemma printable_concat: "(\<And>x. x \<in> set xs \<Longrightarrow> printable x) \<Longrightarrow> printable (concat xs)"
  by (induction xs) (simp_all add: printable_def)

lemma printable_join: "(\<And>x. x \<in> set xs \<Longrightarrow> printable x) \<Longrightarrow> printable sep \<Longrightarrow> printable (join sep xs)"
  unfolding join_def by (rule printable_concat) (auto split: list.splits)

lemma printable_hex: "d < 16 \<Longrightarrow> printable [hex_digit d]"
  by (auto simp: printable_def hex_digit_def)

lemma printable_esc: "printable (esc_char True c)"
proof -
  have h: "printable [hex_digit (of_char c div 16)]" "printable [hex_digit (of_char c mod 16)]"
    using char_bounds [of c] by (auto intro!: printable_hex simp: less_mult_imp_div_less)
  show ?thesis using h by (auto simp: esc_char_def Let_def printable_def)
qed

lemma printable_string: "printable (json_string True s)"
proof -
  have "printable (concat (map (esc_char True) s))" by (rule printable_concat) (auto intro: printable_esc)
  then show ?thesis by (simp add: json_string_def) (simp add: printable_def)
qed

lemma printable_int: "printable (show_int n)"
  using show_nat_digits [of "nat n"] show_nat_digits [of "nat (- n)"]
  by (auto simp: show_int_def printable_def list_all_iff ascii_digit_def)

lemma printable_json: "floats_printable v \<Longrightarrow> printable (json_dumps True v)"
proof (induction v)
  case (JList xs)
  then have "printable (join '','' (map (json_dumps True) xs))"
    by (intro printable_join) (auto simp: list_all_iff printable_def)
  then show ?case by simp (simp add: printable_def)
next
  case (JObj d)
  have "printable (join '','' (map (\<lambda>(k, t). json_string True k @ '':'' @ t)
      (sort_key fst (map (\<lambda>kv. (fst kv, json_dumps True (snd kv))) d))))"
  proof (rule printable_join)
    fix x assume "x \<in> set (map (\<lambda>(k, t). json_string True k @ '':'' @ t)
      (sort_key fst (map (\<lambda>kv. (fst kv, json_dumps True (snd kv))) d)))"
    then obtain kv where kv: "kv \<in> set d" "x = json_string True (fst kv) @ '':'' @ json_dumps True (snd kv)" by auto
    with JObj.IH [of kv "snd kv"] JObj.prems have "printable (json_dumps True (snd kv))" by (cases kv) (auto simp: list_all_iff)
    with kv show "printable x" by (simp add: printable_string) (simp add: printable_def)
  qed (simp add: printable_def)
  then show ?case by simp (simp add: printable_def)
next
  case JNull
  then show ?case by (simp add: printable_def)
next
  case (JBool b)
  then show ?case by (simp add: printable_def)
qed (simp_all add: printable_string printable_int)

lemma floats_redact: "floats_printable v \<Longrightarrow> floats_printable (redact v)"
proof (induction v)
  case (JObj d)
  then show ?case by (fastforce simp: list_all_iff REDACTED_def)
qed (auto simp: list_all_iff)

lemma floats_update:
  "floats_printable (JObj d) \<Longrightarrow> floats_printable (JObj e) \<Longrightarrow> floats_printable (JObj (dict_update d e))"
proof (induction e arbitrary: d)
  case (Cons kv e)
  have "list_all (\<lambda>x. floats_printable (snd x)) (map (\<lambda>x. if fst x = fst kv then kv else x) d)"
    using Cons.prems by (induction d) auto
  with Cons.prems have "floats_printable (JObj (dict_set d kv))" by (simp add: dict_set_def)
  with Cons.IH [of "dict_set d kv"] Cons.prems show ?case by (simp add: dict_update_def)
qed (simp add: dict_update_def)

text \<open>
  C23. A log line is one line of printable ASCII, whatever the fields of the event and the headers
  of the request hold; and it does not depend on the values under sensitive keys, at any depth of
  the fields: events that differ only there produce the same line. The hypothesis is that floats
  are printed in printable characters.
\<close>

theorem log_line_safe:
  assumes "public_eq (JObj fs) (JObj gs)" "floats_printable (JObj fs)"
  shows "format_line ctx (r\<lparr>lr_fields := fs\<rparr>) = format_line ctx (r\<lparr>lr_fields := gs\<rparr>)
    \<and> printable (format_line ctx (r\<lparr>lr_fields := fs\<rparr>))"
proof
  have base: "log_base ctx (r\<lparr>lr_fields := x\<rparr>) = log_base ctx r" for x by (simp add: log_base_def)
  have upd: "lr_fields (r\<lparr>lr_fields := x\<rparr>) = x" "lr_exception_type (r\<lparr>lr_fields := x\<rparr>) = lr_exception_type r" for x
    by simp_all
  show "format_line ctx (r\<lparr>lr_fields := fs\<rparr>) = format_line ctx (r\<lparr>lr_fields := gs\<rparr>)"
    unfolding format_line_def log_payload_def upd base redact_public [OF assms(1)] ..
  have "floats_printable (opt_str v)" for v by (simp add: opt_str_def split: option.split)
  then have fbase: "floats_printable (JObj (log_base ctx x))" for x by (simp add: log_base_def)
  obtain hs where red: "redact (JObj fs) = JObj hs" by simp
  have "floats_printable (JObj hs)" using floats_redact [OF assms(2)] unfolding red .
  with fbase have upd: "floats_printable (JObj (dict_update (log_base ctx x) hs))" for x by (rule floats_update)
  have "log_payload ctx (r\<lparr>lr_fields := fs\<rparr>) = (case lr_exception_type r of
      None \<Rightarrow> dict_update (log_base ctx (r\<lparr>lr_fields := fs\<rparr>)) hs
    | Some e \<Rightarrow> dict_update (dict_update (log_base ctx (r\<lparr>lr_fields := fs\<rparr>)) hs) [(''exceptionType'', JStr e)])"
    using red by (simp add: log_payload_def Let_def del: redact.simps)
  moreover have "floats_printable (JObj [(''exceptionType'', JStr e)])" for e by simp
  ultimately have "floats_printable (JObj (log_payload ctx (r\<lparr>lr_fields := fs\<rparr>)))"
    using upd floats_update by (cases "lr_exception_type r") simp_all
  then show "printable (format_line ctx (r\<lparr>lr_fields := fs\<rparr>))"
    unfolding format_line_def by (rule printable_json)
qed

definition demo_log :: "json \<Rightarrow> string" where
  "demo_log v = format_line (snd (begin_request \<lparr>rc_request_id = None, rc_organization_ref = None, rc_actor_ref = None,
       rc_membership_ref = None, rc_session_ref = None, rc_device_ref = None, rc_app_version = None, rc_app_build = None,
       rc_trace_id = None, rc_span_id = None, rc_parent_span_id = None\<rparr> (uuid_text 1) (trace_context_for_header ''s'' ''t'' None)))
     (\<lparr>lr_timestamp = ''now'', lr_level = ''info'', lr_event = ''e'', lr_fields = [], lr_exception_type = None\<rparr>
       \<lparr>lr_fields := [(''headers'', JObj [(''Access-Token'', v)])]\<rparr>)"

theorem log_line_safe_witness: "demo_log (JStr ''a'') = demo_log (JStr ''b'')"
proof -
  have "sensitive_key ''Access-Token''" by code_simp
  then have "public_eq (JObj [(''headers'', JObj [(''Access-Token'', JStr ''a'')])]) (JObj [(''headers'', JObj [(''Access-Token'', JStr ''b'')])])"
    by (intro fields) (auto intro!: fields)
  then show ?thesis unfolding demo_log_def by (rule log_line_safe [THEN conjunct1]) simp
qed

end
