(* ===== verification/Assembly_Topology.thy ===== *)
theory Assembly_Topology
  imports Assembly_Contract Py_Number
begin

text \<open>
  Topology evidence, \<open>app/assembly_topology.py\<close>, \<open>app/assembly_topology_bridge.py\<close> and
  \<open>app/assembly_topology_verification.py\<close>: the shape of a source topology, its comparison with a
  frozen assembly, and the verification of operator measurements. Non-negative integers of the
  schema are naturals.
\<close>

section \<open>Float arithmetic\<close>

fun fl_mul :: "fl \<Rightarrow> fl \<Rightarrow> fl" where
  "fl_mul (Fl a) (Fl b) = fl_round (a * b)"
| "fl_mul FNaN _ = FNaN"
| "fl_mul _ FNaN = FNaN"
| "fl_mul (FInf s) (FInf t) = FInf (s \<noteq> t)"
| "fl_mul (FInf s) (Fl b) = (if b = 0 then FNaN else FInf (s \<noteq> (b < 0)))"
| "fl_mul (Fl a) (FInf t) = (if a = 0 then FNaN else FInf ((a < 0) \<noteq> t))"

text \<open>\<open>a / b\<close> for a divisor that is not zero.\<close>

fun fl_div :: "fl \<Rightarrow> fl \<Rightarrow> fl" where
  "fl_div (Fl a) (Fl b) = fl_round (a / b)"
| "fl_div FNaN _ = FNaN"
| "fl_div _ FNaN = FNaN"
| "fl_div (FInf s) (FInf t) = FNaN"
| "fl_div (FInf s) (Fl b) = FInf (s \<noteq> (b < 0))"
| "fl_div (Fl a) (FInf t) = Fl 0"

text \<open>\<open>sum\<close> of floats, with the compensation of Python 3.12: the running sum and the lost low-order part.\<close>

fun sum_loop :: "fl \<Rightarrow> fl \<Rightarrow> fl list \<Rightarrow> fl" where
  "sum_loop s c [] = (if c \<noteq> Fl 0 \<and> is_finite c then fl_add s c else s)"
| "sum_loop s c (x # xs) = (let t = fl_add s x in
     sum_loop t (fl_add c (if fl_le (fl_abs x) (fl_abs s) then fl_add (fl_sub s t) x else fl_add (fl_sub x t) s)) xs)"

definition py_sum :: "fl list \<Rightarrow> fl" where
  "py_sum xs = (case xs of [] \<Rightarrow> Fl 0 | x # rest \<Rightarrow> sum_loop x (Fl 0) rest)"

section \<open>Evidence\<close>

record dimension_payload =
  dim_value :: fl
  dim_unit :: string

definition millimeters :: "dimension_payload \<Rightarrow> fl" where
  "millimeters d = (if dim_unit d = ''cm'' then fl_mul (dim_value d) (Fl 10) else dim_value d)"

record topology_cell =
  tcell_id :: string
  tcell_section_id :: string
  tcell_row :: nat
  tcell_column :: nat
  tcell_row_span :: nat
  tcell_column_span :: nat

record corner_leg_topology =
  leg_id :: string
  leg_length :: dimension_payload
  leg_section_ids :: "string list"

record topology_constraint =
  tcon_id :: string
  tcon_statement :: string

record topology_evidence =
  top_id :: string
  top_source_reference :: string
  top_source_scope :: string
  top_item :: string
  top_configuration :: string
  top_version :: int
  top_kind :: string
  top_row_count :: nat
  top_column_count :: nat
  top_row_proportions :: "fl list"
  top_column_proportions :: "fl list"
  top_cells :: "topology_cell list"
  top_corner_legs :: "corner_leg_topology list"
  top_constraints :: "topology_constraint list"
  top_readiness :: string
  top_source_basis :: string

text \<open>The declared constraints of the fields.\<close>

definition label_ok :: "nat \<Rightarrow> string \<Rightarrow> bool" where
  "label_ok n s \<longleftrightarrow> 1 \<le> length s \<and> length s \<le> n"

definition dimension_valid :: "dimension_payload \<Rightarrow> bool" where
  "dimension_valid d \<longleftrightarrow> is_finite (dim_value d) \<and> fl_less (Fl 0) (dim_value d) \<and> dim_unit d \<in> {''cm'', ''mm''}"

definition cell_valid :: "topology_cell \<Rightarrow> bool" where
  "cell_valid c \<longleftrightarrow> label_ok 256 (tcell_id c) \<and> label_ok 256 (tcell_section_id c) \<and> 1 \<le> tcell_row_span c \<and> 1 \<le> tcell_column_span c"

definition leg_valid :: "corner_leg_topology \<Rightarrow> bool" where
  "leg_valid l \<longleftrightarrow> label_ok 256 (leg_id l) \<and> dimension_valid (leg_length l)"

definition constraint_valid :: "topology_constraint \<Rightarrow> bool" where
  "constraint_valid c \<longleftrightarrow> label_ok 256 (tcon_id c) \<and> label_ok 2048 (tcon_statement c)"

definition topology_fields_valid :: "topology_evidence \<Rightarrow> bool" where
  "topology_fields_valid t \<longleftrightarrow> list_all (label_ok 256) [top_id t, top_source_reference t, top_source_scope t, top_item t, top_configuration t]
     \<and> 1 \<le> top_version t \<and> top_kind t \<in> {''planarGrid'', ''corner''} \<and> list_all cell_valid (top_cells t)
     \<and> list_all leg_valid (top_corner_legs t) \<and> list_all constraint_valid (top_constraints t)
     \<and> top_readiness t \<in> {''semanticOnly'', ''cornerEnvelopeKnown'', ''dimensionallyRenderable''} \<and> label_ok 4096 (top_source_basis t)"

definition validate_track_proportions :: "fl list \<Rightarrow> nat \<Rightarrow> unit res" where
  "validate_track_proportions vs expected_count =
    (if vs = [] then ok ()
     else if length vs \<noteq> expected_count then raise ValueError
     else if list_ex (\<lambda>v. \<not> is_finite v \<or> fl_le v (Fl 0)) vs then raise ValueError
     else if fl_less (fl_round (1 / 1000000)) (fl_abs (fl_sub (py_sum vs) (Fl 1))) then raise ValueError
     else ok ())"

fun place_cells :: "nat \<Rightarrow> nat \<Rightarrow> topology_cell list \<Rightarrow> string list \<Rightarrow> unit res" where
  "place_cells rows columns [] placed = ok ()"
| "place_cells rows columns (cell # rest) placed =
    (if tcell_section_id cell \<in> set placed then raise ValueError
     else if rows < tcell_row cell + tcell_row_span cell then raise ValueError
     else if columns < tcell_column cell + tcell_column_span cell then raise ValueError
     else place_cells rows columns rest (tcell_section_id cell # placed))"

definition topology_shape_must_be_self_consistent :: "topology_evidence \<Rightarrow> unit res" where
  "topology_shape_must_be_self_consistent t =
    (if top_kind t = ''planarGrid'' then
       (if top_row_count t = 0 \<or> top_column_count t = 0 then raise ValueError
        else if top_corner_legs t \<noteq> [] then raise ValueError
        else seq (validate_track_proportions (top_row_proportions t) (top_row_count t))
          (seq (validate_track_proportions (top_column_proportions t) (top_column_count t))
            (place_cells (top_row_count t) (top_column_count t) (top_cells t) [])))
     else if top_kind t = ''corner'' then
       (if top_cells t \<noteq> [] then raise ValueError
        else if top_row_count t \<noteq> 0 \<or> top_column_count t \<noteq> 0 then raise ValueError
        else if top_row_proportions t \<noteq> [] \<or> top_column_proportions t \<noteq> [] then raise ValueError
        else if length (top_corner_legs t) < 2 then raise ValueError
        else if \<not> distinct (map leg_id (top_corner_legs t)) then raise ValueError
        else ok ())
     else ok ())"

definition assess_topology_renderability :: "topology_evidence \<Rightarrow> string \<times> bool \<times> string list" where
  "assess_topology_renderability t =
    (if top_readiness t = ''dimensionallyRenderable'' then (top_id t, True, [])
     else if top_readiness t = ''cornerEnvelopeKnown'' then
       (top_id t, False, [''Per-leg section allocation'', ''Per-section widths on each corner leg'', ''Verified corner/junction geometry''])
     else let missing = (if top_kind t = ''planarGrid'' then
           (if length (top_column_proportions t) \<noteq> top_column_count t then [''Internal column widths/proportions''] else [])
           @ (if length (top_row_proportions t) \<noteq> top_row_count t then [''Internal row heights/proportions''] else []) else [])
       in (top_id t, False, if missing = [] then [''Topology is semantic-only and needs operator-verified dimensional geometry.''] else missing))"

section \<open>Comparison with a frozen assembly\<close>

record bridge_context =
  bc_item :: string
  bc_configuration :: string
  bc_version :: int
  bc_section_ids :: "string list"

record bridge_assessment =
  ba_topology :: string
  ba_source_reference :: string
  ba_source_scope :: string
  ba_item :: string
  ba_configuration :: string
  ba_version :: int
  ba_assembly_schema :: string
  ba_compatible :: bool
  ba_requirements :: "string list"
  ba_corroborated :: "string list"

definition assessment :: "topology_evidence \<Rightarrow> bridge_context \<Rightarrow> bool \<Rightarrow> string list \<Rightarrow> string list \<Rightarrow> bridge_assessment" where
  "assessment t ctx compatible requirements corroborated =
    \<lparr>ba_topology = top_id t, ba_source_reference = top_source_reference t, ba_source_scope = top_source_scope t,
     ba_item = bc_item ctx, ba_configuration = bc_configuration ctx, ba_version = bc_version ctx,
     ba_assembly_schema = ''vitrial.assembly.v1'', ba_compatible = compatible, ba_requirements = requirements, ba_corroborated = corroborated\<rparr>"

definition same_ids :: "string list \<Rightarrow> string list \<Rightarrow> bool" where
  "same_ids xs ys \<longleftrightarrow> set xs = set ys \<and> length xs = length ys"

definition bridge_validate_identity :: "topology_evidence \<Rightarrow> assembly_snapshot \<Rightarrow> bridge_context \<Rightarrow> unit res" where
  "bridge_validate_identity t a ctx =
    (if top_item t \<noteq> bc_item ctx \<or> top_configuration t \<noteq> bc_configuration ctx \<or> top_version t \<noteq> bc_version ctx
     then raise AssemblyTopologyAssemblyV1BridgeError
     else if bom_configuration (asm_bom a) \<noteq> bc_configuration ctx \<or> bom_version (asm_bom a) \<noteq> bc_version ctx
       \<or> rd_configuration (asm_render a) \<noteq> bc_configuration ctx \<or> rd_version (asm_render a) \<noteq> bc_version ctx
     then raise AssemblyTopologyAssemblyV1BridgeError
     else if \<not> same_ids (map asec_id (asm_sections a)) (bc_section_ids ctx)
       \<or> \<not> same_ids (map rs_id (rd_sections (asm_render a))) (bc_section_ids ctx)
     then raise AssemblyTopologyAssemblyV1BridgeError
     else ok ())"

fun starts_from :: "fl \<Rightarrow> fl list \<Rightarrow> fl list" where
  "starts_from cursor [] = []"
| "starts_from cursor (v # vs) = cursor # starts_from (fl_add cursor v) vs"

definition starts :: "fl list \<Rightarrow> fl list" where
  "starts vs = starts_from (Fl 0) vs"

definition FRAME_TOLERANCE :: fl where
  "FRAME_TOLERANCE = fl_round (1 / 1000000)"

definition approximately_equal :: "fl \<Rightarrow> fl \<Rightarrow> bool" where
  "approximately_equal l r \<longleftrightarrow> fl_le (fl_abs (fl_sub l r)) FRAME_TOLERANCE"

definition corroborates :: "topology_evidence \<Rightarrow> assembly_snapshot \<Rightarrow> topology_cell \<Rightarrow> unit res" where
  "corroborates t a cell =
    (if tcell_row cell \<noteq> 0 \<or> tcell_row_span cell \<noteq> 1 \<or> top_column_count t < tcell_column cell + tcell_column_span cell
     then raise AssemblyTopologyAssemblyV1BridgeError
     else case map_of (rev (map (\<lambda>s. (rs_id s, s)) (rd_sections (asm_render a)))) (tcell_section_id cell) of
       None \<Rightarrow> raise AssemblyTopologyAssemblyV1BridgeError
     | Some render \<Rightarrow>
        (if length (top_column_proportions t) \<le> tcell_column cell then raise IndexError
         else let expected_x = starts (top_column_proportions t) ! tcell_column cell;
                  expected_width = py_sum (take (tcell_column_span cell) (drop (tcell_column cell) (top_column_proportions t)));
                  frame = rs_frame render
         in if approximately_equal (fr_x frame) expected_x \<and> approximately_equal (fr_y frame) (Fl 0)
              \<and> approximately_equal (fr_width frame) expected_width \<and> approximately_equal (fr_height frame) (Fl 1)
            then ok () else raise AssemblyTopologyAssemblyV1BridgeError))"

definition assess_topology_against_assembly_v1 ::
  "topology_evidence \<Rightarrow> assembly_snapshot \<Rightarrow> bridge_context \<Rightarrow> bridge_assessment res" where
  "assess_topology_against_assembly_v1 t a ctx = seq (bridge_validate_identity t a ctx)
    (if top_kind t = ''corner'' then
       (let assigned = concat (map leg_section_ids (top_corner_legs t));
            requirements = [''cornerGeometry'']
              @ (if top_readiness t \<noteq> ''dimensionallyRenderable'' then [''verifiedTopologyDimensions''] else [])
              @ (if same_ids assigned (bc_section_ids ctx) then [] else [''sectionToCornerLegAssignment''])
        in ok (assessment t ctx False requirements []))
     else if \<not> same_ids (map tcell_section_id (top_cells t)) (bc_section_ids ctx)
     then raise AssemblyTopologyAssemblyV1BridgeError
     else
       (let requirements = (if top_row_count t \<noteq> 1 then [''multiRowPlanarGeometry''] else [])
              @ (if top_readiness t \<noteq> ''dimensionallyRenderable'' \<or> length (top_row_proportions t) \<noteq> top_row_count t
                   \<or> length (top_column_proportions t) \<noteq> top_column_count t then [''verifiedTopologyDimensions''] else [])
        in if requirements \<noteq> [] then ok (assessment t ctx False requirements [])
           else seq (for_each (corroborates t a) (top_cells t))
             (ok (assessment t ctx True [] (map tcell_section_id (top_cells t))))))"

section \<open>Verification of measurements\<close>

definition DIMENSION_TOLERANCE_MM :: fl where
  "DIMENSION_TOLERANCE_MM = Fl 2"

record geometry_context =
  gc_item :: string
  gc_configuration :: string
  gc_version :: int
  gc_opening_width :: "dimension_payload option"
  gc_opening_height :: "dimension_payload option"
  gc_product_width :: "dimension_payload option"
  gc_product_height :: "dimension_payload option"
  gc_section_ids :: "string list"

record leg_verification =
  lv_leg_id :: string
  lv_measured_length :: dimension_payload
  lv_section_ids :: "string list"
  lv_section_widths :: "dimension_payload list"

record dimension_verification =
  dv_id :: string
  dv_topology :: string
  dv_item :: string
  dv_configuration :: string
  dv_version :: int
  dv_basis :: string
  dv_verified_by :: string
  dv_verified_at :: string
  dv_evidence :: "string list"
  dv_row_heights :: "dimension_payload list"
  dv_column_widths :: "dimension_payload list"
  dv_corner_legs :: "leg_verification list"
  dv_angle :: "fl option"

record verified_leg =
  vl_leg_id :: string
  vl_length_meters :: fl
  vl_section_ids :: "string list"
  vl_section_widths_meters :: "fl list"

record verified_geometry =
  vg_verification :: string
  vg_topology :: string
  vg_source_reference :: string
  vg_source_scope :: string
  vg_item :: string
  vg_configuration :: string
  vg_version :: int
  vg_kind :: string
  vg_basis :: string
  vg_verified_by :: string
  vg_verified_at :: string
  vg_evidence :: "string list"
  vg_row_heights :: "fl list"
  vg_column_widths :: "fl list"
  vg_row_proportions :: "fl list"
  vg_column_proportions :: "fl list"
  vg_corner_legs :: "verified_leg list"
  vg_angle :: "fl option"

definition opt_dimension_valid :: "dimension_payload option \<Rightarrow> bool" where
  "opt_dimension_valid d \<longleftrightarrow> (case d of None \<Rightarrow> True | Some x \<Rightarrow> dimension_valid x)"

definition geometry_context_valid :: "geometry_context \<Rightarrow> bool" where
  "geometry_context_valid c \<longleftrightarrow> label_ok 256 (gc_item c) \<and> label_ok 256 (gc_configuration c) \<and> 1 \<le> gc_version c
     \<and> list_all opt_dimension_valid [gc_opening_width c, gc_opening_height c, gc_product_width c, gc_product_height c]"

definition leg_verification_valid :: "leg_verification \<Rightarrow> bool" where
  "leg_verification_valid l \<longleftrightarrow> label_ok 256 (lv_leg_id l) \<and> dimension_valid (lv_measured_length l) \<and> list_all dimension_valid (lv_section_widths l)"

definition dimension_verification_valid :: "dimension_verification \<Rightarrow> bool" where
  "dimension_verification_valid v \<longleftrightarrow>
     list_all (label_ok 256) [dv_id v, dv_topology v, dv_item v, dv_configuration v, dv_verified_by v] \<and> 1 \<le> dv_version v
     \<and> dv_basis v \<in> {''opening'', ''product''} \<and> list_all dimension_valid (dv_row_heights v) \<and> list_all dimension_valid (dv_column_widths v)
     \<and> list_all leg_verification_valid (dv_corner_legs v) \<and> (case dv_angle v of None \<Rightarrow> True | Some a \<Rightarrow> is_finite a)"

definition verify_validate_identity :: "topology_evidence \<Rightarrow> geometry_context \<Rightarrow> dimension_verification \<Rightarrow> unit res" where
  "verify_validate_identity t ctx v =
    (let expected = (top_item t, top_configuration t, top_version t) in
     if (gc_item ctx, gc_configuration ctx, gc_version ctx) \<noteq> expected then raise TopologyDimensionVerificationError
     else if (dv_item v, dv_configuration v, dv_version v) \<noteq> expected \<or> dv_topology v \<noteq> top_id t
     then raise TopologyDimensionVerificationError
     else if py_strip (dv_verified_by v) = [] then raise TopologyDimensionVerificationError
     else ok ())"

definition reference_dimensions ::
  "geometry_context \<Rightarrow> string \<Rightarrow> (dimension_payload option \<times> dimension_payload option) res" where
  "reference_dimensions ctx basis =
    (if basis = ''opening'' then ok (gc_opening_width ctx, gc_opening_height ctx)
     else if basis = ''product'' then ok (gc_product_width ctx, gc_product_height ctx)
     else raise TopologyDimensionVerificationError)"

definition beyond_tolerance :: "fl \<Rightarrow> fl \<Rightarrow> bool" where
  "beyond_tolerance a b \<longleftrightarrow> fl_less DIMENSION_TOLERANCE_MM (fl_abs (fl_sub a b))"

definition reconcile_total :: "fl list \<Rightarrow> fl \<Rightarrow> unit res" where
  "reconcile_total vs expected_mm = guard (beyond_tolerance (py_sum vs) expected_mm) TopologyDimensionVerificationError"

definition proportions :: "fl list \<Rightarrow> fl list" where
  "proportions vs = (let whole = py_sum vs in if fl_le whole (Fl 0) then [] else map (\<lambda>v. fl_div v whole) vs)"

definition verified_base :: "topology_evidence \<Rightarrow> dimension_verification \<Rightarrow> verified_geometry" where
  "verified_base t v =
    \<lparr>vg_verification = dv_id v, vg_topology = top_id t, vg_source_reference = top_source_reference t,
     vg_source_scope = top_source_scope t, vg_item = top_item t, vg_configuration = top_configuration t,
     vg_version = top_version t, vg_kind = top_kind t, vg_basis = dv_basis v, vg_verified_by = dv_verified_by v,
     vg_verified_at = dv_verified_at v, vg_evidence = dv_evidence v, vg_row_heights = [], vg_column_widths = [],
     vg_row_proportions = [], vg_column_proportions = [], vg_corner_legs = [], vg_angle = None\<rparr>"

definition meters :: "fl list \<Rightarrow> fl list" where
  "meters vs = map (\<lambda>v. fl_div v (Fl 1000)) vs"

definition verify_planar :: "topology_evidence \<Rightarrow> geometry_context \<Rightarrow> dimension_verification \<Rightarrow> verified_geometry res" where
  "verify_planar t ctx v = ebind (reference_dimensions ctx (dv_basis v)) (\<lambda>(width, height). case (width, height) of
     (Some w, Some h) \<Rightarrow>
       if dv_corner_legs v \<noteq> [] then raise TopologyDimensionVerificationError
       else if dv_angle v \<noteq> None then raise TopologyDimensionVerificationError
       else let rows = map millimeters (dv_row_heights v); columns = map millimeters (dv_column_widths v) in
         if length rows \<noteq> top_row_count t then raise TopologyDimensionVerificationError
         else if length columns \<noteq> top_column_count t then raise TopologyDimensionVerificationError
         else seq (reconcile_total rows (millimeters h)) (seq (reconcile_total columns (millimeters w))
           (ok ((verified_base t v)\<lparr>vg_row_heights := meters rows, vg_column_widths := meters columns,
              vg_row_proportions := proportions rows, vg_column_proportions := proportions columns\<rparr>)))
   | _ \<Rightarrow> raise TopologyDimensionVerificationError)"

fun assign_sections :: "string list \<Rightarrow> string list \<Rightarrow> string list \<Rightarrow> string list res" where
  "assign_sections known [] assigned = ok assigned"
| "assign_sections known (section_id # rest) assigned =
    (if section_id \<notin> set known then raise TopologyDimensionVerificationError
     else if section_id \<in> set assigned then raise TopologyDimensionVerificationError
     else assign_sections known rest (assigned @ [section_id]))"

fun verify_legs :: "(string \<rightharpoonup> corner_leg_topology) \<Rightarrow> string list \<Rightarrow> leg_verification list \<Rightarrow> string list \<Rightarrow> string list \<Rightarrow> verified_leg list
    \<Rightarrow> (string list \<times> verified_leg list) res" where
  "verify_legs base_by_id known [] seen assigned verified = ok (assigned, verified)"
| "verify_legs base_by_id known (leg # rest) seen assigned verified =
    (if lv_leg_id leg \<in> set seen then raise TopologyDimensionVerificationError
     else case base_by_id (lv_leg_id leg) of
       None \<Rightarrow> raise TopologyDimensionVerificationError
     | Some base \<Rightarrow>
       (let measured_mm = millimeters (lv_measured_length leg); expected_mm = millimeters (leg_length base);
            widths = map millimeters (lv_section_widths leg) in
        if beyond_tolerance measured_mm expected_mm then raise TopologyDimensionVerificationError
        else if length (lv_section_ids leg) \<noteq> length (lv_section_widths leg) then raise TopologyDimensionVerificationError
        else seq (reconcile_total widths measured_mm)
          (ebind (assign_sections known (lv_section_ids leg) assigned) (\<lambda>assigned'.
            verify_legs base_by_id known rest (lv_leg_id leg # seen) assigned'
              (verified @ [\<lparr>vl_leg_id = lv_leg_id leg, vl_length_meters = fl_div measured_mm (Fl 1000),
                 vl_section_ids = lv_section_ids leg, vl_section_widths_meters = meters widths\<rparr>])))))"

definition verify_corner :: "topology_evidence \<Rightarrow> geometry_context \<Rightarrow> dimension_verification \<Rightarrow> verified_geometry res" where
  "verify_corner t ctx v = ebind (reference_dimensions ctx (dv_basis v)) (\<lambda>(_, height).
     if height = None then raise TopologyDimensionVerificationError
     else if dv_row_heights v \<noteq> [] \<or> dv_column_widths v \<noteq> [] then raise TopologyDimensionVerificationError
     else case dv_angle v of
       None \<Rightarrow> raise TopologyDimensionVerificationError
     | Some angle \<Rightarrow>
         if \<not> is_finite angle \<or> \<not> (fl_less (Fl 0) angle \<and> fl_less angle (Fl 180)) then raise TopologyDimensionVerificationError
         else if length (dv_corner_legs v) \<noteq> length (top_corner_legs t) then raise TopologyDimensionVerificationError
         else ebind (verify_legs (map_of (rev (map (\<lambda>l. (leg_id l, l)) (top_corner_legs t)))) (gc_section_ids ctx)
             (dv_corner_legs v) [] [] []) (\<lambda>(assigned, verified).
           if set assigned \<noteq> set (gc_section_ids ctx) then raise TopologyDimensionVerificationError
           else ok ((verified_base t v)\<lparr>vg_corner_legs := verified, vg_angle := Some angle\<rparr>)))"

definition verify_topology_dimensions ::
  "topology_evidence \<Rightarrow> geometry_context \<Rightarrow> dimension_verification \<Rightarrow> verified_geometry res" where
  "verify_topology_dimensions t ctx v = seq (verify_validate_identity t ctx v)
     (if top_kind t = ''planarGrid'' then verify_planar t ctx v else verify_corner t ctx v)"

end
