(* ===== verification/Topology_Properties.thy ===== *)
theory Topology_Properties
  imports Assembly_Topology
begin

text \<open>
  What an accepted topology verification guarantees, what a compatible assessment means, and the
  measurements that overflow.
\<close>

section \<open>Corner legs\<close>

lemma assign_sections_ok:
  "assign_sections known ids assigned = ok out \<longleftrightarrow>
    out = assigned @ ids \<and> set ids \<subseteq> set known \<and> distinct ids \<and> set ids \<inter> set assigned = {}"
  by (induction known ids assigned rule: assign_sections.induct) auto

definition leg_measured :: "(string \<rightharpoonup> corner_leg_topology) \<Rightarrow> leg_verification \<Rightarrow> bool" where
  "leg_measured base_by_id leg \<longleftrightarrow> (case base_by_id (lv_leg_id leg) of None \<Rightarrow> False
     | Some base \<Rightarrow> \<not> beyond_tolerance (millimeters (lv_measured_length leg)) (millimeters (leg_length base))
         \<and> length (lv_section_ids leg) = length (lv_section_widths leg)
         \<and> \<not> beyond_tolerance (py_sum (map millimeters (lv_section_widths leg))) (millimeters (lv_measured_length leg)))"

definition leg_geometry :: "leg_verification \<Rightarrow> verified_leg" where
  "leg_geometry leg = \<lparr>vl_leg_id = lv_leg_id leg, vl_length_meters = fl_div (millimeters (lv_measured_length leg)) (Fl 1000),
     vl_section_ids = lv_section_ids leg, vl_section_widths_meters = meters (map millimeters (lv_section_widths leg))\<rparr>"

lemma verify_legs_ok:
  assumes "verify_legs base known legs seen assigned verified = ok (assigned', verified')"
  shows "assigned' = assigned @ concat (map lv_section_ids legs) \<and> verified' = verified @ map leg_geometry legs
    \<and> distinct (map lv_leg_id legs) \<and> set (map lv_leg_id legs) \<inter> set seen = {} \<and> list_all (leg_measured base) legs
    \<and> (distinct assigned \<longrightarrow> distinct assigned') \<and> set assigned' \<subseteq> set known \<union> set assigned"
  using assms
proof (induction legs arbitrary: seen assigned verified)
  case (Cons leg rest)
  from Cons.prems obtain b where b: "base (lv_leg_id leg) = Some b" and new: "lv_leg_id leg \<notin> set seen"
    and meas: "leg_measured base leg"
    and asg: "assign_sections known (lv_section_ids leg) assigned = ok (assigned @ lv_section_ids leg)"
    and rest: "verify_legs base known rest (lv_leg_id leg # seen) (assigned @ lv_section_ids leg) (verified @ [leg_geometry leg])
      = ok (assigned', verified')"
    by (auto simp: leg_measured_def leg_geometry_def reconcile_total_def assign_sections_ok Let_def res_simps split: if_splits)
  note IH = Cons.IH [OF rest]
  from asg have sec: "set (lv_section_ids leg) \<subseteq> set known" "distinct (lv_section_ids leg)" "set (lv_section_ids leg) \<inter> set assigned = {}"
    by (simp_all add: assign_sections_ok)
  have "set assigned' \<subseteq> set known \<union> set (assigned @ lv_section_ids leg)" using IH by blast
  with sec(1) have "set assigned' \<subseteq> set known \<union> set assigned" unfolding set_append by blast
  moreover have "distinct assigned \<longrightarrow> distinct assigned'" using IH sec by (auto simp only: distinct_append)
  ultimately show ?case using IH new meas by auto
qed simp

section \<open>Tolerance in exact arithmetic\<close>

lemma fl_round_relative:
  assumes "fl_round q = Fl r"
  shows "\<bar>r - q\<bar> \<le> \<bar>q\<bar> / 2 ^ 53 + 1 / 2 ^ 1000"
proof (cases "q = 0")
  case True
  with assms show ?thesis by (simp add: fl_round_def)
next
  case False
  define e where "e = max (ilog2 \<bar>q\<bar> - 52) (- 1074)"
  define v where "v = of_int (round_even (\<bar>q\<bar> / pow2 e)) * pow2 e"
  have r: "r = sgn q * v"
    using assms False by (simp add: fl_round_def Let_def v_def flip: e_def split: if_splits)
  have "v - \<bar>q\<bar> = (of_int (round_even (\<bar>q\<bar> / pow2 e)) - \<bar>q\<bar> / pow2 e) * pow2 e"
    unfolding v_def using less_imp_neq [OF pow2_pos, of e] by (auto simp: left_diff_distrib)
  then have "\<bar>v - \<bar>q\<bar>\<bar> = \<bar>of_int (round_even (\<bar>q\<bar> / pow2 e)) - \<bar>q\<bar> / pow2 e\<bar> * pow2 e"
    using abs_mult_pos less_imp_le [OF pow2_pos] by metis
  also have "\<dots> \<le> 1 / 2 * pow2 e" by (intro mult_right_mono round_even_error) (simp add: less_imp_le)
  finally have err: "\<bar>v - \<bar>q\<bar>\<bar> \<le> 1 / 2 * pow2 e" .
  have "pow2 e \<le> pow2 (ilog2 \<bar>q\<bar> - 52) + pow2 (- 1074)"
    unfolding e_def by (simp add: max_def less_imp_le [OF pow2_pos])
  moreover have "pow2 (ilog2 \<bar>q\<bar> - 52) \<le> \<bar>q\<bar> / 2 ^ 52"
  proof -
    have "pow2 (ilog2 \<bar>q\<bar> - 52) * 2 ^ 52 = pow2 (ilog2 \<bar>q\<bar>)"
      using pow2_add [of "ilog2 \<bar>q\<bar> - 52" 52] by (simp add: pow2_def [of 52])
    with ilog2_le [of "\<bar>q\<bar>"] False show ?thesis by (simp add: le_divide_eq)
  qed
  moreover have "pow2 (- 1074) \<le> 1 / 2 ^ 1000" by (simp add: pow2_def)
  moreover have "(1::rat) / 2 ^ 53 = 1 / 2 ^ 52 / 2" by simp
  ultimately have bound: "1 / 2 * pow2 e \<le> \<bar>q\<bar> / 2 ^ 53 + 1 / 2 ^ 1000" by (simp add: field_simps)
  have "\<bar>r - q\<bar> = \<bar>v - \<bar>q\<bar>\<bar>" using False unfolding r by (cases "0 < q") (auto simp: abs_if)
  with err bound show ?thesis by linarith
qed

definition exact_mm :: "dimension_payload \<Rightarrow> rat" where
  "exact_mm d = (if dim_unit d = ''cm'' then 10 else 1) * the_fl (dim_value d)"

definition positive_dimension :: "dimension_payload \<Rightarrow> bool" where
  "positive_dimension d \<longleftrightarrow> (\<exists>r > 0. dim_value d = Fl r)"

lemma small_constants: "(1::rat) / 2 ^ 1000 \<le> 1 / 2 ^ 60" "(0::rat) \<le> 1 / 2 ^ 1000"
  by simp_all

lemma millimeters_exact:
  assumes "positive_dimension d"
  shows "millimeters d \<noteq> FNaN" "0 < exact_mm d"
    "millimeters d = Fl m \<Longrightarrow> \<bar>m - exact_mm d\<bar> \<le> exact_mm d / 2 ^ 53 + 1 / 2 ^ 1000"
proof -
  from assms obtain r where r: "0 < r" "dim_value d = Fl r" by (auto simp: positive_dimension_def)
  show "millimeters d \<noteq> FNaN" using r by (simp add: millimeters_def fl_round_not_nan)
  show pos: "0 < exact_mm d" using r by (simp add: exact_mm_def)
  show "\<bar>m - exact_mm d\<bar> \<le> exact_mm d / 2 ^ 53 + 1 / 2 ^ 1000" if m: "millimeters d = Fl m"
  proof (cases "dim_unit d = ''cm''")
    case True
    with m r have "fl_round (r * 10) = Fl m" by (simp add: millimeters_def)
    from fl_round_relative [OF this] True r pos show ?thesis by (simp add: exact_mm_def mult.commute)
  next
    case False
    with m r pos show ?thesis by (simp add: exact_mm_def millimeters_def)
  qed
qed

lemma within_two:
  assumes "\<not> beyond_tolerance (Fl a) (Fl b)"
  shows "\<bar>a - b\<bar> \<le> 2 + 1 / 2 ^ 50"
proof -
  obtain r where r: "fl_round (a - b) = Fl r" "\<bar>r\<bar> \<le> 2"
    using assms by (cases "fl_round (a - b)") (auto simp: beyond_tolerance_def fl_sub_def DIMENSION_TOLERANCE_MM_def fl_round_not_nan)
  define x where "x = \<bar>a - b\<bar>"
  have "x \<le> 2 + (x / 2 ^ 53 + 1 / 2 ^ 60)"
    using fl_round_relative [OF r(1)] r(2) small_constants unfolding x_def by linarith
  then have "x \<le> 2 + 1 / 2 ^ 50" by (simp add: field_simps)
  then show ?thesis unfolding x_def .
qed

text \<open>
  A measured leg, in numbers: it is one of the topology's, with one width per section. Unless both
  its measured length and the length of the envelope overflow when they are converted, they differ, as
  exact numbers of millimeters (ten to the centimeter), by at most two, up to the rounding of the
  conversion; and the sum of the converted widths, when it does not overflow, is within two
  millimeters of the measured length.
\<close>

definition leg_within :: "topology_evidence \<Rightarrow> leg_verification \<Rightarrow> bool" where
  "leg_within t leg \<longleftrightarrow> (\<exists>base \<in> set (top_corner_legs t). leg_id base = lv_leg_id leg
     \<and> length (lv_section_ids leg) = length (lv_section_widths leg)
     \<and> (let a = exact_mm (lv_measured_length leg); b = exact_mm (leg_length base) in
          is_finite (millimeters (lv_measured_length leg)) \<or> is_finite (millimeters (leg_length base)) \<longrightarrow>
          \<bar>a - b\<bar> \<le> 2 + (a + b + 5) / 2 ^ 52)
     \<and> (\<forall>w m. py_sum (map millimeters (lv_section_widths leg)) = Fl w \<longrightarrow> millimeters (lv_measured_length leg) = Fl m \<longrightarrow>
          \<bar>w - m\<bar> \<le> 2 + 1 / 2 ^ 50))"

lemma leg_measured_within:
  assumes "leg_measured (map_of (rev (map (\<lambda>l. (leg_id l, l)) (top_corner_legs t)))) leg"
    and "positive_dimension (lv_measured_length leg)"
    and "\<forall>base \<in> set (top_corner_legs t). positive_dimension (leg_length base)"
  shows "leg_within t leg"
proof -
  let ?m = "millimeters (lv_measured_length leg)"
  from assms(1) obtain base where base: "base \<in> set (top_corner_legs t)" "leg_id base = lv_leg_id leg"
    and near: "\<not> beyond_tolerance ?m (millimeters (leg_length base))"
    and len: "length (lv_section_ids leg) = length (lv_section_widths leg)"
    and sum: "\<not> beyond_tolerance (py_sum (map millimeters (lv_section_widths leg))) ?m"
    by (auto simp: leg_measured_def split: option.splits dest!: map_of_SomeD)
  let ?b = "millimeters (leg_length base)"
  let ?x = "exact_mm (lv_measured_length leg)" and ?y = "exact_mm (leg_length base)"
  have pos: "positive_dimension (leg_length base)" using assms(3) base(1) by blast
  note ex = millimeters_exact [OF assms(2)] millimeters_exact [OF pos]
  have "\<bar>?x - ?y\<bar> \<le> 2 + (?x + ?y + 5) / 2 ^ 52" if fin: "is_finite ?m \<or> is_finite ?b"
  proof -
    obtain m b where mb: "?m = Fl m" "?b = Fl b"
      using near fin ex(1,4) by (cases ?m; cases ?b)
        (auto simp: beyond_tolerance_def fl_sub_def DIMENSION_TOLERANCE_MM_def is_finite_def)
    have "\<bar>m - b\<bar> \<le> 2 + 1 / 2 ^ 50" using within_two near mb by simp
    moreover have "\<bar>m - ?x\<bar> \<le> ?x / 2 ^ 53 + 1 / 2 ^ 60" "\<bar>b - ?y\<bar> \<le> ?y / 2 ^ 53 + 1 / 2 ^ 60"
      using ex(3) [OF mb(1)] ex(6) [OF mb(2)] small_constants by linarith+
    moreover have "?x / 2 ^ 53 + ?y / 2 ^ 53 + 2 / 2 ^ 60 + 1 / 2 ^ 50 \<le> (?x + ?y + 5) / 2 ^ 52"
      using ex(2,5) by (simp add: field_simps)
    ultimately show ?thesis by linarith
  qed
  with base len sum within_two show ?thesis unfolding leg_within_def Let_def by metis
qed

text \<open>
  C37. An accepted corner verification is complete and within tolerance. Given that the lengths are
  finite and positive and the legs of the topology have distinct ids, as their parsers ensure: the topology, the
  configuration and the measurements name the same item, configuration and version; every configured section lies
  on exactly one leg; every leg of the topology is measured once; the angle lies strictly between 0 and
  180 degrees; and, for every leg, the measured length is within two millimeters of the leg's envelope, and
  the sum of its section widths within two millimeters of the measured length, in exact numbers up to the
  rounding of the conversions. Not covered are lengths that overflow to infinity in millimeters: those are
  accepted against one another (\<open>overflowing_verification_accepted\<close>).
\<close>

theorem corner_verification_exact:
  assumes "verify_topology_dimensions t ctx v = ok g" "top_kind t \<noteq> ''planarGrid''" "distinct (map leg_id (top_corner_legs t))"
    and dims: "\<forall>leg \<in> set (dv_corner_legs v). positive_dimension (lv_measured_length leg)"
      "\<forall>base \<in> set (top_corner_legs t). positive_dimension (leg_length base)"
  shows "(gc_item ctx, gc_configuration ctx, gc_version ctx) = (vg_item g, vg_configuration g, vg_version g)
    \<and> (dv_item v, dv_configuration v, dv_version v, dv_topology v) = (vg_item g, vg_configuration g, vg_version g, vg_topology g)
    \<and> distinct (concat (map vl_section_ids (vg_corner_legs g))) \<and> set (concat (map vl_section_ids (vg_corner_legs g))) = set (gc_section_ids ctx)
    \<and> distinct (map vl_leg_id (vg_corner_legs g)) \<and> set (map vl_leg_id (vg_corner_legs g)) = set (map leg_id (top_corner_legs t))
    \<and> list_all (leg_within t) (dv_corner_legs v)
    \<and> (\<exists>a. vg_angle g = Some (Fl a) \<and> 0 < a \<and> a < 180)"
proof -
  let ?base = "map_of (rev (map (\<lambda>l. (leg_id l, l)) (top_corner_legs t)))"
  from assms(1,2) have ident: "verify_validate_identity t ctx v = ok ()" and c: "verify_corner t ctx v = ok g"
    by (simp_all add: verify_topology_dimensions_def seq_ok)
  from c obtain angle assigned verified where
    angle: "is_finite angle" "fl_less (Fl 0) angle" "fl_less angle (Fl 180)"
    and len: "length (dv_corner_legs v) = length (top_corner_legs t)"
    and legs: "verify_legs ?base (gc_section_ids ctx) (dv_corner_legs v) [] [] [] = ok (assigned, verified)"
    and all: "set assigned = set (gc_section_ids ctx)"
    and g: "g = (verified_base t v)\<lparr>vg_corner_legs := verified, vg_angle := Some angle\<rparr>"
    by (auto simp: verify_corner_def res_simps split: if_splits option.splits)
  note L = verify_legs_ok [OF legs]
  have ids: "map vl_leg_id verified = map lv_leg_id (dv_corner_legs v)" "map vl_section_ids verified = map lv_section_ids (dv_corner_legs v)"
    using L by (simp_all add: leg_geometry_def comp_def)
  have sub: "set (map lv_leg_id (dv_corner_legs v)) \<subseteq> set (map leg_id (top_corner_legs t))"
  proof
    fix i assume "i \<in> set (map lv_leg_id (dv_corner_legs v))"
    then obtain leg where "leg \<in> set (dv_corner_legs v)" "lv_leg_id leg = i" by auto
    with L obtain b where "?base i = Some b" by (auto simp: list_all_iff leg_measured_def split: option.splits)
    then show "i \<in> set (map leg_id (top_corner_legs t))" by (auto dest!: map_of_SomeD)
  qed
  have "card (set (map lv_leg_id (dv_corner_legs v))) = card (set (map leg_id (top_corner_legs t)))"
    using L len assms(3) by (simp only: distinct_card) simp
  with sub have same: "set (map lv_leg_id (dv_corner_legs v)) = set (map leg_id (top_corner_legs t))"
    by (simp only: card_subset_eq [OF finite_set])
  have "\<exists>a. angle = Fl a \<and> 0 < a \<and> a < 180" using angle by (cases angle) (auto simp: is_finite_def)
  moreover have fields: "vg_corner_legs g = verified" "vg_angle g = Some angle" "vg_item g = top_item t"
    "vg_configuration g = top_configuration t" "vg_version g = top_version t" "vg_topology g = top_id t"
    by (simp_all add: g verified_base_def)
  moreover have "(gc_item ctx, gc_configuration ctx, gc_version ctx) = (top_item t, top_configuration t, top_version t)
    \<and> (dv_item v, dv_configuration v, dv_version v, dv_topology v) = (top_item t, top_configuration t, top_version t, top_id t)"
    using ident by (auto simp: verify_validate_identity_def Let_def split: if_splits)
  moreover have "assigned = concat (map lv_section_ids (dv_corner_legs v))" "distinct assigned"
    "distinct (map lv_leg_id (dv_corner_legs v))" "list_all (leg_measured ?base) (dv_corner_legs v)"
    using L append_Nil distinct.simps(1) by metis+
  moreover from this(4) have "list_all (leg_within t) (dv_corner_legs v)"
    using leg_measured_within dims by (simp add: list_all_iff)
  ultimately show ?thesis unfolding fields ids using same all by simp
qed

definition demo_leg :: "string \<Rightarrow> corner_leg_topology" where
  "demo_leg i = \<lparr>leg_id = i, leg_length = \<lparr>dim_value = Fl 100, dim_unit = ''cm''\<rparr>, leg_section_ids = []\<rparr>"

definition demo_corner :: topology_evidence where
  "demo_corner = \<lparr>top_id = ''t'', top_source_reference = ''r'', top_source_scope = ''s'', top_item = ''i'', top_configuration = ''c'',
     top_version = 1, top_kind = ''corner'', top_row_count = 0, top_column_count = 0, top_row_proportions = [],
     top_column_proportions = [], top_cells = [], top_corner_legs = [demo_leg ''a'', demo_leg ''b''], top_constraints = [],
     top_readiness = ''cornerEnvelopeKnown'', top_source_basis = ''x''\<rparr>"

definition demo_geometry_context :: geometry_context where
  "demo_geometry_context = \<lparr>gc_item = ''i'', gc_configuration = ''c'', gc_version = 1, gc_opening_width = None,
     gc_opening_height = Some \<lparr>dim_value = Fl 200, dim_unit = ''cm''\<rparr>, gc_product_width = None, gc_product_height = None,
     gc_section_ids = [''p'', ''q'']\<rparr>"

definition demo_leg_verification :: "string \<Rightarrow> string \<Rightarrow> leg_verification" where
  "demo_leg_verification i sec = \<lparr>lv_leg_id = i, lv_measured_length = \<lparr>dim_value = Fl 1001, dim_unit = ''mm''\<rparr>,
     lv_section_ids = [sec], lv_section_widths = [\<lparr>dim_value = Fl 100, dim_unit = ''cm''\<rparr>]\<rparr>"

definition demo_verification :: dimension_verification where
  "demo_verification = \<lparr>dv_id = ''v'', dv_topology = ''t'', dv_item = ''i'', dv_configuration = ''c'', dv_version = 1,
     dv_basis = ''opening'', dv_verified_by = ''op'', dv_verified_at = ''now'', dv_evidence = [], dv_row_heights = [],
     dv_column_widths = [], dv_corner_legs = [demo_leg_verification ''b'' ''p'', demo_leg_verification ''a'' ''q''], dv_angle = Some (Fl 90)\<rparr>"

lemma demo_corner_verified: "verify_topology_dimensions demo_corner demo_geometry_context demo_verification
  = ok ((verified_base demo_corner demo_verification)\<lparr>vg_corner_legs :=
      [leg_geometry (demo_leg_verification ''b'' ''p''), leg_geometry (demo_leg_verification ''a'' ''q'')], vg_angle := Some (Fl 90)\<rparr>)"
  by code_simp

theorem corner_verification_exact_witness:
  "set (concat (map vl_section_ids [leg_geometry (demo_leg_verification ''b'' ''p''), leg_geometry (demo_leg_verification ''a'' ''q'')]))
    = {''p'', ''q''} \<and> leg_within demo_corner (demo_leg_verification ''a'' ''q'')"
proof -
  have "top_kind demo_corner \<noteq> ''planarGrid''" "distinct (map leg_id (top_corner_legs demo_corner))"
    "\<forall>leg \<in> set (dv_corner_legs demo_verification). positive_dimension (lv_measured_length leg)"
    "\<forall>base \<in> set (top_corner_legs demo_corner). positive_dimension (leg_length base)"
    by (simp_all add: demo_corner_def demo_leg_def demo_verification_def demo_leg_verification_def positive_dimension_def)
  from corner_verification_exact [OF demo_corner_verified this] show ?thesis
    by (simp add: demo_geometry_context_def demo_verification_def)
qed

section \<open>Compatible assemblies\<close>

definition cell_matches :: "topology_evidence \<Rightarrow> assembly_snapshot \<Rightarrow> topology_cell \<Rightarrow> bool" where
  "cell_matches t a cell \<longleftrightarrow> (\<exists>r \<in> set (rd_sections (asm_render a)). rs_id r = tcell_section_id cell
     \<and> approximately_equal (fr_x (rs_frame r)) (starts (top_column_proportions t) ! tcell_column cell)
     \<and> approximately_equal (fr_width (rs_frame r))
         (py_sum (take (tcell_column_span cell) (drop (tcell_column cell) (top_column_proportions t))))
     \<and> approximately_equal (fr_y (rs_frame r)) (Fl 0) \<and> approximately_equal (fr_height (rs_frame r)) (Fl 1))"

text \<open>
  A topology is assessed as compatible only when it corroborates the frozen assembly: one row of
  verified proportions, every configured section of the assembly and of its render placed exactly
  once, and every cell's position and width within the tolerance of the frame of its section. In
  every other case the assessment lists what a successor schema needs, or is refused.
\<close>

theorem compatible_assessment_corroborated:
  assumes "assess_topology_against_assembly_v1 t a ctx = ok r"
  shows "(ba_compatible r \<longleftrightarrow> ba_requirements r = [])
    \<and> (ba_compatible r \<longrightarrow> top_row_count t = 1 \<and> top_readiness t = ''dimensionallyRenderable''
        \<and> same_ids (ba_corroborated r) (bc_section_ids ctx) \<and> same_ids (map asec_id (asm_sections a)) (ba_corroborated r)
        \<and> list_all (cell_matches t a) (top_cells t) \<and> bom_version (asm_bom a) = top_version t)"
proof -
  have cells: "corroborates t a cell = ok () \<Longrightarrow> cell_matches t a cell" for cell
    by (force simp: corroborates_def cell_matches_def Let_def split: if_splits option.splits dest!: map_of_SomeD)
  show ?thesis using assms cells
    by (auto simp: assess_topology_against_assembly_v1_def bridge_validate_identity_def assessment_def Let_def res_simps
        same_ids_def list_all_iff split: if_splits)
qed

definition demo_cell :: "string \<Rightarrow> nat \<Rightarrow> topology_cell" where
  "demo_cell sec column = \<lparr>tcell_id = sec, tcell_section_id = sec, tcell_row = 0, tcell_column = column, tcell_row_span = 1,
     tcell_column_span = 1\<rparr>"

definition demo_planar :: topology_evidence where
  "demo_planar = demo_corner\<lparr>top_item := ''i'', top_configuration := ''cfg'', top_kind := ''planarGrid'', top_row_count := 1,
     top_column_count := 2, top_row_proportions := [Fl 1], top_column_proportions := [Fl (1 / 4), Fl (3 / 4)],
     top_cells := [demo_cell ''right'' 1, demo_cell ''left'' 0], top_corner_legs := [], top_readiness := ''dimensionallyRenderable''\<rparr>"

definition demo_bridge_context :: bridge_context where
  "demo_bridge_context = \<lparr>bc_item = ''i'', bc_configuration = ''cfg'', bc_version = 1, bc_section_ids = [''left'', ''right'']\<rparr>"

lemma demo_planar_compatible: "assess_topology_against_assembly_v1 demo_planar demo_assembly demo_bridge_context
  = ok (assessment demo_planar demo_bridge_context True [] [''right'', ''left''])"
  by code_simp

theorem compatible_assessment_corroborated_witness: "list_all (cell_matches demo_planar demo_assembly) (top_cells demo_planar)"
  using compatible_assessment_corroborated [OF demo_planar_compatible] by (simp add: assessment_def)

section \<open>Measurements that overflow\<close>

text \<open>
  A measurement in centimeters may overflow when it is converted. The difference of two infinite
  lengths is not a number, which no comparison finds beyond the tolerance: the verification accepts
  them and derives an infinite length.
\<close>

definition huge_leg :: "string \<Rightarrow> string \<Rightarrow> leg_verification" where
  "huge_leg i sec = (demo_leg_verification i sec)\<lparr>lv_measured_length := \<lparr>dim_value = Fl (2 ^ 1023), dim_unit = ''cm''\<rparr>,
     lv_section_widths := [\<lparr>dim_value = Fl (2 ^ 1023), dim_unit = ''cm''\<rparr>]\<rparr>"

lemma overflowing_measurement: "fl_mul (Fl (2 ^ 1023)) (Fl 10) = FInf False"
proof -
  have "(2::rat) ^ 1023 * 10 = of_int (2 ^ 1023 * 10)" by simp
  have pos: "(0::rat) < 2 ^ 1023 * 10" by simp
  have "pow2 1026 \<le> (2::rat) ^ 1023 * 10" by (simp add: pow2_def)
  also have "\<dots> < pow2 (ilog2 (2 ^ 1023 * 10) + 1)" by (rule ilog2_less [OF pos])
  finally have "1026 < ilog2 (2 ^ 1023 * 10) + 1" by (rule pow2_strict)
  then have "fl_over (2 ^ 1023 * 10)" by (simp add: fl_over_def fl_scale_def)
  then show ?thesis unfolding fl_mul.simps fl_round_pos [OF pos] by simp
qed

lemma infinite_within_tolerance: "\<not> beyond_tolerance (FInf False) (FInf False)"
  by (simp add: beyond_tolerance_def fl_sub_def DIMENSION_TOLERANCE_MM_def)

lemma overflowing_verification_accepted:
  "\<exists>g. verify_topology_dimensions
     (demo_corner\<lparr>top_corner_legs := [(demo_leg ''a'')\<lparr>leg_length := \<lparr>dim_value = Fl (2 ^ 1023), dim_unit = ''cm''\<rparr>\<rparr>, demo_leg ''b'']\<rparr>)
     demo_geometry_context
     (demo_verification\<lparr>dv_corner_legs := [demo_leg_verification ''b'' ''p'', huge_leg ''a'' ''q'']\<rparr>) = ok g
   \<and> map vl_length_meters (vg_corner_legs g) = [fl_div (Fl 1001) (Fl 1000), FInf False]"
proof -
  have mm: "millimeters \<lparr>dim_value = Fl (2 ^ 1023), dim_unit = ''cm''\<rparr> = FInf False"
    unfolding millimeters_def by (simp only: dimension_payload.simps overflowing_measurement if_True simp_thms refl)
  have "\<not> beyond_tolerance (Fl 1001) (millimeters \<lparr>dim_value = Fl 100, dim_unit = ''cm''\<rparr>)"
    "reconcile_total [millimeters \<lparr>dim_value = Fl 100, dim_unit = ''cm''\<rparr>] (Fl 1001) = ok ()" by code_simp+
  moreover have "millimeters \<lparr>dim_value = Fl 1001, dim_unit = ''mm''\<rparr> = Fl 1001" by (simp add: millimeters_def)
  moreover have "reconcile_total [FInf False] (FInf False) = ok ()"
    using infinite_within_tolerance by (simp add: reconcile_total_def py_sum_def guard_def)
  ultimately show ?thesis using infinite_within_tolerance mm
    by (simp add: verify_topology_dimensions_def verify_validate_identity_def verify_corner_def reference_dimensions_def
        demo_corner_def demo_geometry_context_def demo_verification_def demo_leg_def demo_leg_verification_def huge_leg_def
        is_finite_def Let_def py_strip_def py_isspace_def del: power_numeral)
qed

end
