(* ===== verification/Migrations.thy ===== *)
theory Migrations
  imports Models Py_Text
begin

text \<open>
  The schema history, \<open>migrations/versions\<close>: what each revision does to the rows. Revisions 0002 and
  0003 backfill the ownership tables from the synchronized payloads in SQL; their statements are
  \<open>INSERT \<dots> SELECT \<dots> ON CONFLICT DO NOTHING\<close> over a join with the parent table. \<open>raw\<close> is the text in which
  the database keeps an array, an object or a float, which \<open>->>\<close> returns as it is. Column types, indexes
  and foreign keys that no statement can violate are left out.
\<close>

section \<open>SQL\<close>

text \<open>\<open>ON CONFLICT DO NOTHING\<close>: a row whose key is taken is skipped.\<close>

fun insert_missing :: "('r \<Rightarrow> 'k) \<Rightarrow> 'r list \<Rightarrow> 'r list \<Rightarrow> 'r list" where
  "insert_missing key rows [] = rows"
| "insert_missing key rows (r # new) =
     insert_missing key (if get_row key (key r) rows = None then rows @ [r] else rows) new"

text \<open>\<open>value -> name\<close> and \<open>value ->> name\<close>; SQL's \<open>NULL\<close> is \<open>JNull\<close> and \<open>None\<close>.\<close>

definition json_field :: "json \<Rightarrow> string \<Rightarrow> json" where
  "json_field v name = (case v of JObj d \<Rightarrow> dget d name | _ \<Rightarrow> JNull)"

definition json_text :: "(json \<Rightarrow> string) \<Rightarrow> json \<Rightarrow> string option" where
  "json_text raw v = (case v of
     JNull \<Rightarrow> None
   | JStr s \<Rightarrow> Some s
   | JBool b \<Rightarrow> Some (if b then ''true'' else ''false'')
   | JInt n \<Rightarrow> Some (show_int n)
   | v \<Rightarrow> Some (raw v))"

text \<open>A text field that is neither \<open>NULL\<close> nor empty.\<close>

definition text_field :: "(json \<Rightarrow> string) \<Rightarrow> json \<Rightarrow> string \<Rightarrow> string option" where
  "text_field raw v name = (case json_text raw (json_field v name) of
     None \<Rightarrow> None | Some t \<Rightarrow> if t = [] then None else Some t)"

abbreviation select :: "('a \<Rightarrow> 'b option) \<Rightarrow> 'a list \<Rightarrow> 'b list" where
  "select \<equiv> List.map_filter"

section \<open>Revision 0001: the synchronized store\<close>

text \<open>On an empty server the first revision creates its tables without rows; its downgrade drops them.\<close>

definition upgrade_0001 :: db where
  "upgrade_0001 = empty_db"

section \<open>Revision 0002: customers, projects and items\<close>

definition customer_row :: "sync_entity \<Rightarrow> canonical_customer option" where
  "customer_row e = (if se_entity_type e \<noteq> ''customer'' then None
     else Some \<lparr>cc_organization_id = se_organization_id e, cc_customer_id = se_entity_id e, cc_deleted_at = se_deleted_at e\<rparr>)"

definition project_row :: "(json \<Rightarrow> string) \<Rightarrow> db \<Rightarrow> sync_entity \<Rightarrow> canonical_project option" where
  "project_row raw db e = (if se_entity_type e \<noteq> ''project'' then None
     else case text_field raw (se_payload_json e) ''customerID'' of
       None \<Rightarrow> None
     | Some c \<Rightarrow> if get_customer db (se_organization_id e) c = None then None
         else Some \<lparr>cp_organization_id = se_organization_id e, cp_project_id = se_entity_id e, cp_customer_id = c,
           cp_deleted_at = se_deleted_at e\<rparr>)"

definition item_row :: "(json \<Rightarrow> string) \<Rightarrow> db \<Rightarrow> sync_entity \<Rightarrow> canonical_item option" where
  "item_row raw db e = (if se_entity_type e \<noteq> ''item'' then None
     else case text_field raw (se_payload_json e) ''projectID'' of
       None \<Rightarrow> None
     | Some p \<Rightarrow> if get_project db (se_organization_id e) p = None then None
         else Some \<lparr>ci_organization_id = se_organization_id e, ci_item_id = se_entity_id e, ci_project_id = p,
           ci_project_sector_id = None, ci_deleted_at = se_deleted_at e\<rparr>)"

text \<open>
  The upgrade creates the three tables and fills them. A customer of an organization that does not
  exist violates the foreign key, which aborts the revision.
\<close>

definition upgrade_0002 :: "(json \<Rightarrow> string) \<Rightarrow> db \<Rightarrow> db res" where
  "upgrade_0002 raw db =
    (let rows = select customer_row (sync_entities db);
         db1 = db\<lparr>canonical_customers := insert_missing customer_key [] rows, canonical_projects := [], canonical_items := []\<rparr>;
         db2 = db1\<lparr>canonical_projects := insert_missing project_key [] (select (project_row raw db1) (sync_entities db))\<rparr>;
         db3 = db2\<lparr>canonical_items := insert_missing item_key [] (select (item_row raw db2) (sync_entities db))\<rparr>
     in if list_ex (\<lambda>r. get_organization db (cc_organization_id r) = None) rows then raise (DBAPIError (Some ''23503''))
        else ok db3)"

definition downgrade_0002 :: "db \<Rightarrow> db" where
  "downgrade_0002 db = db\<lparr>canonical_items := [], canonical_projects := [], canonical_customers := []\<rparr>"

section \<open>Revision 0003: sectors and children\<close>

definition MIGRATED_CHILD_TYPES :: "string list" where
  "MIGRATED_CHILD_TYPES = [''item_audit_event'', ''measurement'', ''evidence'', ''customer_requirement'', ''configuration'',
     ''configuration_version'', ''blocker'']"

definition sector_row :: "(json \<Rightarrow> string) \<Rightarrow> db \<Rightarrow> sync_entity \<Rightarrow> canonical_project_sector option" where
  "sector_row raw db e = (if se_entity_type e \<noteq> ''project_sector'' then None
     else case (text_field raw (se_payload_json e) ''projectID'', text_field raw (se_payload_json e) ''sectorID'') of
       (Some p, Some s) \<Rightarrow> if get_project db (se_organization_id e) p = None then None
         else Some \<lparr>cs_organization_id = se_organization_id e, cs_project_sector_id = se_entity_id e, cs_project_id = p,
           cs_sector_id = s, cs_deleted_at = se_deleted_at e\<rparr>
     | _ \<Rightarrow> None)"

text \<open>The \<open>UPDATE\<close>: an item gets the sector its payload names when that sector belongs to the item's project.\<close>

definition assign_sector :: "(json \<Rightarrow> string) \<Rightarrow> db \<Rightarrow> canonical_item \<Rightarrow> canonical_item" where
  "assign_sector raw db i = (case get_entity db (ci_organization_id i) ''item'' (ci_item_id i) of
     None \<Rightarrow> i
   | Some e \<Rightarrow> (case text_field raw (se_payload_json e) ''projectSectorID'' of
       None \<Rightarrow> i
     | Some s \<Rightarrow> (case get_sector db (ci_organization_id i) s of
         None \<Rightarrow> i
       | Some ps \<Rightarrow>
           if json_text raw (json_field (se_payload_json e) ''projectID'') = Some (cs_project_id ps) \<and> cs_project_id ps = ci_project_id i
           then i\<lparr>ci_project_sector_id := Some s\<rparr> else i)))"

definition quotation_row :: "(json \<Rightarrow> string) \<Rightarrow> db \<Rightarrow> sync_entity \<Rightarrow> canonical_project_child option" where
  "quotation_row raw db e = (if se_entity_type e \<noteq> ''quotation'' then None
     else case (text_field raw (se_payload_json e) ''projectID'', text_field raw (se_payload_json e) ''customerID'') of
       (Some p, Some c) \<Rightarrow> (case get_project db (se_organization_id e) p of
           None \<Rightarrow> None
         | Some project \<Rightarrow> if cp_customer_id project \<noteq> c then None
             else Some \<lparr>pc_organization_id = se_organization_id e, pc_entity_type = se_entity_type e, pc_entity_id = se_entity_id e,
               pc_project_id = p, pc_deleted_at = se_deleted_at e\<rparr>)
     | _ \<Rightarrow> None)"

definition migrated_item :: "(json \<Rightarrow> string) \<Rightarrow> sync_entity \<Rightarrow> string option" where
  "migrated_item raw e = text_field raw
     (if se_entity_type e = ''configuration_version'' then json_field (se_payload_json e) ''configuration'' else se_payload_json e) ''itemID''"

definition item_child_row :: "(json \<Rightarrow> string) \<Rightarrow> db \<Rightarrow> sync_entity \<Rightarrow> canonical_item_child option" where
  "item_child_row raw db e = (if se_entity_type e \<notin> set MIGRATED_CHILD_TYPES then None
     else case migrated_item raw e of
       None \<Rightarrow> None
     | Some k \<Rightarrow> (case get_item db (se_organization_id e) k of
         None \<Rightarrow> None
       | Some i \<Rightarrow> if ci_project_sector_id i = None then None
           else Some \<lparr>ic_organization_id = se_organization_id e, ic_entity_type = se_entity_type e, ic_entity_id = se_entity_id e,
             ic_item_id = k, ic_deleted_at = se_deleted_at e\<rparr>))"

text \<open>A sector reference beyond 256 characters does not fit its column, which aborts the revision.\<close>

definition upgrade_0003 :: "(json \<Rightarrow> string) \<Rightarrow> db \<Rightarrow> db res" where
  "upgrade_0003 raw db =
    (let sectors = select (sector_row raw db) (sync_entities db);
         db1 = db\<lparr>canonical_project_sectors := insert_missing sector_key [] sectors\<rparr>;
         db2 = db1\<lparr>canonical_items := map (assign_sector raw db1) (canonical_items db1)\<rparr>;
         db3 = db2\<lparr>canonical_project_children := insert_missing project_child_key [] (select (quotation_row raw db2) (sync_entities db))\<rparr>;
         db4 = db3\<lparr>canonical_item_children := insert_missing item_child_key [] (select (item_child_row raw db3) (sync_entities db))\<rparr>
     in if list_ex (\<lambda>r. 256 < length (cs_sector_id r)) sectors then raise (DBAPIError (Some ''22001''))
        else ok db4)"

definition downgrade_0003 :: "db \<Rightarrow> db" where
  "downgrade_0003 db = db\<lparr>canonical_item_children := [], canonical_project_children := [],
     canonical_items := map (\<lambda>i. i\<lparr>ci_project_sector_id := None\<rparr>) (canonical_items db), canonical_project_sectors := []\<rparr>"

section \<open>The other revisions\<close>

definition upgrade_0004 :: "db \<Rightarrow> db" where
  "upgrade_0004 db = db\<lparr>sync_mutation_fingerprints := []\<rparr>"

definition upgrade_0005 :: "db \<Rightarrow> db" where
  "upgrade_0005 db = db\<lparr>evidence_blobs := map (\<lambda>b. b\<lparr>eb_storage_provider := ''local''\<rparr>) (evidence_blobs db),
     evidence_object_gcs := [], next_gc_id := 1\<rparr>"

definition upgrade_0006 :: "db \<Rightarrow> db" where
  "upgrade_0006 db = db\<lparr>reference_publications := []\<rparr>"

definition upgrade_0007 :: "db \<Rightarrow> db" where
  "upgrade_0007 db = db\<lparr>pairing_grants := []\<rparr>"

text \<open>The downgrades drop what their revision created; without its column a blob no longer knows its provider.\<close>

definition downgrade_0004 :: "db \<Rightarrow> db" where
  "downgrade_0004 db = db\<lparr>sync_mutation_fingerprints := []\<rparr>"

definition downgrade_0005 :: "db \<Rightarrow> db" where
  "downgrade_0005 db = db\<lparr>evidence_object_gcs := [], evidence_blobs := map (\<lambda>b. b\<lparr>eb_storage_provider := []\<rparr>) (evidence_blobs db)\<rparr>"

definition downgrade_0006 :: "db \<Rightarrow> db" where
  "downgrade_0006 db = db\<lparr>reference_publications := []\<rparr>"

definition downgrade_0007 :: "db \<Rightarrow> db" where
  "downgrade_0007 db = db\<lparr>pairing_grants := []\<rparr>"

text \<open>From the initial revision to the head.\<close>

definition upgrade_head :: "(json \<Rightarrow> string) \<Rightarrow> db \<Rightarrow> db res" where
  "upgrade_head raw db = ebind (upgrade_0002 raw db) (\<lambda>db2. ebind (upgrade_0003 raw db2) (\<lambda>db3.
     ok (upgrade_0007 (upgrade_0006 (upgrade_0005 (upgrade_0004 db3))))))"

end
