(* ===== verification/Migration_Properties.thy ===== *)
theory Migration_Properties
  imports Migrations Ownership_Correct
begin

text \<open>
  The backfill of the ownership tables is exact: a row is created for precisely those entities whose
  whole chain of parents is proven by entities of the same organization, and the revisions can be
  undone.
\<close>

section \<open>Lookups in filled tables\<close>

lemma get_row_snoc:
  "get_row key k (rows @ [r]) = (case get_row key k rows of Some x \<Rightarrow> Some x | None \<Rightarrow> if key r = k then Some r else None)"
  by (induction rows) auto

lemma get_row_insert_missing:
  "get_row key k (insert_missing key rows new) = (case get_row key k rows of Some r \<Rightarrow> Some r | None \<Rightarrow> get_row key k new)"
  by (induction new arbitrary: rows) (auto simp: get_row_snoc split: option.splits)

lemma get_row_select:
  assumes "keys_ok entity_key es" and "\<And>e r. f e = Some r \<Longrightarrow> key r = k \<longleftrightarrow> entity_key e = ek"
  shows "get_row key k (select f es) = Option.bind (get_row entity_key ek es) f"
  using assms(1)
proof (induction es)
  case (Cons e es)
  then have IH: "get_row key k (select f es) = Option.bind (get_row entity_key ek es) f" and new: "entity_key e \<notin> entity_key ` set es"
    by (simp_all add: keys_ok_def)
  show ?case
  proof (cases "f e")
    case None
    moreover have "get_row entity_key ek es = None" if "entity_key e = ek" using that new by (simp add: get_row_None)
    ultimately show ?thesis using IH by (auto simp: List.map_filter_def)
  next
    case (Some r)
    with IH assms(2) [OF Some] show ?thesis by (auto simp: List.map_filter_def)
  qed
qed (simp add: List.map_filter_def)

lemmas filled = get_row_insert_missing get_row_select

section \<open>The tables after the two revisions\<close>

lemma upgrade_0002_gets:
  assumes "upgrade_0002 raw db = ok db'" "keys_ok entity_key (sync_entities db)"
  shows "get_customer db' org k = Option.bind (get_entity db org ''customer'' k) customer_row"
    and "get_project db' org k = Option.bind (get_entity db org ''project'' k) (project_row raw db')"
    and "get_item db' org k = Option.bind (get_entity db org ''item'' k) (item_row raw db')"
    and "sync_entities db' = sync_entities db"
proof -
  define db1 where "db1 = db\<lparr>canonical_customers := insert_missing customer_key [] (select customer_row (sync_entities db)),
    canonical_projects := [], canonical_items := []\<rparr>"
  define db2 where "db2 = db1\<lparr>canonical_projects := insert_missing project_key [] (select (project_row raw db1) (sync_entities db))\<rparr>"
  have db': "db' = db2\<lparr>canonical_items := insert_missing item_key [] (select (item_row raw db2) (sync_entities db))\<rparr>"
    using assms(1) by (simp add: upgrade_0002_def Let_def db1_def db2_def split: if_splits)
  have parents: "get_customer db' = get_customer db1" "get_project db' = get_project db2"
    by (simp_all add: db' db2_def get_customer_def get_project_def fun_eq_iff)
  have rows: "project_row raw db' = project_row raw db1" "item_row raw db' = item_row raw db2"
    unfolding project_row_def item_row_def parents by (rule refl)+
  have "get_customer db1 org k = Option.bind (get_entity db org ''customer'' k) customer_row"
    unfolding get_customer_def get_entity_def db1_def
    by (simp add: get_row_insert_missing, rule get_row_select [OF assms(2)])
      (auto simp: customer_row_def customer_key_def entity_key_def split: if_splits)
  then show "get_customer db' org k = Option.bind (get_entity db org ''customer'' k) customer_row" unfolding parents .
  have "get_project db2 org k = Option.bind (get_entity db org ''project'' k) (project_row raw db1)"
    unfolding get_project_def get_entity_def db2_def
    by (simp add: get_row_insert_missing, rule get_row_select [OF assms(2)])
      (auto simp: project_row_def project_key_def entity_key_def split: if_splits option.splits)
  then show "get_project db' org k = Option.bind (get_entity db org ''project'' k) (project_row raw db')" unfolding parents rows .
  have "get_item db' org k = Option.bind (get_entity db org ''item'' k) (item_row raw db2)"
    unfolding get_item_def get_entity_def db'
    by (simp add: get_row_insert_missing, rule get_row_select [OF assms(2)])
      (auto simp: item_row_def item_key_def entity_key_def split: if_splits option.splits)
  then show "get_item db' org k = Option.bind (get_entity db org ''item'' k) (item_row raw db')" unfolding rows .
  show "sync_entities db' = sync_entities db" by (simp add: db' db2_def db1_def)
qed


lemma assign_sector_key: "\<And>i. item_key (assign_sector raw db i) = item_key i"
  by (simp add: assign_sector_def item_key_def split: option.split)

lemma get_row_map: "(\<And>r. key (f r) = key r) \<Longrightarrow> get_row key k (map f rows) = map_option f (get_row key k rows)"
  by (induction rows) auto

lemma upgrade_0003_gets:
  assumes "upgrade_0003 raw db = ok db'" "keys_ok entity_key (sync_entities db)"
  shows "get_customer db' = get_customer db" "get_project db' = get_project db" "sync_entities db' = sync_entities db"
    and "get_sector db' org k = Option.bind (get_entity db org ''project_sector'' k) (sector_row raw db')"
    and "get_item db' org k = map_option (assign_sector raw db') (get_item db org k)"
    and "get_project_child db' org t k = (if t = ''quotation'' then Option.bind (get_entity db org t k) (quotation_row raw db') else None)"
    and "get_item_child db' org t k = (if t \<in> set MIGRATED_CHILD_TYPES then Option.bind (get_entity db org t k) (item_child_row raw db') else None)"
proof -
  define db1 where "db1 = db\<lparr>canonical_project_sectors := insert_missing sector_key [] (select (sector_row raw db) (sync_entities db))\<rparr>"
  define db2 where "db2 = db1\<lparr>canonical_items := map (assign_sector raw db1) (canonical_items db1)\<rparr>"
  define db3 where "db3 = db2\<lparr>canonical_project_children :=
    insert_missing project_child_key [] (select (quotation_row raw db2) (sync_entities db))\<rparr>"
  have db': "db' = db3\<lparr>canonical_item_children := insert_missing item_child_key [] (select (item_child_row raw db3) (sync_entities db))\<rparr>"
    using assms(1) by (simp add: upgrade_0003_def Let_def db1_def db2_def db3_def split: if_splits)
  note dbs = db' db3_def db2_def db1_def
  have same: "get_customer db' = get_customer db" "get_project db' = get_project db" "get_project db2 = get_project db"
    "get_sector db' = get_sector db1" "get_item db' = get_item db3" "get_entity db' = get_entity db" "get_entity db1 = get_entity db"
    by (simp_all add: dbs get_defs fun_eq_iff)
  show "get_customer db' = get_customer db" "get_project db' = get_project db" by (rule same)+
  show "sync_entities db' = sync_entities db" by (simp add: dbs)
  have rows: "sector_row raw db' = sector_row raw db" "quotation_row raw db' = quotation_row raw db2"
    "item_child_row raw db' = item_child_row raw db3" "assign_sector raw db' = assign_sector raw db1"
    unfolding sector_row_def quotation_row_def item_child_row_def assign_sector_def same by (rule refl)+
  show "get_sector db' org k = Option.bind (get_entity db org ''project_sector'' k) (sector_row raw db')"
    unfolding rows same unfolding get_sector_def get_entity_def db1_def
    by (simp add: get_row_insert_missing, rule get_row_select [OF assms(2)])
      (auto simp: sector_row_def sector_key_def entity_key_def split: if_splits option.splits)
  show "get_item db' org k = map_option (assign_sector raw db') (get_item db org k)"
    unfolding rows same unfolding get_item_def
    by (simp add: db3_def db2_def get_row_map [where key = item_key, OF assign_sector_key]) (simp add: db1_def)
  have "get_project_child db' org t k = Option.bind (get_entity db org t k) (quotation_row raw db2)"
    unfolding get_project_child_def get_entity_def db' db3_def
    by (simp add: get_row_insert_missing, rule get_row_select [OF assms(2)])
      (auto simp: quotation_row_def project_child_key_def entity_key_def split: if_splits option.splits)
  moreover have "Option.bind (get_entity db org t k) (quotation_row raw db2) = None" if "t \<noteq> ''quotation''"
    using that by (cases "get_entity db org t k") (auto simp: quotation_row_def dest: get_entity_key)
  ultimately show "get_project_child db' org t k
      = (if t = ''quotation'' then Option.bind (get_entity db org t k) (quotation_row raw db') else None)"
    unfolding rows by (cases "t = ''quotation''") simp_all
  have "get_item_child db' org t k = Option.bind (get_entity db org t k) (item_child_row raw db3)"
    unfolding get_item_child_def get_entity_def db'
    by (simp add: get_row_insert_missing, rule get_row_select [OF assms(2)])
      (auto simp: item_child_row_def item_child_key_def entity_key_def split: if_splits option.splits)
  moreover have "Option.bind (get_entity db org t k) (item_child_row raw db3) = None" if "t \<notin> set MIGRATED_CHILD_TYPES"
    using that by (cases "get_entity db org t k") (auto simp: item_child_row_def dest: get_entity_key)
  ultimately show "get_item_child db' org t k
      = (if t \<in> set MIGRATED_CHILD_TYPES then Option.bind (get_entity db org t k) (item_child_row raw db') else None)"
    unfolding rows by (cases "t \<in> set MIGRATED_CHILD_TYPES") simp_all
qed

section \<open>Chains of parents\<close>

text \<open>
  What the synchronized entities of an organization prove, independently of any ownership table: the
  entity exists, its payload names a parent, and the parent is proven in turn. A quotation must
  name the customer its project names, and the children of an item need an item whose sector is
  proven for the same project.
\<close>

abbreviation names :: "(json \<Rightarrow> string) \<Rightarrow> sync_entity \<Rightarrow> string \<Rightarrow> string \<Rightarrow> bool" where
  "names raw e field v \<equiv> text_field raw (se_payload_json e) field = Some v"

inductive proven :: "(json \<Rightarrow> string) \<Rightarrow> db \<Rightarrow> string \<Rightarrow> string \<Rightarrow> string \<Rightarrow> bool" for raw db org where
  customer: "get_entity db org ''customer'' k = Some e \<Longrightarrow> proven raw db org ''customer'' k"
| project: "get_entity db org ''project'' k = Some e \<Longrightarrow> names raw e ''customerID'' c \<Longrightarrow> proven raw db org ''customer'' c
    \<Longrightarrow> proven raw db org ''project'' k"
| item: "get_entity db org ''item'' k = Some e \<Longrightarrow> names raw e ''projectID'' p \<Longrightarrow> proven raw db org ''project'' p
    \<Longrightarrow> proven raw db org ''item'' k"
| sector: "get_entity db org ''project_sector'' k = Some e \<Longrightarrow> names raw e ''projectID'' p \<Longrightarrow> names raw e ''sectorID'' s
    \<Longrightarrow> proven raw db org ''project'' p \<Longrightarrow> proven raw db org ''project_sector'' k"
| quotation: "get_entity db org ''quotation'' k = Some e \<Longrightarrow> names raw e ''projectID'' p \<Longrightarrow> names raw e ''customerID'' c
    \<Longrightarrow> proven raw db org ''project'' p \<Longrightarrow> get_entity db org ''project'' p = Some pe \<Longrightarrow> names raw pe ''customerID'' c
    \<Longrightarrow> proven raw db org ''quotation'' k"
| item_child: "t \<in> set MIGRATED_CHILD_TYPES \<Longrightarrow> get_entity db org t k = Some e \<Longrightarrow> migrated_item raw e = Some i
    \<Longrightarrow> proven raw db org ''item'' i \<Longrightarrow> get_entity db org ''item'' i = Some ie \<Longrightarrow> names raw ie ''projectID'' p
    \<Longrightarrow> names raw ie ''projectSectorID'' s \<Longrightarrow> proven raw db org ''project_sector'' s
    \<Longrightarrow> get_entity db org ''project_sector'' s = Some se \<Longrightarrow> names raw se ''projectID'' p
    \<Longrightarrow> proven raw db org t k"

definition owned :: "db \<Rightarrow> string \<Rightarrow> string \<Rightarrow> string \<Rightarrow> bool" where
  "owned db org t k \<longleftrightarrow>
    (if t = ''customer'' then get_customer db org k \<noteq> None
     else if t = ''project'' then get_project db org k \<noteq> None
     else if t = ''project_sector'' then get_sector db org k \<noteq> None
     else if t = ''item'' then get_item db org k \<noteq> None
     else get_project_child db org t k \<noteq> None \<or> get_item_child db org t k \<noteq> None)"

inductive_cases proven_typeE: "proven raw db org t k"

lemma proven_simps:
  "proven raw db org ''customer'' k \<longleftrightarrow> get_entity db org ''customer'' k \<noteq> None"
  "proven raw db org ''project'' k \<longleftrightarrow>
    (\<exists>e c. get_entity db org ''project'' k = Some e \<and> names raw e ''customerID'' c \<and> proven raw db org ''customer'' c)"
  "proven raw db org ''item'' k \<longleftrightarrow>
    (\<exists>e p. get_entity db org ''item'' k = Some e \<and> names raw e ''projectID'' p \<and> proven raw db org ''project'' p)"
  "proven raw db org ''project_sector'' k \<longleftrightarrow>
    (\<exists>e p s. get_entity db org ''project_sector'' k = Some e \<and> names raw e ''projectID'' p \<and> names raw e ''sectorID'' s
      \<and> proven raw db org ''project'' p)"
  by (auto simp: MIGRATED_CHILD_TYPES_def elim: proven_typeE intro: proven.intros)

lemma owned_iff_proven:
  assumes up2: "upgrade_0002 raw db = ok db2" and up3: "upgrade_0003 raw db2 = ok db3"
    and keys: "keys_ok entity_key (sync_entities db)"
  shows "get_customer db3 org k \<noteq> None \<longleftrightarrow> proven raw db org ''customer'' k"
    and "get_project db3 org k \<noteq> None \<longleftrightarrow> proven raw db org ''project'' k"
    and "get_sector db3 org k \<noteq> None \<longleftrightarrow> proven raw db org ''project_sector'' k"
    and "get_item db3 org k \<noteq> None \<longleftrightarrow> proven raw db org ''item'' k"
proof -
  note g2 = upgrade_0002_gets [OF up2 keys]
  have keys2: "keys_ok entity_key (sync_entities db2)" using keys g2(4) by simp
  note g3 = upgrade_0003_gets [OF up3 keys2]
  have ents: "get_entity db2 = get_entity db" using g2(4) by (simp add: get_entity_def fun_eq_iff)
  have key: "se_organization_id e = org \<and> se_entity_type e = t" if "get_entity db org t k = Some e" for e t k org
    using get_entity_key [OF that] by simp
  have c: "get_customer db3 org k \<noteq> None \<longleftrightarrow> proven raw db org ''customer'' k" for org k
    by (cases "get_entity db org ''customer'' k")
      (auto simp: g3(1) g2(1) proven_simps(1) customer_row_def key [of org "''customer''" k])
  then show "get_customer db3 org k \<noteq> None \<longleftrightarrow> proven raw db org ''customer'' k" .
  have p: "get_project db3 org k \<noteq> None \<longleftrightarrow> proven raw db org ''project'' k" for org k
    by (cases "get_entity db org ''project'' k")
      (auto simp: c [symmetric, unfolded g3(1)] g3(2) g2(2) proven_simps(2) project_row_def key [of org "''project''" k] split: option.split)
  then show "get_project db3 org k \<noteq> None \<longleftrightarrow> proven raw db org ''project'' k" .
  show "get_sector db3 org k \<noteq> None \<longleftrightarrow> proven raw db org ''project_sector'' k"
    by (cases "get_entity db org ''project_sector'' k")
      (auto simp: p [symmetric] g3(4) ents proven_simps(4) sector_row_def key [of org "''project_sector''" k] split: option.split)
  show "get_item db3 org k \<noteq> None \<longleftrightarrow> proven raw db org ''item'' k"
    by (cases "get_entity db org ''item'' k")
      (auto simp: p [symmetric, unfolded g3(2)] g3(5) g2(3) proven_simps(3) item_row_def key [of org "''item''" k] split: option.split)
qed

text \<open>The parents recorded in the rows are those the payloads name.\<close>

lemma recorded_parents:
  assumes up2: "upgrade_0002 raw db = ok db2" and up3: "upgrade_0003 raw db2 = ok db3"
    and keys: "keys_ok entity_key (sync_entities db)"
  shows "get_project db3 org k = Some r \<Longrightarrow> \<exists>e. get_entity db org ''project'' k = Some e \<and> names raw e ''customerID'' (cp_customer_id r)"
    and "get_sector db3 org k = Some ps \<Longrightarrow> \<exists>e. get_entity db org ''project_sector'' k = Some e \<and> names raw e ''projectID'' (cs_project_id ps)"
    and "get_item db3 org k = Some i \<Longrightarrow> \<exists>e. get_entity db org ''item'' k = Some e \<and> names raw e ''projectID'' (ci_project_id i) \<and> ci_deleted_at i = se_deleted_at e
      \<and> ci_project_sector_id i = (case text_field raw (se_payload_json e) ''projectSectorID'' of
           None \<Rightarrow> None
         | Some s \<Rightarrow> (case get_sector db3 org s of
             None \<Rightarrow> None | Some ps \<Rightarrow> if cs_project_id ps = ci_project_id i then Some s else None))"
proof -
  note g2 = upgrade_0002_gets [OF up2 keys]
  have keys2: "keys_ok entity_key (sync_entities db2)" using keys g2(4) by simp
  note g3 = upgrade_0003_gets [OF up3 keys2]
  have ents: "get_entity db2 = get_entity db" "get_entity db3 = get_entity db"
    using g2(4) g3(3) by (simp_all add: get_entity_def fun_eq_iff)
  show "\<exists>e. get_entity db org ''project'' k = Some e \<and> names raw e ''customerID'' (cp_customer_id r)" if "get_project db3 org k = Some r"
    using that unfolding g3(2) g2(2) by (auto simp: bind_eq_Some_conv project_row_def split: if_splits option.splits)
  show "\<exists>e. get_entity db org ''project_sector'' k = Some e \<and> names raw e ''projectID'' (cs_project_id ps)"
    if "get_sector db3 org k = Some ps"
    using that unfolding g3(4) ents by (auto simp: bind_eq_Some_conv sector_row_def split: if_splits option.splits)
  show "\<exists>e. get_entity db org ''item'' k = Some e \<and> names raw e ''projectID'' (ci_project_id i) \<and> ci_deleted_at i = se_deleted_at e
      \<and> ci_project_sector_id i = (case text_field raw (se_payload_json e) ''projectSectorID'' of
           None \<Rightarrow> None
         | Some s \<Rightarrow> (case get_sector db3 org s of
             None \<Rightarrow> None | Some ps \<Rightarrow> if cs_project_id ps = ci_project_id i then Some s else None))"
    if "get_item db3 org k = Some i"
  proof -
    from that obtain i0 where i: "i = assign_sector raw db3 i0" and i0: "get_item db2 org k = Some i0" unfolding g3(5) by auto
    from i0 obtain e where e: "get_entity db org ''item'' k = Some e" and row: "item_row raw db2 e = Some i0"
      unfolding g2(3) by (auto simp: bind_eq_Some_conv)
    from row have f: "names raw e ''projectID'' (ci_project_id i0)" "ci_project_sector_id i0 = None" "ci_organization_id i0 = org" "ci_item_id i0 = k"
        "ci_deleted_at i0 = se_deleted_at e"
      using get_item_key [OF i0] by (auto simp: item_row_def split: if_splits option.splits)
    then have "json_text raw (json_field (se_payload_json e) ''projectID'') = Some (ci_project_id i0)"
      by (auto simp: text_field_def split: option.splits if_splits)
    then have sec: "ci_project_id i = ci_project_id i0 \<and> ci_deleted_at i = se_deleted_at e \<and> ci_project_sector_id i = (case text_field raw (se_payload_json e) ''projectSectorID'' of
           None \<Rightarrow> None
         | Some s \<Rightarrow> (case get_sector db3 org s of
             None \<Rightarrow> None | Some ps \<Rightarrow> if cs_project_id ps = ci_project_id i0 then Some s else None))"
      unfolding i by (simp add: assign_sector_def ents f(2-5) e split: option.split)
    from f(1) e sec [THEN conjunct2] show ?thesis unfolding sec [THEN conjunct1] by blast
  qed
qed

definition parents_exist :: "db \<Rightarrow> bool" where
  "parents_exist db \<longleftrightarrow>
     (\<forall>org k r. get_project db org k = Some r \<longrightarrow> get_customer db org (cp_customer_id r) \<noteq> None)
   \<and> (\<forall>org k r. get_sector db org k = Some r \<longrightarrow> get_project db org (cs_project_id r) \<noteq> None)
   \<and> (\<forall>org k r. get_item db org k = Some r \<longrightarrow> get_project db org (ci_project_id r) \<noteq> None
        \<and> (\<forall>s. ci_project_sector_id r = Some s \<longrightarrow> (\<exists>ps. get_sector db org s = Some ps \<and> cs_project_id ps = ci_project_id r)))
   \<and> (\<forall>org t k r. get_project_child db org t k = Some r \<longrightarrow> get_project db org (pc_project_id r) \<noteq> None)
   \<and> (\<forall>org t k r. get_item_child db org t k = Some r \<longrightarrow>
        (\<exists>i. get_item db org (ic_item_id r) = Some i \<and> ci_project_sector_id i \<noteq> None))"


lemma migrated_parents_exist:
  assumes up2: "upgrade_0002 raw db = ok db2" and up3: "upgrade_0003 raw db2 = ok db3"
    and keys: "keys_ok entity_key (sync_entities db)"
  shows "parents_exist db3"
  unfolding parents_exist_def
proof (intro conjI allI impI)
  note own = owned_iff_proven [OF assms] and rec = recorded_parents [OF assms]
  note g2 = upgrade_0002_gets [OF up2 keys]
  have keys2: "keys_ok entity_key (sync_entities db2)" using keys g2(4) by simp
  note g3 = upgrade_0003_gets [OF up3 keys2]
  show "get_customer db3 org (cp_customer_id r) \<noteq> None" if r: "get_project db3 org k = Some r" for org k r
    using own(2) [of org k] rec(1) [OF r] r by (auto simp: proven_simps(2) own(1) [symmetric])
  show "get_project db3 org (cs_project_id r) \<noteq> None" if r: "get_sector db3 org k = Some r" for org k r
    using own(3) [of org k] rec(2) [OF r] r by (auto simp: proven_simps(4) own(2) [symmetric])
  show "get_project db3 org (ci_project_id r) \<noteq> None" if r: "get_item db3 org k = Some r" for org k r
    using own(4) [of org k] rec(3) [OF r] r by (auto simp: proven_simps(3) own(2) [symmetric])
  show "\<exists>ps. get_sector db3 org s = Some ps \<and> cs_project_id ps = ci_project_id r"
    if r: "get_item db3 org k = Some r" "ci_project_sector_id r = Some s" for org k r s
    using rec(3) [OF r(1)] r(2) by (auto split: option.splits if_splits)
  show "get_project db3 org (pc_project_id r) \<noteq> None" if r: "get_project_child db3 org t k = Some r" for org t k r
    using r get_project_child_key [OF r] unfolding g3(6)
    by (auto simp: bind_eq_Some_conv quotation_row_def split: if_splits option.splits)
  show "\<exists>i. get_item db3 org (ic_item_id r) = Some i \<and> ci_project_sector_id i \<noteq> None"
    if r: "get_item_child db3 org t k = Some r" for org t k r
    using r get_item_child_key [OF r] unfolding g3(7)
    by (auto simp: bind_eq_Some_conv item_child_row_def split: if_splits option.splits)
qed

lemma migrated_children:
  assumes up2: "upgrade_0002 raw db = ok db2" and up3: "upgrade_0003 raw db2 = ok db3"
    and keys: "keys_ok entity_key (sync_entities db)"
  shows "get_project_child db3 org t k = (if t = ''quotation'' then Option.bind (get_entity db org t k) (quotation_row raw db3) else None)"
    and "get_item_child db3 org t k = (if t \<in> set MIGRATED_CHILD_TYPES then Option.bind (get_entity db org t k) (item_child_row raw db3) else None)"
proof -
  note g2 = upgrade_0002_gets [OF up2 keys]
  have keys2: "keys_ok entity_key (sync_entities db2)" using keys g2(4) by simp
  have ents: "get_entity db2 = get_entity db" using g2(4) by (simp add: get_entity_def fun_eq_iff)
  note g3 = upgrade_0003_gets [OF up3 keys2, unfolded ents]
  show "get_project_child db3 org t k = (if t = ''quotation'' then Option.bind (get_entity db org t k) (quotation_row raw db3) else None)"
    "get_item_child db3 org t k = (if t \<in> set MIGRATED_CHILD_TYPES then Option.bind (get_entity db org t k) (item_child_row raw db3) else None)"
    by (rule g3(6), rule g3(7))
qed

lemma project_child_iff_proven:
  assumes up2: "upgrade_0002 raw db = ok db2" and up3: "upgrade_0003 raw db2 = ok db3"
    and keys: "keys_ok entity_key (sync_entities db)"
  shows "get_project_child db3 org t k \<noteq> None \<longleftrightarrow> t = ''quotation'' \<and> proven raw db org t k"
proof -
  note own = owned_iff_proven [OF assms] and rec = recorded_parents [OF assms]
  note rows = migrated_children(1) [OF assms]
  show ?thesis
  proof
    assume "get_project_child db3 org t k \<noteq> None"
    then obtain e r where t: "t = ''quotation''" and e: "get_entity db org t k = Some e" and row: "quotation_row raw db3 e = Some r"
      unfolding rows by (auto simp: bind_eq_Some_conv split: if_splits)
    from row obtain p project where p: "names raw e ''projectID'' p" "get_project db3 org p = Some project"
      "names raw e ''customerID'' (cp_customer_id project)"
      using get_entity_key [OF e] by (auto simp: quotation_row_def split: if_splits option.splits)
    from rec(1) [OF p(2)] obtain pe where "get_entity db org ''project'' p = Some pe" "names raw pe ''customerID'' (cp_customer_id project)"
      by blast
    with t e p own(2) [of org p] show "t = ''quotation'' \<and> proven raw db org t k" by (auto intro: proven.quotation)
  next
    assume "t = ''quotation'' \<and> proven raw db org t k"
    then obtain e p c pe where t: "t = ''quotation''" and e: "get_entity db org t k = Some e" "names raw e ''projectID'' p"
        "names raw e ''customerID'' c" "proven raw db org ''project'' p" "get_entity db org ''project'' p = Some pe" "names raw pe ''customerID'' c"
      by (auto simp: MIGRATED_CHILD_TYPES_def elim: proven_typeE)
    from own(2) [of org p] e(4) obtain project where pr: "get_project db3 org p = Some project" by auto
    with rec(1) [OF pr] e(5,6) have "cp_customer_id project = c" by auto
    then have "quotation_row raw db3 e \<noteq> None" using t e(2,3) pr get_entity_key [OF e(1)] by (simp add: quotation_row_def)
    with t e(1) show "get_project_child db3 org t k \<noteq> None" unfolding rows by simp
  qed
qed

lemma item_child_iff_proven:
  assumes up2: "upgrade_0002 raw db = ok db2" and up3: "upgrade_0003 raw db2 = ok db3"
    and keys: "keys_ok entity_key (sync_entities db)"
  shows "get_item_child db3 org t k \<noteq> None \<longleftrightarrow> t \<in> set MIGRATED_CHILD_TYPES \<and> proven raw db org t k"
proof -
  note own = owned_iff_proven [OF assms] and rec = recorded_parents [OF assms]
  note rows = migrated_children(2) [OF assms]
  show ?thesis
  proof
    assume "get_item_child db3 org t k \<noteq> None"
    then obtain e r where t: "t \<in> set MIGRATED_CHILD_TYPES" and e: "get_entity db org t k = Some e" and row: "item_child_row raw db3 e = Some r"
      unfolding rows by (auto simp: bind_eq_Some_conv split: if_splits)
    from row obtain i item where i: "migrated_item raw e = Some i" "get_item db3 org i = Some item" "ci_project_sector_id item \<noteq> None"
      using get_entity_key [OF e] by (auto simp: item_child_row_def split: if_splits option.splits)
    from rec(3) [OF i(2)] obtain ie where ie: "get_entity db org ''item'' i = Some ie" "names raw ie ''projectID'' (ci_project_id item)"
      and sec: "ci_project_sector_id item = (case text_field raw (se_payload_json ie) ''projectSectorID'' of
             None \<Rightarrow> None
           | Some s \<Rightarrow> (case get_sector db3 org s of
               None \<Rightarrow> None | Some ps \<Rightarrow> if cs_project_id ps = ci_project_id item then Some s else None))" by blast
    from i(3) obtain s ps where s: "names raw ie ''projectSectorID'' s" and ps: "get_sector db3 org s = Some ps" "cs_project_id ps = ci_project_id item"
      unfolding sec by (auto split: option.splits if_splits)
    from rec(2) [OF ps(1)] ps(2) obtain se where se: "get_entity db org ''project_sector'' s = Some se" "names raw se ''projectID'' (ci_project_id item)"
      by auto
    have "proven raw db org ''item'' i" "proven raw db org ''project_sector'' s" using own(3) [of org s] own(4) [of org i] i(2) ps(1) by auto
    with proven.item_child [OF t e i(1) _ ie s] se t show "t \<in> set MIGRATED_CHILD_TYPES \<and> proven raw db org t k" by blast
  next
    assume a: "t \<in> set MIGRATED_CHILD_TYPES \<and> proven raw db org t k"
    then obtain e i ie p s se where e: "get_entity db org t k = Some e" "migrated_item raw e = Some i" "proven raw db org ''item'' i"
        "get_entity db org ''item'' i = Some ie" "names raw ie ''projectID'' p" "names raw ie ''projectSectorID'' s"
        "proven raw db org ''project_sector'' s" "get_entity db org ''project_sector'' s = Some se" "names raw se ''projectID'' p"
      by (auto simp: MIGRATED_CHILD_TYPES_def elim: proven_typeE)
    from own(3) [of org s] own(4) [of org i] e(3,7) obtain item ps where item: "get_item db3 org i = Some item" and ps: "get_sector db3 org s = Some ps"
      by auto
    have "ci_project_sector_id item = Some s" using rec(3) [OF item] rec(2) [OF ps] e(4-6,8,9) ps by auto
    then have "item_child_row raw db3 e \<noteq> None" using a e(2) item get_entity_key [OF e(1)] by (simp add: item_child_row_def)
    with a e(1) show "get_item_child db3 org t k \<noteq> None" unfolding rows by simp
  qed
qed

section \<open>Properties\<close>

lemma later_revisions:
  "get_customer (upgrade_0007 (upgrade_0006 (upgrade_0005 (upgrade_0004 db)))) = get_customer db"
  "get_project (upgrade_0007 (upgrade_0006 (upgrade_0005 (upgrade_0004 db)))) = get_project db"
  "get_sector (upgrade_0007 (upgrade_0006 (upgrade_0005 (upgrade_0004 db)))) = get_sector db"
  "get_item (upgrade_0007 (upgrade_0006 (upgrade_0005 (upgrade_0004 db)))) = get_item db"
  "get_project_child (upgrade_0007 (upgrade_0006 (upgrade_0005 (upgrade_0004 db)))) = get_project_child db"
  "get_item_child (upgrade_0007 (upgrade_0006 (upgrade_0005 (upgrade_0004 db)))) = get_item_child db"
  by (simp_all add: upgrade_0004_def upgrade_0005_def upgrade_0006_def upgrade_0007_def get_defs fun_eq_iff)

text \<open>
  C25. The backfill of the ownership tables is exact and closed. After an upgrade to the head, an
  entity has an ownership row precisely when its chain of parents is proven by the synchronized
  entities of its organization, and every recorded parent has a row of its own: no reference of a
  client is trusted without proof, and none that is proven is lost.
\<close>

theorem backfill_exact:
  assumes "upgrade_head raw db = ok db'" and keys: "keys_ok entity_key (sync_entities db)"
  shows "(owned db' org t k \<longleftrightarrow> proven raw db org t k) \<and> parents_exist db'"
proof -
  from assms(1) obtain db2 db3 where up: "upgrade_0002 raw db = ok db2" "upgrade_0003 raw db2 = ok db3"
    and db': "db' = upgrade_0007 (upgrade_0006 (upgrade_0005 (upgrade_0004 db3)))"
    by (auto simp: upgrade_head_def res_simps)
  have types: "proven raw db org t k \<Longrightarrow> t \<in> {''customer'', ''project'', ''project_sector'', ''item'', ''quotation''} \<union> set MIGRATED_CHILD_TYPES"
    by (erule proven_typeE) simp_all
  consider (root) "t = ''customer''" | (project) "t = ''project''" | (sector) "t = ''project_sector''" | (item) "t = ''item''"
    | (child) "t \<notin> {''customer'', ''project'', ''project_sector'', ''item''}" by blast
  then have "owned db' org t k \<longleftrightarrow> proven raw db org t k"
  proof cases
    case child
    then have "owned db' org t k \<longleftrightarrow> get_project_child db3 org t k \<noteq> None \<or> get_item_child db3 org t k \<noteq> None"
      by (simp add: owned_def db' later_revisions)
    also have "\<dots> \<longleftrightarrow> (t = ''quotation'' \<or> t \<in> set MIGRATED_CHILD_TYPES) \<and> proven raw db org t k"
      unfolding project_child_iff_proven [OF up keys] item_child_iff_proven [OF up keys] by blast
    finally show ?thesis using types child by blast
  qed (simp_all add: owned_def db' later_revisions flip: owned_iff_proven [OF up keys])
  moreover have "parents_exist db'"
    using migrated_parents_exist [OF up keys] unfolding parents_exist_def db' later_revisions .
  ultimately show ?thesis ..
qed

definition demo_legacy_entity :: "string \<Rightarrow> string \<Rightarrow> json \<Rightarrow> sync_entity" where
  "demo_legacy_entity t k payload = \<lparr>se_organization_id = ''o'', se_entity_type = t, se_entity_id = k, se_server_revision = 1,
     se_payload_json = payload, se_updated_at = demo_time, se_deleted_at = None\<rparr>"

definition demo_legacy_db :: db where
  "demo_legacy_db = empty_db\<lparr>organizations := [\<lparr>org_id = ''o'', org_name = ''n'', org_authorization_revision = 0\<rparr>],
     sync_entities := [demo_legacy_entity ''project'' ''p'' (JObj [(''customerID'', JStr ''c'')]),
       demo_legacy_entity ''customer'' ''c'' (JObj []),
       demo_legacy_entity ''project'' ''q'' (JObj [(''customerID'', JStr ''x'')])]\<rparr>"

text \<open>An upgrade of rows without sectors succeeds when every organization exists.\<close>

lemma upgrade_head_ok:
  assumes "list_all (\<lambda>e. get_organization db (se_organization_id e) \<noteq> None \<and> se_entity_type e \<noteq> ''project_sector'') (sync_entities db)"
  shows "\<exists>db'. upgrade_head raw db = ok db'"
proof -
  have "\<not> list_ex (\<lambda>r. get_organization db (cc_organization_id r) = None) (select customer_row (sync_entities db))"
    using assms by (auto simp: list_all_iff list_ex_iff List.map_filter_def customer_row_def)
  then obtain db2 where up: "upgrade_0002 raw db = ok db2" and ents: "sync_entities db2 = sync_entities db"
    by (simp add: upgrade_0002_def Let_def)
  have "select (sector_row raw db2) (sync_entities db) = []"
    using assms by (auto simp: list_all_iff List.map_filter_def sector_row_def filter_empty_conv)
  then have "\<exists>db3. upgrade_0003 raw db2 = ok db3" by (simp add: upgrade_0003_def ents Let_def)
  with up show ?thesis by (auto simp: upgrade_head_def)
qed

theorem backfill_exact_witness:
  "\<exists>db'. upgrade_head (json_dumps True) demo_legacy_db = ok db' \<and> owned db' ''o'' ''project'' ''p'' \<and> \<not> owned db' ''o'' ''project'' ''q''"
proof -
  have "\<exists>db'. upgrade_head (json_dumps True) demo_legacy_db = ok db'"
    by (rule upgrade_head_ok) (simp add: demo_legacy_db_def demo_legacy_entity_def get_organization_def)
  then obtain db' where up: "upgrade_head (json_dumps True) demo_legacy_db = ok db'" ..
  have keys: "keys_ok entity_key (sync_entities demo_legacy_db)"
    by (simp add: demo_legacy_db_def demo_legacy_entity_def keys_ok_def entity_key_def)
  note exact = backfill_exact [OF up keys, THEN conjunct1]
  have "proven (json_dumps True) demo_legacy_db ''o'' ''project'' ''p''" "\<not> proven (json_dumps True) demo_legacy_db ''o'' ''project'' ''q''"
    by (simp_all add: proven_simps demo_legacy_db_def demo_legacy_entity_def get_entity_def entity_key_def text_field_def
        json_text_def json_field_def dget_def)
  with up exact show ?thesis by blast
qed

text \<open>The revisions can be undone: a downgrade removes exactly what the upgrade added.\<close>

lemma assign_sector_undone: "ci_project_sector_id i = None \<Longrightarrow> (assign_sector raw db i)\<lparr>ci_project_sector_id := None\<rparr> = i"
  by (simp add: assign_sector_def split: option.split)

lemma downgrade_upgrade_0003:
  assumes "upgrade_0003 raw db = ok db'" "canonical_project_sectors db = []" "canonical_project_children db = []"
    "canonical_item_children db = []" "list_all (\<lambda>i. ci_project_sector_id i = None) (canonical_items db)"
  shows "downgrade_0003 db' = db"
proof -
  have "map (\<lambda>i. (assign_sector raw d i)\<lparr>ci_project_sector_id := None\<rparr>) (canonical_items db) = canonical_items db" for d
    using assms(5) by (intro map_idI assign_sector_undone) (simp add: list_all_iff)
  moreover from assms(1) obtain a b c d where "db' = db\<lparr>canonical_project_sectors := a,
      canonical_items := map (assign_sector raw b) (canonical_items db), canonical_project_children := c, canonical_item_children := d\<rparr>"
    by (auto simp: upgrade_0003_def Let_def split: if_splits)
  ultimately show ?thesis using assms(2-4) by (cases db) (simp add: downgrade_0003_def comp_def)
qed

lemma downgrade_upgrade_0002:
  assumes "upgrade_0002 raw db = ok db'" "canonical_customers db = []" "canonical_projects db = []" "canonical_items db = []"
  shows "downgrade_0002 db' = db"
  using assms by (cases db) (auto simp: upgrade_0002_def downgrade_0002_def Let_def split: if_splits)

text \<open>A fresh installation reaches the head with every table empty.\<close>

lemma fresh_install: "upgrade_head raw upgrade_0001 = ok empty_db"
  by (simp add: upgrade_head_def upgrade_0001_def upgrade_0002_def upgrade_0003_def upgrade_0004_def upgrade_0005_def
      upgrade_0006_def upgrade_0007_def empty_db_def map_filter_simps ebind_def Let_def)

text \<open>
  A downgrade of revision 0005 is not undone by the upgrade: every blob is then labelled local,
  whatever store holds its object.
\<close>

lemma reupgrade_relabels_blobs:
  "b \<in> set (evidence_blobs (upgrade_0005 (downgrade_0005 db))) \<Longrightarrow> eb_storage_provider b = ''local''"
  by (auto simp: upgrade_0005_def downgrade_0005_def)

text \<open>
  The backfill does not establish the hierarchy that pushes keep: an item whose payload names no
  proven sector stays live without one, and its children get no row.
\<close>

definition demo_sectorless_db :: db where
  "demo_sectorless_db = demo_legacy_db\<lparr>sync_entities := sync_entities demo_legacy_db
     @ [demo_legacy_entity ''item'' ''i'' (JObj [(''projectID'', JStr ''p'')])]\<rparr>"

lemma backfilled_item_without_sector:
  "\<exists>db'. upgrade_head (json_dumps True) demo_sectorless_db = ok db' \<and> \<not> hierarchy_ok db'"
proof -
  note defs = demo_sectorless_db_def demo_legacy_db_def demo_legacy_entity_def
  have "\<exists>db'. upgrade_head (json_dumps True) demo_sectorless_db = ok db'"
    by (rule upgrade_head_ok) (simp add: defs get_organization_def)
  then obtain db2 db3 where up: "upgrade_0002 (json_dumps True) demo_sectorless_db = ok db2" "upgrade_0003 (json_dumps True) db2 = ok db3"
    by (auto simp: upgrade_head_def res_simps)
  have keys: "keys_ok entity_key (sync_entities demo_sectorless_db)" by (simp add: defs keys_ok_def entity_key_def)
  let ?e = "demo_legacy_entity ''item'' ''i'' (JObj [(''projectID'', JStr ''p'')])"
  have e: "get_entity demo_sectorless_db ''o'' ''item'' ''i'' = Some ?e" by (simp add: defs get_entity_def entity_key_def)
  have "proven (json_dumps True) demo_sectorless_db ''o'' ''item'' ''i''"
    by (simp add: proven_simps defs get_entity_def entity_key_def text_field_def json_text_def json_field_def dget_def)
  with owned_iff_proven(4) [OF up keys, of "''o''" "''i''"] obtain i where i: "get_item db3 ''o'' ''i'' = Some i" by auto
  have live: "ci_deleted_at i = None" "ci_project_sector_id i = None"
    using recorded_parents(3) [OF up keys i] e
    by (auto simp: demo_legacy_entity_def text_field_def json_text_def json_field_def dget_def)
  have "\<not> items_rooted db3"
  proof
    assume "items_rooted db3"
    with i live(1) obtain sec where "ci_project_sector_id i = Some sec" unfolding items_rooted_def by blast
    with live(2) show False by simp
  qed
  then have "\<not> hierarchy_ok (upgrade_0007 (upgrade_0006 (upgrade_0005 (upgrade_0004 db3))))"
    unfolding hierarchy_ok_def items_rooted_def live_project_def live_sector_def later_revisions by blast
  with up show ?thesis by (simp add: upgrade_head_def)
qed

end
