(* ===== verification/Operator_Properties.thy ===== *)
theory Operator_Properties
  imports Operator_Tools Sync_Properties Reference_Properties
begin

text \<open>
  What the operator tools can rely on: pushes never leave a delivery half canonical, so the preflight
  fails only for what the provider reports; and the backfill completes every organization.
\<close>

section \<open>Deliveries have both rows\<close>

definition deliveries_paired :: "db \<Rightarrow> bool" where
  "deliveries_paired db \<longleftrightarrow>
     (\<forall>e \<in> set (sync_entities db). se_entity_type e = DELIVERY_ENTITY_TYPE \<longrightarrow> se_deleted_at e = None
        \<and> get_project_child db (se_organization_id e) DELIVERY_ENTITY_TYPE (se_entity_id e) \<noteq> None)
   \<and> (\<forall>c \<in> set (canonical_project_children db). pc_entity_type c = DELIVERY_ENTITY_TYPE \<longrightarrow> pc_deleted_at c = None
        \<and> get_entity db (pc_organization_id c) DELIVERY_ENTITY_TYPE (pc_entity_id c) \<noteq> None)"

text \<open>Only the two tables matter.\<close>

abbreviation same_delivery_tables :: "db \<Rightarrow> db \<Rightarrow> bool" where
  "same_delivery_tables db db' \<equiv> sync_entities db' = sync_entities db \<and> canonical_project_children db' = canonical_project_children db"

lemma paired_same: "same_delivery_tables db db' \<Longrightarrow> deliveries_paired db' \<longleftrightarrow> deliveries_paired db"
  by (simp add: deliveries_paired_def get_project_child_def get_entity_def)

lemma set_put_row: "x \<in> set (put_row key r rows) \<Longrightarrow> x = r \<or> x \<in> set rows"
  by (induction rows) (auto split: if_splits)

text \<open>A plan of another type writes no ownership row of a delivery.\<close>

lemma grant_children: "grant_created_scope db p c pr = (db', r) \<Longrightarrow> canonical_project_children db' = canonical_project_children db"
  by (auto simp: grant_created_scope_def Let_def split: option.splits if_splits)

lemma root_plan_children:
  "apply_customer_plan db p scope plan = (db', scope', r) \<Longrightarrow> canonical_project_children db' = canonical_project_children db"
  "apply_project_plan db p scope plan = (db', scope', r) \<Longrightarrow> canonical_project_children db' = canonical_project_children db"
  unfolding apply_customer_plan_def apply_project_plan_def Let_def
  by (auto split: prod.splits option.splits if_splits dest!: grant_children)

lemma leaf_plan_children:
  "apply_sector_plan db p plan = (db', r) \<Longrightarrow> canonical_project_children db' = canonical_project_children db"
  "apply_item_plan db p plan = (db', r) \<Longrightarrow> canonical_project_children db' = canonical_project_children db"
  "apply_item_child_plan db p plan = (db', r) \<Longrightarrow> canonical_project_children db' = canonical_project_children db"
  unfolding apply_sector_plan_def apply_item_plan_def apply_item_child_plan_def
  by (auto split: option.splits if_splits)

lemma authorized_type: "authorize_record lib db p scope t k payload del g = Inr plan \<Longrightarrow> op_entity_type plan = t"
  unfolding authorize_record_def
  by (auto split: if_splits dest!: authorize_customer_type authorize_project_ok authorize_sector_ok authorize_item_ok
      authorize_item_child_ok authorize_quotation_ok)

lemma plan_children:
  assumes "apply_ownership_plan db p scope plan = (db', scope', r)" and t: "op_entity_type plan \<noteq> DELIVERY_ENTITY_TYPE"
  shows "canonical_project_children db' = canonical_project_children db
    \<or> (\<exists>c. canonical_project_children db' = put_row project_child_key c (canonical_project_children db) \<and> pc_entity_type c \<noteq> DELIVERY_ENTITY_TYPE)"
proof (cases "op_entity_type plan \<in> set PROJECT_CHILD_TYPES")
  case True
  then have "apply_project_child_plan db p plan = (db', r)"
    using assms by (auto simp: apply_ownership_plan_def PROJECT_CHILD_TYPES_def DELIVERY_ENTITY_TYPE_def split: prod.splits)
  with t show ?thesis
    by (auto simp: apply_project_child_plan_def split: option.splits if_splits dest!: get_project_child_key
        intro!: disjI2 exI conjI [OF refl])
next
  case False
  with assms have "canonical_project_children db' = canonical_project_children db"
    unfolding apply_ownership_plan_def Let_def
    by (auto split: prod.splits if_splits intro: root_plan_children leaf_plan_children)
  then show ?thesis ..
qed

lemma paired_other:
  assumes "deliveries_paired db" "sync_entities db' = sync_entities db" "pc_entity_type c \<noteq> DELIVERY_ENTITY_TYPE"
    "canonical_project_children db' = put_row project_child_key c (canonical_project_children db)"
  shows "deliveries_paired db'"
proof -
  have "get_project_child db' org DELIVERY_ENTITY_TYPE k = get_project_child db org DELIVERY_ENTITY_TYPE k" for org k
    using assms(3,4) by (auto simp: get_project_child_def get_row_put_row project_child_key_def)
  moreover have "get_entity db' = get_entity db" using assms(2) by (simp add: get_entity_def fun_eq_iff)
  ultimately show ?thesis
    using assms by (auto simp: deliveries_paired_def dest!: set_put_row)
qed

text \<open>An authorized delivery is no tombstone and finds or gets its ownership row; a refused one changes nothing.\<close>

lemma delivery_own_effect:
  assumes "authorize_and_own env db p scope record current payload = (db', scope', q)" "sr_entity_type record = DELIVERY_ENTITY_TYPE"
  shows "db' = db \<and> (\<forall>u. q = Inr u \<longrightarrow> sr_deleted_at record = None \<and> get_project_child db (organization_id p) DELIVERY_ENTITY_TYPE (sr_entity_id record) \<noteq> None)
    \<or> (\<exists>project. q = Inr () \<and> sr_deleted_at record = None \<and> db' = db\<lparr>canonical_project_children := put_row project_child_key
         \<lparr>pc_organization_id = organization_id p, pc_entity_type = DELIVERY_ENTITY_TYPE, pc_entity_id = sr_entity_id record,
          pc_project_id = project, pc_deleted_at = None\<rparr> (canonical_project_children db)\<rparr>)"
proof (cases "authorize_delivery_execution db p scope (sr_entity_id record) payload (sr_deleted_at record) current")
  case (Inl e)
  with assms show ?thesis by (auto simp: authorize_and_own_def)
next
  case (Inr project)
  then have "sr_deleted_at record = None" by (auto simp: authorize_delivery_execution_def split: if_splits)
  with Inr assms show ?thesis
    by (auto simp: authorize_and_own_def apply_delivery_execution_ownership_def split: option.splits)
qed

lemma own_other:
  assumes "authorize_and_own env db p scope record current payload = (db', scope', q)" "sr_entity_type record \<noteq> DELIVERY_ENTITY_TYPE"
    and "deliveries_paired db"
  shows "deliveries_paired db'"
proof -
  have frame: "sync_entities db' = sync_entities db"
    using own_steps_frame [OF authorize_and_own_steps [OF assms(1)]] by (simp add: sync_frame_def)
  from assms(1,2) consider "db' = db"
    | plan where "apply_ownership_plan db p scope plan = (db', scope', q)" "op_entity_type plan \<noteq> DELIVERY_ENTITY_TYPE"
    by (auto simp: authorize_and_own_def split: sum.splits dest: authorized_type)
  then show ?thesis
  proof cases
    case 2
    from plan_children [OF this] show ?thesis
      using assms(3) frame paired_other [OF assms(3) frame] paired_same [of db' db] by blast
  qed (use assms(3) in simp)
qed

lemma gc_tables: "same_delivery_tables db (queue_evidence_gc env db p record)"
  by (simp add: queue_evidence_gc_def queue_blob_gc_def Let_def split: option.split)

lemma mutation_tables: "same_delivery_tables db (record_mutation env db p batch record k status rv)"
  by (simp add: record_mutation_def Let_def)

lemma commit_children:
  "commit_record env db p batch record k current payload = (db', rv) \<Longrightarrow> canonical_project_children db' = canonical_project_children db"
  by (auto simp: commit_record_def Let_def append_change_def record_mutation_def)

text \<open>A refused record keeps the pairing.\<close>

lemma paired_refused:
  assumes "try_mutation env db p scope record current = (db', scope', Inl e)" "deliveries_paired db"
  shows "deliveries_paired db'"
  using assms(1)
proof (cases rule: try_mutationE)
  case (denied payload e')
  with assms(2) show ?thesis
    by (cases "sr_entity_type record = DELIVERY_ENTITY_TYPE") (auto dest: delivery_own_effect own_other)
qed (use assms(2) in auto)

text \<open>Storing an entity keeps the pairing: one of another type, or a live delivery with its ownership row.\<close>

lemma paired_commit:
  assumes pair: "deliveries_paired db" and ents: "sync_entities db' = put_row entity_key row (sync_entities db)"
    and child: "canonical_project_children db' = canonical_project_children db"
    and row: "se_entity_type row = DELIVERY_ENTITY_TYPE \<longrightarrow> se_deleted_at row = None
      \<and> get_project_child db (se_organization_id row) DELIVERY_ENTITY_TYPE (se_entity_id row) \<noteq> None"
  shows "deliveries_paired db'"
proof -
  have "get_project_child db' = get_project_child db" using child by (simp add: get_project_child_def fun_eq_iff)
  moreover have "get_entity db org DELIVERY_ENTITY_TYPE k \<noteq> None \<Longrightarrow> get_entity db' org DELIVERY_ENTITY_TYPE k \<noteq> None" for org k
    by (simp add: get_entity_def ents get_row_put_row)
  ultimately show ?thesis
    using pair row unfolding deliveries_paired_def ents child by (auto dest!: set_put_row)
qed

text \<open>A new ownership row and its entity arrive together.\<close>

lemma paired_new_delivery:
  assumes pair: "deliveries_paired db" and ents: "sync_entities db' = put_row entity_key row (sync_entities db)"
    and child: "canonical_project_children db' = put_row project_child_key c (canonical_project_children db)"
    and row: "se_entity_type row = DELIVERY_ENTITY_TYPE" "se_deleted_at row = None" "pc_entity_type c = DELIVERY_ENTITY_TYPE"
      "pc_deleted_at c = None" "pc_organization_id c = se_organization_id row" "pc_entity_id c = se_entity_id row"
  shows "deliveries_paired db'"
proof -
  have child': "get_project_child db' org t k = (if org = pc_organization_id c \<and> t = pc_entity_type c \<and> k = pc_entity_id c
      then Some c else get_project_child db org t k)" for org t k
    by (auto simp: get_project_child_def child get_row_put_row project_child_key_def)
  have ent': "get_entity db' org t k = (if org = se_organization_id row \<and> t = se_entity_type row \<and> k = se_entity_id row
      then Some row else get_entity db org t k)" for org t k
    by (auto simp: get_entity_def ents get_row_put_row entity_key_def)
  show ?thesis
    using pair row unfolding deliveries_paired_def ents child by (auto simp: child' ent' dest!: set_put_row)
qed

lemma paired_accepted:
  assumes "try_mutation env db p scope record current = (db1, scope', Inr payload)"
    "commit_record env db1 p batch record k current payload = (db', rv)"
    and current: "current = get_entity db (organization_id p) (sr_entity_type record) (sr_entity_id record)"
    and pair: "deliveries_paired db"
  shows "deliveries_paired db'"
proof -
  let ?row = "committed_row db1 p record payload"
  from assms(1) obtain db0 where own: "authorize_and_own env db p scope record current payload = (db0, scope', Inr ())"
    and db1: "db1 = queue_evidence_gc env db0 p record" by (cases rule: try_mutationE) auto
  note frame = try_mutation_frame [OF assms(1)]
  have current1: "current = get_entity db1 (organization_id p) (sr_entity_type record) (sr_entity_id record)"
    using current sync_frame_gets(1) [OF frame] by simp
  have ents1: "sync_entities db1 = sync_entities db" using frame by (simp add: sync_frame_def)
  have ents0: "sync_entities db0 = sync_entities db"
    using own_steps_frame [OF authorize_and_own_steps [OF own]] by (simp add: sync_frame_def)
  have ents: "sync_entities db' = put_row entity_key ?row (sync_entities db)"
    using commit_record_effects(3) [OF assms(2) current1] ents1 by simp
  have child: "canonical_project_children db' = canonical_project_children db0"
    using gc_tables [of env db0 p "record"] commit_children [OF assms(2)] by (simp add: db1)
  have row: "se_organization_id ?row = organization_id p" "se_entity_type ?row = sr_entity_type record"
    "se_entity_id ?row = sr_entity_id record" "se_deleted_at ?row = sr_deleted_at record"
    by (simp_all add: committed_row_def new_entity_def)
  show ?thesis
  proof (cases "sr_entity_type record = DELIVERY_ENTITY_TYPE")
    case True
    from delivery_own_effect [OF own True] consider
      (kept) "db0 = db" "sr_deleted_at record = None" "get_project_child db (organization_id p) DELIVERY_ENTITY_TYPE (sr_entity_id record) \<noteq> None"
      | (new) project where "sr_deleted_at record = None" "db0 = db\<lparr>canonical_project_children := put_row project_child_key
         \<lparr>pc_organization_id = organization_id p, pc_entity_type = DELIVERY_ENTITY_TYPE, pc_entity_id = sr_entity_id record,
          pc_project_id = project, pc_deleted_at = None\<rparr> (canonical_project_children db)\<rparr>" by auto
    then show ?thesis
    proof cases
      case kept
      then show ?thesis using paired_commit [OF pair ents] child row by simp
    next
      case new
      let ?c = "\<lparr>pc_organization_id = organization_id p, pc_entity_type = DELIVERY_ENTITY_TYPE, pc_entity_id = sr_entity_id record,
          pc_project_id = project, pc_deleted_at = None\<rparr>"
      from new have "canonical_project_children db' = put_row project_child_key ?c (canonical_project_children db)" by (simp add: child)
      from paired_new_delivery [OF pair ents this] show ?thesis using new True by (simp add: row)
    qed
  next
    case False
    have "deliveries_paired db0" by (rule own_other [OF own False pair])
    from paired_commit [OF this ents [folded ents0] child] show ?thesis using False by (simp add: row)
  qed
qed

interpretation paired: record_relation "\<lambda>_ db db'. deliveries_paired db \<longrightarrow> deliveries_paired db'"
proof unfold_locales
  show "deliveries_paired db \<longrightarrow> deliveries_paired (rollback db db')" for db db'
    using paired_same [of "rollback db db'" db] by (simp add: rollback_def)
  show "deliveries_paired db \<longrightarrow> deliveries_paired db'" if "push_record env db p scope batch rec = (db', scope', r)"
    for env db p scope batch rec db' scope' r
  proof
    assume pair: "deliveries_paired db"
    from that show "deliveries_paired db'"
    proof (cases rule: push_recordE)
      case (stale k rv ev)
      then show ?thesis using pair paired_same [OF mutation_tables] by blast
    next
      case (rejected k rv ev e db1 current)
      then show ?thesis using paired_refused [OF _ pair] paired_same [OF mutation_tables] by blast
    next
      case (accepted k rv ev db1 current payload)
      then show ?thesis using paired_accepted pair by blast
    next
      case (raised e current)
      then show ?thesis using paired_refused [OF _ pair] by blast
    qed (use pair in simp)
  qed
qed auto

lemma pushes_paired: "pushes db db' \<Longrightarrow> deliveries_paired db \<Longrightarrow> deliveries_paired db'"
proof (induction rule: pushes.induct)
  case (push db db1 abort env p batch db2 retried r)
  then show ?case using paired.rel_push [OF push.hyps(2)] by blast
qed

section \<open>Preflight\<close>

lemma database_answers_ok: "database_answers pf = ok () \<longleftrightarrow> (\<forall>i < 8. pf_database_failure pf i = None)"
proof -
  have "List.map_filter (pf_database_failure pf) [0..<8] = [] \<longleftrightarrow> (\<forall>i < 8. pf_database_failure pf i = None)"
    by (auto simp: List.map_filter_def filter_empty_conv)
  then show ?thesis unfolding database_answers_def list.case_eq_if by simp
qed

definition snapshot_taken :: "settings \<Rightarrow> provider_facts \<Rightarrow> string \<Rightarrow> bool" where
  "snapshot_taken st pf head \<longleftrightarrow> st_evidence_storage_provider st = ''s3'' \<and> (\<forall>i < 8. pf_database_failure pf i = None)
     \<and> pf_expected_head pf = ok head"

lemma collect_snapshot_ok: "(\<exists>s. collect_snapshot st pf db = ok s) \<longleftrightarrow> (\<exists>head. snapshot_taken st pf head)"
proof (cases "database_answers pf")
  case (Inl e)
  then have "database_answers pf \<noteq> ok ()" by simp
  with Inl show ?thesis unfolding database_answers_ok by (auto simp: snapshot_taken_def collect_snapshot_def)
next
  case (Inr u)
  then have "\<forall>i < 8. pf_database_failure pf i = None" using database_answers_ok [of pf] by simp
  with Inr show ?thesis by (cases "pf_expected_head pf") (auto simp: snapshot_taken_def collect_snapshot_def)
qed

text \<open>
  C27. The preflight judges the provider, not the data. On every database reached by pushes from one
  whose deliveries are paired (an empty one is), its exit code is 2 exactly when it could take no snapshot: the
  evidence provider is not S3, connecting or one of the seven queries raised, or the repository's
  head could not be read. Otherwise the four counts of half-canonical or tombstoned deliveries are zero, and the exit
  code is 0 exactly when the schema is at the head, the pool budget lies below the connection limit (or there
  is no pool) and the bucket answers; it is 1 in every other case.
\<close>

theorem preflight_exact:
  assumes "pushes db db'" "deliveries_paired db"
  shows "(fst (preflight_run st pf db') = 2 \<longleftrightarrow> (\<nexists>head. snapshot_taken st pf head))
    \<and> (\<forall>head. snapshot_taken st pf head \<longrightarrow>
        (\<exists>s. collect_snapshot st pf db' = ok s \<and> ps_orphan_payload_rows s = 0 \<and> ps_orphan_ownership_rows s = 0
          \<and> ps_tombstoned_payload_rows s = 0 \<and> ps_tombstoned_ownership_rows s = 0)
        \<and> fst (preflight_run st pf db') =
           (if pf_database_revision pf = Some head
               \<and> (st_database_null_pool st \<or> st_database_pool_size st + st_database_max_overflow st < pf_max_connections pf)
               \<and> probe_storage (pf_storage pf) = ok () then 0 else 1))"
proof -
  have "deliveries_paired db'" using assms(1,2) by (rule pushes_paired)
  then have zero: "count_rows (\<lambda>e. se_entity_type e = ''delivery_execution''
        \<and> get_project_child db' (se_organization_id e) ''delivery_execution'' (se_entity_id e) = None) (sync_entities db') = 0"
    "count_rows (\<lambda>c. pc_entity_type c = ''delivery_execution''
        \<and> get_entity db' (pc_organization_id c) ''delivery_execution'' (pc_entity_id c) = None) (canonical_project_children db') = 0"
    "count_rows (\<lambda>e. se_entity_type e = ''delivery_execution'' \<and> se_deleted_at e \<noteq> None) (sync_entities db') = 0"
    "count_rows (\<lambda>c. pc_entity_type c = ''delivery_execution'' \<and> pc_deleted_at c \<noteq> None) (canonical_project_children db') = 0"
    by (auto simp: deliveries_paired_def DELIVERY_ENTITY_TYPE_def count_rows_def filter_empty_conv)
  have two: "fst (preflight_run st pf db') = 2 \<longleftrightarrow> (\<nexists>s. collect_snapshot st pf db' = ok s)"
    by (auto simp: preflight_run_def split: sum.split)
  have taken: "(\<exists>s. collect_snapshot st pf db' = ok s \<and> ps_orphan_payload_rows s = 0 \<and> ps_orphan_ownership_rows s = 0
          \<and> ps_tombstoned_payload_rows s = 0 \<and> ps_tombstoned_ownership_rows s = 0)
        \<and> fst (preflight_run st pf db') =
           (if pf_database_revision pf = Some head
               \<and> (st_database_null_pool st \<or> st_database_pool_size st + st_database_max_overflow st < pf_max_connections pf)
               \<and> probe_storage (pf_storage pf) = ok () then 0 else 1)" if "snapshot_taken st pf head" for head
  proof -
    have "database_answers pf = ok ()" unfolding database_answers_ok using that by (simp add: snapshot_taken_def)
    with that zero show ?thesis
      by (auto simp: snapshot_taken_def collect_snapshot_def preflight_run_def evaluate_def split: sum.split)
  qed
  show ?thesis using taken unfolding two collect_snapshot_ok by blast
qed

definition demo_facts :: provider_facts where
  "demo_facts = \<lparr>pf_database_failure = (\<lambda>_. None), pf_database_revision = Some ''0007'', pf_expected_head = ok ''0007'',
     pf_max_connections = 100, pf_current_connections = 3, pf_storage = S3Probe (ok ())\<rparr>"

theorem preflight_exact_witness:
  "fst (preflight_run (default_settings\<lparr>st_evidence_storage_provider := ''s3''\<rparr>) demo_facts demo_pushed_db) = 0
   \<and> fst (preflight_run (default_settings\<lparr>st_evidence_storage_provider := ''s3''\<rparr>)
        (demo_facts\<lparr>pf_database_failure := (\<lambda>i. if i = 0 then Some (DBAPIError None) else None)\<rparr>) demo_pushed_db) = 2"
proof -
  have pair: "deliveries_paired demo_push_db" by (simp add: deliveries_paired_def demo_push_db_def empty_db_def)
  let ?st = "default_settings\<lparr>st_evidence_storage_provider := ''s3''\<rparr>"
  let ?down = "demo_facts\<lparr>pf_database_failure := (\<lambda>i. if i = 0 then Some (DBAPIError None) else None)\<rparr>"
  have "snapshot_taken ?st demo_facts ''0007''" "\<not> snapshot_taken ?st ?down head" for head
    by (auto simp: snapshot_taken_def demo_facts_def intro: exI [of _ 0])
  then show ?thesis
    using preflight_exact [OF demo_pushes pair, of ?st demo_facts] preflight_exact [OF demo_pushes pair, of ?st ?down]
    by (simp add: default_settings_def demo_facts_def probe_storage_def)
qed

section \<open>Baseline backfill\<close>

lemma extends_row: "extends db db' \<Longrightarrow> get_publication_row db org k \<noteq> None \<Longrightarrow> get_publication_row db' org k \<noteq> None"
  by (auto simp: extends_def get_publication_row_def get_row_append split: option.split)

lemma extends_missing: "extends db db' \<Longrightarrow> missing_baselines db org = [] \<Longrightarrow> missing_baselines db' org = []"
  by (simp add: missing_baselines_def filter_empty_conv extends_row)

lemma insert_present:
  assumes "insert_publication env db org request by = (db', Inr m)"
  shows "get_publication_row db' org (rc_publication_id request) \<noteq> None"
proof (cases "get_publication_row db org (rc_publication_id request)")
  case None
  then have "reference_publications db' = reference_publications db @ [new_publication env org request by]"
    using assms by (auto simp: insert_publication_def Let_def split: sum.splits if_splits)
  then show ?thesis
    by (simp add: get_publication_row_def get_row_append publication_key_def new_publication_def split: option.split)
next
  case (Some r)
  with append_only.rel_insert [OF assms] show ?thesis by (auto dest: extends_row)
qed

lemma seed_present:
  "seed_requests env org requests created db = (db', Inr c) \<Longrightarrow> r \<in> set requests \<Longrightarrow>
    get_publication_row db' org (rc_publication_id r) \<noteq> None"
proof (induction requests arbitrary: created db)
  case (Cons request requests)
  obtain db1 q where q: "insert_publication env db org request ''system:baseline'' = (db1, q)" by fastforce
  consider (there) x where "get_publication_row db org (rc_publication_id request) = Some x" "seed_requests env org requests created db = (db', Inr c)"
    | (new) m where "q = Inr m" "seed_requests env org requests True db1 = (db', Inr c)"
    using Cons.prems(1) q by (auto split: option.splits sum.splits)
  then show ?case
  proof cases
    case there
    show ?thesis
    proof (cases "r = request")
      case True
      with there extends_row [OF append_only.rel_requests [OF there(2)]] show ?thesis by simp
    qed (use Cons.IH [OF there(2)] Cons.prems(2) in simp)
  next
    case new
    show ?thesis
    proof (cases "r = request")
      case True
      with new q insert_present extends_row [OF append_only.rel_requests [OF new(2)]] show ?thesis by blast
    qed (use Cons.IH [OF new(2)] Cons.prems(2) in simp)
  qed
qed simp

lemma ensure_complete:
  "ensure_from races env org n db = (db', Inr u) \<Longrightarrow> n \<le> BASELINE_SEED_ATTEMPTS \<Longrightarrow> missing_baselines db' org = []"
proof (induction races env org n db rule: ensure_from.induct)
  case (1 races env org n db)
  show ?case
  proof (cases "races n")
    case None
    then obtain c where "seed_baseline_publications env org db = (db', Inr c)"
      using 1(2,3) by (auto simp: ensure_from.simps [of races env org n db] split: prod.splits sum.splits)
    then show ?thesis
      by (auto simp: missing_baselines_def filter_empty_conv seed_baseline_publications_def dest: seed_present)
  next
    case (Some winner)
    with 1(2,3) have "n \<noteq> BASELINE_SEED_ATTEMPTS" by (auto simp: ensure_from.simps [of races env org n db] Let_def)
    with 1 Some show ?thesis by (simp add: ensure_from.simps [of races env org n db] Let_def)
  qed
qed

lemma backfill_loop_complete:
  "backfill_loop races env True orgs missing n db = (db', Inr r) \<Longrightarrow>
    extends db db' \<and> (\<forall>org \<in> set orgs. missing_baselines db' org = [])"
proof (induction orgs arbitrary: missing n db)
  case (Cons org orgs)
  obtain db1 q where q: "ensure_baseline_publications (races org) env org db = (db1, q)" by fastforce
  show ?case
  proof (cases "missing_baselines db org = []")
    case True
    with Cons.prems have "backfill_loop races env True orgs missing n db = (db', Inr r)" by (simp add: Let_def)
    from Cons.IH [OF this] True extends_missing show ?thesis by auto
  next
    case False
    with Cons.prems q obtain u where u: "q = Inr u"
      and rest: "backfill_loop races env True orgs (missing @ [(org, missing_baselines db org)]) (n + length (missing_baselines db org)) db1 = (db', Inr r)"
      by (cases q) (auto simp: Let_def)
    have "missing_baselines db1 org = []"
      using q u ensure_complete [of "races org" env org 1 db db1 u]
      by (simp add: ensure_baseline_publications_def BASELINE_SEED_ATTEMPTS_def)
    with Cons.IH [OF rest] append_only.rel_ensure [OF q] extends_missing append_only.rel_trans show ?thesis by auto
  qed
qed (simp add: append_only.rel_refl)

lemma backfill_loop_dry:
  "backfill_loop races env False orgs missing n db
    = (db, Inr (missing @ map (\<lambda>org. (org, missing_baselines db org)) (filter (\<lambda>org. missing_baselines db org \<noteq> []) orgs), n))"
  by (induction orgs arbitrary: missing) (simp_all add: Let_def)

lemma backfill_loop_complete_noop:
  "\<forall>org \<in> set orgs. missing_baselines db org = [] \<Longrightarrow> backfill_loop races env execute orgs missing n db = (db, Inr (missing, n))"
  by (induction orgs) (simp_all add: Let_def)

text \<open>
  An organization that has published nothing of its own takes every baseline: no version is owned
  and the only predecessor named is the catalog seeded just before.
\<close>

definition unpublished :: "db \<Rightarrow> string \<Rightarrow> bool" where
  "unpublished db org \<longleftrightarrow> (\<forall>r \<in> set (reference_publications db). rp_organization_id r \<noteq> org)"

lemma unpublished_row: "unpublished db org \<Longrightarrow> get_row publication_key (org, k) (reference_publications db) = None"
  by (auto simp: unpublished_def publication_key_def get_row_None)

lemma unpublished_version:
  "unpublished db org \<Longrightarrow>
    \<not> list_ex (\<lambda>r. rp_organization_id r = org \<and> P r) (reference_publications db)"
  by (auto simp: unpublished_def list_ex_iff)

lemma new_publication_fields:
  "rp_organization_id (new_publication env org q by) = org"
  "rp_kind (new_publication env org q by) = rc_kind q"
  "rp_version_id (new_publication env org q by) = rc_version_id q"
  "publication_key (new_publication env org q by) = (org, rc_publication_id q)"
  by (simp_all add: new_publication_def publication_key_def)

lemma baseline_ids:
  "map rc_publication_id BASELINE_PUBLICATIONS
    = [''catalog-bundled-v1'', ''catalog-bundled-v2'', ''compatibility-rules-bundled-v1'', ''price-book-unconfigured-v1'']"
  "map rc_kind BASELINE_PUBLICATIONS = [''catalog'', ''catalog'', ''compatibility_rules'', ''price_book'']"
  "map rc_version_id BASELINE_PUBLICATIONS
    = [''configurator-catalog-v1'', ''configurator-catalog-v2'', ''configurator-rules-v1'', ''price-book-unconfigured-v1'']"
  "map rc_supersedes BASELINE_PUBLICATIONS = [None, Some ''catalog-bundled-v1'', None, None]"
  "map rc_effective_until BASELINE_PUBLICATIONS = [None, None, None, None]"
  by (simp_all add: BASELINE_PUBLICATIONS_def BASELINE_CATALOG_def BASELINE_CATALOG_V2_def BASELINE_RULES_def BASELINE_PRICE_BOOK_def)

lemma seed_unpublished:
  assumes "unpublished db org"
  shows "seed_baseline_publications env org db
      = (db\<lparr>reference_publications := reference_publications db
           @ map (\<lambda>q. new_publication env org q ''system:baseline'') BASELINE_PUBLICATIONS\<rparr>, Inr True)"
  using baseline_ids [unfolded BASELINE_PUBLICATIONS_def]
  by (simp add: seed_baseline_publications_def BASELINE_PUBLICATIONS_def insert_publication_def Let_def
      get_publication_row_def get_row_append new_publication_fields version_owner_def check_predecessor_def
      unpublished_row [OF assms] unpublished_version [OF assms])

lemma seed_complete:
  assumes "missing_baselines db org = []"
  shows "seed_baseline_publications env org db = (db, Inr False)"
proof -
  have "\<forall>q \<in> set requests. get_publication_row db org (rc_publication_id q) \<noteq> None \<Longrightarrow>
      seed_requests env org requests False db = (db, Inr False)" for requests
    by (induction requests) auto
  with assms show ?thesis by (simp add: seed_baseline_publications_def missing_baselines_def filter_empty_conv)
qed

lemma ensure_unpublished:
  assumes new: "unpublished db org" and free: "races 1 = None \<or> races 2 = None"
  shows "\<exists>rows. ensure_baseline_publications races env org db
      = (db\<lparr>reference_publications := reference_publications db @ rows\<rparr>, Inr ()) \<and> (\<forall>r \<in> set rows. rp_organization_id r = org)"
proof -
  define grown where "grown e = db\<lparr>reference_publications := reference_publications db
      @ map (\<lambda>q. new_publication e org q ''system:baseline'') BASELINE_PUBLICATIONS\<rparr>" for e
  have "seed_baseline_publications e org db = (grown e, Inr True)" for e
    unfolding grown_def by (rule seed_unpublished [OF new])
  moreover from this have "missing_baselines (grown e) org = []" for e
    by (auto simp: missing_baselines_def filter_empty_conv seed_baseline_publications_def dest: seed_present)
  then have "seed_baseline_publications e' org (grown e) = (grown e, Inr False)" for e e'
    by (rule seed_complete)
  ultimately have "\<exists>e. ensure_baseline_publications races env org db = (grown e, Inr ())"
    using free by (cases "races 1") (auto simp: ensure_baseline_publications_def BASELINE_SEED_ATTEMPTS_def
        ensure_from.simps [of races env org "Suc 0"] ensure_from.simps [of races env org "Suc (Suc 0)"] numeral_2_eq_2)
  then obtain e where "ensure_baseline_publications races env org db = (grown e, Inr ())" by blast
  then show ?thesis
    unfolding grown_def
    by (intro exI [of _ "map (\<lambda>q. new_publication e org q ''system:baseline'') BASELINE_PUBLICATIONS"])
      (simp add: new_publication_fields)
qed

lemma backfill_loop_returns:
  assumes "\<forall>org \<in> set orgs. races org 1 = None \<or> races org 2 = None"
  shows "distinct orgs \<Longrightarrow> \<forall>org \<in> set orgs. unpublished db org \<or> missing_baselines db org = [] \<Longrightarrow>
    \<exists>db' r. backfill_loop races env True orgs missing n db = (db', Inr r)"
  using assms
proof (induction orgs arbitrary: missing n db)
  case (Cons org orgs)
  show ?case
  proof (cases "missing_baselines db org = []")
    case True
    with Cons show ?thesis by simp
  next
    case False
    with Cons.prems(2) have new: "unpublished db org" by simp
    from Cons.prems(3) have "races org 1 = None \<or> races org 2 = None" by simp
    from ensure_unpublished [OF new this, of env] obtain rows where
      rows: "ensure_baseline_publications (races org) env org db
          = (db\<lparr>reference_publications := reference_publications db @ rows\<rparr>, Inr ())"
        "\<forall>r \<in> set rows. rp_organization_id r = org" by blast
    let ?db = "db\<lparr>reference_publications := reference_publications db @ rows\<rparr>"
    have "extends db ?db" by (auto simp: extends_def)
    then have "\<forall>o' \<in> set orgs. unpublished ?db o' \<or> missing_baselines ?db o' = []"
      using Cons.prems(1,2) rows(2) extends_missing by (auto simp: unpublished_def)
    with Cons.IH [of ?db] Cons.prems(1,3) False rows(1) show ?thesis by (simp add: Let_def)
  qed
qed simp

lemma backfill_extends:
  assumes "backfill_run races env True db = (db', ok code)"
  shows "code = 0 \<and> extends db db' \<and> (\<forall>org \<in> org_id ` set (organizations db). missing_baselines db' org = [])"
proof -
  obtain missing n where loop: "backfill_loop races env True (sort (map org_id (organizations db))) [] 0 db = (db', Inr (missing, n))"
    using assms by (auto simp: backfill_run_def backfill_def ebind_def Let_def split: prod.splits sum.splits)
  from backfill_loop_complete [OF loop] have complete: "extends db db'" "\<forall>org \<in> org_id ` set (organizations db). missing_baselines db' org = []"
    by auto
  moreover from assms loop complete(2) have "code = 0"
    by (auto simp: backfill_run_def backfill_def ebind_def Let_def filter_empty_conv split: if_splits)
  ultimately show ?thesis by blast
qed

lemma backfill_noop:
  "\<forall>org \<in> org_id ` set (organizations db). missing_baselines db org = [] \<Longrightarrow> backfill_run races env execute db = (db, ok 0)"
  by (simp add: backfill_run_def backfill_def backfill_loop_complete_noop ebind_def Let_def filter_empty_conv)

lemma backfill_returns:
  assumes "distinct (map org_id (organizations db))"
    "\<forall>org \<in> org_id ` set (organizations db). unpublished db org \<or> missing_baselines db org = []"
    "\<forall>org \<in> org_id ` set (organizations db). races org 1 = None \<or> races org 2 = None"
  shows "\<exists>db'. backfill_run races env True db = (db', ok 0)"
proof -
  obtain db' r where "backfill_loop races env True (sort (map org_id (organizations db))) [] 0 db = (db', Inr r)"
    using backfill_loop_returns [of "sort (map org_id (organizations db))" races db env "[]" 0] assms by auto
  then have "\<exists>db' code. backfill_run races env True db = (db', ok code)"
    by (cases r) (simp add: backfill_run_def backfill_def ebind_def Let_def)
  with backfill_extends show ?thesis by blast
qed

text \<open>
  C26. The backfill of baselines is complete, safe and idempotent. A dry run changes nothing and
  exits with 0 exactly when every organization has every baseline. A run that returns, whatever concurrent seeders
  it met, has only added publications, leaves every organization complete, exits with 0, and a
  further run adds nothing. And a run does return when every organization either is complete or has
  published nothing yet and loses the seeding race at most once.
\<close>

theorem backfill_completes:
  "backfill_run races env False db = (db, ok (if \<forall>org \<in> org_id ` set (organizations db). missing_baselines db org = [] then 0 else 1))
    \<and> (\<forall>db' code. backfill_run races env True db = (db', ok code) \<longrightarrow>
      code = 0 \<and> extends db db' \<and> (\<forall>org \<in> org_id ` set (organizations db). missing_baselines db' org = [])
      \<and> (\<forall>races' env'. backfill_run races' env' True db' = (db', ok 0)))
    \<and> (distinct (map org_id (organizations db))
      \<and> (\<forall>org \<in> org_id ` set (organizations db). unpublished db org \<or> missing_baselines db org = [])
      \<and> (\<forall>org \<in> org_id ` set (organizations db). races org 1 = None \<or> races org 2 = None)
      \<longrightarrow> (\<exists>db'. backfill_run races env True db = (db', ok 0)))"
proof (intro conjI allI impI)
  show "backfill_run races env False db = (db, ok (if \<forall>org \<in> org_id ` set (organizations db). missing_baselines db org = [] then 0 else 1))"
    by (auto simp: backfill_run_def backfill_def backfill_loop_dry ebind_def Let_def filter_empty_conv)
next
  fix db' code races' env'
  assume run: "backfill_run races env True db = (db', ok code)"
  note done_ = backfill_extends [OF run]
  from done_ show "code = 0" "extends db db'" "\<forall>org \<in> org_id ` set (organizations db). missing_baselines db' org = []" by blast+
  from done_ have "organizations db' = organizations db" by (auto simp: extends_def)
  with done_ backfill_noop [of db' races' env' True] show "backfill_run races' env' True db' = (db', ok 0)" by simp
qed (use backfill_returns in blast)

text \<open>Two organizations without publications, one of which meets a concurrent seeder.\<close>

definition demo_orgs_db :: db where
  "demo_orgs_db = empty_db\<lparr>organizations := [\<lparr>org_id = ''B'', org_name = ''Beta'', org_authorization_revision = 1\<rparr>, \<lparr>org_id = ''A'', org_name = ''Alpha'', org_authorization_revision = 1\<rparr>]\<rparr>"

theorem backfill_completes_witness:
  "\<exists>env db'. backfill_run (\<lambda>org n. if org = ''A'' \<and> n = 1 then Some env else None) env True demo_orgs_db = (db', ok 0)
    \<and> missing_baselines db' ''A'' = [] \<and> missing_baselines db' ''B'' = []"
proof -
  fix env :: ref_env
  let ?races = "\<lambda>org n. if org = ''A'' \<and> n = (1::nat) then Some env else None"
  from backfill_completes [of ?races env demo_orgs_db]
  obtain db' where run: "backfill_run ?races env True demo_orgs_db = (db', ok 0)"
    by (auto simp: demo_orgs_db_def empty_db_def unpublished_def)
  with backfill_completes [of ?races env demo_orgs_db]
  have "missing_baselines db' ''A'' = []" "missing_baselines db' ''B'' = []"
    by (auto simp: demo_orgs_db_def)
  with run show ?thesis by blast
qed

section \<open>Bucket\<close>

text \<open>
  The bucket step succeeds exactly when the configuration is complete and the bucket was created
  or is already this account's; a name another account owns is never taken for success.
\<close>

lemma ensure_bucket_main_ok:
  "(\<exists>line. ensure_bucket_main env create = ok line) \<longleftrightarrow>
    (\<exists>bucket client. env ''S3_BUCKET'' = Some bucket \<and> bucket \<noteq> [] \<and> build_client env = ok client
      \<and> (create client bucket = ok () \<or> (\<exists>status. create client bucket = raise (ClientError status (Some ''BucketAlreadyOwnedByYou'')))))"
proof -
  have bucket: "(\<exists>w. ensure_bucket r = ok w) \<longleftrightarrow>
      r = ok () \<or> (\<exists>status. r = raise (ClientError status (Some ''BucketAlreadyOwnedByYou'')))" for r
  proof (cases "\<exists>status code. r = raise (ClientError status (Some code))")
    case True
    then show ?thesis by (auto simp: ensure_bucket_def ALREADY_PRESENT_def split: if_splits)
  next
    case False
    then show ?thesis by (cases r) (auto simp: ensure_bucket_def split: exn.split option.split)
  qed
  show ?thesis
  proof (cases "\<exists>bucket. env ''S3_BUCKET'' = Some bucket \<and> bucket \<noteq> []")
    case True
    then obtain b where b: "env ''S3_BUCKET'' = Some b" "b \<noteq> []" by blast
    show ?thesis
    proof (cases "build_client env")
      case (Inr client)
      have "(\<exists>line. ensure_bucket_main env create = ok line) \<longleftrightarrow> (\<exists>w. ensure_bucket (create client b) = ok w)"
        using b Inr by (auto simp: ensure_bucket_main_def ebind_def split: sum.split)
      with b Inr bucket show ?thesis by simp
    qed (use b in \<open>simp add: ensure_bucket_main_def ebind_def\<close>)
  qed (auto simp: ensure_bucket_main_def split: option.split)
qed

section \<open>Guarded prefixes\<close>

text \<open>The shipped route table passes the lint of the guarded prefixes.\<close>

lemma guard_prefixes_live: "check_guard_prefixes live_paths = 0"
  by code_simp

text \<open>Every route that takes a guessable credential is behind the limiter.\<close>

lemma guessable_routes_throttled:
  "(method, path, c) \<in> set routes \<Longrightarrow> c = AdminKey \<or> c = PairingCode \<Longrightarrow> path_is_throttled path"
proof -
  have "list_all (\<lambda>(method, path, c). c = AdminKey \<or> c = PairingCode \<longrightarrow> path_is_throttled path) routes"
    by code_simp
  then show "(method, path, c) \<in> set routes \<Longrightarrow> c = AdminKey \<or> c = PairingCode \<Longrightarrow> path_is_throttled path"
    by (auto simp: list_all_iff)
qed

end
