(* ===== verification/Py_Url.thy ===== *)
theory Py_Url
  imports Py_Text
begin

text \<open>
  Python's line and substring operations on \<open>str\<close> and the parts of \<open>urllib.parse.urlsplit\<close> the scripts read: scheme,
  network location and host name, with the check of a bracketed host (\<open>ipaddress\<close>). The normalization check
  of a network location can only fail on code points beyond 255.
\<close>

section \<open>Lines and substrings\<close>

definition line_break :: "char \<Rightarrow> bool" where
  "line_break c \<longleftrightarrow> (let n = (of_char c :: nat) in 10 \<le> n \<and> n \<le> 13 \<or> 28 \<le> n \<and> n \<le> 30 \<or> n = 133)"

text \<open>\<open>str.splitlines\<close>; a carriage return and the line feed after it are one break.\<close>

function splitlines :: "string \<Rightarrow> string list" where
  "splitlines s = (if s = [] then []
     else takeWhile (Not \<circ> line_break) s # (case dropWhile (Not \<circ> line_break) s of
       [] \<Rightarrow> []
     | c # rest \<Rightarrow> splitlines (if c = CHR 0x0D \<and> prefix [CHR 0x0A] rest then tl rest else rest)))"
  by pat_completeness auto
termination
proof (relation "measure length", goal_cases)
  case (2 s c rest)
  then have "length (c # rest) \<le> length s" by (metis length_dropWhile_le)
  then show ?case by (auto simp: less_Suc_eq_le intro: le_less_trans [OF _ Suc_le_lessD])
qed simp

declare splitlines.simps [simp del]

text \<open>\<open>s.split(sep, 1)\<close> and \<open>s.partition(sep)\<close>: what precedes and what follows the first occurrence.\<close>

fun split_once :: "string \<Rightarrow> string \<Rightarrow> (string \<times> string) option" where
  "split_once sep [] = (if sep = [] then Some ([], []) else None)"
| "split_once sep (c # cs) = (if prefix sep (c # cs) then Some ([], drop (length sep) (c # cs))
     else map_option (apfst (Cons c)) (split_once sep cs))"

text \<open>\<open>s.split(c)\<close> at every occurrence of a character.\<close>

fun split_on :: "char \<Rightarrow> string \<Rightarrow> string list" where
  "split_on sep [] = [[]]"
| "split_on sep (c # cs) = (if c = sep then [] # split_on sep cs
     else (c # hd (split_on sep cs)) # tl (split_on sep cs))"

definition contains :: "string \<Rightarrow> string \<Rightarrow> bool" where
  "contains sub s \<longleftrightarrow> split_once sub s \<noteq> None"

definition replace_once :: "string \<Rightarrow> string \<Rightarrow> string \<Rightarrow> string" where
  "replace_once old new s = (case split_once old s of None \<Rightarrow> s | Some (a, b) \<Rightarrow> a @ new @ b)"

definition strip_chars :: "char list \<Rightarrow> string \<Rightarrow> string" where
  "strip_chars cs s = rev (dropWhile (\<lambda>c. c \<in> set cs) (rev (dropWhile (\<lambda>c. c \<in> set cs) s)))"

definition rstrip_char :: "char \<Rightarrow> string \<Rightarrow> string" where
  "rstrip_char c s = rev (dropWhile (\<lambda>x. x = c) (rev s))"

text \<open>The part before the first \<open>c\<close>, and the part after it or nothing.\<close>

definition before_char :: "char \<Rightarrow> string \<Rightarrow> string" where
  "before_char c s = takeWhile (\<lambda>x. x \<noteq> c) s"

definition after_char :: "char \<Rightarrow> string \<Rightarrow> string" where
  "after_char c s = tl (dropWhile (\<lambda>x. x \<noteq> c) s)"

text \<open>\<open>s.rpartition(c)[2]\<close>: what follows the last \<open>c\<close>, or everything.\<close>

definition after_last :: "char \<Rightarrow> string \<Rightarrow> string" where
  "after_last c s = rev (takeWhile (\<lambda>x. x \<noteq> c) (rev s))"

lemma split_once_Some: "split_once sep s = Some (a, b) \<Longrightarrow> s = a @ sep @ b"
  by (induction sep s arbitrary: a b rule: split_once.induct)
    (auto simp: prefix_def split: if_splits)

lemma split_once_None: "split_once sep s = None \<longleftrightarrow> \<not> sublist sep s"
  by (induction sep s rule: split_once.induct) (auto simp: sublist_Cons_right)

lemma contains_iff: "contains sub s \<longleftrightarrow> sublist sub s"
  by (simp add: contains_def split_once_None)

lemma sort_key_Nil [simp]: "sort_key f xs = [] \<longleftrightarrow> xs = []"
  by (metis length_0_conv length_sort)

section \<open>Addresses\<close>

definition hex_char :: "char \<Rightarrow> bool" where
  "hex_char c \<longleftrightarrow> c \<in> set ''0123456789abcdefABCDEF''"

definition octet_ok :: "string \<Rightarrow> bool" where
  "octet_ok s \<longleftrightarrow> s \<noteq> [] \<and> list_all ascii_digit s \<and> length s \<le> 3 \<and> (s = ''0'' \<or> hd s \<noteq> CHR ''0'') \<and> parse_nat s \<le> 255"

definition ipv4_ok :: "string \<Rightarrow> bool" where
  "ipv4_ok s \<longleftrightarrow> length (split_on (CHR ''.'') s) = 4 \<and> list_all octet_ok (split_on (CHR ''.'') s)"

text \<open>
  The parts of an IPv6 address between its colons; an IPv4 suffix counts as two of them. \<open>gaps\<close> are
  the positions of empty parts that are not at an end, of which there is at most one.
\<close>

definition hextet_ok :: "string \<Rightarrow> bool" where
  "hextet_ok s \<longleftrightarrow> s \<noteq> [] \<and> list_all hex_char s \<and> length s \<le> 4"

definition ipv6_parts :: "string \<Rightarrow> string list option" where
  "ipv6_parts s = (let parts = split_on (CHR '':'') s in
     if length parts < 3 then None
     else if CHR ''.'' \<in> set (last parts) then
       (if ipv4_ok (last parts) then Some (butlast parts @ [''0'', ''0'']) else None)
     else Some parts)"

definition ipv6_parts_ok :: "string list \<Rightarrow> bool" where
  "ipv6_parts_ok parts \<longleftrightarrow>
    (let gaps = filter (\<lambda>i. parts ! i = []) [1..<length parts - 1] in
     length parts \<le> 9 \<and>
     (case gaps of
        [] \<Rightarrow> length parts = 8 \<and> list_all hextet_ok parts
      | [k] \<Rightarrow>
          let hi = take k parts; lo = drop (Suc k) parts;
              hi' = (if hd hi = [] then tl hi else hi); lo' = (if last lo = [] then butlast lo else lo)
          in (hd hi = [] \<longrightarrow> hi' = []) \<and> (last lo = [] \<longrightarrow> lo' = []) \<and> length hi' + length lo' < 8
             \<and> list_all hextet_ok hi' \<and> list_all hextet_ok lo'
      | _ \<Rightarrow> False))"

definition ipv6_ok :: "string \<Rightarrow> bool" where
  "ipv6_ok s \<longleftrightarrow> CHR ''/'' \<notin> set s
    \<and> (CHR ''%'' \<in> set s \<longrightarrow> after_char (CHR ''%'') s \<noteq> [] \<and> CHR ''%'' \<notin> set (after_char (CHR ''%'') s))
    \<and> (case ipv6_parts (before_char (CHR ''%'') s) of None \<Rightarrow> False | Some parts \<Rightarrow> ipv6_parts_ok parts)"

text \<open>A host in brackets is an IPv6 address or a future version \<open>v<hex>.<text>\<close>.\<close>

definition bracketed_host_ok :: "string \<Rightarrow> bool" where
  "bracketed_host_ok h \<longleftrightarrow>
    (if prefix ''v'' h
     then let version = takeWhile hex_char (tl h); rest = dropWhile hex_char (tl h)
          in version \<noteq> [] \<and> prefix ''.'' rest \<and> tl rest \<noteq> [] \<and> CHR 0x0A \<notin> set (tl rest)
     else ipv6_ok h)"

section \<open>URLs\<close>

record url =
  url_scheme :: string
  url_netloc :: string

definition scheme_char :: "char \<Rightarrow> bool" where
  "scheme_char c \<longleftrightarrow> (let n = (of_char c :: nat) in 65 \<le> n \<and> n \<le> 90 \<or> 97 \<le> n \<and> n \<le> 122 \<or> 48 \<le> n \<and> n \<le> 57 \<or> c \<in> set ''+-.'')"

definition ascii_alpha :: "char \<Rightarrow> bool" where
  "ascii_alpha c \<longleftrightarrow> (let n = (of_char c :: nat) in 65 \<le> n \<and> n \<le> 90 \<or> 97 \<le> n \<and> n \<le> 122)"

text \<open>Leading controls and blanks are dropped, tabs and line ends removed anywhere.\<close>

definition clean_url :: "string \<Rightarrow> string" where
  "clean_url s = filter (\<lambda>c. c \<notin> {CHR 0x09, CHR 0x0A, CHR 0x0D}) (dropWhile (\<lambda>c. (of_char c :: nat) \<le> 32) s)"

definition split_scheme :: "string \<Rightarrow> string \<times> string" where
  "split_scheme s = (let w = before_char (CHR '':'') s in
     if CHR '':'' \<in> set s \<and> w \<noteq> [] \<and> ascii_alpha (hd w) \<and> list_all scheme_char w
     then (py_lower w, after_char (CHR '':'') s) else ([], s))"

definition netloc_ok :: "string \<Rightarrow> bool" where
  "netloc_ok n \<longleftrightarrow>
    (if CHR ''['' \<in> set n \<and> CHR '']'' \<in> set n then
       (let info = after_last (CHR ''@'') n in
        if CHR ''['' \<in> set info then
          before_char (CHR ''['') info = []
          \<and> (let port = after_char (CHR '']'') (after_char (CHR ''['') info) in port = [] \<or> hd port = CHR '':'')
          \<and> bracketed_host_ok (before_char (CHR '']'') (after_char (CHR ''['') info))
        else bracketed_host_ok (before_char (CHR '':'') info))
     else CHR ''['' \<notin> set n \<and> CHR '']'' \<notin> set n)"

definition urlparse :: "string \<Rightarrow> url res" where
  "urlparse s = (let (scheme, rest) = split_scheme (clean_url s) in
     if prefix ''//'' rest then
       let netloc = takeWhile (\<lambda>c. c \<notin> {CHR ''/'', CHR ''?'', CHR ''#''}) (drop 2 rest)
       in if netloc_ok netloc then ok \<lparr>url_scheme = scheme, url_netloc = netloc\<rparr> else raise ValueError
     else ok \<lparr>url_scheme = scheme, url_netloc = []\<rparr>)"

text \<open>The \<open>hostname\<close> property: lower case up to a zone, \<open>None\<close> when it is empty.\<close>

definition hostname :: "url \<Rightarrow> string option" where
  "hostname u =
    (let info = after_last (CHR ''@'') (url_netloc u);
         h = (if CHR ''['' \<in> set info then before_char (CHR '']'') (after_char (CHR ''['') info) else before_char (CHR '':'') info)
     in if h = [] then None
        else Some (py_lower (before_char (CHR ''%'') h) @ dropWhile (\<lambda>x. x \<noteq> CHR ''%'') h))"

end
