(* ===== verification/Deployment.thy ===== *)
theory Deployment
  imports Operator_Tools Py_Url
begin

text \<open>
  Checks of a deployment under \<open>scripts\<close>: the environment file (\<open>validate_deployment.py\<close>), the
  runtime lock file (\<open>generate_runtime_lock.py\<close>), the branches left behind (\<open>audit_branch_staleness.py\<close>) and the canary object
  (\<open>probe_evidence_durability.py\<close>). What the file system, pip, git and the bucket answer is an argument.
\<close>

section \<open>Environment file\<close>

type_synonym env_values = "string \<rightharpoonup> string"

record deploy_args =
  da_production :: bool
  da_allow_localhost :: bool
  da_allow_mutable_images :: bool
  da_allow_insecure_permissions :: bool
  da_allow_insecure_s3 :: bool

text \<open>The file as the script finds it; \<open>ef_windows\<close> is \<open>os.name == "nt"\<close>.\<close>

record env_file =
  ef_is_file :: bool
  ef_windows :: bool
  ef_permissions :: nat
  ef_text :: string

definition PLACEHOLDER_PARTS :: "string list" where
  "PLACEHOLDER_PARTS = [''REPLACE_'', ''example.com'', ''changeme'', ''password'', ''minioadmin'']"

fun parse_env_lines :: "string list \<Rightarrow> env_values \<Rightarrow> env_values res" where
  "parse_env_lines [] vals = ok vals"
| "parse_env_lines (raw # lines) vals =
    (let line = py_strip raw in
     if line = [] \<or> prefix ''#'' line then parse_env_lines lines vals
     else case split_once ''='' line of
       None \<Rightarrow> raise ValueError
     | Some (key, v) \<Rightarrow> parse_env_lines lines
         (vals(py_strip key \<mapsto> strip_chars [CHR 0x27] (strip_chars [CHR 0x22] (py_strip v)))))"

definition parse_env :: "string \<Rightarrow> env_values res" where
  "parse_env text = parse_env_lines (splitlines text) Map.empty"

definition env_get :: "env_values \<Rightarrow> string \<Rightarrow> string" where
  "env_get vals key = (case vals key of None \<Rightarrow> [] | Some v \<Rightarrow> v)"

text \<open>\<open>require\<close>: the value and the error it appends.\<close>

definition require :: "env_values \<Rightarrow> string \<Rightarrow> string \<times> string list" where
  "require vals key = (let v = py_strip (env_get vals key) in (v, if v = [] then [key @ '' is required''] else []))"

definition looks_placeholder :: "string \<Rightarrow> bool" where
  "looks_placeholder v \<longleftrightarrow> list_ex (\<lambda>part. contains (py_lower part) (py_lower v)) PLACEHOLDER_PARTS"

definition host_from_database_url :: "string \<Rightarrow> string option" where
  "host_from_database_url v =
    (case urlparse (replace_once ''postgresql+asyncpg://'' ''postgresql://'' v) of
       Inl _ \<Rightarrow> None | Inr u \<Rightarrow> hostname u)"

definition hex64 :: "string \<Rightarrow> bool" where
  "hex64 s \<longleftrightarrow> length s = 64 \<and> list_all hex_char s"

definition report_if :: "bool \<Rightarrow> string \<Rightarrow> string list" where
  "report_if c message = (if c then [message] else [])"

definition host_errors :: "deploy_args \<Rightarrow> string \<Rightarrow> string list" where
  "host_errors args api_host =
     report_if (api_host \<noteq> [] \<and> \<not> da_allow_localhost args \<and> api_host \<in> set [''localhost'', ''127.0.0.1'', ''::1''])
       ''API_HOST must be a routable hostname outside smoke tests''
     @ report_if (api_host \<noteq> [] \<and> looks_placeholder api_host) ''API_HOST still contains a placeholder''"

definition image_errors :: "deploy_args \<Rightarrow> string \<Rightarrow> string \<Rightarrow> string list" where
  "image_errors args api_image caddy_image =
     (if api_image = [] then [] else
        report_if (looks_placeholder api_image) ''API_IMAGE still contains a placeholder''
        @ report_if (\<not> contains ''@sha256:'' api_image \<and> da_production args \<and> \<not> da_allow_mutable_images args)
            ''API_IMAGE must be pinned by sha256 digest'')
     @ (if caddy_image = [] then []
        else if da_production args \<and> \<not> contains ''@sha256:'' caddy_image \<and> \<not> da_allow_mutable_images args
        then [''CADDY_IMAGE must be pinned by sha256 digest'']
        else report_if (suffix '':latest'' caddy_image \<and> \<not> da_allow_mutable_images args) ''CADDY_IMAGE must not use :latest'')"

definition database_errors :: "deploy_args \<Rightarrow> string \<Rightarrow> string option \<Rightarrow> string list" where
  "database_errors args database_url db_host =
     report_if (database_url \<noteq> [] \<and> \<not> prefix ''postgresql+asyncpg://'' database_url) ''DATABASE_URL must use postgresql+asyncpg://''
     @ report_if (da_production args \<and> db_host \<in> set [None, Some ''localhost'', Some ''127.0.0.1'', Some ''postgres''])
         ''production DATABASE_URL must target external persistent PostgreSQL''
     @ report_if (database_url \<noteq> [] \<and> looks_placeholder database_url) ''DATABASE_URL still contains a placeholder''"

definition endpoint_errors :: "deploy_args \<Rightarrow> string \<Rightarrow> string list res" where
  "endpoint_errors args endpoint =
    ebind (if da_production args \<and> endpoint \<noteq> [] then
       ebind (urlparse endpoint) (\<lambda>parsed. ok
         (report_if (url_scheme parsed \<noteq> ''https'' \<and> \<not> da_allow_insecure_s3 args) ''production S3_ENDPOINT_URL must use https://''
          @ report_if (hostname parsed \<in> set [Some ''localhost'', Some ''127.0.0.1'', Some ''minio'', Some ''s3''])
              ''production S3 endpoint must be external persistent object storage''))
     else ok [])
    (\<lambda>errors. ok (errors @ report_if (endpoint \<noteq> [] \<and> looks_placeholder endpoint) ''S3_ENDPOINT_URL still contains a placeholder''))"

definition credential_errors :: "deploy_args \<Rightarrow> string \<Rightarrow> string \<Rightarrow> string list" where
  "credential_errors args key v =
     report_if (v \<noteq> [] \<and> looks_placeholder v) (key @ '' still contains a placeholder/default credential'')
     @ report_if (da_production args \<and> v \<noteq> [] \<and> length v < 16) (key @ '' is unexpectedly short'')"

definition acceptance_image_errors :: "deploy_args \<Rightarrow> env_values \<Rightarrow> string \<Rightarrow> string list" where
  "acceptance_image_errors args vals key = (let (image, missing) = require vals key in
     missing @ report_if (image \<noteq> [] \<and> suffix '':latest'' image \<and> \<not> da_allow_mutable_images args) (key @ '' must not use :latest''))"

definition acceptance_secret_errors :: "env_values \<Rightarrow> string \<Rightarrow> string list" where
  "acceptance_secret_errors vals key = (let (secret, missing) = require vals key in
     missing @ report_if (secret \<noteq> [] \<and> (length secret < 16 \<or> looks_placeholder secret))
       (key @ '' must be a non-default random value of at least 16 characters''))"

definition acceptance_errors :: "deploy_args \<Rightarrow> env_values \<Rightarrow> string \<Rightarrow> string option \<Rightarrow> string list" where
  "acceptance_errors args vals admin_hash db_host =
    (if da_production args then [] else
       concat (map (acceptance_image_errors args vals) [''POSTGRES_IMAGE'', ''S3_IMAGE''])
       @ concat (map (acceptance_secret_errors vals) [''POSTGRES_PASSWORD'', ''S3_ROOT_USER'', ''S3_ROOT_PASSWORD''])
       @ report_if (admin_hash = []) ''ADMIN_API_KEY_HASH is required for acceptance provisioning''
       @ report_if (db_host \<noteq> Some ''postgres'') ''acceptance DATABASE_URL must target the private postgres service'')"

definition mode_name :: "deploy_args \<Rightarrow> string" where
  "mode_name args = (if da_production args then ''production'' else ''acceptance'')"

definition or_none :: "string \<Rightarrow> json" where
  "or_none v = (if v = [] then JNull else JStr v)"

text \<open>The checks on the parsed values, in the order of the script.\<close>

definition value_errors :: "deploy_args \<Rightarrow> env_values \<Rightarrow> string list res" where
  "value_errors args vals =
    (let (api_host, e1) = require vals ''API_HOST''; (api_image, e2) = require vals ''API_IMAGE'';
         (caddy_image, e3) = require vals ''CADDY_IMAGE''; (service_version, e4) = require vals ''SERVICE_VERSION'';
         (database_url, e5) = require vals ''DATABASE_URL''; (s3_bucket, e6) = require vals ''S3_BUCKET'';
         (s3_access, e7) = (if da_production args then require vals ''S3_ACCESS_KEY_ID'' else (env_get vals ''S3_ACCESS_KEY_ID'', []));
         (s3_secret, e8) = (if da_production args then require vals ''S3_SECRET_ACCESS_KEY'' else (env_get vals ''S3_SECRET_ACCESS_KEY'', []));
         db_host = (if database_url \<noteq> [] then host_from_database_url database_url else None);
         admin_hash = py_strip (env_get vals ''ADMIN_API_KEY_HASH'')
     in ebind (endpoint_errors args (py_strip (env_get vals ''S3_ENDPOINT_URL''))) (\<lambda>endpoint. ok
       (e1 @ e2 @ e3 @ e4 @ e5 @ e6 @ e7 @ e8 @ host_errors args api_host @ image_errors args api_image caddy_image
        @ database_errors args database_url db_host @ endpoint
        @ credential_errors args ''S3_ACCESS_KEY_ID'' s3_access @ credential_errors args ''S3_SECRET_ACCESS_KEY'' s3_secret
        @ report_if (admin_hash \<noteq> [] \<and> \<not> hex64 admin_hash) ''ADMIN_API_KEY_HASH must be a 64-character SHA-256 hex digest''
        @ acceptance_errors args vals admin_hash db_host)))"

definition permission_errors :: "deploy_args \<Rightarrow> env_file \<Rightarrow> string list" where
  "permission_errors args f =
     report_if (\<not> ef_windows f \<and> \<not> da_allow_insecure_permissions args \<and> ef_permissions f mod 64 \<noteq> 0)
       ''env file must not be group/world readable; chmod 600''"

definition deployment_summary :: "deploy_args \<Rightarrow> env_values \<Rightarrow> string list \<Rightarrow> dict" where
  "deployment_summary args vals errors =
    (let database_url = fst (require vals ''DATABASE_URL'') in
     [(''mode'', JStr (mode_name args)), (''apiHost'', or_none (fst (require vals ''API_HOST''))),
      (''databaseHost'', opt_str (if database_url \<noteq> [] then host_from_database_url database_url else None)),
      (''s3BucketConfigured'', JBool (fst (require vals ''S3_BUCKET'') \<noteq> [])),
      (''adminProvisioningEnabled'', JBool (py_strip (env_get vals ''ADMIN_API_KEY_HASH'') \<noteq> [])),
      (''serviceVersion'', or_none (fst (require vals ''SERVICE_VERSION''))), (''validated'', JBool (errors = []))])"

definition validate_deployment :: "deploy_args \<Rightarrow> env_file \<Rightarrow> (string list \<times> dict) res" where
  "validate_deployment args f =
    (if \<not> ef_is_file f then ok ([''env file does not exist''], [(''mode'', JStr (mode_name args))])
     else ebind (parse_env (ef_text f)) (\<lambda>vals. ebind (value_errors args vals) (\<lambda>errors.
       let errors = permission_errors args f @ errors in ok (errors, deployment_summary args vals errors))))"

definition validate_deployment_main :: "deploy_args \<Rightarrow> env_file \<Rightarrow> int \<times> dict" where
  "validate_deployment_main args f = (case validate_deployment args f of
     Inl e \<Rightarrow> (2, [(''validated'', JBool False), (''errorType'', JStr (fault_name (Fault e)))])
   | Inr (errors, d) \<Rightarrow> if errors \<noteq> [] then (1, d @ [(''errors'', JList (map JStr errors))]) else (0, d))"

section \<open>Runtime lock\<close>

definition normalize :: "string \<Rightarrow> string" where
  "normalize name = map (\<lambda>c. if c = CHR ''_'' \<or> c = CHR ''.'' then CHR ''-'' else c) (py_lower (py_strip name))"

text \<open>\<open>uvicorn[standard]>=0.32,<1\<close> names \<open>uvicorn\<close>: the text before the first separator.\<close>

definition requirement_name :: "string \<Rightarrow> string" where
  "requirement_name requirement =
     normalize (foldl (\<lambda>h sep. before_char sep h) (py_strip (before_char (CHR '';'') requirement)) ''[><=!~ '')"

type_synonym pins = "(string \<times> string) list"

fun read_pins_lines :: "string list \<Rightarrow> pins \<Rightarrow> pins res" where
  "read_pins_lines [] pins = ok pins"
| "read_pins_lines (raw # lines) pins =
    (let line = py_strip raw in
     if line = [] \<or> prefix ''#'' line then read_pins_lines lines pins
     else case split_once ''=='' line of
       None \<Rightarrow> raise ValueError
     | Some (name, version) \<Rightarrow> read_pins_lines lines (put_row fst (normalize name, py_strip version) pins))"

definition read_pins :: "string \<Rightarrow> pins res" where
  "read_pins text = read_pins_lines (splitlines text) []"

definition FORBIDDEN :: "string list" where
  "FORBIDDEN = [''pytest'', ''pytest-asyncio'', ''pytest-cov'', ''httpx'', ''iniconfig'', ''pluggy'']"

definition PROJECT_NAME :: string where
  "PROJECT_NAME = ''vitrial-connected-operations-api''"

definition EXCLUDE :: "string list" where
  "EXCLUDE = [''pip'', ''setuptools'', ''wheel'', PROJECT_NAME]"

text \<open>What \<open>check\<close> reports, as data; the wording of each line is left out.\<close>

datatype lock_problem =
    LockMissing
  | UnpinnedEntry
  | NotInCombined string string
  | OtherVersion string string string
  | Undeclared string
  | Development string

definition pin_problems :: "pins \<Rightarrow> string \<times> string \<Rightarrow> lock_problem list" where
  "pin_problems combined pin = (case map_of combined (fst pin) of
     None \<Rightarrow> [NotInCombined (fst pin) (snd pin)]
   | Some locked \<Rightarrow> if locked \<noteq> snd pin then [OtherVersion (fst pin) (snd pin) locked] else [])"

definition lock_check :: "string option \<Rightarrow> string \<Rightarrow> string list \<Rightarrow> lock_problem list" where
  "lock_check runtime_lock combined_lock dependencies =
    (case runtime_lock of
       None \<Rightarrow> [LockMissing]
     | Some text \<Rightarrow>
        (case ebind (read_pins text) (\<lambda>runtime. ebind (read_pins combined_lock) (\<lambda>combined. ok (runtime, combined))) of
           Inl _ \<Rightarrow> [UnpinnedEntry]
         | Inr (runtime, combined) \<Rightarrow>
             concat (map (pin_problems combined) (sort_key fst runtime))
             @ map Undeclared (sort (remdups (filter (\<lambda>n. n \<notin> fst ` set runtime) (map requirement_name dependencies))))
             @ map Development (sort (filter (\<lambda>n. n \<in> fst ` set runtime) FORBIDDEN))))"

text \<open>Generation: the frozen lines of a clean environment, without the tools, in order of their names.\<close>

definition pin_name :: "string \<Rightarrow> string" where
  "pin_name line = (case split_once ''=='' line of None \<Rightarrow> normalize line | Some (name, version) \<Rightarrow> normalize name)"

definition resolve_runtime_closure :: "string \<Rightarrow> string list" where
  "resolve_runtime_closure frozen =
     sort_key pin_name (filter (\<lambda>line. contains ''=='' line \<and> pin_name line \<notin> set EXCLUDE) (map py_strip (splitlines frozen)))"

text \<open>The comment at the head of the file, line by line.\<close>

definition LOCK_HEADER_LINES :: "string list" where
  "LOCK_HEADER_LINES =
    [''# GENERATED FILE -- do not edit by hand.'',
     ''# Regenerate with:  python scripts/generate_runtime_lock.py'',
     ''# Verify (offline): python scripts/generate_runtime_lock.py --check'',
     ''#'',
     ''# The production image installs THIS file. Every version here is the version in'',
     ''# requirements-lock.txt, which is what CI tests -- the runtime closure is resolved with'',
     ''# that file as a pip constraints file, so resolution decides WHICH packages ship and the'',
     ''# combined lock decides WHICH VERSIONS. Dev-only packages (pytest, pytest-asyncio, httpx)'',
     ''# are absent because the runtime closure never pulls them in.'']"

definition LOCK_HEADER :: string where
  "LOCK_HEADER = concat (map (\<lambda>line. line @ [CHR 0x0A]) LOCK_HEADER_LINES)"

definition generate_lock :: "string \<Rightarrow> string" where
  "generate_lock frozen = LOCK_HEADER @ join [CHR 0x0A] (resolve_runtime_closure frozen) @ [CHR 0x0A]"

text \<open>The command: \<open>--check\<close> reads the files, otherwise the lock is written first and checked then.\<close>

definition lock_main :: "bool \<Rightarrow> string \<Rightarrow> string option \<Rightarrow> string \<Rightarrow> string list \<Rightarrow> string option \<times> int" where
  "lock_main check frozen runtime_lock combined_lock dependencies =
    (let lock = (if check then runtime_lock else Some (generate_lock frozen))
     in (lock, if lock_check lock combined_lock dependencies \<noteq> [] then 1 else 0))"

section \<open>Branches\<close>

text \<open>What git answers about a branch: the merge base, the touched files, whether the main branch has a file, with the same content, and the two dates.\<close>

record git_facts =
  gf_merge_base :: string
  gf_touched :: "string list"
  gf_exists :: "string \<Rightarrow> bool"
  gf_same :: "string \<Rightarrow> bool"
  gf_tip_date :: string
  gf_main_date :: string

datatype verdict = NoCommonAncestor | SafeDelete | StaleSnapshot | RealUnmerged

record branch_report =
  br_verdict :: verdict
  br_same_on_main :: "string list"
  br_differs :: "string list"
  br_absent_in_main :: "string list"
  br_content_main_lacks :: "string list"
  br_newer :: bool

definition branches :: "string \<Rightarrow> string list" where
  "branches out = sort (remdups (filter
     (\<lambda>line. line \<noteq> [] \<and> \<not> suffix ''/HEAD'' line \<and> \<not> contains ''/beam'' line \<and> (prefix ''origin/'' line \<or> prefix ''fork/'' line))
     (map py_strip (splitlines out))))"

definition classify :: "git_facts \<Rightarrow> branch_report" where
  "classify g =
    (if py_strip (gf_merge_base g) = []
     then \<lparr>br_verdict = NoCommonAncestor, br_same_on_main = [], br_differs = [], br_absent_in_main = [], br_content_main_lacks = [], br_newer = False\<rparr>
     else
       let touched = filter (\<lambda>f. py_strip f \<noteq> []) (gf_touched g);
           absent = filter (\<lambda>f. \<not> gf_exists g f) touched;
           behind = filter (\<lambda>f. gf_exists g f \<and> gf_same g f) touched;
           differs = filter (\<lambda>f. gf_exists g f \<and> \<not> gf_same g f) touched;
           newer = (gf_main_date g < gf_tip_date g);
           real_adds = (if newer then absent @ differs else absent)
       in \<lparr>br_verdict = (if real_adds = [] then SafeDelete else if newer then RealUnmerged else StaleSnapshot),
           br_same_on_main = behind, br_differs = differs, br_absent_in_main = absent, br_content_main_lacks = real_adds, br_newer = newer\<rparr>)"

definition audit_exit :: "branch_report list \<Rightarrow> int" where
  "audit_exit results = (if filter (\<lambda>r. br_verdict r = RealUnmerged) results \<noteq> [] then 1 else 0)"

section \<open>Canary\<close>

definition CANARY_KEY :: string where
  "CANARY_KEY = ''deployment-smoke/canary.bin''"

definition CANARY_BODY :: string where
  "CANARY_BODY = ''vitrial-deployment-durability-canary'' @ [CHR 0x0A]"

definition write_canary :: "(string \<rightharpoonup> string) \<Rightarrow> unit res \<Rightarrow> (string \<rightharpoonup> string) \<times> unit res" where
  "write_canary bucket put = (case put of Inl e \<Rightarrow> (bucket, raise e) | Inr _ \<Rightarrow> (bucket(CANARY_KEY \<mapsto> CANARY_BODY), ok ()))"

definition verify_canary :: "lib \<Rightarrow> (string \<rightharpoonup> string) \<Rightarrow> unit res" where
  "verify_canary lib bucket = (case bucket CANARY_KEY of
     None \<Rightarrow> raise SystemExit
   | Some stored \<Rightarrow> if sha256_hex lib stored \<noteq> sha256_hex lib CANARY_BODY then raise SystemExit else ok ())"

text \<open>The command; \<open>put\<close> is the answer of the bucket to the upload.\<close>

definition canary_main :: "lib \<Rightarrow> environ \<Rightarrow> bool \<Rightarrow> (string \<rightharpoonup> string) \<Rightarrow> unit res \<Rightarrow> (string \<rightharpoonup> string) \<times> unit res" where
  "canary_main lib env upload bucket put = (case env ''S3_BUCKET'' of
     None \<Rightarrow> (bucket, raise SystemExit)
   | Some b \<Rightarrow> if b = [] then (bucket, raise SystemExit)
       else case build_client env of
         Inl e \<Rightarrow> (bucket, raise e)
       | Inr _ \<Rightarrow> if upload then write_canary bucket put else (bucket, verify_canary lib bucket))"

end
