(* ===== verification/Deployment_Properties.thy ===== *)
theory Deployment_Properties
  imports Deployment
begin

text \<open>
  What the deployment checks promise: a validated environment file, a lock file that ships only what
  was tested, a verdict on branches, a canary that survives.
\<close>

section \<open>Lines\<close>

lemma splitlines_line:
  "\<forall>c \<in> set l. \<not> line_break c \<Longrightarrow> splitlines (l @ CHR 0x0A # rest) = l # splitlines rest"
  by (simp add: splitlines.simps [of "l @ _"] line_break_def takeWhile_append2 dropWhile_append2 comp_def)

lemma splitlines_lines:
  "\<forall>l \<in> set lines. \<forall>c \<in> set l. \<not> line_break c \<Longrightarrow>
    splitlines (concat (map (\<lambda>l. l @ [CHR 0x0A]) lines) @ rest) = lines @ splitlines rest"
  by (induction lines) (simp_all add: splitlines_line)

section \<open>Environment file\<close>

lemma report_if_Nil [simp]: "report_if c message = [] \<longleftrightarrow> \<not> c"
  by (simp add: report_if_def)

lemma validated_values:
  assumes "validate_deployment args f = ok ([], d)"
  shows "\<exists>vals. parse_env (ef_text f) = ok vals \<and> value_errors args vals = ok []
    \<and> permission_errors args f = [] \<and> ef_is_file f"
  using assms by (auto simp: validate_deployment_def res_simps Let_def split: if_splits)

text \<open>What an accepted set of values guarantees in production.\<close>

definition production_safe :: "env_values \<Rightarrow> bool" where
  "production_safe vals \<longleftrightarrow>
    (let url = py_strip (env_get vals ''DATABASE_URL''); endpoint = py_strip (env_get vals ''S3_ENDPOINT_URL'');
         admin = py_strip (env_get vals ''ADMIN_API_KEY_HASH'')
     in contains ''@sha256:'' (py_strip (env_get vals ''API_IMAGE'')) \<and> contains ''@sha256:'' (py_strip (env_get vals ''CADDY_IMAGE''))
      \<and> prefix ''postgresql+asyncpg://'' url
      \<and> (\<exists>host. host_from_database_url url = Some host \<and> host \<notin> {''localhost'', ''127.0.0.1'', ''postgres''})
      \<and> (endpoint \<noteq> [] \<longrightarrow> (\<exists>u. urlparse endpoint = ok u \<and> url_scheme u = ''https''
          \<and> hostname u \<notin> Some ` {''localhost'', ''127.0.0.1'', ''minio'', ''s3''}))
      \<and> (\<forall>key \<in> {''S3_ACCESS_KEY_ID'', ''S3_SECRET_ACCESS_KEY''}.
          16 \<le> length (py_strip (env_get vals key)) \<and> \<not> looks_placeholder (py_strip (env_get vals key)))
      \<and> (admin \<noteq> [] \<longrightarrow> hex64 admin))"

lemmas value_error_defs = require_def host_errors_def image_errors_def database_errors_def credential_errors_def acceptance_errors_def

lemma production_values:
  assumes "value_errors args vals = ok []" "da_production args" "\<not> da_allow_mutable_images args" "\<not> da_allow_insecure_s3 args"
  shows "production_safe vals"
proof -
  have endpoint: "endpoint_errors args (py_strip (env_get vals ''S3_ENDPOINT_URL'')) = ok []"
    using assms(1) by (auto simp: value_errors_def Let_def res_simps split: prod.splits)
  then have "py_strip (env_get vals ''S3_ENDPOINT_URL'') \<noteq> [] \<longrightarrow>
      (\<exists>u. urlparse (py_strip (env_get vals ''S3_ENDPOINT_URL'')) = ok u \<and> url_scheme u = ''https''
        \<and> hostname u \<notin> Some ` {''localhost'', ''127.0.0.1'', ''minio'', ''s3''})"
    using assms(2,4) by (auto simp: endpoint_errors_def res_simps split: if_splits)
  then show ?thesis
    using assms(1-3) endpoint unfolding production_safe_def Let_def
    by (auto simp: value_errors_def Let_def res_simps value_error_defs split: if_splits)
qed

lemma acceptance_values:
  assumes "value_errors args vals = ok []" "\<not> da_production args"
  shows "host_from_database_url (py_strip (env_get vals ''DATABASE_URL'')) = Some ''postgres''"
  using assms
  by (auto simp: value_errors_def Let_def res_simps value_error_defs split: if_splits prod.splits)

text \<open>
  A production environment file that validates without exemptions is private and safe: both images carry a
  digest, the database is an external asyncpg one, an endpoint of the object store uses https and is not
  local, the credentials are long and no placeholders, and an admin key is configured by its digest.
  No file validates for production and for acceptance.
\<close>

theorem production_validated:
  assumes valid: "validate_deployment args f = ok ([], d)" and "da_production args"
    and "\<not> da_allow_mutable_images args" "\<not> da_allow_insecure_s3 args" "\<not> da_allow_insecure_permissions args"
  shows "(ef_windows f \<or> ef_permissions f mod 64 = 0)
    \<and> (\<exists>vals. parse_env (ef_text f) = ok vals \<and> production_safe vals)
    \<and> (\<forall>args' d'. \<not> da_production args' \<longrightarrow> validate_deployment args' f \<noteq> ok ([], d'))"
proof -
  from validated_values [OF valid] obtain vals where vals: "parse_env (ef_text f) = ok vals" "value_errors args vals = ok []"
    and closed: "permission_errors args f = []" by blast
  have safe: "production_safe vals" using production_values [OF vals(2)] assms(2-4) by blast
  have "validate_deployment args' f \<noteq> ok ([], d')" if "\<not> da_production args'" for args' d'
  proof
    assume "validate_deployment args' f = ok ([], d')"
    from validated_values [OF this] vals(1) have "value_errors args' vals = ok []" by auto
    from acceptance_values [OF this that] safe show False by (auto simp: production_safe_def Let_def)
  qed
  with vals(1) safe closed assms(5) show ?thesis by (auto simp: permission_errors_def)
qed

definition demo_production :: deploy_args where
  "demo_production = \<lparr>da_production = True, da_allow_localhost = False, da_allow_mutable_images = False,
     da_allow_insecure_permissions = False, da_allow_insecure_s3 = False\<rparr>"

definition demo_env_file :: "string \<Rightarrow> env_file" where
  "demo_env_file host = \<lparr>ef_is_file = True, ef_windows = False, ef_permissions = 384,
     ef_text = concat (map (\<lambda>line. line @ [CHR 0x0A])
       [''# production'', ''API_HOST=api.vitrial.net'', ''API_IMAGE=registry/api@sha256:ab'', ''CADDY_IMAGE=caddy@sha256:cd'',
        ''SERVICE_VERSION=0.3.0'', ''DATABASE_URL=postgresql+asyncpg://v:s@'' @ host @ ''/v'', ''S3_BUCKET=evidence'',
        ''S3_ACCESS_KEY_ID=0123456789abcdef'', ''S3_SECRET_ACCESS_KEY=fedcba9876543210''])\<rparr>"

definition validated :: "deploy_args \<Rightarrow> env_file \<Rightarrow> bool" where
  "validated args f = (case validate_deployment args f of Inl _ \<Rightarrow> False | Inr (errors, d) \<Rightarrow> errors = [])"

lemma validated_iff: "validated args f \<longleftrightarrow> (\<exists>d. validate_deployment args f = ok ([], d))"
  by (auto simp: validated_def split: sum.split)

lemmas char_defs = line_break_def py_isspace_def py_lower_def lower_latin_def Let_def

definition demo_values :: "string \<Rightarrow> env_values" where
  "demo_values host =
    [''API_HOST'' \<mapsto> ''api.vitrial.net'', ''API_IMAGE'' \<mapsto> ''registry/api@sha256:ab'', ''CADDY_IMAGE'' \<mapsto> ''caddy@sha256:cd'',
     ''SERVICE_VERSION'' \<mapsto> ''0.3.0'', ''DATABASE_URL'' \<mapsto> ''postgresql+asyncpg://v:s@'' @ host @ ''/v'', ''S3_BUCKET'' \<mapsto> ''evidence'',
     ''S3_ACCESS_KEY_ID'' \<mapsto> ''0123456789abcdef'', ''S3_SECRET_ACCESS_KEY'' \<mapsto> ''fedcba9876543210'']"

lemma demo_parse:
  assumes "\<forall>c \<in> set host. \<not> line_break c"
  shows "parse_env (ef_text (demo_env_file host)) = parse_env_lines
    [''DATABASE_URL=postgresql+asyncpg://v:s@'' @ host @ ''/v'', ''S3_BUCKET=evidence'',
     ''S3_ACCESS_KEY_ID=0123456789abcdef'', ''S3_SECRET_ACCESS_KEY=fedcba9876543210'']
    [''API_HOST'' \<mapsto> ''api.vitrial.net'', ''API_IMAGE'' \<mapsto> ''registry/api@sha256:ab'', ''CADDY_IMAGE'' \<mapsto> ''caddy@sha256:cd'',
     ''SERVICE_VERSION'' \<mapsto> ''0.3.0'']"
  unfolding demo_env_file_def parse_env_def env_file.simps
  by (subst splitlines_lines [where rest = "[]", simplified])
    (use assms in \<open>simp_all add: splitlines.simps [of "[]"] py_strip_def strip_chars_def char_defs\<close>)

lemma demo_parsed:
  "parse_env (ef_text (demo_env_file ''db.vitrial.net'')) = ok (demo_values ''db.vitrial.net'')"
  "parse_env (ef_text (demo_env_file ''[::1]'')) = ok (demo_values ''[::1]'')"
  by (subst demo_parse; simp add: demo_values_def py_strip_def strip_chars_def char_defs)+

lemma demo_hosts:
  "host_from_database_url ''postgresql+asyncpg://v:s@db.vitrial.net/v'' = Some ''db.vitrial.net''"
  "host_from_database_url ''postgresql+asyncpg://v:s@[::1]/v'' = Some ''::1''"
  by (simp_all add: host_from_database_url_def urlparse_def hostname_def replace_once_def clean_url_def split_scheme_def
      netloc_ok_def before_char_def after_char_def after_last_def scheme_char_def ascii_alpha_def bracketed_host_ok_def
      ipv6_ok_def ipv6_parts_def ipv6_parts_ok_def hextet_ok_def hex_char_def char_defs upt_rec)

lemma demo_placeholders:
  "\<not> looks_placeholder ''postgresql+asyncpg://v:s@db.vitrial.net/v''" "\<not> looks_placeholder ''postgresql+asyncpg://v:s@[::1]/v''"
  "\<not> looks_placeholder ''api.vitrial.net''" "\<not> looks_placeholder ''registry/api@sha256:ab''"
  "\<not> looks_placeholder ''0123456789abcdef''" "\<not> looks_placeholder ''fedcba9876543210''"
  by (simp_all add: looks_placeholder_def PLACEHOLDER_PARTS_def contains_def char_defs)

lemma demo_valid:
  "validated demo_production (demo_env_file ''db.vitrial.net'')" "validated demo_production (demo_env_file ''[::1]'')"
  unfolding validated_def validate_deployment_def demo_parsed
  by (simp_all add: value_errors_def value_error_defs endpoint_errors_def permission_errors_def demo_production_def demo_env_file_def
      demo_values_def env_get_def py_strip_def demo_hosts demo_placeholders contains_def report_if_def suffix_to_prefix char_defs ebind_def)

theorem production_validated_witness:
  "\<exists>vals. parse_env (ef_text (demo_env_file ''db.vitrial.net'')) = ok vals \<and> production_safe vals"
proof -
  from demo_valid(1) obtain d where "validate_deployment demo_production (demo_env_file ''db.vitrial.net'') = ok ([], d)"
    by (auto simp: validated_iff)
  from production_validated [OF this] show ?thesis by (simp add: demo_production_def)
qed

text \<open>The list of local hosts has no IPv6 loopback: a database on \<open>::1\<close> counts as external.\<close>

lemma loopback_database_validated: "\<exists>d. validate_deployment demo_production (demo_env_file ''[::1]'') = ok ([], d)"
  using demo_valid(2) by (simp add: validated_iff)

text \<open>A digest is asked for by its marker only: an image with an empty digest counts as pinned.\<close>

lemma empty_digest_accepted: "image_errors demo_production ''registry/api@sha256:'' ''caddy@sha256:'' = []"
  by (simp add: image_errors_def demo_production_def report_if_def contains_def looks_placeholder_def PLACEHOLDER_PARTS_def
      suffix_to_prefix char_defs)

section \<open>Runtime lock\<close>

lemma put_row_fst_keys: "fst ` set (put_row fst r rows) = insert (fst r) (fst ` set rows)"
  by (induction rows) auto

text \<open>A list of pins is consistent with the lock the tests use.\<close>

definition consistent_pins :: "pins \<Rightarrow> pins \<Rightarrow> string list \<Rightarrow> bool" where
  "consistent_pins runtime combined dependencies \<longleftrightarrow>
     (\<forall>(name, version) \<in> set runtime. map_of combined name = Some version)
     \<and> requirement_name ` set dependencies \<subseteq> fst ` set runtime \<and> fst ` set runtime \<inter> set FORBIDDEN = {}"

lemma pin_problems_Nil: "pin_problems combined pin = [] \<longleftrightarrow> map_of combined (fst pin) = Some (snd pin)"
  by (auto simp: pin_problems_def split: option.split)

lemma lock_check_Nil:
  "lock_check (Some text) combined_lock dependencies = [] \<longleftrightarrow>
    (\<exists>runtime combined. read_pins text = ok runtime \<and> read_pins combined_lock = ok combined
      \<and> consistent_pins runtime combined dependencies)"
proof (cases "ebind (read_pins text) (\<lambda>runtime. ebind (read_pins combined_lock) (\<lambda>combined. ok (runtime, combined)))")
  case (Inl e)
  then show ?thesis by (auto simp: lock_check_def ebind_def split: sum.splits)
next
  case (Inr pins)
  obtain runtime combined where "pins = (runtime, combined)" by fastforce
  with Inr have read: "read_pins text = ok runtime" "read_pins combined_lock = ok combined" by (auto simp: res_simps)
  have "concat (map (pin_problems combined) (sort_key fst runtime)) = [] \<longleftrightarrow>
      (\<forall>(name, version) \<in> set runtime. map_of combined name = Some version)"
    by (simp add: pin_problems_Nil case_prod_beta)
  moreover have "map Undeclared (sort (remdups (filter (\<lambda>n. n \<notin> fst ` set runtime) (map requirement_name dependencies)))) = []
      \<longleftrightarrow> requirement_name ` set dependencies \<subseteq> fst ` set runtime"
    by (simp add: filter_empty_conv image_subset_iff)
  moreover have "map Development (sort (filter (\<lambda>n. n \<in> fst ` set runtime) FORBIDDEN)) = [] \<longleftrightarrow> fst ` set runtime \<inter> set FORBIDDEN = {}"
    by (simp add: filter_empty_conv disjoint_iff) blast
  ultimately show ?thesis
    by (simp add: lock_check_def consistent_pins_def read ebind_def del: concat_eq_Nil_conv map_is_Nil_conv sort_key_Nil)
qed

text \<open>The generated file is read back line by line.\<close>

lemma splitlines_no_break: "l \<in> set (splitlines s) \<Longrightarrow> c \<in> set l \<Longrightarrow> \<not> line_break c"
proof (induction s arbitrary: l rule: splitlines.induct)
  case (1 s)
  show ?case
  proof (cases "l = takeWhile (Not \<circ> line_break) s")
    case True
    with 1(3) show ?thesis by (auto dest: set_takeWhileD)
  next
    case False
    show ?thesis
    proof (cases "dropWhile (Not \<circ> line_break) s")
      case Nil
      then have "splitlines s = (if s = [] then [] else [takeWhile (Not \<circ> line_break) s])"
        by (simp only: splitlines.simps [of s] list.case)
      with False 1(2) show ?thesis by (simp split: if_splits)
    next
      case (Cons b rest)
      then have s: "s \<noteq> []" by auto
      then have "splitlines s = takeWhile (Not \<circ> line_break) s
          # splitlines (if b = CHR 0x0D \<and> prefix [CHR 0x0A] rest then tl rest else rest)"
        by (simp only: splitlines.simps [of s] Cons list.case if_False)
      with False 1(2) have "l \<in> set (splitlines (if b = CHR 0x0D \<and> prefix [CHR 0x0A] rest then tl rest else rest))"
        by simp
      from 1(1) [OF s Cons this 1(3)] show ?thesis .
    qed
  qed
qed

lemma py_strip_sub: "set (py_strip s) \<subseteq> set s"
  by (auto simp: py_strip_def dest!: set_dropWhileD)

text \<open>The pin a line stands for.\<close>

definition pin_of :: "string \<Rightarrow> string \<times> string" where
  "pin_of line = (case split_once ''=='' line of None \<Rightarrow> (normalize line, []) | Some (name, version) \<Rightarrow> (normalize name, py_strip version))"

lemma fst_pin_of: "fst (pin_of line) = pin_name line"
  by (simp add: pin_of_def pin_name_def split: option.split)

lemma put_row_new: "fst r \<notin> fst ` set rows \<Longrightarrow> put_row fst r rows = rows @ [r]"
  by (induction rows) auto

lemma read_comments:
  "\<forall>l \<in> set lines. prefix ''#'' l \<Longrightarrow> read_pins_lines (lines @ rest) pins = read_pins_lines rest pins"
proof (induction lines)
  case (Cons l lines)
  have "prefix ''#'' (py_strip l)"
  proof -
    from Cons.prems obtain t where l: "l = CHR ''#'' # t" by (auto simp: prefix_def)
    have "py_strip l = rev (dropWhile py_isspace (rev t @ [CHR ''#'']))" by (simp add: l py_strip_def py_isspace_def)
    also have "\<dots> = CHR ''#'' # rev (dropWhile py_isspace (rev t))"
      by (simp add: dropWhile_append py_isspace_def)
    finally show ?thesis by simp
  qed
  with Cons show ?case by (simp add: Let_def)
qed simp

lemma read_entries:
  assumes "\<forall>l \<in> set entries. py_strip l = l \<and> contains ''=='' l \<and> \<not> prefix ''#'' l" "distinct (map pin_name entries)"
    "fst ` set pins \<inter> pin_name ` set entries = {}"
  shows "read_pins_lines entries pins = ok (pins @ map pin_of entries)"
  using assms
proof (induction entries arbitrary: pins)
  case (Cons l entries)
  from Cons.prems(1) obtain name version where split: "split_once ''=='' l = Some (name, version)" by (auto simp: contains_def)
  then have pin: "pin_of l = (normalize name, py_strip version)" "l \<noteq> []" by (auto simp: pin_of_def)
  have "fst (pin_of l) \<notin> fst ` set pins" using Cons.prems(3) by (auto simp: fst_pin_of)
  then have step: "read_pins_lines (l # entries) pins = read_pins_lines entries (pins @ [pin_of l])"
    using Cons.prems(1) split pin by (simp add: Let_def put_row_new)
  have "fst ` set (pins @ [pin_of l]) \<inter> pin_name ` set entries = {}"
    using Cons.prems(2,3) by (auto simp: fst_pin_of)
  with Cons.IH [of "pins @ [pin_of l]"] Cons.prems(1,2) step show ?case by simp
qed simp

lemma join_lines: "es \<noteq> [] \<Longrightarrow> join [c] es @ [c] = concat (map (\<lambda>l. l @ [c]) es)"
proof (cases es)
  case (Cons e rest)
  have "concat (map ((@) [c]) rest) @ [c] = c # concat (map (\<lambda>l. l @ [c]) rest)"
    by (induction rest) simp_all
  with Cons show ?thesis by (simp add: join_def)
qed simp

lemma header_comments: "\<forall>l \<in> set LOCK_HEADER_LINES. prefix ''#'' l" "\<forall>l \<in> set LOCK_HEADER_LINES. \<forall>c \<in> set l. \<not> line_break c"
  by (simp_all add: LOCK_HEADER_LINES_def line_break_def Let_def)

lemma splitlines_generated:
  assumes "\<forall>l \<in> set (resolve_runtime_closure frozen). \<forall>c \<in> set l. \<not> line_break c"
  shows "splitlines (generate_lock frozen) = LOCK_HEADER_LINES
    @ (if resolve_runtime_closure frozen = [] then [[]] else resolve_runtime_closure frozen)"
proof -
  let ?es = "resolve_runtime_closure frozen"
  have "splitlines (generate_lock frozen) = LOCK_HEADER_LINES @ splitlines (join [CHR 0x0A] ?es @ [CHR 0x0A])"
    unfolding generate_lock_def LOCK_HEADER_def by (rule splitlines_lines [OF header_comments(2)])
  also have "splitlines (join [CHR 0x0A] ?es @ [CHR 0x0A]) = (if ?es = [] then [[]] else ?es)"
  proof (cases "?es = []")
    case True
    then show ?thesis using splitlines_line [of "[]" "[]"] by (simp add: join_def splitlines.simps [of "[]"])
  next
    case False
    then show ?thesis using splitlines_lines [OF assms, of "[]"] by (simp add: join_lines splitlines.simps [of "[]"])
  qed
  finally show ?thesis .
qed

lemma closure_entries:
  assumes "\<forall>l \<in> set (splitlines frozen). \<not> prefix ''#'' (py_strip l)" "l \<in> set (resolve_runtime_closure frozen)"
  shows "py_strip l = l \<and> contains ''=='' l \<and> \<not> prefix ''#'' l" "\<forall>c \<in> set l. \<not> line_break c"
proof -
  from assms(2) obtain raw where raw: "raw \<in> set (splitlines frozen)" "l = py_strip raw" and pinned: "contains ''=='' l"
    by (auto simp: resolve_runtime_closure_def)
  with assms(1) show "py_strip l = l \<and> contains ''=='' l \<and> \<not> prefix ''#'' l" by simp
  from raw splitlines_no_break py_strip_sub show "\<forall>c \<in> set l. \<not> line_break c" by blast
qed

lemma read_generated:
  assumes "\<forall>l \<in> set (splitlines frozen). \<not> prefix ''#'' (py_strip l)" "distinct (map pin_name (resolve_runtime_closure frozen))"
  shows "read_pins (generate_lock frozen) = ok (map pin_of (resolve_runtime_closure frozen))"
proof -
  let ?es = "resolve_runtime_closure frozen"
  have "read_pins (generate_lock frozen) = read_pins_lines (if ?es = [] then [[]] else ?es) []"
    unfolding read_pins_def using splitlines_generated closure_entries(2) [OF assms(1)] read_comments [OF header_comments(1)] by metis
  also have "\<dots> = ok (map pin_of ?es)"
    using read_entries [of ?es "[]"] closure_entries(1) [OF assms(1)] assms(2) by (simp add: py_strip_def)
  finally show ?thesis .
qed

text \<open>
  C29. The lock file is generated and checked consistently. Reading the generated file gives back exactly the frozen
  pins of the environment without the tools; the generating command exits with 0 precisely when every shipped version is the tested one,
  every declared dependency is shipped and no development package is; and a later offline check of the
  file it wrote gives the same answer.
\<close>

theorem generated_lock_consistent:
  assumes "\<forall>l \<in> set (splitlines frozen). \<not> prefix ''#'' (py_strip l)" "distinct (map pin_name (resolve_runtime_closure frozen))"
    and combined: "read_pins combined_lock = ok combined"
  shows "read_pins (generate_lock frozen) = ok (map pin_of (resolve_runtime_closure frozen))
    \<and> (snd (lock_main False frozen old combined_lock dependencies) = 0 \<longleftrightarrow>
        consistent_pins (map pin_of (resolve_runtime_closure frozen)) combined dependencies)
    \<and> lock_main True frozen' (fst (lock_main False frozen old combined_lock dependencies)) combined_lock dependencies
        = lock_main False frozen old combined_lock dependencies"
  using read_generated [OF assms(1,2)] combined by (auto simp: lock_main_def lock_check_Nil)

theorem generated_lock_consistent_witness:
  "read_pins (generate_lock (''foo_bar==1.0'' @ [CHR 0x0A] @ ''pip==24'')) = ok [(''foo-bar'', ''1.0'')]"
proof -
  let ?frozen = "''foo_bar==1.0'' @ [CHR 0x0A] @ ''pip==24''"
  have lines: "splitlines ?frozen = [''foo_bar==1.0'', ''pip==24'']"
    by (simp add: splitlines.simps [of "_ # _"] splitlines.simps [of "[]"] line_break_def)
  then have closure: "resolve_runtime_closure ?frozen = [''foo_bar==1.0'']"
    by (simp add: resolve_runtime_closure_def pin_name_def normalize_def contains_def EXCLUDE_def PROJECT_NAME_def py_strip_def char_defs)
  have "read_pins [] = ok []" by (simp add: read_pins_def splitlines.simps [of "[]"])
  moreover have "\<forall>l \<in> set (splitlines ?frozen). \<not> prefix ''#'' (py_strip l)"
    unfolding lines by (simp add: py_strip_def py_isspace_def)
  moreover have "distinct (map pin_name (resolve_runtime_closure ?frozen))" unfolding closure by simp
  ultimately have "read_pins (generate_lock ?frozen) = ok (map pin_of (resolve_runtime_closure ?frozen))"
    using generated_lock_consistent by blast
  then show ?thesis unfolding closure by (simp add: pin_of_def normalize_def py_strip_def char_defs)
qed

text \<open>The committed file is checked alone as well: no problem is reported exactly for a consistent file.\<close>

lemma lock_check_exact:
  "lock_check runtime_lock combined_lock dependencies = [] \<longleftrightarrow>
    (\<exists>text runtime combined. runtime_lock = Some text \<and> read_pins text = ok runtime \<and> read_pins combined_lock = ok combined
      \<and> consistent_pins runtime combined dependencies)"
  by (cases runtime_lock) (simp_all add: lock_check_Nil, simp add: lock_check_def)

section \<open>Branches\<close>

text \<open>
  A branch is reported as unmerged precisely when it is newer and changes a file that the main branch lacks or has otherwise;
  a branch may be deleted precisely when nothing of it is missing there.
\<close>

lemma classify_exact:
  assumes "py_strip (gf_merge_base g) \<noteq> []"
  shows "br_verdict (classify g) = RealUnmerged \<longleftrightarrow> gf_main_date g < gf_tip_date g
      \<and> (\<exists>f \<in> set (gf_touched g). py_strip f \<noteq> [] \<and> (\<not> gf_exists g f \<or> \<not> gf_same g f))"
    and "br_verdict (classify g) = SafeDelete \<longleftrightarrow>
      (\<forall>f \<in> set (gf_touched g). py_strip f \<noteq> [] \<longrightarrow> gf_exists g f \<and> (gf_main_date g < gf_tip_date g \<longrightarrow> gf_same g f))"
  using assms by (auto simp: classify_def Let_def filter_empty_conv)

text \<open>
  A branch that touched a missing file on the day of the last commit of the main branch, or before, is never reported: the exit
  code is 0 although the main branch lacks its content.
\<close>

lemma stale_content_unreported:
  "\<exists>g. br_content_main_lacks (classify g) \<noteq> [] \<and> audit_exit [classify g] = 0"
proof -
  let ?g = "\<lparr>gf_merge_base = ''c'', gf_touched = [''f''], gf_exists = \<lambda>f. False, gf_same = \<lambda>f. False,
    gf_tip_date = ''2025-01-01'', gf_main_date = ''2025-01-01''\<rparr>"
  have "br_content_main_lacks (classify ?g) \<noteq> [] \<and> audit_exit [classify ?g] = 0"
    by (simp add: classify_def audit_exit_def py_strip_def py_isspace_def Let_def)
  then show ?thesis by blast
qed

section \<open>Canary\<close>

lemma canary_survives:
  "write_canary bucket put = (bucket', ok ()) \<Longrightarrow> bucket'' CANARY_KEY = bucket' CANARY_KEY \<Longrightarrow> verify_canary lib bucket'' = ok ()"
  by (auto simp: write_canary_def verify_canary_def split: sum.splits)

lemma canary_verified:
  "verify_canary lib bucket = ok () \<longleftrightarrow> (\<exists>stored. bucket CANARY_KEY = Some stored \<and> sha256_hex lib stored = sha256_hex lib CANARY_BODY)"
  by (auto simp: verify_canary_def split: option.splits)

end
