(* ===== verification/Acceptance.thy ===== *)
theory Acceptance
  imports Deployment
begin

text \<open>
  The acceptance drivers \<open>scripts/bootstrap_two_user_acceptance.py\<close> and
  \<open>scripts/bootstrap_delivery_two_user_acceptance.py\<close>: a protocol of HTTP calls against a running service. The service is an arbitrary
  function of the calls made so far; \<open>parse\<close> is the JSON parser. The clock and the random run id are arguments.
\<close>

section \<open>Calls\<close>

record http_call =
  hc_method :: string
  hc_url :: string
  hc_headers :: "(string \<times> string) list"
  hc_payload :: "json option"

text \<open>
  What becomes of one request. \<open>HttpStatus\<close> is a code outside the 200s; \<open>Redirect\<close> is a code with a \<open>Location\<close>, given as
  the URL it resolves to; \<open>Unreachable\<close> is the reason of a \<open>URLError\<close>; \<open>Broken\<close> is any other exception of \<open>http.client\<close>
  (a malformed status line, a timeout while the answer is read, a URL it refuses).
\<close>

datatype http_reply = HttpStatus nat | Redirect nat string | Unreachable string | Broken exn | RawBody string

type_synonym server = "http_call list \<Rightarrow> http_call \<Rightarrow> http_reply"

text \<open>
  \<open>RuntimeError\<close> carries its message, which is printed; any other exception ends the script with a traceback. The
  \<open>ValueError\<close> of \<open>http.client\<close> for a header value with a bare line break names that value.
\<close>

datatype driver_error = Failure string | IllegalHeader string | Uncaught exn

type_synonym 'a driver = "http_call list \<Rightarrow> http_call list \<times> (driver_error + 'a)"

definition give :: "'a \<Rightarrow> 'a driver" where
  "give x calls = (calls, Inr x)"

definition fail :: "driver_error \<Rightarrow> 'a driver" where
  "fail e calls = (calls, Inl e)"

definition bind :: "'a driver \<Rightarrow> ('a \<Rightarrow> 'b driver) \<Rightarrow> 'b driver" where
  "bind m f calls = (case m calls of (calls', Inl e) \<Rightarrow> (calls', Inl e) | (calls', Inr x) \<Rightarrow> f x calls')"

definition check_that :: "bool \<Rightarrow> string \<Rightarrow> unit driver" where
  "check_that c message = (if c then give () else fail (Failure message))"

definition lift_res :: "'a res \<Rightarrow> 'a driver" where
  "lift_res r = (case r of Inl e \<Rightarrow> fail (Uncaught e) | Inr x \<Rightarrow> give x)"

definition headers_of :: "(string \<times> string) list \<Rightarrow> json option \<Rightarrow> (string \<times> string) list" where
  "headers_of headers payload = [(''Accept'', ''application/json'')] @ headers
     @ (case payload of None \<Rightarrow> [] | Some _ \<Rightarrow> [(''Content-Type'', ''application/json'')])"

text \<open>\<open>putheader\<close> refuses a value with a line break that no space or tab follows, before anything is sent.\<close>

fun illegal_header_value :: "string \<Rightarrow> bool" where
  "illegal_header_value [] \<longleftrightarrow> False"
| "illegal_header_value (c # s) \<longleftrightarrow>
     c = CHR 0x0A \<and> (s = [] \<or> hd s \<notin> {CHR '' '', CHR 0x09})
     \<or> c = CHR 0x0D \<and> (s = [] \<or> hd s \<notin> {CHR '' '', CHR 0x09, CHR 0x0A})
     \<or> illegal_header_value s"

text \<open>
  \<open>urlopen\<close> follows redirects: a new \<open>GET\<close> without a body, with the headers of the request less those of
  its content (an \<open>ftp\<close> request has no headers). It gives up with the code of the answer when the scheme or the
  method does not allow it, when a URL was followed four times, or after ten different URLs.
\<close>

definition redirected :: "http_call \<Rightarrow> url \<Rightarrow> string \<Rightarrow> http_call" where
  "redirected call u target =
     \<lparr>hc_method = ''GET'', hc_url = target,
      hc_headers = (if url_scheme u = ''ftp'' then []
        else filter (\<lambda>(name, _). py_lower name \<notin> {''content-length'', ''content-type''}) (hc_headers call)),
      hc_payload = None\<rparr>"

definition redirect_request :: "http_call \<Rightarrow> string list \<Rightarrow> nat \<Rightarrow> string \<Rightarrow> http_call option res" where
  "redirect_request call visited code target =
    (if code \<notin> {301, 302, 303, 307, 308} then ok None
     else ebind (urlparse target) (\<lambda>u.
       if url_scheme u \<in> {''http'', ''https'', ''ftp'', []}
         \<and> (hc_method call \<in> {''GET'', ''HEAD''} \<or> hc_method call = ''POST'' \<and> code \<in> {301, 302, 303})
         \<and> count_list visited target < 4 \<and> length (remdups visited) < 10
       then ok (Some (redirected call u target)) else ok None))"

lemma redirect_request_some:
  "redirect_request call visited code target = ok (Some call') \<Longrightarrow>
     count_list visited target < 4 \<and> length (remdups visited) < 10 \<and> (\<exists>u. urlparse target = ok u \<and> call' = redirected call u target)"
  by (auto simp: redirect_request_def ebind_def split: if_splits sum.splits)

definition redirects_left :: "string list \<Rightarrow> nat \<times> nat" where
  "redirects_left visited = (10 - card (set visited), \<Sum>u \<in> set visited. 4 - count_list visited u)"

lemma redirects_left_less:
  assumes "count_list visited target < 4" and "length (remdups visited) < 10"
  shows "(redirects_left (visited @ [target]), redirects_left visited) \<in> less_than <*lex*> less_than"
proof (cases "target \<in> set visited")
  case True
  then have same: "set (visited @ [target]) = set visited" by auto
  have "(\<Sum>u \<in> set visited. 4 - count_list (visited @ [target]) u) < (\<Sum>u \<in> set visited. 4 - count_list visited u)"
    using True assms(1) by (intro sum_strict_mono_ex1) auto
  then show ?thesis by (simp add: redirects_left_def same insert_absorb True)
next
  case False
  then have "10 - card (set (visited @ [target])) < 10 - card (set visited)"
    using assms(2) by (simp add: length_remdups_card_conv)
  then show ?thesis unfolding redirects_left_def by simp
qed

function open_url :: "server \<Rightarrow> string list \<Rightarrow> http_call \<Rightarrow> http_call list \<Rightarrow> http_call list \<times> http_reply" where
  "open_url server visited call calls =
    (case server calls call of
       Redirect code target \<Rightarrow>
         (case redirect_request call visited code target of
            Inl e \<Rightarrow> (calls @ [call], Broken e)
          | Inr None \<Rightarrow> (calls @ [call], HttpStatus code)
          | Inr (Some call') \<Rightarrow> open_url server (visited @ [target]) call' (calls @ [call]))
     | reply \<Rightarrow> (calls @ [call], reply))"
  by pat_completeness auto
termination
  by (relation "inv_image (less_than <*lex*> less_than) (\<lambda>(server, visited, call, calls). redirects_left visited)")
    (auto dest!: redirect_request_some intro: redirects_left_less)

declare open_url.simps [simp del]

definition request_json :: "(string \<Rightarrow> json option) \<Rightarrow> server \<Rightarrow> string \<Rightarrow> string \<Rightarrow> (string \<times> string) list \<Rightarrow> json option \<Rightarrow> dict driver" where
  "request_json parse server verb url headers payload calls =
    (let call = \<lparr>hc_method = verb, hc_url = url, hc_headers = headers_of headers payload, hc_payload = payload\<rparr>;
         name = verb @ '' '' @ url
     in case find illegal_header_value (map snd (hc_headers call)) of
       Some v \<Rightarrow> (calls, Inl (IllegalHeader v))
     | None \<Rightarrow>
        (case open_url server [] call calls of (calls', reply) \<Rightarrow>
          (calls', case reply of
             HttpStatus code \<Rightarrow> Inl (Failure (name @ '' returned HTTP '' @ show_int (int code)))
           | Redirect code target \<Rightarrow> Inl (Failure (name @ '' returned HTTP '' @ show_int (int code)))
           | Unreachable reason \<Rightarrow> Inl (Failure (name @ '' failed: '' @ reason))
           | Broken e \<Rightarrow> Inl (Uncaught e)
           | RawBody raw \<Rightarrow>
               (case (if raw = [] then Some (JObj []) else parse raw) of
                  None \<Rightarrow> Inl (Failure (name @ '' returned invalid JSON''))
                | Some (JObj d) \<Rightarrow> Inr d
                | Some _ \<Rightarrow> Inl (Failure (name @ '' returned a non-object JSON response''))))))"

section \<open>Inputs\<close>

definition DEFAULT_CAPABILITIES :: "string list" where
  "DEFAULT_CAPABILITIES =
    [''sync'', ''customer.create'', ''customer.edit'', ''project.create'', ''project.edit'', ''item.create'', ''item.edit'',
     ''item.readiness.change'', ''item.blockers.manage'', ''item.measurements.manage'', ''item.evidence.manage'',
     ''item.requirements.manage'', ''item.configuration.manage'', ''item.configuration.finalize'', ''item.configuration.reopen'',
     ''quotation.create'']"

definition DELIVERY_ACCEPTANCE_CAPABILITIES :: "string list" where
  "DELIVERY_ACCEPTANCE_CAPABILITIES = [''quotation.send'', ''quotation.approve'', ''delivery.manage'']"

text \<open>The delivery driver appends what is missing; it asks for all of them in the profile.\<close>

definition delivery_capabilities :: "string list" where
  "delivery_capabilities = DEFAULT_CAPABILITIES @ filter (\<lambda>c. c \<notin> set DEFAULT_CAPABILITIES) DELIVERY_ACCEPTANCE_CAPABILITIES"

definition validated_base_url :: "string \<Rightarrow> bool \<Rightarrow> string res" where
  "validated_base_url v allow_http_localhost =
    (let u = rstrip_char (CHR ''/'') v in
     ebind (urlparse u) (\<lambda>parsed.
       if url_scheme parsed = ''https'' \<and> url_netloc parsed \<noteq> [] then ok u
       else if allow_http_localhost \<and> url_scheme parsed = ''http''
         \<and> hostname parsed \<in> set [Some ''localhost'', Some ''127.0.0.1'', Some ''::1''] \<and> url_netloc parsed \<noteq> [] then ok u
       else raise ValueError))"

record acceptance_user =
  au_label :: string
  au_user_id :: string
  au_membership_id :: string
  au_session_id :: string
  au_display_name :: string
  au_email :: string

definition acceptance_users :: "string \<Rightarrow> acceptance_user list" where
  "acceptance_users run =
    [\<lparr>au_label = ''A'', au_user_id = ''user-a-acceptance-'' @ run, au_membership_id = ''membership-a-acceptance-'' @ run,
      au_session_id = ''session-a-acceptance-'' @ run, au_display_name = ''Acceptance Operator A'',
      au_email = ''acceptance-a-'' @ run @ ''@example.invalid''\<rparr>,
     \<lparr>au_label = ''B'', au_user_id = ''user-b-acceptance-'' @ run, au_membership_id = ''membership-b-acceptance-'' @ run,
      au_session_id = ''session-b-acceptance-'' @ run, au_display_name = ''Acceptance Operator B'',
      au_email = ''acceptance-b-'' @ run @ ''@example.invalid''\<rparr>]"

text \<open>What a run is given: the validated origin, the admin key, names and the clock.\<close>

record run_input =
  ri_base_url :: string
  ri_admin_key :: string
  ri_run_id :: string
  ri_organization_name :: string
  ri_session_ttl_seconds :: int
  ri_capabilities :: "string list"
  ri_required :: "string list"
  ri_updated_at :: string
  ri_created_at :: string

definition run_organization :: "run_input \<Rightarrow> string" where
  "run_organization ri = ''org-acceptance-'' @ ri_run_id ri"

definition run_customer :: "run_input \<Rightarrow> string" where
  "run_customer ri = ''customer-acceptance-'' @ ri_run_id ri"

definition run_project :: "run_input \<Rightarrow> string" where
  "run_project ri = ''project-acceptance-'' @ ri_run_id ri"

definition bootstrap_payload :: "run_input \<Rightarrow> acceptance_user \<Rightarrow> json" where
  "bootstrap_payload ri user = JObj
    [(''organizationID'', JStr (run_organization ri)), (''organizationName'', JStr (ri_organization_name ri)),
     (''userID'', JStr (au_user_id user)), (''displayName'', JStr (au_display_name user)), (''email'', JStr (au_email user)),
     (''membershipID'', JStr (au_membership_id user)), (''active'', JBool True), (''allCustomers'', JBool False),
     (''allProjects'', JBool False), (''customerIDs'', JList [JStr (run_customer ri)]), (''projectIDs'', JList [JStr (run_project ri)]),
     (''roles'', JList [JObj [(''id'', JStr ''acceptance-operator''), (''displayName'', JStr ''Acceptance Operator'')]]),
     (''capabilities'', JList (map JStr (ri_capabilities ri))), (''sessionID'', JStr (au_session_id user)),
     (''sessionTTLSeconds'', JInt (ri_session_ttl_seconds ri))]"

definition encoded_json :: "dict \<Rightarrow> string" where
  "encoded_json payload = b64encode (utf8 (json_dumps True (JObj payload)))"

definition sync_record_json :: "string \<Rightarrow> string \<Rightarrow> string \<Rightarrow> dict \<Rightarrow> string \<Rightarrow> string \<Rightarrow> json" where
  "sync_record_json record_id entity_type entity_id payload mutation_id updated_at = JObj
    [(''id'', JStr record_id), (''entityType'', JStr entity_type), (''entityID'', JStr entity_id), (''updatedAt'', JStr updated_at),
     (''payload'', JStr (encoded_json payload)), (''baseServerRevision'', JNull), (''clientMutationID'', JStr mutation_id),
     (''deletedAt'', JNull)]"

section \<open>Reading replies\<close>

text \<open>\<open>set(v)\<close> of a JSON value: the distinct elements; not everything can be iterated or hashed.\<close>

definition json_set :: "json \<Rightarrow> json list res" where
  "json_set v = (case v of
     JList xs \<Rightarrow> if list_all hashable xs then ok xs else raise TypeError
   | JStr s \<Rightarrow> ok (map (\<lambda>c. JStr [c]) s)
   | JObj d \<Rightarrow> ok (map (JStr \<circ> fst) d)
   | _ \<Rightarrow> raise TypeError)"

text \<open>\<open>s in v\<close> for a string \<open>s\<close>.\<close>

definition json_in :: "string \<Rightarrow> json \<Rightarrow> bool res" where
  "json_in s v = (case v of
     JList xs \<Rightarrow> ok (JStr s \<in> set xs)
   | JStr t \<Rightarrow> ok (contains s t)
   | JObj d \<Rightarrow> ok (s \<in> fst ` set d)
   | _ \<Rightarrow> raise TypeError)"

definition profile_matches :: "run_input \<Rightarrow> acceptance_user \<Rightarrow> dict \<Rightarrow> bool res" where
  "profile_matches ri user profile =
    ebind (json_set (dget_default profile ''capabilities'' (JList []))) (\<lambda>capabilities.
      if dget profile ''organizationID'' \<noteq> JStr (run_organization ri) \<or> dget profile ''principalID'' \<noteq> JStr (au_user_id user) then ok False
      else ebind (json_in (run_project ri) (dget_default profile ''projectIDs'' (JList []))) (\<lambda>in_scope.
        ok (in_scope \<and> dget profile ''allProjects'' = JBool False
          \<and> list_all (\<lambda>c. JStr c \<in> set capabilities) ([''sync'', ''project.create'', ''item.create''] @ ri_required ri))))"

section \<open>Steps\<close>

definition bearer :: "string \<Rightarrow> (string \<times> string) list" where
  "bearer token = [(''Authorization'', ''Bearer '' @ token)]"

definition customer_record_id :: "run_input \<Rightarrow> string" where
  "customer_record_id ri = ''record-customer-'' @ ri_run_id ri"

definition project_record_id :: "run_input \<Rightarrow> string" where
  "project_record_id ri = ''record-project-'' @ ri_run_id ri"

definition seed_batch :: "run_input \<Rightarrow> json" where
  "seed_batch ri = JObj
    [(''deviceID'', JStr (''acceptance-bootstrap-'' @ ri_run_id ri)), (''cursor'', JNull),
     (''records'', JList
       [sync_record_json (project_record_id ri) ''project'' (run_project ri)
          [(''id'', JStr (run_project ri)), (''customerID'', JStr (run_customer ri)), (''name'', JStr ''Vitrial 0.2.0 Shared Acceptance Project'')]
          (''mutation-project-'' @ ri_run_id ri) (ri_updated_at ri),
        sync_record_json (customer_record_id ri) ''customer'' (run_customer ri)
          [(''id'', JStr (run_customer ri)), (''name'', JStr ''Vitrial 0.2.0 Acceptance Customer'')]
          (''mutation-customer-'' @ ri_run_id ri) (ri_updated_at ri)])]"

definition seed_verdict :: "run_input \<Rightarrow> dict \<Rightarrow> string driver" where
  "seed_verdict ri result =
    bind (lift_res (json_set (dget_default result ''acceptedRecordIDs'' (JList [])))) (\<lambda>accepted.
    bind (lift_res (json_set (dget_default result ''rejectedRecordIDs'' (JList [])))) (\<lambda>rejected.
    bind (check_that (set accepted = {JStr (customer_record_id ri), JStr (project_record_id ri)} \<and> rejected = [])
      ''shared Customer/Project bootstrap was not fully accepted'') (\<lambda>_.
    case dget result ''nextCursor'' of
      JStr cursor \<Rightarrow> if prefix ''seq:'' cursor then give cursor
        else fail (Failure ''shared Customer/Project bootstrap did not return a valid sync cursor'')
    | _ \<Rightarrow> fail (Failure ''shared Customer/Project bootstrap did not return a valid sync cursor''))))"

definition seed_shared_project :: "(string \<Rightarrow> json option) \<Rightarrow> server \<Rightarrow> run_input \<Rightarrow> string \<Rightarrow> string driver" where
  "seed_shared_project parse server ri token =
    bind (request_json parse server ''POST'' (ri_base_url ri @ ''/api/v1/sync/push'') (bearer token) (Some (seed_batch ri)))
      (seed_verdict ri)"

definition record_entity :: "json \<Rightarrow> string option" where
  "record_entity v = (case v of JObj d \<Rightarrow> (case dget d ''entityID'' of JStr s \<Rightarrow> Some s | _ \<Rightarrow> None) | _ \<Rightarrow> None)"

definition pull_visible_entity_ids :: "(string \<Rightarrow> json option) \<Rightarrow> server \<Rightarrow> run_input \<Rightarrow> string \<Rightarrow> string list driver" where
  "pull_visible_entity_ids parse server ri token =
    bind (request_json parse server ''GET'' (ri_base_url ri @ ''/api/v1/sync/pull?cursor=seq%3A0'') (bearer token) None) (\<lambda>result.
      case dget result ''records'' of
        JList records \<Rightarrow> give (List.map_filter record_entity records)
      | _ \<Rightarrow> fail (Failure ''sync pull did not return a records array''))"

definition bootstrap_user :: "(string \<Rightarrow> json option) \<Rightarrow> server \<Rightarrow> run_input \<Rightarrow> acceptance_user \<Rightarrow> string driver" where
  "bootstrap_user parse server ri user =
    bind (request_json parse server ''POST'' (ri_base_url ri @ ''/internal/admin/v1/bootstrap'')
        [(''X-Vitrial-Admin-Key'', ri_admin_key ri)] (Some (bootstrap_payload ri user))) (\<lambda>response.
      case dget response ''accessToken'' of
        JStr token \<Rightarrow> if token \<noteq> [] then give token
          else fail (Failure (''bootstrap for user '' @ au_label user @ '' did not return an access token''))
      | _ \<Rightarrow> fail (Failure (''bootstrap for user '' @ au_label user @ '' did not return an access token'')))"

definition handoff_user :: "acceptance_user \<Rightarrow> string \<Rightarrow> dict \<Rightarrow> dict" where
  "handoff_user user token profile =
    [(''label'', JStr (au_label user)), (''userID'', JStr (au_user_id user)), (''membershipID'', dget profile ''membershipID''),
     (''sessionID'', dget profile ''sessionID''), (''authorizationRevision'', dget profile ''authorizationRevision''),
     (''expiresAt'', dget profile ''expiresAt''), (''accessToken'', JStr token)]"

definition verify_user :: "(string \<Rightarrow> json option) \<Rightarrow> server \<Rightarrow> run_input \<Rightarrow> acceptance_user \<times> string \<Rightarrow> dict driver" where
  "verify_user parse server ri = (\<lambda>(user, token).
    bind (request_json parse server ''GET'' (ri_base_url ri @ ''/api/v1/auth/me'') (bearer token) None) (\<lambda>profile.
    bind (lift_res (profile_matches ri user profile)) (\<lambda>matches.
    bind (check_that matches (''authorization profile verification failed for user '' @ au_label user)) (\<lambda>_.
    give (handoff_user user token profile)))))"

fun map_driver :: "('a \<Rightarrow> 'b driver) \<Rightarrow> 'a list \<Rightarrow> 'b list driver" where
  "map_driver f [] = give []"
| "map_driver f (x # xs) = bind (f x) (\<lambda>y. bind (map_driver f xs) (\<lambda>ys. give (y # ys)))"

definition revisions_of :: "dict list \<Rightarrow> int list" where
  "revisions_of entries = remdups (List.map_filter (\<lambda>u. any_int (dget u ''authorizationRevision'')) entries)"

definition handoff_json :: "run_input \<Rightarrow> dict \<Rightarrow> string \<Rightarrow> dict list \<Rightarrow> dict" where
  "handoff_json ri version cursor entries =
    [(''format'', JStr ''vitrial.two-user-acceptance.v2''), (''createdAt'', JStr (ri_created_at ri)), (''baseURL'', JStr (ri_base_url ri)),
     (''apiVersion'', dget version ''apiVersion''), (''serviceVersion'', dget version ''serviceVersion''), (''runID'', JStr (ri_run_id ri)),
     (''organizationID'', JStr (run_organization ri)), (''customerID'', JStr (run_customer ri)), (''projectID'', JStr (run_project ri)),
     (''seedCursor'', JStr cursor), (''capabilities'', JList (map JStr (ri_capabilities ri))),
     (''sharedProjectVerifiedFromUserB'', JBool True), (''users'', JList (map JObj entries))]"

text \<open>The body of \<open>main\<close> inside its handler, up to the writing of the file.\<close>

definition acceptance_run :: "(string \<Rightarrow> json option) \<Rightarrow> server \<Rightarrow> run_input \<Rightarrow> dict driver" where
  "acceptance_run parse server ri =
    bind (request_json parse server ''GET'' (ri_base_url ri @ ''/health'') [] None) (\<lambda>health.
    bind (request_json parse server ''GET'' (ri_base_url ri @ ''/api/v1/version'') [] None) (\<lambda>version.
    bind (check_that (dget health ''status'' = JStr ''ok'' \<and> dget version ''apiVersion'' = JStr ''v1'')
      ''target did not report healthy V1 service identity'') (\<lambda>_.
    bind (map_driver (bootstrap_user parse server ri) (acceptance_users (ri_run_id ri))) (\<lambda>tokens.
    bind (seed_shared_project parse server ri (tokens ! 0)) (\<lambda>cursor.
    bind (pull_visible_entity_ids parse server ri (tokens ! 1)) (\<lambda>visible.
    bind (check_that (run_customer ri \<in> set visible \<and> run_project ri \<in> set visible)
      ''operator B cannot pull the canonical shared Customer/Project'') (\<lambda>_.
    bind (map_driver (verify_user parse server ri) (zip (acceptance_users (ri_run_id ri)) tokens)) (\<lambda>entries.
    bind (check_that (length (revisions_of entries) = 1) ''acceptance users do not observe one current authorizationRevision'') (\<lambda>_.
    give (handoff_json ri version cursor entries))))))))))"

section \<open>The command\<close>

record acceptance_args =
  aa_base_url :: string
  aa_output :: string
  aa_admin_key_env :: string
  aa_run_id :: "string option"
  aa_organization_name :: string
  aa_session_ttl_seconds :: int
  aa_allow_http_localhost :: bool

text \<open>\<open>dr_error\<close> is what ended a run after its calls began; a refused argument exits with 2 before.\<close>

record driver_result =
  dr_exit :: int
  dr_calls :: "http_call list"
  dr_stdout :: "string list"
  dr_error :: "driver_error option"
  dr_handoff :: "dict option"

definition refused :: driver_result where
  "refused = \<lparr>dr_exit = 2, dr_calls = [], dr_stdout = [], dr_error = None, dr_handoff = None\<rparr>"

definition completion_lines :: "run_input \<Rightarrow> string \<Rightarrow> string list" where
  "completion_lines ri out =
    [''Two-user Vitrial acceptance bootstrap complete.'', ''  organization: '' @ run_organization ri, ''  customer:     '' @ run_customer ri,
     ''  project:      '' @ run_project ri @ '' (canonical and visible to both users)'',
     ''  handoff:      '' @ out @ '' (0600; contains bearer tokens)'']"

definition run_input_of :: "acceptance_args \<Rightarrow> string \<Rightarrow> string \<Rightarrow> string list \<Rightarrow> string list \<Rightarrow> string \<Rightarrow> string \<Rightarrow> string \<Rightarrow> run_input" where
  "run_input_of args base key caps required new_run_id updated_at created_at =
    \<lparr>ri_base_url = base, ri_admin_key = key,
     ri_run_id = (case aa_run_id args of None \<Rightarrow> new_run_id | Some r \<Rightarrow> if r = [] then new_run_id else r),
     ri_organization_name = aa_organization_name args, ri_session_ttl_seconds = aa_session_ttl_seconds args,
     ri_capabilities = caps, ri_required = required, ri_updated_at = updated_at, ri_created_at = created_at\<rparr>"

text \<open>\<open>disk\<close> is the exception that ended the writing of the handoff file, if one did; it is not a \<open>RuntimeError\<close>.\<close>

definition acceptance_main :: "(string \<Rightarrow> json option) \<Rightarrow> server \<Rightarrow> exn option \<Rightarrow> string list \<Rightarrow> string list \<Rightarrow> environ \<Rightarrow> string \<Rightarrow> string \<Rightarrow> string \<Rightarrow> acceptance_args
    \<Rightarrow> driver_result" where
  "acceptance_main parse server disk caps required env new_run_id updated_at created_at args =
    (case validated_base_url (aa_base_url args) (aa_allow_http_localhost args) of
       Inl _ \<Rightarrow> refused
     | Inr base \<Rightarrow>
        if \<not> (300 \<le> aa_session_ttl_seconds args \<and> aa_session_ttl_seconds args \<le> 30 * 24 * 60 * 60) then refused
        else (case env (aa_admin_key_env args) of
            None \<Rightarrow> refused
          | Some key \<Rightarrow> if key = [] then refused
              else let ri = run_input_of args base key caps required new_run_id updated_at created_at in
                (case acceptance_run parse server ri [] of
                   (calls, Inl e) \<Rightarrow> \<lparr>dr_exit = 1, dr_calls = calls, dr_stdout = [], dr_error = Some e, dr_handoff = None\<rparr>
                 | (calls, Inr handoff) \<Rightarrow> (case disk of
                     Some e \<Rightarrow> \<lparr>dr_exit = 1, dr_calls = calls, dr_stdout = [], dr_error = Some (Uncaught e), dr_handoff = None\<rparr>
                   | None \<Rightarrow> \<lparr>dr_exit = 0, dr_calls = calls, dr_stdout = completion_lines ri (aa_output args),
                     dr_error = None, dr_handoff = Some handoff\<rparr>))))"

definition two_user_main :: "(string \<Rightarrow> json option) \<Rightarrow> server \<Rightarrow> exn option \<Rightarrow> environ \<Rightarrow> string \<Rightarrow> string \<Rightarrow> string \<Rightarrow> acceptance_args \<Rightarrow> driver_result" where
  "two_user_main parse server disk = acceptance_main parse server disk DEFAULT_CAPABILITIES []"

definition delivery_main :: "(string \<Rightarrow> json option) \<Rightarrow> server \<Rightarrow> exn option \<Rightarrow> environ \<Rightarrow> string \<Rightarrow> string \<Rightarrow> string \<Rightarrow> acceptance_args \<Rightarrow> driver_result" where
  "delivery_main parse server disk = acceptance_main parse server disk delivery_capabilities DELIVERY_ACCEPTANCE_CAPABILITIES"

text \<open>
  The handoff file, by mode and content after each system call. \<open>os.open\<close> applies its mode to a new
  file only; the mode of an existing file is changed after the content is written.
\<close>

definition private_write_json :: "(nat \<times> string) option \<Rightarrow> string \<Rightarrow> bool \<Rightarrow> (nat \<times> string) option list" where
  "private_write_json existing text fails =
    (let mode = (case existing of None \<Rightarrow> 384 | Some (m, old) \<Rightarrow> m) in
     if fails then [Some (mode, []), None] else [Some (mode, []), Some (mode, text), Some (384, text)])"

end
