(* ===== verification/Acceptance_Properties.thy ===== *)
theory Acceptance_Properties
  imports Acceptance
begin

text \<open>
  What the acceptance drivers promise against any service: where the secrets go, redirects included, what an error
  names, and that a handoff is written only after every answer was checked. The locale \<open>call_policy\<close> carries a property
  of the single requests to a whole run.
\<close>

section \<open>Runs\<close>

text \<open>The call of a request and the object of a reply.\<close>

definition call_of :: "string \<Rightarrow> string \<Rightarrow> (string \<times> string) list \<Rightarrow> json option \<Rightarrow> http_call" where
  "call_of verb url headers payload =
     \<lparr>hc_method = verb, hc_url = url, hc_headers = headers_of headers payload, hc_payload = payload\<rparr>"

definition reply_object :: "(string \<Rightarrow> json option) \<Rightarrow> http_reply \<Rightarrow> dict option" where
  "reply_object parse reply = (case reply of
     RawBody raw \<Rightarrow> (case (if raw = [] then Some (JObj []) else parse raw) of Some (JObj d) \<Rightarrow> Some d | _ \<Rightarrow> None)
   | _ \<Rightarrow> None)"

named_theorems run_simps \<open>when a step of the driver succeeds\<close>

lemma bind_ok [run_simps]:
  "bind m f calls = (calls', Inr y) \<longleftrightarrow> (\<exists>calls1 x. m calls = (calls1, Inr x) \<and> f x calls1 = (calls', Inr y))"
  by (auto simp: bind_def split: prod.splits sum.splits)

lemma give_ok [run_simps]: "give x calls = (calls', Inr y) \<longleftrightarrow> calls' = calls \<and> y = x"
  by (auto simp: give_def)

lemma fail_ok [run_simps]: "fail e calls = (calls', Inr y) \<longleftrightarrow> False"
  by (simp add: fail_def)

lemma check_ok [run_simps]: "check_that c message calls = (calls', Inr y) \<longleftrightarrow> c \<and> calls' = calls"
  by (auto simp: check_that_def run_simps)

lemma lift_ok [run_simps]: "lift_res r calls = (calls', Inr y) \<longleftrightarrow> r = ok y \<and> calls' = calls"
  by (auto simp: lift_res_def run_simps split: sum.splits)

lemma string_ok [run_simps]:
  "(case v of JStr t \<Rightarrow> f t | _ \<Rightarrow> fail e) calls = (calls', Inr y) \<longleftrightarrow> (\<exists>t. v = JStr t \<and> f t calls = (calls', Inr y))"
  by (cases v) (simp_all add: fail_ok)

lemma list_ok [run_simps]:
  "(case v of JList t \<Rightarrow> f t | _ \<Rightarrow> fail e) calls = (calls', Inr y) \<longleftrightarrow> (\<exists>t. v = JList t \<and> f t calls = (calls', Inr y))"
  by (cases v) (simp_all add: fail_ok)

lemma choice_ok [run_simps]:
  "(if c then give x else fail e) calls = (calls', Inr y) \<longleftrightarrow> c \<and> calls' = calls \<and> y = x"
  by (auto simp: give_ok fail_ok)

text \<open>One request with its redirects, and the object it answers with.\<close>

definition exchange :: "(string \<Rightarrow> json option) \<Rightarrow> server \<Rightarrow> http_call list \<Rightarrow> http_call \<Rightarrow> (dict \<times> http_call list) option" where
  "exchange parse server before call =
    (if find illegal_header_value (map snd (hc_headers call)) \<noteq> None then None
     else (case open_url server [] call before of (after, reply) \<Rightarrow> map_option (\<lambda>d. (d, after)) (reply_object parse reply)))"

fun exchanges :: "(string \<Rightarrow> json option) \<Rightarrow> server \<Rightarrow> http_call list \<Rightarrow> http_call list \<Rightarrow> (dict list \<times> http_call list) option" where
  "exchanges parse server before [] = Some ([], before)"
| "exchanges parse server before (call # calls) =
    (case exchange parse server before call of
       None \<Rightarrow> None
     | Some (d, after) \<Rightarrow> map_option (\<lambda>(ds, final). (d # ds, final)) (exchanges parse server after calls))"

lemma request_ok [run_simps]:
  "request_json parse server verb url headers payload calls = (calls', Inr d) \<longleftrightarrow>
    exchange parse server calls (call_of verb url headers payload) = Some (d, calls')"
  by (auto simp: request_json_def exchange_def call_of_def reply_object_def Let_def
      split: http_reply.splits option.splits json.splits prod.splits)

section \<open>Redirects\<close>

text \<open>The call is the one before it, sent again where the service redirected it, as a \<open>GET\<close> without a body.\<close>

definition redirected_from :: "server \<Rightarrow> http_call list \<Rightarrow> nat \<Rightarrow> bool" where
  "redirected_from server calls i \<longleftrightarrow>
    (\<exists>j code. i = Suc j \<and> code \<in> {301, 302, 303, 307, 308}
       \<and> server (take j calls) (calls ! j) = Redirect code (hc_url (calls ! i))
       \<and> hc_method (calls ! i) = ''GET'' \<and> hc_payload (calls ! i) = None
       \<and> set (hc_headers (calls ! i)) \<subseteq> set (hc_headers (calls ! j)))"

lemma redirected_from_append: "i < length calls \<Longrightarrow> redirected_from server (calls @ others) i \<longleftrightarrow> redirected_from server calls i"
  by (auto simp: redirected_from_def nth_append)

lemma open_url_trail:
  "open_url server visited call calls = (calls', reply) \<Longrightarrow>
    (\<exists>others. calls' = calls @ call # others \<and> (\<forall>i. length calls < i \<and> i < length calls' \<longrightarrow> redirected_from server calls' i))"
proof (induction server visited call calls arbitrary: calls' reply rule: open_url.induct)
  case (1 server visited call calls)
  show ?case
  proof (cases "\<exists>code target call'. server calls call = Redirect code target \<and> redirect_request call visited code target = ok (Some call')")
    case True
    then obtain code target call' where followed: "server calls call = Redirect code target"
      "redirect_request call visited code target = ok (Some call')" by blast
    with "1.prems" have rest: "open_url server (visited @ [target]) call' (calls @ [call]) = (calls', reply)"
      by (subst (asm) open_url.simps) simp
    from "1.IH" [OF followed(1) followed(2) refl rest] obtain others where others: "calls' = (calls @ [call]) @ call' # others"
      and later: "\<And>i. length (calls @ [call]) < i \<Longrightarrow> i < length calls' \<Longrightarrow> redirected_from server calls' i" by blast
    from followed(2) have "code \<in> {301, 302, 303, 307, 308}" "hc_url call' = target" "hc_method call' = ''GET''" "hc_payload call' = None"
      "set (hc_headers call') \<subseteq> set (hc_headers call)"
      by (auto simp: redirect_request_def redirected_def ebind_def split: if_splits sum.splits)
    then have "redirected_from server calls' (Suc (length calls))"
      using followed(1) unfolding redirected_from_def others by (intro exI [of _ "length calls"] exI [of _ code]) (simp add: nth_append)
    with later have "\<forall>i. length calls < i \<and> i < length calls' \<longrightarrow> redirected_from server calls' i"
      by (metis Suc_lessI length_append_singleton)
    with others show ?thesis by auto
  next
    case False
    with "1.prems" have "calls' = calls @ [call]"
      by (subst (asm) open_url.simps) (auto split: http_reply.splits sum.splits option.splits)
    then show ?thesis by auto
  qed
qed

lemma open_url_reason: "open_url server visited call calls = (calls', Unreachable reason) \<Longrightarrow> \<exists>before call. server before call = Unreachable reason"
proof (induction server visited call calls arbitrary: calls' rule: open_url.induct)
  case (1 server visited call calls)
  from "1.prems" show ?case
    by (subst (asm) open_url.simps) (auto split: http_reply.splits sum.splits option.splits dest: "1.IH")
qed

lemma open_url_direct:
  "(\<And>code target. server calls call \<noteq> Redirect code target) \<Longrightarrow> open_url server visited call calls = (calls @ [call], server calls call)"
  by (subst open_url.simps) (auto split: http_reply.split)

lemma exchanges_direct:
  assumes "\<And>before call code target. server before call \<noteq> Redirect code target"
  shows "exchanges parse server before calls = Some (ds, final) \<Longrightarrow> final = before @ calls"
proof (induction calls arbitrary: before ds)
  case (Cons call calls)
  then show ?case by (fastforce simp: exchange_def open_url_direct [OF assms] split: if_splits option.splits)
qed simp

section \<open>Policies\<close>

text \<open>What an error may name: the request, a status code, a reason of the client library, a fixed text; a refused header value names itself.\<close>

definition protocol_paths :: "string list" where
  "protocol_paths = [''/health'', ''/api/v1/version'', ''/internal/admin/v1/bootstrap'', ''/api/v1/sync/push'',
     ''/api/v1/sync/pull?cursor=seq%3A0'', ''/api/v1/auth/me'']"

definition fixed_messages :: "string list" where
  "fixed_messages = [''target did not report healthy V1 service identity'',
     ''bootstrap for user A did not return an access token'', ''bootstrap for user B did not return an access token'',
     ''shared Customer/Project bootstrap was not fully accepted'', ''shared Customer/Project bootstrap did not return a valid sync cursor'',
     ''sync pull did not return a records array'', ''operator B cannot pull the canonical shared Customer/Project'',
     ''authorization profile verification failed for user A'', ''authorization profile verification failed for user B'',
     ''acceptance users do not observe one current authorizationRevision'']"

definition request_message :: "server \<Rightarrow> string \<Rightarrow> bool" where
  "request_message server text \<longleftrightarrow> text \<in> {'' returned invalid JSON'', '' returned a non-object JSON response''}
     \<or> (\<exists>code. text = '' returned HTTP '' @ show_int (int code))
     \<or> (\<exists>reason before call. server before call = Unreachable reason \<and> text = '' failed: '' @ reason)"

definition reported :: "server \<Rightarrow> run_input \<Rightarrow> driver_error \<Rightarrow> bool" where
  "reported server ri e = (case e of
     Failure m \<Rightarrow> m \<in> set fixed_messages
       \<or> (\<exists>verb path text. verb \<in> {''GET'', ''POST''} \<and> path \<in> set protocol_paths \<and> request_message server text
            \<and> m = verb @ '' '' @ ri_base_url ri @ path @ text)
   | IllegalHeader v \<Rightarrow> illegal_header_value v \<and> (v = ri_admin_key ri \<or> prefix ''Bearer '' v)
   | Uncaught _ \<Rightarrow> True)"

text \<open>A policy that admits the public calls, the bootstrap calls with the admin key and the calls with a token.\<close>

locale call_policy =
  fixes ri :: run_input and allowed :: "http_call \<Rightarrow> bool"
  assumes public_call: "path \<in> {''/health'', ''/api/v1/version''} \<Longrightarrow> allowed (call_of ''GET'' (ri_base_url ri @ path) [] None)"
    and admin_call: "allowed (call_of ''POST'' (ri_base_url ri @ ''/internal/admin/v1/bootstrap'')
      [(''X-Vitrial-Admin-Key'', ri_admin_key ri)] (Some (bootstrap_payload ri user)))"
    and bearer_call: "path \<in> {''/api/v1/sync/push'', ''/api/v1/sync/pull?cursor=seq%3A0'', ''/api/v1/auth/me''} \<Longrightarrow>
      allowed (call_of verb (ri_base_url ri @ path) (bearer token) payload)"
begin

definition trail :: "server \<Rightarrow> http_call list \<Rightarrow> bool" where
  "trail server calls \<longleftrightarrow> (\<forall>i < length calls. allowed (calls ! i) \<or> redirected_from server calls i)"

definition keeps :: "server \<Rightarrow> 'a driver \<Rightarrow> bool" where
  "keeps server m \<longleftrightarrow> (\<forall>calls. trail server calls \<longrightarrow>
     trail server (fst (m calls)) \<and> (\<forall>e. snd (m calls) = Inl e \<longrightarrow> reported server ri e))"

lemma keeps_give [intro, simp]: "keeps server (give x)"
  by (simp add: keeps_def give_def)

lemma keeps_fail [intro]: "reported server ri e \<Longrightarrow> keeps server (fail e)"
  by (simp add: keeps_def fail_def)

lemma keeps_check [intro]: "message \<in> set fixed_messages \<Longrightarrow> keeps server (check_that c message)"
  by (simp add: check_that_def reported_def keeps_fail)

lemma keeps_lift [intro, simp]: "keeps server (lift_res r)"
  by (auto simp: lift_res_def reported_def split: sum.splits)

lemma keeps_bind [intro]: "keeps server m \<Longrightarrow> (\<And>x. keeps server (f x)) \<Longrightarrow> keeps server (bind m f)"
  by (fastforce simp: keeps_def bind_def split: prod.splits sum.splits)

lemma trail_open:
  assumes "trail server calls" "allowed call" "open_url server [] call calls = (calls', reply)"
  shows "trail server calls'"
proof -
  from open_url_trail [OF assms(3)] obtain others where others: "calls' = calls @ call # others"
    and later: "\<And>i. length calls < i \<Longrightarrow> i < length calls' \<Longrightarrow> redirected_from server calls' i" by blast
  have "allowed (calls' ! i) \<or> redirected_from server calls' i" if "i < length calls'" for i
    using that later [of i] assms(1,2) redirected_from_append [of i calls server "call # others"]
    by (cases i "length calls" rule: linorder_cases) (auto simp: trail_def others nth_append)
  then show ?thesis by (simp add: trail_def)
qed

lemma keeps_request:
  assumes "verb \<in> {''GET'', ''POST''}" "path \<in> set protocol_paths"
    and allowed: "allowed (call_of verb (ri_base_url ri @ path) headers payload)"
    and sent: "\<And>v. v \<in> snd ` set headers \<Longrightarrow> v = ri_admin_key ri \<or> prefix ''Bearer '' v"
  shows "keeps server (request_json parse server verb (ri_base_url ri @ path) headers payload)"
  unfolding keeps_def
proof (intro allI impI)
  fix calls assume trail: "trail server calls"
  let ?call = "call_of verb (ri_base_url ri @ path) headers payload"
  have says: "reported server ri (Failure (verb @ '' '' @ (ri_base_url ri @ path) @ t))" if "request_message server t" for t
    using assms(1,2) that by (auto simp: reported_def)
  show "trail server (fst (request_json parse server verb (ri_base_url ri @ path) headers payload calls))
    \<and> (\<forall>e. snd (request_json parse server verb (ri_base_url ri @ path) headers payload calls) = Inl e \<longrightarrow> reported server ri e)"
  proof (cases "find illegal_header_value (map snd (hc_headers ?call))")
    case None
    obtain calls' reply where opened: "open_url server [] ?call calls = (calls', reply)" by fastforce
    from says [of "'' returned HTTP '' @ show_int (int code)" for code] says [of "'' returned invalid JSON''"]
      says [of "'' returned a non-object JSON response''"] says [of "'' failed: '' @ reason" for reason]
      open_url_reason [of server "[]" ?call calls calls'] opened
    show ?thesis using None trail_open [OF trail allowed opened]
      by (auto simp: request_json_def Let_def call_of_def request_message_def reported_def [of _ _ "Uncaught _"]
          split: http_reply.splits option.splits json.splits if_splits)
  next
    case (Some v)
    then have "illegal_header_value v" "v \<in> snd ` set (hc_headers ?call)" by (auto simp: find_Some_iff)
    with sent [of v] have "reported server ri (IllegalHeader v)"
      by (auto simp: reported_def call_of_def headers_of_def split: option.splits)
    with Some trail show ?thesis by (simp add: request_json_def Let_def call_of_def)
  qed
qed

lemma keeps_map: "(\<And>x. x \<in> set xs \<Longrightarrow> keeps server (f x)) \<Longrightarrow> keeps server (map_driver f xs)"
  by (induction xs) (auto intro!: keeps_bind)

lemma keeps_public: "path \<in> {''/health'', ''/api/v1/version''} \<Longrightarrow> keeps server (request_json parse server ''GET'' (ri_base_url ri @ path) [] None)"
  by (rule keeps_request) (auto simp: protocol_paths_def intro: public_call)

lemma keeps_bearer:
  "verb \<in> {''GET'', ''POST''} \<Longrightarrow> path \<in> {''/api/v1/sync/push'', ''/api/v1/sync/pull?cursor=seq%3A0'', ''/api/v1/auth/me''} \<Longrightarrow>
    keeps server (request_json parse server verb (ri_base_url ri @ path) (bearer token) payload)"
  by (rule keeps_request [OF _ _ bearer_call]) (auto simp: protocol_paths_def bearer_def)

lemma keeps_bootstrap: "user \<in> set (acceptance_users run) \<Longrightarrow> keeps server (bootstrap_user parse server ri user)"
  unfolding bootstrap_user_def
  by (intro keeps_bind keeps_request admin_call)
    (auto simp: protocol_paths_def acceptance_users_def reported_def fixed_messages_def split: json.split)

lemma keeps_seed: "keeps server (seed_shared_project parse server ri token)"
proof -
  have "keeps server (seed_verdict ri result)" for result
    unfolding seed_verdict_def
    by (intro keeps_bind keeps_lift keeps_check) (auto simp: reported_def fixed_messages_def split: json.split)
  then show ?thesis unfolding seed_shared_project_def by (intro keeps_bind keeps_bearer) auto
qed

lemma keeps_pull: "keeps server (pull_visible_entity_ids parse server ri token)"
  unfolding pull_visible_entity_ids_def
  by (intro keeps_bind keeps_bearer) (auto simp: reported_def fixed_messages_def split: json.split)

lemma keeps_verify: "fst pair \<in> set (acceptance_users run) \<Longrightarrow> keeps server (verify_user parse server ri pair)"
  unfolding verify_user_def
  by (cases pair) (auto intro!: keeps_bind keeps_bearer keeps_check simp: acceptance_users_def fixed_messages_def)

lemma keeps_run: "keeps server (acceptance_run parse server ri)"
proof -
  have "keeps server (map_driver (verify_user parse server ri) (zip (acceptance_users run) tokens))" for run tokens
    by (rule keeps_map) (auto intro!: keeps_verify [of _ run] dest: set_zip_leftD)
  moreover have "keeps server (map_driver (bootstrap_user parse server ri) (acceptance_users run))" for run
    by (rule keeps_map) (rule keeps_bootstrap)
  ultimately show ?thesis
    unfolding acceptance_run_def
    by (intro keeps_bind keeps_public keeps_check keeps_seed keeps_pull) (auto simp: fixed_messages_def)
qed

lemma run_calls: "acceptance_run parse server ri [] = (calls, out) \<Longrightarrow> i < length calls \<Longrightarrow> allowed (calls ! i) \<or> redirected_from server calls i"
  using keeps_run [of server parse] by (auto simp: keeps_def trail_def dest!: spec [of _ "[]"])

lemma run_error: "acceptance_run parse server ri [] = (calls, Inl e) \<Longrightarrow> reported server ri e"
  using keeps_run [of server parse] by (auto simp: keeps_def trail_def dest!: spec [of _ "[]"])

end

text \<open>Every call goes to the origin, the admin key only to the bootstrap endpoint.\<close>

definition discreet :: "run_input \<Rightarrow> http_call \<Rightarrow> bool" where
  "discreet ri call \<longleftrightarrow> prefix (ri_base_url ri) (hc_url call)
    \<and> (''X-Vitrial-Admin-Key'' \<in> fst ` set (hc_headers call) \<longrightarrow> hc_url call = ri_base_url ri @ ''/internal/admin/v1/bootstrap'')"

interpretation secrets: call_policy ri "discreet ri" for ri
  by unfold_locales (auto simp: discreet_def call_of_def headers_of_def bearer_def split: option.split)

section \<open>Successful runs\<close>

text \<open>The calls of a complete run, in order, given the two tokens.\<close>

definition protocol_calls :: "run_input \<Rightarrow> string \<Rightarrow> string \<Rightarrow> http_call list" where
  "protocol_calls ri ta tb =
    (let url = (\<lambda>path. ri_base_url ri @ path);
         boot = (\<lambda>user. call_of ''POST'' (url ''/internal/admin/v1/bootstrap'') [(''X-Vitrial-Admin-Key'', ri_admin_key ri)]
           (Some (bootstrap_payload ri user)))
     in [call_of ''GET'' (url ''/health'') [] None, call_of ''GET'' (url ''/api/v1/version'') [] None,
         boot (acceptance_users (ri_run_id ri) ! 0), boot (acceptance_users (ri_run_id ri) ! 1),
         call_of ''POST'' (url ''/api/v1/sync/push'') (bearer ta) (Some (seed_batch ri)),
         call_of ''GET'' (url ''/api/v1/sync/pull?cursor=seq%3A0'') (bearer tb) None,
         call_of ''GET'' (url ''/api/v1/auth/me'') (bearer ta) None, call_of ''GET'' (url ''/api/v1/auth/me'') (bearer tb) None])"

text \<open>
  What the service answered in a run that was handed over, redirects followed: it is healthy and speaks V1, issued both tokens,
  accepted exactly the two records of A, showed both entities to B, and returned matching profiles with one
  revision. A service that does not redirect has seen the calls of the protocol and no others.
\<close>

definition verified_run :: "(string \<Rightarrow> json option) \<Rightarrow> server \<Rightarrow> run_input \<Rightarrow> http_call list \<Rightarrow> dict \<Rightarrow> bool" where
  "verified_run parse server ri calls handoff \<longleftrightarrow>
    (\<exists>ta tb health version boot_a boot_b seed page pa pb cursor accepted records entries.
       exchanges parse server [] (protocol_calls ri ta tb) = Some ([health, version, boot_a, boot_b, seed, page, pa, pb], calls)
       \<and> ((\<forall>before call code target. server before call \<noteq> Redirect code target) \<longrightarrow> calls = protocol_calls ri ta tb)
       \<and> dget health ''status'' = JStr ''ok'' \<and> dget version ''apiVersion'' = JStr ''v1''
       \<and> dget boot_a ''accessToken'' = JStr ta \<and> ta \<noteq> [] \<and> dget boot_b ''accessToken'' = JStr tb \<and> tb \<noteq> []
       \<and> json_set (dget_default seed ''acceptedRecordIDs'' (JList [])) = ok accepted
       \<and> set accepted = {JStr (customer_record_id ri), JStr (project_record_id ri)}
       \<and> json_set (dget_default seed ''rejectedRecordIDs'' (JList [])) = ok []
       \<and> dget seed ''nextCursor'' = JStr cursor \<and> prefix ''seq:'' cursor
       \<and> dget page ''records'' = JList records \<and> {run_customer ri, run_project ri} \<subseteq> set (List.map_filter record_entity records)
       \<and> profile_matches ri (acceptance_users (ri_run_id ri) ! 0) pa = ok True
       \<and> profile_matches ri (acceptance_users (ri_run_id ri) ! 1) pb = ok True
       \<and> entries = [handoff_user (acceptance_users (ri_run_id ri) ! 0) ta pa, handoff_user (acceptance_users (ri_run_id ri) ! 1) tb pb]
       \<and> length (revisions_of entries) = 1 \<and> handoff = handoff_json ri version cursor entries)"

lemma bootstrap_user_ok [run_simps]:
  "bootstrap_user parse server ri user calls = (calls', Inr token) \<longleftrightarrow>
    token \<noteq> [] \<and> (\<exists>d. exchange parse server calls (call_of ''POST'' (ri_base_url ri @ ''/internal/admin/v1/bootstrap'')
         [(''X-Vitrial-Admin-Key'', ri_admin_key ri)] (Some (bootstrap_payload ri user))) = Some (d, calls')
       \<and> dget d ''accessToken'' = JStr token)"
  unfolding bootstrap_user_def by (simp only: run_simps) auto

lemma seed_shared_project_ok [run_simps]:
  "seed_shared_project parse server ri token calls = (calls', Inr cursor) \<longleftrightarrow>
    prefix ''seq:'' cursor
    \<and> (\<exists>d accepted. exchange parse server calls
           (call_of ''POST'' (ri_base_url ri @ ''/api/v1/sync/push'') (bearer token) (Some (seed_batch ri))) = Some (d, calls')
        \<and> json_set (dget_default d ''acceptedRecordIDs'' (JList [])) = ok accepted
        \<and> json_set (dget_default d ''rejectedRecordIDs'' (JList [])) = ok []
        \<and> set accepted = {JStr (customer_record_id ri), JStr (project_record_id ri)} \<and> dget d ''nextCursor'' = JStr cursor)"
  unfolding seed_shared_project_def seed_verdict_def by (simp only: run_simps) auto

lemma pull_visible_ok [run_simps]:
  "pull_visible_entity_ids parse server ri token calls = (calls', Inr ids) \<longleftrightarrow>
    (\<exists>d records. exchange parse server calls
           (call_of ''GET'' (ri_base_url ri @ ''/api/v1/sync/pull?cursor=seq%3A0'') (bearer token) None) = Some (d, calls')
        \<and> dget d ''records'' = JList records \<and> ids = List.map_filter record_entity records)"
  unfolding pull_visible_entity_ids_def by (simp only: run_simps) auto

lemma verify_user_ok [run_simps]:
  "verify_user parse server ri (user, token) calls = (calls', Inr e) \<longleftrightarrow>
    (\<exists>p. exchange parse server calls (call_of ''GET'' (ri_base_url ri @ ''/api/v1/auth/me'') (bearer token) None) = Some (p, calls')
        \<and> profile_matches ri user p = ok True \<and> e = handoff_user user token p)"
  unfolding verify_user_def by (auto simp: run_simps)

lemma map_driver_pair [run_simps]:
  "map_driver f [x, y] calls = (calls', Inr r) \<longleftrightarrow>
    (\<exists>calls1 a b. f x calls = (calls1, Inr a) \<and> f y calls1 = (calls', Inr b) \<and> r = [a, b])"
  by (auto simp: run_simps)

lemma users_pair:
  "acceptance_users run = [acceptance_users run ! 0, acceptance_users run ! 1]"
  by (simp add: acceptance_users_def)

lemma successful_run:
  assumes "acceptance_run parse server ri [] = (calls, Inr handoff)"
  shows "verified_run parse server ri calls handoff"
proof -
  let ?a = "acceptance_users (ri_run_id ri) ! 0" and ?b = "acceptance_users (ri_run_id ri) ! 1"
  from assms obtain health c1 version c2 tokens c4 cursor c5 visible c6 entries where
    start: "exchange parse server [] (call_of ''GET'' (ri_base_url ri @ ''/health'') [] None) = Some (health, c1)"
      "exchange parse server c1 (call_of ''GET'' (ri_base_url ri @ ''/api/v1/version'') [] None) = Some (version, c2)"
      "dget health ''status'' = JStr ''ok''" "dget version ''apiVersion'' = JStr ''v1''"
    and boot: "map_driver (bootstrap_user parse server ri) (acceptance_users (ri_run_id ri)) c2 = (c4, Inr tokens)"
    and seed: "seed_shared_project parse server ri (tokens ! 0) c4 = (c5, Inr cursor)"
    and pull: "pull_visible_entity_ids parse server ri (tokens ! 1) c5 = (c6, Inr visible)"
      "run_customer ri \<in> set visible" "run_project ri \<in> set visible"
    and verify: "map_driver (verify_user parse server ri) (zip (acceptance_users (ri_run_id ri)) tokens) c6 = (calls, Inr entries)"
    and last: "length (revisions_of entries) = 1" "handoff = handoff_json ri version cursor entries"
    unfolding acceptance_run_def by (auto simp only: bind_ok request_ok check_ok give_ok)
  from boot obtain ta tb c3 where tokens: "tokens = [ta, tb]"
    and boots: "bootstrap_user parse server ri ?a c2 = (c3, Inr ta)" "bootstrap_user parse server ri ?b c3 = (c4, Inr tb)"
    by (subst (asm) users_pair) (auto simp only: map_driver_pair)
  have "zip (acceptance_users (ri_run_id ri)) tokens = [(?a, ta), (?b, tb)]"
    by (subst users_pair) (simp add: tokens)
  with verify obtain ea eb c7 where entries: "entries = [ea, eb]"
    and profiles: "verify_user parse server ri (?a, ta) c6 = (c7, Inr ea)" "verify_user parse server ri (?b, tb) c7 = (calls, Inr eb)"
    by (auto simp only: map_driver_pair)
  from boots obtain boot_a boot_b where issued:
    "exchange parse server c2 (call_of ''POST'' (ri_base_url ri @ ''/internal/admin/v1/bootstrap'')
       [(''X-Vitrial-Admin-Key'', ri_admin_key ri)] (Some (bootstrap_payload ri ?a))) = Some (boot_a, c3)"
    "exchange parse server c3 (call_of ''POST'' (ri_base_url ri @ ''/internal/admin/v1/bootstrap'')
       [(''X-Vitrial-Admin-Key'', ri_admin_key ri)] (Some (bootstrap_payload ri ?b))) = Some (boot_b, c4)"
    "dget boot_a ''accessToken'' = JStr ta" "ta \<noteq> []" "dget boot_b ''accessToken'' = JStr tb" "tb \<noteq> []"
    unfolding bootstrap_user_ok by blast
  from seed obtain d accepted where seeded_by:
    "exchange parse server c4 (call_of ''POST'' (ri_base_url ri @ ''/api/v1/sync/push'') (bearer ta) (Some (seed_batch ri))) = Some (d, c5)"
    "json_set (dget_default d ''acceptedRecordIDs'' (JList [])) = ok accepted" "json_set (dget_default d ''rejectedRecordIDs'' (JList [])) = ok []"
    "set accepted = {JStr (customer_record_id ri), JStr (project_record_id ri)}" "dget d ''nextCursor'' = JStr cursor" "prefix ''seq:'' cursor"
    unfolding seed_shared_project_ok tokens nth_Cons_0 by blast
  from pull obtain page records where pulled:
    "exchange parse server c5 (call_of ''GET'' (ri_base_url ri @ ''/api/v1/sync/pull?cursor=seq%3A0'') (bearer tb) None) = Some (page, c6)"
    "dget page ''records'' = JList records" "{run_customer ri, run_project ri} \<subseteq> set (List.map_filter record_entity records)"
    by (auto simp: pull_visible_ok tokens)
  from profiles obtain pa pb where checked:
    "exchange parse server c6 (call_of ''GET'' (ri_base_url ri @ ''/api/v1/auth/me'') (bearer ta) None) = Some (pa, c7)"
    "exchange parse server c7 (call_of ''GET'' (ri_base_url ri @ ''/api/v1/auth/me'') (bearer tb) None) = Some (pb, calls)"
    "profile_matches ri ?a pa = ok True" "profile_matches ri ?b pb = ok True" "ea = handoff_user ?a ta pa" "eb = handoff_user ?b tb pb"
    unfolding verify_user_ok by blast
  have all: "exchanges parse server [] (protocol_calls ri ta tb) = Some ([health, version, boot_a, boot_b, d, page, pa, pb], calls)"
    unfolding protocol_calls_def Let_def
    by (simp only: exchanges.simps option.case option.map prod.case start(1,2) issued(1,2) seeded_by(1) pulled(1) checked(1,2))
  have "calls = protocol_calls ri ta tb" if "\<forall>before call code target. server before call \<noteq> Redirect code target"
    using exchanges_direct [OF _ all] that by simp
  with all start(3,4) issued(3-6) seeded_by(2-6) pulled(2,3) checked(3-6) last entries show ?thesis
    unfolding verified_run_def by blast
qed

section \<open>The command\<close>

text \<open>A trusted origin: https, or plain http to the machine itself when that was asked for.\<close>

definition trusted_origin :: "bool \<Rightarrow> string \<Rightarrow> bool" where
  "trusted_origin local base \<longleftrightarrow> (\<exists>u. urlparse base = ok u \<and> url_netloc u \<noteq> []
     \<and> (url_scheme u = ''https'' \<or> local \<and> url_scheme u = ''http'' \<and> hostname u \<in> Some ` {''localhost'', ''127.0.0.1'', ''::1''}))"

lemma validated_trusted: "validated_base_url v local = ok base \<Longrightarrow> trusted_origin local base"
  by (auto simp: validated_base_url_def trusted_origin_def res_simps Let_def split: if_splits)

lemma acceptance_main_cases [consumes 1]:
  assumes r_def: "acceptance_main parse server disk caps required env new_run_id updated_at created_at args = r"
  obtains (refused) "r = refused"
  | (run) base key calls out where "trusted_origin (aa_allow_http_localhost args) base" "env (aa_admin_key_env args) = Some key"
    "acceptance_run parse server (run_input_of args base key caps required new_run_id updated_at created_at) [] = (calls, out)"
    "r = (case out of
       Inl e \<Rightarrow> \<lparr>dr_exit = 1, dr_calls = calls, dr_stdout = [], dr_error = Some e, dr_handoff = None\<rparr>
     | Inr handoff \<Rightarrow> (case disk of
         Some e \<Rightarrow> \<lparr>dr_exit = 1, dr_calls = calls, dr_stdout = [], dr_error = Some (Uncaught e), dr_handoff = None\<rparr>
       | None \<Rightarrow> \<lparr>dr_exit = 0, dr_calls = calls,
         dr_stdout = completion_lines (run_input_of args base key caps required new_run_id updated_at created_at) (aa_output args),
         dr_error = None, dr_handoff = Some handoff\<rparr>))"
proof (cases "validated_base_url (aa_base_url args) (aa_allow_http_localhost args)")
  case (Inr base)
  show thesis
  proof (cases "r = Acceptance.refused")
    case False
    then obtain key where key: "env (aa_admin_key_env args) = Some key"
      and r: "r = (case acceptance_run parse server (run_input_of args base key caps required new_run_id updated_at created_at) [] of
                   (calls, Inl e) \<Rightarrow> \<lparr>dr_exit = 1, dr_calls = calls, dr_stdout = [], dr_error = Some e, dr_handoff = None\<rparr>
                 | (calls, Inr handoff) \<Rightarrow> (case disk of
                     Some e \<Rightarrow> \<lparr>dr_exit = 1, dr_calls = calls, dr_stdout = [], dr_error = Some (Uncaught e), dr_handoff = None\<rparr>
                   | None \<Rightarrow> \<lparr>dr_exit = 0, dr_calls = calls,
                     dr_stdout = completion_lines (run_input_of args base key caps required new_run_id updated_at created_at) (aa_output args),
                     dr_error = None, dr_handoff = Some handoff\<rparr>))"
      using Inr by (auto simp: r_def [symmetric] acceptance_main_def Let_def split: option.splits if_splits)
    obtain calls out where run: "acceptance_run parse server (run_input_of args base key caps required new_run_id updated_at created_at) [] = (calls, out)"
      by fastforce
    show thesis
      by (rule that(2) [OF validated_trusted [OF Inr] key run]) (cases out, simp_all add: r run)
  qed (rule that(1))
qed (use that(1) in \<open>simp add: r_def [symmetric] acceptance_main_def\<close>)

text \<open>The calls of a command: each goes to the origin, or where the service redirected the call before it.\<close>

definition discreet_calls :: "server \<Rightarrow> bool \<Rightarrow> http_call list \<Rightarrow> bool" where
  "discreet_calls server local calls \<longleftrightarrow>
    (\<exists>base. trusted_origin local base \<and> (\<forall>i < length calls. redirected_from server calls i
       \<or> prefix base (hc_url (calls ! i))
         \<and> (''X-Vitrial-Admin-Key'' \<in> fst ` set (hc_headers (calls ! i)) \<longrightarrow> hc_url (calls ! i) = base @ ''/internal/admin/v1/bootstrap'')))"

lemma run_discreet:
  assumes "trusted_origin local (ri_base_url ri)" "acceptance_run parse server ri [] = (calls, out)"
  shows "discreet_calls server local calls"
  unfolding discreet_calls_def using assms(1) secrets.run_calls [OF assms(2)] unfolding discreet_def by blast

lemma main_verified:
  assumes "acceptance_main parse server disk caps required env new_run_id updated_at created_at args = r"
  shows "(dr_calls r = [] \<or> discreet_calls server (aa_allow_http_localhost args) (dr_calls r))
    \<and> (dr_exit r = 0 \<longleftrightarrow> dr_handoff r \<noteq> None)
    \<and> (\<forall>handoff. dr_handoff r = Some handoff \<longrightarrow>
        (\<exists>base key. verified_run parse server (run_input_of args base key caps required new_run_id updated_at created_at) (dr_calls r) handoff)
        \<and> (\<forall>base' key'. dr_stdout r
               = completion_lines (run_input_of args base' key' caps required new_run_id updated_at created_at) (aa_output args)))
    \<and> (dr_exit r \<noteq> 0 \<longrightarrow> dr_stdout r = [])
    \<and> (\<forall>e. dr_error r = Some e \<longrightarrow> (\<exists>base key. trusted_origin (aa_allow_http_localhost args) base \<and> env (aa_admin_key_env args) = Some key
        \<and> reported server (run_input_of args base key caps required new_run_id updated_at created_at) e))"
  using assms
proof (cases rule: acceptance_main_cases)
  case (run base key calls out)
  let ?ri = "run_input_of args base key caps required new_run_id updated_at created_at"
  have "ri_base_url ?ri = base" by (simp add: run_input_of_def)
  then have discreet: "discreet_calls server (aa_allow_http_localhost args) (dr_calls r)"
    using run_discreet [OF _ run(3)] run(1,4) by (simp split: sum.splits option.splits)
  have lines: "completion_lines ?ri (aa_output args)
      = completion_lines (run_input_of args base' key' caps required new_run_id updated_at created_at) (aa_output args)" for base' key'
    by (simp add: completion_lines_def run_input_of_def run_organization_def run_customer_def run_project_def)
  show ?thesis
  proof (cases out)
    case (Inl e)
    with run(3) have "reported server ?ri e" by (simp add: secrets.run_error)
    with Inl discreet run(1,2,4) show ?thesis by auto
  next
    case (Inr handoff)
    with run(3) have verified: "verified_run parse server ?ri calls handoff" by (simp add: successful_run)
    show ?thesis
    proof (cases disk)
      case None
      with run(4) Inr have r: "dr_calls r = calls" "dr_stdout r = completion_lines ?ri (aa_output args)" "dr_handoff r = Some handoff"
        "dr_exit r = 0" "dr_error r = None" by simp_all
      show ?thesis using discreet verified lines unfolding r by auto
    next
      case (Some e)
      then show ?thesis using run(1,2,4) Inr discreet by (auto simp: reported_def)
    qed
  qed
qed (simp add: Acceptance.refused_def)

text \<open>
  C28. The acceptance bootstrap hands over only what it verified, and what it does with its secrets. Against any
  service, every call goes to one trusted origin and carries the admin key only to the bootstrap endpoint, except that
  a redirect of the service is followed: such a call is the one before it, sent as a GET without a body to the URL the service
  named, with no header the one before it had not (so it may carry the admin key or a token there). A handoff is written exactly
  when the exit code is 0; then each request of the protocol got its answer, the service is healthy, accepted exactly the two
  records A pushed, showed both entities to B, and returned matching profiles with one revision; what is printed are the ids of the
  run, whatever the key and the tokens are. A failed run prints nothing on standard output, and its error is a fixed text, or names the
  request with a status code or the reason of the client library, or is the exception of a header value with
  a bare line break (which names that value), or another uncaught exception.
\<close>

theorem acceptance_handoff_verified:
  "let r = acceptance_main parse server disk caps required env new_run_id updated_at created_at args in
    (dr_calls r = [] \<or> discreet_calls server (aa_allow_http_localhost args) (dr_calls r))
    \<and> (dr_exit r = 0 \<longleftrightarrow> dr_handoff r \<noteq> None)
    \<and> (\<forall>handoff. dr_handoff r = Some handoff \<longrightarrow>
        (\<exists>base key. verified_run parse server (run_input_of args base key caps required new_run_id updated_at created_at) (dr_calls r) handoff)
        \<and> (\<forall>base' key'. dr_stdout r
               = completion_lines (run_input_of args base' key' caps required new_run_id updated_at created_at) (aa_output args)))
    \<and> (dr_exit r \<noteq> 0 \<longrightarrow> dr_stdout r = [])
    \<and> (\<forall>e. dr_error r = Some e \<longrightarrow> (\<exists>base key. trusted_origin (aa_allow_http_localhost args) base \<and> env (aa_admin_key_env args) = Some key
        \<and> reported server (run_input_of args base key caps required new_run_id updated_at created_at) e))"
  unfolding Let_def by (rule main_verified [OF refl])

text \<open>A service that answers as the protocol expects, by the number of calls it has seen.\<close>

definition demo_profile :: "string \<Rightarrow> json" where
  "demo_profile user = JObj [(''organizationID'', JStr ''org-acceptance-r''), (''principalID'', JStr user),
     (''projectIDs'', JList [JStr ''project-acceptance-r'']), (''allProjects'', JBool False),
     (''capabilities'', JList [JStr ''sync'', JStr ''project.create'', JStr ''item.create'']), (''authorizationRevision'', JInt 4)]"

definition demo_answers :: "json list" where
  "demo_answers =
    [JObj [(''status'', JStr ''ok'')], JObj [(''apiVersion'', JStr ''v1'')],
     JObj [(''accessToken'', JStr ''ta'')], JObj [(''accessToken'', JStr ''tb'')],
     JObj [(''acceptedRecordIDs'', JList [JStr ''record-customer-r'', JStr ''record-project-r'']), (''nextCursor'', JStr ''seq:2'')],
     JObj [(''records'', JList [JObj [(''entityID'', JStr ''customer-acceptance-r'')], JObj [(''entityID'', JStr ''project-acceptance-r'')]])],
     demo_profile ''user-a-acceptance-r'', demo_profile ''user-b-acceptance-r'']"

definition demo_server :: server where
  "demo_server calls call = RawBody (replicate (Suc (length calls)) (CHR ''x''))"

definition demo_parser :: "string \<Rightarrow> json option" where
  "demo_parser raw = Some (demo_answers ! (length raw - 1))"

definition demo_args :: acceptance_args where
  "demo_args = \<lparr>aa_base_url = ''https://h/'', aa_output = ''o'', aa_admin_key_env = ''K'', aa_run_id = Some ''r'',
     aa_organization_name = ''n'', aa_session_ttl_seconds = 28800, aa_allow_http_localhost = False\<rparr>"

lemma demo_base: "validated_base_url ''https://h/'' False = ok ''https://h''"
  by (simp add: validated_base_url_def rstrip_char_def urlparse_def clean_url_def split_scheme_def netloc_ok_def before_char_def
      after_char_def scheme_char_def ascii_alpha_def py_lower_def lower_latin_def ebind_def Let_def)

lemmas driver_defs = bind_def give_def fail_def check_that_def lift_res_def request_json_def bootstrap_user_def seed_shared_project_def
  seed_verdict_def pull_visible_entity_ids_def verify_user_def

lemma demo_exit: "dr_exit (two_user_main demo_parser demo_server None [''K'' \<mapsto> ''k''] [] [] [] demo_args) = 0"
  by (simp add: two_user_main_def acceptance_main_def demo_args_def demo_base acceptance_run_def driver_defs headers_of_def bearer_def demo_server_def open_url_direct
      demo_parser_def demo_answers_def demo_profile_def acceptance_users_def run_input_of_def customer_record_id_def
      project_record_id_def run_customer_def run_project_def run_organization_def record_entity_def profile_matches_def json_set_def
      json_in_def revisions_of_def handoff_user_def dget_def dget_default_def map_filter_simps ebind_def Let_def)

theorem acceptance_handoff_verified_witness:
  "\<exists>calls handoff ri. verified_run demo_parser demo_server ri calls handoff"
proof -
  let ?r = "two_user_main demo_parser demo_server None [''K'' \<mapsto> ''k''] [] [] [] demo_args"
  note verified = acceptance_handoff_verified [of demo_parser demo_server None DEFAULT_CAPABILITIES "[]" "[''K'' \<mapsto> ''k'']" "[]" "[]" "[]" demo_args,
      unfolded Let_def, folded two_user_main_def]
  then obtain handoff where "dr_handoff ?r = Some handoff" using demo_exit by auto
  with verified show ?thesis by blast
qed

text \<open>
  The admin key leaves the origin when the bootstrap endpoint redirects, and a key with a bare line break, which is refused
  before anything is sent, is named by the exception that ends the script.
\<close>

lemma admin_key_resent:
  fixes ri user
  defines "call \<equiv> call_of ''POST'' (ri_base_url ri @ ''/internal/admin/v1/bootstrap'') [(''X-Vitrial-Admin-Key'', ri_admin_key ri)]
      (Some (bootstrap_payload ri user))"
  assumes "server calls call = Redirect code target" "code \<in> {301, 302, 303}" "urlparse target = ok u" "url_scheme u \<in> {''http'', ''https''}"
    and "\<not> illegal_header_value (ri_admin_key ri)"
  shows "\<exists>sent \<in> set (fst (bootstrap_user parse server ri user calls)).
    hc_url sent = target \<and> (''X-Vitrial-Admin-Key'', ri_admin_key ri) \<in> set (hc_headers sent)"
proof -
  let ?next = "redirected call u target"
  have legal: "find illegal_header_value (map snd (hc_headers call)) = None"
    using assms(6) by (simp add: call_def call_of_def headers_of_def)
  have "redirect_request call [] code target = ok (Some ?next)"
    using assms(3-5) by (auto simp: redirect_request_def call_def call_of_def ebind_def)
  then have "open_url server [] call calls = open_url server [target] ?next (calls @ [call])"
    by (subst open_url.simps) (simp add: assms(2))
  moreover obtain calls' reply where opened: "open_url server [target] ?next (calls @ [call]) = (calls', reply)" by fastforce
  ultimately have "fst (bootstrap_user parse server ri user calls) = calls'"
    using legal by (simp add: bootstrap_user_def bind_def request_json_def call_def call_of_def Let_def give_def fail_def
        split: http_reply.splits option.splits json.splits)
  moreover have "?next \<in> set calls'" using open_url_trail [OF opened] by auto
  moreover have "hc_url ?next = target" "(''X-Vitrial-Admin-Key'', ri_admin_key ri) \<in> set (hc_headers ?next)"
    using assms(5) by (auto simp: redirected_def call_def call_of_def headers_of_def py_lower_def lower_latin_def)
  ultimately show ?thesis by blast
qed

lemma illegal_key_named:
  "illegal_header_value (ri_admin_key ri) \<Longrightarrow> bootstrap_user parse server ri user calls = (calls, Inl (IllegalHeader (ri_admin_key ri)))"
  by (simp add: bootstrap_user_def bind_def request_json_def headers_of_def)

text \<open>
  The file is not private from its first byte: when it exists with other permissions, the tokens
  stand in it under the old mode until it is changed.
\<close>

lemma handoff_exposed: "Some (420, text) \<in> set (private_write_json (Some (420, old)) text False)"
  by (simp add: private_write_json_def)

lemma handoff_private:
  "existing = None \<or> map_option fst existing = Some 384 \<Longrightarrow> \<forall>f \<in> set (private_write_json existing text fails). f = None \<or> map_option fst f = Some 384"
  "last (private_write_json existing text False) = Some (384, text)"
  "last (private_write_json existing text True) = None"
  by (auto simp: private_write_json_def Let_def split: if_splits option.splits)

end
