(* ===== verification/Repo_Guards.thy ===== *)
theory Repo_Guards
  imports Acceptance
begin

text \<open>
  Guards of the repository under \<open>scripts\<close>: planned and built applications (\<open>check_beam_scaffold.py\<close>), modules
  without caller (\<open>check_beam_orphans.py\<close>), the identity of scanner findings (\<open>ubs_trace.py\<close>) and the fixtures of the wire contract
  (\<open>validate_backend_contract.py\<close>, where \<open>fromiso\<close> is \<open>datetime.fromisoformat\<close>). A source file is what the regular
  expressions find in it: the modules it defines and the modules it names.
\<close>

section \<open>Planned applications\<close>

definition lower_start :: "char \<Rightarrow> bool" where
  "lower_start c \<longleftrightarrow> c \<in> set ''abcdefghijklmnopqrstuvwxyz''"

definition app_char :: "char \<Rightarrow> bool" where
  "app_char c \<longleftrightarrow> lower_start c \<or> ascii_digit c \<or> c = CHR ''_''"

definition commit_char :: "char \<Rightarrow> bool" where
  "commit_char c \<longleftrightarrow> c \<in> set ''0123456789abcdef''"

text \<open>\<open><app> -- <commit>\<close> at the start of a text: the application and what follows the commit.\<close>

definition planned_line :: "string \<Rightarrow> (string \<times> string) option" where
  "planned_line s =
    (let app = takeWhile app_char s; r1 = dropWhile app_char s; r2 = dropWhile py_isspace r1 in
     if app = [] \<or> \<not> lower_start (hd app) \<or> r2 = r1 \<or> \<not> prefix ''--'' r2 then None
     else let r3 = drop 2 r2; r4 = dropWhile py_isspace r3; n = min 40 (length (takeWhile commit_char r4)) in
       if r4 = r3 \<or> n < 7 then None else Some (app, drop n r4))"

definition registry_subject :: "string \<Rightarrow> string" where
  "registry_subject rest = (let r = dropWhile py_isspace rest in py_strip (if prefix ''--'' r then drop 2 r else r))"

fun read_registry_lines :: "string list \<Rightarrow> (string \<rightharpoonup> string) \<Rightarrow> (string \<rightharpoonup> string) res" where
  "read_registry_lines [] declared = ok declared"
| "read_registry_lines (raw # lines) declared =
    (let line = py_strip raw in
     if line = [] \<or> prefix ''#!'' line then read_registry_lines lines declared
     else if \<not> prefix ''#'' line then
       (if planned_line line \<noteq> None then raise SystemExit else read_registry_lines lines declared)
     else case planned_line (dropWhile py_isspace (tl line)) of
         None \<Rightarrow> read_registry_lines lines declared
       | Some (app, rest) \<Rightarrow> read_registry_lines lines (declared(app \<mapsto> registry_subject rest)))"

definition read_registry :: "string option \<Rightarrow> (string \<rightharpoonup> string) res" where
  "read_registry registry = (case registry of None \<Rightarrow> ok Map.empty | Some text \<Rightarrow> read_registry_lines (splitlines text) Map.empty)"

definition scaffold_files :: "string \<Rightarrow> string list" where
  "scaffold_files app = [''lib/'' @ app @ ''.ex'', ''lib/'' @ app @ ''/application.ex'',
     ''.formatter.exs'', ''mix.exs'', ''test/test_helper.exs'', ''README.md'']"

text \<open>An application is a scaffold when its files, by their relative paths, hold no further module and no test.\<close>

definition is_scaffold :: "string \<Rightarrow> string list \<Rightarrow> bool" where
  "is_scaffold app files =
    (let beyond = filter (\<lambda>f. after_last (CHR ''/'') f \<noteq> ''.DS_Store'' \<and> f \<notin> set (scaffold_files app)) files;
         extra_tests = filter (\<lambda>f. suffix ''_test.exs'' f) beyond;
         extra_source = filter (\<lambda>f. \<not> suffix ''_test.exs'' f \<and> (suffix ''.ex'' f \<or> suffix ''.exs'' f)) beyond
     in if extra_source \<noteq> [] then False else if extra_tests \<noteq> [] then False else True)"

datatype scaffold_failure = UndeclaredScaffold string | DeclaredButBuilt string | DeclaredButMissing string

definition app_failures :: "(string \<rightharpoonup> string) \<Rightarrow> (string \<Rightarrow> string list) \<Rightarrow> string \<Rightarrow> scaffold_failure list" where
  "app_failures declared files app =
    (if is_scaffold app (files app) \<and> declared app = None then [UndeclaredScaffold app] else [])
    @ (if \<not> is_scaffold app (files app) \<and> declared app \<noteq> None then [DeclaredButBuilt app] else [])"

text \<open>\<open>registered\<close> lists the declared names in the order of the registry.\<close>

definition scaffold_main :: "string option \<Rightarrow> string list option \<Rightarrow> (string \<Rightarrow> string list) \<Rightarrow> string list \<Rightarrow> int res" where
  "scaffold_main registry directories files registered =
    (case directories of
       None \<Rightarrow> ok 1
     | Some names \<Rightarrow>
        let apps = sort (filter (\<lambda>n. \<not> prefix ''.'' n \<and> \<not> prefix ''_'' n) names) in
        if apps = [] then ok 1
        else ebind (read_registry registry) (\<lambda>declared.
          let failures = concat (map (app_failures declared files) apps)
            @ map DeclaredButMissing (sort (filter (\<lambda>n. declared n \<noteq> None \<and> n \<notin> set apps) registered))
          in ok (if failures \<noteq> [] then 1 else 0)))"

section \<open>Modules without caller\<close>

record beam_source =
  bs_test :: bool
  bs_mix :: bool
  bs_defines :: "string list"
  bs_top_level :: "string list"
  bs_refs :: "string list"

definition capitalize :: "string \<Rightarrow> string" where
  "capitalize s = (case s of [] \<Rightarrow> [] | c # cs \<Rightarrow> (if lower_start c then char_of ((of_char c :: nat) - 32) else c) # py_lower cs)"

definition module_names :: "string \<Rightarrow> string" where
  "module_names app = ''Vitrial'' @ concat (map capitalize
     (split_on (CHR ''_'') (if prefix ''vitrial_'' app then drop 8 app else app)))"

definition app_roots :: "string list \<Rightarrow> string list" where
  "app_roots apps = concat (map (\<lambda>app. [module_names app, module_names app @ ''.Application''])
     (filter (\<lambda>n. \<not> prefix ''.'' n \<and> \<not> prefix ''_'' n) apps))"

definition lib_sources :: "beam_source list \<Rightarrow> beam_source list" where
  "lib_sources all = filter (\<lambda>s. \<not> bs_test s \<and> \<not> bs_mix s) all"

definition origin :: "beam_source list \<Rightarrow> string \<Rightarrow> beam_source option" where
  "origin all m = List.find (\<lambda>s. m \<in> set (bs_defines s)) (lib_sources all)"

definition named_by :: "beam_source list \<Rightarrow> string \<Rightarrow> string list" where
  "named_by all ref = concat (map (\<lambda>s. if ref \<in> set (bs_refs s) \<and> ref \<notin> set (bs_defines s) then bs_defines s else []) all)"

definition specified :: "beam_source list \<Rightarrow> string list" where
  "specified all = concat (map (\<lambda>s. filter (\<lambda>r. origin all r \<noteq> None \<and> r \<notin> set (bs_defines s)) (bs_refs s)) all)"

definition named_in_origin :: "beam_source list \<Rightarrow> string \<Rightarrow> string list" where
  "named_in_origin all m = (case origin all m of None \<Rightarrow> [] | Some s \<Rightarrow> filter (\<lambda>r. origin all r \<noteq> None) (bs_refs s))"

definition neighbours :: "beam_source list \<Rightarrow> string list \<Rightarrow> string \<Rightarrow> string list" where
  "neighbours all reached m = filter (\<lambda>n. n \<notin> set reached) (named_by all m @ named_in_origin all m)"

definition nodes :: "beam_source list \<Rightarrow> string set" where
  "nodes all = (\<Union>s \<in> set all. set (bs_defines s) \<union> set (bs_refs s))"

lemma neighbours_nodes: "set (neighbours all reached m) \<subseteq> nodes all"
  by (auto simp: neighbours_def named_by_def named_in_origin_def nodes_def origin_def lib_sources_def find_Some_iff
      split: if_splits option.splits dest!: nth_mem)

text \<open>The work list; its head is the end the script pops from.\<close>

function reach :: "beam_source list \<Rightarrow> string list \<Rightarrow> string list \<Rightarrow> string list" where
  "reach all [] reached = reached"
| "reach all (m # queue) reached = (if m \<in> set reached then reach all queue reached
     else reach all (rev (neighbours all (m # reached) m) @ queue) (m # reached))"
  by pat_completeness auto
termination
proof (relation "inv_image (finite_psubset <*lex*> measure length) (\<lambda>(all, queue, reached). ((nodes all \<union> set queue) - set reached, queue))", goal_cases)
  case 1
  then show ?case by (auto intro!: wf_inv_image wf_lex_prod)
next
  case (2 all m queue reached)
  have "nodes all \<union> set queue - set reached = nodes all \<union> set (m # queue) - set reached" using 2 by auto
  then show ?case by simp
next
  case (3 all m queue reached)
  have "finite (nodes all)" by (simp add: nodes_def)
  moreover have "nodes all \<union> set (rev (neighbours all (m # reached) m) @ queue) - set (m # reached) \<subset> nodes all \<union> set (m # queue) - set reached"
    using neighbours_nodes [of all "m # reached" m] 3 by auto
  ultimately show ?case by (simp add: finite_psubset_def)
qed

definition orphans :: "beam_source list \<Rightarrow> string list \<Rightarrow> string list \<Rightarrow> string list" where
  "orphans all roots exempt =
    (let reached = reach all (roots @ exempt) [] in
     concat (map (\<lambda>s. filter (\<lambda>m. m \<notin> set reached \<and> m \<notin> set (specified all) \<and> m \<notin> set exempt) (sort (bs_top_level s)))
       (lib_sources all)))"

definition orphans_main :: "bool \<Rightarrow> beam_source list \<Rightarrow> string list \<Rightarrow> string list \<Rightarrow> int" where
  "orphans_main beam all roots exempt = (if \<not> beam \<or> all = [] then 1 else if orphans all roots exempt \<noteq> [] then 1 else 0)"

section \<open>Scanner findings\<close>

record ubs_sample =
  us_file :: string
  us_line :: int
  us_code :: string

record ubs_finding =
  uf_severity :: string
  uf_rule :: string
  uf_samples :: "ubs_sample list"

text \<open>\<open>s.replace(old, "")\<close>.\<close>

function remove_all :: "string \<Rightarrow> string \<Rightarrow> string" where
  "remove_all old s = (if old = [] then s else case split_once old s of None \<Rightarrow> s | Some (a, b) \<Rightarrow> a @ remove_all old b)"
  by pat_completeness auto
termination
  by (relation "measure (\<lambda>(old, s). length s)") (auto dest!: split_once_Some)

declare remove_all.simps [simp del]

text \<open>\<open>re.sub(r"\s+", " ", s)\<close>.\<close>

function collapse :: "string \<Rightarrow> string" where
  "collapse [] = []"
| "collapse (c # cs) = (if py_isspace c then CHR '' '' # collapse (dropWhile py_isspace cs) else c # collapse cs)"
  by pat_completeness auto
termination
  by (relation "measure length") (auto simp: less_Suc_eq_le length_dropWhile_le)

definition normalize_code :: "string \<Rightarrow> string \<Rightarrow> string" where
  "normalize_code code project =
     rev (dropWhile (\<lambda>c. c \<in> set '' ,;:'') (rev (collapse (py_strip (remove_all project code)))))"

definition relative_path :: "string \<Rightarrow> string \<Rightarrow> string" where
  "relative_path file project = (let path = dropWhile (\<lambda>c. c = CHR ''/'') (remove_all project file) in if path \<noteq> [] then path else file)"

definition first_sample :: "ubs_finding \<Rightarrow> ubs_sample" where
  "first_sample f = (case uf_samples f of [] \<Rightarrow> \<lparr>us_file = [], us_line = 0, us_code = []\<rparr> | s # _ \<Rightarrow> s)"

definition fingerprint :: "lib \<Rightarrow> string \<Rightarrow> ubs_finding \<Rightarrow> string" where
  "fingerprint lib project f = take 16 (sha256_hex lib (utf8 (join [CHR 0x1F]
     [uf_rule f, relative_path (us_file (first_sample f)) project, normalize_code (us_code (first_sample f)) project])))"

definition GATING :: "string list" where
  "GATING = [''critical'', ''warning'']"

definition severity_order :: "string \<Rightarrow> nat" where
  "severity_order s = (if s = ''critical'' then 0 else if s = ''warning'' then 1 else if s = ''info'' then 2 else 9)"

text \<open>The rows by severity, rule and path; the new ones among those that gate.\<close>

definition ubs_rows :: "string \<Rightarrow> ubs_finding list \<Rightarrow> ubs_finding list" where
  "ubs_rows project findings = sort_key (severity_order \<circ> uf_severity) (sort_key uf_rule
     (sort_key (\<lambda>f. relative_path (us_file (first_sample f)) project) findings))"

definition new_gating :: "lib \<Rightarrow> string \<Rightarrow> string list \<Rightarrow> ubs_finding list \<Rightarrow> ubs_finding list" where
  "new_gating lib project known findings =
     filter (\<lambda>f. fingerprint lib project f \<notin> set known \<and> uf_severity f \<in> set GATING) (ubs_rows project findings)"

text \<open>A run over a stream of findings: the history it leaves and the new findings it reports.\<close>

definition ubs_trace :: "lib \<Rightarrow> bool \<Rightarrow> string \<Rightarrow> string list \<Rightarrow> ubs_finding list \<Rightarrow> string list \<times> ubs_finding list" where
  "ubs_trace lib write_history project known findings =
     (if write_history then sort (remdups (known @ map (fingerprint lib project) findings)) else known,
      new_gating lib project known findings)"

section \<open>Contract fixtures\<close>

definition CAPABILITIES :: "string list" where
  "CAPABILITIES =
    [''customer.create'', ''customer.edit'', ''project.create'', ''project.edit'', ''item.create'', ''item.edit'', ''item.readiness.change'',
     ''item.readiness.override'', ''item.blockers.manage'', ''item.measurements.manage'', ''item.evidence.manage'', ''item.requirements.manage'',
     ''item.configuration.manage'', ''item.configuration.finalize'', ''item.configuration.reopen'', ''quotation.create'', ''quotation.send'',
     ''quotation.approve'', ''delivery.manage'', ''catalog.manage'', ''pricing.manage'', ''organization.members.manage'',
     ''organization.roles.manage'', ''sync'']"

definition CONTRACT_ENTITY_TYPES :: "string list" where
  "CONTRACT_ENTITY_TYPES =
    [''customer'', ''project'', ''project_sector'', ''item'', ''item_audit_event'', ''measurement'', ''evidence'', ''customer_requirement'',
     ''configuration'', ''configuration_version'', ''blocker'', ''quotation'', ''delivery_execution'']"

definition REQUIRED_PATHS :: "string list" where
  "REQUIRED_PATHS = [''/health'', ''/api/v1/version'', ''/api/v1/auth/me'', ''/api/v1/sync/push'', ''/api/v1/sync/pull'',
     ''/api/v1/sync/evidence-blobs/{documentID}'']"

definition demand :: "bool \<Rightarrow> unit res" where
  "demand c = guard (\<not> c) SystemExit"

definition field_at :: "dict \<Rightarrow> string \<Rightarrow> json res" where
  "field_at d k = (case map_of d k of None \<Rightarrow> raise KeyError | Some v \<Rightarrow> ok v)"

definition parse_date :: "(string \<Rightarrow> datetime option) \<Rightarrow> json \<Rightarrow> datetime res" where
  "parse_date fromiso v = (case v of
     JStr s \<Rightarrow> if s = [] then raise SystemExit
       else (case fromiso (concat (map (\<lambda>c. if c = CHR ''Z'' then ''+00:00'' else [c]) s)) of
         None \<Rightarrow> raise SystemExit | Some t \<Rightarrow> ok t)
   | _ \<Rightarrow> raise SystemExit)"

definition nonnegative_int :: "json \<Rightarrow> bool" where
  "nonnegative_int v = (case any_int v of None \<Rightarrow> False | Some n \<Rightarrow> 0 \<le> n)"

definition payload_decodes :: "lib \<Rightarrow> json \<Rightarrow> bool" where
  "payload_decodes lib v = (case v of
     JStr s \<Rightarrow> (case b64decode s of None \<Rightarrow> False | Some raw \<Rightarrow> json_loads lib raw \<noteq> None) | _ \<Rightarrow> False)"

definition validate_record :: "lib \<Rightarrow> (string \<Rightarrow> datetime option) \<Rightarrow> json \<Rightarrow> bool \<Rightarrow> unit res" where
  "validate_record lib fromiso v pulled = (case v of
     JObj d \<Rightarrow>
       seq (demand (list_all (\<lambda>k. dget d k \<noteq> JNull \<and> dget d k \<noteq> JStr []) [''id'', ''entityType'', ''entityID'', ''updatedAt'', ''payload'']))
       (ebind (in_strset (dget d ''entityType'') CONTRACT_ENTITY_TYPES) (\<lambda>known. seq (demand known)
       (ebind (parse_date fromiso (dget d ''updatedAt'')) (\<lambda>_.
        seq (demand (payload_decodes lib (dget d ''payload'')))
       (seq (demand (nonnegative_int (dget d (if pulled then ''serverRevision'' else ''baseServerRevision''))))
        (demand (py_truthy (dget d ''clientMutationID''))))))))
   | _ \<Rightarrow> raise AttributeError)"

text \<open>\<open>len(d.get("records", [])) == 1\<close> and the record; a string of one character is one record too.\<close>

definition only_record :: "dict \<Rightarrow> json res" where
  "only_record d = (case dget_default d ''records'' (JList []) of
     JList xs \<Rightarrow> if length xs = 1 then ok (hd xs) else raise SystemExit
   | JStr s \<Rightarrow> if length s = 1 then ok (JStr s) else raise SystemExit
   | JObj o' \<Rightarrow> if length o' = 1 then raise KeyError else raise SystemExit
   | _ \<Rightarrow> raise TypeError)"

definition PROFILE_KEYS :: "string list" where
  "PROFILE_KEYS = [''principalID'', ''displayName'', ''customerIDs'', ''allCustomers'', ''capabilities'', ''issuedAt'', ''expiresAt'',
     ''organizationID'', ''membershipID'', ''sessionID'', ''authorizationRevision'', ''allProjects'']"

definition nonblank :: "json \<Rightarrow> unit res" where
  "nonblank v = (case v of JStr s \<Rightarrow> demand (py_strip s \<noteq> []) | _ \<Rightarrow> raise AttributeError)"

definition check_spec :: "string \<Rightarrow> unit res" where
  "check_spec spec = seq (demand (list_all (\<lambda>p. contains p spec) REQUIRED_PATHS))
     (seq (demand (list_all (\<lambda>c. contains (''- '' @ c) spec) CAPABILITIES))
       (demand (list_all (\<lambda>t. contains (''- '' @ t) spec) CONTRACT_ENTITY_TYPES)))"

definition check_profile :: "(string \<Rightarrow> datetime option) \<Rightarrow> dict \<Rightarrow> unit res" where
  "check_profile fromiso profile =
    seq (demand (list_all (dhas profile) PROFILE_KEYS))
    (seq (for_each (\<lambda>k. nonblank (dget profile k)) [''principalID'', ''organizationID'', ''membershipID'', ''sessionID''])
    (seq (demand (nonnegative_int (dget profile ''authorizationRevision'')))
    (seq (demand (\<exists>b \<in> {True, False}. dget profile ''allProjects'' = JBool b))
    (ebind (json_set (dget profile ''capabilities'')) (\<lambda>caps. seq (demand (list_all (\<lambda>c. in_tuple c CAPABILITIES) caps))
    (ebind (parse_date fromiso (dget profile ''issuedAt'')) (\<lambda>issued. ebind (parse_date fromiso (dget profile ''expiresAt'')) (\<lambda>expires.
     ebind (datetime_le expires issued) (\<lambda>late. demand (\<not> late))))))))))"

definition check_echo :: "dict \<Rightarrow> dict \<Rightarrow> unit res" where
  "check_echo pulled pushed =
    ebind (field_at pulled ''clientMutationID'') (\<lambda>a. ebind (field_at pushed ''clientMutationID'') (\<lambda>b. seq (demand (py_eq a b))
    (ebind (field_at pulled ''entityID'') (\<lambda>a'. ebind (field_at pushed ''entityID'') (\<lambda>b'. demand (py_eq a' b'))))))"

definition contract_main :: "lib \<Rightarrow> (string \<Rightarrow> datetime option) \<Rightarrow> string \<Rightarrow> dict \<Rightarrow> dict \<Rightarrow> dict \<Rightarrow> dict \<Rightarrow> unit res" where
  "contract_main lib fromiso spec profile push answer pull =
    seq (check_spec spec) (seq (check_profile fromiso profile)
    (seq (demand (py_truthy (dget push ''deviceID'')))
    (ebind (only_record push) (\<lambda>pushed. seq (validate_record lib fromiso pushed False)
    (seq (demand (py_eq (dget answer ''acceptedRecordIDs'') (JList [dget (the_dict pushed) ''id''])))
    (seq (demand (py_eq (dget answer ''rejectedRecordIDs'') (JList [])))
    (seq (demand (py_truthy (dget pull ''deviceID'')))
    (ebind (only_record pull) (\<lambda>pulled. seq (validate_record lib fromiso pulled True)
    (check_echo (the_dict pulled) (the_dict pushed)))))))))))"

end
