(* ===== verification/Repo_Guards_Properties.thy ===== *)
theory Repo_Guards_Properties
  imports Repo_Guards
begin

text \<open>What the guards of the repository decide, and what they miss.\<close>

section \<open>Planned applications\<close>

text \<open>The guard succeeds exactly when the registry names the scaffolds, all of them and nothing else.\<close>

lemma scaffold_guard_exact:
  assumes "read_registry registry = ok declared" "set registered = dom declared"
  shows "scaffold_main registry (Some names) files registered = ok 0 \<longleftrightarrow>
    (let apps = {n \<in> set names. \<not> prefix ''.'' n \<and> \<not> prefix ''_'' n}
     in apps \<noteq> {} \<and> dom declared = {n \<in> apps. is_scaffold n (files n)})"
proof -
  define apps where "apps = sort (filter (\<lambda>n. \<not> prefix ''.'' n \<and> \<not> prefix ''_'' n) names)"
  have set_apps: "set apps = {n \<in> set names. \<not> prefix ''.'' n \<and> \<not> prefix ''_'' n}" by (auto simp: apps_def)
  have ok: "app_failures declared files n = [] \<longleftrightarrow> (is_scaffold n (files n) \<longleftrightarrow> n \<in> dom declared)" for n
    by (auto simp: app_failures_def)
  have missing: "sort (filter (\<lambda>n. declared n \<noteq> None \<and> n \<notin> set apps) registered) = [] \<longleftrightarrow> dom declared \<subseteq> set apps"
    using assms(2) by (auto simp: filter_empty_conv)
  have "scaffold_main registry (Some names) files registered = ok 0 \<longleftrightarrow>
      apps \<noteq> [] \<and> (\<forall>n \<in> set apps. is_scaffold n (files n) \<longleftrightarrow> n \<in> dom declared) \<and> dom declared \<subseteq> set apps"
    using missing by (simp add: scaffold_main_def assms(1) apps_def [symmetric] ebind_def Let_def ok)
  also have "\<dots> \<longleftrightarrow> set apps \<noteq> {} \<and> dom declared = {n \<in> set apps. is_scaffold n (files n)}" by auto
  finally show ?thesis unfolding set_apps Let_def by simp
qed

section \<open>Modules without caller\<close>

text \<open>The links the work list follows: from a module to those that name it, and to those its file names.\<close>

definition links :: "beam_source list \<Rightarrow> (string \<times> string) set" where
  "links all = {(m, n). n \<in> set (named_by all m) \<or> n \<in> set (named_in_origin all m)}"

lemma neighbours_links: "n \<in> set (neighbours all reached m) \<longleftrightarrow> (m, n) \<in> links all \<and> n \<notin> set reached"
  by (auto simp: neighbours_def links_def)

lemma reach_sound:
  "\<forall>m \<in> set queue \<union> set reached. \<exists>e \<in> E. (e, m) \<in> (links all)\<^sup>* \<Longrightarrow> m \<in> set (reach all queue reached) \<Longrightarrow> \<exists>e \<in> E. (e, m) \<in> (links all)\<^sup>*"
proof (induction all queue reached rule: reach.induct)
  case (2 all x queue reached)
  show ?case
  proof (cases "x \<in> set reached")
    case False
    from 2(3) obtain e where e: "e \<in> E" "(e, x) \<in> (links all)\<^sup>*" by auto
    have "\<exists>e \<in> E. (e, n) \<in> (links all)\<^sup>*" if "n \<in> set (neighbours all (x # reached) x)" for n
      using e that by (auto simp: neighbours_links intro: rtrancl_into_rtrancl)
    with 2 False show ?thesis by auto
  qed (use 2 in auto)
qed auto

lemma reach_contains: "set queue \<union> set reached \<subseteq> set (reach all queue reached)"
proof (induction all queue reached rule: reach.induct)
  case (2 all x queue reached)
  then show ?case by (cases "x \<in> set reached") auto
qed auto

lemma reach_closed:
  "\<forall>m \<in> set reached. \<forall>n. (m, n) \<in> links all \<longrightarrow> n \<in> set reached \<union> set queue \<Longrightarrow>
    m \<in> set (reach all queue reached) \<Longrightarrow> (m, n) \<in> links all \<Longrightarrow> n \<in> set (reach all queue reached)"
proof (induction all queue reached rule: reach.induct)
  case (2 all x queue reached)
  show ?case
  proof (cases "x \<in> set reached")
    case False
    have "\<forall>m \<in> set (x # reached). \<forall>n. (m, n) \<in> links all \<longrightarrow>
        n \<in> set (x # reached) \<union> set (rev (neighbours all (x # reached) x) @ queue)"
      using 2(3) by (auto simp: neighbours_links)
    with 2 False show ?thesis by auto
  qed (use 2 in auto)
qed auto

lemma reach_exact: "set (reach all queue []) = {m. \<exists>e \<in> set queue. (e, m) \<in> (links all)\<^sup>*}"
proof (intro equalityI subsetI)
  fix m assume "m \<in> {m. \<exists>e \<in> set queue. (e, m) \<in> (links all)\<^sup>*}"
  then obtain e where "e \<in> set queue" "(e, m) \<in> (links all)\<^sup>*" by auto
  then show "m \<in> set (reach all queue [])"
  proof (induction rule: rtrancl_induct [OF \<open>(e, m) \<in> (links all)\<^sup>*\<close>])
    case 1
    then show ?case using reach_contains [of queue "[]"] by auto
  next
    case (2 y z)
    then show ?case using reach_closed [of "[]" all queue y z] by auto
  qed
qed (use reach_sound [of queue "[]" "set queue" all] in auto)

lemma specified_iff: "m \<in> set (specified all) \<longleftrightarrow> origin all m \<noteq> None \<and> (\<exists>s \<in> set all. m \<in> set (bs_refs s) \<and> m \<notin> set (bs_defines s))"
  by (auto simp: specified_def)

text \<open>A module is reported precisely when it is linked to no root, named by no other file, and not exempt.\<close>

lemma orphans_exact:
  "m \<in> set (orphans all roots exempt) \<longleftrightarrow>
    (\<exists>s \<in> set (lib_sources all). m \<in> set (bs_top_level s)) \<and> m \<notin> set exempt \<and> m \<notin> set (specified all)
    \<and> \<not> (\<exists>e \<in> set roots \<union> set exempt. (e, m) \<in> (links all)\<^sup>*)"
  by (auto simp: orphans_def Let_def reach_exact)

text \<open>No module that a root reaches by the names in the files is accused.\<close>

lemma named_module_spared:
  assumes "e \<in> set roots" "(e, m) \<in> {(a, b). b \<in> set (named_in_origin all a)}\<^sup>*"
  shows "m \<notin> set (orphans all roots exempt)"
proof -
  have "{(a, b). b \<in> set (named_in_origin all a)} \<subseteq> links all" by (auto simp: links_def)
  with assms(2) have "(e, m) \<in> (links all)\<^sup>*" using rtrancl_mono by blast
  with assms(1) show ?thesis by (auto simp: orphans_exact)
qed

text \<open>
  But links are followed backwards as well: a module that nobody calls and nothing tests is not reported
  as soon as its own file names a root.
\<close>

lemma caller_of_root_unreported:
  assumes "s \<in> set all" "m \<in> set (bs_defines s)" "r \<in> set (bs_refs s)" "r \<notin> set (bs_defines s)" "r \<in> set roots"
  shows "m \<notin> set (orphans all roots exempt)"
proof -
  have "(r, m) \<in> links all" using assms by (auto simp: links_def named_by_def)
  with assms(5) show ?thesis by (auto simp: orphans_exact)
qed

section \<open>Scanner findings\<close>

text \<open>A finding keeps its identity when its lines move.\<close>

lemma fingerprint_ignores_lines:
  "fingerprint lib project (f\<lparr>uf_samples := map (\<lambda>s. s\<lparr>us_line := us_line s + n\<rparr>) (uf_samples f)\<rparr>) = fingerprint lib project f"
  by (cases "uf_samples f") (simp_all add: fingerprint_def first_sample_def)

text \<open>History only grows, and what a recording run has seen is never new again, whatever the next stream adds.\<close>

lemma ubs_history_grows: "set known \<subseteq> set (fst (ubs_trace lib w project known findings))"
  by (auto simp: ubs_trace_def)

lemma ubs_seen_not_new:
  assumes "f \<in> set findings" "set (fst (ubs_trace lib True project known findings)) \<subseteq> set known'"
  shows "f \<notin> set (snd (ubs_trace lib w project known' findings'))"
  using assms by (auto simp: ubs_trace_def new_gating_def)

lemma ubs_new_exact:
  "f \<in> set (snd (ubs_trace lib w project known findings)) \<longleftrightarrow>
    f \<in> set findings \<and> uf_severity f \<in> {''critical'', ''warning''} \<and> fingerprint lib project f \<notin> set known"
  by (auto simp: ubs_trace_def new_gating_def ubs_rows_def GATING_def)

section \<open>Contract fixtures\<close>

text \<open>The contract knows the entity types of the service and every capability of the acceptance users.\<close>

lemma contract_matches_service: "set CONTRACT_ENTITY_TYPES = set ENTITY_TYPES" "set delivery_capabilities \<subseteq> set CAPABILITIES"
  by (auto simp: CONTRACT_ENTITY_TYPES_def ENTITY_TYPES_def delivery_capabilities_def DEFAULT_CAPABILITIES_def
      DELIVERY_ACCEPTANCE_CAPABILITIES_def CAPABILITIES_def)

lemma demand_ok [res_simps]: "demand c = ok u \<longleftrightarrow> c"
  by (simp add: demand_def guard_def)

text \<open>A record the contract accepts is of a type the service knows, and its payload decodes as a push decodes it.\<close>

lemma validated_record_known:
  assumes "validate_record lib fromiso v pulled = ok ()"
  shows "\<exists>d t. v = JObj d \<and> dget d ''entityType'' = JStr t \<and> t \<in> set ENTITY_TYPES
    \<and> (\<exists>s raw j. dget d ''payload'' = JStr s \<and> b64decode s = Some raw \<and> json_loads lib raw = Some j)"
proof (cases v)
  case (JObj d)
  with assms have "in_tuple (dget d ''entityType'') CONTRACT_ENTITY_TYPES" "payload_decodes lib (dget d ''payload'')"
    by (auto simp: validate_record_def res_simps)
  with JObj show ?thesis
    by (auto simp: in_tuple_iff payload_decodes_def contract_matches_service(1) split: json.splits option.splits)
qed (use assms in \<open>simp_all add: validate_record_def\<close>)

end
