(* ===== verification/Spec2Isabelle.thy ===== *)
theory Spec2Isabelle
  imports Delivery_Correct Sync_Pull_Properties Sync_V2_Properties Evidence_Properties Access_Properties
    Http_Stack Metrics_Properties Observability_Properties Topology_Properties
    Migration_Properties Operator_Properties Deployment_Properties
    Acceptance_Properties Repo_Guards_Properties
begin

text \<open>
  Verification of the Vitrial Connected Operations API (the Python service under \<open>src/app\<close>).

  \<^bold>\<open>The program.\<close> Field devices push batches of records (customers, projects, items, blockers,
  configurations, quotations, deliveries, evidence metadata) and pull what changed since a cursor.
  A push (\<open>sync_service.py\<close>) runs in one transaction under the row lock of the organization: each
  record is checked against the mutation log (\<open>idempotency.py\<close>), its base revision, the assembly
  contract (\<open>assembly_contract.py\<close>), the lifecycle rules (\<open>lifecycle.py\<close>, \<open>delivery_execution.py\<close>
  and its two helper modules) and the ownership rules (\<open>ownership.py\<close>), then stored, logged and given
  a revision and a sequence number. A pull pages through the change log and shows a reader what its
  scope reaches (\<open>pull_prefetch.py\<close>). Beside them stand evidence blobs in an object store
  (\<open>evidence.py\<close>, \<open>storage.py\<close>) with their collector (\<open>evidence_gc.py\<close>), authentication, pairing and
  administration (\<open>auth.py\<close>, \<open>pairing.py\<close>, \<open>auth_session_routes.py\<close>, \<open>admin.py\<close>), published reference
  data (\<open>reference_data.py\<close>) and topology evidence (\<open>assembly_topology*.py\<close>). A second wire format
  (\<open>sync_v2.py\<close>) is translated to the first. Every request passes the middleware of \<open>main.py\<close>:
  instrumentation, the byte guard (\<open>request_size.py\<close>), the rate limit (\<open>rate_limit.py\<close>) and request
  correlation (\<open>observability.py\<close>), in this order from the outside. Migrations (\<open>src/migrations\<close>) build the
  tables and backfill ownership from older rows; operator commands (\<open>src/scripts\<close>) check and repair a deployment.

  \<^bold>\<open>Layers.\<close>
  \<^item> \<open>Py_Base\<close>, \<open>Py_Json\<close>, \<open>Py_Text\<close>, \<open>Py_Decimal\<close>, \<open>Py_Float\<close>, \<open>Py_Number\<close>: exceptions as a datatype and results as
    \<open>exn + 'a\<close>, JSON values with Python's truth and equality, text (base64, UTF-8, \<open>json.dumps\<close>),
    decimal and binary64 arithmetic, parsing of numbers. \<open>Py_Base\<close> has the table operations (\<open>get_row\<close>, \<open>put_row\<close>) and
    their contract, the locale \<open>keyed_table\<close>; the collections \<open>res_simps\<close> and \<open>tbl_simps\<close> carry the
    component proofs.
  \<^item> \<open>Models\<close>: one record per ORM class, the database as a record of tables, principals and scopes.
  \<^item> \<open>Lifecycle\<close>; \<open>Delivery_Production\<close>, \<open>Delivery_Installation\<close>, \<open>Delivery_Execution\<close> with
    \<open>Delivery_Correct\<close>; \<open>Assembly_Contract\<close>: the validators, and that what they accept is a run of the
    status machine, an extension of the stored history, or a consistent geometry.
  \<^item> \<open>Ownership\<close> with \<open>Ownership_Correct\<close>: authorization of every entity type, ownership plans, and
    that accepted writes lie in scope and keep the hierarchy rooted.
  \<^item> \<open>Idempotency\<close>, \<open>Sync_Push\<close>: the whole push. \<open>Sync_Push_Relation\<close> has the locales
    \<open>record_relation\<close> and \<open>push_relation\<close> over \<open>db_relation\<close>: a relation that holds for one record, or for
    the single writes, holds for a push with its rollbacks and retries; \<open>Sync_Push_Correct\<close> interprets them on the mutation log, tenants, revisions,
    the change log, parents and the hierarchy; \<open>Sync_Properties\<close> draws the conclusions.
  \<^item> \<open>Pull_Prefetch\<close>, \<open>Sync_Pull\<close>, \<open>Sync_Pull_Correct\<close>, \<open>Sync_Pull_Properties\<close>: pages, cursors, and that
    a push reaches its readers, over any number of pages with pushes in between. \<open>Sync_V2\<close>, \<open>Sync_V2_Properties\<close>: the second wire format, whose pushes
    and pages are those of the first.
  \<^item> \<open>Storage\<close>, \<open>Evidence\<close>, \<open>Evidence_Correct\<close>, \<open>Evidence_Properties\<close>: object stores, uploads, the
    collector and the evidence routes. The locale \<open>object_store\<close> is the contract of a store, interpreted
    on the local one; \<open>evidence_step\<close> interleaves uploads, the later removals of refused candidates, commits whose
    acknowledgement is lost, collector runs, raising ones included, and pushes, and records which keys these may lose.
  \<^item> \<open>Reference\<close>, \<open>Reference_Properties\<close>: publications; the locale \<open>insert_relation\<close> carries what one
    insertion keeps to every operation, interpreted twice.
  \<^item> \<open>Access\<close>, \<open>Access_Properties\<close>: authentication, pairing, administration; \<open>service_step\<close> is the
    history over which revocation and single use are proved, pushes and publications included.
  \<^item> \<open>Assembly_Topology\<close>, \<open>Topology_Properties\<close>: the shape of topology evidence, its comparison with a
    frozen assembly and the verification of measurements.
  \<^item> \<open>Request_Size\<close>: the byte guard over an arbitrary sequence of messages. \<open>Rate_Limit\<close>: the limiter; the
    locale \<open>refinement\<close> is a forward simulation of a transducer, interpreted on the limiter and the log
    of admitted hits. \<open>Metrics\<close>, \<open>Metrics_Properties\<close>: counters, histograms and their exposition.
    \<open>Observability\<close>, \<open>Observability_Properties\<close>: request ids, context, redaction and the log line.
    \<open>Http_Stack\<close>: the middleware in its order, drain and readiness.
  \<^item> \<open>Migrations\<close>, \<open>Migration_Properties\<close>: what every schema revision does to the rows, with the SQL
    backfills, against the inductive predicate \<open>proven\<close>. \<open>Operator_Tools\<close>, \<open>Operator_Properties\<close>: settings,
    engine arguments, route table, and the commands for preflight, backfill, collection and probing.
    \<open>Py_Url\<close>, \<open>Deployment\<close>, \<open>Deployment_Properties\<close>: URL parsing, the checks of the environment file, the lock
    file and the branches, and the canary. \<open>Acceptance\<close>, \<open>Acceptance_Properties\<close>: the acceptance drivers against an arbitrary
    service, with the redirects \<open>urlopen\<close> follows; the locale \<open>call_policy\<close> carries a rule for single requests to a run. \<open>Repo_Guards\<close>, \<open>Repo_Guards_Properties\<close>: the
    guards of the repository and the contract fixtures.

  \<^bold>\<open>Correspondence.\<close> A definition has the name of the function it models, without the leading
  underscore. A function that raises returns a result; a handler that writes returns the database
  with it, and an exception leaves the database the code's rollback leaves. Statements run in
  program order, so the first failing check decides the exception. A transaction that holds a lock
  is one step; where the code works outside the lock (uploads, seeding), the interleaving is explicit.
  Failures of the database, before a commit is durable and after it, lost races, failing stores and the clock are arguments.

  \<^bold>\<open>Parameters and their hypotheses.\<close> SHA-256, the JSON parser and pydantic's parsing of the assembly
  snapshots are fields of the record \<open>lib\<close>; the size of a serialized page, path resolution, the boto3
  client, pydantic's text of a timestamp and the server's time zone are further parameters. Theorems
  that need something of them say so: that two given texts are not a SHA-256 collision, that two
  content addresses are different files, or that the JSON parser reads a text back. The environment,
  random ids, the printed form of floats and what the connection delivers are arguments as well. Characters are code points below 256.

  \<^bold>\<open>Bounds.\<close> The retry loop makes at most three attempts and the seed loop two, by their own
  constants; \<open>retry_loop\<close>, \<open>ensure_from\<close>, \<open>read_chunks\<close>, \<open>flush_parts\<close> and \<open>open_url\<close> are total by measures, the
  reader of a request body is a \<open>partial_function\<close>, since a silent connection keeps it waiting, and
  is proved to return on every complete body and on every body cut by a disconnect; all other loops are structural. No definition uses fuel.

  \<^bold>\<open>What is shown.\<close> Exactly-once pushes, no lost update, tenant isolation, complete and ordered change
  logs, exact pages and delivery to readers; ownership, append-only histories, status machines and
  gates; no dangling evidence pointer under interleaving but for two recorded events, a collector that spares what is in use and
  makes progress; single-use pairing codes, final revocation, immutable publications; an exact byte guard, a
  limiter that agrees with the ideal window within bounded memory, refused requests that reach no
  handler, bounded metrics, log lines without secrets; a migration that backfills exactly the proven
  ownership, a baseline backfill that completes, a preflight that finds no broken delivery after any pushes and whose exit codes are exact,
  a lock file that reads back as generated, an acceptance run that hands over only what it verified. Where the code
  falls short of what it means to do, the theorem states what it does.

  \<^bold>\<open>Not modelled.\<close> The regular expressions with which two guards read Elixir sources (a source is what they
  find), the markdown report of \<open>ubs_trace.py\<close> and \<open>migrations/env.py\<close>; argument parsing and printed summaries; column types and indexes
  of the schema; the framework's routing and response classes; errors of the operating system in the local object store other than
  while an upload is written;
  an administrative bootstrap that loses the race of seeding the baselines; the proxies of the environment.
\<close>

end
